(* ===== verification/Prelude.thy ===== *)
theory Prelude
  imports Main "HOL-Library.AList"
begin

text \<open>
  What the components share.

  \<^item> Text. A Python \<open>str\<close> is a list of code points (\<open>str\<close>); \<open>S ''abc''\<close> is the text of an
    ASCII literal.
  \<^item> Values. \<open>json\<close> is a Python value as the code stores it in audit details, request bodies and
    the configuration.
  \<^item> Dictionaries. A Python \<open>dict\<close> is an association list in insertion order (\<open>dict\<close>):
    \<open>dget\<close> looks up, \<open>dput\<close> overwrites in place or appends, \<open>dpop\<close> removes. The order is kept
    because the code iterates over \<open>.values()\<close> and takes the first or last match.
  \<^item> Failure. An exception is the left summand of a sum.
  The \<open>named_theorems\<close> collections gather the rewrite rules of one family, so that component
  proofs name the family and not each rule.
\<close>

named_theorems dict_simps
named_theorems text_simps
named_theorems result_simps

section \<open>Text\<close>

type_synonym cp = nat
type_synonym str = "cp list"

definition S :: "string \<Rightarrow> str" where
  "S s = map of_char s"

lemma S_eq_iff [simp]: "S a = S b \<longleftrightarrow> a = b"
  unfolding S_def by (rule inj_map_eq_map) (simp add: inj_on_def)

lemma S_eq_Nil_iff [simp]: "S a = [] \<longleftrightarrow> a = []" "[] = S a \<longleftrightarrow> a = []"
  by (auto simp: S_def)

lemma length_S [simp]: "length (S a) = length a"
  by (simp add: S_def)

lemma S_append [text_simps]: "S (a @ b) = S a @ S b"
  by (simp add: S_def)

section \<open>Values\<close>

datatype json =
    JNull
  | JBool bool
  | JInt int
  | JStr str
  | JList "json list"
  | JObj "(str \<times> json) list"

fun jopt :: "str option \<Rightarrow> json" where
  "jopt None = JNull"
| "jopt (Some s) = JStr s"

fun jopt_int :: "int option \<Rightarrow> json" where
  "jopt_int None = JNull"
| "jopt_int (Some i) = JInt i"

section \<open>Dictionaries\<close>

type_synonym ('k, 'v) dict = "('k \<times> 'v) list"

abbreviation dget :: "('k, 'v) dict \<Rightarrow> 'k \<Rightarrow> 'v option" where
  "dget \<equiv> map_of"

abbreviation dput :: "'k \<Rightarrow> 'v \<Rightarrow> ('k, 'v) dict \<Rightarrow> ('k, 'v) dict" where
  "dput \<equiv> AList.update"

abbreviation dpop :: "'k \<Rightarrow> ('k, 'v) dict \<Rightarrow> ('k, 'v) dict" where
  "dpop \<equiv> AList.delete"

abbreviation dvalues :: "('k, 'v) dict \<Rightarrow> 'v list" where
  "dvalues d \<equiv> map snd d"

abbreviation dkeys :: "('k, 'v) dict \<Rightarrow> 'k list" where
  "dkeys d \<equiv> map fst d"

definition dict_wf :: "('k, 'v) dict \<Rightarrow> bool" where
  "dict_wf d \<longleftrightarrow> distinct (dkeys d)"

lemma dget_dput [simp, dict_simps]:
  "dget (dput k v d) k' = (if k' = k then Some v else dget d k')"
  by (simp add: update_conv' fun_upd_def)

lemma dget_dpop [simp, dict_simps]:
  "dget (dpop k d) k' = (if k' = k then None else dget d k')"
  by (simp add: delete_conv')

lemma dict_wf_Nil [simp]: "dict_wf []"
  by (simp add: dict_wf_def)

lemma dict_wf_dput [simp, intro]: "dict_wf d \<Longrightarrow> dict_wf (dput k v d)"
  by (simp add: dict_wf_def distinct_update)

lemma dict_wf_dpop [simp, intro]: "dict_wf d \<Longrightarrow> dict_wf (dpop k d)"
  by (simp add: dict_wf_def distinct_delete)

lemma dget_in_dvalues: "dget d k = Some v \<Longrightarrow> v \<in> set (dvalues d)"
  by (metis map_of_SomeD image_eqI list.set_map snd_conv)

lemma dict_wf_mem: "dict_wf d \<Longrightarrow> (k, v) \<in> set d \<longleftrightarrow> dget d k = Some v"
  by (simp add: dict_wf_def)

lemma dvaluesE:
  assumes "v \<in> set (dvalues d)" and "dict_wf d"
  obtains k where "dget d k = Some v"
  using assms by (metis (no_types, lifting) dict_wf_mem imageE list.set_map prod.collapse)

lemma set_dpop: "set (dpop k d) = {p \<in> set d. fst p \<noteq> k}"
  by (auto simp: AList.delete_eq)

lemma dput_fresh: "dget d k = None \<Longrightarrow> dput k v d = d @ [(k, v)]"
  by (induction d) (auto split: if_splits)

lemma dput_present_keys: "dget d k \<noteq> None \<Longrightarrow> dkeys (dput k v d) = dkeys d"
  by (induction d) (auto split: if_splits)

lemma dpop_absent: "dget d k = None \<Longrightarrow> dpop k d = d"
  by (induction d) (auto split: if_splits)

lemma dget_filter:
  "dict_wf d \<Longrightarrow> dget (filter P d) k =
     (case dget d k of None \<Rightarrow> None | Some v \<Rightarrow> if P (k, v) then Some v else None)"
proof (induction d)
  case Nil
  then show ?case by simp
next
  case (Cons a d)
  obtain k' v' where a: "a = (k', v')" by fastforce
  have "dget d k' = None" and wf: "dict_wf d"
    using Cons.prems a by (simp_all add: dict_wf_def map_of_eq_None_iff)
  with Cons.IH [OF wf] show ?case by (auto simp: a)
qed

lemma dict_wf_filter [intro]: "dict_wf d \<Longrightarrow> dict_wf (filter P d)"
  by (simp add: dict_wf_def distinct_map_filter)

text \<open>A dictionary whose keys are a field of the values.\<close>
definition keyed_by :: "('v \<Rightarrow> 'k) \<Rightarrow> ('k, 'v) dict \<Rightarrow> bool" where
  "keyed_by f d \<longleftrightarrow> dict_wf d \<and> (\<forall>k v. dget d k = Some v \<longrightarrow> f v = k)"

lemma keyed_by_Nil [simp]: "keyed_by f []"
  by (simp add: keyed_by_def)

lemma keyed_by_wf [dest]: "keyed_by f d \<Longrightarrow> dict_wf d"
  by (simp add: keyed_by_def)

lemma keyed_by_key: "keyed_by f d \<Longrightarrow> dget d k = Some v \<Longrightarrow> f v = k"
  by (simp add: keyed_by_def)

lemma keyed_by_dput: "keyed_by f d \<Longrightarrow> f v = k \<Longrightarrow> keyed_by f (dput k v d)"
  by (auto simp: keyed_by_def split: if_splits)

lemma keyed_by_dpop: "keyed_by f d \<Longrightarrow> keyed_by f (dpop k d)"
  by (auto simp: keyed_by_def split: if_splits)

lemma keyed_by_mem: "keyed_by f d \<Longrightarrow> v \<in> set (dvalues d) \<Longrightarrow> dget d (f v) = Some v"
  by (metis dvaluesE keyed_by_def)

section \<open>Results\<close>

fun is_ok :: "'e + 'a \<Rightarrow> bool" where
  "is_ok (Inl _) = False"
| "is_ok (Inr _) = True"

lemma is_ok_iff [result_simps]: "is_ok r \<longleftrightarrow> (\<exists>x. r = Inr x)"
  by (cases r) auto

text \<open>
  The exceptions that reach a caller: an \<open>HTTPException\<close> of a route, or any other exception by
  the name of its class. The client of a route sees the latter as a 500.
\<close>

datatype http_error =
    HTTPException (http_status: int) (http_detail: str)
  | Unhandled str

fun status_of :: "http_error \<Rightarrow> int" where
  "status_of (HTTPException c _) = c"
| "status_of (Unhandled _) = 500"

section \<open>Lists\<close>

lemma set_map_filter_iff:
  "y \<in> set (List.map_filter f xs) \<longleftrightarrow> (\<exists>x \<in> set xs. f x = Some y)"
  by (force simp: List.map_filter_def)

lemma filter_all_mono: "(\<And>x. x \<in> set xs \<Longrightarrow> P x \<Longrightarrow> Q x) \<Longrightarrow> filter P (filter Q xs) = filter P xs"
  by (induction xs) auto

lemma length_filter_mono:
  "(\<And>x. x \<in> set xs \<Longrightarrow> P x \<Longrightarrow> Q x) \<Longrightarrow> length (filter P xs) \<le> length (filter Q xs)"
  by (induction xs) auto

lemma takeWhile_all [simp]: "\<forall>x \<in> set xs. P x \<Longrightarrow> takeWhile P xs = xs"
  by (induction xs) auto

lemma dropWhile_all [simp]: "\<forall>x \<in> set xs. P x \<Longrightarrow> dropWhile P xs = []"
  by (induction xs) auto

end
