(* ===== verification/Text.thy ===== *)
theory Text
  imports Prelude
begin

text \<open>
  The part of Python's \<open>str\<close> and \<open>re\<close> the program uses, on lists of code points.

  Digits and white space follow the Unicode database (version 14): \<open>is_decimal\<close> is the class
  \<open>\d\<close> of \<open>re\<close> (general category Nd, 66 blocks of ten), \<open>is_digit\<close> is \<open>str.isdigit\<close> and
  \<open>is_space\<close> is \<open>str.isspace\<close>. \<open>lower\<close> is \<open>str.lower\<close> and \<open>casefold\<close> is \<open>str.casefold\<close> on the
  Latin and Cyrillic letters (the scripts of the program's messages); on other cased scripts
  they are the identity here.
\<close>

section \<open>Character classes\<close>

definition decimal_blocks :: "cp list" where
  "decimal_blocks =
    [48, 1632, 1776, 1984, 2406, 2534, 2662, 2790, 2918, 3046, 3174, 3302, 3430, 3558, 3664,
     3792, 3872, 4160, 4240, 6112, 6160, 6470, 6608, 6784, 6800, 6992, 7088, 7232, 7248, 42528,
     43216, 43264, 43472, 43504, 43600, 44016, 65296, 66720, 68912, 69734, 69872, 69942, 70096,
     70384, 70736, 70864, 71248, 71360, 71472, 71904, 72016, 72784, 73040, 73120, 92768, 92864,
     93008, 120782, 120792, 120802, 120812, 120822, 123200, 123632, 125264, 130032]"

definition is_decimal :: "cp \<Rightarrow> bool" where
  "is_decimal c \<longleftrightarrow> list_ex (\<lambda>b. b \<le> c \<and> c \<le> b + 9) decimal_blocks"

definition digit_ranges :: "(cp \<times> cp) list" where
  "digit_ranges =
    [(178, 179), (185, 185), (4969, 4977), (6618, 6618), (8304, 8304), (8308, 8313),
     (8320, 8329), (9312, 9320), (9332, 9340), (9352, 9360), (9450, 9450), (9461, 9469),
     (9471, 9471), (10102, 10110), (10112, 10120), (10122, 10130), (68160, 68163),
     (69216, 69224), (69714, 69722), (127232, 127242)]"

definition is_digit :: "cp \<Rightarrow> bool" where
  "is_digit c \<longleftrightarrow> is_decimal c \<or> list_ex (\<lambda>(a, b). a \<le> c \<and> c \<le> b) digit_ranges"

definition space_points :: "cp list" where
  "space_points =
    [9, 10, 11, 12, 13, 28, 29, 30, 31, 32, 133, 160, 5760, 8192, 8193, 8194, 8195, 8196, 8197,
     8198, 8199, 8200, 8201, 8202, 8232, 8233, 8239, 8287, 12288]"

definition is_space :: "cp \<Rightarrow> bool" where
  "is_space c \<longleftrightarrow> c \<in> set space_points"

lemma ascii_is_decimal [simp]: "48 \<le> c \<Longrightarrow> c \<le> 57 \<Longrightarrow> is_decimal c"
  by (simp add: is_decimal_def decimal_blocks_def)

lemma below_48_not_decimal [simp]: "c < 48 \<Longrightarrow> \<not> is_decimal c"
  by (simp add: is_decimal_def decimal_blocks_def)

lemma spaces_not_decimal: "\<forall>c \<in> set space_points. \<not> is_decimal c"
  by (simp add: space_points_def is_decimal_def decimal_blocks_def)

lemma decimal_not_space: "is_decimal c \<Longrightarrow> \<not> is_space c"
  using spaces_not_decimal by (auto simp: is_space_def)

lemma decimal_is_digit: "is_decimal c \<Longrightarrow> is_digit c"
  by (simp add: is_digit_def)

lemma decimal_ge_48: "is_decimal c \<Longrightarrow> 48 \<le> c"
  using below_48_not_decimal linorder_not_less by blast

section \<open>Slicing and searching\<close>

definition startswith :: "str \<Rightarrow> str \<Rightarrow> bool" where
  "startswith s p \<longleftrightarrow> take (length p) s = p"

text \<open>\<open>sub in s\<close>\<close>
fun occurs_in :: "str \<Rightarrow> str \<Rightarrow> bool" where
  "occurs_in sub [] = (sub = [])"
| "occurs_in sub (c # cs) = (startswith (c # cs) sub \<or> occurs_in sub cs)"

definition lstrip :: "str \<Rightarrow> str" where
  "lstrip s = dropWhile is_space s"

definition rstrip :: "str \<Rightarrow> str" where
  "rstrip s = rev (dropWhile is_space (rev s))"

definition strip :: "str \<Rightarrow> str" where
  "strip s = rstrip (lstrip s)"

text \<open>\<open>s.rstrip(c)\<close> of a character.\<close>
definition rstrip_cp :: "cp \<Rightarrow> str \<Rightarrow> str" where
  "rstrip_cp c s = rev (dropWhile (\<lambda>x. x = c) (rev s))"

text \<open>\<open>s.split()\<close>: maximal runs of characters that are not white space.\<close>
function split_ws :: "str \<Rightarrow> str list" where
  "split_ws s =
     (let t = lstrip s
      in if t = [] then [] else takeWhile (\<lambda>c. \<not> is_space c) t
           # split_ws (dropWhile (\<lambda>c. \<not> is_space c) t))"
  by pat_completeness auto

lemma dropWhile_word_less:
  assumes "lstrip s \<noteq> []"
  shows "length (dropWhile (\<lambda>c. \<not> is_space c) (lstrip s)) < length s"
proof -
  have "\<not> is_space (hd (lstrip s))"
    using assms unfolding lstrip_def by (rule hd_dropWhile)
  then obtain c t where "lstrip s = c # t" and "\<not> is_space c"
    using assms by (cases "lstrip s") auto
  then have "length (dropWhile (\<lambda>c. \<not> is_space c) (lstrip s)) < length (lstrip s)"
    by (simp add: le_imp_less_Suc length_dropWhile_le)
  also have "length (lstrip s) \<le> length s"
    by (simp add: lstrip_def length_dropWhile_le)
  finally show ?thesis .
qed

termination split_ws
  by (relation "measure length") (auto simp: dropWhile_word_less)

declare split_ws.simps [simp del]

text \<open>\<open>s.split(sep, 1)\<close> at a single character: the parts before and after its first occurrence.\<close>
fun split_at :: "cp \<Rightarrow> str \<Rightarrow> (str \<times> str) option" where
  "split_at sep [] = None"
| "split_at sep (c # cs) =
     (if c = sep then Some ([], cs)
      else map_option (\<lambda>(a, b). (c # a, b)) (split_at sep cs))"

text \<open>\<open>s.replace(old, new)\<close> for single characters.\<close>
definition replace_cp :: "cp \<Rightarrow> cp \<Rightarrow> str \<Rightarrow> str" where
  "replace_cp old new s = map (\<lambda>c. if c = old then new else c) s"

text \<open>\<open>s.replace(old, new)\<close> for a nonempty \<open>old\<close>: every occurrence, from the left.\<close>
fun replace_sub :: "str \<Rightarrow> str \<Rightarrow> str \<Rightarrow> str" where
  "replace_sub old new [] = []"
| "replace_sub old new (c # cs) =
     (if old \<noteq> [] \<and> startswith (c # cs) old
      then new @ replace_sub old new (drop (length old - 1) cs)
      else c # replace_sub old new cs)"

text \<open>The lines of a text file: universal newlines, each line without its terminator.\<close>
fun universal_newlines :: "str \<Rightarrow> str" where
  "universal_newlines [] = []"
| "universal_newlines [c] = [if c = 13 then 10 else c]"
| "universal_newlines (c # d # cs) =
     (if c = 13 then 10 # (if d = 10 then universal_newlines cs else universal_newlines (d # cs))
      else c # universal_newlines (d # cs))"

fun newline_split :: "str \<Rightarrow> str \<Rightarrow> str list" where
  "newline_split acc [] = (if acc = [] then [] else [rev acc])"
| "newline_split acc (c # cs) =
     (if c = 10 then rev acc # newline_split [] cs else newline_split (c # acc) cs)"

definition text_lines :: "str \<Rightarrow> str list" where
  "text_lines s = newline_split [] (universal_newlines s)"

section \<open>Case\<close>

definition lower_cp :: "cp \<Rightarrow> cp" where
  "lower_cp c =
     (if 65 \<le> c \<and> c \<le> 90 then c + 32
      else if 192 \<le> c \<and> c \<le> 222 \<and> c \<noteq> 215 then c + 32
      else if 1040 \<le> c \<and> c \<le> 1071 then c + 32
      else if 1024 \<le> c \<and> c \<le> 1039 then c + 80
      else c)"

definition lower :: "str \<Rightarrow> str" where
  "lower s = map lower_cp s"

definition casefold :: "str \<Rightarrow> str" where
  "casefold s =
     concat (map (\<lambda>c. if c = 223 then [115, 115] else if c = 181 then [956] else [lower_cp c]) s)"

section \<open>Numbers as text\<close>

fun nat_text :: "nat \<Rightarrow> str" where
  "nat_text n = (if n < 10 then [48 + n] else nat_text (n div 10) @ [48 + n mod 10])"

declare nat_text.simps [simp del]

definition int_text :: "int \<Rightarrow> str" where
  "int_text i = (if i < 0 then 45 # nat_text (nat (- i)) else nat_text (nat i))"

definition digit_value :: "cp \<Rightarrow> int option" where
  "digit_value c =
     map_option (\<lambda>b. int c - int b) (List.find (\<lambda>b. b \<le> c \<and> c \<le> b + 9) decimal_blocks)"

text \<open>The digits of \<open>int(s)\<close>: decimals of any script, with single underscores between them.\<close>
fun int_digits :: "int \<Rightarrow> bool \<Rightarrow> str \<Rightarrow> int option" where
  "int_digits acc after_digit [] = (if after_digit then Some acc else None)"
| "int_digits acc after_digit (c # cs) =
     (if c = 95 then (if after_digit then int_digits acc False cs else None)
      else case digit_value c of
             None \<Rightarrow> None
           | Some v \<Rightarrow> int_digits (10 * acc + v) True cs)"

text \<open>\<open>int(s)\<close>; \<open>None\<close> is the \<open>ValueError\<close>.\<close>
definition parse_int :: "str \<Rightarrow> int option" where
  "parse_int s =
     (case strip s of
        [] \<Rightarrow> None
      | c # cs \<Rightarrow> if c = 45 then map_option uminus (int_digits 0 False cs)
                   else if c = 43 then int_digits 0 False cs
                   else int_digits 0 False (c # cs))"

section \<open>Values\<close>

text \<open>\<open>bool(v)\<close>, and \<open>str(v)\<close>, where \<open>py_repr\<close> is the text of a list or a dictionary.\<close>
fun truthy :: "json \<Rightarrow> bool" where
  "truthy JNull = False"
| "truthy (JBool b) = b"
| "truthy (JInt i) = (i \<noteq> 0)"
| "truthy (JStr s) = (s \<noteq> [])"
| "truthy (JList xs) = (xs \<noteq> [])"
| "truthy (JObj d) = (d \<noteq> [])"

fun py_str :: "(json \<Rightarrow> str) \<Rightarrow> json \<Rightarrow> str" where
  "py_str py_repr JNull = S ''None''"
| "py_str py_repr (JBool b) = (if b then S ''True'' else S ''False'')"
| "py_str py_repr (JInt i) = int_text i"
| "py_str py_repr (JStr s) = s"
| "py_str py_repr j = py_repr j"

section \<open>Digit runs\<close>

text \<open>
  \<open>^..\d{lo,hi}$\<close> on the rest of a text: a run of decimals of that length up to the end, where
  \<open>$\<close> also matches before one final newline.
\<close>
definition digits_to_end :: "nat \<Rightarrow> nat \<Rightarrow> str \<Rightarrow> bool" where
  "digits_to_end lo hi s \<longleftrightarrow>
     (let ds = takeWhile is_decimal s; rest = dropWhile is_decimal s
      in lo \<le> length ds \<and> length ds \<le> hi \<and> (rest = [] \<or> rest = [10]))"

section \<open>Lemmas\<close>

lemma startswith_Nil [simp]: "startswith s []"
  by (simp add: startswith_def)

lemma startswith_single [simp]: "startswith s [c] \<longleftrightarrow> s \<noteq> [] \<and> hd s = c"
  by (cases s) (auto simp: startswith_def)

lemma startswith_append [simp]: "startswith (p @ s) p"
  by (simp add: startswith_def)

lemma startswithD: "startswith s p \<Longrightarrow> \<exists>t. s = p @ t"
  unfolding startswith_def by (metis append_take_drop_id)

lemma occurs_in_iff: "occurs_in sub s \<longleftrightarrow> (\<exists>a b. s = a @ sub @ b)"
proof (induction s)
  case Nil
  then show ?case by simp
next
  case (Cons c cs)
  show ?case
  proof
    assume "occurs_in sub (c # cs)"
    then consider "startswith (c # cs) sub" | "occurs_in sub cs" by auto
    then show "\<exists>a b. c # cs = a @ sub @ b"
    proof cases
      case 1
      then obtain t where "c # cs = sub @ t" by (auto dest: startswithD)
      then show ?thesis by (metis append_Nil)
    next
      case 2
      then obtain a b where "cs = a @ sub @ b" using Cons.IH by blast
      then have "c # cs = (c # a) @ sub @ b" by simp
      then show ?thesis by blast
    qed
  next
    assume "\<exists>a b. c # cs = a @ sub @ b"
    then obtain a b where *: "c # cs = a @ sub @ b" by blast
    show "occurs_in sub (c # cs)"
    proof (cases a)
      case Nil
      with * have "startswith (c # cs) sub" by simp
      then show ?thesis by simp
    next
      case (Cons x xs)
      with * have "cs = xs @ sub @ b" by simp
      with Cons.IH show ?thesis by auto
    qed
  qed
qed

lemma lstrip_no_space: "s = [] \<or> \<not> is_space (hd s) \<Longrightarrow> lstrip s = s"
  by (cases s) (auto simp: lstrip_def)

lemma rstrip_no_space: "s = [] \<or> \<not> is_space (last s) \<Longrightarrow> rstrip s = s"
  by (cases s rule: rev_cases) (auto simp: rstrip_def)

lemma strip_no_space:
  "s \<noteq> [] \<Longrightarrow> \<not> is_space (hd s) \<Longrightarrow> \<not> is_space (last s) \<Longrightarrow> strip s = s"
  by (simp add: strip_def lstrip_no_space rstrip_no_space)

lemma strip_infix: "\<exists>a b. s = a @ strip s @ b"
proof -
  let ?l = "lstrip s"
  have l: "?l = rstrip ?l @ rev (takeWhile is_space (rev ?l))"
    unfolding rstrip_def by (simp flip: rev_append)
  have "s = takeWhile is_space s @ ?l" by (simp add: lstrip_def)
  then have "s = takeWhile is_space s @ strip s @ rev (takeWhile is_space (rev ?l))"
    unfolding strip_def using l by simp
  then show ?thesis by blast
qed

lemma strip_Nil [simp]: "strip [] = []"
  by (simp add: strip_def lstrip_def rstrip_def)

lemma hd_strip: "strip s \<noteq> [] \<Longrightarrow> \<not> is_space (hd (strip s))"
proof -
  assume ne: "strip s \<noteq> []"
  let ?l = "lstrip s"
  have "?l \<noteq> []" using ne by (auto simp: strip_def rstrip_def)
  then have h: "\<not> is_space (hd ?l)" unfolding lstrip_def by (rule hd_dropWhile)
  obtain z where "?l = rstrip ?l @ z"
    unfolding rstrip_def by (metis rev_append rev_rev_ident takeWhile_dropWhile_id)
  with ne have "hd (rstrip ?l) = hd ?l" unfolding strip_def by (metis hd_append2)
  with h show ?thesis by (simp add: strip_def)
qed

lemma last_strip: "strip s \<noteq> [] \<Longrightarrow> \<not> is_space (last (strip s))"
proof -
  assume "strip s \<noteq> []"
  then have "dropWhile is_space (rev (lstrip s)) \<noteq> []" by (simp add: strip_def rstrip_def)
  then have "\<not> is_space (hd (dropWhile is_space (rev (lstrip s))))" by (rule hd_dropWhile)
  then show ?thesis by (simp add: strip_def rstrip_def last_rev)
qed

lemma strip_idem [simp]: "strip (strip s) = strip s"
  by (cases "strip s = []") (simp_all add: strip_no_space hd_strip last_strip)

lemma decimals_strip:
  "\<forall>c \<in> set ds. is_decimal c \<Longrightarrow> strip ds = ds"
  by (cases "ds = []") (auto intro!: strip_no_space decimal_not_space)

lemma digits_to_end_decimals [simp]:
  "\<forall>c \<in> set ds. is_decimal c \<Longrightarrow> digits_to_end lo hi ds \<longleftrightarrow> lo \<le> length ds \<and> length ds \<le> hi"
  by (simp add: digits_to_end_def Let_def)

lemma digits_to_endE:
  assumes "digits_to_end lo hi s"
  obtains ds where "s = ds \<or> s = ds @ [10]" and "\<forall>c \<in> set ds. is_decimal c"
    and "lo \<le> length ds" and "length ds \<le> hi"
proof -
  let ?ds = "takeWhile is_decimal s"
  from assms have rest: "dropWhile is_decimal s = [] \<or> dropWhile is_decimal s = [10]"
    and len: "lo \<le> length ?ds" "length ?ds \<le> hi"
    by (auto simp: digits_to_end_def Let_def)
  have "s = ?ds @ dropWhile is_decimal s" by simp
  with rest have "s = ?ds \<or> s = ?ds @ [10]" by (metis append_Nil2)
  moreover have "\<forall>c \<in> set ?ds. is_decimal c" by (metis set_takeWhileD)
  ultimately show ?thesis using len that by blast
qed

text \<open>On a stripped text the final-newline case of \<open>$\<close> cannot arise.\<close>
lemma digits_to_end_last:
  assumes "digits_to_end lo hi s" and "s = [] \<or> \<not> is_space (last s)"
  shows "\<forall>c \<in> set s. is_decimal c" "lo \<le> length s" "length s \<le> hi"
proof -
  from assms(1) obtain ds where ds: "s = ds \<or> s = ds @ [10]" "\<forall>c \<in> set ds. is_decimal c"
    "lo \<le> length ds" "length ds \<le> hi" by (rule digits_to_endE)
  with assms(2) have "s = ds" by (auto simp: is_space_def space_points_def)
  with ds show "\<forall>c \<in> set s. is_decimal c" "lo \<le> length s" "length s \<le> hi" by auto
qed

lemma nat_text_decimal: "c \<in> set (nat_text n) \<Longrightarrow> 48 \<le> c \<and> c \<le> 57"
proof (induction n rule: nat_text.induct)
  case (1 n)
  show ?case
  proof (cases "n < 10")
    case True
    with "1.prems" show ?thesis by (simp add: nat_text.simps)
  next
    case False
    with "1.prems" have "c \<in> set (nat_text (n div 10)) \<or> c = 48 + n mod 10"
      by (auto simp: nat_text.simps [of n])
    with "1.IH" False show ?thesis by auto
  qed
qed

lemma nat_text_nonempty [simp]: "nat_text n \<noteq> []" "[] \<noteq> nat_text n"
  by (simp_all add: nat_text.simps)

lemma nat_text_inj: "nat_text m = nat_text n \<Longrightarrow> m = n"
proof (induction m arbitrary: n rule: nat_text.induct)
  case (1 m)
  have last: "last (nat_text k) = 48 + k mod 10" for k
    by (subst nat_text.simps) simp
  have but: "butlast (nat_text k) = (if k < 10 then [] else nat_text (k div 10))" for k
    by (subst nat_text.simps) simp
  have l: "m mod 10 = n mod 10" using "1.prems" last by (metis add_left_cancel)
  have b: "(if m < 10 then [] else nat_text (m div 10)) = (if n < 10 then [] else nat_text (n div 10))"
    using "1.prems" but by metis
  show ?case
  proof (cases "m < 10")
    case True
    with b have "n < 10" by (auto split: if_splits)
    with True l show ?thesis by simp
  next
    case False
    with b have "\<not> n < 10" "nat_text (m div 10) = nat_text (n div 10)" by (auto split: if_splits)
    with False "1.IH" have "m div 10 = n div 10" by blast
    with l show ?thesis by (metis div_mult_mod_eq)
  qed
qed

lemma int_text_inj: "int_text i = int_text j \<Longrightarrow> i = j"
proof -
  assume eq: "int_text i = int_text j"
  have minus: "hd (nat_text n) \<noteq> 45" for n
    using nat_text_decimal [of "hd (nat_text n)" n] by auto
  show "i = j"
  proof (cases "i < 0"; cases "j < 0")
    assume "i < 0" "j < 0"
    with eq have "nat (- i) = nat (- j)" by (auto simp: int_text_def dest: nat_text_inj)
    with \<open>i < 0\<close> \<open>j < 0\<close> show ?thesis by simp
  next
    assume "\<not> i < 0" "\<not> j < 0"
    with eq have "nat i = nat j" by (auto simp: int_text_def dest: nat_text_inj)
    with \<open>\<not> i < 0\<close> \<open>\<not> j < 0\<close> show ?thesis by simp
  next
    assume "i < 0" "\<not> j < 0"
    with eq minus [of "nat j"] show ?thesis by (metis int_text_def list.sel(1))
  next
    assume "\<not> i < 0" "j < 0"
    with eq minus [of "nat i"] show ?thesis by (metis int_text_def list.sel(1))
  qed
qed

lemma int_text_eq_iff [simp]: "int_text i = int_text j \<longleftrightarrow> i = j"
  by (auto dest: int_text_inj)

section \<open>Lines\<close>

lemma universal_newlines_id: "13 \<notin> set s \<Longrightarrow> universal_newlines s = s"
  by (induction s rule: universal_newlines.induct) auto

lemma newline_split_line:
  "10 \<notin> set l \<Longrightarrow> newline_split acc (l @ 10 # r) = (rev acc @ l) # newline_split [] r"
  by (induction l arbitrary: acc) auto

lemma text_lines_concat:
  "\<forall>l \<in> set ls. 10 \<notin> set l \<and> 13 \<notin> set l \<Longrightarrow> text_lines (concat (map (\<lambda>l. l @ [10]) ls)) = ls"
proof -
  assume ls: "\<forall>l \<in> set ls. 10 \<notin> set l \<and> 13 \<notin> set l"
  then have "13 \<notin> set (concat (map (\<lambda>l. l @ [10]) ls))" by (induction ls) auto
  then have "universal_newlines (concat (map (\<lambda>l. l @ [10]) ls)) = concat (map (\<lambda>l. l @ [10]) ls)"
    by (rule universal_newlines_id)
  then have "text_lines (concat (map (\<lambda>l. l @ [10]) ls))
      = newline_split [] (concat (map (\<lambda>l. l @ [10]) ls))"
    by (simp only: text_lines_def)
  also have "\<dots> = ls" using ls by (induction ls) (simp_all add: newline_split_line)
  finally show ?thesis .
qed

end
