(* ===== verification/Floats.thy ===== *)
theory Floats
  imports Complex_Main Text
begin

text \<open>
  The floating point numbers of the program: exact rationals, the two infinities and the value that
  is no number. Rounding to 53 bits and overflow are left out; parsing, comparison, truncation and
  the fixed formats follow Python.
\<close>

datatype pyfloat =
    Fin rat
  | PosInf
  | NegInf
  | NaN

fun is_finite :: "pyfloat \<Rightarrow> bool" where
  "is_finite (Fin _) = True"
| "is_finite _ = False"

text \<open>\<open>x < y\<close> and \<open>x <= y\<close>; a comparison with \<open>NaN\<close> is false.\<close>
fun float_less :: "pyfloat \<Rightarrow> pyfloat \<Rightarrow> bool" where
  "float_less (Fin a) (Fin b) = (a < b)"
| "float_less (Fin _) PosInf = True"
| "float_less NegInf (Fin _) = True"
| "float_less NegInf PosInf = True"
| "float_less _ _ = False"

definition float_le :: "pyfloat \<Rightarrow> pyfloat \<Rightarrow> bool" where
  "float_le x y \<longleftrightarrow> float_less x y \<or> (x = y \<and> x \<noteq> NaN)"

fun float_minus :: "pyfloat \<Rightarrow> pyfloat \<Rightarrow> pyfloat" where
  "float_minus (Fin a) (Fin b) = Fin (a - b)"
| "float_minus NaN _ = NaN"
| "float_minus _ NaN = NaN"
| "float_minus PosInf PosInf = NaN"
| "float_minus NegInf NegInf = NaN"
| "float_minus PosInf _ = PosInf"
| "float_minus NegInf _ = NegInf"
| "float_minus (Fin _) PosInf = NegInf"
| "float_minus (Fin _) NegInf = PosInf"

section \<open>Truncation\<close>

definition truncate_rat :: "rat \<Rightarrow> int" where
  "truncate_rat q = (if q < 0 then - \<lfloor>- q\<rfloor> else \<lfloor>q\<rfloor>)"

text \<open>\<open>int(x)\<close>; the other values raise (\<open>OverflowError\<close>, \<open>ValueError\<close>), with the name of the exception.\<close>
fun float_int :: "pyfloat \<Rightarrow> str + int" where
  "float_int (Fin q) = Inr (truncate_rat q)"
| "float_int NaN = Inl (S ''ValueError'')"
| "float_int _ = Inl (S ''OverflowError'')"

lemma truncate_less_iff:
  assumes "0 < m"
  shows "truncate_rat q < m \<longleftrightarrow> q < of_int m"
proof (cases "q < 0")
  case True
  then have "0 \<le> \<lfloor>- q\<rfloor>" by simp
  then have "- \<lfloor>- q\<rfloor> < m" using assms by linarith
  moreover have "q < of_int m" using True assms by (meson less_trans of_int_0_less_iff)
  ultimately show ?thesis using True by (simp add: truncate_rat_def)
next
  case False
  then show ?thesis by (simp add: truncate_rat_def floor_less_iff)
qed

section \<open>Parsing\<close>

text \<open>A run of digits with single underscores, with its value and the number of digits.\<close>
definition digit_run :: "str \<Rightarrow> (int \<times> nat) option" where
  "digit_run s = map_option (\<lambda>v. (v, length (filter (\<lambda>c. c \<noteq> 95) s))) (int_digits 0 False s)"

text \<open>\<open>digits.digits\<close>: the point is optional, and so is one of its sides.\<close>
definition float_mantissa :: "str \<Rightarrow> rat option" where
  "float_mantissa s =
     (case split_at 46 s of
        None \<Rightarrow> map_option (\<lambda>(v, _). of_int v) (digit_run s)
      | Some (a, b) \<Rightarrow>
          if a = [] \<and> b = [] then None
          else (case (if a = [] then Some (0, 0) else digit_run a, if b = [] then Some (0, 0) else digit_run b) of
                  (Some (v, _), Some (w, n)) \<Rightarrow> Some (of_int v + of_int w / 10 ^ n)
                | _ \<Rightarrow> None))"

definition ten_to :: "int \<Rightarrow> rat" where
  "ten_to e = (if e < 0 then 1 / 10 ^ nat (- e) else 10 ^ nat e)"

definition float_exponent :: "str \<Rightarrow> int option" where
  "float_exponent s =
     (case s of
        [] \<Rightarrow> None
      | c # cs \<Rightarrow> if c = 45 then map_option (\<lambda>(v, _). - v) (digit_run cs)
                   else map_option fst (digit_run (if c = 43 then cs else s)))"

definition unsigned_float :: "str \<Rightarrow> pyfloat option" where
  "unsigned_float s =
     (if lower s \<in> {S ''inf'', S ''infinity''} then Some PosInf
      else if lower s = S ''nan'' then Some NaN
      else case split_at 101 (map (\<lambda>c. if c = 69 then 101 else c) s) of
             None \<Rightarrow> map_option Fin (float_mantissa s)
           | Some (m, e) \<Rightarrow>
               (case (float_mantissa m, float_exponent e) of
                  (Some q, Some k) \<Rightarrow> Some (Fin (q * ten_to k))
                | _ \<Rightarrow> None))"

fun float_uminus :: "pyfloat \<Rightarrow> pyfloat" where
  "float_uminus (Fin q) = Fin (- q)"
| "float_uminus PosInf = NegInf"
| "float_uminus NegInf = PosInf"
| "float_uminus NaN = NaN"

text \<open>\<open>float(s)\<close>; \<open>None\<close> is the \<open>ValueError\<close>.\<close>
definition float_of :: "str \<Rightarrow> pyfloat option" where
  "float_of s =
     (case strip s of
        [] \<Rightarrow> None
      | c # cs \<Rightarrow> if c = 45 then map_option float_uminus (unsigned_float cs)
                   else if c = 43 then unsigned_float cs
                   else unsigned_float (c # cs))"

section \<open>Fixed formats\<close>

definition round_half_even :: "rat \<Rightarrow> int" where
  "round_half_even q =
     (let f = \<lfloor>q\<rfloor>; r = q - of_int f
      in if r < 1 / 2 \<or> (r = 1 / 2 \<and> even f) then f else f + 1)"

definition pad_zeros :: "nat \<Rightarrow> str \<Rightarrow> str" where
  "pad_zeros n s = replicate (n - length s) 48 @ s"

text \<open>\<open>format(x, ".df")\<close>\<close>
fun fixed :: "nat \<Rightarrow> pyfloat \<Rightarrow> str" where
  "fixed d (Fin q) =
     (let n = nat (round_half_even (\<bar>q\<bar> * 10 ^ d))
      in (if q < 0 then [45] else []) @ nat_text (n div 10 ^ d) @ [46] @ pad_zeros d (nat_text (n mod 10 ^ d)))"
| "fixed _ PosInf = S ''inf''"
| "fixed _ NegInf = S ''-inf''"
| "fixed _ NaN = S ''nan''"

end
