(* ===== verification/Config.thy ===== *)
theory Config
  imports Text
begin

text \<open>
  \<open>core/config.py\<close>: dotted access to the configuration, the expansion of environment references, the
  schema, the validation and \<open>load_config\<close>.

  A configuration is a JSON object (what the YAML loader gives; a \<open>DotDict\<close> is a dictionary with
  another lookup, so wrapping one is the identity here). The environment is a function. The
  messages of the validator are values of \<open>config_issue\<close>, one constructor per kind of message.
  YAML numbers that are not integers are outside \<open>json\<close>.
\<close>

section \<open>Dotted access\<close>

type_synonym cfg = "(str \<times> json) list"

lemma split_at_length: "split_at c s = Some (a, b) \<Longrightarrow> length b < length s \<and> length a < length s"
  by (induction s arbitrary: a b) (auto split: if_splits)

text \<open>\<open>DotDict.__getitem__\<close>; \<open>None\<close> is the \<open>KeyError\<close>.\<close>
function cfg_item :: "cfg \<Rightarrow> str \<Rightarrow> json option" where
  "cfg_item d key =
     (case dget d key of
        Some v \<Rightarrow> Some v
      | None \<Rightarrow>
          (case split_at 46 key of
             None \<Rightarrow> None
           | Some (front, rest) \<Rightarrow>
               (case dget d front of
                  Some (JObj sub) \<Rightarrow> cfg_item sub rest
                | _ \<Rightarrow> None)))"
  by pat_completeness auto

termination cfg_item
  by (relation "measure (length \<circ> snd)") (auto dest: split_at_length)

declare cfg_item.simps [simp del]

definition cfg_get :: "cfg \<Rightarrow> string \<Rightarrow> json \<Rightarrow> json" where
  "cfg_get d key dflt = (case cfg_item d (S key) of None \<Rightarrow> dflt | Some v \<Rightarrow> v)"

text \<open>\<open>s.split(sep)\<close> at a single character: always at least one part.\<close>
fun split_all :: "cp \<Rightarrow> str \<Rightarrow> str list" where
  "split_all sep [] = [[]]"
| "split_all sep (c # cs) =
     (if c = sep then [] # split_all sep cs
      else case split_all sep cs of [] \<Rightarrow> [[c]] | p # ps \<Rightarrow> (c # p) # ps)"

text \<open>The walk of the validator along the parts of a key.\<close>
fun path_get :: "json \<Rightarrow> str list \<Rightarrow> json option" where
  "path_get v [] = Some v"
| "path_get (JObj d) (p # ps) = (case dget d p of None \<Rightarrow> None | Some v \<Rightarrow> path_get v ps)"
| "path_get _ (p # ps) = None"

section \<open>Environment references\<close>

definition ident_start :: "cp \<Rightarrow> bool" where
  "ident_start c \<longleftrightarrow> 65 \<le> c \<and> c \<le> 90 \<or> 97 \<le> c \<and> c \<le> 122 \<or> c = 95"

definition ident_char :: "cp \<Rightarrow> bool" where
  "ident_char c \<longleftrightarrow> ident_start c \<or> 48 \<le> c \<and> c \<le> 57"

text \<open>A match of \<open>_ENV_RE\<close> behind the dollar sign: the variable and the rest of the text.\<close>
definition env_ref :: "str \<Rightarrow> (str \<times> str) option" where
  "env_ref s =
     (let braced = (case s of
            [] \<Rightarrow> None
          | b # t \<Rightarrow>
              (let name = takeWhile ident_char t; rest = dropWhile ident_char t
               in if b = 123 \<and> name \<noteq> [] \<and> ident_start (hd name) \<and> rest \<noteq> [] \<and> hd rest = 125
                  then Some (name, tl rest) else None));
          plain = (let name = takeWhile ident_char s
                   in if name \<noteq> [] \<and> ident_start (hd name) then Some (name, dropWhile ident_char s) else None)
      in case braced of Some r \<Rightarrow> Some r | None \<Rightarrow> plain)"

lemma env_ref_length: "env_ref s = Some (v, rest) \<Longrightarrow> length rest < Suc (length s)"
proof -
  have d: "length (dropWhile ident_char t) \<le> length t" for t by (rule length_dropWhile_le)
  assume "env_ref s = Some (v, rest)"
  then have "rest = dropWhile ident_char s \<or> rest = tl (dropWhile ident_char (tl s))"
    by (auto simp: env_ref_def Let_def split: option.splits list.splits if_splits)
  then show ?thesis
    using d [of s] d [of "tl s"] by (auto simp: le_imp_less_Suc)
qed

function expand_str :: "(str \<Rightarrow> str option) \<Rightarrow> str \<Rightarrow> str" where
  "expand_str environ [] = []"
| "expand_str environ (c # cs) =
     (if c = 36
      then (case env_ref cs of
              None \<Rightarrow> c # expand_str environ cs
            | Some (v, rest) \<Rightarrow>
                (case environ v of
                   Some x \<Rightarrow> x
                 | None \<Rightarrow> c # take (length cs - length rest) cs) @ expand_str environ rest)
      else c # expand_str environ cs)"
  by pat_completeness auto

termination expand_str
  by (relation "measure (length \<circ> snd)") (auto dest: env_ref_length)

fun expand :: "(str \<Rightarrow> str option) \<Rightarrow> json \<Rightarrow> json" where
  "expand environ (JStr s) = JStr (expand_str environ s)"
| "expand environ (JObj d) = JObj (map (\<lambda>(k, v). (k, expand environ v)) d)"
| "expand environ (JList xs) = JList (map (expand environ) xs)"
| "expand environ v = v"

section \<open>Schema\<close>

datatype cfg_type = TStr | TInt | TBool | TList

record schema_entry =
  se_key :: str
  se_type :: cfg_type
  se_required :: bool
  se_env :: bool
  se_enum :: "str list option"
  se_roles :: "str list"

definition key_of :: "string \<Rightarrow> cfg_type \<Rightarrow> schema_entry" where
  "key_of k t = \<lparr>se_key = S k, se_type = t, se_required = True, se_env = False, se_enum = None, se_roles = []\<rparr>"

definition opt_of :: "string \<Rightarrow> cfg_type \<Rightarrow> schema_entry" where
  "opt_of k t = (key_of k t)\<lparr>se_required := False\<rparr>"

definition env_of :: "string \<Rightarrow> str list \<Rightarrow> schema_entry" where
  "env_of k roles = (key_of k TStr)\<lparr>se_env := True, se_required := (roles = []), se_roles := roles\<rparr>"

text \<open>\<open>_is_required\<close>; the role is whatever value \<open>node.role\<close> has.\<close>
definition is_required :: "schema_entry \<Rightarrow> json \<Rightarrow> bool" where
  "is_required e role \<longleftrightarrow> (if se_roles e \<noteq> [] then role \<in> JStr ` set (se_roles e) else se_required e)"

definition CONFIG_SCHEMA :: "schema_entry list" where
  "CONFIG_SCHEMA =
     [(key_of ''node.role'' TStr)\<lparr>se_enum := Some [S ''all-in-one'', S ''gsm'', S ''telegram'']\<rparr>,
      key_of ''node.id'' TStr,
      key_of ''telegram.master_username'' TStr,
      key_of ''telegram.session_path'' TStr,
      key_of ''telegram.acl_file'' TStr,
      env_of ''telegram.api_id_env'' [S ''telegram'', S ''all-in-one''],
      env_of ''telegram.api_hash_env'' [S ''telegram'', S ''all-in-one''],
      key_of ''agent.listen'' TStr,
      env_of ''agent.token_env'' [],
      opt_of ''agent.allowed_peers'' TList,
      key_of ''agent.userbot_url'' TStr,
      key_of ''userbot_http.listen'' TStr,
      env_of ''userbot_http.secret_env'' [S ''telegram'', S ''all-in-one''],
      opt_of ''userbot_http.allowed_peers'' TList,
      key_of ''asterisk.ari_url'' TStr,
      key_of ''asterisk.dongle'' TStr,
      key_of ''asterisk.ring_wait_seconds'' TInt,
      key_of ''asterisk.max_record_seconds'' TInt,
      opt_of ''asterisk.early_hangup_max_seconds'' TInt,
      opt_of ''asterisk.sweep_max_age_seconds'' TInt,
      opt_of ''asterisk.sweep_max_retain_seconds'' TInt,
      key_of ''asterisk.prompt'' TStr,
      opt_of ''asterisk.ami_host'' TStr,
      opt_of ''asterisk.ami_port'' TInt,
      opt_of ''asterisk.ami_username'' TStr,
      env_of ''asterisk.ami_password_env'' [S ''gsm'', S ''all-in-one''],
      opt_of ''sim.phone'' TStr,
      opt_of ''sim.modem_model'' TStr,
      key_of ''voice.bridge_endpoint'' TStr,
      key_of ''voice.bridge_host'' TStr,
      key_of ''voice.bridge_port'' TInt,
      key_of ''voice.srtp'' TBool,
      key_of ''voice.outbound_answer_timeout'' TInt,
      opt_of ''voice.outbound_gsm_ring_seconds'' TInt,
      opt_of ''voice.bridge_control_port'' TInt,
      opt_of ''watchdog.modem_check_seconds'' TInt,
      key_of ''limits.sms_per_hour'' TInt,
      key_of ''limits.calls_per_minute'' TInt,
      key_of ''limits.max_call_seconds'' TInt,
      key_of ''paths.blacklist'' TStr,
      key_of ''paths.contacts_cache'' TStr,
      key_of ''paths.audit_log'' TStr,
      opt_of ''paths.recordings_dir'' TStr,
      key_of ''paths.sms_correlation'' TStr]"

section \<open>Validation\<close>

datatype config_issue =
    MissingKey str
  | WrongType str cfg_type json
  | NotAllowed str json
  | UnknownKey str
  | SecretNotSet str str
  | BindsAll str

text \<open>\<open>isinstance\<close>; in Python a \<open>bool\<close> is an \<open>int\<close>.\<close>
fun has_type :: "json \<Rightarrow> cfg_type \<Rightarrow> bool" where
  "has_type (JStr _) t = (t = TStr)"
| "has_type (JInt _) t = (t = TInt)"
| "has_type (JBool _) t = (t = TInt \<or> t = TBool)"
| "has_type (JList _) t = (t = TList)"
| "has_type _ t = False"

definition check_entry :: "cfg \<Rightarrow> json \<Rightarrow> schema_entry \<Rightarrow> config_issue list" where
  "check_entry cfg role e =
     (case path_get (JObj cfg) (split_all 46 (se_key e)) of
        None \<Rightarrow> (if is_required e role then [MissingKey (se_key e)] else [])
      | Some v \<Rightarrow>
          (if v \<noteq> JNull \<and> \<not> has_type v (se_type e) then [WrongType (se_key e) (se_type e) v] else [])
          @ (case se_enum e of
               None \<Rightarrow> []
             | Some allowed \<Rightarrow> if v \<in> JStr ` set allowed then [] else [NotAllowed (se_key e) v]))"

definition key_known :: "str list \<Rightarrow> str \<Rightarrow> bool" where
  "key_known known dotted \<longleftrightarrow>
     dotted \<in> set known \<or> list_ex (\<lambda>k. startswith k (dotted @ [46]) \<or> k = dotted) known"

definition dotted_key :: "str \<Rightarrow> str \<Rightarrow> str" where
  "dotted_key prefix key = (if prefix = [] then key else prefix @ 46 # key)"

text \<open>\<open>_check_unknown\<close>, on a value and on the entries of a dictionary.\<close>
fun check_unknown :: "str list \<Rightarrow> str \<Rightarrow> json \<Rightarrow> config_issue list" where
  "check_unknown known prefix (JObj d) =
     concat (map (\<lambda>(key, v).
       (if key_known known (dotted_key prefix key) then [] else [UnknownKey (dotted_key prefix key)])
       @ check_unknown known (dotted_key prefix key) v) d)"
| "check_unknown known prefix v = []"

definition validate :: "cfg \<Rightarrow> schema_entry list \<Rightarrow> config_issue list" where
  "validate cfg schema =
     concat (map (check_entry cfg (cfg_get cfg ''node.role'' JNull)) schema)
     @ check_unknown (map se_key schema) [] (JObj cfg)"

section \<open>Loading\<close>

text \<open>\<open>value.rsplit(":", 1)\<close>\<close>
definition split_listen :: "str \<Rightarrow> str \<times> str" where
  "split_listen s =
     (case split_at 58 (rev s) of None \<Rightarrow> ([], []) | Some (port, host) \<Rightarrow> (rev host, rev port))"

definition secret_issue :: "(str \<Rightarrow> str option) \<Rightarrow> cfg \<Rightarrow> json \<Rightarrow> schema_entry \<Rightarrow> config_issue list" where
  "secret_issue environ cfg role e =
     (if \<not> se_env e then []
      else case path_get (JObj cfg) (split_all 46 (se_key e)) of
             Some (JStr name) \<Rightarrow>
               (if environ name = None \<and> is_required e role then [SecretNotSet name (se_key e)] else [])
           | _ \<Rightarrow> [])"

definition listen_issue :: "cfg \<Rightarrow> string \<Rightarrow> config_issue list" where
  "listen_issue cfg key =
     (case path_get (JObj cfg) (split_all 46 (S key)) of
        Some (JStr v) \<Rightarrow> (if fst (split_listen v) = S ''0.0.0.0'' then [BindsAll (S key)] else [])
      | _ \<Rightarrow> [])"

datatype config_error =
    ConfigNotFound
  | ConfigInvalid "config_issue list"
  | ConfigNotADict

text \<open>\<open>load_config\<close>; the file is \<open>None\<close> when it does not exist, else the value of its YAML.\<close>
definition load_config :: "(str \<Rightarrow> str option) \<Rightarrow> json option \<Rightarrow> config_error + cfg" where
  "load_config environ yaml =
     (case yaml of
        None \<Rightarrow> Inl ConfigNotFound
      | Some raw \<Rightarrow>
          (case expand environ raw of
             JObj cfg \<Rightarrow>
               (let role = cfg_get cfg ''node.role'' JNull; errors = validate cfg CONFIG_SCHEMA
                in if errors \<noteq> [] then Inl (ConfigInvalid errors)
                   else let more = concat (map (secret_issue environ cfg role) CONFIG_SCHEMA)
                                   @ listen_issue cfg ''agent.listen'' @ listen_issue cfg ''userbot_http.listen''
                        in if more \<noteq> [] then Inl (ConfigInvalid more) else Inr cfg)
           | _ \<Rightarrow> Inl ConfigNotADict))"

text \<open>\<open>_redact\<close>: the leaf of every secret key.\<close>
fun redact_path :: "str list \<Rightarrow> json \<Rightarrow> json" where
  "redact_path [leaf] (JObj d) =
     (case dget d leaf of
        Some (JStr v) \<Rightarrow> JObj (dput leaf (JStr (S ''<env:'' @ v @ S ''>'')) d)
      | _ \<Rightarrow> JObj d)"
| "redact_path (p # ps) (JObj d) =
     (case dget d p of
        Some v \<Rightarrow> JObj (dput p (redact_path ps v) d)
      | None \<Rightarrow> JObj d)"
| "redact_path _ v = v"

definition redact_config :: "cfg \<Rightarrow> json" where
  "redact_config cfg =
     fold (\<lambda>e v. redact_path (split_all 46 (se_key e)) v) (filter se_env CONFIG_SCHEMA) (JObj cfg)"

text \<open>\<open>d.get(key) or dflt\<close>\<close>
definition get_or :: "cfg \<Rightarrow> string \<Rightarrow> json \<Rightarrow> json" where
  "get_or d key dflt = (case dget d (S key) of None \<Rightarrow> dflt | Some v \<Rightarrow> if truthy v then v else dflt)"

text \<open>\<open>resolve_userbot_url\<close>; \<open>None\<close> is the \<open>AttributeError\<close> of a section that is not a dictionary.\<close>
definition resolve_userbot_url :: "(json \<Rightarrow> str) \<Rightarrow> cfg \<Rightarrow> json option" where
  "resolve_userbot_url py_repr cfg =
     (case get_or cfg ''agent'' (JObj []) of
        JObj agent \<Rightarrow>
          (let url = get_or agent ''userbot_url'' (JStr [])
           in if truthy url then Some url
              else (case get_or cfg ''userbot_http'' (JObj []) of
                      JObj http \<Rightarrow>
                        Some (JStr (S ''http://'' @ py_str py_repr (get_or http ''listen'' (JStr (S ''127.0.0.1:8088'')))))
                    | _ \<Rightarrow> None))
      | _ \<Rightarrow> None)"

section \<open>Lookup\<close>

text \<open>No key of a nested dictionary contains a dot.\<close>
fun undotted :: "json \<Rightarrow> bool" where
  "undotted (JObj d) = (\<forall>(k, v) \<in> set d. 46 \<notin> set k \<and> undotted v)"
| "undotted _ = True"

lemma split_at_None: "split_at c s = None \<longleftrightarrow> c \<notin> set s"
  by (induction s) auto

lemma split_at_append: "c \<notin> set a \<Longrightarrow> split_at c (a @ c # b) = Some (a, b)"
  by (induction a) auto

lemma split_at_parts: "split_at c s = Some (a, b) \<Longrightarrow> s = a @ c # b"
  by (induction s arbitrary: a b) (auto split: if_splits)

lemma split_all_nonempty: "split_all c s \<noteq> []"
  by (induction s) (auto split: list.splits)

lemma split_all_whole: "c \<notin> set s \<Longrightarrow> split_all c s = [s]"
  by (induction s) auto

lemma split_all_front: "split_at c s = Some (a, b) \<Longrightarrow> split_all c s = a # split_all c b"
proof (induction s arbitrary: a b)
  case Nil
  then show ?case by simp
next
  case (Cons x s)
  then show ?case by (cases "x = c") auto
qed

lemma cfg_item_path:
  assumes "undotted (JObj d)"
  shows "cfg_item d key = path_get (JObj d) (split_all 46 key)"
  using assms
proof (induction d key rule: cfg_item.induct)
  case (1 d key)
  have plain: "46 \<notin> set k" if "dget d k = Some v" for k v
    using "1.prems" map_of_SomeD [OF that] by auto
  show ?case
  proof (cases "split_at 46 key")
    case None
    then have "split_all 46 key = [key]" by (simp add: split_at_None split_all_whole)
    with None show ?thesis by (simp add: cfg_item.simps [of d key] split: option.split)
  next
    case (Some p)
    obtain a b where p: "split_at 46 key = Some (a, b)" using Some by (cases p) auto
    have "46 \<in> set key" using p split_at_None [of 46 key] by auto
    then have no: "dget d key = None" using plain by (cases "dget d key") auto
    show ?thesis
    proof (cases "dget d a")
      case None
      with p no show ?thesis by (simp add: cfg_item.simps [of d key] split_all_front)
    next
      case (Some v)
      have "undotted v" using "1.prems" map_of_SomeD [OF Some] by auto
      obtain q qs where q: "split_all 46 b = q # qs" using split_all_nonempty by (metis list.exhaust)
      show ?thesis
        using Some p no q \<open>undotted v\<close> "1.IH" [OF no p refl Some]
        by (cases v) (simp_all add: cfg_item.simps [of d key] split_all_front)
    qed
  qed
qed

section \<open>The validator\<close>

text \<open>Every key of the nested dictionaries, with its dotted path.\<close>
fun cfg_paths :: "str \<Rightarrow> json \<Rightarrow> str list" where
  "cfg_paths prefix (JObj d) =
     concat (map (\<lambda>(key, v). dotted_key prefix key # cfg_paths (dotted_key prefix key) v) d)"
| "cfg_paths prefix v = []"

lemma check_unknown_paths:
  "check_unknown known prefix v = map UnknownKey (filter (\<lambda>p. \<not> key_known known p) (cfg_paths prefix v))"
proof (induction known prefix v rule: check_unknown.induct)
  case (1 known prefix d)
  have "concat (map (\<lambda>(key, v). (if key_known known (dotted_key prefix key) then [] else [UnknownKey (dotted_key prefix key)])
       @ check_unknown known (dotted_key prefix key) v) e)
     = map UnknownKey (filter (\<lambda>p. \<not> key_known known p)
         (concat (map (\<lambda>(key, v). dotted_key prefix key # cfg_paths (dotted_key prefix key) v) e)))"
    if "set e \<subseteq> set d" for e
    using that
  proof (induction e)
    case Nil
    then show ?case by simp
  next
    case (Cons p e)
    obtain k v where p: "p = (k, v)" by fastforce
    have "check_unknown known (dotted_key prefix k) v
        = map UnknownKey (filter (\<lambda>p. \<not> key_known known p) (cfg_paths (dotted_key prefix k) v))"
      using "1.IH" Cons.prems p by auto
    with Cons p show ?case by simp
  qed
  then show ?case by simp
qed simp_all

text \<open>What the schema asks of one entry.\<close>
definition entry_satisfied :: "cfg \<Rightarrow> schema_entry \<Rightarrow> bool" where
  "entry_satisfied cfg e \<longleftrightarrow>
     (case path_get (JObj cfg) (split_all 46 (se_key e)) of
        None \<Rightarrow> \<not> is_required e (cfg_get cfg ''node.role'' JNull)
      | Some v \<Rightarrow> (v = JNull \<or> has_type v (se_type e)) \<and> (\<forall>a. se_enum e = Some a \<longrightarrow> v \<in> JStr ` set a))"

lemma check_entry_empty: "check_entry cfg (cfg_get cfg ''node.role'' JNull) e = [] \<longleftrightarrow> entry_satisfied cfg e"
  by (auto simp: check_entry_def entry_satisfied_def split: option.splits)

lemma validate_empty:
  "validate cfg schema = [] \<longleftrightarrow>
     (\<forall>e \<in> set schema. entry_satisfied cfg e)
     \<and> (\<forall>p \<in> set (cfg_paths [] (JObj cfg)). key_known (map se_key schema) p)"
  by (auto simp: validate_def check_entry_empty check_unknown_paths filter_empty_conv simp del: check_unknown.simps cfg_paths.simps)

text \<open>A secret that a role needs is set.\<close>
definition secret_set :: "(str \<Rightarrow> str option) \<Rightarrow> cfg \<Rightarrow> schema_entry \<Rightarrow> bool" where
  "secret_set environ cfg e \<longleftrightarrow>
     (\<forall>name. se_env e \<and> is_required e (cfg_get cfg ''node.role'' JNull)
        \<and> path_get (JObj cfg) (split_all 46 (se_key e)) = Some (JStr name) \<longrightarrow> environ name \<noteq> None)"

lemma secret_issue_empty:
  "secret_issue environ cfg (cfg_get cfg ''node.role'' JNull) e = [] \<longleftrightarrow> secret_set environ cfg e"
  by (auto simp: secret_issue_def secret_set_def split: option.splits json.splits)

definition listens_narrowly :: "cfg \<Rightarrow> string \<Rightarrow> bool" where
  "listens_narrowly cfg key \<longleftrightarrow>
     (\<forall>v. path_get (JObj cfg) (split_all 46 (S key)) = Some (JStr v) \<longrightarrow> fst (split_listen v) \<noteq> S ''0.0.0.0'')"

lemma listen_issue_empty: "listen_issue cfg key = [] \<longleftrightarrow> listens_narrowly cfg key"
  by (auto simp: listen_issue_def listens_narrowly_def split: option.splits json.splits)

definition config_fine :: "(str \<Rightarrow> str option) \<Rightarrow> cfg \<Rightarrow> bool" where
  "config_fine environ cfg \<longleftrightarrow>
     (\<forall>e \<in> set CONFIG_SCHEMA. entry_satisfied cfg e \<and> secret_set environ cfg e)
     \<and> (\<forall>p \<in> set (cfg_paths [] (JObj cfg)). key_known (map se_key CONFIG_SCHEMA) p)
     \<and> listens_narrowly cfg ''agent.listen'' \<and> listens_narrowly cfg ''userbot_http.listen''"

lemma load_config_iff:
  "load_config environ (Some raw) = Inr cfg \<longleftrightarrow> expand environ raw = JObj cfg \<and> config_fine environ cfg"
  by (auto simp: load_config_def Let_def validate_empty secret_issue_empty listen_issue_empty config_fine_def
      simp del: cfg_paths.simps split: json.splits)

lemma cfg_paths_nested:
  assumes "path_get (JObj d) [a, b] = Some v" and "a \<noteq> []"
  shows "a @ 46 # b \<in> set (cfg_paths [] (JObj d))"
proof -
  obtain e where e: "dget d a = Some (JObj e)" "dget e b = Some v"
    using assms(1) by (auto split: option.splits elim!: path_get.elims)
  then have "(a, JObj e) \<in> set d" "(b, v) \<in> set e" by (auto dest: map_of_SomeD)
  then show ?thesis using assms(2) by (force simp: dotted_key_def)
qed

lemma dotted_S: "dotted_key [] k = k" "a \<noteq> [] \<Longrightarrow> dotted_key (S a) (S b) = S (a @ CHR ''.'' # b)"
  by (simp_all add: dotted_key_def S_def)

lemma key_known_S:
  "key_known (map S ks) (S p) \<longleftrightarrow> p \<in> set ks \<or> list_ex (\<lambda>k. take (Suc (length p)) k = p @ ''.'') ks"
proof -
  have "startswith (S k) (S p @ [46]) \<longleftrightarrow> take (Suc (length p)) k = p @ ''.''" for k
  proof -
    have "S p @ [46] = S (p @ ''.'')" by (simp add: S_def)
    moreover have "take n (S k) = S (take n k)" for n by (simp add: S_def take_map)
    ultimately show ?thesis by (simp add: startswith_def)
  qed
  then show ?thesis by (auto simp: key_known_def list_ex_iff image_iff)
qed

lemma schema_keys: "map se_key CONFIG_SCHEMA = map S [''node.role'', ''node.id'', ''telegram.master_username'', ''telegram.session_path'', ''telegram.acl_file'', ''telegram.api_id_env'', ''telegram.api_hash_env'', ''agent.listen'', ''agent.token_env'', ''agent.allowed_peers'', ''agent.userbot_url'', ''userbot_http.listen'', ''userbot_http.secret_env'', ''userbot_http.allowed_peers'', ''asterisk.ari_url'', ''asterisk.dongle'', ''asterisk.ring_wait_seconds'', ''asterisk.max_record_seconds'', ''asterisk.early_hangup_max_seconds'', ''asterisk.sweep_max_age_seconds'', ''asterisk.sweep_max_retain_seconds'', ''asterisk.prompt'', ''asterisk.ami_host'', ''asterisk.ami_port'', ''asterisk.ami_username'', ''asterisk.ami_password_env'', ''sim.phone'', ''sim.modem_model'', ''voice.bridge_endpoint'', ''voice.bridge_host'', ''voice.bridge_port'', ''voice.srtp'', ''voice.outbound_answer_timeout'', ''voice.outbound_gsm_ring_seconds'', ''voice.bridge_control_port'', ''watchdog.modem_check_seconds'', ''limits.sms_per_hour'', ''limits.calls_per_minute'', ''limits.max_call_seconds'', ''paths.blacklist'', ''paths.contacts_cache'', ''paths.audit_log'', ''paths.recordings_dir'', ''paths.sms_correlation'']"
  by (simp add: CONFIG_SCHEMA_def key_of_def opt_of_def env_of_def)

lemma schema_keys_known:
  "\<not> key_known (map se_key CONFIG_SCHEMA) (S ''limits.replay_window_seconds'')"
  "\<not> key_known (map se_key CONFIG_SCHEMA) (S ''paths.user_contacts'')"
  unfolding schema_keys key_known_S by simp_all

lemma split_all_dotless: "split_all c s = p # ps \<Longrightarrow> c \<notin> set p"
  by (induction s arbitrary: p ps) (auto split: if_splits list.splits)

definition flat_listen :: "cfg \<Rightarrow> cfg" where
  "flat_listen cfg = cfg @ [(S ''agent.listen'', JStr (S ''0.0.0.0:8090''))]"

lemma flat_listen_get: "46 \<notin> set k \<Longrightarrow> dget (flat_listen cfg) k = dget cfg k"
  by (auto simp: flat_listen_def S_def map_add_def split: option.split)

lemma flat_listen_path: "path_get (JObj (flat_listen cfg)) (split_all 46 k) = path_get (JObj cfg) (split_all 46 k)"
proof -
  obtain p ps where s: "split_all 46 k = p # ps" using split_all_nonempty by (metis list.exhaust)
  then have "dget (flat_listen cfg) p = dget cfg p" by (intro flat_listen_get split_all_dotless)
  then show ?thesis by (simp add: s)
qed

lemma flat_listen_role: "cfg_get (flat_listen cfg) ''node.role'' JNull = cfg_get cfg ''node.role'' JNull"
proof -
  have "dget (flat_listen cfg) (S ''node.role'') = dget cfg (S ''node.role'')"
    by (simp add: flat_listen_def map_add_def split: option.split)
  moreover have "split_at 46 (S ''node.role'') = Some (S ''node'', S ''role'')" by (simp add: S_def)
  moreover have "dget (flat_listen cfg) (S ''node'') = dget cfg (S ''node'')"
    by (rule flat_listen_get) (simp add: S_def)
  ultimately show ?thesis by (simp add: cfg_get_def cfg_item.simps [of _ "S ''node.role''"] split: option.split)
qed

section \<open>Properties\<close>


text \<open>Dotted access is the walk along the parts of the key, for every configuration whose own keys
  contain no dots.\<close>
theorem dotted_access_is_path:
  "undotted (JObj d) \<Longrightarrow> cfg_item d key = path_get (JObj d) (split_all 46 key)"
  by (rule cfg_item_path)

theorem dotted_access_is_path_witness:
  "cfg_item [(S ''node'', JObj [(S ''role'', JStr (S ''gsm''))])] (S ''node.role'') = Some (JStr (S ''gsm''))"
proof -
  have "undotted (JObj [(S ''node'', JObj [(S ''role'', JStr (S ''gsm''))])])" by (simp add: S_def)
  from dotted_access_is_path [OF this] show ?thesis by (simp add: S_def)
qed

text \<open>Two options the program reads cannot be set. The agent reads
  \<open>limits.replay_window_seconds\<close> and the userbot \<open>paths.user_contacts\<close>, but the schema does not
  know them, so a file that sets either is refused.\<close>
theorem documented_options_refused:
  assumes "load_config environ (Some raw) = Inr cfg"
  shows "path_get (JObj cfg) [S ''limits'', S ''replay_window_seconds''] = None
     \<and> path_get (JObj cfg) [S ''paths'', S ''user_contacts''] = None"
proof -
  have known: "\<forall>p \<in> set (cfg_paths [] (JObj cfg)). key_known (map se_key CONFIG_SCHEMA) p"
    using assms unfolding load_config_iff config_fine_def by blast
  have "path_get (JObj cfg) [a, b] = None" if "a \<noteq> []" "\<not> key_known (map se_key CONFIG_SCHEMA) (a @ 46 # b)" for a b
    using cfg_paths_nested [of cfg a b] known that by (cases "path_get (JObj cfg) [a, b]") blast+
  from this [of "S ''limits''" "S ''replay_window_seconds''"] this [of "S ''paths''" "S ''user_contacts''"]
    schema_keys_known show ?thesis by (simp add: S_def)
qed

definition sample_cfg :: cfg where
  "sample_cfg =
     [(S ''node'', JObj [(S ''role'', JStr (S ''gsm'')),
        (S ''id'', JStr (S ''x''))]),
      (S ''telegram'', JObj [(S ''master_username'', JStr (S ''x'')),
        (S ''session_path'', JStr (S ''x'')),
        (S ''acl_file'', JStr (S ''x''))]),
      (S ''agent'', JObj [(S ''listen'', JStr (S ''h:1'')),
        (S ''token_env'', JStr (S ''x'')),
        (S ''userbot_url'', JStr (S ''x''))]),
      (S ''userbot_http'', JObj [(S ''listen'', JStr (S ''h:1''))]),
      (S ''asterisk'', JObj [(S ''ari_url'', JStr (S ''x'')),
        (S ''dongle'', JStr (S ''x'')),
        (S ''ring_wait_seconds'', JInt 1),
        (S ''max_record_seconds'', JInt 1),
        (S ''prompt'', JStr (S ''x'')),
        (S ''ami_password_env'', JStr (S ''x''))]),
      (S ''voice'', JObj [(S ''bridge_endpoint'', JStr (S ''x'')),
        (S ''bridge_host'', JStr (S ''x'')),
        (S ''bridge_port'', JInt 1),
        (S ''srtp'', JBool True),
        (S ''outbound_answer_timeout'', JInt 1)]),
      (S ''limits'', JObj [(S ''sms_per_hour'', JInt 1),
        (S ''calls_per_minute'', JInt 1),
        (S ''max_call_seconds'', JInt 1)]),
      (S ''paths'', JObj [(S ''blacklist'', JStr (S ''x'')),
        (S ''contacts_cache'', JStr (S ''x'')),
        (S ''audit_log'', JStr (S ''x'')),
        (S ''sms_correlation'', JStr (S ''x''))])]"

lemma sample_known: "\<forall>p \<in> set (cfg_paths [] (JObj sample_cfg)). key_known (map se_key CONFIG_SCHEMA) p"
  unfolding schema_keys by (simp add: sample_cfg_def dotted_S key_known_S del: list.map)
lemma sample_role: "cfg_get sample_cfg ''node.role'' JNull = JStr (S ''gsm'')"
  by code_simp

lemma sample_entries: "concat (map (check_entry sample_cfg (JStr (S ''gsm''))) CONFIG_SCHEMA) = []"
  by code_simp

lemma sample_loads: "load_config (\<lambda>_. Some []) (Some (JObj sample_cfg)) = Inr sample_cfg"
proof -
  have "entry_satisfied sample_cfg e" if "e \<in> set CONFIG_SCHEMA" for e
    using that sample_entries check_entry_empty [of sample_cfg e] by (simp add: sample_role)
  moreover have "secret_set (\<lambda>_. Some []) sample_cfg e" for e by (simp add: secret_set_def)
  moreover have "listens_narrowly sample_cfg ''agent.listen''" "listens_narrowly sample_cfg ''userbot_http.listen''"
    by (simp_all flip: listen_issue_empty) code_simp+
  moreover have "expand (\<lambda>_. Some []) (JObj sample_cfg) = JObj sample_cfg" by code_simp
  ultimately show ?thesis unfolding load_config_iff config_fine_def using sample_known by blast
qed

theorem documented_options_refused_witness:
  "path_get (JObj sample_cfg) [S ''paths'', S ''user_contacts''] = None"
  using documented_options_refused [OF sample_loads] by simp

text \<open>What is validated is not what is read. The validator walks the nested sections, dotted access
  prefers a literal key, and a key such as \<open>agent.listen\<close> at the top level counts as known. An
  accepted configuration stays accepted when such a key is added, and the program then reads its
  value: here it binds all interfaces.\<close>
theorem flat_key_bypasses_validation:
  assumes "config_fine environ cfg" and "dget cfg (S ''agent.listen'') = None"
  shows "config_fine environ (flat_listen cfg)
     \<and> cfg_item (flat_listen cfg) (S ''agent.listen'') = Some (JStr (S ''0.0.0.0:8090''))"
proof -
  have "dget (flat_listen cfg) (S ''agent.listen'') = Some (JStr (S ''0.0.0.0:8090''))"
    using assms(2) by (simp add: flat_listen_def map_add_def)
  then have "cfg_item (flat_listen cfg) (S ''agent.listen'') = Some (JStr (S ''0.0.0.0:8090''))"
    by (simp add: cfg_item.simps [of _ "S ''agent.listen''"])
  moreover have "set (cfg_paths [] (JObj (flat_listen cfg))) = insert (S ''agent.listen'') (set (cfg_paths [] (JObj cfg)))"
    by (auto simp: flat_listen_def dotted_key_def)
  moreover have "key_known (map se_key CONFIG_SCHEMA) (S ''agent.listen'')"
    unfolding schema_keys key_known_S by simp
  moreover have "entry_satisfied (flat_listen cfg) e = entry_satisfied cfg e"
    "secret_set environ (flat_listen cfg) e = secret_set environ cfg e"
    "listens_narrowly (flat_listen cfg) k = listens_narrowly cfg k" for e k
    by (simp_all only: entry_satisfied_def secret_set_def listens_narrowly_def flat_listen_path flat_listen_role)
  ultimately show ?thesis
    using assms(1) by (simp only: config_fine_def) blast
qed

theorem flat_key_bypasses_validation_witness:
  "config_fine (\<lambda>_. Some []) (flat_listen sample_cfg)"
proof -
  have "config_fine (\<lambda>_. Some []) sample_cfg" using sample_loads unfolding load_config_iff by blast
  moreover have "dget sample_cfg (S ''agent.listen'') = None" by (simp add: sample_cfg_def)
  ultimately show ?thesis using flat_key_bypasses_validation by blast
qed

end
