(* ===== verification/Errors.thy ===== *)
theory Errors
  imports Text
begin

text \<open>\<open>core/errors.py\<close>: the user-facing vocabulary of SMS errors and the classification of the
  messages of Asterisk and chan_dongle.\<close>

datatype sms_error =
    NUMBER_MISSING | NUMBER_MALFORMED | NUMBER_MALFORMED_SMS | NUMBER_MALFORMED_CALL
  | MODEM_UNAVAILABLE | NO_GSM_REGISTRATION | SIM_UNAVAILABLE | SEND_FAILED | BLACKLISTED | DENIED
  | DELIVERY_FAILED | DELIVERY_EXPIRED | UNKNOWN | UNKNOWN_COMMAND

fun error_text :: "sms_error \<Rightarrow> str" where
  "error_text NUMBER_MISSING = S ''Number not specified''"
| "error_text NUMBER_MALFORMED = S ''Invalid number format''"
| "error_text NUMBER_MALFORMED_SMS = S ''Invalid number for SMS''"
| "error_text NUMBER_MALFORMED_CALL = S ''Invalid number for call''"
| "error_text MODEM_UNAVAILABLE = S ''Modem unavailable''"
| "error_text NO_GSM_REGISTRATION = S ''Modem not registered on the network''"
| "error_text SIM_UNAVAILABLE = S ''SIM card unavailable''"
| "error_text SEND_FAILED = S ''SMS send error''"
| "error_text BLACKLISTED = S ''Number is blacklisted''"
| "error_text DENIED = S ''Insufficient permissions''"
| "error_text DELIVERY_FAILED = S ''SMS not delivered''"
| "error_text DELIVERY_EXPIRED = S ''SMS expired (not delivered)''"
| "error_text UNKNOWN = S ''Unknown error''"
| "error_text UNKNOWN_COMMAND = S ''Unknown command''"

definition is_submit_error :: "sms_error \<Rightarrow> bool" where
  "is_submit_error e \<longleftrightarrow>
     e \<in> {NUMBER_MISSING, NUMBER_MALFORMED, NUMBER_MALFORMED_SMS, NUMBER_MALFORMED_CALL,
          MODEM_UNAVAILABLE, NO_GSM_REGISTRATION, SIM_UNAVAILABLE, SEND_FAILED, BLACKLISTED, DENIED}"

definition mentions :: "str \<Rightarrow> string \<Rightarrow> bool" where
  "mentions err s \<longleftrightarrow> occurs_in (S s) err"

definition asterisk_sms_error_to_type :: "str \<Rightarrow> sms_error" where
  "asterisk_sms_error_to_type error_msg =
     (let err = (if error_msg \<noteq> [] then lower error_msg else [])
      in if mentions err ''not registered'' \<or> mentions err ''no network''
            \<or> mentions err ''unregistered'' then NO_GSM_REGISTRATION
         else if mentions err ''sim'' \<and> (mentions err ''not ready'' \<or> mentions err ''missing''
                 \<or> mentions err ''error'') then SIM_UNAVAILABLE
         else if mentions err ''busy'' \<or> mentions err ''unavailable'' \<or> mentions err ''no modem''
           then MODEM_UNAVAILABLE
         else if mentions err ''fail'' \<or> mentions err ''error'' then SEND_FAILED
         else UNKNOWN)"

text \<open>The texts are pairwise different, so the client can tell the errors apart by them.\<close>
lemma error_text_inj: "error_text a = error_text b \<Longrightarrow> a = b"
  by (cases a; cases b) simp_all

lemma asterisk_error_range:
  "is_submit_error (asterisk_sms_error_to_type msg) \<or> asterisk_sms_error_to_type msg = UNKNOWN"
  by (simp add: asterisk_sms_error_to_type_def is_submit_error_def Let_def)

end
