(* ===== verification/Bridge.thy ===== *)
theory Bridge
  imports Config Errors
begin

text \<open>
  \<open>userbot/bridge_control.py\<close>: the client of the voice bridge's control API, and the HTTP requests
  of the Telegram node in general.

  A request is its URL, JSON body and headers; the other end is a function from requests to
  replies. A reply is a status with the parsed body (\<open>None\<close> when the body is not JSON) and its text,
  or an \<open>httpx.HTTPError\<close> with its text.
\<close>

section \<open>Requests\<close>

record http_request =
  hr_url :: str
  hr_body :: "json option"
  hr_headers :: "(str \<times> str) list"

datatype http_reply =
    HttpReply nat "json option" str
  | HttpFails str

type_synonym network = "http_request \<Rightarrow> http_reply"

definition success :: "nat \<Rightarrow> bool" where
  "success code \<longleftrightarrow> 200 \<le> code \<and> code < 300"

definition bearer :: "str \<Rightarrow> str \<times> str" where
  "bearer token = (S ''Authorization'', S ''Bearer '' @ token)"

section \<open>The bridge\<close>

definition ASTERISK_SIP_PORT :: int where
  "ASTERISK_SIP_PORT = 5060"

record bridge_control =
  bc_base_url :: str
  bc_token :: str
  bc_gsm_host :: str

text \<open>\<open>int(v)\<close> of a configuration value.\<close>
fun as_int :: "json \<Rightarrow> http_error + int" where
  "as_int (JInt i) = Inr i"
| "as_int (JBool b) = Inr (if b then 1 else 0)"
| "as_int (JStr s) = (case parse_int s of Some i \<Rightarrow> Inr i | None \<Rightarrow> Inl (Unhandled (S ''ValueError'')))"
| "as_int _ = Inl (Unhandled (S ''TypeError''))"

text \<open>\<open>BridgeControl(cfg)\<close> under an environment.\<close>
definition new_bridge_control :: "(str \<Rightarrow> str option) \<Rightarrow> cfg \<Rightarrow> http_error + bridge_control" where
  "new_bridge_control environ cfg =
     (case as_int (cfg_get cfg ''voice.bridge_control_port'' (JInt 5063)) of
        Inl e \<Rightarrow> Inl e
      | Inr port \<Rightarrow>
          (case (cfg_get cfg ''userbot_http.secret_env'' (JStr (S ''SIMBRIDGE_HTTP_SECRET'')),
                 cfg_get cfg ''agent.listen'' (JStr (S ''127.0.0.1:8090''))) of
             (JStr secret_env, JStr listen) \<Rightarrow>
               Inr \<lparr>bc_base_url = S ''http://127.0.0.1:'' @ int_text port,
                    bc_token = (case environ secret_env of None \<Rightarrow> [] | Some t \<Rightarrow> t),
                    bc_gsm_host = hd (split_all 58 listen)\<rparr>
           | (JStr _, _) \<Rightarrow> Inl (Unhandled (S ''AttributeError''))
           | _ \<Rightarrow> Inl (Unhandled (S ''TypeError''))))"

definition bridge_headers :: "bridge_control \<Rightarrow> (str \<times> str) list" where
  "bridge_headers bc = (if bc_token bc = [] then [] else [bearer (bc_token bc)])"

datatype bridge_outcome =
    BridgeOk
  | BridgeBusy
  | BridgeError

definition call_request :: "bridge_control \<Rightarrow> int \<Rightarrow> str \<Rightarrow> http_request" where
  "call_request bc user target =
     \<lparr>hr_url = bc_base_url bc @ S ''/call'',
      hr_body = Some (JObj [(S ''user_id'', JInt user), (S ''target'', JStr target),
                            (S ''gsm_host'', JStr (bc_gsm_host bc)), (S ''gsm_port'', JInt ASTERISK_SIP_PORT)]),
      hr_headers = bridge_headers bc\<rparr>"

fun says_busy :: "json option \<Rightarrow> bool" where
  "says_busy (Some (JObj d)) \<longleftrightarrow> dget d (S ''error'') = Some (JStr (S ''busy''))"
| "says_busy _ \<longleftrightarrow> False"

definition start_call :: "bridge_control \<Rightarrow> network \<Rightarrow> int \<Rightarrow> str \<Rightarrow> bridge_outcome" where
  "start_call bc net user target =
     (case net (call_request bc user target) of
        HttpFails _ \<Rightarrow> BridgeError
      | HttpReply code body _ \<Rightarrow>
          if success code then BridgeOk
          else if code = 503 \<and> says_busy body then BridgeBusy
          else BridgeError)"

definition cancel_request :: "bridge_control \<Rightarrow> int option \<Rightarrow> http_request" where
  "cancel_request bc user =
     \<lparr>hr_url = bc_base_url bc @ S ''/cancel'',
      hr_body = Some (JObj (case user of None \<Rightarrow> [] | Some u \<Rightarrow> if u = 0 then [] else [(S ''user_id'', JInt u)])),
      hr_headers = bridge_headers bc\<rparr>"

definition cancel_call :: "bridge_control \<Rightarrow> network \<Rightarrow> int option \<Rightarrow> bool" where
  "cancel_call bc net user =
     (case net (cancel_request bc user) of
        HttpFails _ \<Rightarrow> False
      | HttpReply code _ _ \<Rightarrow> success code)"

section \<open>Lemmas\<close>

lemma split_all_prefix: "c \<notin> set a \<Longrightarrow> hd (split_all c (a @ c # b)) = a"
proof (induction a)
  case Nil
  then show ?case by simp
next
  case (Cons x a)
  moreover have "split_all c s \<noteq> []" for s
    by (induction s) (auto split: list.splits)
  ultimately show ?case by (cases "split_all c (a @ c # b)") auto
qed

text \<open>The control API is addressed on the loopback interface whatever the configuration says, and
  the telephony host is the host of the agent.\<close>
lemma bridge_is_local:
  assumes "new_bridge_control environ cfg = Inr bc"
  shows "\<exists>port. bc_base_url bc = S ''http://127.0.0.1:'' @ int_text port"
  using assms
  by (auto simp: new_bridge_control_def split: sum.splits json.splits prod.splits)

lemma start_call_ok_iff:
  "start_call bc net user target = BridgeOk \<longleftrightarrow>
     (\<exists>code body text. net (call_request bc user target) = HttpReply code body text \<and> success code)"
  by (auto simp: start_call_def split: http_reply.splits)

end
