(* ===== verification/Phone.thy ===== *)
theory Phone
  imports Text
begin

text \<open>
  \<open>core/phone.py\<close>: the lenient normalizer \<open>normalize_e164\<close> of system-side numbers, the strict
  validator \<open>parse_destination\<close> of user-submitted destinations, and \<open>is_service_number\<close>.
  The code points 43, 55 and 56 are \<open>+\<close>, \<open>7\<close> and \<open>8\<close>. A regular expression is the recogniser
  \<open>digits_to_end\<close> behind its fixed first characters.
\<close>

section \<open>Definitions\<close>

definition digits_of :: "str \<Rightarrow> str" where
  "digits_of s = filter is_decimal s"

definition e164_match :: "str \<Rightarrow> bool" where
  "e164_match s \<longleftrightarrow> (case s of [] \<Rightarrow> False | c # r \<Rightarrow> c = 43 \<and> digits_to_end 1 15 r)"

definition normalize_e164 :: "str \<Rightarrow> str option" where
  "normalize_e164 raw =
     (if raw = [] \<or> strip raw = [] then None
      else
        let stripped = strip raw;
            has_plus = startswith stripped [43];
            digits = digits_of stripped
        in if digits = [] then None
           else if length digits < 7 then None
           else if has_plus then (if e164_match (43 # digits) then Some (43 # digits) else None)
           else if startswith digits [56] \<and> length digits = 11 then Some (43 # 55 # tl digits)
           else if startswith digits [55] \<and> length digits = 11 then Some (43 # digits)
           else if e164_match (43 # digits) then Some (43 # digits)
           else None)"

definition is_service_number :: "str \<Rightarrow> bool" where
  "is_service_number number \<longleftrightarrow>
     (let digits = digits_of number
      in 2 \<le> length digits \<and> length digits \<le> 6
         \<and> \<not> (startswith number [43] \<or> startswith number [55] \<or> startswith number [56]))"

record destination =
  d_number :: str
  d_internal :: bool

definition ext_plus_match :: "str \<Rightarrow> bool" where
  "ext_plus_match s \<longleftrightarrow> (case s of [] \<Rightarrow> False | c # r \<Rightarrow> c = 43 \<and> digits_to_end 11 15 r)"

definition ext_ru_match :: "str \<Rightarrow> bool" where
  "ext_ru_match s \<longleftrightarrow> (case s of [] \<Rightarrow> False | c # r \<Rightarrow> c = 56 \<and> digits_to_end 10 14 r)"

definition ext_short_match :: "str \<Rightarrow> bool" where
  "ext_short_match s \<longleftrightarrow> digits_to_end 3 3 s"

definition internal_match :: "str \<Rightarrow> bool" where
  "internal_match s \<longleftrightarrow> digits_to_end 4 4 s"

definition parse_destination :: "str option \<Rightarrow> destination option" where
  "parse_destination raw =
     (let s = strip (case raw of None \<Rightarrow> [] | Some r \<Rightarrow> r)
      in if ext_plus_match s then Some \<lparr>d_number = s, d_internal = False\<rparr>
         else if ext_ru_match s then Some \<lparr>d_number = 43 # 55 # tl s, d_internal = False\<rparr>
         else if ext_short_match s then Some \<lparr>d_number = s, d_internal = False\<rparr>
         else if internal_match s then Some \<lparr>d_number = s, d_internal = True\<rparr>
         else None)"

section \<open>Lemmas on the normalizer\<close>

definition decimals :: "str \<Rightarrow> bool" where
  "decimals s \<longleftrightarrow> (\<forall>c \<in> set s. is_decimal c)"

definition e164_form :: "str \<Rightarrow> bool" where
  "e164_form s \<longleftrightarrow> (\<exists>ds. s = 43 # ds \<and> decimals ds \<and> 7 \<le> length ds \<and> length ds \<le> 15)"

lemma decimals_digits_of [simp]: "decimals (digits_of s)"
  by (simp add: decimals_def digits_of_def)

lemma digits_of_decimals [simp]: "decimals s \<Longrightarrow> digits_of s = s"
  by (simp add: decimals_def digits_of_def filter_id_conv)

lemma decimals_Nil [simp]: "decimals []"
  by (simp add: decimals_def)

lemma decimals_Cons [simp]: "decimals (c # s) \<longleftrightarrow> is_decimal c \<and> decimals s"
  by (simp add: decimals_def)

lemma decimals_tl [simp]: "decimals s \<Longrightarrow> decimals (tl s)"
  by (cases s) (auto simp: decimals_def)

lemma digits_to_end_of_decimals [simp]:
  "decimals s \<Longrightarrow> digits_to_end lo hi s \<longleftrightarrow> lo \<le> length s \<and> length s \<le> hi"
  by (simp add: decimals_def)

lemma e164_match_plus [simp]:
  "decimals ds \<Longrightarrow> e164_match (43 # ds) \<longleftrightarrow> 1 \<le> length ds \<and> length ds \<le> 15"
  by (simp add: e164_match_def)

lemma plus_not_space [simp]: "\<not> is_space 43"
  by (simp add: is_space_def space_points_def)

lemma plus_not_decimal [simp]: "\<not> is_decimal 43"
  by simp

lemma strip_plus_decimals [simp]: "decimals ds \<Longrightarrow> strip (43 # ds) = 43 # ds"
proof -
  assume ds: "decimals ds"
  have "\<not> is_space (last (43 # ds))"
    using ds last_in_set [of ds] by (auto simp: decimals_def decimal_not_space)
  then show ?thesis by (intro strip_no_space) auto
qed

lemma strip_decimals [simp]: "decimals ds \<Longrightarrow> strip ds = ds"
  by (simp add: decimals_def decimals_strip)

lemma digits_of_plus [simp]: "decimals ds \<Longrightarrow> digits_of (43 # ds) = ds"
  by (simp add: digits_of_def decimals_def filter_id_conv)

lemma normalize_e164_form: "normalize_e164 raw = Some r \<Longrightarrow> e164_form r"
proof -
  assume r: "normalize_e164 raw = Some r"
  let ?d = "digits_of (strip raw)"
  have "decimals ?d" and "7 \<le> length ?d"
    using r by (auto simp: normalize_e164_def Let_def split: if_splits)
  moreover have "r = 43 # ?d \<and> length ?d \<le> 15 \<or> r = 43 # 55 # tl ?d \<and> length ?d = 11"
    using r by (auto simp: normalize_e164_def Let_def split: if_splits)
  ultimately show ?thesis
    by (cases ?d) (auto simp: e164_form_def)
qed

lemma normalize_e164_fixes_form: "e164_form s \<Longrightarrow> normalize_e164 s = Some s"
  by (auto simp: e164_form_def normalize_e164_def Let_def)

lemma normalize_e164_short: "length (digits_of raw) < 7 \<Longrightarrow> normalize_e164 raw = None"
proof -
  assume short: "length (digits_of raw) < 7"
  obtain a b where ab: "raw = a @ strip raw @ b" using strip_infix by blast
  have "digits_of raw = digits_of a @ digits_of (strip raw) @ digits_of b"
    using arg_cong [OF ab, of digits_of] by (simp only: digits_of_def filter_append)
  then have "length (digits_of (strip raw)) < 7" using short by simp
  then show ?thesis by (simp add: normalize_e164_def Let_def)
qed

section \<open>Lemmas on the validator\<close>

lemma stripped_last: "strip raw = [] \<or> \<not> is_space (last (strip raw))"
  using last_strip by blast

lemma stripped_tail_last: "strip raw = c # r \<Longrightarrow> r = [] \<or> \<not> is_space (last r)"
  using last_strip [of raw] by (auto split: if_splits)

lemma digits_to_end_trimmed:
  assumes "s = [] \<or> \<not> is_space (last s)"
  shows "digits_to_end lo hi s \<longleftrightarrow> decimals s \<and> lo \<le> length s \<and> length s \<le> hi"
proof
  assume "digits_to_end lo hi s"
  from digits_to_end_last [OF this assms] show "decimals s \<and> lo \<le> length s \<and> length s \<le> hi"
    by (simp add: decimals_def)
qed simp

lemmas digits_to_end_strip = digits_to_end_trimmed [OF stripped_last]
lemmas digits_to_end_strip_tail = digits_to_end_trimmed [OF stripped_tail_last]

text \<open>The four accepted forms, as a relation between the stripped input and its destination.\<close>
inductive allowed_form :: "str \<Rightarrow> destination \<Rightarrow> bool" where
  plus: "decimals ds \<Longrightarrow> 11 \<le> length ds \<Longrightarrow> length ds \<le> 15 \<Longrightarrow>
     allowed_form (43 # ds) \<lparr>d_number = 43 # ds, d_internal = False\<rparr>"
| eight: "decimals ds \<Longrightarrow> 10 \<le> length ds \<Longrightarrow> length ds \<le> 14 \<Longrightarrow>
     allowed_form (56 # ds) \<lparr>d_number = 43 # 55 # ds, d_internal = False\<rparr>"
| short: "decimals ds \<Longrightarrow> length ds = 3 \<Longrightarrow>
     allowed_form ds \<lparr>d_number = ds, d_internal = False\<rparr>"
| internal: "decimals ds \<Longrightarrow> length ds = 4 \<Longrightarrow>
     allowed_form ds \<lparr>d_number = ds, d_internal = True\<rparr>"

inductive_cases allowed_formE: "allowed_form s d"

lemma parse_destination_allowed:
  assumes "parse_destination (Some raw) = Some d"
  shows "allowed_form (strip raw) d"
proof -
  let ?s = "strip raw"
  consider (p) "ext_plus_match ?s" "d = \<lparr>d_number = ?s, d_internal = False\<rparr>"
    | (r) "ext_ru_match ?s" "d = \<lparr>d_number = 43 # 55 # tl ?s, d_internal = False\<rparr>"
    | (s) "ext_short_match ?s" "d = \<lparr>d_number = ?s, d_internal = False\<rparr>"
    | (i) "internal_match ?s" "d = \<lparr>d_number = ?s, d_internal = True\<rparr>"
    using assms by (auto simp: parse_destination_def Let_def split: if_splits)
  then show ?thesis
  proof cases
    case p
    then obtain t where t: "?s = 43 # t" and "digits_to_end 11 15 t"
      by (auto simp: ext_plus_match_def split: list.splits)
    with p show ?thesis by (auto simp: digits_to_end_strip_tail [OF t] intro: allowed_form.plus)
  next
    case r
    then obtain t where t: "?s = 56 # t" and "digits_to_end 10 14 t"
      by (auto simp: ext_ru_match_def split: list.splits)
    with r show ?thesis by (auto simp: digits_to_end_strip_tail [OF t] intro: allowed_form.eight)
  next
    case s
    then show ?thesis
      by (auto simp: ext_short_match_def digits_to_end_strip intro: allowed_form.short)
  next
    case i
    then show ?thesis
      by (auto simp: internal_match_def digits_to_end_strip intro: allowed_form.internal)
  qed
qed

lemma decimals_not_plus [simp]: "decimals s \<Longrightarrow> \<not> ext_plus_match s"
  by (auto simp: ext_plus_match_def decimals_def split: list.splits)

lemma allowed_parse_destination:
  assumes "allowed_form (strip raw) d"
  shows "parse_destination (Some raw) = Some d"
  using assms
proof (cases rule: allowed_form.cases)
  case (plus ds)
  then show ?thesis by (simp add: parse_destination_def ext_plus_match_def)
next
  case (eight ds)
  then show ?thesis by (simp add: parse_destination_def ext_plus_match_def ext_ru_match_def)
next
  case short
  then have "\<not> ext_ru_match (strip raw)"
    by (cases "strip raw") (auto simp: ext_ru_match_def)
  with short show ?thesis by (simp add: parse_destination_def ext_short_match_def)
next
  case internal
  then have "\<not> ext_ru_match (strip raw)"
    by (cases "strip raw") (auto simp: ext_ru_match_def)
  with internal show ?thesis
    by (simp add: parse_destination_def ext_short_match_def internal_match_def)
qed

lemma parse_destination_iff:
  "parse_destination (Some raw) = Some d \<longleftrightarrow> allowed_form (strip raw) d"
  using parse_destination_allowed allowed_parse_destination by blast

lemma allowed_form_number:
  "allowed_form s d \<Longrightarrow> allowed_form (d_number d) d"
  by (erule allowed_formE) (auto intro: allowed_form.intros)

lemma allowed_form_stripped: "allowed_form s d \<Longrightarrow> strip s = s"
  by (erule allowed_formE) simp_all

lemma reparse_number:
  "parse_destination raw = Some d \<Longrightarrow> parse_destination (Some (d_number d)) = Some d"
proof -
  assume p: "parse_destination raw = Some d"
  then obtain r where "parse_destination (Some r) = Some d"
    by (cases raw) (auto simp: parse_destination_def intro: that [of "[]"])
  then have "allowed_form (d_number d) d"
    by (auto simp: parse_destination_iff dest: allowed_form_number)
  then show ?thesis
    by (metis allowed_form_stripped parse_destination_iff)
qed

lemma external_e164_form:
  "allowed_form s d \<Longrightarrow> \<not> d_internal d \<Longrightarrow> length (d_number d) \<noteq> 3 \<Longrightarrow> e164_form (d_number d)"
  by (erule allowed_formE) (auto simp: e164_form_def)

text \<open>The two contracts agree on every external destination that is not a three-digit
  service number: its canonical number is a fixed point of the normalizer, which is the form the
  blacklist stores. For internal and three-digit destinations the normalizer gives nothing, so
  the blacklist can never hold them.\<close>
lemma destination_normalizes:
  "parse_destination raw = Some d \<Longrightarrow>
     normalize_e164 (d_number d) =
       (if d_internal d \<or> length (d_number d) = 3 then None else Some (d_number d))"
proof -
  assume p: "parse_destination raw = Some d"
  from p obtain r where "parse_destination (Some r) = Some d"
    by (cases raw) (auto simp: parse_destination_def intro: that [of "[]"])
  then have form: "allowed_form (strip r) d" by (simp add: parse_destination_iff)
  show ?thesis
  proof (cases "d_internal d \<or> length (d_number d) = 3")
    case True
    with form have "length (digits_of (d_number d)) < 7"
      by (auto elim!: allowed_formE)
    with True show ?thesis by (simp add: normalize_e164_short)
  next
    case False
    with form have "e164_form (d_number d)" by (auto intro: external_e164_form)
    with False show ?thesis by (simp add: normalize_e164_fixes_form)
  qed
qed

section \<open>Properties\<close>

text \<open>The accepted user inputs are exactly the four documented forms: after stripping,
  \<open>+\<close> and 11 to 15 digits, \<open>8\<close> and 10 to 14 digits (rewritten to \<open>+7\<close>), three digits, and four
  digits (an internal extension). Nothing else yields a destination.\<close>
theorem parse_destination_exact:
  "parse_destination (Some raw) = Some d \<longleftrightarrow> allowed_form (strip raw) d"
  by (rule parse_destination_iff)

text \<open>The canonical number of an accepted destination is accepted again and gives the same
  destination, so a remembered last number can always be redialled.\<close>
theorem parse_destination_reparses:
  "parse_destination raw = Some d \<Longrightarrow> parse_destination (Some (d_number d)) = Some d"
  by (rule reparse_number)

theorem parse_destination_reparses_witness:
  "parse_destination (Some (S '' 89261234555 ''))
     = Some \<lparr>d_number = S ''+79261234555'', d_internal = False\<rparr>
   \<and> parse_destination (Some (S ''+79261234555''))
     = Some \<lparr>d_number = S ''+79261234555'', d_internal = False\<rparr>"
proof -
  have *: "parse_destination (Some (S '' 89261234555 ''))
     = Some \<lparr>d_number = S ''+79261234555'', d_internal = False\<rparr>"
    by (simp add: S_def parse_destination_def strip_def lstrip_def rstrip_def is_space_def
        space_points_def ext_plus_match_def ext_ru_match_def digits_to_end_def)
  with parse_destination_reparses [OF *] show ?thesis by simp
qed

text \<open>The normalizer is idempotent and its results have the E.164 shape, a plus sign and 7
  to 15 digits.\<close>
theorem normalize_e164_idempotent:
  "normalize_e164 raw = Some r \<Longrightarrow> e164_form r \<and> normalize_e164 r = Some r"
  using normalize_e164_form normalize_e164_fixes_form by blast

theorem normalize_e164_idempotent_witness:
  "normalize_e164 (S ''+7 (926) 123-45-55'') = Some (S ''+79261234555'')
   \<and> normalize_e164 (S ''+79261234555'') = Some (S ''+79261234555'')"
proof -
  have *: "normalize_e164 (S ''+7 (926) 123-45-55'') = Some (S ''+79261234555'')"
    by (simp add: S_def normalize_e164_def strip_def lstrip_def rstrip_def is_space_def
        space_points_def digits_of_def e164_match_def digits_to_end_def is_decimal_def
        decimal_blocks_def)
  with normalize_e164_idempotent [OF *] show ?thesis by simp
qed

end
