(* ===== verification/RateLimit.thy ===== *)
theory RateLimit
  imports Prelude
begin

text \<open>
  \<open>core/ratelimit.py\<close>: the sliding-window limiter. The monotonic clock is an \<open>int\<close> of
  nanoseconds, read once per call and passed in; a bucket is the list of the accepted times of
  one key that were not yet expired when the key was last used.
\<close>

section \<open>Definitions\<close>

definition NS :: int where
  "NS = 1000000000"

record rate_limiter =
  rl_max :: int
  rl_window :: int
  rl_buckets :: "(str, int list) dict"

definition new_rate_limiter :: "int \<Rightarrow> int \<Rightarrow> rate_limiter" where
  "new_rate_limiter max_requests window_seconds =
     \<lparr>rl_max = max_requests, rl_window = window_seconds, rl_buckets = []\<rparr>"

definition rl_bucket :: "rate_limiter \<Rightarrow> str \<Rightarrow> int list" where
  "rl_bucket rl key = (case dget (rl_buckets rl) key of None \<Rightarrow> [] | Some ts \<Rightarrow> ts)"

definition allow :: "int \<Rightarrow> str \<Rightarrow> rate_limiter \<Rightarrow> bool \<times> rate_limiter" where
  "allow now key rl =
     (let cutoff = now - rl_window rl * NS;
          timestamps = filter (\<lambda>t. t > cutoff) (rl_bucket rl key)
      in if int (length timestamps) \<ge> rl_max rl
         then (False, rl\<lparr>rl_buckets := dput key timestamps (rl_buckets rl)\<rparr>)
         else (True, rl\<lparr>rl_buckets := dput key (timestamps @ [now]) (rl_buckets rl)\<rparr>))"

definition remaining :: "int \<Rightarrow> str \<Rightarrow> rate_limiter \<Rightarrow> int" where
  "remaining now key rl =
     (let cutoff = now - rl_window rl * NS;
          timestamps = filter (\<lambda>t. t > cutoff) (rl_bucket rl key)
      in max 0 (rl_max rl - int (length timestamps)))"

text \<open>A session of calls \<open>(now, key)\<close>: the calls that were accepted, in order.\<close>
fun rl_accepted :: "rate_limiter \<Rightarrow> (int \<times> str) list \<Rightarrow> (int \<times> str) list" where
  "rl_accepted rl [] = []"
| "rl_accepted rl ((now, key) # calls) =
     (case allow now key rl of (ok, rl') \<Rightarrow>
        (if ok then (now, key) # rl_accepted rl' calls else rl_accepted rl' calls))"

section \<open>Specification: the whole history of accepted calls\<close>

definition times_of :: "str \<Rightarrow> (int \<times> str) list \<Rightarrow> int list" where
  "times_of key h = map fst (filter (\<lambda>e. snd e = key) h)"

definition in_window :: "int \<Rightarrow> int \<Rightarrow> int list \<Rightarrow> int list" where
  "in_window lo hi ts = filter (\<lambda>t. lo < t \<and> t \<le> hi) ts"

fun spec_accepted :: "int \<Rightarrow> int \<Rightarrow> (int \<times> str) list \<Rightarrow> (int \<times> str) list \<Rightarrow> (int \<times> str) list" where
  "spec_accepted m w h [] = []"
| "spec_accepted m w h ((now, key) # calls) =
     (if int (length (in_window (now - w * NS) now (times_of key h))) < m
      then (now, key) # spec_accepted m w (h @ [(now, key)]) calls
      else spec_accepted m w h calls)"

section \<open>Lemmas\<close>

lemma times_of_append [simp]: "times_of k (h @ h') = times_of k h @ times_of k h'"
  by (simp add: times_of_def)

lemma times_of_single [simp]: "times_of k [(t, k')] = (if k' = k then [t] else [])"
  by (simp add: times_of_def)

lemma times_of_subset: "t \<in> set (times_of k h) \<Longrightarrow> (t, k) \<in> set h"
  by (auto simp: times_of_def)

lemma rl_bucket_put [simp]:
  "rl_bucket (rl\<lparr>rl_buckets := dput k ts (rl_buckets rl)\<rparr>) k' = (if k' = k then ts else rl_bucket rl k')"
  by (auto simp: rl_bucket_def)

lemma allow_params [simp]:
  "rl_max (snd (allow now key rl)) = rl_max rl" "rl_window (snd (allow now key rl)) = rl_window rl"
  by (simp_all add: allow_def Let_def)

text \<open>The limiter \<open>rl\<close> represents the history \<open>h\<close> of accepted calls up to time \<open>now\<close>.\<close>
definition represents :: "rate_limiter \<Rightarrow> (int \<times> str) list \<Rightarrow> int \<Rightarrow> bool" where
  "represents rl h now \<longleftrightarrow>
     (\<forall>e \<in> set h. fst e \<le> now) \<and>
     (\<forall>k. filter (\<lambda>t. t > now - rl_window rl * NS) (rl_bucket rl k)
          = filter (\<lambda>t. t > now - rl_window rl * NS) (times_of k h))"

lemma represents_later:
  assumes "represents rl h now" and "now \<le> now'"
  shows "represents rl h now'"
proof -
  let ?c = "now - rl_window rl * NS" and ?c' = "now' - rl_window rl * NS"
  have later: "filter (\<lambda>t. t > ?c') xs = filter (\<lambda>t. t > ?c') (filter (\<lambda>t. t > ?c) xs)" for xs
    using assms(2) by (intro filter_all_mono [symmetric]) auto
  show ?thesis
    using assms unfolding represents_def
    by (metis later order_trans)
qed

lemma represents_window:
  assumes "represents rl h now"
  shows "filter (\<lambda>t. t > now - rl_window rl * NS) (rl_bucket rl k)
       = in_window (now - rl_window rl * NS) now (times_of k h)"
proof -
  have "\<forall>t \<in> set (times_of k h). t \<le> now"
    using assms by (fastforce simp: represents_def dest: times_of_subset)
  then show ?thesis
    using assms by (auto simp: represents_def in_window_def intro!: filter_cong)
qed

lemma allow_represents:
  fixes key
  assumes rep: "represents rl h now"
  defines "full \<equiv> \<not> int (length (in_window (now - rl_window rl * NS) now (times_of key h))) < rl_max rl"
  shows "fst (allow now key rl) = (\<not> full)"
    and "represents (snd (allow now key rl)) (if full then h else h @ [(now, key)]) now"
proof -
  let ?c = "now - rl_window rl * NS"
  let ?ts = "filter (\<lambda>t. t > ?c) (rl_bucket rl key)"
  have ts: "?ts = in_window ?c now (times_of key h)"
    using represents_window [OF rep] .
  show 1: "fst (allow now key rl) = (\<not> full)"
    by (simp add: allow_def Let_def ts full_def)
  show "represents (snd (allow now key rl)) (if full then h else h @ [(now, key)]) now"
  proof (cases full)
    case True
    with rep show ?thesis
      by (auto simp: allow_def Let_def represents_def full_def ts [symmetric])
  next
    case False
    with rep show ?thesis
      by (auto simp: allow_def Let_def represents_def full_def ts [symmetric])
  qed
qed

lemma rl_accepted_spec:
  assumes "represents rl h now" and "sorted (map fst calls)" and "\<forall>e \<in> set calls. now \<le> fst e"
  shows "rl_accepted rl calls = spec_accepted (rl_max rl) (rl_window rl) h calls"
  using assms
proof (induction calls arbitrary: rl h now)
  case Nil
  then show ?case by simp
next
  case (Cons e calls)
  obtain t k where e: "e = (t, k)" by fastforce
  have rep: "represents rl h t"
    using Cons.prems(1,3) e by (auto intro: represents_later)
  let ?full = "\<not> int (length (in_window (t - rl_window rl * NS) t (times_of k h))) < rl_max rl"
  obtain ok rl' where a: "allow t k rl = (ok, rl')" by fastforce
  have ok: "ok = (\<not> ?full)" and rep': "represents rl' (if ?full then h else h @ [(t, k)]) t"
    using allow_represents [OF rep, of k] a by simp_all
  have par: "rl_max rl' = rl_max rl" "rl_window rl' = rl_window rl"
    using allow_params [of t k rl] a by simp_all
  have "rl_accepted rl' calls =
      spec_accepted (rl_max rl) (rl_window rl) (if ?full then h else h @ [(t, k)]) calls"
    using Cons.IH [OF rep'] Cons.prems(2) e par by auto
  then show ?case by (simp add: e a ok)
qed

lemma spec_window_bound:
  assumes "\<forall>a. int (length (in_window a (a + w * NS) (times_of k h))) \<le> max 0 m"
    and "\<forall>e \<in> set h. \<forall>e' \<in> set calls. fst e \<le> fst e'" and "sorted (map fst calls)"
  shows "int (length (in_window a (a + w * NS) (times_of k (h @ spec_accepted m w h calls)))) \<le> max 0 m"
  using assms
proof (induction calls arbitrary: h)
  case Nil
  then show ?case by simp
next
  case (Cons e calls)
  obtain t k' where e: "e = (t, k')" by fastforce
  let ?ok = "int (length (in_window (t - w * NS) t (times_of k' h))) < m"
  show ?case
  proof (cases ?ok)
    case False
    then have "spec_accepted m w h (e # calls) = spec_accepted m w h calls" by (simp add: e)
    moreover have "int (length (in_window a (a + w * NS) (times_of k (h @ spec_accepted m w h calls)))) \<le> max 0 m"
      using Cons.prems by (intro Cons.IH) auto
    ultimately show ?thesis by simp
  next
    case True
    let ?h = "h @ [(t, k')]"
    have "int (length (in_window b (b + w * NS) (times_of k ?h))) \<le> max 0 m" for b
    proof (cases "k' = k \<and> b < t \<and> t \<le> b + w * NS")
      case False
      then show ?thesis using Cons.prems(1) by (auto simp: in_window_def)
    next
      case inside: True
      have "length (in_window b (b + w * NS) (times_of k h)) \<le> length (in_window (t - w * NS) t (times_of k h))"
        unfolding in_window_def
      proof (rule length_filter_mono)
        fix x assume "x \<in> set (times_of k h)" and "b < x \<and> x \<le> b + w * NS"
        with inside Cons.prems(2) e show "t - w * NS < x \<and> x \<le> t"
          by (auto dest!: times_of_subset)
      qed
      with inside True show ?thesis by (simp add: in_window_def)
    qed
    then have "int (length (in_window a (a + w * NS) (times_of k (?h @ spec_accepted m w ?h calls)))) \<le> max 0 m"
      using Cons.prems(2,3) e by (intro Cons.IH) auto
    with True show ?thesis by (simp add: e)
  qed
qed

lemma represents_new: "represents (new_rate_limiter m w) [] now"
  by (simp add: represents_def new_rate_limiter_def rl_bucket_def times_of_def)

lemma rl_accepted_new:
  "sorted (map fst calls) \<Longrightarrow>
     rl_accepted (new_rate_limiter m w) calls = spec_accepted m w [] calls"
proof -
  assume sorted: "sorted (map fst calls)"
  then have "\<forall>e \<in> set calls. (case calls of [] \<Rightarrow> 0 | e # _ \<Rightarrow> fst e) \<le> fst e"
    by (cases calls) auto
  from rl_accepted_spec [OF represents_new sorted this] show ?thesis
    by (simp add: new_rate_limiter_def)
qed

section \<open>Properties\<close>

text \<open>The limiter, which forgets expired times, decides exactly like the specification that
  counts the accepted calls of the key in the last window over the whole history, for every
  session of calls on a monotonic clock.\<close>
theorem limiter_refines_history:
  "sorted (map fst calls) \<Longrightarrow>
     rl_accepted (new_rate_limiter m w) calls = spec_accepted m w [] calls"
  by (rule rl_accepted_new)

theorem limiter_refines_history_witness:
  "rl_accepted (new_rate_limiter 1 60) [(0, S ''a''), (1, S ''a''), (60 * NS, S ''a'')]
     = [(0, S ''a''), (60 * NS, S ''a'')]"
  using limiter_refines_history [of "[(0, S ''a''), (1, S ''a''), (60 * NS, S ''a'')]" 1 60]
  by (simp add: NS_def in_window_def times_of_def)

text \<open>C36: in every half-open window of the configured length, wherever it starts, at most
  \<open>max_requests\<close> calls of a key are accepted, over any session on a monotonic clock.\<close>
theorem limiter_window_bound:
  "sorted (map fst calls) \<Longrightarrow>
     int (length (in_window a (a + w * NS)
       (times_of key (rl_accepted (new_rate_limiter m w) calls)))) \<le> max 0 m"
  using spec_window_bound [of w key "[]" m calls a]
  by (simp add: rl_accepted_new times_of_def in_window_def)

theorem limiter_window_bound_witness:
  "int (length (in_window 0 (0 + 60 * NS)
       (times_of (S ''a'') (rl_accepted (new_rate_limiter 2 60)
          [(1, S ''a''), (2, S ''a''), (3, S ''b''), (4, S ''a'')])))) \<le> max 0 2"
  by (rule limiter_window_bound) simp

end
