(* ===== verification/Auth.thy ===== *)
theory Auth
  imports Text RateLimit
begin

text \<open>
  \<open>agent/deps.py\<close>: the bearer token, peer address and replay checks that
  guard every agent route, in the order FastAPI resolves them.

  The module globals are the record \<open>deps_state\<close>. \<open>hmac.compare_digest\<close> on two \<open>str\<close> values is
  equality on ASCII texts and raises \<open>TypeError\<close> when either one is not ASCII. Name resolution
  (\<open>socket.gethostbyname\<close>) and \<open>ipaddress.ip_address\<close> are the arguments \<open>resolve\<close> and \<open>is_ip\<close>.
\<close>

section \<open>Definitions\<close>

record deps_state =
  agent_token :: "str option"
  allowed_peers :: "str set"
  replay_window :: int
  seen_ids :: "(str, int) dict"

definition initial_deps :: deps_state where
  "initial_deps = \<lparr>agent_token = None, allowed_peers = {}, replay_window = 300, seen_ids = []\<rparr>"

record request =
  rq_headers :: "(str, str) dict"
  rq_client :: "str option"

definition header_get :: "request \<Rightarrow> string \<Rightarrow> str option" where
  "header_get r name = dget (rq_headers r) (S name)"

fun normalize_peer :: "(str \<Rightarrow> bool) \<Rightarrow> (str \<Rightarrow> str option) \<Rightarrow> json \<Rightarrow> str list" where
  "normalize_peer is_ip resolve (JStr raw) =
     (let entry = strip raw
      in if entry = [] then []
         else if is_ip entry then [entry]
         else entry # (case resolve entry of None \<Rightarrow> [] | Some ip \<Rightarrow> [ip]))"
| "normalize_peer is_ip resolve _ = []"

definition normalize_peers :: "(str \<Rightarrow> bool) \<Rightarrow> (str \<Rightarrow> str option) \<Rightarrow> json list \<Rightarrow> str set" where
  "normalize_peers is_ip resolve peers = set (concat (map (normalize_peer is_ip resolve) peers))"

definition init_deps ::
    "(str \<Rightarrow> bool) \<Rightarrow> (str \<Rightarrow> str option) \<Rightarrow> (str \<Rightarrow> str option) \<Rightarrow> str \<Rightarrow> json list \<Rightarrow> int
     \<Rightarrow> deps_state \<Rightarrow> deps_state" where
  "init_deps is_ip resolve environ token_env peers window d =
     d\<lparr>agent_token := environ token_env,
       allowed_peers := normalize_peers is_ip resolve peers,
       replay_window := window\<rparr>"

definition ascii :: "str \<Rightarrow> bool" where
  "ascii s \<longleftrightarrow> list_all (\<lambda>c. c < 128) s"

definition compare_digest :: "str \<Rightarrow> str \<Rightarrow> http_error + bool" where
  "compare_digest a b = (if ascii a \<and> ascii b then Inr (a = b) else Inl (Unhandled (S ''TypeError'')))"

definition bearer_token :: "request \<Rightarrow> str" where
  "bearer_token r =
     strip (replace_sub (S ''Bearer '') []
       (case header_get r ''authorization'' of None \<Rightarrow> [] | Some h \<Rightarrow> h))"

definition check_auth :: "request \<Rightarrow> deps_state \<Rightarrow> http_error + unit" where
  "check_auth r d =
     (let token = bearer_token r
      in case agent_token d of
           None \<Rightarrow> Inl (HTTPException 500 (S ''Agent token not configured''))
         | Some expected \<Rightarrow>
             if expected = [] then Inl (HTTPException 500 (S ''Agent token not configured''))
             else if token = [] then
               Inl (HTTPException 401 (S ''Invalid or missing bearer token''))
             else (case compare_digest token expected of
                     Inl e \<Rightarrow> Inl e
                   | Inr same \<Rightarrow>
                       if same then Inr ()
                       else Inl (HTTPException 401 (S ''Invalid or missing bearer token''))))"

definition client_text :: "str option \<Rightarrow> str" where
  "client_text c = (case c of None \<Rightarrow> S ''None'' | Some h \<Rightarrow> h)"

definition is_localhost :: "str option \<Rightarrow> bool" where
  "is_localhost c \<longleftrightarrow> c \<in> {Some (S ''127.0.0.1''), Some (S ''::1''), Some (S ''localhost'')}"

definition check_ip :: "request \<Rightarrow> deps_state \<Rightarrow> http_error + unit" where
  "check_ip r d =
     (let host = rq_client r
      in if is_localhost host then Inr ()
         else if allowed_peers d = {} then
           Inl (HTTPException 403 (S ''IP '' @ client_text host
             @ S '' rejected '' @ [8212] @ S '' no allowed_peers configured and not localhost''))
         else if host \<notin> Some ` allowed_peers d then
           Inl (HTTPException 403 (S ''IP '' @ client_text host @ S '' not in allowed peers''))
         else Inr ())"

definition drop_expired :: "int \<Rightarrow> int \<Rightarrow> (str, int) dict \<Rightarrow> (str, int) dict" where
  "drop_expired now window seen = filter (\<lambda>(k, v). \<not> now - v > window * NS) seen"

definition check_replay :: "int \<Rightarrow> request \<Rightarrow> deps_state \<Rightarrow> (http_error + unit) \<times> deps_state" where
  "check_replay now r d =
     (case header_get r ''x-correlation-id'' of
        None \<Rightarrow> (Inr (), d)
      | Some cid \<Rightarrow>
          if cid = [] then (Inr (), d)
          else
            let live = drop_expired now (replay_window d) (seen_ids d)
            in if dget live cid \<noteq> None
               then (Inl (HTTPException 409 (S ''Duplicate correlation_id '' @ [8212]
                       @ S '' possible replay attack'')), d\<lparr>seen_ids := live\<rparr>)
               else (Inr (), d\<lparr>seen_ids := dput cid now live\<rparr>))"

definition require_auth :: "int \<Rightarrow> request \<Rightarrow> deps_state \<Rightarrow> (http_error + unit) \<times> deps_state" where
  "require_auth now r d =
     (case check_auth r d of
        Inl e \<Rightarrow> (Inl e, d)
      | Inr _ \<Rightarrow> (case check_ip r d of
                    Inl e \<Rightarrow> (Inl e, d)
                  | Inr _ \<Rightarrow> check_replay now r d))"

text \<open>A session of requests at given times; the times and requests that passed.\<close>
fun admitted :: "deps_state \<Rightarrow> (int \<times> request) list \<Rightarrow> (int \<times> request) list" where
  "admitted d [] = []"
| "admitted d ((now, r) # rs) =
     (case require_auth now r d of
        (Inl _, d') \<Rightarrow> admitted d' rs
      | (Inr _, d') \<Rightarrow> (now, r) # admitted d' rs)"

section \<open>Lemmas\<close>

lemma check_auth_ok:
  "check_auth r d = Inr () \<longleftrightarrow>
     (\<exists>t. agent_token d = Some t \<and> t \<noteq> [] \<and> ascii t \<and> bearer_token r = t)"
  by (auto simp: check_auth_def Let_def compare_digest_def split: option.splits sum.splits if_splits)

lemma check_ip_ok:
  "check_ip r d = Inr () \<longleftrightarrow> is_localhost (rq_client r) \<or> rq_client r \<in> Some ` allowed_peers d"
  by (auto simp: check_ip_def Let_def)

lemma dget_drop_expired:
  "dict_wf seen \<Longrightarrow> dget (drop_expired now w seen) k =
     (case dget seen k of None \<Rightarrow> None | Some v \<Rightarrow> if now - v > w * NS then None else Some v)"
  by (auto simp: drop_expired_def dget_filter split: option.split)

lemma dict_wf_drop_expired [intro]: "dict_wf seen \<Longrightarrow> dict_wf (drop_expired now w seen)"
  by (simp add: drop_expired_def dict_wf_filter)

definition request_id :: "request \<Rightarrow> str" where
  "request_id r = (case header_get r ''x-correlation-id'' of None \<Rightarrow> [] | Some c \<Rightarrow> c)"

lemma check_replay_cases:
  "check_replay now r d =
     (if request_id r = [] then (Inr (), d)
      else let live = drop_expired now (replay_window d) (seen_ids d)
           in if dget live (request_id r) \<noteq> None
              then (Inl (HTTPException 409 (S ''Duplicate correlation_id '' @ [8212]
                       @ S '' possible replay attack'')), d\<lparr>seen_ids := live\<rparr>)
              else (Inr (), d\<lparr>seen_ids := dput (request_id r) now live\<rparr>))"
proof (cases "header_get r ''x-correlation-id''")
  case None
  then show ?thesis by (simp add: check_replay_def request_id_def)
next
  case (Some c)
  then have "request_id r = c" by (simp add: request_id_def)
  with Some show ?thesis by (simp add: check_replay_def Let_def)
qed

lemma require_auth_ok:
  "fst (require_auth now r d) = Inr () \<longleftrightarrow>
     check_auth r d = Inr () \<and> check_ip r d = Inr () \<and> fst (check_replay now r d) = Inr ()"
  by (auto simp: require_auth_def split: sum.splits)

lemma require_auth_pass:
  "check_auth r d = Inr () \<Longrightarrow> check_ip r d = Inr () \<Longrightarrow> require_auth now r d = check_replay now r d"
  by (simp add: require_auth_def)

lemma require_auth_config [simp]:
  "agent_token (snd (require_auth now r d)) = agent_token d"
  "allowed_peers (snd (require_auth now r d)) = allowed_peers d"
  "replay_window (snd (require_auth now r d)) = replay_window d"
  by (auto simp: require_auth_def check_replay_cases Let_def split: sum.splits)

text \<open>\<open>guards d h now\<close>: the seen ids of \<open>d\<close> cover every admitted request of \<open>h\<close> whose window is open.\<close>
definition guards :: "deps_state \<Rightarrow> (int \<times> request) list \<Rightarrow> int \<Rightarrow> bool" where
  "guards d h now \<longleftrightarrow> dict_wf (seen_ids d) \<and>
     (\<forall>(t, r) \<in> set h. request_id r \<noteq> [] \<longrightarrow> now - t \<le> replay_window d * NS \<longrightarrow>
        (\<exists>v. dget (seen_ids d) (request_id r) = Some v \<and> t \<le> v \<and> v \<le> now))"

lemma guards_later: "guards d h now \<Longrightarrow> now \<le> now' \<Longrightarrow> guards d h now'"
  by (fastforce simp: guards_def)

lemma guards_step:
  assumes g: "guards d h now"
  shows "guards (snd (require_auth now r d))
           (if fst (require_auth now r d) = Inr () then h @ [(now, r)] else h) now"
    and "\<lbrakk>fst (require_auth now r d) = Inr (); (t, r') \<in> set h; request_id r' = request_id r;
          request_id r \<noteq> []\<rbrakk> \<Longrightarrow> now - t > replay_window d * NS"
proof -
  let ?live = "drop_expired now (replay_window d) (seen_ids d)"
  have wf: "dict_wf (seen_ids d)" using g by (simp add: guards_def)
  show "\<lbrakk>fst (require_auth now r d) = Inr (); (t, r') \<in> set h; request_id r' = request_id r;
          request_id r \<noteq> []\<rbrakk> \<Longrightarrow> now - t > replay_window d * NS"
  proof (rule ccontr)
    assume ok: "fst (require_auth now r d) = Inr ()" and mem: "(t, r') \<in> set h"
      and id: "request_id r' = request_id r" "request_id r \<noteq> []"
      and "\<not> now - t > replay_window d * NS"
    then obtain v where v: "dget (seen_ids d) (request_id r) = Some v" "t \<le> v"
      using g by (fastforce simp: guards_def)
    moreover have "\<not> now - v > replay_window d * NS"
      using v(2) \<open>\<not> now - t > replay_window d * NS\<close> by simp
    ultimately have "dget ?live (request_id r) \<noteq> None"
      using wf by (simp add: dget_drop_expired)
    then have "fst (check_replay now r d) \<noteq> Inr ()"
      using id(2) by (simp add: check_replay_cases Let_def)
    with ok show False by (simp add: require_auth_ok)
  qed
  have cover: "guards (d\<lparr>seen_ids := ?live\<rparr>) h now"
    using g wf unfolding guards_def
    by (fastforce simp: dget_drop_expired split: option.splits)
  have put: "guards (d\<lparr>seen_ids := dput (request_id r) now ?live\<rparr>) (h @ [(now, r)]) now"
    if "dget ?live (request_id r) = None"
    using cover that unfolding guards_def by fastforce
  show "guards (snd (require_auth now r d))
           (if fst (require_auth now r d) = Inr () then h @ [(now, r)] else h) now"
    using g cover put unfolding require_auth_def check_replay_cases Let_def
    by (auto simp: guards_def split: sum.splits)
qed

lemma admitted_gap:
  assumes "guards d h now" and "sorted (map fst rs)" and "\<forall>e \<in> set rs. now \<le> fst e"
    and "(t1, r1) \<in> set h" and "(t2, r2) \<in> set (admitted d rs)"
    and "request_id r1 = request_id r2" and "request_id r2 \<noteq> []"
  shows "t2 - t1 > replay_window d * NS"
  using assms
proof (induction rs arbitrary: d h now)
  case Nil
  then show ?case by simp
next
  case (Cons e rs)
  obtain t r where e: "e = (t, r)" by fastforce
  have g: "guards d h t" using Cons.prems(1,3) e by (auto intro: guards_later)
  obtain res d' where ra: "require_auth t r d = (res, d')" by fastforce
  have w: "replay_window d' = replay_window d" using require_auth_config(3) [of t r d] ra by simp
  have g': "guards d' (if res = Inr () then h @ [(t, r)] else h) t"
    using guards_step(1) [OF g, of r] ra by simp
  from Cons.prems(5) consider "(t2, r2) = (t, r)" "res = Inr ()" | "(t2, r2) \<in> set (admitted d' rs)"
    by (auto simp: e ra split: sum.splits)
  then show ?case
  proof cases
    case 1
    then show ?thesis using guards_step(2) [OF g, of r] ra Cons.prems(4,6,7) by auto
  next
    case 2
    then show ?thesis
      using Cons.IH [OF g' _ _ _ 2] Cons.prems(2,4,6,7) e w by (auto split: if_splits)
  qed
qed

section \<open>Properties\<close>

text \<open>C31: a request is let through exactly when the agent has a token, the request bears that
  token, the peer is this host or an allowed peer, and its correlation id (if any) was not seen
  within the replay window.\<close>
theorem require_auth_admits_iff:
  "fst (require_auth now r d) = Inr () \<longleftrightarrow>
     (\<exists>t. agent_token d = Some t \<and> t \<noteq> [] \<and> ascii t \<and> bearer_token r = t) \<and>
     (is_localhost (rq_client r) \<or> rq_client r \<in> Some ` allowed_peers d) \<and>
     (request_id r = [] \<or>
      dget (drop_expired now (replay_window d) (seen_ids d)) (request_id r) = None)"
  by (auto simp: require_auth_ok check_auth_ok check_ip_ok check_replay_cases Let_def)

text \<open>C30: on a monotonic clock, two admitted requests with the same correlation id are more than
  the replay window apart, whatever other requests arrive between them.\<close>
theorem replay_protection:
  assumes "dict_wf (seen_ids d)" and "sorted (map fst ((t1, r1) # rs))"
    and "fst (require_auth t1 r1 d) = Inr ()"
    and "(t2, r2) \<in> set (admitted (snd (require_auth t1 r1 d)) rs)"
    and "request_id r1 = request_id r2" and "request_id r2 \<noteq> []"
  shows "t2 - t1 > replay_window d * NS"
proof -
  have "guards d [] t1" using assms(1) by (simp add: guards_def)
  from guards_step(1) [OF this, of r1] assms(3)
  have "guards (snd (require_auth t1 r1 d)) [(t1, r1)] t1" by simp
  from admitted_gap [OF this _ _ _ assms(4-6)] assms(2) show ?thesis by simp
qed

definition sample_request :: request where
  "sample_request =
     \<lparr>rq_headers = [(S ''authorization'', S ''Bearer k''), (S ''x-correlation-id'', S ''c1'')],
      rq_client = Some (S ''127.0.0.1'')\<rparr>"

definition sample_deps :: deps_state where
  "sample_deps = initial_deps\<lparr>agent_token := Some (S ''k'')\<rparr>"

lemma sample_checks:
  "check_auth sample_request d = Inr () \<longleftrightarrow> agent_token d = Some (S ''k'')"
  "check_ip sample_request d = Inr ()" "request_id sample_request = S ''c1''"
proof -
  have "bearer_token sample_request = S ''k''"
    by (simp add: bearer_token_def sample_request_def header_get_def S_def startswith_def
        strip_def lstrip_def rstrip_def is_space_def space_points_def)
  then show "check_auth sample_request d = Inr () \<longleftrightarrow> agent_token d = Some (S ''k'')"
    by (auto simp: check_auth_ok ascii_def S_def)
  show "check_ip sample_request d = Inr ()"
    by (simp add: check_ip_ok is_localhost_def sample_request_def)
  show "request_id sample_request = S ''c1''"
    by (simp add: request_id_def header_get_def sample_request_def)
qed

lemma sample_require_auth:
  "agent_token d = Some (S ''k'') \<Longrightarrow>
     require_auth now sample_request d = check_replay now sample_request d"
  by (simp add: require_auth_pass sample_checks)

theorem replay_protection_witness:
  "\<exists>t2. (t2, sample_request) \<in> set (admitted (snd (require_auth 0 sample_request sample_deps))
       [(5, sample_request), (301 * NS, sample_request)]) \<and> t2 - 0 > 300 * NS"
proof -
  have ok: "fst (require_auth 0 sample_request sample_deps) = Inr ()"
    by (simp add: sample_require_auth check_replay_cases sample_deps_def
        initial_deps_def drop_expired_def Let_def)
  have mem: "(301 * NS, sample_request) \<in>
      set (admitted (snd (require_auth 0 sample_request sample_deps))
        [(5, sample_request), (301 * NS, sample_request)])"
    by (simp add: sample_require_auth sample_checks check_replay_cases sample_deps_def
        initial_deps_def drop_expired_def Let_def NS_def)
  have "301 * NS - 0 > replay_window sample_deps * NS"
    by (rule replay_protection [OF _ _ ok mem])
      (simp_all add: sample_deps_def initial_deps_def NS_def sample_checks)
  moreover have "replay_window sample_deps = 300"
    by (simp add: sample_deps_def initial_deps_def)
  ultimately have "301 * NS - 0 > 300 * NS" by (simp only:)
  with mem show ?thesis by blast
qed

text \<open>A request refused by the token or the address check leaves the record of seen
  correlation ids as it was, so an unauthenticated sender can neither block an id nor push one
  out.\<close>
theorem refused_request_leaves_no_trace:
  "check_auth r d \<noteq> Inr () \<or> check_ip r d \<noteq> Inr () \<Longrightarrow>
     (\<exists>e. require_auth now r d = (Inl e, d))"
  by (auto simp: require_auth_def split: sum.splits)

theorem refused_request_leaves_no_trace_witness:
  "\<exists>e. require_auth 0 sample_request initial_deps = (Inl e, initial_deps)"
  by (rule refused_request_leaves_no_trace) (simp add: sample_checks initial_deps_def)

end
