(* ===== verification/HotReload.thy ===== *)
theory HotReload
  imports Text
begin

text \<open>
  The contract of the components that keep a file in memory and re-read it when its modification
  time says so (\<open>ACLManager\<close>, \<open>CSVContactProvider\<close>, \<open>UserContactsStore\<close>): the locale
  \<open>hot_reload\<close>. A file is its modification time and its content, \<open>None\<close> when it does not exist.
  The locale is interpreted in the theory of each component.
\<close>

type_synonym 'f stored = "(int \<times> 'f) option"

locale hot_reload =
  fixes cache :: "'s \<Rightarrow> 'c"
    and mtime :: "'s \<Rightarrow> int"
    and parse :: "'f \<Rightarrow> 'c option"
    and stale :: "int \<Rightarrow> int \<Rightarrow> bool"
    and reload :: "'f stored \<Rightarrow> 's \<Rightarrow> 's"
  assumes not_stale_self: "\<not> stale m m"
    and reload_missing: "reload None s = s"
    and reload_current: "\<not> stale (mtime s) m \<Longrightarrow> reload (Some (m, f)) s = s"
    and reload_unreadable: "parse f = None \<Longrightarrow> reload (Some (m, f)) s = s"
    and reload_read: "stale (mtime s) m \<Longrightarrow> parse f = Some c \<Longrightarrow>
          cache (reload (Some (m, f)) s) = c \<and> mtime (reload (Some (m, f)) s) = m"
begin

text \<open>A second reload of an unchanged file does nothing.\<close>
lemma reload_idempotent: "reload f (reload f s) = reload f s"
proof (cases f)
  case None
  then show ?thesis by (simp add: reload_missing)
next
  case (Some p)
  obtain m x where p: "f = Some (m, x)" using Some by (cases p) auto
  show ?thesis
  proof (cases "stale (mtime s) m \<and> parse x \<noteq> None")
    case True
    then have "mtime (reload f s) = m" using reload_read p by blast
    then show ?thesis by (simp add: p reload_current not_stale_self)
  next
    case False
    then have "reload f s = s" using reload_current reload_unreadable p by blast
    then show ?thesis by simp
  qed
qed

text \<open>The cache is the parsed content of the version it records.\<close>
definition coherent :: "(int \<Rightarrow> 'f) \<Rightarrow> 's \<Rightarrow> bool" where
  "coherent version s \<longleftrightarrow> parse (version (mtime s)) = Some (cache s)"

lemma reload_coherent:
  assumes "coherent version s" and "f = None \<or> (\<exists>m. f = Some (m, version m))"
  shows "coherent version (reload f s)"
proof (cases f)
  case None
  with assms show ?thesis by (simp add: reload_missing)
next
  case (Some p)
  with assms(2) obtain m where f: "f = Some (m, version m)" by auto
  show ?thesis
  proof (cases "stale (mtime s) m")
    case False
    with f assms(1) show ?thesis by (simp add: reload_current)
  next
    case True
    then show ?thesis
      using assms(1) reload_read [OF True] reload_unreadable [of "version m" m s]
      by (cases "parse (version m)") (auto simp: f coherent_def)
  qed
qed

text \<open>A reload that sees a new version serves exactly that version.\<close>
lemma reload_serves_new:
  "stale (mtime s) m \<Longrightarrow> parse x = Some c \<Longrightarrow> cache (reload (Some (m, x)) s) = c"
  using reload_read by blast

text \<open>A missing or unreadable file keeps the last good copy.\<close>
lemma reload_keeps:
  "f = None \<or> (\<exists>m x. f = Some (m, x) \<and> parse x = None) \<Longrightarrow> cache (reload f s) = cache s"
  using reload_missing reload_unreadable by auto

end

end
