(* ===== verification/Blacklist.thy ===== *)
theory Blacklist
  imports Phone Auth HotReload "HOL-Library.List_Lexorder"
begin

text \<open>
  \<open>core/blacklist.py\<close>: the set of blocked numbers, mirrored in a text file that is the single
  source of truth. The disk is the stored file; an operation that writes takes how the write goes
  (\<open>write_outcome\<close>: the new modification time, or where the operating system refuses) and returns
  the disk after it. Writing is atomic: the file is replaced as a whole or not at all.
\<close>

section \<open>Definitions\<close>

record blacklist =
  bl_numbers :: "str set"
  bl_mtime :: int

datatype write_outcome =
    WriteOk int
  | MkstempFails
  | ReplaceFails

definition stat_mtime :: "str stored \<Rightarrow> int" where
  "stat_mtime disk = (case disk of None \<Rightarrow> 0 | Some (m, _) \<Rightarrow> m)"

definition bl_line :: "str \<Rightarrow> str option" where
  "bl_line line =
     (let stripped = strip line
      in if stripped = [] \<or> startswith stripped [35] then None else normalize_e164 stripped)"

definition bl_load :: "str stored \<Rightarrow> str set" where
  "bl_load disk =
     (case disk of
        None \<Rightarrow> {}
      | Some (_, content) \<Rightarrow> set (List.map_filter bl_line (text_lines content)))"

definition new_blacklist :: "str stored \<Rightarrow> blacklist" where
  "new_blacklist disk = \<lparr>bl_numbers = bl_load disk, bl_mtime = stat_mtime disk\<rparr>"

definition bl_maybe_reload :: "str stored \<Rightarrow> blacklist \<Rightarrow> blacklist" where
  "bl_maybe_reload disk b =
     (if stat_mtime disk = bl_mtime b then b
      else b\<lparr>bl_numbers := bl_load disk, bl_mtime := stat_mtime disk\<rparr>)"

definition bl_reload :: "str stored \<Rightarrow> blacklist \<Rightarrow> blacklist" where
  "bl_reload disk b = b\<lparr>bl_numbers := bl_load disk, bl_mtime := stat_mtime disk\<rparr>"

definition bl_contains :: "str stored \<Rightarrow> str \<Rightarrow> blacklist \<Rightarrow> bool \<times> blacklist" where
  "bl_contains disk number b =
     (let norm = normalize_e164 number; b' = bl_maybe_reload disk b
      in (case norm of None \<Rightarrow> False | Some n \<Rightarrow> n \<in> bl_numbers b', b'))"

text \<open>The text of the file: two comment lines, then the numbers in order, one per line.\<close>
definition bl_render :: "str \<Rightarrow> str set \<Rightarrow> str" where
  "bl_render stamp numbers =
     concat (map (\<lambda>l. l @ [10])
       ([S ''# SimBridge blacklist '' @ [8212] @ S '' auto-generated'',
         S ''# Last updated: '' @ stamp] @ sorted_list_of_set numbers))"

text \<open>
  \<open>_write\<close>. When \<open>mkstemp\<close> itself fails, the handler reads \<open>tmp_path\<close> before any assignment to
  it, so the error that leaves the handler is \<open>UnboundLocalError\<close>.
\<close>
definition bl_write ::
    "write_outcome \<Rightarrow> str \<Rightarrow> str stored \<Rightarrow> blacklist \<Rightarrow> (http_error + unit) \<times> str stored \<times> blacklist" where
  "bl_write w stamp disk b =
     (case w of
        WriteOk m \<Rightarrow> (Inr (), Some (m, bl_render stamp (bl_numbers b)), b\<lparr>bl_mtime := m\<rparr>)
      | MkstempFails \<Rightarrow> (Inl (Unhandled (S ''UnboundLocalError'')), disk, b)
      | ReplaceFails \<Rightarrow> (Inl (Unhandled (S ''OSError'')), disk, b))"

definition bl_block ::
    "write_outcome \<Rightarrow> str \<Rightarrow> str stored \<Rightarrow> str \<Rightarrow> blacklist
     \<Rightarrow> (http_error + bool) \<times> str stored \<times> blacklist" where
  "bl_block w stamp disk number b =
     (case normalize_e164 number of
        None \<Rightarrow> (Inr False, disk, b)
      | Some norm \<Rightarrow>
          let b1 = bl_maybe_reload disk b
          in if norm \<in> bl_numbers b1 then (Inr False, disk, b1)
             else case bl_write w stamp disk (b1\<lparr>bl_numbers := insert norm (bl_numbers b1)\<rparr>) of
                    (Inl e, disk', b2) \<Rightarrow> (Inl e, disk', b2)
                  | (Inr _, disk', b2) \<Rightarrow> (Inr True, disk', b2))"

definition bl_unblock ::
    "write_outcome \<Rightarrow> str \<Rightarrow> str stored \<Rightarrow> str \<Rightarrow> blacklist
     \<Rightarrow> (http_error + bool) \<times> str stored \<times> blacklist" where
  "bl_unblock w stamp disk number b =
     (case normalize_e164 number of
        None \<Rightarrow> (Inr False, disk, b)
      | Some norm \<Rightarrow>
          let b1 = bl_maybe_reload disk b
          in if norm \<notin> bl_numbers b1 then (Inr False, disk, b1)
             else case bl_write w stamp disk (b1\<lparr>bl_numbers := bl_numbers b1 - {norm}\<rparr>) of
                    (Inl e, disk', b2) \<Rightarrow> (Inl e, disk', b2)
                  | (Inr _, disk', b2) \<Rightarrow> (Inr True, disk', b2))"

definition bl_list :: "str stored \<Rightarrow> blacklist \<Rightarrow> str list \<times> blacklist" where
  "bl_list disk b =
     (let b' = bl_maybe_reload disk b in (sorted_list_of_set (bl_numbers b'), b'))"

definition bl_count :: "str stored \<Rightarrow> blacklist \<Rightarrow> nat \<times> blacklist" where
  "bl_count disk b = (let b' = bl_maybe_reload disk b in (card (bl_numbers b'), b'))"

section \<open>Lemmas\<close>

text \<open>What every blacklist holds: finitely many numbers in E.164 form.\<close>
definition numbers_wf :: "str set \<Rightarrow> bool" where
  "numbers_wf N \<longleftrightarrow> finite N \<and> (\<forall>n \<in> N. e164_form n)"

lemma numbers_wf_load [simp]: "numbers_wf (bl_load disk)"
proof -
  have "bl_line l = Some n \<Longrightarrow> e164_form n" for l n
    by (auto simp: bl_line_def Let_def normalize_e164_form split: if_splits)
  then show ?thesis
    by (auto simp: numbers_wf_def bl_load_def set_map_filter_iff split: option.splits)
qed

lemma numbers_wf_insert [simp]: "e164_form n \<Longrightarrow> numbers_wf (insert n N) \<longleftrightarrow> numbers_wf N"
  by (auto simp: numbers_wf_def)

lemma numbers_wf_diff [intro]: "numbers_wf N \<Longrightarrow> numbers_wf (N - M)"
  by (auto simp: numbers_wf_def)

lemma numbers_wf_maybe_reload [intro]:
  "numbers_wf (bl_numbers b) \<Longrightarrow> numbers_wf (bl_numbers (bl_maybe_reload disk b))"
  by (simp add: bl_maybe_reload_def)

lemma e164_form_line:
  assumes "e164_form n"
  shows "10 \<notin> set n" "13 \<notin> set n" "bl_line n = Some n"
proof -
  obtain ds where n: "n = 43 # ds" and ds: "decimals ds" using assms by (auto simp: e164_form_def)
  then show "10 \<notin> set n" "13 \<notin> set n" by (auto simp: decimals_def dest: decimal_ge_48)
  show "bl_line n = Some n"
    using assms n ds by (simp add: bl_line_def Let_def normalize_e164_fixes_form)
qed

lemma bl_line_comment: "bl_line (S (CHR ''#'' # t) @ u) = None"
proof -
  have "S (CHR ''#'' # t) @ u = 35 # (S t @ u)" by (simp add: S_def)
  moreover have "startswith (strip (35 # v)) [35]" for v
  proof -
    have "lstrip (35 # v) = 35 # v" by (simp add: lstrip_def is_space_def space_points_def)
    moreover have "dropWhile is_space (rev v @ [35]) \<noteq> []"
      "last (dropWhile is_space (rev v @ [35])) = 35"
      by (induction "rev v" rule: rev_induct)
        (auto simp: is_space_def space_points_def dropWhile_append)
    ultimately show ?thesis by (simp add: strip_def rstrip_def hd_rev)
  qed
  ultimately show ?thesis by (simp add: bl_line_def Let_def)
qed

lemma bl_load_render:
  assumes N: "numbers_wf N" and stamp: "10 \<notin> set stamp" "13 \<notin> set stamp"
  shows "bl_load (Some (m, bl_render stamp N)) = N"
proof -
  let ?h1 = "S ''# SimBridge blacklist '' @ [8212] @ S '' auto-generated''"
  let ?h2 = "S ''# Last updated: '' @ stamp"
  have nums: "set (sorted_list_of_set N) = N" using N by (simp add: numbers_wf_def)
  have "text_lines (bl_render stamp N) = [?h1, ?h2] @ sorted_list_of_set N"
    unfolding bl_render_def
  proof (rule text_lines_concat)
    show "\<forall>l \<in> set ([?h1, ?h2] @ sorted_list_of_set N). 10 \<notin> set l \<and> 13 \<notin> set l"
      using N stamp nums e164_form_line(1,2) by (auto simp: S_def numbers_wf_def)
  qed
  moreover have "bl_line ?h1 = None" "bl_line ?h2 = None"
    using bl_line_comment [of "'' SimBridge blacklist ''"] bl_line_comment [of "'' Last updated: ''"]
    by simp_all
  moreover have "bl_line n = Some n" if "n \<in> N" for n
    using that N by (simp add: numbers_wf_def e164_form_line)
  ultimately have "y \<in> bl_load (Some (m, bl_render stamp N)) \<longleftrightarrow> y \<in> N" for y
    using nums by (auto simp: bl_load_def set_map_filter_iff)
  then show ?thesis by blast
qed

text \<open>The manager agrees with the disk it last read or wrote.\<close>
definition bl_synced :: "str stored \<Rightarrow> blacklist \<Rightarrow> bool" where
  "bl_synced disk b \<longleftrightarrow> bl_mtime b = stat_mtime disk \<and> bl_numbers b = bl_load disk"

lemma bl_synced_new [simp]: "bl_synced disk (new_blacklist disk)"
  by (simp add: bl_synced_def new_blacklist_def)

lemma bl_maybe_reload_synced [simp]: "bl_synced disk b \<Longrightarrow> bl_maybe_reload disk b = b"
  by (simp add: bl_maybe_reload_def bl_synced_def)

lemma bl_maybe_reload_changed:
  "stat_mtime disk \<noteq> bl_mtime b \<Longrightarrow> bl_synced disk (bl_maybe_reload disk b)"
  by (simp add: bl_maybe_reload_def bl_synced_def)

lemma bl_write_ok_synced:
  "numbers_wf (bl_numbers b) \<Longrightarrow> 10 \<notin> set stamp \<Longrightarrow> 13 \<notin> set stamp \<Longrightarrow>
     bl_write (WriteOk m) stamp disk b = (Inr (), disk', b') \<Longrightarrow> bl_synced disk' b'"
  by (auto simp: bl_write_def bl_synced_def stat_mtime_def bl_load_render)

lemma bl_block_synced:
  assumes "bl_synced disk b" and "normalize_e164 number = Some n" and "10 \<notin> set stamp" and "13 \<notin> set stamp"
    and "bl_block (WriteOk m) stamp disk number b = (r, disk', b')"
  shows "r = Inr (n \<notin> bl_numbers b)" and "bl_synced disk' b'" and "bl_numbers b' = insert n (bl_numbers b)"
proof -
  let ?b = "b\<lparr>bl_numbers := insert n (bl_numbers b)\<rparr>"
  have "numbers_wf (bl_numbers b)" using assms(1) by (simp add: bl_synced_def)
  then have wf: "numbers_wf (insert n (bl_numbers b))"
    using assms(2) by (simp add: normalize_e164_form)
  obtain disk2 b2 where w: "bl_write (WriteOk m) stamp disk ?b = (Inr (), disk2, b2)"
    by (simp add: bl_write_def)
  have "bl_synced disk2 b2" using bl_write_ok_synced [OF _ assms(3,4) w] wf by simp
  moreover have "bl_numbers b2 = insert n (bl_numbers b)" using w by (auto simp: bl_write_def)
  ultimately show "r = Inr (n \<notin> bl_numbers b)" and "bl_synced disk' b'" and "bl_numbers b' = insert n (bl_numbers b)"
    using assms(1,2,5) w by (auto simp: bl_block_def Let_def split: if_splits)
qed

section \<open>Properties\<close>

text \<open>C32: a successful block is durable and complete: the number, in any spelling with the same
  normal form, is then found, a manager started afresh from the file on disk finds exactly the
  old numbers and the new one, and memory and disk agree.\<close>
theorem block_is_durable:
  assumes "bl_synced disk b" and "normalize_e164 number = Some n" and "n \<notin> bl_numbers b"
    and "10 \<notin> set stamp" and "13 \<notin> set stamp"
  shows "\<exists>disk' b'. bl_block (WriteOk m) stamp disk number b = (Inr True, disk', b')
     \<and> bl_synced disk' b'
     \<and> bl_numbers (new_blacklist disk') = insert n (bl_numbers b)
     \<and> (\<forall>spelling. normalize_e164 spelling = Some n \<longrightarrow> fst (bl_contains disk' spelling b'))"
proof -
  obtain r disk' b' where b: "bl_block (WriteOk m) stamp disk number b = (r, disk', b')"
    by (rule prod_cases3)
  note facts = bl_block_synced [OF assms(1,2,4,5) b]
  moreover from facts have "bl_numbers (new_blacklist disk') = insert n (bl_numbers b)"
    by (simp add: new_blacklist_def bl_synced_def)
  moreover have "normalize_e164 spelling = Some n \<longrightarrow> fst (bl_contains disk' spelling b')" for spelling
    using facts by (simp add: bl_contains_def Let_def)
  ultimately show ?thesis using b assms(3) by auto
qed

lemma sample_number_normal: "normalize_e164 (S ''+79261234555'') = Some (S ''+79261234555'')"
  by (simp add: S_def normalize_e164_def strip_def lstrip_def rstrip_def is_space_def
      space_points_def digits_of_def e164_match_def digits_to_end_def)

theorem block_is_durable_witness:
  "\<exists>disk' b'. bl_block (WriteOk 5) (S ''now'') None (S ''+79261234555'') (new_blacklist None)
       = (Inr True, disk', b') \<and> bl_numbers (new_blacklist disk') = {S ''+79261234555''}"
proof -
  have "bl_numbers (new_blacklist None) = {}" by (simp add: new_blacklist_def bl_load_def)
  with block_is_durable [OF bl_synced_new sample_number_normal, of None "S ''now''" 5]
  show ?thesis by (auto simp: S_def)
qed

text \<open>Blocking and then unblocking a number gives back the numbers there were, in memory and
  on disk.\<close>
theorem unblock_undoes_block:
  assumes "bl_synced disk b" and "normalize_e164 number = Some n" and "n \<notin> bl_numbers b"
    and "10 \<notin> set stamp" and "13 \<notin> set stamp"
    and "bl_block (WriteOk m) stamp disk number b = (Inr True, disk1, b1)"
  shows "\<exists>disk2 b2. bl_unblock (WriteOk m') stamp disk1 number b1 = (Inr True, disk2, b2)
     \<and> bl_numbers b2 = bl_numbers b \<and> bl_load disk2 = bl_load disk"
proof -
  have wf: "numbers_wf (bl_numbers b)" using assms(1) by (simp add: bl_synced_def)
  have form: "e164_form n" using assms(2) by (rule normalize_e164_form)
  have w1: "bl_write (WriteOk m) stamp disk (b\<lparr>bl_numbers := insert n (bl_numbers b)\<rparr>) = (Inr (), disk1, b1)"
    using assms(1-3,6) by (auto simp: bl_block_def Let_def bl_write_def)
  then have 1: "bl_numbers b1 = insert n (bl_numbers b)" by (auto simp: bl_write_def)
  have 2: "bl_synced disk1 b1" using bl_write_ok_synced [OF _ assms(4,5) w1] wf form by simp
  let ?b2 = "b1\<lparr>bl_numbers := bl_numbers b1 - {n}\<rparr>"
  obtain disk2 b2 where w: "bl_write (WriteOk m') stamp disk1 ?b2 = (Inr (), disk2, b2)"
    by (simp add: bl_write_def)
  have undone: "bl_numbers b1 - {n} = bl_numbers b" using 1 assms(3) by auto
  have "bl_synced disk2 b2"
    by (rule bl_write_ok_synced [OF _ assms(4,5) w]) (simp add: wf undone)
  moreover have "bl_numbers b2 = bl_numbers b1 - {n}" using w by (auto simp: bl_write_def)
  then have "bl_numbers b2 = bl_numbers b" by (simp only: undone)
  moreover have "bl_unblock (WriteOk m') stamp disk1 number b1 = (Inr True, disk2, b2)"
    using 1 2 assms(2) w by (simp add: bl_unblock_def Let_def)
  ultimately show ?thesis using assms(1) by (auto simp: bl_synced_def)
qed

theorem unblock_undoes_block_witness:
  "\<exists>disk1 b1 disk2 b2.
     bl_block (WriteOk 5) (S ''now'') None (S ''+79261234555'') (new_blacklist None) = (Inr True, disk1, b1)
     \<and> bl_unblock (WriteOk 6) (S ''now'') disk1 (S ''+79261234555'') b1 = (Inr True, disk2, b2)
     \<and> bl_load disk2 = {}"
proof -
  have none: "bl_numbers (new_blacklist None) = {}" "bl_load None = {}"
    by (simp_all add: new_blacklist_def bl_load_def)
  obtain disk1 b1 where b: "bl_block (WriteOk 5) (S ''now'') None (S ''+79261234555'') (new_blacklist None)
      = (Inr True, disk1, b1)"
    by (simp add: bl_block_def bl_write_def sample_number_normal none Let_def)
  have "10 \<notin> set (S ''now'')" "13 \<notin> set (S ''now'')" by (auto simp: S_def)
  from unblock_undoes_block [OF bl_synced_new sample_number_normal _ this b, of 6] none b
  show ?thesis by auto
qed

text \<open>When the write fails, the request ends in an error and the file is unchanged, but the
  number stays in memory: a later block of the same number reports it as already present without
  writing, so the dialplan, which reads the file, never sees it.\<close>
theorem failed_write_hides_block:
  assumes "bl_synced disk b" and "normalize_e164 number = Some n" and "n \<notin> bl_numbers b"
    and "w = MkstempFails \<or> w = ReplaceFails"
  shows "\<exists>e b'. bl_block w stamp disk number b = (Inl e, disk, b')
     \<and> bl_block (WriteOk m) stamp disk number b' = (Inr False, disk, b')
     \<and> n \<notin> bl_load disk"
proof -
  let ?b = "b\<lparr>bl_numbers := insert n (bl_numbers b)\<rparr>"
  have "\<exists>e. bl_block w stamp disk number b = (Inl e, disk, ?b)"
    using assms by (auto simp: bl_block_def Let_def bl_write_def)
  moreover have "bl_maybe_reload disk ?b = ?b"
    using assms(1) by (simp add: bl_maybe_reload_def bl_synced_def)
  then have "bl_block (WriteOk m) stamp disk number ?b = (Inr False, disk, ?b)"
    using assms(2) by (simp add: bl_block_def Let_def)
  moreover have "n \<notin> bl_load disk" using assms(1,3) by (simp add: bl_synced_def)
  ultimately show ?thesis by blast
qed

theorem failed_write_hides_block_witness:
  "\<exists>e b'. bl_block ReplaceFails [] None (S ''+79261234555'') (new_blacklist None) = (Inl e, None, b')
     \<and> bl_block (WriteOk 1) [] None (S ''+79261234555'') b' = (Inr False, None, b')"
  using failed_write_hides_block [OF bl_synced_new sample_number_normal, of None ReplaceFails "[]" 1]
  by (auto simp: new_blacklist_def bl_load_def)

end
