(* ===== verification/Agi.thy ===== *)
theory Agi
  imports Bridge Blacklist
begin

text \<open>
  The scripts Asterisk runs from the dialplan: \<open>scripts/tg-blacklist-agi.py\<close>, \<open>scripts/tg-sms-agi.py\<close> and
  \<open>scripts/notify-agent-agi.py\<close>. They talk to the daemon over standard input and output, one
  request and one response at a time, and to the two nodes over HTTP.

  A session is the lines still to be read (each with its terminator; a read at the end of the input
  gives the empty string) and the text written so far. The other end of a request is a function
  from requests to what \<open>urllib\<close> makes of the reply: a response of the status with its JSON body
  (\<open>None\<close> when it is none, with the text of the parser's error), an \<open>HTTPError\<close> with its code and
  text, or any other exception with its text.
\<close>

section \<open>The protocol\<close>

record agi =
  io_in :: "str list"
  io_out :: str

definition say :: "str \<Rightarrow> agi \<Rightarrow> agi" where
  "say s io = io\<lparr>io_out := io_out io @ s\<rparr>"

definition hear :: "agi \<Rightarrow> str \<times> agi" where
  "hear io = (case io_in io of [] \<Rightarrow> ([], io) | l # ls \<Rightarrow> (l, io\<lparr>io_in := ls\<rparr>))"

text \<open>\<open>line.rstrip("\r\n")\<close>\<close>
definition rstrip_crlf :: "str \<Rightarrow> str" where
  "rstrip_crlf s = rev (dropWhile (\<lambda>c. c = 10 \<or> c = 13) (rev s))"

text \<open>\<open>line.partition(": ")\<close> for a line that contains the separator.\<close>
fun partition_colon :: "str \<Rightarrow> (str \<times> str) option" where
  "partition_colon (a # b # cs) =
     (if a = 58 \<and> b = 32 then Some ([], cs)
      else map_option (\<lambda>(k, v). (a # k, v)) (partition_colon (b # cs)))"
| "partition_colon _ = None"

fun read_env :: "str list \<Rightarrow> (str, str) dict \<Rightarrow> (str, str) dict \<times> str list" where
  "read_env [] env = (env, [])"
| "read_env (raw # ls) env =
     (let line = rstrip_crlf raw
      in if line = [] then (env, ls)
         else read_env ls (case partition_colon line of None \<Rightarrow> env | Some (k, v) \<Rightarrow> dput k v env))"

definition read_agi_env :: "agi \<Rightarrow> (str, str) dict \<times> agi" where
  "read_agi_env io = (case read_env (io_in io) [] of (env, ls) \<Rightarrow> (env, io\<lparr>io_in := ls\<rparr>))"

definition VALUE_PREFIX :: str where
  "VALUE_PREFIX = S ''200 result=1 (''"

definition variable_value :: "str \<Rightarrow> str" where
  "variable_value line =
     (if startswith line VALUE_PREFIX \<and> line \<noteq> [] \<and> last line = 41
      then drop (length VALUE_PREFIX) (butlast line) else [])"

definition agi_get_variable :: "string \<Rightarrow> agi \<Rightarrow> str \<times> agi" where
  "agi_get_variable name io =
     (case hear (say (S ''GET VARIABLE '' @ S name @ [10]) io) of
        (line, io') \<Rightarrow> (variable_value (rstrip_crlf line), io'))"

text \<open>\<open>notify-agent-agi.py\<close> strips all white space from the response instead.\<close>
definition agi_get_variable_stripped :: "string \<Rightarrow> agi \<Rightarrow> str \<times> agi" where
  "agi_get_variable_stripped name io =
     (case hear (say (S ''GET VARIABLE '' @ S name @ [10]) io) of
        (line, io') \<Rightarrow> (variable_value (strip line), io'))"

text \<open>The final response, with the empty line that ends the session.\<close>
definition respond :: "str \<Rightarrow> agi \<Rightarrow> agi" where
  "respond status = say (S ''200 '' @ status @ [10, 10])"

definition or_default :: "str \<Rightarrow> string \<Rightarrow> str" where
  "or_default v dflt = (if v = [] then S dflt else v)"

section \<open>The daemon's responses\<close>

text \<open>What the daemon answers to \<open>GET VARIABLE\<close>: the value in literal parentheses, or no value.\<close>
fun var_reply :: "str option \<Rightarrow> str" where
  "var_reply (Some v) = VALUE_PREFIX @ v @ [41, 10]"
| "var_reply None = S ''200 result=0'' @ [10]"

text \<open>A value without line breaks at its ends arrives unchanged.\<close>
lemma rstrip_crlf_reply: "rstrip_crlf (var_reply (Some v)) = VALUE_PREFIX @ v @ [41]"
  by (simp add: rstrip_crlf_def)

lemma variable_value_reply [simp]: "variable_value (VALUE_PREFIX @ v @ [41]) = v"
  by (simp add: variable_value_def startswith_def butlast_append)

lemma variable_value_unset: "variable_value (rstrip_crlf (var_reply None)) = []"
  by (simp add: variable_value_def rstrip_crlf_def VALUE_PREFIX_def startswith_def S_def)

declare var_reply.simps [simp del]

definition value_or_empty :: "str option \<Rightarrow> str" where
  "value_or_empty v = (case v of None \<Rightarrow> [] | Some s \<Rightarrow> s)"

lemma get_variable_reply [simp]:
  "agi_get_variable name \<lparr>io_in = var_reply v # ls, io_out = out\<rparr>
     = (value_or_empty v, \<lparr>io_in = ls, io_out = out @ S ''GET VARIABLE '' @ S name @ [10]\<rparr>)"
  by (cases v) (simp_all add: agi_get_variable_def hear_def say_def value_or_empty_def
      variable_value_unset rstrip_crlf_reply)

section \<open>HTTP\<close>

datatype url_reply =
    UrlOk nat "json option" str
  | UrlError nat str
  | UrlFails str

type_synonym url_network = "http_request \<Rightarrow> url_reply"

text \<open>\<open>url.rstrip("/")\<close>\<close>
definition rstrip_slash :: "str \<Rightarrow> str" where
  "rstrip_slash url = rev (dropWhile (\<lambda>c. c = 47) (rev url))"

definition json_request :: "str \<Rightarrow> (str \<times> str) list \<Rightarrow> str \<Rightarrow> json \<Rightarrow> http_request" where
  "json_request url headers path payload =
     \<lparr>hr_url = rstrip_slash url @ path, hr_body = Some payload,
      hr_headers = (S ''Content-Type'', S ''application/json'') # headers\<rparr>"

text \<open>\<open>post_json\<close> of \<open>tg-sms-agi.py\<close>.\<close>
definition post_result :: "url_reply \<Rightarrow> bool \<times> str" where
  "post_result r =
     (case r of
        UrlOk code _ _ \<Rightarrow> (success code, S ''HTTP '' @ nat_text code)
      | UrlError _ e \<Rightarrow> (False, e)
      | UrlFails e \<Rightarrow> (False, e))"

text \<open>\<open>post_json\<close> of \<open>notify-agent-agi.py\<close>: the status, the body and the detail.\<close>
definition post_status :: "url_reply \<Rightarrow> nat \<times> json \<times> str" where
  "post_status r =
     (case r of
        UrlOk code (Some body) _ \<Rightarrow> (code, body, S ''ok'')
      | UrlOk _ None e \<Rightarrow> (0, JObj [], e)
      | UrlError code _ \<Rightarrow> (code, JObj [], S ''HTTP '' @ nat_text code)
      | UrlFails e \<Rightarrow> (0, JObj [], e))"

section \<open>The blacklist check\<close>

text \<open>\<open>is_blacklisted\<close>: a fresh manager on the file; \<open>Inl\<close> is an exception of the import or of the
  file system.\<close>
definition is_blacklisted :: "(str \<Rightarrow> unit + str stored) \<Rightarrow> str \<Rightarrow> str \<Rightarrow> unit + bool" where
  "is_blacklisted files caller path =
     (case files path of
        Inl e \<Rightarrow> Inl e
      | Inr disk \<Rightarrow> Inr (fst (bl_contains disk caller (new_blacklist disk))))"

definition blacklist_agi :: "(str \<Rightarrow> unit + str stored) \<Rightarrow> agi \<Rightarrow> agi" where
  "blacklist_agi files io =
     (let (_, io1) = read_agi_env io;
          (caller, io2) = agi_get_variable ''CALLER'' io1;
          (path, io3) = agi_get_variable ''BL_PATH'' io2;
          blocked = (caller \<noteq> [] \<and> path \<noteq> [] \<and> is_blacklisted files caller path = Inr True);
          io4 = say (S ''SET VARIABLE BL_BLOCKED '' @ (if blocked then S ''1'' else S ''0'') @ [10]) io3;
          (_, io5) = hear io4
      in respond (if blocked then S ''blocked'' else S ''ok'') io5)"

section \<open>Incoming SMS and delivery reports\<close>

text \<open>What a script leaves behind: the session, the requests it made and its exit status, \<open>None\<close> for
  an exception that leaves \<open>main\<close>.\<close>
record agi_run =
  run_io :: agi
  run_posts :: "http_request list"
  run_exit :: "nat option"

definition finish :: "str \<Rightarrow> http_request list \<Rightarrow> agi \<Rightarrow> agi_run" where
  "finish status posts io = \<lparr>run_io = respond status io, run_posts = posts, run_exit = Some 0\<rparr>"

definition refuse_usage :: "str \<Rightarrow> agi \<Rightarrow> agi_run" where
  "refuse_usage status io = \<lparr>run_io = respond status io, run_posts = [], run_exit = Some 1\<rparr>"

text \<open>\<open>re.fullmatch(r"[0-9a-f]{32}", text)\<close>\<close>
definition is_sms_id :: "str \<Rightarrow> bool" where
  "is_sms_id t \<longleftrightarrow> length t = 32 \<and> list_all (\<lambda>c. (48 \<le> c \<and> c \<le> 57) \<or> (97 \<le> c \<and> c \<le> 102)) t"

definition sms_payload :: "str \<Rightarrow> str \<Rightarrow> str \<Rightarrow> json" where
  "sms_payload sender text modem =
     JObj [(S ''phone_number'', JStr sender), (S ''text'', JStr text), (S ''modem_id'', JStr modem)]"

definition environ_or :: "(str \<Rightarrow> str option) \<Rightarrow> string \<Rightarrow> str" where
  "environ_or environ name = (case environ (S name) of None \<Rightarrow> [] | Some v \<Rightarrow> v)"

definition report_agi ::
    "(str \<Rightarrow> str option) \<Rightarrow> url_network \<Rightarrow> str \<Rightarrow> str \<Rightarrow> agi \<Rightarrow> agi_run" where
  "report_agi environ net sender modem io =
     (let (text, io1) = agi_get_variable ''SMS_TEXT'' io
      in if text = []
         then finish (S ''skipped=empty text'') [] (snd (agi_get_variable ''SMS_REPORT_SUCCESS'' io1))
         else
           (let url = or_default (environ_or environ ''AGENT_URL'') ''http://127.0.0.1:8090'';
                auth = [bearer (environ_or environ ''SIMBRIDGE_AGENT_TOKEN'')];
                (ok_flag, io2) = agi_get_variable ''SMS_REPORT_SUCCESS'' io1
            in if ok_flag \<in> {S ''0'', S ''1''} \<and> is_sms_id text
               then
                 (let verdict = (if ok_flag = S ''1'' then S ''delivered'' else S ''failed'');
                      req = json_request url auth (S ''/v1/sms/'' @ text @ S ''/'' @ verdict) (JObj [])
                  in case post_result (net req) of
                       (True, _) \<Rightarrow> finish (S ''resolved='' @ verdict) [req] io2
                     | (False, detail) \<Rightarrow> finish (S ''error='' @ detail) [req] io2)
               else
                 (let req = json_request url auth (S ''/v1/sms/report'') (sms_payload sender text modem)
                  in case post_result (net req) of
                       (True, _) \<Rightarrow> finish (S ''forwarded'') [req] io2
                     | (False, detail) \<Rightarrow> finish (S ''error='' @ detail) [req] io2)))"

text \<open>The text to forward: for a ring it is made from the sender, else it is a channel variable.\<close>
definition forward_text :: "str \<Rightarrow> str \<Rightarrow> agi \<Rightarrow> str \<times> agi" where
  "forward_text event sender io =
     (if event = S ''ring'' then (if sender = [] then S ''RING'' else S ''RING '' @ sender, io)
      else agi_get_variable ''SMS_TEXT'' io)"

definition forward_agi ::
    "(str \<Rightarrow> str option) \<Rightarrow> url_network \<Rightarrow> str \<Rightarrow> str \<Rightarrow> str \<Rightarrow> agi \<Rightarrow> agi_run" where
  "forward_agi environ net event sender modem io =
     (let (text, io1) = forward_text event sender io;
          (url, io2) = agi_get_variable ''FWD_URL'' io1
      in if text = [] then finish (S ''skipped=empty text'') [] io2
         else
           (let req = json_request (or_default url ''http://127.0.0.1:8088'')
                  [(S ''X-SimBridge-Secret'', environ_or environ ''SIMBRIDGE_HTTP_SECRET'')]
                  (S ''/events/sms'') (sms_payload sender text modem)
            in case post_result (net req) of
                 (True, _) \<Rightarrow> finish (S ''forwarded'') [req] io2
               | (False, detail) \<Rightarrow> finish (S ''error='' @ detail) [req] io2))"

text \<open>\<open>main\<close> with the arguments after the program's name; \<open>py_repr\<close> is \<open>repr\<close>.\<close>
definition sms_agi ::
    "(json \<Rightarrow> str) \<Rightarrow> (str \<Rightarrow> str option) \<Rightarrow> url_network \<Rightarrow> str list \<Rightarrow> agi \<Rightarrow> agi_run" where
  "sms_agi py_repr environ net args io =
     (let io1 = snd (read_agi_env io)
      in case args of
           [] \<Rightarrow> refuse_usage (S ''error=usage: tg-sms-agi.py <sms|report>'') io1
         | event # _ \<Rightarrow>
             if event \<notin> {S ''sms'', S ''report'', S ''ring'', S ''ussd''}
             then refuse_usage (S ''error=unknown event '' @ py_repr (JStr event)) io1
             else
               (let (sender, io2) = agi_get_variable ''SMS_FROM'' io1;
                    (modem, io3) = agi_get_variable ''MODEM_ID'' io2;
                    modem_id = or_default modem ''gsm''
                in if event = S ''report'' then report_agi environ net sender modem_id io3
                   else forward_agi environ net event sender modem_id io3))"

section \<open>Call events\<close>

definition DIALSTATUS_TO_STATUS :: "(str, str) dict" where
  "DIALSTATUS_TO_STATUS =
     [(S ''ANSWERED'', S ''answered''), (S ''NOANSWER'', S ''no_answer''), (S ''BUSY'', S ''busy''),
      (S ''CANCEL'', S ''cancelled''), ([], S ''ended''), (S ''ENDED'', S ''ended'')]"

definition dial_outcome :: "str \<Rightarrow> str" where
  "dial_outcome raw = (case dget DIALSTATUS_TO_STATUS raw of None \<Rightarrow> S ''failed'' | Some s \<Rightarrow> s)"

definition agent_request ::
    "(str \<Rightarrow> str option) \<Rightarrow> str \<Rightarrow> json \<Rightarrow> http_request" where
  "agent_request environ path payload =
     (let token = environ_or environ ''SIMBRIDGE_AGENT_TOKEN''
      in json_request (case environ (S ''AGENT_URL'') of None \<Rightarrow> S ''http://127.0.0.1:8090'' | Some u \<Rightarrow> u)
           (if token = [] then [] else [bearer token]) path payload)"

text \<open>\<open>str(data.get("call_id", ""))\<close>; \<open>None\<close> is the \<open>AttributeError\<close> of a body that is no object.\<close>
definition body_call_id :: "(json \<Rightarrow> str) \<Rightarrow> json \<Rightarrow> str option" where
  "body_call_id py_repr body =
     (case body of
        JObj d \<Rightarrow> Some (case dget d (S ''call_id'') of None \<Rightarrow> [] | Some v \<Rightarrow> py_str py_repr v)
      | _ \<Rightarrow> None)"

text \<open>A successful registration sets the channel variable the dialplan and the final report need.\<close>
definition set_call_id :: "str \<Rightarrow> agi \<Rightarrow> agi" where
  "set_call_id call_id io =
     (if call_id = [] then io else snd (hear (say (S ''SET VARIABLE CALL_ID '' @ call_id @ [10]) io)))"

definition registered ::
    "(json \<Rightarrow> str) \<Rightarrow> string \<Rightarrow> http_request \<Rightarrow> json \<Rightarrow> agi \<Rightarrow> agi_run" where
  "registered py_repr word req body io =
     (case body_call_id py_repr body of
        None \<Rightarrow> \<lparr>run_io = io, run_posts = [req], run_exit = None\<rparr>
      | Some call_id \<Rightarrow> finish (S word) [req] (set_call_id call_id io))"

definition incoming_agi ::
    "(json \<Rightarrow> str) \<Rightarrow> (str \<Rightarrow> str option) \<Rightarrow> url_network \<Rightarrow> str \<Rightarrow> str list \<Rightarrow> agi \<Rightarrow> agi_run" where
  "incoming_agi py_repr environ net channel args io =
     (case args of
        [] \<Rightarrow> refuse_usage (S ''error=usage: notify-agent-agi.py incoming <phone>'') io
      | phone # _ \<Rightarrow>
          (let req = agent_request environ (S ''/v1/call/incoming'')
                 (JObj [(S ''phone_number'', JStr phone), (S ''gsm_channel_id'', JStr channel)])
           in case post_status (net req) of
                (status, body, detail) \<Rightarrow>
                  if status = 200 then registered py_repr ''registered'' req body io
                  else finish (S ''error='' @ detail) [req] io))"

definition accepted_agi ::
    "(json \<Rightarrow> str) \<Rightarrow> (str \<Rightarrow> str option) \<Rightarrow> url_network \<Rightarrow> str \<Rightarrow> agi \<Rightarrow> agi_run" where
  "accepted_agi py_repr environ net channel io =
     (let req = agent_request environ (S ''/v1/call/outgoing/accepted'')
            (JObj [(S ''bridge_channel_id'', JStr channel)])
      in case post_status (net req) of
           (status, body, detail) \<Rightarrow>
             if status = 200 then registered py_repr ''accepted'' req body io
             else if status = 404 then finish (S ''skipped=not_found'') [req] io
             else finish (S ''error='' @ detail) [req] io)"

definition complete_request :: "(str \<Rightarrow> str option) \<Rightarrow> str \<Rightarrow> str \<Rightarrow> http_request" where
  "complete_request environ call_id raw =
     agent_request environ (S ''/v1/call/'' @ call_id @ S ''/complete'')
       (JObj [(S ''status'', JStr (dial_outcome raw)), (S ''dialstatus'', JStr raw)])"

definition complete_agi :: "(str \<Rightarrow> str option) \<Rightarrow> url_network \<Rightarrow> str list \<Rightarrow> agi \<Rightarrow> agi_run" where
  "complete_agi environ net args io =
     (let raw = (case args of [] \<Rightarrow> [] | a # _ \<Rightarrow> a);
          (call_id, io1) = agi_get_variable_stripped ''CALL_ID'' io
      in if call_id = [] then finish (S ''skipped=no_call_id'') [] io1
         else
           (let req = complete_request environ call_id raw
            in case post_status (net req) of
                 (status, _, detail) \<Rightarrow>
                   if status \<in> {200, 404} then finish (S ''ok='' @ dial_outcome raw) [req] io1
                   else finish (S ''error='' @ detail) [req] io1))"

definition notify_agi ::
    "(json \<Rightarrow> str) \<Rightarrow> (str \<Rightarrow> str option) \<Rightarrow> url_network \<Rightarrow> str list \<Rightarrow> agi \<Rightarrow> agi_run" where
  "notify_agi py_repr environ net args io =
     (let (env, io1) = read_agi_env io
      in case args of
           [] \<Rightarrow> refuse_usage (S ''error=usage: notify-agent-agi.py <event> [arg]'') io1
         | event # rest \<Rightarrow>
             (let channel = (case dget env (S ''agi_channel'') of None \<Rightarrow> [] | Some c \<Rightarrow> c)
              in if event = S ''incoming'' then incoming_agi py_repr environ net channel rest io1
                 else if event = S ''outgoing-accepted'' then accepted_agi py_repr environ net channel io1
                 else if event = S ''complete'' then complete_agi environ net rest io1
                 else finish (S ''error=unknown event '' @ py_repr (JStr event)) [] io1))"

end
