(* ===== verification/Voicemail.thy ===== *)
theory Voicemail
  imports Floats Agi
begin

text \<open>
  Voicemail forwarding: \<open>core/voicemail_forward.py\<close> and its two triggers, \<open>scripts/tg-voice-agi.py\<close> (the
  hangup handler of the dialplan) and \<open>scripts/sweep-recordings.py\<close> (a timer).

  \<open>ffprobe\<close> and \<open>ffmpeg\<close>, the contents of files, \<open>json.loads\<close>, the shortest text of a float and the
  server are parameters (\<open>tools\<close>). The state is the set of existing files and the requests made.
\<close>

section \<open>The world outside\<close>

text \<open>How \<open>subprocess.run\<close> ends: an \<open>OSError\<close> or \<open>SubprocessError\<close> (no such program, a timeout), output
  that is no text, or the return code with both outputs.\<close>
datatype proc =
    ProcRaises
  | ProcGarbled int
  | Proc int str str

record vm_request =
  vq_url :: str
  vq_type :: str
  vq_secret :: str
  vq_body :: "nat list"

text \<open>A response below 400, a \<open>URLError\<close> or \<open>OSError\<close> (an HTTP error among them), or any other
  exception with its name.\<close>
datatype vm_reply =
    VmStatus nat
  | VmFails str
  | VmRaises str

record tools =
  tl_run :: "str list \<Rightarrow> proc"
  tl_writes :: "str list \<Rightarrow> bool"
  tl_content :: "str \<Rightarrow> nat list"
  tl_json :: "str \<Rightarrow> json option"
  tl_repr :: "pyfloat \<Rightarrow> str"
  tl_net :: "vm_request \<Rightarrow> vm_reply"
  tl_boundary :: str

record vm =
  vm_files :: "str set"
  vm_posts :: "vm_request list"

section \<open>Bytes\<close>

definition encodable :: "str \<Rightarrow> bool" where
  "encodable s \<longleftrightarrow> list_all (\<lambda>c. c < 55296 \<or> (57344 \<le> c \<and> c < 1114112)) s"

definition utf8_cp :: "cp \<Rightarrow> nat list" where
  "utf8_cp c =
     (if c < 128 then [c]
      else if c < 2048 then [192 + c div 64, 128 + c mod 64]
      else if c < 65536 then [224 + c div 4096, 128 + c div 64 mod 64, 128 + c mod 64]
      else [240 + c div 262144, 128 + c div 4096 mod 64, 128 + c div 64 mod 64, 128 + c mod 64])"

text \<open>\<open>s.encode("utf-8")\<close>; a surrogate raises.\<close>
definition utf8 :: "str \<Rightarrow> http_error + nat list" where
  "utf8 s = (if encodable s then Inr (concat (map utf8_cp s)) else Inl (Unhandled (S ''UnicodeEncodeError'')))"

definition hex_upper :: "nat \<Rightarrow> nat" where
  "hex_upper n = (if n < 10 then 48 + n else 55 + n)"

definition unreserved :: "nat \<Rightarrow> bool" where
  "unreserved b \<longleftrightarrow> (65 \<le> b \<and> b \<le> 90) \<or> (97 \<le> b \<and> b \<le> 122) \<or> (48 \<le> b \<and> b \<le> 57)
     \<or> b \<in> {95, 46, 45, 126}"

definition quote_byte :: "nat \<Rightarrow> nat list" where
  "quote_byte b =
     (if unreserved b then [b] else if b = 32 then [43] else [37, hex_upper (b div 16), hex_upper (b mod 16)])"

definition quote_plus :: "nat list \<Rightarrow> nat list" where
  "quote_plus bs = concat (map quote_byte bs)"

fun join_bytes :: "nat \<Rightarrow> nat list list \<Rightarrow> nat list" where
  "join_bytes sep [] = []"
| "join_bytes sep [x] = x"
| "join_bytes sep (x # y # zs) = x @ [sep] @ join_bytes sep (y # zs)"

text \<open>\<open>urllib.parse.urlencode\<close> on encoded pairs.\<close>
definition urlencode :: "(nat list \<times> nat list) list \<Rightarrow> nat list" where
  "urlencode pairs = join_bytes 38 (map (\<lambda>(k, v). quote_plus k @ [61] @ quote_plus v) pairs)"

fun encode_fields :: "(str \<times> str) list \<Rightarrow> http_error + (nat list \<times> nat list) list" where
  "encode_fields [] = Inr []"
| "encode_fields ((k, v) # fs) =
     (case (utf8 k, utf8 v) of
        (Inr k', Inr v') \<Rightarrow> map_sum id (\<lambda>r. (k', v') # r) (encode_fields fs)
      | (Inl e, _) \<Rightarrow> Inl e
      | (_, Inl e) \<Rightarrow> Inl e)"

section \<open>Posting\<close>

definition vm_post :: "tools \<Rightarrow> vm_request \<Rightarrow> vm \<Rightarrow> (http_error + bool \<times> str) \<times> vm" where
  "vm_post tk rq v =
     (let v' = v\<lparr>vm_posts := vm_posts v @ [rq]\<rparr>
      in case tl_net tk rq of
           VmStatus code \<Rightarrow> (Inr (success code, S ''HTTP '' @ nat_text code), v')
         | VmFails e \<Rightarrow> (Inr (False, e), v')
         | VmRaises e \<Rightarrow> (Inl (Unhandled e), v'))"

record event_target =
  et_url :: str
  et_secret :: str

definition voicemail_request :: "event_target \<Rightarrow> str \<Rightarrow> nat list \<Rightarrow> vm_request" where
  "voicemail_request et ctype body =
     \<lparr>vq_url = rstrip_slash (et_url et) @ S ''/events/voicemail'', vq_type = ctype,
      vq_secret = et_secret et, vq_body = body\<rparr>"

definition post_form ::
    "tools \<Rightarrow> event_target \<Rightarrow> (str \<times> str) list \<Rightarrow> vm \<Rightarrow> (http_error + bool \<times> str) \<times> vm" where
  "post_form tk et pairs v =
     (case encode_fields pairs of
        Inl e \<Rightarrow> (Inl e, v)
      | Inr bs \<Rightarrow>
          vm_post tk (voicemail_request et (S ''application/x-www-form-urlencoded'') (urlencode bs)) v)"

definition EOL :: str where
  "EOL = [13, 10]"

definition part_header :: "str \<Rightarrow> str \<Rightarrow> str" where
  "part_header boundary key =
     S ''--'' @ boundary @ EOL @ S ''Content-Disposition: form-data; name='' @ [34] @ key @ [34]"

definition field_part :: "str \<Rightarrow> str \<times> str \<Rightarrow> str" where
  "field_part boundary kv = part_header boundary (fst kv) @ EOL @ EOL @ snd kv @ EOL"

definition basename :: "str \<Rightarrow> str" where
  "basename path = rev (takeWhile (\<lambda>c. c \<noteq> 47) (rev path))"

definition file_part :: "str \<Rightarrow> str \<Rightarrow> str" where
  "file_part boundary filepath =
     part_header boundary (S ''file'') @ S ''; filename='' @ [34] @ basename filepath @ [34] @ EOL
     @ S ''Content-Type: audio/ogg'' @ EOL @ EOL"

text \<open>The body of an upload; the texts are encoded part by part, the file is raw bytes.\<close>
definition multipart_body ::
    "str \<Rightarrow> (str \<times> str) list \<Rightarrow> str \<Rightarrow> nat list \<Rightarrow> http_error + nat list" where
  "multipart_body boundary pairs filepath content =
     (case (utf8 (concat (map (field_part boundary) pairs)), utf8 (file_part boundary filepath),
            utf8 (S ''--'' @ boundary @ S ''--'' @ EOL)) of
        (Inr a, Inr b, Inr c) \<Rightarrow> Inr (a @ b @ content @ EOL @ c)
      | (Inl e, _, _) \<Rightarrow> Inl e
      | (_, Inl e, _) \<Rightarrow> Inl e
      | (_, _, Inl e) \<Rightarrow> Inl e)"

text \<open>The parts are built in order, so an unencodable field raises before the file is opened.\<close>
definition post_multipart ::
    "tools \<Rightarrow> event_target \<Rightarrow> (str \<times> str) list \<Rightarrow> str \<Rightarrow> vm \<Rightarrow> (http_error + bool \<times> str) \<times> vm" where
  "post_multipart tk et pairs filepath v =
     (let boundary = S ''----simbridge'' @ tl_boundary tk
      in case utf8 (concat (map (field_part boundary) pairs)) of
           Inl e \<Rightarrow> (Inl e, v)
         | Inr _ \<Rightarrow>
             if filepath \<notin> vm_files v then (Inl (Unhandled (S ''FileNotFoundError'')), v)
             else
               (case multipart_body boundary pairs filepath (tl_content tk filepath) of
                  Inl e \<Rightarrow> (Inl e, v)
                | Inr body \<Rightarrow>
                    vm_post tk (voicemail_request et (S ''multipart/form-data; boundary='' @ boundary) body) v))"

section \<open>Measuring and converting\<close>

text \<open>\<open>os.path.splitext(path)[1].lower()\<close>\<close>
definition file_extension :: "str \<Rightarrow> str" where
  "file_extension path =
     (let base = basename path; ext = rev (takeWhile (\<lambda>c. c \<noteq> 46) (rev base));
          stem = take (length base - length ext - 1) base
      in if 46 \<in> set base \<and> list_ex (\<lambda>c. c \<noteq> 46) stem then lower (46 # ext) else [])"

definition raw_hint :: "string \<Rightarrow> str list" where
  "raw_hint fmt = map S [''-f'', fmt, ''-ar'', ''8000'', ''-channel_layout'', ''mono'']"

definition RAW_FORMAT_HINTS :: "(str, str list) dict" where
  "RAW_FORMAT_HINTS =
     [(S ''.ulaw'', raw_hint ''mulaw''), (S ''.gsm'', raw_hint ''gsm''), (S ''.sln'', raw_hint ''sln''),
      (S ''.slin'', raw_hint ''sln''), (S ''.alaw'', raw_hint ''alaw'')]"

definition ffprobe_duration :: "tools \<Rightarrow> str \<Rightarrow> pyfloat" where
  "ffprobe_duration tk path =
     (let hint = (case dget RAW_FORMAT_HINTS (file_extension path) of None \<Rightarrow> [] | Some h \<Rightarrow> h)
      in case tl_run tk (map S [''ffprobe'', ''-v'', ''error'', ''-show_entries'', ''format=duration'', ''-of'', ''csv=p=0'']
                          @ hint @ [path]) of
           Proc _ out _ \<Rightarrow>
             (let t = strip out
              in case float_of (if t = [] then S ''0'' else t) of Some d \<Rightarrow> d | None \<Rightarrow> Fin 0)
         | _ \<Rightarrow> Fin 0)"

text \<open>\<open>classify\<close>; \<open>int\<close> of an infinite or undefined speech time raises.\<close>
definition classify :: "pyfloat \<Rightarrow> pyfloat \<Rightarrow> int \<Rightarrow> http_error + str" where
  "classify duration prompt_duration early_max =
     (case float_int (float_minus duration prompt_duration) of
        Inl e \<Rightarrow> Inl (Unhandled e)
      | Inr n \<Rightarrow> Inr (if n < early_max then S ''early_hangup'' else S ''normal''))"

definition LOUDNORM :: str where
  "LOUDNORM = S ''loudnorm=I=-14:LRA=11:TP=-1.5''"

definition seek_args :: "pyfloat \<Rightarrow> str list" where
  "seek_args seek = (if float_less (Fin 0) seek then [S ''-ss'', fixed 3 seek] else [])"

text \<open>\<open>_ffmpeg\<close>: success is the return code 0 with the output file in place.\<close>
definition ffmpeg ::
    "tools \<Rightarrow> str \<Rightarrow> string \<Rightarrow> str \<Rightarrow> pyfloat \<Rightarrow> str \<Rightarrow> vm \<Rightarrow> bool \<times> vm" where
  "ffmpeg tk input codec output seek af v =
     (let cmd = [S ''ffmpeg'', S ''-y''] @ seek_args seek
            @ [S ''-i'', input, S ''-af'', af, S ''-ar'', S ''48000'', S ''-ac'', S ''1'',
               S ''-c:a'', S codec, S ''-b:a'', S ''32k'', output];
          v' = (if tl_writes tk cmd then v\<lparr>vm_files := insert output (vm_files v)\<rparr> else v)
      in (case tl_run tk cmd of
            ProcRaises \<Rightarrow> False
          | ProcGarbled code \<Rightarrow> code = 0 \<and> output \<in> vm_files v'
          | Proc code _ _ \<Rightarrow> code = 0 \<and> output \<in> vm_files v', v'))"

text \<open>\<open>re.findall(r"\{[^{}]*\}", text)\<close>\<close>
function brace_blocks :: "str \<Rightarrow> str list" where
  "brace_blocks [] = []"
| "brace_blocks (c # cs) =
     (if c = 123
      then (case dropWhile (\<lambda>x. x \<noteq> 123 \<and> x \<noteq> 125) cs of
              [] \<Rightarrow> []
            | x # rest \<Rightarrow>
                if x = 125 then (123 # takeWhile (\<lambda>x. x \<noteq> 123 \<and> x \<noteq> 125) cs @ [125]) # brace_blocks rest
                else brace_blocks (x # rest))
      else brace_blocks cs)"
  by pat_completeness auto
termination
proof (relation "measure length", goal_cases)
  case (2 c cs x rest)
  from arg_cong [OF this(2), of length] length_dropWhile_le [of "\<lambda>x. x \<noteq> 123 \<and> x \<noteq> 125" cs]
  show ?case by simp
next
  case (3 c cs x rest)
  from arg_cong [OF this(2), of length] length_dropWhile_le [of "\<lambda>x. x \<noteq> 123 \<and> x \<noteq> 125" cs]
  show ?case by simp
qed simp_all

record loudness =
  lo_i :: pyfloat
  lo_tp :: pyfloat
  lo_lra :: pyfloat
  lo_offset :: pyfloat

text \<open>\<open>float(v)\<close> of a parsed value; \<open>None\<close> is the \<open>TypeError\<close> or \<open>ValueError\<close>.\<close>
fun json_float :: "json option \<Rightarrow> pyfloat option" where
  "json_float (Some (JStr s)) = float_of s"
| "json_float (Some (JInt i)) = Some (Fin (of_int i))"
| "json_float (Some (JBool b)) = Some (Fin (if b then 1 else 0))"
| "json_float _ = None"

definition loudness_of :: "(str \<times> json) list \<Rightarrow> loudness option" where
  "loudness_of d =
     (case (json_float (dget d (S ''input_i'')), json_float (dget d (S ''input_tp'')),
            json_float (dget d (S ''input_lra'')), json_float (dget d (S ''target_offset''))) of
        (Some i, Some tp, Some lra, Some off) \<Rightarrow> Some \<lparr>lo_i = i, lo_tp = tp, lo_lra = lra, lo_offset = off\<rparr>
      | _ \<Rightarrow> None)"

text \<open>The first block that is an object with an \<open>input_i\<close> decides.\<close>
fun first_loudness :: "(str \<Rightarrow> json option) \<Rightarrow> str list \<Rightarrow> loudness option" where
  "first_loudness parse [] = None"
| "first_loudness parse (b # bs) =
     (case parse b of
        Some (JObj d) \<Rightarrow> if dget d (S ''input_i'') = None then first_loudness parse bs else loudness_of d
      | _ \<Rightarrow> first_loudness parse bs)"

definition measure_loudness :: "tools \<Rightarrow> str \<Rightarrow> pyfloat \<Rightarrow> http_error + loudness option" where
  "measure_loudness tk path seek =
     (case tl_run tk ([S ''ffmpeg'', S ''-hide_banner'', S ''-nostats''] @ seek_args seek
             @ [S ''-i'', path, S ''-af'', LOUDNORM @ S '':print_format=json'', S ''-f'', S ''null'', S ''-'']) of
        ProcRaises \<Rightarrow> Inr None
      | ProcGarbled _ \<Rightarrow> Inl (Unhandled (S ''UnicodeDecodeError''))
      | Proc _ _ err \<Rightarrow> Inr (first_loudness (tl_json tk) (brace_blocks err)))"

definition loudnorm_filter :: "loudness option \<Rightarrow> str" where
  "loudnorm_filter m =
     (case m of
        None \<Rightarrow> LOUDNORM
      | Some l \<Rightarrow>
          if \<not> (is_finite (lo_i l) \<and> is_finite (lo_lra l) \<and> is_finite (lo_tp l)) \<or> float_le (lo_i l) (Fin (- 70))
          then LOUDNORM
          else LOUDNORM @ S '':measured_I='' @ fixed 2 (lo_i l) @ S '':measured_LRA='' @ fixed 2 (lo_lra l)
                 @ S '':measured_TP='' @ fixed 2 (lo_tp l) @ S '':offset='' @ fixed 2 (lo_offset l)
                 @ S '':linear='' @ (if float_less (lo_tp l) (Fin (- 3 / 2)) then S ''true'' else S ''false''))"

definition endswith :: "str \<Rightarrow> str \<Rightarrow> bool" where
  "endswith s t \<longleftrightarrow> length t \<le> length s \<and> drop (length s - length t) s = t"

definition temp_base :: "str \<Rightarrow> str" where
  "temp_base path = (if endswith path (S ''.wav'') then take (length path - 4) path else path)"

definition opus_file :: "str \<Rightarrow> str" where
  "opus_file path = temp_base path @ S ''.opus''"

definition ogg_file :: "str \<Rightarrow> str" where
  "ogg_file path = temp_base path @ S ''.ogg''"

text \<open>\<open>normalize_volume\<close>; after the first conversion the loudness of the result is measured for the log.\<close>
definition normalize_volume :: "tools \<Rightarrow> str \<Rightarrow> pyfloat \<Rightarrow> vm \<Rightarrow> (http_error + str) \<times> vm" where
  "normalize_volume tk path prompt_duration v =
     (case measure_loudness tk path prompt_duration of
        Inl e \<Rightarrow> (Inl e, v)
      | Inr measured \<Rightarrow>
          (let filt = loudnorm_filter measured;
               (ok, v1) = ffmpeg tk path ''libopus'' (opus_file path) prompt_duration filt v
           in if ok
              then (case measure_loudness tk (opus_file path) (Fin 0) of
                      Inl e \<Rightarrow> (Inl e, v1)
                    | Inr _ \<Rightarrow> (Inr (opus_file path), v1))
              else
                (let (ok2, v2) = ffmpeg tk path ''libvorbis'' (ogg_file path) prompt_duration filt v1
                 in if ok2 then (Inr (ogg_file path), v2) else (Inr path, v2))))"

section \<open>Forwarding\<close>

record recording =
  rc_path :: str
  rc_caller :: str
  rc_correlation :: str
  rc_early_max :: int
  rc_prompt :: pyfloat

definition event_fields :: "tools \<Rightarrow> recording \<Rightarrow> str \<Rightarrow> pyfloat \<Rightarrow> (str \<times> str) list" where
  "event_fields tk rc vm_type duration =
     [(S ''phone_number'', rc_caller rc), (S ''voicemail_type'', vm_type),
      (S ''correlation_id'', rc_correlation rc), (S ''duration'', tl_repr tk duration)]"

type_synonym forwarded = "bool \<times> str \<times> str"

definition with_type :: "str \<Rightarrow> (http_error + bool \<times> str) \<times> vm \<Rightarrow> (http_error + forwarded) \<times> vm" where
  "with_type vm_type r = (case r of (x, v) \<Rightarrow> (map_sum id (\<lambda>(ok, detail). (ok, detail, vm_type)) x, v))"

definition report_missing_or_empty ::
    "tools \<Rightarrow> event_target \<Rightarrow> recording \<Rightarrow> pyfloat \<Rightarrow> str \<Rightarrow> vm \<Rightarrow> (http_error + forwarded) \<times> vm" where
  "report_missing_or_empty tk et rc duration vm_type v =
     with_type vm_type (post_form tk et (event_fields tk rc vm_type duration) v)"

definition remove_temps :: "str \<Rightarrow> vm \<Rightarrow> vm" where
  "remove_temps path v = v\<lparr>vm_files := vm_files v - {opus_file path, ogg_file path}\<rparr>"

text \<open>The upload: whatever happens in it, the temporary files go.\<close>
definition forward_audio ::
    "tools \<Rightarrow> event_target \<Rightarrow> recording \<Rightarrow> pyfloat \<Rightarrow> str \<Rightarrow> vm \<Rightarrow> (http_error + forwarded) \<times> vm" where
  "forward_audio tk et rc duration vm_type v =
     (case normalize_volume tk (rc_path rc) (rc_prompt rc) v of
        (Inl e, v1) \<Rightarrow> (Inl e, remove_temps (rc_path rc) v1)
      | (Inr final, v1) \<Rightarrow>
          (case with_type vm_type (post_multipart tk et (event_fields tk rc vm_type duration) final v1) of
             (r, v2) \<Rightarrow> (r, remove_temps (rc_path rc) v2)))"

definition forward_recording ::
    "tools \<Rightarrow> event_target \<Rightarrow> recording \<Rightarrow> vm \<Rightarrow> (http_error + forwarded) \<times> vm" where
  "forward_recording tk et rc v =
     (if rc_path rc \<notin> vm_files v
      then report_missing_or_empty tk et rc (Fin 0) (S ''recording_missing'') v
      else
        (let duration = ffprobe_duration tk (rc_path rc)
         in if float_le duration (Fin 0)
            then report_missing_or_empty tk et rc (Fin 0) (S ''early_hangup'') v
            else
              (case classify duration (rc_prompt rc) (rc_early_max rc) of
                 Inl e \<Rightarrow> (Inl e, v)
               | Inr vm_type \<Rightarrow>
                   if vm_type = S ''early_hangup''
                   then report_missing_or_empty tk et rc duration vm_type v
                   else forward_audio tk et rc duration vm_type v)))"

definition cleanup_recording :: "str \<Rightarrow> vm \<Rightarrow> vm" where
  "cleanup_recording path v = v\<lparr>vm_files := vm_files v - {path}\<rparr>"

section \<open>The hangup handler\<close>

text \<open>\<open>int(v or 3)\<close> and \<open>float(v or 0)\<close> with their defaults.\<close>
definition early_max_of :: "str \<Rightarrow> int" where
  "early_max_of v = (if v = [] then 3 else case parse_int v of Some n \<Rightarrow> n | None \<Rightarrow> 3)"

definition prompt_of :: "str \<Rightarrow> pyfloat" where
  "prompt_of v = (if v = [] then Fin 0 else case float_of v of Some d \<Rightarrow> d | None \<Rightarrow> Fin 0)"

text \<open>\<open>main\<close>; \<open>loads\<close> says whether the shared module can be imported.\<close>
definition voice_agi ::
    "tools \<Rightarrow> (str \<Rightarrow> str option) \<Rightarrow> bool \<Rightarrow> agi \<Rightarrow> vm \<Rightarrow> agi \<times> vm" where
  "voice_agi tk environ loads io v =
     (let (env, io1) = read_agi_env io;
          (vmfile, io2) = agi_get_variable ''VMFILE'' io1;
          (caller, io3) = agi_get_variable ''CALLER'' io2;
          (url, io4) = agi_get_variable ''FWD_URL'' io3;
          (eh_max, io5) = agi_get_variable ''EH_MAX'' io4;
          (prompt, io6) = agi_get_variable ''VM_PROMPT_DURATION'' io5
      in if vmfile = [] then (respond (S ''skipped=no recording'') io6, v)
         else if \<not> loads then (respond (S ''error=module'') io6, v)
         else
           (case forward_recording tk
                   \<lparr>et_url = or_default url ''http://127.0.0.1:8088'',
                    et_secret = environ_or environ ''SIMBRIDGE_HTTP_SECRET''\<rparr>
                   \<lparr>rc_path = vmfile, rc_caller = or_default caller ''unknown'',
                    rc_correlation = (case dget env (S ''agi_uniqueid'') of None \<Rightarrow> [] | Some i \<Rightarrow> i),
                    rc_early_max = early_max_of eh_max, rc_prompt = prompt_of prompt\<rparr> v of
              (Inl _, v1) \<Rightarrow> (respond (S ''error=internal'') io6, v1)
            | (Inr (ok, detail, vm_type), v1) \<Rightarrow>
                if ok then (respond (S ''forwarded type='' @ vm_type) io6, cleanup_recording vmfile v1)
                else (respond (S ''error='' @ detail) io6, v1)))"

section \<open>The sweep\<close>

record sweep_settings =
  sw_dir :: str
  sw_max_age :: int
  sw_max_retain :: int
  sw_early_max :: int
  sw_prompt :: pyfloat
  sw_target :: event_target

definition path_join :: "str \<Rightarrow> str \<Rightarrow> str" where
  "path_join a b = (if a = [] \<or> last a = 47 then a @ b else a @ [47] @ b)"

fun need_str :: "json \<Rightarrow> http_error + str" where
  "need_str (JStr s) = Inr s"
| "need_str _ = Inl (Unhandled (S ''TypeError''))"

text \<open>The settings of a configuration. The options have been validated; what a value of another type would
  raise comes first.\<close>
definition sweep_settings_of ::
    "tools \<Rightarrow> (json \<Rightarrow> str) \<Rightarrow> (str \<Rightarrow> str option) \<Rightarrow> cfg \<Rightarrow> http_error + sweep_settings" where
  "sweep_settings_of tk py_repr environ cfg =
     (case (need_str (cfg_get cfg ''paths.recordings_dir'' (JStr (S ''/var/lib/simbridge/recordings''))),
            as_int (cfg_get cfg ''asterisk.sweep_max_age_seconds'' (JInt 300)),
            as_int (cfg_get cfg ''asterisk.sweep_max_retain_seconds'' (JInt 604800)),
            as_int (cfg_get cfg ''asterisk.early_hangup_max_seconds'' (JInt 3)),
            (let p = cfg_get cfg ''asterisk.prompt'' (JStr []) in if truthy p then need_str p else Inr []),
            case resolve_userbot_url py_repr cfg of
              None \<Rightarrow> Inl (Unhandled (S ''AttributeError'')) | Some u \<Rightarrow> need_str u,
            need_str (cfg_get cfg ''userbot_http.secret_env'' (JStr (S ''SIMBRIDGE_HTTP_SECRET'')))) of
        (Inr dir, Inr age, Inr retain, Inr early, Inr prompt, Inr url, Inr secret_env) \<Rightarrow>
          Inr \<lparr>sw_dir = dir, sw_max_age = age, sw_max_retain = retain, sw_early_max = early,
               sw_prompt = (if prompt = [] then Fin 0 else ffprobe_duration tk prompt),
               sw_target = \<lparr>et_url = url, et_secret = (case environ secret_env of None \<Rightarrow> [] | Some s \<Rightarrow> s)\<rparr>\<rparr>
      | _ \<Rightarrow> Inl (Unhandled (S ''TypeError'')))"

definition sweep_recording :: "sweep_settings \<Rightarrow> str \<Rightarrow> recording" where
  "sweep_recording sw name =
     \<lparr>rc_path = path_join (sw_dir sw) name, rc_caller = S ''unknown'',
      rc_correlation = take (length name - 4) name, rc_early_max = sw_early_max sw, rc_prompt = sw_prompt sw\<rparr>"

text \<open>One entry of the directory; \<open>age\<close> is \<open>None\<close> when the file is gone. The result counts a forward.\<close>
definition sweep_entry ::
    "tools \<Rightarrow> sweep_settings \<Rightarrow> (str \<Rightarrow> rat option) \<Rightarrow> str \<Rightarrow> vm \<Rightarrow> (http_error + nat) \<times> vm" where
  "sweep_entry tk sw age name v =
     (if \<not> endswith name (S ''.wav'') then (Inr 0, v)
      else
        (let path = path_join (sw_dir sw) name
         in case age path of
              None \<Rightarrow> (Inr 0, v)
            | Some a \<Rightarrow>
                if a < of_int (sw_max_age sw) then (Inr 0, v)
                else if of_int (sw_max_retain sw) \<le> a then (Inr 0, cleanup_recording path v)
                else
                  (case forward_recording tk (sw_target sw) (sweep_recording sw name) v of
                     (Inl e, v1) \<Rightarrow> (Inl e, v1)
                   | (Inr (ok, _, _), v1) \<Rightarrow> if ok then (Inr 1, cleanup_recording path v1) else (Inr 0, v1))))"

fun sweep_entries ::
    "tools \<Rightarrow> sweep_settings \<Rightarrow> (str \<Rightarrow> rat option) \<Rightarrow> str list \<Rightarrow> vm \<Rightarrow> (http_error + nat) \<times> vm" where
  "sweep_entries tk sw age [] v = (Inr 0, v)"
| "sweep_entries tk sw age (name # names) v =
     (case sweep_entry tk sw age name v of
        (Inl e, v1) \<Rightarrow> (Inl e, v1)
      | (Inr n, v1) \<Rightarrow>
          (case sweep_entries tk sw age names v1 of
             (Inl e, v2) \<Rightarrow> (Inl e, v2)
           | (Inr m, v2) \<Rightarrow> (Inr (n + m), v2)))"

text \<open>\<open>main\<close>: the exit status, or the exception that leaves it. \<open>listing\<close> is \<open>None\<close> when the directory does
  not exist.\<close>
definition sweep_main ::
    "tools \<Rightarrow> (json \<Rightarrow> str) \<Rightarrow> (str \<Rightarrow> str option) \<Rightarrow> config_error + cfg \<Rightarrow> (str \<Rightarrow> str list option)
     \<Rightarrow> (str \<Rightarrow> rat option) \<Rightarrow> vm \<Rightarrow> (http_error + int) \<times> vm" where
  "sweep_main tk py_repr environ loaded listing age v =
     (case loaded of
        Inl _ \<Rightarrow> (Inr 1, v)
      | Inr cfg \<Rightarrow>
          (case sweep_settings_of tk py_repr environ cfg of
             Inl e \<Rightarrow> (Inl e, v)
           | Inr sw \<Rightarrow>
               (case listing (sw_dir sw) of
                  None \<Rightarrow> (Inr 0, v)
                | Some names \<Rightarrow>
                    (case sweep_entries tk sw age (sort names) v of
                       (Inl e, v1) \<Rightarrow> (Inl e, v1)
                     | (Inr _, v1) \<Rightarrow> (Inr 0, v1)))))"

end
