(* ===== verification/Acl.thy ===== *)
theory Acl
  imports HotReload
begin

text \<open>
  \<open>core/acl.py\<close>: the access list read from \<open>acl.conf\<close>, re-read when its modification time
  differs from the recorded one, denying by default. A set of rights is kept as the sublist of
  \<open>RIGHTS\<close> it holds. Every query reloads first, so it takes the file as it is at that moment and
  returns the manager's new state.
\<close>

section \<open>Definitions\<close>

definition RIGHTS :: "str list" where
  "RIGHTS = [S ''in_sms'', S ''in_call'', S ''out_sms'', S ''out_call'']"

record acl_manager =
  acl_rules :: "(int, str list) dict"
  acl_mtime :: int

text \<open>One line of the file: the user and the rights it grants, if it is well formed.\<close>
definition acl_line :: "str \<Rightarrow> (int \<times> str list) option" where
  "acl_line raw_line =
     (let line = strip raw_line
      in if line = [] \<or> startswith line [35] then None
         else let parts = split_ws line
              in if length parts < 2 then None
                 else case parse_int (hd parts) of
                        None \<Rightarrow> None
                      | Some uid \<Rightarrow> Some (uid, filter (\<lambda>r. r \<in> set (tl parts)) RIGHTS))"

fun acl_parse_lines :: "(int, str list) dict \<Rightarrow> str list \<Rightarrow> (int, str list) dict" where
  "acl_parse_lines rules [] = rules"
| "acl_parse_lines rules (l # ls) =
     (case acl_line l of
        None \<Rightarrow> acl_parse_lines rules ls
      | Some (uid, rights) \<Rightarrow> acl_parse_lines (dput uid rights rules) ls)"

definition acl_parse :: "str \<Rightarrow> (int, str list) dict" where
  "acl_parse content = acl_parse_lines [] (text_lines content)"

definition acl_reload :: "str stored \<Rightarrow> acl_manager \<Rightarrow> acl_manager" where
  "acl_reload f a =
     (case f of
        None \<Rightarrow> a
      | Some (m, content) \<Rightarrow>
          if m = acl_mtime a then a
          else a\<lparr>acl_rules := acl_parse content, acl_mtime := m\<rparr>)"

definition new_acl_manager :: "str stored \<Rightarrow> acl_manager" where
  "new_acl_manager f = acl_reload f \<lparr>acl_rules = [], acl_mtime = 0\<rparr>"

definition acl_rights :: "acl_manager \<Rightarrow> int \<Rightarrow> str list" where
  "acl_rights a uid = (case dget (acl_rules a) uid of None \<Rightarrow> [] | Some rs \<Rightarrow> rs)"

definition acl_check :: "str stored \<Rightarrow> int \<Rightarrow> str \<Rightarrow> acl_manager \<Rightarrow> bool \<times> acl_manager" where
  "acl_check f uid right a =
     (if right \<notin> set RIGHTS then (False, a)
      else let a' = acl_reload f a in (right \<in> set (acl_rights a' uid), a'))"

definition get_user_rights :: "str stored \<Rightarrow> int \<Rightarrow> acl_manager \<Rightarrow> str list \<times> acl_manager" where
  "get_user_rights f uid a = (let a' = acl_reload f a in (acl_rights a' uid, a'))"

definition users_with_right :: "str stored \<Rightarrow> str \<Rightarrow> acl_manager \<Rightarrow> int set \<times> acl_manager" where
  "users_with_right f right a =
     (if right \<notin> set RIGHTS then ({}, a)
      else let a' = acl_reload f a
           in (fst ` set (filter (\<lambda>(uid, rights). right \<in> set rights) (acl_rules a')), a'))"

definition user_count :: "acl_manager \<Rightarrow> nat" where
  "user_count a = length (acl_rules a)"

section \<open>Lemmas\<close>

interpretation aclr: hot_reload acl_rules acl_mtime "\<lambda>c. Some (acl_parse c)" "\<lambda>m m'. m' \<noteq> m" acl_reload
  by unfold_locales (auto simp: acl_reload_def)

text \<open>The well-formed lines of a file, in order.\<close>
definition acl_entries :: "str \<Rightarrow> (int \<times> str list) list" where
  "acl_entries content = List.map_filter acl_line (text_lines content)"

lemma acl_parse_lines_get:
  "dget (acl_parse_lines rules ls) uid =
     (case dget (rev (List.map_filter acl_line ls)) uid of
        None \<Rightarrow> dget rules uid | Some rs \<Rightarrow> Some rs)"
proof (induction ls arbitrary: rules)
  case Nil
  then show ?case by (simp add: List.map_filter_def)
next
  case (Cons l ls)
  then show ?case
    by (auto simp: List.map_filter_def map_add_Some_iff split: option.splits)
qed

lemma acl_parse_get: "dget (acl_parse content) uid = dget (rev (acl_entries content)) uid"
  by (simp add: acl_parse_def acl_parse_lines_get acl_entries_def split: option.split)

lemma acl_line_rights: "acl_line l = Some (uid, rs) \<Longrightarrow> set rs \<subseteq> set RIGHTS"
  by (auto simp: acl_line_def Let_def split: if_splits option.splits)

lemma dict_wf_acl_parse_lines: "dict_wf rules \<Longrightarrow> dict_wf (acl_parse_lines rules ls)"
  by (induction rules ls rule: acl_parse_lines.induct) (auto split: option.splits prod.splits)

lemma acl_parse_wf [simp]: "dict_wf (acl_parse content)"
  by (simp add: acl_parse_def dict_wf_acl_parse_lines)

definition acl_wf :: "acl_manager \<Rightarrow> bool" where
  "acl_wf a \<longleftrightarrow> dict_wf (acl_rules a)"

lemma acl_wf_reload [intro]: "acl_wf a \<Longrightarrow> acl_wf (acl_reload f a)"
  by (auto simp: acl_wf_def acl_reload_def split: option.splits)

lemma acl_rights_iff:
  "r \<in> set (acl_rights a uid) \<longleftrightarrow> (\<exists>rs. dget (acl_rules a) uid = Some rs \<and> r \<in> set rs)"
  by (cases "dget (acl_rules a) uid") (simp_all add: acl_rights_def)

lemma users_with_right_check:
  "acl_wf a \<Longrightarrow> uid \<in> fst (users_with_right f right a) \<longleftrightarrow> fst (acl_check f uid right a)"
proof -
  assume "acl_wf a"
  then have wf: "dict_wf (acl_rules (acl_reload f a))"
    using acl_wf_reload by (simp add: acl_wf_def)
  have "uid \<in> fst ` set (filter (\<lambda>(u, rights). right \<in> set rights) (acl_rules (acl_reload f a)))
      \<longleftrightarrow> (\<exists>rs. dget (acl_rules (acl_reload f a)) uid = Some rs \<and> right \<in> set rs)"
    using dict_wf_mem [OF wf] by force
  then show ?thesis
    by (auto simp: users_with_right_def acl_check_def Let_def acl_rights_iff)
qed

section \<open>Properties\<close>

text \<open>Deny by default, and the last line wins: once the file has a new modification time, a
  user has a right exactly when the right is one of the four and the last well-formed line of the
  user in the file lists it.\<close>
theorem acl_check_last_line:
  assumes "m \<noteq> acl_mtime a"
  shows "fst (acl_check (Some (m, content)) uid right a) \<longleftrightarrow>
     right \<in> set RIGHTS \<and>
     (\<exists>rs. dget (rev (acl_entries content)) uid = Some rs \<and> right \<in> set rs)"
  using aclr.reload_serves_new [where s = a and m = m and x = content] assms
  by (simp add: acl_check_def Let_def acl_rights_iff acl_parse_get)

theorem acl_check_last_line_witness:
  "\<not> fst (acl_check (Some (1, S ''7 out_sms'')) 7 (S ''out_call'')
        \<lparr>acl_rules = [(7, [S ''out_call''])], acl_mtime = 0\<rparr>)"
proof -
  have "acl_entries (S ''7 out_sms'') = [(7, [S ''out_sms''])]"
    by (simp add: acl_entries_def text_lines_def S_def acl_line_def strip_def lstrip_def rstrip_def
        is_space_def space_points_def split_ws.simps Let_def parse_int_def digit_value_def
        decimal_blocks_def RIGHTS_def List.map_filter_def)
  then show ?thesis by (subst acl_check_last_line) simp_all
qed

text \<open>The audience of a right is exactly the users who pass the check for it, so no delivery
  list can name a user the check would refuse.\<close>
theorem audience_iff_check:
  "acl_wf a \<Longrightarrow> uid \<in> fst (users_with_right f right a) \<longleftrightarrow> fst (acl_check f uid right a)"
  by (rule users_with_right_check)

theorem audience_iff_check_witness:
  "7 \<in> fst (users_with_right None (S ''in_sms'') \<lparr>acl_rules = [(7, [S ''in_sms''])], acl_mtime = 0\<rparr>)
   \<longleftrightarrow> fst (acl_check None 7 (S ''in_sms'') \<lparr>acl_rules = [(7, [S ''in_sms''])], acl_mtime = 0\<rparr>)"
  by (rule audience_iff_check) (simp add: acl_wf_def dict_wf_def)

end
