(* ===== verification/SmsCorrelation.thy ===== *)
theory SmsCorrelation
  imports Text
begin

text \<open>
  \<open>core/sms_correlation.py\<close>: the records that tie an outgoing SMS to its delivery report, their
  persistence in a log of full records, and the matching of carrier reports.

  The log file is the list of its lines: a line is the JSON text of a record (\<open>LRecord\<close>, what
  \<open>_persist\<close> writes), or one that is blank or does not parse (\<open>LOther\<close>), which \<open>_load\<close> skips.
  Timestamps are microseconds; their ISO texts sort the same way. A new \<open>sms_id\<close> is an argument
  of \<open>sms_create\<close> (\<open>uuid4\<close>), and so is whether the append to the file succeeds.
\<close>

section \<open>Records\<close>

record sms_record =
  sr_id :: str
  sr_user :: int
  sr_message_id :: "int option"
  sr_phone :: str
  sr_modem :: str
  sr_text :: str
  sr_submit :: str
  sr_delivery :: str
  sr_submitted_at :: "int option"
  sr_delivered_at :: "int option"
  sr_error :: "str option"
  sr_created_at :: int

datatype sms_log_line =
    LRecord sms_record
  | LOther str

record sms_store =
  ss_records :: "(str, sms_record) dict"
  ss_log :: "sms_log_line list option"

section \<open>Persistence\<close>

fun sms_load_lines :: "(str, sms_record) dict \<Rightarrow> sms_log_line list \<Rightarrow> (str, sms_record) dict" where
  "sms_load_lines records [] = records"
| "sms_load_lines records (LRecord r # ls) = sms_load_lines (dput (sr_id r) r records) ls"
| "sms_load_lines records (LOther _ # ls) = sms_load_lines records ls"

definition new_sms_store :: "sms_log_line list option \<Rightarrow> sms_store" where
  "new_sms_store log =
     \<lparr>ss_records = (case log of None \<Rightarrow> [] | Some ls \<Rightarrow> sms_load_lines [] ls), ss_log = log\<rparr>"

definition sms_persist :: "bool \<Rightarrow> sms_record \<Rightarrow> sms_store \<Rightarrow> sms_store" where
  "sms_persist writable r st =
     (case ss_log st of
        None \<Rightarrow> st
      | Some ls \<Rightarrow> if writable then st\<lparr>ss_log := Some (ls @ [LRecord r])\<rparr> else st)"

definition sms_save :: "bool \<Rightarrow> sms_record \<Rightarrow> sms_store \<Rightarrow> sms_store" where
  "sms_save writable r st =
     sms_persist writable r (st\<lparr>ss_records := dput (sr_id r) r (ss_records st)\<rparr>)"

section \<open>Operations\<close>

definition sms_create ::
    "bool \<Rightarrow> int \<Rightarrow> str \<Rightarrow> int \<Rightarrow> str \<Rightarrow> str \<Rightarrow> int option \<Rightarrow> str \<Rightarrow> sms_store \<Rightarrow> sms_record \<times> sms_store" where
  "sms_create writable now uuid user phone text message_id modem st =
     (let r = \<lparr>sr_id = uuid, sr_user = user, sr_message_id = message_id, sr_phone = phone,
               sr_modem = modem, sr_text = text, sr_submit = S ''pending'',
               sr_delivery = S ''pending'', sr_submitted_at = None, sr_delivered_at = None,
               sr_error = None, sr_created_at = now\<rparr>
      in (r, sms_save writable r st))"

definition sms_get :: "str \<Rightarrow> sms_store \<Rightarrow> sms_record option" where
  "sms_get sms_id st = dget (ss_records st) sms_id"

definition sms_update ::
    "bool \<Rightarrow> str \<Rightarrow> (sms_record \<Rightarrow> sms_record) \<Rightarrow> sms_store \<Rightarrow> bool \<times> sms_store" where
  "sms_update writable sms_id f st =
     (case dget (ss_records st) sms_id of
        None \<Rightarrow> (False, st)
      | Some r \<Rightarrow>
          let r' = f r
          in (True, sms_persist writable r' (st\<lparr>ss_records := dput sms_id r' (ss_records st)\<rparr>)))"

definition sms_mark_submitted :: "bool \<Rightarrow> int \<Rightarrow> str \<Rightarrow> sms_store \<Rightarrow> bool \<times> sms_store" where
  "sms_mark_submitted writable now sms_id =
     sms_update writable sms_id (\<lambda>r. r\<lparr>sr_submit := S ''submitted'', sr_submitted_at := Some now\<rparr>)"

definition sms_mark_delivered :: "bool \<Rightarrow> int \<Rightarrow> str \<Rightarrow> sms_store \<Rightarrow> bool \<times> sms_store" where
  "sms_mark_delivered writable now sms_id =
     sms_update writable sms_id (\<lambda>r. r\<lparr>sr_delivery := S ''delivered'', sr_delivered_at := Some now\<rparr>)"

definition sms_mark_failed :: "bool \<Rightarrow> str \<Rightarrow> str \<Rightarrow> bool \<Rightarrow> sms_store \<Rightarrow> bool \<times> sms_store" where
  "sms_mark_failed writable sms_id error submit_failed =
     sms_update writable sms_id
       (\<lambda>r. if submit_failed then r\<lparr>sr_error := Some error, sr_submit := S ''failed''\<rparr>
            else r\<lparr>sr_error := Some error, sr_delivery := S ''failed''\<rparr>)"

definition sms_find_by_message :: "int \<Rightarrow> int \<Rightarrow> sms_store \<Rightarrow> sms_record option" where
  "sms_find_by_message user message_id st =
     List.find (\<lambda>r. sr_user r = user \<and> sr_message_id r = Some message_id)
       (rev (dvalues (ss_records st)))"

text \<open>A stable descending sort: \<open>list.sort(key=..., reverse=True)\<close> keeps the order of equals.\<close>
definition sort_desc :: "('a \<Rightarrow> int) \<Rightarrow> 'a list \<Rightarrow> 'a list" where
  "sort_desc key xs = sort_key (\<lambda>x. - key x) xs"

definition sms_recent :: "int \<Rightarrow> nat \<Rightarrow> sms_store \<Rightarrow> sms_record list" where
  "sms_recent user limit st =
     take limit (sort_desc sr_created_at (filter (\<lambda>r. sr_user r = user) (dvalues (ss_records st))))"

section \<open>Delivery reports\<close>

definition phone_digit_variants :: "str \<Rightarrow> str list" where
  "phone_digit_variants phone =
     (let digits = filter is_digit phone
      in if digits = [] then []
         else [digits] @ (if startswith digits (S ''7'') then [S ''8'' @ drop 1 digits] else []))"

definition awaiting_report :: "str \<Rightarrow> sms_record \<Rightarrow> bool" where
  "awaiting_report modem r \<longleftrightarrow>
     sr_submit r = S ''submitted'' \<and> sr_delivery r = S ''pending'' \<and> sr_modem r = modem"

definition named_in :: "str \<Rightarrow> sms_record \<Rightarrow> bool" where
  "named_in report r \<longleftrightarrow>
     list_ex (\<lambda>v. v \<noteq> [] \<and> occurs_in v (filter is_digit report)) (phone_digit_variants (sr_phone r))"

definition report_key :: "sms_record \<Rightarrow> int" where
  "report_key r = (case sr_submitted_at r of None \<Rightarrow> sr_created_at r | Some t \<Rightarrow> t)"

definition match_report :: "str \<Rightarrow> str \<Rightarrow> sms_store \<Rightarrow> sms_record option" where
  "match_report modem report st =
     (let candidates = filter (awaiting_report modem) (dvalues (ss_records st))
      in if candidates = [] then None
         else let hinted = filter (named_in report) candidates;
                  pool = (if hinted \<noteq> [] then hinted else candidates)
              in Some (hd (sort_desc report_key pool)))"

section \<open>The store and its log\<close>

definition sms_keyed :: "sms_store \<Rightarrow> bool" where
  "sms_keyed st \<longleftrightarrow> keyed_by sr_id (ss_records st)"

definition sms_logged :: "sms_store \<Rightarrow> bool" where
  "sms_logged st \<longleftrightarrow> (\<exists>ls. ss_log st = Some ls \<and> sms_load_lines [] ls = ss_records st)"

lemma sms_load_append:
  "sms_load_lines m (a @ b) = sms_load_lines (sms_load_lines m a) b"
  by (induction m a rule: sms_load_lines.induct) simp_all

lemma sms_load_keyed: "keyed_by sr_id m \<Longrightarrow> keyed_by sr_id (sms_load_lines m ls)"
  by (induction m ls rule: sms_load_lines.induct) (simp_all add: keyed_by_dput)

lemma new_sms_store_keyed: "sms_keyed (new_sms_store log)"
  using sms_load_keyed [of "[]"]
  by (cases log) (simp_all add: sms_keyed_def new_sms_store_def)

lemma new_sms_store_logged: "sms_logged (new_sms_store (Some ls))"
  by (simp add: sms_logged_def new_sms_store_def)

lemma sms_persist_records [simp]: "ss_records (sms_persist w r st) = ss_records st"
  by (simp add: sms_persist_def split: option.split)

lemma sms_save_keyed: "sms_keyed st \<Longrightarrow> sms_keyed (sms_save w r st)"
  by (simp add: sms_keyed_def sms_save_def keyed_by_dput)

lemma sms_save_logged: "sms_logged st \<Longrightarrow> sms_logged (sms_save True r st)"
  by (auto simp: sms_logged_def sms_save_def sms_persist_def sms_load_append)

text \<open>Every update of an existing record is a save, when it keeps the id.\<close>
lemma sms_update_save:
  assumes "sms_keyed st" and "\<And>r. sr_id (f r) = sr_id r"
  shows "snd (sms_update w i f st) = (case dget (ss_records st) i of None \<Rightarrow> st
           | Some r \<Rightarrow> sms_save w (f r) st)"
proof (cases "dget (ss_records st) i")
  case None
  then show ?thesis by (simp add: sms_update_def)
next
  case (Some r)
  then have "sr_id r = i"
    using assms(1) by (auto simp: sms_keyed_def dest: keyed_by_key)
  with Some show ?thesis by (simp add: sms_update_def sms_save_def assms(2) Let_def)
qed

section \<open>Runs\<close>

datatype sms_op =
    OpCreate int str int str str "int option" str
  | OpSubmitted int str
  | OpDelivered int str
  | OpFailed str str bool

fun sms_step :: "bool \<Rightarrow> sms_op \<Rightarrow> sms_store \<Rightarrow> sms_store" where
  "sms_step w (OpCreate now uuid user phone text mid modem) st =
     snd (sms_create w now uuid user phone text mid modem st)"
| "sms_step w (OpSubmitted now i) st = snd (sms_mark_submitted w now i st)"
| "sms_step w (OpDelivered now i) st = snd (sms_mark_delivered w now i st)"
| "sms_step w (OpFailed i e sf) st = snd (sms_mark_failed w i e sf st)"

lemma sms_step_save:
  "sms_keyed st \<Longrightarrow> sms_step w op st = st \<or> (\<exists>r. sms_step w op st = sms_save w r st)"
  by (cases op)
    (auto simp: sms_create_def Let_def sms_mark_submitted_def sms_mark_delivered_def
      sms_mark_failed_def sms_update_save split: option.split)

fun sms_run :: "sms_op list \<Rightarrow> sms_store \<Rightarrow> sms_store" where
  "sms_run [] st = st"
| "sms_run (op # ops) st = sms_run ops (sms_step True op st)"

lemma sms_step_inv:
  "sms_keyed st \<Longrightarrow> sms_keyed (sms_step w op st)"
  "sms_keyed st \<Longrightarrow> sms_logged st \<Longrightarrow> sms_logged (sms_step True op st)"
  by (metis sms_step_save sms_save_keyed) (metis sms_step_save sms_save_logged)

lemma sms_run_inv:
  "sms_keyed st \<Longrightarrow> sms_logged st \<Longrightarrow> sms_keyed (sms_run ops st) \<and> sms_logged (sms_run ops st)"
  by (induction ops st rule: sms_run.induct) (simp_all add: sms_step_inv)

section \<open>Choosing the newest\<close>

lemma hd_sort_desc:
  assumes "xs \<noteq> []"
  shows "hd (sort_desc key xs) \<in> set xs" and "x \<in> set xs \<Longrightarrow> key x \<le> key (hd (sort_desc key xs))"
proof -
  obtain y ys where y: "sort_desc key xs = y # ys"
    using assms by (metis length_0_conv length_sort list.exhaust sort_desc_def)
  have s: "set (y # ys) = set xs" using y by (metis set_sort sort_desc_def)
  then show "hd (sort_desc key xs) \<in> set xs" using y by auto
  have "sorted (map (\<lambda>x. - key x) (y # ys))" using y by (metis sort_desc_def sorted_sort_key)
  then show "x \<in> set xs \<Longrightarrow> key x \<le> key (hd (sort_desc key xs))"
    using s y by auto
qed

lemma match_report_member:
  assumes "match_report modem report st = Some r"
  shows "r \<in> set (dvalues (ss_records st)) \<and> awaiting_report modem r"
proof -
  define cs where "cs = filter (awaiting_report modem) (dvalues (ss_records st))"
  define hs where "hs = filter (named_in report) cs"
  have r: "cs \<noteq> []" "r = hd (sort_desc report_key (if hs \<noteq> [] then hs else cs))"
    using assms by (auto simp: match_report_def Let_def cs_def [symmetric] hs_def [symmetric]
        split: if_splits)
  have "r \<in> set hs \<or> r \<in> set cs"
    using hd_sort_desc(1) [of hs report_key] hd_sort_desc(1) [OF r(1), of report_key] r(2)
    by (cases "hs = []") simp_all
  then show ?thesis by (auto simp: cs_def hs_def)
qed

section \<open>Properties\<close>


text \<open>A delivery report is only ever attributed to a record of that modem which was submitted
  and is unresolved; if the report names the number of such a record, to one whose number it
  names; and to the newest of those.\<close>
theorem match_report_sound:
  assumes "match_report modem report st = Some r"
  shows "r \<in> set (dvalues (ss_records st)) \<and> awaiting_report modem r
     \<and> (\<forall>x \<in> set (dvalues (ss_records st)). awaiting_report modem x \<and> named_in report x \<longrightarrow>
          named_in report r \<and> report_key x \<le> report_key r)
     \<and> (\<forall>x \<in> set (dvalues (ss_records st)). awaiting_report modem x \<and> \<not> named_in report r \<longrightarrow>
          report_key x \<le> report_key r)"
proof -
  define cs where "cs = filter (awaiting_report modem) (dvalues (ss_records st))"
  define hs where "hs = filter (named_in report) cs"
  have r: "cs \<noteq> []" "r = hd (sort_desc report_key (if hs \<noteq> [] then hs else cs))"
    using assms by (auto simp: match_report_def Let_def cs_def [symmetric] hs_def [symmetric]
        split: if_splits)
  show ?thesis
  proof (cases "hs = []")
    case True
    then have "\<forall>x \<in> set cs. \<not> named_in report x" by (simp add: hs_def filter_empty_conv)
    with hd_sort_desc [OF r(1), where key = report_key] r(2) True show ?thesis by (auto simp: cs_def)
  next
    case False
    with hd_sort_desc [OF False, where key = report_key] r(2) show ?thesis by (auto simp: cs_def hs_def)
  qed
qed

definition sample_sms_store :: sms_store where
  "sample_sms_store =
     sms_run [OpCreate 1 (S ''a'') 7 (S ''123'') (S ''hi'') None (S ''gsm''),
              OpSubmitted 2 (S ''a''),
              OpCreate 3 (S ''b'') 7 (S ''456'') (S ''yo'') None (S ''gsm''),
              OpSubmitted 4 (S ''b'')] (new_sms_store (Some []))"

definition sample_sms_record :: sms_record where
  "sample_sms_record =
     \<lparr>sr_id = S ''a'', sr_user = 7, sr_message_id = None, sr_phone = S ''123'', sr_modem = S ''gsm'',
      sr_text = S ''hi'', sr_submit = S ''submitted'', sr_delivery = S ''pending'',
      sr_submitted_at = Some 2, sr_delivered_at = None, sr_error = None, sr_created_at = 1\<rparr>"

lemma sample_sms_records:
  "dvalues (ss_records sample_sms_store) =
     [sample_sms_record, sample_sms_record\<lparr>sr_id := S ''b'', sr_phone := S ''456'', sr_text := S ''yo'',
        sr_submitted_at := Some 4, sr_created_at := 3\<rparr>]"
  by (simp add: sample_sms_store_def sample_sms_record_def new_sms_store_def sms_create_def
      sms_mark_submitted_def sms_update_def sms_save_def sms_persist_def Let_def)

lemma sample_report_digits: "filter is_digit (S ''to 123 ok'') = S ''123''"
  by (simp add: S_def is_digit_def is_decimal_def decimal_blocks_def digit_ranges_def)

lemma sample_sms_match:
  "match_report (S ''gsm'') (S ''to 123 ok'') sample_sms_store = Some sample_sms_record"
proof -
  have d: "filter is_digit (S ''123'') = S ''123''" "filter is_digit (S ''456'') = S ''456''"
    by (simp_all add: S_def is_digit_def is_decimal_def decimal_blocks_def digit_ranges_def)
  have o: "occurs_in (S ''123'') (S ''123'')" "\<not> occurs_in (S ''456'') (S ''123'')"
    "\<not> startswith (S ''123'') (S ''7'')" "\<not> startswith (S ''456'') (S ''7'')"
    by (simp_all add: S_def startswith_def)
  show ?thesis
    by (simp add: match_report_def sample_sms_records sample_report_digits awaiting_report_def
        named_in_def phone_digit_variants_def d o Let_def sort_desc_def)
      (simp add: sample_sms_record_def d o)
qed

theorem match_report_sound_witness:
  "awaiting_report (S ''gsm'') sample_sms_record
   \<and> sample_sms_record \<in> set (dvalues (ss_records sample_sms_store))"
  using match_report_sound [OF sample_sms_match] by blast

end
