(* ===== verification/AuditTrail.thy ===== *)
theory AuditTrail
  imports Text
begin

text \<open>
  \<open>core/events.py\<close> and \<open>core/audit.py\<close>: the event types, the timestamps, and the append-only log
  of one JSON object per line.

  A point in time is an \<open>int\<close> of microseconds since 1970-01-01 UTC: \<open>datetime.now(timezone.utc)\<close>
  has this resolution. \<open>isoformat\<close> is its text, which the log and the API store; the code reads
  such a text back with \<open>fromisoformat\<close>, so the components that compute with times keep the \<open>int\<close>.
  The state of the logger is the content of its file. \<open>dumps\<close> is \<open>json.dumps\<close> with
  \<open>ensure_ascii=False\<close>.
\<close>

section \<open>Event types\<close>

datatype event_type =
    USER_DENIED | SMS_SEND_REQUESTED | SMS_SUBMITTED | SMS_RECEIVED | SMS_DELIVERY_REPORT
  | BROADCAST_SENT | CALL_REQUESTED | BLACKLIST_CHANGED | CONFIG_RELOADED | VOICEMAIL_RECEIVED
  | VOICEMAIL_EARLY_HANGUP | CALL_INCOMING | CALL_TELEGRAM_RING | CALL_GSM_ANSWERED
  | CALL_OUTGOING | CALL_ACL_CHECK | CALL_GSM_DIALED | CALL_GSM_RINGING | CALL_GSM_CONNECTED
  | CALL_ACCEPTED | CALL_REJECTED | CALL_BRIDGED | CALL_HANGUP | CALL_TELEGRAM_TIMEOUT
  | CALL_DURATION_EXPIRED | MODEM_SELECTED | ALERT_SENT

fun event_value :: "event_type \<Rightarrow> str" where
  "event_value USER_DENIED = S ''USER_DENIED''"
| "event_value SMS_SEND_REQUESTED = S ''SMS_SEND_REQUESTED''"
| "event_value SMS_SUBMITTED = S ''SMS_SUBMITTED''"
| "event_value SMS_RECEIVED = S ''SMS_RECEIVED''"
| "event_value SMS_DELIVERY_REPORT = S ''SMS_DELIVERY_REPORT''"
| "event_value BROADCAST_SENT = S ''BROADCAST_SENT''"
| "event_value CALL_REQUESTED = S ''CALL_REQUESTED''"
| "event_value BLACKLIST_CHANGED = S ''BLACKLIST_CHANGED''"
| "event_value CONFIG_RELOADED = S ''CONFIG_RELOADED''"
| "event_value VOICEMAIL_RECEIVED = S ''VOICEMAIL_RECEIVED''"
| "event_value VOICEMAIL_EARLY_HANGUP = S ''VOICEMAIL_EARLY_HANGUP''"
| "event_value CALL_INCOMING = S ''CALL_INCOMING''"
| "event_value CALL_TELEGRAM_RING = S ''CALL_TELEGRAM_RING''"
| "event_value CALL_GSM_ANSWERED = S ''CALL_GSM_ANSWERED''"
| "event_value CALL_OUTGOING = S ''CALL_OUTGOING''"
| "event_value CALL_ACL_CHECK = S ''CALL_ACL_CHECK''"
| "event_value CALL_GSM_DIALED = S ''CALL_GSM_DIALED''"
| "event_value CALL_GSM_RINGING = S ''CALL_GSM_RINGING''"
| "event_value CALL_GSM_CONNECTED = S ''CALL_GSM_CONNECTED''"
| "event_value CALL_ACCEPTED = S ''CALL_ACCEPTED''"
| "event_value CALL_REJECTED = S ''CALL_REJECTED''"
| "event_value CALL_BRIDGED = S ''CALL_BRIDGED''"
| "event_value CALL_HANGUP = S ''CALL_HANGUP''"
| "event_value CALL_TELEGRAM_TIMEOUT = S ''CALL_TELEGRAM_TIMEOUT''"
| "event_value CALL_DURATION_EXPIRED = S ''CALL_DURATION_EXPIRED''"
| "event_value MODEM_SELECTED = S ''MODEM_SELECTED''"
| "event_value ALERT_SENT = S ''ALERT_SENT''"

section \<open>Timestamps\<close>

definition US :: int where "US = 10 ^ 6"

definition pad :: "nat \<Rightarrow> int \<Rightarrow> str" where
  "pad w n = (let t = int_text n in replicate (w - length t) 48 @ t)"

text \<open>The proleptic Gregorian date of a day number: eras of 400 years that begin on 1 March.\<close>
definition civil :: "int \<Rightarrow> int \<times> int \<times> int" where
  "civil days =
     (let z = days + 719468; era = z div 146097; doe = z mod 146097;
          yoe = (doe - doe div 1460 + doe div 36524 - doe div 146096) div 365;
          doy = doe - (365 * yoe + yoe div 4 - yoe div 100); mp = (5 * doy + 2) div 153;
          d = doy - (153 * mp + 2) div 5 + 1; m = (if mp < 10 then mp + 3 else mp - 9)
      in (yoe + era * 400 + (if m \<le> 2 then 1 else 0), m, d))"

definition isoformat :: "int \<Rightarrow> str" where
  "isoformat t =
     (let secs = t div US; us = t mod US; (y, m, d) = civil (secs div 86400); r = secs mod 86400
      in pad 4 y @ S ''-'' @ pad 2 m @ S ''-'' @ pad 2 d @ S ''T'' @ pad 2 (r div 3600) @ S '':''
         @ pad 2 (r mod 3600 div 60) @ S '':'' @ pad 2 (r mod 60)
         @ (if us = 0 then [] else S ''.'' @ pad 6 us) @ S ''+00:00'')"

section \<open>JSON text\<close>

definition hex_digit :: "nat \<Rightarrow> cp" where
  "hex_digit n = (if n < 10 then 48 + n else 87 + n)"

definition escape_cp :: "cp \<Rightarrow> str" where
  "escape_cp c =
     (if c = 34 then [92, 34] else if c = 92 then [92, 92]
      else if c = 10 then [92, 110] else if c = 13 then [92, 114] else if c = 9 then [92, 116]
      else if c = 12 then [92, 102] else if c = 8 then [92, 98]
      else if c < 32 then [92, 117, 48, 48, hex_digit (c div 16), hex_digit (c mod 16)]
      else [c])"

definition dump_str :: "str \<Rightarrow> str" where
  "dump_str s = [34] @ concat (map escape_cp s) @ [34]"

fun dumps :: "json \<Rightarrow> str"
  and dump_items :: "json list \<Rightarrow> str"
  and dump_fields :: "(str \<times> json) list \<Rightarrow> str" where
  "dumps JNull = S ''null''"
| "dumps (JBool b) = (if b then S ''true'' else S ''false'')"
| "dumps (JInt i) = int_text i"
| "dumps (JStr s) = dump_str s"
| "dumps (JList xs) = S ''['' @ dump_items xs @ S '']''"
| "dumps (JObj fs) = S ''{'' @ dump_fields fs @ S ''}''"
| "dump_items [] = []"
| "dump_items [x] = dumps x"
| "dump_items (x # y # ys) = dumps x @ S '', '' @ dump_items (y # ys)"
| "dump_fields [] = []"
| "dump_fields [(k, v)] = dump_str k @ S '': '' @ dumps v"
| "dump_fields ((k, v) # f # fs) = dump_str k @ S '': '' @ dumps v @ S '', '' @ dump_fields (f # fs)"

section \<open>The log\<close>

record audit_entry =
  ae_time :: int
  ae_event :: event_type
  ae_user :: "int option"
  ae_outcome :: str
  ae_correlation :: "str option"
  ae_modem :: "str option"
  ae_details :: "(str \<times> json) list"

type_synonym audit_log = "audit_entry list"

definition audit_record :: "audit_entry \<Rightarrow> json" where
  "audit_record e = JObj
     ([(S ''timestamp'', JStr (isoformat (ae_time e))), (S ''event'', JStr (event_value (ae_event e))),
       (S ''telegram_user_id'', jopt_int (ae_user e)), (S ''correlation_id'', jopt (ae_correlation e)),
       (S ''modem_id'', jopt (ae_modem e)), (S ''outcome'', JStr (ae_outcome e))]
      @ (if ae_details e = [] then [] else [(S ''details'', JObj (ae_details e))]))"

definition audit_line :: "audit_entry \<Rightarrow> str" where
  "audit_line e = dumps (audit_record e) @ [10]"

definition audit_append :: "audit_entry \<Rightarrow> audit_log \<Rightarrow> audit_log" where
  "audit_append e log = log @ [e]"

definition audit_file :: "audit_log \<Rightarrow> str" where
  "audit_file log = concat (map audit_line log)"

text \<open>An entry with the defaults of \<open>AuditLogger.log\<close>; callers override what they pass.\<close>
definition entry :: "int \<Rightarrow> event_type \<Rightarrow> audit_entry" where
  "entry now e = \<lparr>ae_time = now, ae_event = e, ae_user = None, ae_outcome = S ''ok'',
                 ae_correlation = None, ae_modem = None, ae_details = []\<rparr>"

lemma audit_append_length [simp]: "length (audit_append e log) = Suc (length log)"
  by (simp add: audit_append_def)

lemma audit_append_keeps: "x \<in> set log \<Longrightarrow> x \<in> set (audit_append e log)"
  by (simp add: audit_append_def)

section \<open>One line per record\<close>

definition one_line :: "str \<Rightarrow> bool" where
  "one_line s \<longleftrightarrow> 10 \<notin> set s \<and> 13 \<notin> set s"

lemma one_line_append [simp]: "one_line (a @ b) \<longleftrightarrow> one_line a \<and> one_line b"
  by (auto simp: one_line_def)

lemma one_line_literals [simp]:
  "one_line (S '','')" "one_line (S '' '')" "one_line (S '', '')" "one_line (S '': '')"
  "one_line (S ''{'')" "one_line (S ''}'')" "one_line (S ''['')" "one_line (S '']'')"
  "one_line (S ''null'')" "one_line (S ''true'')" "one_line (S ''false'')" "one_line []"
  by (simp_all add: one_line_def S_def)

lemma one_line_nat_text [simp]: "one_line (nat_text n)"
  by (induction n rule: nat_text.induct) (subst nat_text.simps, auto simp: one_line_def)

lemma one_line_int_text [simp]: "one_line (int_text i)"
  using one_line_nat_text by (auto simp: int_text_def one_line_def)

lemma one_line_escape: "one_line (escape_cp c)"
  by (auto simp: escape_cp_def hex_digit_def one_line_def)

lemma one_line_dump_str [simp]: "one_line (dump_str s)"
  using one_line_escape by (auto simp: one_line_def dump_str_def)

lemma one_line_dumps:
  "one_line (dumps j)" "one_line (dump_items js)" "one_line (dump_fields fs)"
  by (induction j and js and fs rule: dumps_dump_items_dump_fields.induct) simp_all

lemma dumps_not_Nil: "dumps (JObj fs) \<noteq> []"
  by (simp add: S_def)

section \<open>Properties\<close>

text \<open>The log cannot be forged through its values: whatever texts the events carry (phone
  numbers, SMS texts, names), the file read back as lines has exactly one line per record, in
  the order of the calls, and that line is the record's JSON text.\<close>
theorem audit_lines_are_records:
  "text_lines (audit_file log) = map (\<lambda>e. dumps (audit_record e)) log"
proof -
  have "audit_file log = concat (map (\<lambda>l. l @ [10]) (map (\<lambda>e. dumps (audit_record e)) log))"
    by (simp add: audit_file_def audit_line_def [abs_def] comp_def)
  moreover have "\<forall>l \<in> set (map (\<lambda>e. dumps (audit_record e)) log). 10 \<notin> set l \<and> 13 \<notin> set l"
    using one_line_dumps(1) by (auto simp: one_line_def)
  ultimately show ?thesis by (simp only: text_lines_concat)
qed

text \<open>The log is append-only: what was in the file stays, byte for byte, as a prefix.\<close>
theorem audit_append_only:
  "audit_file (audit_append e log) = audit_file log @ audit_line e"
  by (simp add: audit_file_def audit_append_def)

end
