(* ===== verification/Metrics.thy ===== *)
theory Metrics
  imports AuditTrail
begin

text \<open>
  \<open>core/metrics.py\<close>: the counters of SMS and calls, the component states, and the export for the
  health endpoint. Durations are microseconds and clocks are \<open>int\<close>; the export keeps the exact
  quotient (numerator and denominator) where the code divides floats and rounds for display.
\<close>

record sms_counters =
  sc_sent :: int
  sc_delivered :: int
  sc_failed :: int
  sc_incoming :: int

record call_counters =
  cc_incoming_answered :: int
  cc_incoming_rejected :: int
  cc_incoming_voicemail :: int
  cc_incoming_timeout :: int
  cc_outgoing_answered :: int
  cc_outgoing_failed :: int
  cc_outgoing_timeout :: int
  cc_answered_us :: int
  cc_answered_completed :: int

record metrics =
  m_sms :: sms_counters
  m_calls :: call_counters
  m_modem_registered :: "bool option"
  m_modem_last_check :: int
  m_bridge_reachable :: "bool option"
  m_bridge_last_check :: int
  m_telegram_connected :: "bool option"
  m_telegram_last_check :: int

definition new_metrics :: metrics where
  "new_metrics =
     \<lparr>m_sms = \<lparr>sc_sent = 0, sc_delivered = 0, sc_failed = 0, sc_incoming = 0\<rparr>,
      m_calls = \<lparr>cc_incoming_answered = 0, cc_incoming_rejected = 0, cc_incoming_voicemail = 0,
                 cc_incoming_timeout = 0, cc_outgoing_answered = 0, cc_outgoing_failed = 0,
                 cc_outgoing_timeout = 0, cc_answered_us = 0, cc_answered_completed = 0\<rparr>,
      m_modem_registered = None, m_modem_last_check = 0, m_bridge_reachable = None,
      m_bridge_last_check = 0, m_telegram_connected = None, m_telegram_last_check = 0\<rparr>"

section \<open>SMS\<close>

definition sms_sent :: "metrics \<Rightarrow> metrics" where
  "sms_sent m = m\<lparr>m_sms := (m_sms m)\<lparr>sc_sent := sc_sent (m_sms m) + 1\<rparr>\<rparr>"

definition sms_delivered :: "metrics \<Rightarrow> metrics" where
  "sms_delivered m = m\<lparr>m_sms := (m_sms m)\<lparr>sc_delivered := sc_delivered (m_sms m) + 1\<rparr>\<rparr>"

definition sms_failed :: "metrics \<Rightarrow> metrics" where
  "sms_failed m = m\<lparr>m_sms := (m_sms m)\<lparr>sc_failed := sc_failed (m_sms m) + 1\<rparr>\<rparr>"

definition sms_incoming :: "metrics \<Rightarrow> metrics" where
  "sms_incoming m = m\<lparr>m_sms := (m_sms m)\<lparr>sc_incoming := sc_incoming (m_sms m) + 1\<rparr>\<rparr>"

text \<open>\<open>None\<close> without sends, else the quotient delivered / sent.\<close>
definition delivery_rate :: "sms_counters \<Rightarrow> (int \<times> int) option" where
  "delivery_rate s = (if sc_sent s = 0 then None else Some (sc_delivered s, sc_sent s))"

section \<open>Calls\<close>

definition on_calls :: "(call_counters \<Rightarrow> call_counters) \<Rightarrow> metrics \<Rightarrow> metrics" where
  "on_calls f m = m\<lparr>m_calls := f (m_calls m)\<rparr>"

definition call_answered :: "str \<Rightarrow> metrics \<Rightarrow> metrics" where
  "call_answered direction =
     on_calls (\<lambda>c. if direction = S ''incoming''
                    then c\<lparr>cc_incoming_answered := cc_incoming_answered c + 1\<rparr>
                    else c\<lparr>cc_outgoing_answered := cc_outgoing_answered c + 1\<rparr>)"

definition call_rejected :: "str \<Rightarrow> metrics \<Rightarrow> metrics" where
  "call_rejected direction =
     on_calls (\<lambda>c. if direction = S ''incoming''
                    then c\<lparr>cc_incoming_rejected := cc_incoming_rejected c + 1\<rparr> else c)"

definition call_voicemail :: "metrics \<Rightarrow> metrics" where
  "call_voicemail = on_calls (\<lambda>c. c\<lparr>cc_incoming_voicemail := cc_incoming_voicemail c + 1\<rparr>)"

definition call_timeout :: "str \<Rightarrow> metrics \<Rightarrow> metrics" where
  "call_timeout direction =
     on_calls (\<lambda>c. if direction = S ''incoming''
                    then c\<lparr>cc_incoming_timeout := cc_incoming_timeout c + 1\<rparr>
                    else c\<lparr>cc_outgoing_timeout := cc_outgoing_timeout c + 1\<rparr>)"

definition call_failed :: "metrics \<Rightarrow> metrics" where
  "call_failed = on_calls (\<lambda>c. c\<lparr>cc_outgoing_failed := cc_outgoing_failed c + 1\<rparr>)"

definition record_answered_duration :: "int \<Rightarrow> metrics \<Rightarrow> metrics" where
  "record_answered_duration us =
     on_calls (\<lambda>c. if us > 0 then c\<lparr>cc_answered_us := cc_answered_us c + us,
                                     cc_answered_completed := cc_answered_completed c + 1\<rparr>
                    else c)"

definition total_answered :: "call_counters \<Rightarrow> int" where
  "total_answered c = cc_incoming_answered c + cc_outgoing_answered c"

definition avg_answered_us :: "call_counters \<Rightarrow> (int \<times> int) option" where
  "avg_answered_us c =
     (if cc_answered_completed c = 0 then None
      else Some (cc_answered_us c, cc_answered_completed c))"

definition total_missed :: "call_counters \<Rightarrow> int" where
  "total_missed c =
     cc_incoming_rejected c + cc_incoming_timeout c + cc_outgoing_failed c + cc_outgoing_timeout c"

section \<open>Component state\<close>

definition set_modem_registered :: "int \<Rightarrow> bool option \<Rightarrow> metrics \<Rightarrow> metrics" where
  "set_modem_registered now b m = m\<lparr>m_modem_registered := b, m_modem_last_check := now\<rparr>"

definition set_bridge_reachable :: "int \<Rightarrow> bool option \<Rightarrow> metrics \<Rightarrow> metrics" where
  "set_bridge_reachable now b m = m\<lparr>m_bridge_reachable := b, m_bridge_last_check := now\<rparr>"

definition set_telegram_connected :: "int \<Rightarrow> bool option \<Rightarrow> metrics \<Rightarrow> metrics" where
  "set_telegram_connected now b m = m\<lparr>m_telegram_connected := b, m_telegram_last_check := now\<rparr>"

section \<open>Export\<close>

definition check_age :: "int \<Rightarrow> int \<Rightarrow> int option" where
  "check_age now at = (if at \<noteq> 0 then Some (now - at) else None)"

record metrics_export =
  me_sms :: sms_counters
  me_delivery_rate :: "(int \<times> int) option"
  me_calls :: call_counters
  me_total_answered :: int
  me_total_missed :: int
  me_avg_answered :: "(int \<times> int) option"
  me_modem :: "bool option \<times> int option"
  me_bridge :: "bool option \<times> int option"
  me_telegram :: "bool option \<times> int option"

definition get_all :: "int \<Rightarrow> metrics \<Rightarrow> metrics_export" where
  "get_all now m =
     \<lparr>me_sms = m_sms m, me_delivery_rate = delivery_rate (m_sms m), me_calls = m_calls m,
      me_total_answered = total_answered (m_calls m), me_total_missed = total_missed (m_calls m),
      me_avg_answered = avg_answered_us (m_calls m),
      me_modem = (m_modem_registered m, check_age now (m_modem_last_check m)),
      me_bridge = (m_bridge_reachable m, check_age now (m_bridge_last_check m)),
      me_telegram = (m_telegram_connected m, check_age now (m_telegram_last_check m))\<rparr>"

lemmas metrics_defs = sms_sent_def sms_delivered_def sms_failed_def sms_incoming_def on_calls_def
  call_answered_def call_rejected_def call_voicemail_def call_timeout_def call_failed_def
  record_answered_duration_def

text \<open>The outcomes a call can add to the counters, one per terminal event.\<close>
definition outcome_count :: "call_counters \<Rightarrow> int" where
  "outcome_count c = total_answered c + total_missed c + cc_incoming_voicemail c"

end
