(* ===== verification/Modem.thy ===== *)
theory Modem
  imports Prelude "HOL-Library.List_Lexorder" "HOL-Library.Multiset"
begin

text \<open>
  \<open>core/modem.py\<close>: the modem states, the single-modem provider, the routing strategies and the
  pool with atomic reservation.

  The abstract class \<open>ModemProvider\<close> is the record \<open>provider_ops\<close> of its operations (the method
  table of an object); a pool carries the table of the provider it was built with. The contract
  of that class is the locale \<open>modem_provider\<close>, the contract of \<open>RoutingStrategy\<close> the locale
  \<open>routing_strategy\<close>; both are interpreted below on the classes of the program.
\<close>

section \<open>States and snapshots\<close>

datatype modem_state =
    MOFFLINE | MINITIALIZING | MREADY | MBUSY | MSMS_BUSY | MCALL_BUSY | MERROR | MDISABLED

fun modem_state_value :: "modem_state \<Rightarrow> str" where
  "modem_state_value MOFFLINE = S ''offline''"
| "modem_state_value MINITIALIZING = S ''initializing''"
| "modem_state_value MREADY = S ''ready''"
| "modem_state_value MBUSY = S ''busy''"
| "modem_state_value MSMS_BUSY = S ''sms_busy''"
| "modem_state_value MCALL_BUSY = S ''call_busy''"
| "modem_state_value MERROR = S ''error''"
| "modem_state_value MDISABLED = S ''disabled''"

definition AVAILABLE_STATES :: "modem_state set" where
  "AVAILABLE_STATES = {MREADY}"

definition ONLINE_STATES :: "modem_state set" where
  "ONLINE_STATES = {MINITIALIZING, MREADY, MBUSY, MSMS_BUSY, MCALL_BUSY}"

definition BROKEN_STATES :: "modem_state set" where
  "BROKEN_STATES = {MOFFLINE, MERROR}"

record modem_info =
  mi_id :: str
  mi_device :: str
  mi_state :: modem_state
  mi_registered :: bool
  mi_signal :: "int option"
  mi_operator :: "str option"
  mi_sim_number :: "str option"
  mi_imei_suffix :: "str option"
  mi_error :: "str option"
  mi_last_seen :: int

definition is_broken :: "modem_info option \<Rightarrow> bool" where
  "is_broken info \<longleftrightarrow> (case info of None \<Rightarrow> False | Some i \<Rightarrow> mi_state i \<in> BROKEN_STATES)"

definition modem_to_dict :: "modem_info \<Rightarrow> json" where
  "modem_to_dict i = JObj
     [(S ''modem_id'', JStr (mi_id i)), (S ''device'', JStr (mi_device i)),
      (S ''state'', JStr (modem_state_value (mi_state i))),
      (S ''registered'', JBool (mi_registered i)),
      (S ''signal_percent'', jopt_int (mi_signal i)), (S ''operator'', jopt (mi_operator i)),
      (S ''sim_number'', jopt (mi_sim_number i)), (S ''imei_suffix'', jopt (mi_imei_suffix i)),
      (S ''error'', jopt (mi_error i))]"

section \<open>The provider interface\<close>

record 'p provider_ops =
  po_get_info :: "'p \<Rightarrow> str \<Rightarrow> modem_info option"
  po_list_modems :: "'p \<Rightarrow> modem_info list"
  po_is_available :: "'p \<Rightarrow> str \<Rightarrow> bool"
  po_set_sms_active :: "str \<Rightarrow> bool \<Rightarrow> 'p \<Rightarrow> bool \<times> 'p"
  po_set_call_active :: "str \<Rightarrow> bool \<Rightarrow> 'p \<Rightarrow> bool \<times> 'p"

section \<open>The single-modem provider\<close>

record single_provider =
  sp_id :: str
  sp_device :: str
  sp_info :: modem_info
  sp_sms_active :: bool
  sp_call_active :: bool
  sp_observed :: bool

definition new_single_provider :: "int \<Rightarrow> str \<Rightarrow> str \<Rightarrow> str option \<Rightarrow> single_provider" where
  "new_single_provider now modem_id device sim_number =
     \<lparr>sp_id = modem_id, sp_device = device,
      sp_info = \<lparr>mi_id = modem_id, mi_device = device, mi_state = MOFFLINE, mi_registered = False,
                 mi_signal = None, mi_operator = None, mi_sim_number = sim_number,
                 mi_imei_suffix = None, mi_error = None, mi_last_seen = now\<rparr>,
      sp_sms_active = False, sp_call_active = False, sp_observed = False\<rparr>"

definition truthy_text :: "str option \<Rightarrow> bool" where
  "truthy_text s \<longleftrightarrow> (case s of None \<Rightarrow> False | Some t \<Rightarrow> t \<noteq> [])"

definition derive_state :: "bool \<Rightarrow> bool \<Rightarrow> modem_info \<Rightarrow> modem_state" where
  "derive_state call_active sms_active i =
     (if truthy_text (mi_error i) then MERROR
      else if \<not> mi_registered i \<and> mi_last_seen i > 0 then
        (if mi_signal i \<noteq> None then MINITIALIZING else MOFFLINE)
      else if call_active then MCALL_BUSY
      else if sms_active then MSMS_BUSY
      else if mi_registered i then MREADY
      else MINITIALIZING)"

definition sp_derive :: "single_provider \<Rightarrow> single_provider" where
  "sp_derive p =
     p\<lparr>sp_info := (sp_info p)\<lparr>mi_state := derive_state (sp_call_active p) (sp_sms_active p) (sp_info p)\<rparr>\<rparr>"

definition sp_get_info :: "single_provider \<Rightarrow> str \<Rightarrow> modem_info option" where
  "sp_get_info p modem_id = (if modem_id \<noteq> sp_id p then None else Some (sp_info p))"

definition sp_list_modems :: "single_provider \<Rightarrow> modem_info list" where
  "sp_list_modems p = (case sp_get_info p (sp_id p) of None \<Rightarrow> [] | Some i \<Rightarrow> [i])"

definition sp_is_available :: "single_provider \<Rightarrow> str \<Rightarrow> bool" where
  "sp_is_available p modem_id =
     (if modem_id \<noteq> sp_id p then False
      else case sp_get_info p modem_id of None \<Rightarrow> False | Some i \<Rightarrow> mi_state i \<in> AVAILABLE_STATES)"

definition sp_has_observed :: "single_provider \<Rightarrow> str \<Rightarrow> bool" where
  "sp_has_observed p modem_id = (if modem_id \<noteq> sp_id p then False else sp_observed p)"

definition keep_if_none :: "'a option \<Rightarrow> 'a option \<Rightarrow> 'a option" where
  "keep_if_none new old = (case new of None \<Rightarrow> old | Some _ \<Rightarrow> new)"

definition sp_update_state ::
    "int \<Rightarrow> str \<Rightarrow> bool \<Rightarrow> int option \<Rightarrow> str option \<Rightarrow> str option \<Rightarrow> single_provider
     \<Rightarrow> bool \<times> single_provider" where
  "sp_update_state now modem_id registered signal operator error p =
     (if modem_id \<noteq> sp_id p then (False, p)
      else let i = sp_info p;
               i' = i\<lparr>mi_registered := registered,
                      mi_signal := keep_if_none signal (mi_signal i),
                      mi_operator := keep_if_none operator (mi_operator i),
                      mi_error := keep_if_none error (mi_error i),
                      mi_last_seen := now\<rparr>
           in (True, sp_derive (p\<lparr>sp_observed := True, sp_info := i'\<rparr>)))"

definition sp_set_sms_active :: "str \<Rightarrow> bool \<Rightarrow> single_provider \<Rightarrow> bool \<times> single_provider" where
  "sp_set_sms_active modem_id active p =
     (if modem_id \<noteq> sp_id p then (False, p)
      else (True, sp_derive (p\<lparr>sp_sms_active := active\<rparr>)))"

definition sp_set_call_active :: "str \<Rightarrow> bool \<Rightarrow> single_provider \<Rightarrow> bool \<times> single_provider" where
  "sp_set_call_active modem_id active p =
     (if modem_id \<noteq> sp_id p then (False, p)
      else (True, sp_derive (p\<lparr>sp_call_active := active\<rparr>)))"

definition sp_mark_offline :: "int \<Rightarrow> str \<Rightarrow> single_provider \<Rightarrow> bool \<times> single_provider" where
  "sp_mark_offline now modem_id p =
     (if modem_id \<noteq> sp_id p then (False, p)
      else (True, sp_derive (p\<lparr>sp_observed := True,
              sp_info := (sp_info p)\<lparr>mi_registered := False, mi_signal := None, mi_operator := None,
                                     mi_error := None, mi_last_seen := now\<rparr>\<rparr>)))"

definition single_ops :: "single_provider provider_ops" where
  "single_ops =
     \<lparr>po_get_info = sp_get_info, po_list_modems = sp_list_modems,
      po_is_available = sp_is_available, po_set_sms_active = sp_set_sms_active,
      po_set_call_active = sp_set_call_active\<rparr>"

section \<open>Routing strategies\<close>

datatype strategy =
    FirstAvailable
  | RoundRobin int
  | Sticky
  | Explicit

fun strategy_text :: "strategy \<Rightarrow> str" where
  "strategy_text FirstAvailable = S ''first_available''"
| "strategy_text (RoundRobin _) = S ''round_robin''"
| "strategy_text Sticky = S ''sticky''"
| "strategy_text Explicit = S ''explicit''"

definition first_available_select ::
    "modem_info list \<Rightarrow> http_error + modem_info option" where
  "first_available_select available =
     (if available = [] then Inr None else Inr (Some (hd (sort_key mi_id available))))"

definition round_robin_select ::
    "int \<Rightarrow> modem_info list \<Rightarrow> int \<times> (http_error + modem_info option)" where
  "round_robin_select counter available =
     (if available = [] then (counter, Inr None)
      else let sorted_modems = sort_key mi_id available;
               idx = counter mod int (length sorted_modems)
           in (counter + 1, Inr (Some (sorted_modems ! nat idx))))"

definition sticky_select :: "modem_info list \<Rightarrow> http_error + modem_info option" where
  "sticky_select available = Inl (Unhandled (S ''NotImplementedError''))"

definition explicit_select :: "modem_info list \<Rightarrow> http_error + modem_info option" where
  "explicit_select available = Inl (Unhandled (S ''NotImplementedError''))"

fun strategy_select ::
    "strategy \<Rightarrow> modem_info list \<Rightarrow> str option \<Rightarrow> strategy \<times> (http_error + modem_info option)" where
  "strategy_select FirstAvailable available destination =
     (FirstAvailable, first_available_select available)"
| "strategy_select (RoundRobin c) available destination =
     (case round_robin_select c available of (c', r) \<Rightarrow> (RoundRobin c', r))"
| "strategy_select Sticky available destination = (Sticky, sticky_select available)"
| "strategy_select Explicit available destination = (Explicit, explicit_select available)"

section \<open>The pool\<close>

record 'p modem_pool =
  mp_ops :: "'p provider_ops"
  mp_provider :: 'p
  mp_strategy :: strategy
  mp_reserved :: "str set"

definition new_modem_pool :: "'p provider_ops \<Rightarrow> 'p \<Rightarrow> strategy option \<Rightarrow> 'p modem_pool" where
  "new_modem_pool ops provider strategy =
     \<lparr>mp_ops = ops, mp_provider = provider,
      mp_strategy = (case strategy of None \<Rightarrow> FirstAvailable | Some s \<Rightarrow> s), mp_reserved = {}\<rparr>"

definition pool_list :: "'p modem_pool \<Rightarrow> modem_info list" where
  "pool_list pool = po_list_modems (mp_ops pool) (mp_provider pool)"

definition all_offline :: "'p modem_pool \<Rightarrow> bool" where
  "all_offline pool \<longleftrightarrow>
     (let infos = pool_list pool
      in if infos = [] then True else list_all (\<lambda>i. mi_state i = MOFFLINE) infos)"

definition get_available :: "'p modem_pool \<Rightarrow> modem_info list" where
  "get_available pool =
     filter (\<lambda>i. mi_id i \<notin> mp_reserved pool \<and> mi_state i \<in> AVAILABLE_STATES) (pool_list pool)"

definition select_for_sms ::
    "str option \<Rightarrow> 'p modem_pool \<Rightarrow> (http_error + modem_info option) \<times> 'p modem_pool" where
  "select_for_sms destination pool =
     (let available = get_available pool
      in if available = [] then (Inr None, pool)
         else case strategy_select (mp_strategy pool) available destination of
                (s', Inl e) \<Rightarrow> (Inl e, pool\<lparr>mp_strategy := s'\<rparr>)
              | (s', Inr None) \<Rightarrow> (Inr None, pool\<lparr>mp_strategy := s'\<rparr>)
              | (s', Inr (Some chosen)) \<Rightarrow>
                  (Inr (Some chosen),
                   pool\<lparr>mp_strategy := s', mp_reserved := insert (mi_id chosen) (mp_reserved pool)\<rparr>))"

definition select_for_call ::
    "str option \<Rightarrow> 'p modem_pool \<Rightarrow> (http_error + modem_info option) \<times> 'p modem_pool" where
  "select_for_call destination pool =
     (let available = get_available pool
      in if available = [] then (Inr None, pool)
         else case strategy_select (mp_strategy pool) available destination of
                (s', Inl e) \<Rightarrow> (Inl e, pool\<lparr>mp_strategy := s'\<rparr>)
              | (s', Inr None) \<Rightarrow> (Inr None, pool\<lparr>mp_strategy := s'\<rparr>)
              | (s', Inr (Some chosen)) \<Rightarrow>
                  (Inr (Some chosen),
                   pool\<lparr>mp_strategy := s', mp_reserved := insert (mi_id chosen) (mp_reserved pool),
                        mp_provider := snd (po_set_call_active (mp_ops pool) (mi_id chosen) True
                                              (mp_provider pool))\<rparr>))"

definition pool_release :: "str \<Rightarrow> 'p modem_pool \<Rightarrow> 'p modem_pool" where
  "pool_release modem_id pool =
     pool\<lparr>mp_reserved := mp_reserved pool - {modem_id},
          mp_provider := snd (po_set_call_active (mp_ops pool) modem_id False (mp_provider pool))\<rparr>"

definition is_all_busy :: "'p modem_pool \<Rightarrow> bool" where
  "is_all_busy pool \<longleftrightarrow> get_available pool = []"

definition get_reserved_count :: "'p modem_pool \<Rightarrow> nat" where
  "get_reserved_count pool = card (mp_reserved pool)"

section \<open>The contract of a routing strategy\<close>

locale routing_strategy =
  fixes select :: "'s \<Rightarrow> modem_info list \<Rightarrow> str option \<Rightarrow> 's \<times> (http_error + modem_info option)"
  assumes select_member: "select s available d = (s', Inr (Some m)) \<Longrightarrow> m \<in> set available"
begin

text \<open>A strategy given a filtered list chooses inside the filter.\<close>
lemma select_filter:
  "select s (filter P infos) d = (s', Inr (Some m)) \<Longrightarrow> m \<in> set infos \<and> P m"
  using select_member by fastforce

end

locale total_strategy = routing_strategy +
  fixes working :: "'s \<Rightarrow> bool"
  assumes select_total: "working s \<Longrightarrow> available \<noteq> [] \<Longrightarrow>
            \<exists>s' m. select s available d = (s', Inr (Some m)) \<and> working s'"
begin

lemma select_never_fails:
  "working s \<Longrightarrow> available \<noteq> [] \<Longrightarrow> \<exists>m \<in> set available. snd (select s available d) = Inr (Some m)"
  using select_total select_member by (metis snd_conv)

end

lemma first_available_member:
  "first_available_select av = Inr (Some m) \<Longrightarrow> m \<in> set av"
  by (auto simp: first_available_select_def split: if_splits)
    (metis length_0_conv length_sort list.set_sel(1) set_sort)

lemma round_robin_member:
  "round_robin_select c av = (c', Inr (Some m)) \<Longrightarrow> m \<in> set av"
proof -
  assume r: "round_robin_select c av = (c', Inr (Some m))"
  then have "av \<noteq> []" by (auto simp: round_robin_select_def)
  then have "nat (c mod int (length av)) < length (sort_key mi_id av)"
    by (simp add: nat_less_iff)
  then have "sort_key mi_id av ! nat (c mod int (length av)) \<in> set av"
    by (metis nth_mem set_sort)
  with r show ?thesis by (auto simp: round_robin_select_def Let_def split: if_splits)
qed

interpretation strat: routing_strategy strategy_select
proof unfold_locales
  fix s s' av d m
  assume "strategy_select s av d = (s', Inr (Some m))"
  then show "m \<in> set av"
    by (cases s) (auto simp: sticky_select_def explicit_select_def split: prod.splits
        dest: first_available_member round_robin_member)
qed

definition implemented :: "strategy \<Rightarrow> bool" where
  "implemented s \<longleftrightarrow> s \<noteq> Sticky \<and> s \<noteq> Explicit"

interpretation tstrat: total_strategy strategy_select implemented
proof unfold_locales
  fix s :: strategy and av :: "modem_info list" and d
  assume "implemented s" and "av \<noteq> []"
  then show "\<exists>s' m. strategy_select s av d = (s', Inr (Some m)) \<and> implemented s'"
    by (cases s) (auto simp: implemented_def first_available_select_def round_robin_select_def Let_def)
qed

section \<open>The contract of a provider\<close>

locale modem_provider =
  fixes ops :: "'p provider_ops"
    and valid :: "'p \<Rightarrow> bool"
  assumes valid_set_call: "valid p \<Longrightarrow> valid (snd (po_set_call_active ops m b p))"
    and ids_distinct: "valid p \<Longrightarrow> distinct (map mi_id (po_list_modems ops p))"
    and call_active_ids:
      "valid p \<Longrightarrow>
         map mi_id (po_list_modems ops (snd (po_set_call_active ops m b p))) = map mi_id (po_list_modems ops p)"
    and call_active_busy:
      "valid p \<Longrightarrow> i \<in> set (po_list_modems ops (snd (po_set_call_active ops m True p))) \<Longrightarrow>
         mi_id i = m \<Longrightarrow> mi_state i \<notin> AVAILABLE_STATES"
    and call_active_frame:
      "valid p \<Longrightarrow> i \<in> set (po_list_modems ops (snd (po_set_call_active ops m b p))) \<Longrightarrow>
         mi_id i \<noteq> m \<Longrightarrow> i \<in> set (po_list_modems ops p)"
begin

lemma select_call_valid:
  "mp_ops pool = ops \<Longrightarrow> valid (mp_provider pool) \<Longrightarrow> select_for_call d pool = (r, pool') \<Longrightarrow>
     mp_ops pool' = ops \<and> valid (mp_provider pool')"
  using valid_set_call [of "mp_provider pool"]
  by (auto simp: select_for_call_def Let_def split: if_splits prod.splits sum.splits
      option.splits)

text \<open>After a selection the chosen modem is not available, and no other modem became available.\<close>
lemma select_call_available:
  assumes ops: "mp_ops pool = ops" and valid: "valid (mp_provider pool)"
    and sel: "select_for_call d pool = (Inr (Some m), pool')"
    and i: "i \<in> set (get_available pool')"
  shows "i \<in> set (get_available pool) \<and> mi_id i \<noteq> mi_id m"
proof -
  let ?p = "mp_provider pool" and ?m = "mi_id m"
  have pool': "mp_ops pool' = ops" "mp_reserved pool' = insert ?m (mp_reserved pool)"
    "mp_provider pool' = snd (po_set_call_active ops ?m True ?p)"
    using sel ops
    by (auto simp: select_for_call_def Let_def split: if_splits prod.splits sum.splits option.splits)
  from i pool' have "mi_id i \<noteq> ?m" and "mi_id i \<notin> mp_reserved pool" and "mi_state i \<in> AVAILABLE_STATES"
    and "i \<in> set (po_list_modems ops (snd (po_set_call_active ops ?m True ?p)))"
    by (auto simp: get_available_def pool_list_def)
  with call_active_frame [OF valid] ops show ?thesis
    by (auto simp: get_available_def pool_list_def)
qed

lemma release_available:
  assumes ops: "mp_ops pool = ops" and valid: "valid (mp_provider pool)"
    and i: "i \<in> set (get_available (pool_release m pool))" and "mi_id i \<noteq> m"
  shows "i \<in> set (get_available pool)"
  using i call_active_frame [OF valid, of i m False] assms(4) ops
  by (auto simp: get_available_def pool_list_def pool_release_def)

end

lemma derive_state_ready:
  "derive_state c s i = MREADY \<longleftrightarrow> \<not> truthy_text (mi_error i) \<and> mi_registered i \<and> \<not> c \<and> \<not> s"
  by (auto simp: derive_state_def)

definition sp_valid :: "single_provider \<Rightarrow> bool" where
  "sp_valid p \<longleftrightarrow> mi_id (sp_info p) = sp_id p"

lemmas sp_defs = sp_list_modems_def sp_get_info_def sp_set_call_active_def sp_set_sms_active_def
  sp_update_state_def sp_mark_offline_def sp_derive_def Let_def

interpretation single: modem_provider single_ops sp_valid
  by unfold_locales
    (auto simp: single_ops_def sp_defs sp_valid_def AVAILABLE_STATES_def derive_state_ready
      split: if_splits)

section \<open>Device reports and activity\<close>

datatype sp_event =
    Report bool "int option" "str option" "str option"
  | Unplugged
  | SmsActive bool
  | CallActive bool

fun sp_step :: "int \<Rightarrow> sp_event \<Rightarrow> single_provider \<Rightarrow> single_provider" where
  "sp_step now (Report reg sig oper err) p = snd (sp_update_state now (sp_id p) reg sig oper err p)"
| "sp_step now Unplugged p = snd (sp_mark_offline now (sp_id p) p)"
| "sp_step now (SmsActive b) p = snd (sp_set_sms_active (sp_id p) b p)"
| "sp_step now (CallActive b) p = snd (sp_set_call_active (sp_id p) b p)"

fun sp_run :: "(int \<times> sp_event) list \<Rightarrow> single_provider \<Rightarrow> single_provider" where
  "sp_run [] p = p"
| "sp_run ((now, e) # es) p = sp_run es (sp_step now e p)"

definition sp_consistent :: "single_provider \<Rightarrow> bool" where
  "sp_consistent p \<longleftrightarrow>
     (mi_state (sp_info p) = MREADY \<longleftrightarrow>
        \<not> truthy_text (mi_error (sp_info p)) \<and> mi_registered (sp_info p)
        \<and> \<not> sp_call_active p \<and> \<not> sp_sms_active p)"

lemma sp_step_consistent: "sp_consistent (sp_step now e p)"
proof -
  have ready: "derive_state c s (i\<lparr>mi_state := x\<rparr>) = derive_state c s i" for c s i x
    by (simp add: derive_state_def)
  show ?thesis
    by (cases e) (auto simp: sp_consistent_def sp_defs derive_state_ready)
qed

lemma sp_run_consistent: "sp_consistent p \<Longrightarrow> sp_consistent (sp_run es p)"
  by (induction es p rule: sp_run.induct) (simp_all add: sp_step_consistent)

lemma sp_new_consistent: "sp_consistent (new_single_provider now m dev sim)"
  by (simp add: sp_consistent_def new_single_provider_def truthy_text_def)

lemma sp_step_id [simp]: "sp_id (sp_step now e p) = sp_id p"
  by (cases e) (auto simp: sp_defs)

lemma sp_run_id [simp]: "sp_id (sp_run es p) = sp_id p"
  by (induction es p rule: sp_run.induct) simp_all

lemma sp_available_state:
  "sp_is_available p (sp_id p) \<longleftrightarrow> mi_state (sp_info p) = MREADY"
  by (simp add: sp_is_available_def sp_get_info_def AVAILABLE_STATES_def)

section \<open>Round robin\<close>

fun rr_picks :: "nat \<Rightarrow> int \<Rightarrow> modem_info list \<Rightarrow> modem_info list" where
  "rr_picks 0 c available = []"
| "rr_picks (Suc n) c available =
     (case round_robin_select c available of
        (c', Inr (Some m)) \<Rightarrow> m # rr_picks n c' available
      | (c', _) \<Rightarrow> rr_picks n c' available)"

lemma rr_picks_nth:
  "av \<noteq> [] \<Longrightarrow> rr_picks n c av =
     map (\<lambda>k. sort_key mi_id av ! nat ((c + int k) mod int (length av))) [0..<n]"
proof (induction n arbitrary: c)
  case 0
  then show ?case by simp
next
  case (Suc n)
  have "[0..<Suc n] = 0 # map Suc [0..<n]" by (simp add: upt_conv_Cons map_Suc_upt del: upt_Suc)
  then show ?case
    using Suc by (simp add: round_robin_select_def Let_def comp_def algebra_simps del: upt_Suc)
qed

lemma rr_picks_rotate:
  assumes "av \<noteq> []" and "0 \<le> c"
  shows "rr_picks (length av) c av = rotate (nat c) (sort_key mi_id av)"
proof (rule nth_equalityI)
  show "length (rr_picks (length av) c av) = length (rotate (nat c) (sort_key mi_id av))"
    using assms by (simp add: rr_picks_nth)
  fix i assume "i < length (rr_picks (length av) c av)"
  then have i: "i < length av" using assms by (simp add: rr_picks_nth)
  have "nat ((c + int i) mod int (length av)) = (nat c + i) mod length av"
    using assms(2) by (simp add: nat_mod_distrib nat_add_distrib)
  then show "rr_picks (length av) c av ! i = rotate (nat c) (sort_key mi_id av) ! i"
    using assms i by (simp add: rr_picks_nth nth_rotate)
qed

lemma mset_rotate: "mset (rotate n xs) = mset xs"
proof (induction n)
  case 0
  then show ?case by simp
next
  case (Suc n)
  then show ?case by (cases "rotate n xs") (auto simp: rotate_Suc)
qed

section \<open>Properties\<close>

text \<open>Reservation is exclusive. A modem chosen for a call was ready and unreserved; it is
  reserved afterwards, is not available any more, and no other modem became available by the
  choice, for every provider that keeps the contract of \<open>ModemProvider\<close>.\<close>
theorem call_selection_exclusive:
  assumes "modem_provider (mp_ops pool) valid" and "valid (mp_provider pool)"
    and "select_for_call d pool = (Inr (Some m), pool')"
  shows "mi_id m \<notin> mp_reserved pool \<and> mi_state m = MREADY
     \<and> mp_reserved pool' = insert (mi_id m) (mp_reserved pool)
     \<and> (\<forall>i \<in> set (get_available pool'). i \<in> set (get_available pool) \<and> mi_id i \<noteq> mi_id m)"
proof -
  obtain s' where s: "strategy_select (mp_strategy pool) (get_available pool) d = (s', Inr (Some m))"
    using assms(3)
    by (auto simp: select_for_call_def Let_def split: if_splits prod.splits sum.splits option.splits)
  from strat.select_filter [OF s [unfolded get_available_def]]
  have "mi_id m \<notin> mp_reserved pool" "mi_state m = MREADY" by (auto simp: AVAILABLE_STATES_def)
  moreover have "mp_reserved pool' = insert (mi_id m) (mp_reserved pool)"
    using assms(3)
    by (auto simp: select_for_call_def Let_def split: if_splits prod.splits sum.splits option.splits)
  ultimately show ?thesis
    using modem_provider.select_call_available [OF assms(1) refl assms(2,3)] by blast
qed

definition ready_provider :: single_provider where
  "ready_provider =
     snd (sp_update_state 5 (S ''gsm'') True (Some 80) None None
       (new_single_provider 1 (S ''gsm'') (S ''gsm'') None))"

definition ready_pool :: "single_provider modem_pool" where
  "ready_pool = new_modem_pool single_ops ready_provider None"

lemma ready_pool_select:
  "select_for_call d ready_pool = (Inr (Some (sp_info ready_provider)), snd (select_for_call d ready_pool))"
  "mi_id (sp_info ready_provider) = S ''gsm''" "sp_valid (mp_provider ready_pool)"
  by (simp_all add: select_for_call_def ready_pool_def new_modem_pool_def get_available_def
      pool_list_def single_ops_def ready_provider_def new_single_provider_def sp_defs
      AVAILABLE_STATES_def derive_state_def truthy_text_def keep_if_none_def first_available_select_def
      sp_valid_def)

theorem call_selection_exclusive_witness:
  "S ''gsm'' \<in> mp_reserved (snd (select_for_call None ready_pool))
   \<and> get_available (snd (select_for_call None ready_pool)) = []"
proof -
  have ops: "modem_provider (mp_ops ready_pool) sp_valid"
    using single.modem_provider_axioms by (simp add: ready_pool_def new_modem_pool_def)
  note ex = call_selection_exclusive [OF ops ready_pool_select(3) ready_pool_select(1)]
  have one: "get_available ready_pool = [sp_info ready_provider]"
    by (simp add: get_available_def pool_list_def ready_pool_def new_modem_pool_def single_ops_def
        ready_provider_def new_single_provider_def sp_defs AVAILABLE_STATES_def derive_state_def
        truthy_text_def keep_if_none_def)
  have "i \<notin> set (get_available (snd (select_for_call None ready_pool)))" for i
    using ex [of None] unfolding one by force
  then have "get_available (snd (select_for_call None ready_pool)) = []"
    by (metis list.set_sel(1))
  with ex show ?thesis by (simp add: ready_pool_select(2))
qed

text \<open>The modem is available exactly when the device last reported it registered, no error
  is recorded, and neither a call nor an SMS is active: after any sequence of device reports,
  unplugging and activity changes. In particular no device report makes a modem in a call
  available.\<close>
theorem availability_exact:
  "sp_is_available (sp_run es (new_single_provider now m dev sim)) m \<longleftrightarrow>
     (let p = sp_run es (new_single_provider now m dev sim)
      in \<not> truthy_text (mi_error (sp_info p)) \<and> mi_registered (sp_info p)
         \<and> \<not> sp_call_active p \<and> \<not> sp_sms_active p)"
proof -
  let ?p = "sp_run es (new_single_provider now m dev sim)"
  have "sp_id ?p = m" by (simp add: new_single_provider_def)
  then show ?thesis
    using sp_available_state [of ?p] sp_run_consistent [OF sp_new_consistent, of es now m dev sim]
    by (simp add: Let_def sp_consistent_def)
qed

text \<open>Round robin is fair: over a fixed list of available modems, as many consecutive
  selections as there are modems pick each of them exactly once, from any counter.\<close>
theorem round_robin_fair:
  "0 \<le> c \<Longrightarrow> mset (rr_picks (length available) c available) = mset available"
  by (cases "available = []") (simp_all add: rr_picks_rotate mset_rotate mset_sort)

theorem round_robin_fair_witness:
  "mset (rr_picks (length [sp_info ready_provider]) 3 [sp_info ready_provider])
     = mset [sp_info ready_provider]"
  by (rule round_robin_fair) simp

end
