(* ===== verification/CallControl.thy ===== *)
theory CallControl
  imports Metrics Modem
begin

text \<open>
  \<open>core/call_control.py\<close>: the state machine of one call (\<open>CallMachine\<close>) and the registry of calls
  with modem reservation, timeouts and termination (\<open>CallRegistry\<close>).

  The registry record holds what the Python object refers to: the modem pool, the metrics and the
  audit log are shared objects of the agent, and this is the one place the model keeps them. A
  machine in the registry is looked up by its id and written back; \<open>now\<close> is the clock of the
  operation and a new call id (\<open>uuid4\<close>) is an argument. Every operation of the registry runs
  under its lock, so operations are atomic steps.
\<close>

section \<open>States\<close>

datatype call_state =
    IDLE | HANGUP | CLEANUP | REJECTED
  | RINGING | TELEGRAM_RINGING | TELEGRAM_ACCEPTED | GSM_ANSWERED | VOICEMAIL
  | REQUESTED | ACL_CHECKED | ACL_DENIED | MODEM_RESERVED | TELEGRAM_CALLING | USER_ACCEPTED
  | GSM_DIALING | GSM_RINGING | GSM_BUSY | GSM_NO_ANSWER | GSM_ERROR | CONNECTED | TELEGRAM_TIMEOUT
  | BRIDGED

fun call_state_value :: "call_state \<Rightarrow> str" where
  "call_state_value IDLE = S ''idle''"
| "call_state_value HANGUP = S ''hangup''"
| "call_state_value CLEANUP = S ''cleanup''"
| "call_state_value REJECTED = S ''rejected''"
| "call_state_value RINGING = S ''ringing''"
| "call_state_value TELEGRAM_RINGING = S ''telegram_ringing''"
| "call_state_value TELEGRAM_ACCEPTED = S ''telegram_accepted''"
| "call_state_value GSM_ANSWERED = S ''gsm_answered''"
| "call_state_value VOICEMAIL = S ''voicemail''"
| "call_state_value REQUESTED = S ''requested''"
| "call_state_value ACL_CHECKED = S ''acl_checked''"
| "call_state_value ACL_DENIED = S ''acl_denied''"
| "call_state_value MODEM_RESERVED = S ''modem_reserved''"
| "call_state_value TELEGRAM_CALLING = S ''telegram_calling''"
| "call_state_value USER_ACCEPTED = S ''user_accepted''"
| "call_state_value GSM_DIALING = S ''gsm_dialing''"
| "call_state_value GSM_RINGING = S ''gsm_ringing''"
| "call_state_value GSM_BUSY = S ''gsm_busy''"
| "call_state_value GSM_NO_ANSWER = S ''gsm_no_answer''"
| "call_state_value GSM_ERROR = S ''gsm_error''"
| "call_state_value CONNECTED = S ''connected''"
| "call_state_value TELEGRAM_TIMEOUT = S ''telegram_timeout''"
| "call_state_value BRIDGED = S ''bridged''"

fun incoming_transitions :: "call_state \<Rightarrow> call_state list" where
  "incoming_transitions IDLE = [RINGING]"
| "incoming_transitions RINGING = [TELEGRAM_RINGING, REJECTED, HANGUP, VOICEMAIL]"
| "incoming_transitions TELEGRAM_RINGING = [TELEGRAM_ACCEPTED, REJECTED, HANGUP, VOICEMAIL]"
| "incoming_transitions TELEGRAM_ACCEPTED = [GSM_ANSWERED, HANGUP]"
| "incoming_transitions GSM_ANSWERED = [BRIDGED, HANGUP]"
| "incoming_transitions BRIDGED = [HANGUP]"
| "incoming_transitions HANGUP = [CLEANUP]"
| "incoming_transitions VOICEMAIL = [HANGUP]"
| "incoming_transitions _ = []"

fun outgoing_transitions :: "call_state \<Rightarrow> call_state list" where
  "outgoing_transitions IDLE = [REQUESTED]"
| "outgoing_transitions REQUESTED = [ACL_CHECKED, REJECTED]"
| "outgoing_transitions ACL_CHECKED = [ACL_DENIED, MODEM_RESERVED]"
| "outgoing_transitions MODEM_RESERVED = [TELEGRAM_CALLING, REJECTED, TELEGRAM_TIMEOUT]"
| "outgoing_transitions TELEGRAM_CALLING = [USER_ACCEPTED, REJECTED, TELEGRAM_TIMEOUT]"
| "outgoing_transitions USER_ACCEPTED = [GSM_DIALING, HANGUP]"
| "outgoing_transitions GSM_DIALING = [GSM_RINGING, GSM_BUSY, GSM_NO_ANSWER, GSM_ERROR, HANGUP]"
| "outgoing_transitions GSM_RINGING = [CONNECTED, GSM_NO_ANSWER, GSM_ERROR, HANGUP]"
| "outgoing_transitions CONNECTED = [BRIDGED, HANGUP]"
| "outgoing_transitions BRIDGED = [HANGUP]"
| "outgoing_transitions HANGUP = [CLEANUP]"
| "outgoing_transitions _ = []"

definition TERMINAL_STATES :: "call_state set" where
  "TERMINAL_STATES =
     {CLEANUP, REJECTED, HANGUP, VOICEMAIL, ACL_DENIED, TELEGRAM_TIMEOUT, GSM_BUSY,
      GSM_NO_ANSWER, GSM_ERROR}"

section \<open>One call\<close>

record call_machine =
  cm_id :: str
  cm_direction :: str
  cm_caller :: str
  cm_callee :: str
  cm_caller_name :: "str option"
  cm_callee_name :: "str option"
  cm_modem_id :: str
  cm_state :: call_state
  cm_created_at :: int
  cm_updated_at :: int
  cm_error :: "str option"
  cm_gsm_channel :: "str option"
  cm_bridge_channel :: "str option"
  cm_tg_user :: "int option"
  cm_tg_call :: "str option"
  cm_bridged_at :: "int option"

datatype invalid_transition =
  InvalidTransition (it_from: call_state) (it_to: call_state) (it_allowed: "call_state list")

text \<open>\<open>CallMachine.__init__\<close> with the field defaults; the callers set the other fields.\<close>
definition new_call :: "int \<Rightarrow> str \<Rightarrow> str \<Rightarrow> call_machine" where
  "new_call now call_id direction =
     \<lparr>cm_id = call_id, cm_direction = direction, cm_caller = [], cm_callee = [],
      cm_caller_name = None, cm_callee_name = None, cm_modem_id = S ''gsm'', cm_state = IDLE,
      cm_created_at = now, cm_updated_at = now, cm_error = None, cm_gsm_channel = None,
      cm_bridge_channel = None, cm_tg_user = None, cm_tg_call = None, cm_bridged_at = None\<rparr>"

definition allowed_from :: "call_machine \<Rightarrow> call_state list" where
  "allowed_from c =
     (if cm_direction c = S ''outgoing'' then outgoing_transitions (cm_state c)
      else incoming_transitions (cm_state c))"

definition cm_transition ::
    "int \<Rightarrow> call_state \<Rightarrow> call_machine \<Rightarrow> invalid_transition + call_machine" where
  "cm_transition now new_state c =
     (if new_state \<notin> set (allowed_from c)
      then Inl (InvalidTransition (cm_state c) new_state (allowed_from c))
      else let c' = c\<lparr>cm_state := new_state, cm_updated_at := now\<rparr>
           in Inr (if new_state = BRIDGED then c'\<lparr>cm_bridged_at := Some now\<rparr> else c'))"

definition is_terminal :: "call_machine \<Rightarrow> bool" where
  "is_terminal c \<longleftrightarrow> cm_state c \<in> TERMINAL_STATES"

definition is_active :: "call_machine \<Rightarrow> bool" where
  "is_active c \<longleftrightarrow> \<not> is_terminal c"

definition check_duration_exceeded :: "int \<Rightarrow> int \<Rightarrow> call_machine \<Rightarrow> bool" where
  "check_duration_exceeded now max_seconds c \<longleftrightarrow> now - cm_created_at c > max_seconds * US"

definition nonempty_opt :: "str option \<Rightarrow> str list" where
  "nonempty_opt s = (case s of None \<Rightarrow> [] | Some t \<Rightarrow> if t = [] then [] else [t])"

definition get_active_channel_ids :: "call_machine \<Rightarrow> str list" where
  "get_active_channel_ids c = nonempty_opt (cm_gsm_channel c) @ nonempty_opt (cm_bridge_channel c)"

definition call_to_dict :: "call_machine \<Rightarrow> json" where
  "call_to_dict c = JObj
     [(S ''call_id'', JStr (cm_id c)), (S ''direction'', JStr (cm_direction c)),
      (S ''caller_number'', JStr (cm_caller c)), (S ''callee_number'', JStr (cm_callee c)),
      (S ''caller_name'', jopt (cm_caller_name c)), (S ''callee_name'', jopt (cm_callee_name c)),
      (S ''modem_id'', JStr (cm_modem_id c)), (S ''state'', JStr (call_state_value (cm_state c))),
      (S ''created_at'', JStr (isoformat (cm_created_at c))),
      (S ''updated_at'', JStr (isoformat (cm_updated_at c))), (S ''error'', jopt (cm_error c)),
      (S ''gsm_channel_id'', jopt (cm_gsm_channel c)),
      (S ''bridge_channel_id'', jopt (cm_bridge_channel c)),
      (S ''telegram_user_id'', jopt_int (cm_tg_user c)),
      (S ''telegram_call_id'', jopt (cm_tg_call c)), (S ''is_terminal'', JBool (is_terminal c))]"

section \<open>The registry\<close>

record 'p call_registry =
  cr_calls :: "(str, call_machine) dict"
  cr_modems_reserved :: int
  cr_pool :: "'p modem_pool option"
  cr_metrics :: "metrics option"
  cr_audit :: audit_log

definition new_call_registry ::
    "audit_log \<Rightarrow> 'p modem_pool option \<Rightarrow> metrics option \<Rightarrow> 'p call_registry" where
  "new_call_registry audit pool metrics =
     \<lparr>cr_calls = [], cr_modems_reserved = 0, cr_pool = pool, cr_metrics = metrics, cr_audit = audit\<rparr>"

definition hook_metrics :: "int \<Rightarrow> call_machine \<Rightarrow> metrics \<Rightarrow> metrics" where
  "hook_metrics now c m =
     (case cm_state c of
        BRIDGED \<Rightarrow> call_answered (cm_direction c) m
      | REJECTED \<Rightarrow> call_rejected (cm_direction c) m
      | VOICEMAIL \<Rightarrow> call_voicemail m
      | TELEGRAM_TIMEOUT \<Rightarrow> call_timeout (S ''outgoing'') m
      | GSM_BUSY \<Rightarrow> call_failed m
      | GSM_NO_ANSWER \<Rightarrow> call_failed m
      | GSM_ERROR \<Rightarrow> call_failed m
      | HANGUP \<Rightarrow> (case cm_bridged_at c of None \<Rightarrow> m
                     | Some since \<Rightarrow> record_answered_duration (now - since) m)
      | _ \<Rightarrow> m)"

definition metrics_hook :: "int \<Rightarrow> call_machine \<Rightarrow> 'p call_registry \<Rightarrow> 'p call_registry" where
  "metrics_hook now c reg = reg\<lparr>cr_metrics := map_option (hook_metrics now c) (cr_metrics reg)\<rparr>"

text \<open>A transition of a machine of this registry, with its hook.\<close>
definition hooked_transition ::
    "int \<Rightarrow> call_state \<Rightarrow> call_machine \<Rightarrow> 'p call_registry
     \<Rightarrow> (invalid_transition + call_machine) \<times> 'p call_registry" where
  "hooked_transition now new_state c reg =
     (case cm_transition now new_state c of
        Inl e \<Rightarrow> (Inl e, reg)
      | Inr c' \<Rightarrow> (Inr c', metrics_hook now c' reg))"

text \<open>Several transitions in a row; the first one that is not allowed raises.\<close>
fun hooked_transitions ::
    "int \<Rightarrow> call_state list \<Rightarrow> call_machine \<Rightarrow> 'p call_registry
     \<Rightarrow> (invalid_transition + call_machine) \<times> 'p call_registry" where
  "hooked_transitions now [] c reg = (Inr c, reg)"
| "hooked_transitions now (s # ss) c reg =
     (case hooked_transition now s c reg of
        (Inl e, reg') \<Rightarrow> (Inl e, reg')
      | (Inr c', reg') \<Rightarrow> hooked_transitions now ss c' reg')"

definition put_call :: "call_machine \<Rightarrow> 'p call_registry \<Rightarrow> 'p call_registry" where
  "put_call c reg = reg\<lparr>cr_calls := dput (cm_id c) c (cr_calls reg)\<rparr>"

datatype call_error =
    ModemBusyError (mbe_reason: str)
  | TransitionError invalid_transition
  | StrategyError http_error

definition create_incoming ::
    "int \<Rightarrow> str \<Rightarrow> str \<Rightarrow> str option \<Rightarrow> str \<Rightarrow> str option \<Rightarrow> 'p call_registry
     \<Rightarrow> (call_error + call_machine) \<times> 'p call_registry" where
  "create_incoming now uuid caller_number caller_name modem_id gsm_channel reg =
     (let c = (new_call now uuid (S ''incoming''))
                \<lparr>cm_caller := caller_number, cm_caller_name := caller_name, cm_modem_id := modem_id,
                 cm_gsm_channel := gsm_channel\<rparr>
      in case hooked_transition now RINGING c reg of
           (Inl e, reg') \<Rightarrow> (Inl (TransitionError e), reg')
         | (Inr c', reg') \<Rightarrow> (Inr c', put_call c' reg'))"

datatype modem_choice =
  ModemChoice (ch_modem: str) (ch_policy: str)

text \<open>The choice of the modem: by the pool, by the counter without a pool, none for a call inside
  the private network.\<close>
definition choose_modem ::
    "str \<Rightarrow> str \<Rightarrow> bool \<Rightarrow> 'p call_registry \<Rightarrow> (call_error + modem_choice) \<times> 'p call_registry" where
  "choose_modem callee modem_id modem_required reg =
     (if \<not> modem_required then (Inr (ModemChoice [] (S ''none'')), reg)
      else case cr_pool reg of
        None \<Rightarrow> if cr_modems_reserved reg > 0 then (Inl (ModemBusyError (S ''busy'')), reg)
                 else (Inr (ModemChoice modem_id (S ''direct'')), reg)
      | Some pool \<Rightarrow>
          (case select_for_call (Some callee) pool of
             (Inl e, pool') \<Rightarrow> (Inl (StrategyError e), reg\<lparr>cr_pool := Some pool'\<rparr>)
           | (Inr None, pool') \<Rightarrow>
               (Inl (ModemBusyError (if all_offline pool' then S ''offline'' else S ''busy'')),
                reg\<lparr>cr_pool := Some pool'\<rparr>)
           | (Inr (Some chosen), pool') \<Rightarrow>
               (Inr (ModemChoice (mi_id chosen) (strategy_text (mp_strategy pool'))),
                reg\<lparr>cr_pool := Some pool'\<rparr>)))"

definition create_outgoing ::
    "int \<Rightarrow> str \<Rightarrow> str \<Rightarrow> str \<Rightarrow> str option \<Rightarrow> str \<Rightarrow> int option \<Rightarrow> bool \<Rightarrow> 'p call_registry
     \<Rightarrow> (call_error + call_machine) \<times> 'p call_registry" where
  "create_outgoing now uuid callee caller callee_name modem_id tg_user modem_required reg =
     (case choose_modem callee modem_id modem_required reg of
        (Inl e, reg1) \<Rightarrow> (Inl e, reg1)
      | (Inr choice, reg1) \<Rightarrow>
          let c = (new_call now uuid (S ''outgoing''))
                    \<lparr>cm_caller := caller, cm_callee := callee, cm_callee_name := callee_name,
                     cm_modem_id := ch_modem choice, cm_tg_user := tg_user\<rparr>
          in case hooked_transitions now [REQUESTED, ACL_CHECKED] c reg1 of
               (Inl e, reg2) \<Rightarrow> (Inl (TransitionError e), reg2)
             | (Inr c2, reg2) \<Rightarrow>
                 let reg3 = (if modem_required \<and> cr_pool reg2 = None
                             then reg2\<lparr>cr_modems_reserved := cr_modems_reserved reg2 + 1\<rparr>
                             else reg2)
                 in case hooked_transition now MODEM_RESERVED c2 reg3 of
                      (Inl e, reg4) \<Rightarrow> (Inl (TransitionError e), reg4)
                    | (Inr c3, reg4) \<Rightarrow>
                        let reg5 = put_call c3 reg4
                        in (Inr c3,
                            if modem_required
                            then reg5\<lparr>cr_audit := audit_append
                                   ((entry now MODEM_SELECTED)
                                      \<lparr>ae_correlation := Some uuid, ae_modem := Some (ch_modem choice),
                                       ae_details := [(S ''policy'', JStr (ch_policy choice)),
                                                      (S ''direction'', JStr (S ''outgoing'')),
                                                      (S ''destination'', JStr callee)]\<rparr>)
                                   (cr_audit reg5)\<rparr>
                            else reg5))"

definition get_call :: "str \<Rightarrow> 'p call_registry \<Rightarrow> call_machine option" where
  "get_call call_id reg = dget (cr_calls reg) call_id"

definition reg_transition ::
    "int \<Rightarrow> str \<Rightarrow> call_state \<Rightarrow> 'p call_registry \<Rightarrow> bool \<times> 'p call_registry" where
  "reg_transition now call_id new_state reg =
     (case dget (cr_calls reg) call_id of
        None \<Rightarrow> (False, reg)
      | Some c \<Rightarrow> (case hooked_transition now new_state c reg of
                      (Inl _, reg') \<Rightarrow> (False, reg')
                    | (Inr c', reg') \<Rightarrow> (True, put_call c' reg')))"

definition cleanup :: "str \<Rightarrow> 'p call_registry \<Rightarrow> 'p call_registry" where
  "cleanup call_id reg =
     (let reg' = reg\<lparr>cr_calls := dpop call_id (cr_calls reg)\<rparr>
      in case dget (cr_calls reg) call_id of
           None \<Rightarrow> reg'
         | Some c \<Rightarrow>
             if cm_direction c = S ''outgoing'' \<and> cm_modem_id c \<noteq> []
             then (case cr_pool reg of
                     Some pool \<Rightarrow> reg'\<lparr>cr_pool := Some (pool_release (cm_modem_id c) pool)\<rparr>
                   | None \<Rightarrow> reg'\<lparr>cr_modems_reserved := max 0 (cr_modems_reserved reg - 1)\<rparr>)
             else reg')"

definition list_active :: "'p call_registry \<Rightarrow> call_machine list" where
  "list_active reg = filter is_active (dvalues (cr_calls reg))"

definition list_calls :: "'p call_registry \<Rightarrow> call_machine list" where
  "list_calls reg = dvalues (cr_calls reg)"

definition count_by_state :: "call_state \<Rightarrow> 'p call_registry \<Rightarrow> nat" where
  "count_by_state s reg = length (filter (\<lambda>c. cm_state c = s) (dvalues (cr_calls reg)))"

definition count_by_direction :: "str \<Rightarrow> 'p call_registry \<Rightarrow> nat" where
  "count_by_direction d reg =
     length (filter (\<lambda>c. cm_direction c = d \<and> is_active c) (dvalues (cr_calls reg)))"

section \<open>Orchestration\<close>

text \<open>The fields the operations record on a call without a transition.\<close>
datatype call_note =
    NoteError str
  | NoteGsmChannel str
  | NoteBridgeChannel str
  | NoteTelegramCall str

fun apply_note :: "call_note \<Rightarrow> call_machine \<Rightarrow> call_machine" where
  "apply_note (NoteError r) c = c\<lparr>cm_error := Some r\<rparr>"
| "apply_note (NoteGsmChannel ch) c = c\<lparr>cm_gsm_channel := Some ch\<rparr>"
| "apply_note (NoteBridgeChannel ch) c = c\<lparr>cm_bridge_channel := Some ch\<rparr>"
| "apply_note (NoteTelegramCall t) c = c\<lparr>cm_tg_call := Some t\<rparr>"

definition annotate :: "str \<Rightarrow> call_note \<Rightarrow> 'p call_registry \<Rightarrow> bool \<times> 'p call_registry" where
  "annotate call_id n reg =
     (case dget (cr_calls reg) call_id of
        None \<Rightarrow> (False, reg)
      | Some c \<Rightarrow> (True, reg\<lparr>cr_calls := dput call_id (apply_note n c) (cr_calls reg)\<rparr>))"

text \<open>A transition and, when it succeeded and the argument is truthy, a note.\<close>
definition transition_note ::
    "int \<Rightarrow> str \<Rightarrow> call_state \<Rightarrow> (str \<Rightarrow> call_note) \<Rightarrow> str option \<Rightarrow> 'p call_registry
     \<Rightarrow> bool \<times> 'p call_registry" where
  "transition_note now call_id s mk arg reg =
     (case reg_transition now call_id s reg of
        (False, reg1) \<Rightarrow> (False, reg1)
      | (True, reg1) \<Rightarrow>
          (True, case arg of None \<Rightarrow> reg1
                 | Some t \<Rightarrow> if t = [] then reg1 else snd (annotate call_id (mk t) reg1)))"

definition start_telegram_ring :: "int \<Rightarrow> str \<Rightarrow> 'p call_registry \<Rightarrow> bool \<times> 'p call_registry" where
  "start_telegram_ring now call_id = reg_transition now call_id TELEGRAM_RINGING"

definition accept_incoming :: "int \<Rightarrow> str \<Rightarrow> 'p call_registry \<Rightarrow> bool \<times> 'p call_registry" where
  "accept_incoming now call_id = reg_transition now call_id TELEGRAM_ACCEPTED"

definition answer_gsm ::
    "int \<Rightarrow> str \<Rightarrow> str option \<Rightarrow> 'p call_registry \<Rightarrow> bool \<times> 'p call_registry" where
  "answer_gsm now call_id channel = transition_note now call_id GSM_ANSWERED NoteGsmChannel channel"

definition set_bridge_leg :: "str \<Rightarrow> str \<Rightarrow> 'p call_registry \<Rightarrow> bool \<times> 'p call_registry" where
  "set_bridge_leg call_id channel = annotate call_id (NoteBridgeChannel channel)"

definition bridge_call :: "int \<Rightarrow> str \<Rightarrow> 'p call_registry \<Rightarrow> bool \<times> 'p call_registry" where
  "bridge_call now call_id = reg_transition now call_id BRIDGED"

definition ff_steps :: "(call_state \<times> call_state) list" where
  "ff_steps = [(RINGING, TELEGRAM_RINGING), (TELEGRAM_RINGING, TELEGRAM_ACCEPTED),
               (TELEGRAM_ACCEPTED, GSM_ANSWERED), (GSM_ANSWERED, BRIDGED)]"

fun ff_run ::
    "int \<Rightarrow> str \<Rightarrow> (call_state \<times> call_state) list \<Rightarrow> 'p call_registry \<Rightarrow> bool \<times> 'p call_registry" where
  "ff_run now call_id [] reg =
     (case dget (cr_calls reg) call_id of None \<Rightarrow> False | Some c \<Rightarrow> cm_state c = BRIDGED, reg)"
| "ff_run now call_id ((src, dst) # steps) reg =
     (case dget (cr_calls reg) call_id of
        None \<Rightarrow> (False, reg)
      | Some c \<Rightarrow>
          if cm_state c = src
          then (case reg_transition now call_id dst reg of
                  (False, reg') \<Rightarrow> (False, reg')
                | (True, reg') \<Rightarrow> ff_run now call_id steps reg')
          else ff_run now call_id steps reg)"

definition fast_forward_bridged :: "int \<Rightarrow> str \<Rightarrow> 'p call_registry \<Rightarrow> bool \<times> 'p call_registry" where
  "fast_forward_bridged now call_id reg = ff_run now call_id ff_steps reg"

definition hangup :: "int \<Rightarrow> str \<Rightarrow> str option \<Rightarrow> 'p call_registry \<Rightarrow> bool \<times> 'p call_registry" where
  "hangup now call_id reason = transition_note now call_id HANGUP NoteError reason"

definition reject :: "int \<Rightarrow> str \<Rightarrow> str option \<Rightarrow> 'p call_registry \<Rightarrow> bool \<times> 'p call_registry" where
  "reject now call_id reason = transition_note now call_id REJECTED NoteError reason"

definition fallback_to_voicemail :: "int \<Rightarrow> str \<Rightarrow> 'p call_registry \<Rightarrow> bool \<times> 'p call_registry" where
  "fallback_to_voicemail now call_id = reg_transition now call_id VOICEMAIL"

definition start_telegram_calling :: "int \<Rightarrow> str \<Rightarrow> 'p call_registry \<Rightarrow> bool \<times> 'p call_registry" where
  "start_telegram_calling now call_id = reg_transition now call_id TELEGRAM_CALLING"

definition user_accepted :: "int \<Rightarrow> str \<Rightarrow> 'p call_registry \<Rightarrow> bool \<times> 'p call_registry" where
  "user_accepted now call_id = reg_transition now call_id USER_ACCEPTED"

definition dial_gsm ::
    "int \<Rightarrow> str \<Rightarrow> str option \<Rightarrow> 'p call_registry \<Rightarrow> bool \<times> 'p call_registry" where
  "dial_gsm now call_id channel = transition_note now call_id GSM_DIALING NoteGsmChannel channel"

definition gsm_ringing :: "int \<Rightarrow> str \<Rightarrow> 'p call_registry \<Rightarrow> bool \<times> 'p call_registry" where
  "gsm_ringing now call_id = reg_transition now call_id GSM_RINGING"

definition gsm_connected :: "int \<Rightarrow> str \<Rightarrow> 'p call_registry \<Rightarrow> bool \<times> 'p call_registry" where
  "gsm_connected now call_id = reg_transition now call_id CONNECTED"

definition gsm_busy :: "int \<Rightarrow> str \<Rightarrow> 'p call_registry \<Rightarrow> bool \<times> 'p call_registry" where
  "gsm_busy now call_id = reg_transition now call_id GSM_BUSY"

definition gsm_no_answer :: "int \<Rightarrow> str \<Rightarrow> 'p call_registry \<Rightarrow> bool \<times> 'p call_registry" where
  "gsm_no_answer now call_id = reg_transition now call_id GSM_NO_ANSWER"

definition gsm_error :: "int \<Rightarrow> str \<Rightarrow> str option \<Rightarrow> 'p call_registry \<Rightarrow> bool \<times> 'p call_registry" where
  "gsm_error now call_id reason = transition_note now call_id GSM_ERROR NoteError reason"

definition telegram_timeout :: "int \<Rightarrow> str \<Rightarrow> 'p call_registry \<Rightarrow> bool \<times> 'p call_registry" where
  "telegram_timeout now call_id = reg_transition now call_id TELEGRAM_TIMEOUT"

definition set_telegram_call_id :: "str \<Rightarrow> str \<Rightarrow> 'p call_registry \<Rightarrow> bool \<times> 'p call_registry" where
  "set_telegram_call_id call_id tg_call = annotate call_id (NoteTelegramCall tg_call)"

section \<open>Timeouts, orphans, link failure\<close>

definition timed_out :: "int \<Rightarrow> int \<Rightarrow> int \<Rightarrow> int \<Rightarrow> call_machine \<Rightarrow> bool" where
  "timed_out now ring_wait max_call tg_ring c \<longleftrightarrow>
     (if is_terminal c then False
      else let elapsed = now - cm_updated_at c
           in if cm_state c \<in> {RINGING, TELEGRAM_RINGING} then elapsed > ring_wait * US
              else if cm_state c \<in> {MODEM_RESERVED, TELEGRAM_CALLING} then elapsed > tg_ring * US
              else if cm_state c = BRIDGED then elapsed > max_call * US
              else False)"

definition get_timed_out_calls ::
    "int \<Rightarrow> int \<Rightarrow> int \<Rightarrow> int \<Rightarrow> 'p call_registry \<Rightarrow> call_machine list" where
  "get_timed_out_calls now ring_wait max_call tg_ring reg =
     filter (timed_out now ring_wait max_call tg_ring) (dvalues (cr_calls reg))"

definition get_orphan_channel_ids :: "'p call_registry \<Rightarrow> str list" where
  "get_orphan_channel_ids reg =
     concat (map (\<lambda>c. if is_terminal c then [] else get_active_channel_ids c) (dvalues (cr_calls reg)))"

definition get_bridged_calls :: "'p call_registry \<Rightarrow> call_machine list" where
  "get_bridged_calls reg = filter (\<lambda>c. cm_state c = BRIDGED) (dvalues (cr_calls reg))"

fun terminate_loop ::
    "int \<Rightarrow> str \<Rightarrow> call_machine list \<Rightarrow> 'p call_registry \<Rightarrow> str list \<times> 'p call_registry" where
  "terminate_loop now reason [] reg = ([], reg)"
| "terminate_loop now reason (c # cs) reg =
     (if cm_state c = BRIDGED
      then let reg1 = snd (reg_transition now (cm_id c) HANGUP reg);
               reg2 = snd (annotate (cm_id c) (NoteError reason) reg1)
           in case terminate_loop now reason cs reg2 of (ids, reg3) \<Rightarrow> (cm_id c # ids, reg3)
      else terminate_loop now reason cs reg)"

definition terminate_bridged_calls ::
    "int \<Rightarrow> str \<Rightarrow> 'p call_registry \<Rightarrow> str list \<times> 'p call_registry" where
  "terminate_bridged_calls now reason reg =
     terminate_loop now reason (dvalues (cr_calls reg)) reg"

end
