(* ===== verification/AgentSms.thy ===== *)
theory AgentSms
  imports Phone Auth Acl Blacklist Errors SmsCorrelation CallControl
begin

text \<open>
  The state of the agent (\<open>agent/agent.py\<close>, \<open>app.state\<close>) and the SMS and blacklist routes of
  \<open>agent/routes.py\<close>.

  \<open>agent\<close> holds the objects of \<open>app.state\<close> the routes use; the audit log, the metrics and the pool
  are inside the call registry, which shares them. \<open>env\<close> is what one request meets: the two
  clocks, the ids \<open>uuid4\<close> gives, the files, and the answers of Asterisk. \<open>effect\<close>s are the calls
  that leave the process; notifications of the userbot are best effort and their failures are
  swallowed, so only the attempt is recorded.
\<close>

section \<open>State and environment\<close>

datatype effect =
    EffSms str str str
  | EffHangup str str
  | EffNotifyDelivery str str int str "str option"
  | EffNotifyCall str "int option" str str

record 'p agent =
  ag_reg :: "'p call_registry"
  ag_sms :: sms_store
  ag_sms_limiter :: rate_limiter
  ag_call_limiter :: rate_limiter
  ag_blacklist :: blacklist
  ag_bl_file :: "str stored"
  ag_acl :: acl_manager
  ag_out :: "effect list"

record agent_cfg =
  ac_dongle :: str
  ac_sms_per_hour :: int
  ac_calls_per_minute :: int
  ac_ring_wait :: int
  ac_max_call :: int
  ac_tg_ring :: int

text \<open>How \<open>ami.send_sms\<close> ends: a response, an \<open>AMISendError\<close>, a \<open>ConnectionError\<close>, or any other
  exception, with the text of the exception.\<close>
datatype ami_send =
    SendOk
  | SendRefused str
  | SendNoConnection str
  | SendException str

record env =
  en_cfg :: agent_cfg
  en_now :: int
  en_mono :: int
  en_uuid :: str
  en_correlation :: str
  en_log_writable :: bool
  en_bl_write :: write_outcome
  en_bl_stamp :: str
  en_acl_file :: "str stored"
  en_send :: ami_send
  en_hangup :: "str \<Rightarrow> str option"

definition agent_log :: "audit_entry \<Rightarrow> 'p agent \<Rightarrow> 'p agent" where
  "agent_log e ag = ag\<lparr>ag_reg := (ag_reg ag)\<lparr>cr_audit := audit_append e (cr_audit (ag_reg ag))\<rparr>\<rparr>"

definition agent_metrics :: "(metrics \<Rightarrow> metrics) \<Rightarrow> 'p agent \<Rightarrow> 'p agent" where
  "agent_metrics f ag = ag\<lparr>ag_reg := (ag_reg ag)\<lparr>cr_metrics := map_option f (cr_metrics (ag_reg ag))\<rparr>\<rparr>"

definition emit :: "effect \<Rightarrow> 'p agent \<Rightarrow> 'p agent" where
  "emit e ag = ag\<lparr>ag_out := ag_out ag @ [e]\<rparr>"

text \<open>\<open>telegram_user_id or x\<close>\<close>
definition user_or :: "int option \<Rightarrow> str \<Rightarrow> str" where
  "user_or user x = (case user of None \<Rightarrow> x | Some u \<Rightarrow> if u = 0 then x else int_text u)"

definition user_or_0 :: "int option \<Rightarrow> int" where
  "user_or_0 user = (case user of None \<Rightarrow> 0 | Some u \<Rightarrow> u)"

section \<open>Sending an SMS\<close>

record sms_request =
  sq_to :: str
  sq_text :: str
  sq_correlation :: "str option"
  sq_user :: "int option"
  sq_message_id :: "int option"

record sms_response =
  sp_correlation :: str
  sp_sms_id :: str
  sp_message :: str

definition sms_event :: "env \<Rightarrow> event_type \<Rightarrow> sms_request \<Rightarrow> str \<Rightarrow> str \<Rightarrow> (str \<times> json) list \<Rightarrow> audit_entry" where
  "sms_event en ev rq cid outcome details =
     (entry (en_now en) ev)\<lparr>ae_user := sq_user rq, ae_outcome := outcome,
        ae_correlation := Some cid, ae_details := details\<rparr>"

text \<open>The failure of a submission: the record is marked, the counter goes up, the error leaves.\<close>
definition sms_submit_failed ::
    "env \<Rightarrow> str \<Rightarrow> str \<Rightarrow> http_error \<Rightarrow> 'p agent \<Rightarrow> (http_error + sms_response) \<times> 'p agent" where
  "sms_submit_failed en sms_id msg err ag =
     (Inl err, agent_metrics sms_failed
        (ag\<lparr>ag_sms := snd (sms_mark_failed (en_log_writable en) sms_id msg True (ag_sms ag))\<rparr>))"

definition sms_submit ::
    "env \<Rightarrow> sms_request \<Rightarrow> str \<Rightarrow> str \<Rightarrow> 'p agent \<Rightarrow> (http_error + sms_response) \<times> 'p agent" where
  "sms_submit en rq cid number ag =
     (let dongle = ac_dongle (en_cfg en);
          (r, store) = sms_create (en_log_writable en) (en_now en) (en_uuid en) (user_or_0 (sq_user rq))
                         number (sq_text rq) (sq_message_id rq) dongle (ag_sms ag);
          ref = [(S ''to'', JStr number), (S ''sms_id'', JStr (sr_id r))];
          ag1 = agent_log (sms_event en SMS_SEND_REQUESTED rq cid (S ''submitted'') ref) (ag\<lparr>ag_sms := store\<rparr>);
          ag2 = emit (EffSms number (sq_text rq) (sr_id r)) ag1
      in case en_send en of
           SendRefused msg \<Rightarrow>
             sms_submit_failed en (sr_id r) msg
               (HTTPException 502 (error_text (asterisk_sms_error_to_type msg))) ag2
         | SendNoConnection msg \<Rightarrow>
             sms_submit_failed en (sr_id r) (error_text MODEM_UNAVAILABLE)
               (HTTPException 503 (error_text MODEM_UNAVAILABLE)) ag2
         | SendException msg \<Rightarrow> sms_submit_failed en (sr_id r) msg (HTTPException 500 msg) ag2
         | SendOk \<Rightarrow>
             (let ag3 = ag2\<lparr>ag_sms := snd (sms_mark_submitted (en_log_writable en) (en_now en) (sr_id r) (ag_sms ag2))\<rparr>;
                  ag4 = agent_metrics sms_sent ag3;
                  ag5 = agent_log ((sms_event en SMS_SUBMITTED rq cid (S ''ok'') ref)\<lparr>ae_modem := Some dongle\<rparr>) ag4
              in (Inr \<lparr>sp_correlation = cid, sp_sms_id = sr_id r,
                       sp_message = S ''SMS submitted to '' @ sq_to rq\<rparr>, ag5)))"

definition send_sms :: "env \<Rightarrow> sms_request \<Rightarrow> 'p agent \<Rightarrow> (http_error + sms_response) \<times> 'p agent" where
  "send_sms en rq ag =
     (let cid = (case sq_correlation rq of None \<Rightarrow> en_correlation en
                 | Some c \<Rightarrow> if c = [] then en_correlation en else c);
          refuse = (\<lambda>outcome details err ag'.
             (Inl err, agent_log (sms_event en SMS_SEND_REQUESTED rq cid outcome details) ag'))
      in case parse_destination (Some (sq_to rq)) of
           None \<Rightarrow> refuse (S ''malformed'') [(S ''to'', JStr (sq_to rq))]
                     (HTTPException 400 (error_text NUMBER_MALFORMED_SMS)) ag
         | Some dest \<Rightarrow>
             if d_internal dest \<or> is_service_number (d_number dest)
             then refuse (S ''malformed'') [(S ''to'', JStr (sq_to rq))]
                    (HTTPException 400 (error_text NUMBER_MALFORMED_SMS)) ag
             else
               (let (blocked, bl) = bl_contains (ag_bl_file ag) (d_number dest) (ag_blacklist ag);
                    ag1 = ag\<lparr>ag_blacklist := bl\<rparr>
                in if blocked
                   then refuse (S ''blacklisted'') [(S ''to'', JStr (d_number dest))]
                          (HTTPException 403 (error_text BLACKLISTED)) ag1
                   else
                     (let key = S ''sms:'' @ user_or (sq_user rq) (d_number dest);
                          (ok, lim) = allow (en_mono en) key (ag_sms_limiter ag1);
                          ag2 = ag1\<lparr>ag_sms_limiter := lim\<rparr>;
                          limit = ac_sms_per_hour (en_cfg en)
                      in if \<not> ok
                         then refuse (S ''rate_limited'') [(S ''to'', JStr (d_number dest)), (S ''limit'', JInt limit)]
                                (HTTPException 429 (S ''Rate limit exceeded: '' @ int_text limit @ S '' SMS per hour'')) ag2
                         else sms_submit en rq cid (d_number dest) ag2)))"

section \<open>The blacklist\<close>

record block_response =
  br_action :: str
  br_number :: str

definition block_number :: "env \<Rightarrow> str \<Rightarrow> 'p agent \<Rightarrow> (http_error + block_response) \<times> 'p agent" where
  "block_number en number ag =
     (case bl_block (en_bl_write en) (en_bl_stamp en) (ag_bl_file ag) number (ag_blacklist ag) of
        (Inl e, disk, bl) \<Rightarrow> (Inl e, ag\<lparr>ag_bl_file := disk, ag_blacklist := bl\<rparr>)
      | (Inr added, disk, bl) \<Rightarrow>
          (Inr \<lparr>br_action = S ''blocked'', br_number = number\<rparr>,
           agent_log ((entry (en_now en) BLACKLIST_CHANGED)\<lparr>ae_outcome := S ''blocked'',
                ae_details := [(S ''number'', JStr number), (S ''added'', JBool added)]\<rparr>)
             (ag\<lparr>ag_bl_file := disk, ag_blacklist := bl\<rparr>)))"

definition unblock_number :: "env \<Rightarrow> str \<Rightarrow> 'p agent \<Rightarrow> (http_error + block_response) \<times> 'p agent" where
  "unblock_number en number ag =
     (case bl_unblock (en_bl_write en) (en_bl_stamp en) (ag_bl_file ag) number (ag_blacklist ag) of
        (Inl e, disk, bl) \<Rightarrow> (Inl e, ag\<lparr>ag_bl_file := disk, ag_blacklist := bl\<rparr>)
      | (Inr removed, disk, bl) \<Rightarrow>
          (Inr \<lparr>br_action = S ''unblocked'', br_number = number\<rparr>,
           agent_log ((entry (en_now en) BLACKLIST_CHANGED)\<lparr>ae_outcome := S ''unblocked'',
                ae_details := [(S ''number'', JStr number), (S ''removed'', JBool removed)]\<rparr>)
             (ag\<lparr>ag_bl_file := disk, ag_blacklist := bl\<rparr>)))"

section \<open>Delivery reports\<close>

definition announce_delivery ::
    "env \<Rightarrow> sms_record \<Rightarrow> str \<Rightarrow> str option \<Rightarrow> str option \<Rightarrow> 'p agent \<Rightarrow> 'p agent" where
  "announce_delivery en r status err from_number ag =
     (let ag1 = agent_metrics (if status = S ''delivered'' then sms_delivered else sms_failed) ag;
          ag2 = agent_log ((entry (en_now en) SMS_DELIVERY_REPORT)
                  \<lparr>ae_user := Some (sr_user r), ae_outcome := status,
                   ae_details := [(S ''sms_id'', JStr (sr_id r)), (S ''phone'', JStr (sr_phone r))]
                     @ (case from_number of None \<Rightarrow> [] | Some f \<Rightarrow> [(S ''from'', JStr f)])\<rparr>) ag1
      in emit (EffNotifyDelivery (sr_id r) (sr_phone r) (sr_user r) status err) ag2)"

definition report_sms_delivered :: "env \<Rightarrow> str \<Rightarrow> 'p agent \<Rightarrow> (http_error + unit) \<times> 'p agent" where
  "report_sms_delivered en sms_id ag =
     (case sms_get sms_id (ag_sms ag) of
        None \<Rightarrow> (Inl (HTTPException 404 (S ''SMS record not found'')), ag)
      | Some r \<Rightarrow>
          (case sms_mark_delivered (en_log_writable en) (en_now en) sms_id (ag_sms ag) of
             (False, st) \<Rightarrow> (Inl (HTTPException 404 (S ''SMS record not found'')), ag\<lparr>ag_sms := st\<rparr>)
           | (True, st) \<Rightarrow> (Inr (), announce_delivery en r (S ''delivered'') None None (ag\<lparr>ag_sms := st\<rparr>))))"

definition report_sms_failed :: "env \<Rightarrow> str \<Rightarrow> 'p agent \<Rightarrow> (http_error + unit) \<times> 'p agent" where
  "report_sms_failed en sms_id ag =
     (case sms_get sms_id (ag_sms ag) of
        None \<Rightarrow> (Inl (HTTPException 404 (S ''SMS record not found'')), ag)
      | Some r \<Rightarrow>
          (case sms_mark_failed (en_log_writable en) sms_id (S ''delivery_failed'') False (ag_sms ag) of
             (False, st) \<Rightarrow> (Inl (HTTPException 404 (S ''SMS record not found'')), ag\<lparr>ag_sms := st\<rparr>)
           | (True, st) \<Rightarrow> (Inr (), announce_delivery en r (S ''failed'') (Some (S ''delivery_failed'')) None
                              (ag\<lparr>ag_sms := st\<rparr>))))"

record report_request =
  rr_phone :: str
  rr_text :: str
  rr_modem :: str

text \<open>The markers of a failed delivery; the second is Russian for "not delivered".\<close>
definition failed_markers :: "str list" where
  "failed_markers =
     [S ''not delivered'',
      [1085, 1077, 32, 1076, 1086, 1089, 1090, 1072, 1074, 1083, 1077, 1085],
      S ''expired'', S ''timeout'', S ''failed'']"

definition report_says_failed :: "str \<Rightarrow> bool" where
  "report_says_failed text \<longleftrightarrow> list_ex (\<lambda>m. occurs_in m (lower text)) failed_markers"

text \<open>The response: \<open>None\<close> for no match, else the id and the status.\<close>
definition sms_delivery_report :: "env \<Rightarrow> report_request \<Rightarrow> 'p agent \<Rightarrow> (str \<times> str) option \<times> 'p agent" where
  "sms_delivery_report en rq ag =
     (case match_report (rr_modem rq) (rr_text rq) (ag_sms ag) of
        None \<Rightarrow>
          (None, agent_log ((entry (en_now en) SMS_DELIVERY_REPORT)\<lparr>ae_outcome := S ''no_match'',
                     ae_details := [(S ''modem_id'', JStr (rr_modem rq)), (S ''from'', JStr (rr_phone rq)),
                                    (S ''text_preview'', JStr (take 120 (rr_text rq)))]\<rparr>) ag)
      | Some r \<Rightarrow>
          if report_says_failed (rr_text rq)
          then (let st = snd (sms_mark_failed (en_log_writable en) (sr_id r) (take 200 (rr_text rq)) False (ag_sms ag))
                in (Some (sr_id r, S ''failed''),
                    announce_delivery en r (S ''failed'') (Some (take 200 (rr_text rq))) (Some (rr_phone rq))
                      (ag\<lparr>ag_sms := st\<rparr>)))
          else (let st = snd (sms_mark_delivered (en_log_writable en) (en_now en) (sr_id r) (ag_sms ag))
                in (Some (sr_id r, S ''delivered''),
                    announce_delivery en r (S ''delivered'') None (Some (rr_phone rq)) (ag\<lparr>ag_sms := st\<rparr>))))"

section \<open>Lemmas\<close>

lemma agent_log_frame [simp]:
  "ag_sms (agent_log e ag) = ag_sms ag" "ag_out (agent_log e ag) = ag_out ag"
  "ag_blacklist (agent_log e ag) = ag_blacklist ag" "ag_bl_file (agent_log e ag) = ag_bl_file ag"
  "ag_sms_limiter (agent_log e ag) = ag_sms_limiter ag" "ag_call_limiter (agent_log e ag) = ag_call_limiter ag"
  "ag_acl (agent_log e ag) = ag_acl ag" "cr_calls (ag_reg (agent_log e ag)) = cr_calls (ag_reg ag)"
  "cr_pool (ag_reg (agent_log e ag)) = cr_pool (ag_reg ag)"
  "cr_metrics (ag_reg (agent_log e ag)) = cr_metrics (ag_reg ag)"
  "cr_modems_reserved (ag_reg (agent_log e ag)) = cr_modems_reserved (ag_reg ag)"
  "cr_audit (ag_reg (agent_log e ag)) = cr_audit (ag_reg ag) @ [e]"
  by (simp_all add: agent_log_def audit_append_def)

lemma agent_metrics_frame [simp]:
  "ag_sms (agent_metrics f ag) = ag_sms ag" "ag_out (agent_metrics f ag) = ag_out ag"
  "ag_blacklist (agent_metrics f ag) = ag_blacklist ag" "ag_bl_file (agent_metrics f ag) = ag_bl_file ag"
  "ag_sms_limiter (agent_metrics f ag) = ag_sms_limiter ag"
  "cr_calls (ag_reg (agent_metrics f ag)) = cr_calls (ag_reg ag)"
  "cr_audit (ag_reg (agent_metrics f ag)) = cr_audit (ag_reg ag)"
  "cr_metrics (ag_reg (agent_metrics f ag)) = map_option f (cr_metrics (ag_reg ag))"
  by (simp_all add: agent_metrics_def)

lemma emit_frame [simp]:
  "ag_sms (emit e ag) = ag_sms ag" "ag_out (emit e ag) = ag_out ag @ [e]" "ag_reg (emit e ag) = ag_reg ag"
  "ag_blacklist (emit e ag) = ag_blacklist ag" "ag_bl_file (emit e ag) = ag_bl_file ag"
  "ag_sms_limiter (emit e ag) = ag_sms_limiter ag"
  by (simp_all add: emit_def)

lemma sms_create_result:
  "fst (sms_create w now uuid user phone text mid modem st) =
     \<lparr>sr_id = uuid, sr_user = user, sr_message_id = mid, sr_phone = phone, sr_modem = modem,
      sr_text = text, sr_submit = S ''pending'', sr_delivery = S ''pending'', sr_submitted_at = None,
      sr_delivered_at = None, sr_error = None, sr_created_at = now\<rparr>"
  "sms_get k (snd (sms_create w now uuid user phone text mid modem st)) =
     (if k = uuid then Some (fst (sms_create w now uuid user phone text mid modem st)) else sms_get k st)"
  by (simp_all add: sms_create_def Let_def sms_get_def sms_save_def)

lemma sms_update_get:
  "sms_get k (snd (sms_update w i f st)) = (if k = i then map_option f (sms_get i st) else sms_get k st)"
  "fst (sms_update w i f st) \<longleftrightarrow> sms_get i st \<noteq> None"
  by (simp_all add: sms_update_def sms_get_def Let_def split: option.split)

lemmas sms_mark_defs = sms_mark_submitted_def sms_mark_delivered_def sms_mark_failed_def

text \<open>The SMS is submitted to the modem exactly for these requests.\<close>
definition sms_admitted :: "env \<Rightarrow> sms_request \<Rightarrow> 'p agent \<Rightarrow> str option" where
  "sms_admitted en rq ag =
     (case parse_destination (Some (sq_to rq)) of
        None \<Rightarrow> None
      | Some d \<Rightarrow>
          if d_internal d \<or> is_service_number (d_number d)
             \<or> fst (bl_contains (ag_bl_file ag) (d_number d) (ag_blacklist ag))
             \<or> \<not> fst (allow (en_mono en) (S ''sms:'' @ user_or (sq_user rq) (d_number d)) (ag_sms_limiter ag))
          then None else Some (d_number d))"

lemma sms_submit_result:
  "ag_out (snd (sms_submit en rq cid number ag)) = ag_out ag @ [EffSms number (sq_text rq) (en_uuid en)]"
  "is_ok (fst (sms_submit en rq cid number ag)) \<longleftrightarrow> en_send en = SendOk"
  "\<exists>r. sms_get (en_uuid en) (ag_sms (snd (sms_submit en rq cid number ag))) = Some r
     \<and> sr_phone r = number \<and> sr_text r = sq_text rq \<and> sr_delivery r = S ''pending''
     \<and> sr_submit r = (if en_send en = SendOk then S ''submitted'' else S ''failed'')"
  "k \<noteq> en_uuid en \<Longrightarrow> sms_get k (ag_sms (snd (sms_submit en rq cid number ag))) = sms_get k (ag_sms ag)"
  by (cases "en_send en";
      simp add: sms_submit_def sms_submit_failed_def case_prod_unfold Let_def sms_create_result
        sms_mark_defs sms_update_get)+

lemma sms_refused_keeps:
  assumes "sms_admitted en rq ag = None"
  shows "\<not> is_ok (fst (send_sms en rq ag)) \<and> ag_out (snd (send_sms en rq ag)) = ag_out ag
     \<and> ag_sms (snd (send_sms en rq ag)) = ag_sms ag"
  using assms
  by (auto simp: sms_admitted_def send_sms_def Let_def case_prod_unfold split: option.splits if_splits)

definition sms_cid :: "env \<Rightarrow> sms_request \<Rightarrow> str" where
  "sms_cid en rq = (case sq_correlation rq of None \<Rightarrow> en_correlation en
                    | Some c \<Rightarrow> if c = [] then en_correlation en else c)"

lemma sms_admitted_submit:
  assumes "sms_admitted en rq ag = Some number"
  shows "send_sms en rq ag = sms_submit en rq (sms_cid en rq) number
     (ag\<lparr>ag_blacklist := snd (bl_contains (ag_bl_file ag) number (ag_blacklist ag)),
         ag_sms_limiter := snd (allow (en_mono en) (S ''sms:'' @ user_or (sq_user rq) number)
                                  (ag_sms_limiter ag))\<rparr>)"
  using assms
  by (auto simp: sms_admitted_def send_sms_def sms_cid_def Let_def case_prod_unfold
      split: option.splits if_splits)

lemma sms_submit_status: "fst (sms_submit en rq cid number ag) \<noteq> Inl (HTTPException 400 detail)"
  by (simp add: sms_submit_def sms_submit_failed_def Let_def case_prod_unfold split: ami_send.split)

section \<open>Properties\<close>

text \<open>C20: an SMS leaves for the modem exactly when its destination is an external number that is
  neither blacklisted nor over the sender's rate limit. Then one submission is made, with the
  text of the request and the id of a new record, and the record says what came of it; the
  caller gets a success only for a submission the modem accepted. A refused request submits
  nothing and leaves no record.\<close>
theorem send_sms_exact:
  "(case sms_admitted en rq ag of
      None \<Rightarrow> \<not> is_ok (fst (send_sms en rq ag)) \<and> ag_out (snd (send_sms en rq ag)) = ag_out ag
                \<and> ag_sms (snd (send_sms en rq ag)) = ag_sms ag
    | Some number \<Rightarrow>
        ag_out (snd (send_sms en rq ag)) = ag_out ag @ [EffSms number (sq_text rq) (en_uuid en)]
        \<and> (is_ok (fst (send_sms en rq ag)) = (en_send en = SendOk))
        \<and> (\<exists>r. sms_get (en_uuid en) (ag_sms (snd (send_sms en rq ag))) = Some r
             \<and> sr_phone r = number \<and> sr_text r = sq_text rq \<and> sr_delivery r = S ''pending''
             \<and> sr_submit r = (if en_send en = SendOk then S ''submitted'' else S ''failed'')))"
proof (cases "sms_admitted en rq ag")
  case None
  then show ?thesis by (simp add: sms_refused_keeps)
next
  case (Some number)
  define ag2 where "ag2 = ag\<lparr>ag_blacklist := snd (bl_contains (ag_bl_file ag) number (ag_blacklist ag)),
         ag_sms_limiter := snd (allow (en_mono en) (S ''sms:'' @ user_or (sq_user rq) number)
                                  (ag_sms_limiter ag))\<rparr>"
  have "send_sms en rq ag = sms_submit en rq (sms_cid en rq) number ag2" "ag_out ag2 = ag_out ag"
    using sms_admitted_submit [OF Some] by (simp_all add: ag2_def)
  with Some sms_submit_result(1-3) [where en = en and rq = rq and cid = "sms_cid en rq"
      and number = number and ag = ag2]
  show ?thesis by simp
qed

text \<open>A matched report resolves the record it names: the record was waiting for a report on
  that modem, carries the reported status afterwards, is not a candidate for another report, and
  no other record changes.\<close>
theorem report_resolves_record:
  assumes "sms_keyed (ag_sms ag)" and "sms_delivery_report en rq ag = (Some (i, status), ag')"
  shows "\<exists>r r'. sms_get i (ag_sms ag) = Some r \<and> awaiting_report (rr_modem rq) r
     \<and> sms_get i (ag_sms ag') = Some r' \<and> sr_delivery r' = status \<and> \<not> awaiting_report (rr_modem rq) r'
     \<and> (\<forall>k. k = i \<or> sms_get k (ag_sms ag') = sms_get k (ag_sms ag))"
proof -
  obtain r where m: "match_report (rr_modem rq) (rr_text rq) (ag_sms ag) = Some r"
    using assms(2) by (auto simp: sms_delivery_report_def split: option.splits)
  have r: "r \<in> set (dvalues (ss_records (ag_sms ag)))" "awaiting_report (rr_modem rq) r"
    using match_report_member [OF m] by auto
  then have get: "sms_get (sr_id r) (ag_sms ag) = Some r"
    using assms(1) keyed_by_mem [of sr_id] by (simp add: sms_get_def sms_keyed_def)
  show ?thesis
    using assms(2) m r(2) get
    by (cases "report_says_failed (rr_text rq)")
      (auto simp: sms_delivery_report_def Let_def announce_delivery_def sms_mark_defs sms_update_get
        awaiting_report_def)
qed

text \<open>A malformed number is reported as blocked although nothing was blocked: the route answers
  with success and the action "blocked", and neither the list nor its file changes.\<close>
theorem malformed_block_reports_success:
  assumes "normalize_e164 number = None"
  shows "fst (block_number en number ag) = Inr \<lparr>br_action = S ''blocked'', br_number = number\<rparr>
     \<and> ag_blacklist (snd (block_number en number ag)) = ag_blacklist ag
     \<and> ag_bl_file (snd (block_number en number ag)) = ag_bl_file ag"
  using assms by (simp add: block_number_def bl_block_def)

text \<open>A repeated delivery report is counted again. Two reports of the same delivery of one SMS
  add two to the delivered counter, so the delivery rate of the export can exceed one.\<close>
theorem repeated_report_counts_twice:
  assumes "sms_get i (ag_sms ag) = Some r" and "cr_metrics (ag_reg ag) = Some m"
  shows "is_ok (fst (report_sms_delivered en2 i (snd (report_sms_delivered en1 i ag))))
     \<and> map_option (\<lambda>m'. sc_delivered (m_sms m'))
           (cr_metrics (ag_reg (snd (report_sms_delivered en2 i (snd (report_sms_delivered en1 i ag))))))
         = Some (sc_delivered (m_sms m) + 2)"
proof -
  have 1: "report_sms_delivered en i ag = (Inr (), announce_delivery en r (S ''delivered'') None None
       (ag\<lparr>ag_sms := snd (sms_mark_delivered (en_log_writable en) (en_now en) i (ag_sms ag))\<rparr>))"
    if "sms_get i (ag_sms ag) = Some r" for en r and ag :: "'a agent"
    using that by (simp add: report_sms_delivered_def sms_mark_defs sms_update_def sms_get_def Let_def)
  let ?ag1 = "snd (report_sms_delivered en1 i ag)"
  obtain r1 where r1: "sms_get i (ag_sms ?ag1) = Some r1"
    using assms(1) by (simp add: 1 announce_delivery_def Let_def sms_mark_defs sms_update_get)
  show ?thesis
    using assms(2) by (simp add: 1 [OF r1] announce_delivery_def Let_def)
      (simp add: 1 [OF assms(1)] announce_delivery_def Let_def sms_delivered_def)
qed

definition sample_agent :: "unit agent" where
  "sample_agent =
     \<lparr>ag_reg = new_call_registry [] None (Some new_metrics), ag_sms = sample_sms_store,
      ag_sms_limiter = new_rate_limiter 30 3600, ag_call_limiter = new_rate_limiter 3 60,
      ag_blacklist = new_blacklist None, ag_bl_file = None, ag_acl = new_acl_manager None, ag_out = []\<rparr>"

definition sample_env :: env where
  "sample_env =
     \<lparr>en_cfg = \<lparr>ac_dongle = S ''gsm'', ac_sms_per_hour = 30, ac_calls_per_minute = 3, ac_ring_wait = 18,
                ac_max_call = 1800, ac_tg_ring = 30\<rparr>,
      en_now = 100, en_mono = 100, en_uuid = S ''u'', en_correlation = S ''c'', en_log_writable = True,
      en_bl_write = WriteOk 1, en_bl_stamp = [], en_acl_file = None, en_send = SendOk,
      en_hangup = (\<lambda>_. None)\<rparr>"

definition sample_report :: report_request where
  "sample_report = \<lparr>rr_phone = S ''900'', rr_text = S ''to 123 ok'', rr_modem = S ''gsm''\<rparr>"

lemma sample_store_keyed: "sms_keyed sample_sms_store"
  unfolding sample_sms_store_def by (simp only: sms_run_inv new_sms_store_keyed new_sms_store_logged)

lemma sample_report_ok: "\<not> report_says_failed (rr_text sample_report)"
  by (simp add: report_says_failed_def failed_markers_def sample_report_def lower_def lower_cp_def
      S_def startswith_def)

theorem report_resolves_record_witness:
  "\<exists>r'. sms_get (S ''a'') (ag_sms (snd (sms_delivery_report sample_env sample_report sample_agent))) = Some r'
     \<and> sr_delivery r' = S ''delivered''"
proof -
  have "sms_delivery_report sample_env sample_report sample_agent
     = (Some (S ''a'', S ''delivered''), snd (sms_delivery_report sample_env sample_report sample_agent))"
    using sample_sms_match sample_report_ok
    by (simp add: sms_delivery_report_def sample_report_def sample_agent_def Let_def sample_sms_record_def)
  from report_resolves_record [OF _ this] show ?thesis
    using sample_store_keyed by (simp add: sample_agent_def) blast
qed

theorem malformed_block_reports_success_witness:
  "fst (block_number sample_env (S ''123'') sample_agent)
     = Inr \<lparr>br_action = S ''blocked'', br_number = S ''123''\<rparr>
   \<and> ag_blacklist (snd (block_number sample_env (S ''123'') sample_agent)) = ag_blacklist sample_agent"
proof -
  have "normalize_e164 (S ''123'') = None"
    by (simp add: normalize_e164_def digits_of_def strip_def lstrip_def rstrip_def S_def Let_def
        is_space_def space_points_def)
  from malformed_block_reports_success [OF this] show ?thesis by blast
qed

theorem repeated_report_counts_twice_witness:
  "map_option (\<lambda>m'. sc_delivered (m_sms m'))
     (cr_metrics (ag_reg (snd (report_sms_delivered sample_env (S ''a'')
        (snd (report_sms_delivered sample_env (S ''a'') sample_agent)))))) = Some 2"
proof -
  have "sms_get (S ''a'') (ag_sms sample_agent) = Some sample_sms_record"
    using sample_store_keyed keyed_by_mem [of sr_id "ss_records sample_sms_store" sample_sms_record]
    by (simp add: sms_get_def sample_agent_def sms_keyed_def sample_sms_records)
      (simp add: sample_sms_record_def)
  from repeated_report_counts_twice [OF this, of new_metrics] show ?thesis
    by (simp add: sample_agent_def new_call_registry_def new_metrics_def)
qed

end
