(* ===== verification/CallSafety.thy ===== *)
theory CallSafety
  imports CallControl
begin

text \<open>
  What the call registry guarantees, for every interleaving of its operations: \<open>reg_step\<close> is one
  locked operation (or a change of the modem by the device, or an entry of another component in
  the shared audit log and metrics), \<open>reg_reachable\<close> the registries that occur.
  The invariant \<open>reg_inv\<close> says that calls are stored under their ids, that each is in a state of
  its direction, and that modem reservations and outgoing calls correspond one to one.
\<close>

section \<open>Steps\<close>

definition named_modems :: "'p provider_ops \<Rightarrow> 'p \<Rightarrow> bool" where
  "named_modems ops p \<longleftrightarrow> (\<forall>i \<in> set (po_list_modems ops p). mi_id i \<noteq> [])"

inductive reg_step ::
    "'p provider_ops \<Rightarrow> ('p \<Rightarrow> bool) \<Rightarrow> 'p call_registry \<Rightarrow> 'p call_registry \<Rightarrow> bool"
  for ops :: "'p provider_ops" and valid :: "'p \<Rightarrow> bool" where
  incoming: "dget (cr_calls reg) uuid = None \<Longrightarrow>
     create_incoming now uuid caller name modem_id chan reg = (r, reg') \<Longrightarrow> reg_step ops valid reg reg'"
| outgoing: "dget (cr_calls reg) uuid = None \<Longrightarrow> modem_id \<noteq> [] \<Longrightarrow>
     create_outgoing now uuid callee caller name modem_id user required reg = (r, reg') \<Longrightarrow>
     reg_step ops valid reg reg'"
| transition: "reg_transition now i s reg = (b, reg') \<Longrightarrow> reg_step ops valid reg reg'"
| noted: "annotate i n reg = (b, reg') \<Longrightarrow> reg_step ops valid reg reg'"
| clean: "reg_step ops valid reg (cleanup i reg)"
| device: "cr_pool reg = Some pool \<Longrightarrow> valid p \<Longrightarrow> named_modems ops p \<Longrightarrow>
     reg_step ops valid reg (reg\<lparr>cr_pool := Some (pool\<lparr>mp_provider := p\<rparr>)\<rparr>)"
| others: "reg_step ops valid reg (reg\<lparr>cr_audit := a, cr_metrics := m\<rparr>)"

inductive reg_reachable ::
    "'p provider_ops \<Rightarrow> ('p \<Rightarrow> bool) \<Rightarrow> 'p call_registry \<Rightarrow> 'p call_registry \<Rightarrow> bool"
  for ops :: "'p provider_ops" and valid :: "'p \<Rightarrow> bool" and init :: "'p call_registry" where
  start: "reg_reachable ops valid init init"
| step: "reg_reachable ops valid init reg \<Longrightarrow> reg_step ops valid reg reg' \<Longrightarrow>
     reg_reachable ops valid init reg'"

lemma reg_reachable_trans:
  "reg_reachable ops valid b c \<Longrightarrow> reg_reachable ops valid a b \<Longrightarrow> reg_reachable ops valid a c"
  by (induction rule: reg_reachable.induct) (auto intro: reg_reachable.step)

section \<open>The state machine\<close>

definition incoming_states :: "call_state set" where
  "incoming_states = {RINGING, TELEGRAM_RINGING, TELEGRAM_ACCEPTED, GSM_ANSWERED, BRIDGED, VOICEMAIL,
     REJECTED, HANGUP, CLEANUP}"

definition outgoing_states :: "call_state set" where
  "outgoing_states = {MODEM_RESERVED, TELEGRAM_CALLING, USER_ACCEPTED, GSM_DIALING, GSM_RINGING,
     CONNECTED, BRIDGED, REJECTED, TELEGRAM_TIMEOUT, GSM_BUSY, GSM_NO_ANSWER, GSM_ERROR, HANGUP, CLEANUP}"

definition call_ok :: "call_machine \<Rightarrow> bool" where
  "call_ok c \<longleftrightarrow>
     (cm_direction c = S ''incoming'' \<and> cm_state c \<in> incoming_states
      \<or> cm_direction c = S ''outgoing'' \<and> cm_state c \<in> outgoing_states)
     \<and> (cm_state c = BRIDGED \<longrightarrow> cm_bridged_at c \<noteq> None)
     \<and> (cm_bridged_at c \<noteq> None \<longrightarrow> cm_state c \<in> {BRIDGED, HANGUP, CLEANUP})"

definition same_owner :: "call_machine \<Rightarrow> call_machine \<Rightarrow> bool" where
  "same_owner c c' \<longleftrightarrow> cm_id c' = cm_id c \<and> cm_direction c' = cm_direction c \<and> cm_modem_id c' = cm_modem_id c"

lemma cm_transition_same: "cm_transition now s c = Inr c' \<Longrightarrow> same_owner c c' \<and> cm_state c' = s"
  by (auto simp: cm_transition_def same_owner_def Let_def split: if_splits)

lemma cm_transition_legal:
  "(\<exists>c'. cm_transition now s c = Inr c') \<longleftrightarrow> s \<in> set (allowed_from c)"
  by (simp add: cm_transition_def Let_def)

lemma incoming_closed:
  "s \<in> incoming_states \<Longrightarrow> s' \<in> set (incoming_transitions s) \<Longrightarrow> s' \<in> incoming_states"
  by (cases s) (auto simp: incoming_states_def)

lemma outgoing_closed:
  "s \<in> outgoing_states \<Longrightarrow> s' \<in> set (outgoing_transitions s) \<Longrightarrow> s' \<in> outgoing_states"
  by (cases s) (auto simp: outgoing_states_def)

lemma after_bridge:
  "s \<in> {BRIDGED, HANGUP, CLEANUP} \<Longrightarrow> s' \<in> set (incoming_transitions s) \<union> set (outgoing_transitions s) \<Longrightarrow>
     s' \<in> {HANGUP, CLEANUP}"
  by (cases s) auto

lemma cm_transition_ok:
  assumes "call_ok c" and "cm_transition now s c = Inr c'"
  shows "call_ok c'"
proof -
  have s: "s \<in> set (allowed_from c)" using assms(2) cm_transition_legal by blast
  then have dir: "cm_direction c = S ''incoming'' \<and> cm_state c \<in> incoming_states \<and> s \<in> incoming_states
      \<or> cm_direction c = S ''outgoing'' \<and> cm_state c \<in> outgoing_states \<and> s \<in> outgoing_states"
    using assms(1) incoming_closed outgoing_closed by (auto simp: call_ok_def allowed_from_def)
  have b: "s \<in> {HANGUP, CLEANUP}" if "cm_bridged_at c \<noteq> None"
    using that assms(1) s after_bridge [of "cm_state c" s]
    by (auto simp: call_ok_def allowed_from_def split: if_splits)
  show ?thesis
    using assms(2) dir b by (auto simp: call_ok_def cm_transition_def Let_def split: if_splits)
qed

section \<open>Reservations\<close>

definition holds_modem :: "call_machine \<Rightarrow> bool" where
  "holds_modem c \<longleftrightarrow> cm_direction c = S ''outgoing'' \<and> cm_modem_id c \<noteq> []"

definition holders :: "(str, call_machine) dict \<Rightarrow> (str \<times> str) set" where
  "holders calls = {(k, cm_modem_id c) |k c. dget calls k = Some c \<and> holds_modem c}"

definition reservations_ok ::
    "'p provider_ops \<Rightarrow> ('p \<Rightarrow> bool) \<Rightarrow> (str \<times> str) set \<Rightarrow> 'p modem_pool option \<Rightarrow> int \<Rightarrow> bool" where
  "reservations_ok ops valid H pool n \<longleftrightarrow>
     (case pool of
        None \<Rightarrow> H = {} \<and> n = 0 \<or> (\<exists>h. H = {h}) \<and> n = 1
      | Some p \<Rightarrow>
          mp_ops p = ops \<and> valid (mp_provider p) \<and> named_modems ops (mp_provider p)
          \<and> snd ` H = mp_reserved p \<and> inj_on snd H)"

definition calls_ok :: "(str, call_machine) dict \<Rightarrow> bool" where
  "calls_ok calls \<longleftrightarrow> keyed_by cm_id calls \<and> (\<forall>k c. dget calls k = Some c \<longrightarrow> call_ok c)"

definition reg_inv :: "'p provider_ops \<Rightarrow> ('p \<Rightarrow> bool) \<Rightarrow> 'p call_registry \<Rightarrow> bool" where
  "reg_inv ops valid reg \<longleftrightarrow>
     calls_ok (cr_calls reg)
     \<and> reservations_ok ops valid (holders (cr_calls reg)) (cr_pool reg) (cr_modems_reserved reg)"

lemma holders_Nil [simp]: "holders [] = {}"
  by (simp add: holders_def)

lemma new_registry_inv:
  "reg_inv ops valid (new_call_registry audit None metrics)"
  "mp_ops pool = ops \<Longrightarrow> valid (mp_provider pool) \<Longrightarrow> named_modems ops (mp_provider pool) \<Longrightarrow>
     mp_reserved pool = {} \<Longrightarrow> reg_inv ops valid (new_call_registry audit (Some pool) metrics)"
  by (simp_all add: reg_inv_def new_call_registry_def reservations_ok_def calls_ok_def)

text \<open>A call replaced by one of the same owner.\<close>
lemma holders_update:
  assumes "dget calls k = Some c" and "same_owner c c'"
  shows "holders (dput k c' calls) = holders calls"
proof (rule set_eqI)
  fix x
  show "x \<in> holders (dput k c' calls) \<longleftrightarrow> x \<in> holders calls"
    using assms by (cases x; cases "fst x = k") (simp_all add: holders_def holds_modem_def same_owner_def)
qed

lemma holders_fresh:
  assumes "dget calls k = None"
  shows "holders (dput k c calls) =
           (if holds_modem c then insert (k, cm_modem_id c) (holders calls) else holders calls)"
proof (rule set_eqI)
  fix x
  show "x \<in> holders (dput k c calls) \<longleftrightarrow>
          x \<in> (if holds_modem c then insert (k, cm_modem_id c) (holders calls) else holders calls)"
    using assms by (cases x; cases "fst x = k") (auto simp: holders_def)
qed

lemma holders_dpop: "holders (dpop k calls) = {h \<in> holders calls. fst h \<noteq> k}"
  by (auto simp: holders_def split: if_splits)

lemma holders_absent: "dget calls k = None \<Longrightarrow> (k, m) \<notin> holders calls"
  by (auto simp: holders_def)

lemma calls_ok_dput:
  "calls_ok calls \<Longrightarrow> call_ok c \<Longrightarrow> cm_id c = k \<Longrightarrow> calls_ok (dput k c calls)"
  by (simp add: calls_ok_def keyed_by_dput)

lemma calls_ok_dpop: "calls_ok calls \<Longrightarrow> calls_ok (dpop k calls)"
  by (auto simp: calls_ok_def keyed_by_dpop split: if_splits)

lemma calls_ok_get: "calls_ok calls \<Longrightarrow> dget calls k = Some c \<Longrightarrow> call_ok c \<and> cm_id c = k"
  by (auto simp: calls_ok_def dest: keyed_by_key)

text \<open>The invariant only reads the calls, the pool and the counter.\<close>
lemma reg_inv_cong:
  "cr_calls a = cr_calls b \<Longrightarrow> cr_pool a = cr_pool b \<Longrightarrow> cr_modems_reserved a = cr_modems_reserved b \<Longrightarrow>
     reg_inv ops valid a = reg_inv ops valid b"
  by (simp add: reg_inv_def)

lemma reg_inv_update:
  assumes "reg_inv ops valid reg" and "dget (cr_calls reg) k = Some c" and "same_owner c c'"
    and "call_ok c'" and "cr_calls reg' = dput k c' (cr_calls reg)" and "cr_pool reg' = cr_pool reg"
    and "cr_modems_reserved reg' = cr_modems_reserved reg"
  shows "reg_inv ops valid reg'"
proof -
  have "cm_id c' = k"
    using assms(1-3) calls_ok_get by (auto simp: reg_inv_def same_owner_def)
  then show ?thesis
    using assms by (simp add: reg_inv_def calls_ok_dput holders_update)
qed

lemma hooked_transition_cases:
  obtains (refused) e where "hooked_transition now s c reg = (Inl e, reg)" "s \<notin> set (allowed_from c)"
  | (moved) c' where "hooked_transition now s c reg = (Inr c', metrics_hook now c' reg)"
      "cm_transition now s c = Inr c'" "same_owner c c'" "cm_state c' = s"
  using cm_transition_same [of now s c] cm_transition_legal [of now s c]
  by (cases "cm_transition now s c") (auto simp: hooked_transition_def)

text \<open>What a transition of the registry does: nothing, or a legal transition of that call.\<close>
lemma reg_transition_cases:
  obtains (refused) "reg_transition now i s reg = (False, reg)"
      "\<And>c. dget (cr_calls reg) i = Some c \<Longrightarrow> s \<notin> set (allowed_from c)"
  | (moved) c c' where "dget (cr_calls reg) i = Some c" "cm_transition now s c = Inr c'"
      "same_owner c c'" "cm_state c' = s"
      "reg_transition now i s reg = (True, put_call c' (metrics_hook now c' reg))"
proof (cases "dget (cr_calls reg) i")
  case None
  then show ?thesis by (intro refused) (simp_all add: reg_transition_def)
next
  case (Some c)
  show ?thesis
    by (cases rule: hooked_transition_cases [of now s c reg])
      (use Some in \<open>auto intro: refused moved simp: reg_transition_def\<close>)
qed

lemma metrics_hook_frame [simp]:
  "cr_calls (metrics_hook now c reg) = cr_calls reg" "cr_pool (metrics_hook now c reg) = cr_pool reg"
  "cr_modems_reserved (metrics_hook now c reg) = cr_modems_reserved reg"
  "cr_audit (metrics_hook now c reg) = cr_audit reg"
  by (simp_all add: metrics_hook_def)

lemma put_call_frame [simp]:
  "cr_calls (put_call c reg) = dput (cm_id c) c (cr_calls reg)" "cr_pool (put_call c reg) = cr_pool reg"
  "cr_modems_reserved (put_call c reg) = cr_modems_reserved reg" "cr_audit (put_call c reg) = cr_audit reg"
  by (simp_all add: put_call_def)

lemma reg_transition_inv:
  assumes inv: "reg_inv ops valid reg"
  shows "reg_inv ops valid (snd (reg_transition now i s reg))"
proof (cases rule: reg_transition_cases [of now i s reg])
  case refused
  with inv show ?thesis by simp
next
  case (moved c c')
  have "call_ok c" "cm_id c = i"
    using inv moved(1) calls_ok_get by (auto simp: reg_inv_def)
  with moved show ?thesis
    using cm_transition_ok by (auto intro!: reg_inv_update [OF inv moved(1,3)] simp: same_owner_def)
qed

lemma apply_note_same: "same_owner c (apply_note n c)" "call_ok (apply_note n c) = call_ok c"
  by (cases n; simp add: same_owner_def call_ok_def)+

lemma annotate_inv:
  assumes inv: "reg_inv ops valid reg"
  shows "reg_inv ops valid (snd (annotate i n reg))"
proof (cases "dget (cr_calls reg) i")
  case None
  with inv show ?thesis by (simp add: annotate_def)
next
  case (Some c)
  then have "call_ok c" using inv calls_ok_get by (auto simp: reg_inv_def)
  with Some show ?thesis
    by (auto intro!: reg_inv_update [OF inv Some apply_note_same(1) [where n = n]]
        simp: annotate_def apply_note_same)
qed

section \<open>Creation and cleanup\<close>

lemma allowed_incoming: "cm_direction c = S ''incoming'' \<Longrightarrow> allowed_from c = incoming_transitions (cm_state c)"
  by (simp add: allowed_from_def)

lemma allowed_outgoing: "cm_direction c = S ''outgoing'' \<Longrightarrow> allowed_from c = outgoing_transitions (cm_state c)"
  by (simp add: allowed_from_def)

text \<open>A new call is stored under its id, in its first state.\<close>
definition created ::
    "str \<Rightarrow> str \<Rightarrow> call_state \<Rightarrow> call_machine \<Rightarrow> 'p call_registry \<Rightarrow> 'p call_registry \<Rightarrow> bool" where
  "created uuid dir s c reg reg' \<longleftrightarrow>
     cm_id c = uuid \<and> cm_direction c = dir \<and> cm_state c = s \<and> cm_bridged_at c = None
     \<and> cr_calls reg' = dput uuid c (cr_calls reg) \<and> cr_pool reg' = cr_pool reg"

lemma create_incoming_result:
  "\<exists>c reg'. create_incoming now uuid caller name modem_id chan reg = (Inr c, reg')
     \<and> created uuid (S ''incoming'') RINGING c reg reg' \<and> cr_modems_reserved reg' = cr_modems_reserved reg"
  by (simp add: create_incoming_def hooked_transition_def cm_transition_def allowed_incoming
      new_call_def Let_def created_def)

lemma create_outgoing_result:
  assumes "choose_modem callee modem_id required reg = (Inr ch, reg1)"
  shows "\<exists>c reg'. create_outgoing now uuid callee caller name modem_id user required reg = (Inr c, reg')
     \<and> created uuid (S ''outgoing'') MODEM_RESERVED c reg1 reg' \<and> cm_modem_id c = ch_modem ch
     \<and> cm_callee c = callee
     \<and> cr_modems_reserved reg' =
         cr_modems_reserved reg1 + (if required \<and> cr_pool reg1 = None then 1 else 0)"
  using assms
  by (simp add: create_outgoing_def hooked_transition_def cm_transition_def allowed_outgoing
      new_call_def Let_def created_def)

lemma created_inv:
  assumes inv: "reg_inv ops valid reg" and c: "created uuid dir s c reg1 reg'" and ok: "call_ok c"
    and fresh: "dget (cr_calls reg) uuid = None" and "cr_calls reg1 = cr_calls reg"
    and res: "reservations_ok ops valid
           (if holds_modem c then insert (uuid, cm_modem_id c) (holders (cr_calls reg))
            else holders (cr_calls reg)) (cr_pool reg') (cr_modems_reserved reg')"
  shows "reg_inv ops valid reg'"
  using assms by (simp add: reg_inv_def created_def calls_ok_dput holders_fresh)

lemma create_incoming_inv:
  assumes inv: "reg_inv ops valid reg" and fresh: "dget (cr_calls reg) uuid = None"
  shows "reg_inv ops valid (snd (create_incoming now uuid caller name modem_id chan reg))"
proof -
  obtain c reg' where c: "create_incoming now uuid caller name modem_id chan reg = (Inr c, reg')"
      "created uuid (S ''incoming'') RINGING c reg reg'" "cr_modems_reserved reg' = cr_modems_reserved reg"
    using create_incoming_result by blast
  have ok: "call_ok c" and "\<not> holds_modem c"
    using c(2) by (auto simp: created_def call_ok_def incoming_states_def holds_modem_def)
  then have "reg_inv ops valid reg'"
    using c inv created_inv [OF inv c(2) ok fresh refl] by (simp add: reg_inv_def created_def)
  with c show ?thesis by simp
qed

text \<open>A selection from a pool, seen from the registry: it fails without reserving, or reserves a
  modem that was free.\<close>
lemma select_for_call_reserved:
  assumes "select_for_call d pool = (r, pool')"
  shows "mp_ops pool' = mp_ops pool"
    and "(\<forall>m. r \<noteq> Inr (Some m)) \<Longrightarrow> mp_reserved pool' = mp_reserved pool \<and> mp_provider pool' = mp_provider pool"
    and "r = Inr (Some m) \<Longrightarrow> mp_reserved pool' = insert (mi_id m) (mp_reserved pool)
       \<and> mi_id m \<notin> mp_reserved pool \<and> m \<in> set (pool_list pool)
       \<and> mp_provider pool' = snd (po_set_call_active (mp_ops pool) (mi_id m) True (mp_provider pool))"
proof -
  show "mp_ops pool' = mp_ops pool"
    and "(\<forall>m. r \<noteq> Inr (Some m)) \<Longrightarrow> mp_reserved pool' = mp_reserved pool \<and> mp_provider pool' = mp_provider pool"
    using assms by (auto simp: select_for_call_def Let_def split: if_splits prod.splits sum.splits option.splits)
  assume r: "r = Inr (Some m)"
  then obtain s' where s: "strategy_select (mp_strategy pool) (get_available pool) d = (s', Inr (Some m))"
    using assms by (auto simp: select_for_call_def Let_def split: if_splits prod.splits sum.splits option.splits)
  show "mp_reserved pool' = insert (mi_id m) (mp_reserved pool)
       \<and> mi_id m \<notin> mp_reserved pool \<and> m \<in> set (pool_list pool)
       \<and> mp_provider pool' = snd (po_set_call_active (mp_ops pool) (mi_id m) True (mp_provider pool))"
    using assms r s strat.select_filter [OF s [unfolded get_available_def]]
    by (auto simp: select_for_call_def Let_def split: if_splits prod.splits sum.splits option.splits)
qed

context modem_provider
begin

lemma named_modems_active:
  "valid p \<Longrightarrow> named_modems ops p \<Longrightarrow> named_modems ops (snd (po_set_call_active ops m b p))"
  using call_active_ids unfolding named_modems_def by (metis (mono_tags) image_iff list.set_map)

lemma choose_modem_cases [consumes 2, case_names failed internal counted pooled]:
  assumes "reg_inv ops valid reg" and "choose_modem callee modem_id required reg = (r, reg1)"
  obtains e where "r = Inl e" "reg_inv ops valid reg1" "cr_calls reg1 = cr_calls reg"
  | "\<not> required" "r = Inr (ModemChoice [] (S ''none''))" "reg1 = reg"
  | pol where "required" "r = Inr (ModemChoice modem_id pol)" "reg1 = reg" "cr_pool reg = None"
      "\<not> cr_modems_reserved reg > 0"
  | m pol pool pool' where "required" "r = Inr (ModemChoice m pol)" "cr_pool reg = Some pool"
      "reg1 = reg\<lparr>cr_pool := Some pool'\<rparr>" "mp_ops pool' = ops" "valid (mp_provider pool')"
      "named_modems ops (mp_provider pool')" "m \<noteq> []" "m \<notin> mp_reserved pool"
      "mp_reserved pool' = insert m (mp_reserved pool)"
proof (cases "\<not> required \<or> cr_pool reg = None")
  case True
  with assms that(1-3) show ?thesis
    by (auto simp: choose_modem_def split: if_splits)
next
  case False
  then obtain pool where pool: "required" "cr_pool reg = Some pool" by blast
  then have p: "mp_ops pool = ops" "valid (mp_provider pool)" "named_modems ops (mp_provider pool)"
    using assms(1) by (simp_all add: reg_inv_def reservations_ok_def)
  obtain x pool' where sel: "select_for_call (Some callee) pool = (x, pool')" by fastforce
  note res = select_for_call_reserved [OF sel]
  show ?thesis
  proof (cases "\<exists>m. x = Inr (Some m)")
    case True
    then obtain m where m: "x = Inr (Some m)" by blast
    have "mi_id m \<noteq> []"
      using res(3) [OF m] p by (auto simp: pool_list_def named_modems_def)
    moreover have "valid (mp_provider pool')" "named_modems ops (mp_provider pool')"
      using res(3) [OF m] p valid_set_call named_modems_active by simp_all
    ultimately show ?thesis
      using assms(2) pool sel m res(1) res(3) [OF m] p that(4)
      by (auto simp: choose_modem_def)
  next
    case False
    then have "mp_reserved pool' = mp_reserved pool \<and> mp_provider pool' = mp_provider pool"
      using res(2) by blast
    then have "reg_inv ops valid (reg\<lparr>cr_pool := Some pool'\<rparr>)"
      using assms(1) pool res(1) by (simp add: reg_inv_def reservations_ok_def)
    with assms(2) pool sel False that(1) show ?thesis
      by (auto simp: choose_modem_def split: sum.splits option.splits)
  qed
qed

lemma create_outgoing_inv:
  assumes inv: "reg_inv ops valid reg" and fresh: "dget (cr_calls reg) uuid = None" and "modem_id \<noteq> []"
  shows "reg_inv ops valid (snd (create_outgoing now uuid callee caller name modem_id user required reg))"
proof -
  obtain r reg1 where ch: "choose_modem callee modem_id required reg = (r, reg1)" by fastforce
  show ?thesis
  proof (cases r)
    case (Inl e)
    with ch show ?thesis
      by (cases rule: choose_modem_cases [OF inv ch]) (auto simp: create_outgoing_def)
  next
    case (Inr choice)
    obtain c reg' where c: "create_outgoing now uuid callee caller name modem_id user required reg = (Inr c, reg')"
        "created uuid (S ''outgoing'') MODEM_RESERVED c reg1 reg'" "cm_modem_id c = ch_modem choice"
        "cr_modems_reserved reg' =
           cr_modems_reserved reg1 + (if required \<and> cr_pool reg1 = None then 1 else 0)"
      using create_outgoing_result [of callee modem_id required reg choice reg1] ch Inr by blast
    have ok: "call_ok c"
      using c(2) by (auto simp: created_def call_ok_def outgoing_states_def)
    have holds: "holds_modem c \<longleftrightarrow> ch_modem choice \<noteq> []"
      using c(2,3) by (simp add: created_def holds_modem_def)
    have "cr_calls reg1 = cr_calls reg"
      using ch by (cases rule: choose_modem_cases [OF inv ch]) auto
    note res = created_inv [OF inv c(2) ok fresh this]
    have old: "reservations_ok ops valid (holders (cr_calls reg)) (cr_pool reg) (cr_modems_reserved reg)"
      using inv by (simp add: reg_inv_def)
    have pool: "cr_pool reg' = cr_pool reg1" using c(2) by (simp add: created_def)
    have "reg_inv ops valid reg'"
      using ch
    proof (cases rule: choose_modem_cases [OF inv ch])
      case (1 e)
      with Inr show ?thesis by simp
    next
      case 2
      with Inr have "\<not> holds_modem c" using holds by auto
      with 2 old c(4) pool show ?thesis by (intro res) simp
    next
      case (3 pol)
      then have "holders (cr_calls reg) = {}" "cr_modems_reserved reg = 0"
        using old by (auto simp: reservations_ok_def)
      with 3 c(3,4) pool Inr holds assms(3) show ?thesis
        by (intro res) (simp add: reservations_ok_def)
    next
      case (4 m pol pool pool')
      then have "m \<notin> snd ` holders (cr_calls reg)" and "inj_on snd (holders (cr_calls reg))"
        and "snd ` holders (cr_calls reg) = mp_reserved pool"
        using old by (simp_all add: reservations_ok_def)
      moreover have "(uuid, m) \<notin> holders (cr_calls reg)" using calculation(1) by force
      ultimately show ?thesis
        using 4 c(3) \<open>cr_pool reg' = cr_pool reg1\<close> Inr holds
        by (intro res) (simp add: reservations_ok_def)
    qed
    with c(1) show ?thesis by simp
  qed
qed

lemma cleanup_inv:
  assumes inv: "reg_inv ops valid reg"
  shows "reg_inv ops valid (cleanup i reg)"
proof (cases "dget (cr_calls reg) i")
  case None
  with inv show ?thesis
    by (simp add: cleanup_def reg_inv_def dpop_absent)
next
  case (Some c)
  have calls: "calls_ok (dpop i (cr_calls reg))" using inv by (simp add: reg_inv_def calls_ok_dpop)
  show ?thesis
  proof (cases "holds_modem c")
    case False
    then have "fst h \<noteq> i" if "h \<in> holders (cr_calls reg)" for h
      using Some that by (auto simp: holders_def)
    then have "holders (dpop i (cr_calls reg)) = holders (cr_calls reg)"
      by (auto simp: holders_dpop)
    with False Some inv calls show ?thesis
      by (auto simp: cleanup_def reg_inv_def holds_modem_def)
  next
    case True
    have mem: "(i, cm_modem_id c) \<in> holders (cr_calls reg)"
      using Some True by (auto simp: holders_def)
    have uniq: "(i, x) \<in> holders (cr_calls reg) \<Longrightarrow> x = cm_modem_id c" for x
      using Some by (auto simp: holders_def)
    have H: "holders (dpop i (cr_calls reg)) = holders (cr_calls reg) - {(i, cm_modem_id c)}"
      unfolding holders_dpop by (auto dest: uniq)
    show ?thesis
    proof (cases "cr_pool reg")
      case None
      then have "\<exists>h. holders (cr_calls reg) = {h}" "cr_modems_reserved reg = 1"
        using inv mem by (auto simp: reg_inv_def reservations_ok_def)
      then have "holders (cr_calls reg) = {(i, cm_modem_id c)}" using mem by auto
      with H have "holders (dpop i (cr_calls reg)) = {}" by simp
      with None \<open>dget (cr_calls reg) i = Some c\<close> True calls \<open>cr_modems_reserved reg = 1\<close> show ?thesis
        by (simp add: cleanup_def reg_inv_def holds_modem_def reservations_ok_def)
    next
      case (Some pool)
      have p: "mp_ops pool = ops" "valid (mp_provider pool)" "named_modems ops (mp_provider pool)"
        "snd ` holders (cr_calls reg) = mp_reserved pool" "inj_on snd (holders (cr_calls reg))"
        using inv Some by (simp_all add: reg_inv_def reservations_ok_def)
      have "snd ` (holders (cr_calls reg) - {(i, cm_modem_id c)}) = mp_reserved pool - {cm_modem_id c}"
        using p(4,5) mem inj_on_image_set_diff [of snd "holders (cr_calls reg)" _ "{(i, cm_modem_id c)}"]
        by simp
      moreover have "inj_on snd (holders (cr_calls reg) - {(i, cm_modem_id c)})"
        using p(5) by (rule inj_on_diff)
      ultimately show ?thesis
        using Some \<open>dget (cr_calls reg) i = Some c\<close> True calls p H valid_set_call named_modems_active
        by (simp add: cleanup_def reg_inv_def holds_modem_def reservations_ok_def pool_release_def)
    qed
  qed
qed

lemma reg_step_inv: "reg_step ops valid reg reg' \<Longrightarrow> reg_inv ops valid reg \<Longrightarrow> reg_inv ops valid reg'"
proof (induction rule: reg_step.induct)
  case (incoming reg uuid now caller name modem_id chan r reg')
  then show ?case using create_incoming_inv by (metis snd_conv)
next
  case (outgoing reg uuid modem_id now callee caller name user required r reg')
  then show ?case using create_outgoing_inv by (metis snd_conv)
next
  case (transition now i s reg b reg')
  then show ?case using reg_transition_inv by (metis snd_conv)
next
  case (noted i n reg b reg')
  then show ?case using annotate_inv by (metis snd_conv)
next
  case (clean reg i)
  then show ?case by (rule cleanup_inv)
next
  case (device reg pool p)
  then show ?case by (simp add: reg_inv_def reservations_ok_def)
next
  case (others reg a m)
  then show ?case by (simp add: reg_inv_def)
qed

lemma reachable_inv:
  "reg_reachable ops valid init reg \<Longrightarrow> reg_inv ops valid init \<Longrightarrow> reg_inv ops valid reg"
  by (induction rule: reg_reachable.induct) (auto intro: reg_step_inv)

end

end
