(* ===== verification/CallProps.thy ===== *)
theory CallProps
  imports CallSafety
begin

text \<open>
  The properties of the call registry: exclusive modems, legal and bounded transitions, one counted
  outcome per call, timeouts, the fast forward and the termination of bridged calls. The
  orchestration operations are sequences of steps of \<open>CallSafety\<close>, so everything reachable by
  them satisfies the invariant.
\<close>

section \<open>Operations as steps\<close>

lemma step_reachable: "reg_step ops valid reg reg' \<Longrightarrow> reg_reachable ops valid reg reg'"
  by (rule reg_reachable.step [OF reg_reachable.start])

lemma reg_transition_reachable: "reg_reachable ops valid reg (snd (reg_transition now i s reg))"
  by (rule step_reachable) (rule reg_step.transition [OF surjective_pairing])

lemma annotate_reachable: "reg_reachable ops valid reg (snd (annotate i n reg))"
  by (rule step_reachable) (rule reg_step.noted [OF surjective_pairing])

lemma transition_note_reachable:
  "reg_reachable ops valid reg (snd (transition_note now i s mk arg reg))"
proof -
  obtain b reg1 where t: "reg_transition now i s reg = (b, reg1)" by fastforce
  have 1: "reg_reachable ops valid reg reg1"
    using reg_transition_reachable [of ops valid reg now i s] t by simp
  have 2: "reg_reachable ops valid reg (snd (annotate i n reg1))" for n
    using reg_reachable_trans [OF annotate_reachable 1] .
  show ?thesis
    using 1 2 t by (simp add: transition_note_def split: bool.split option.split)
qed

lemma ff_run_reachable: "reg_reachable ops valid reg (snd (ff_run now i steps reg))"
proof (induction now i steps reg rule: ff_run.induct)
  case (1 now i reg)
  then show ?case by (simp add: reg_reachable.start)
next
  case (2 now i src dst steps reg)
  obtain b reg1 where t: "reg_transition now i dst reg = (b, reg1)" by fastforce
  have r: "reg_reachable ops valid reg reg1"
    using reg_transition_reachable [of ops valid reg now i dst] t by simp
  show ?case
    using 2 t r by (auto simp: reg_reachable.start split: option.split bool.split
        intro: reg_reachable_trans)
qed

lemma terminate_loop_reachable: "reg_reachable ops valid reg (snd (terminate_loop now reason cs reg))"
proof (induction now reason cs reg rule: terminate_loop.induct)
  case (1 now reason reg)
  then show ?case by (simp add: reg_reachable.start)
next
  case (2 now reason c cs reg)
  let ?reg2 = "snd (annotate (cm_id c) (NoteError reason) (snd (reg_transition now (cm_id c) HANGUP reg)))"
  have "reg_reachable ops valid reg ?reg2"
    using reg_reachable_trans [OF annotate_reachable reg_transition_reachable] .
  with 2 show ?case
    by (auto simp: Let_def case_prod_unfold intro: reg_reachable_trans)
qed

lemmas orchestration_defs = start_telegram_ring_def accept_incoming_def answer_gsm_def
  set_bridge_leg_def bridge_call_def fast_forward_bridged_def hangup_def reject_def
  fallback_to_voicemail_def start_telegram_calling_def user_accepted_def dial_gsm_def
  gsm_ringing_def gsm_connected_def gsm_busy_def gsm_no_answer_def gsm_error_def
  telegram_timeout_def set_telegram_call_id_def terminate_bridged_calls_def

section \<open>Attempts on one call\<close>

text \<open>A sequence of attempted transitions of one call; counts the ones that succeed.\<close>
fun reg_moves :: "str \<Rightarrow> (int \<times> call_state) list \<Rightarrow> 'p call_registry \<Rightarrow> nat \<times> 'p call_registry" where
  "reg_moves i [] reg = (0, reg)"
| "reg_moves i ((now, s) # ms) reg =
     (case reg_transition now i s reg of
        (b, reg1) \<Rightarrow> (case reg_moves i ms reg1 of (n, reg2) \<Rightarrow> ((if b then 1 else 0) + n, reg2)))"

fun call_rank :: "call_state \<Rightarrow> nat" where
  "call_rank IDLE = 0"
| "call_rank RINGING = 1"
| "call_rank TELEGRAM_RINGING = 2"
| "call_rank TELEGRAM_ACCEPTED = 3"
| "call_rank GSM_ANSWERED = 4"
| "call_rank REQUESTED = 1"
| "call_rank ACL_CHECKED = 2"
| "call_rank MODEM_RESERVED = 3"
| "call_rank TELEGRAM_CALLING = 4"
| "call_rank USER_ACCEPTED = 5"
| "call_rank GSM_DIALING = 6"
| "call_rank GSM_RINGING = 7"
| "call_rank CONNECTED = 8"
| "call_rank BRIDGED = 9"
| "call_rank VOICEMAIL = 9"
| "call_rank HANGUP = 10"
| "call_rank _ = 11"

lemma call_rank_le: "call_rank s \<le> 11"
  by (cases s) simp_all

lemma transition_rank:
  "s' \<in> set (incoming_transitions s) \<union> set (outgoing_transitions s) \<Longrightarrow> call_rank s < call_rank s'"
  by (cases s) auto

text \<open>How many outcomes the counters record for entering a state, and can still record after it.\<close>
definition outcome_of :: "str \<Rightarrow> call_state \<Rightarrow> int" where
  "outcome_of dir s =
     (if s \<in> {BRIDGED, VOICEMAIL, TELEGRAM_TIMEOUT, GSM_BUSY, GSM_NO_ANSWER, GSM_ERROR}
         \<or> s = REJECTED \<and> dir = S ''incoming'' then 1 else 0)"

definition outcome_left :: "call_state \<Rightarrow> int" where
  "outcome_left s =
     (if s \<in> {BRIDGED, VOICEMAIL, TELEGRAM_TIMEOUT, GSM_BUSY, GSM_NO_ANSWER, GSM_ERROR, REJECTED,
              HANGUP, CLEANUP} then 0 else 1)"

lemma outcome_step:
  "s' \<in> set (incoming_transitions s) \<union> set (outgoing_transitions s) \<Longrightarrow>
     outcome_of dir s' + outcome_left s' \<le> outcome_left s"
  by (cases s) (auto simp: outcome_of_def outcome_left_def)

lemma hook_outcome:
  "outcome_count (m_calls (hook_metrics now c m)) =
     outcome_count (m_calls m) + outcome_of (cm_direction c) (cm_state c)"
  by (cases "cm_state c")
    (auto simp: hook_metrics_def outcome_of_def outcome_count_def total_answered_def
      total_missed_def metrics_defs split: option.split)

lemma allowed_either: "s \<in> set (allowed_from c) \<Longrightarrow>
    s \<in> set (incoming_transitions (cm_state c)) \<union> set (outgoing_transitions (cm_state c))"
  by (auto simp: allowed_from_def split: if_splits)

lemma cm_transition_allowed: "cm_transition now s c = Inr c' \<Longrightarrow> s \<in> set (allowed_from c)"
  using cm_transition_legal by blast

text \<open>One attempt: the rank grows by at least one when it succeeds, and the outcomes that are
  recorded come out of what was left.\<close>
lemma attempt_progress:
  assumes "keyed_by cm_id (cr_calls reg)" and "dget (cr_calls reg) i = Some c"
    and "cr_metrics reg = Some m" and "reg_transition now i s reg = (b, reg1)"
  shows "\<exists>c1 m1. keyed_by cm_id (cr_calls reg1) \<and> dget (cr_calls reg1) i = Some c1
     \<and> cr_metrics reg1 = Some m1
     \<and> (if b then 1 else 0) + call_rank (cm_state c) \<le> call_rank (cm_state c1)
     \<and> outcome_count (m_calls m) \<le> outcome_count (m_calls m1)
     \<and> outcome_count (m_calls m1) + outcome_left (cm_state c1)
         \<le> outcome_count (m_calls m) + outcome_left (cm_state c)"
proof (cases rule: reg_transition_cases [of now i s reg])
  case refused
  with assms show ?thesis by auto
next
  case (moved c0 c')
  then have c0: "c0 = c" and id: "cm_id c' = i"
    using assms(1,2) by (auto simp: same_owner_def dest: keyed_by_key)
  have s: "s \<in> set (allowed_from c)" using moved(2) c0 cm_transition_allowed by blast
  have reg1: "reg1 = put_call c' (metrics_hook now c' reg)" "b" using moved assms(4) by auto
  have 1: "keyed_by cm_id (cr_calls reg1)" "dget (cr_calls reg1) i = Some c'"
    using assms(1) id reg1 by (simp_all add: keyed_by_dput)
  have 2: "cr_metrics reg1 = Some (hook_metrics now c' m)"
    using assms(3) reg1 by (simp add: put_call_def metrics_hook_def)
  have 3: "call_rank (cm_state c) < call_rank (cm_state c')"
    using transition_rank allowed_either [OF s] moved(4) by simp
  have 4: "outcome_of (cm_direction c') (cm_state c') + outcome_left (cm_state c') \<le> outcome_left (cm_state c)"
    using outcome_step allowed_either [OF s] moved(4) by simp
  have 5: "0 \<le> outcome_of (cm_direction c') (cm_state c')" by (simp add: outcome_of_def)
  show ?thesis
    using 1 2 3 4 5 reg1(2) by (intro exI [of _ c'] exI [of _ "hook_metrics now c' m"])
      (simp add: hook_outcome)
qed

lemma moves_progress:
  assumes "keyed_by cm_id (cr_calls reg)" and "dget (cr_calls reg) i = Some c"
    and "cr_metrics reg = Some m" and "reg_moves i ms reg = (n, reg')"
  shows "\<exists>c' m'. dget (cr_calls reg') i = Some c' \<and> cr_metrics reg' = Some m'
     \<and> n + call_rank (cm_state c) \<le> call_rank (cm_state c')
     \<and> outcome_count (m_calls m) \<le> outcome_count (m_calls m')
     \<and> outcome_count (m_calls m') + outcome_left (cm_state c')
         \<le> outcome_count (m_calls m) + outcome_left (cm_state c)"
  using assms
proof (induction ms arbitrary: reg c m n)
  case Nil
  then show ?case by auto
next
  case (Cons a ms)
  obtain now s where a: "a = (now, s)" by fastforce
  obtain b reg1 where t: "reg_transition now i s reg = (b, reg1)" by fastforce
  obtain k reg2 where k: "reg_moves i ms reg1 = (k, reg2)" by fastforce
  have n: "n = (if b then 1 else 0) + k" "reg2 = reg'" using Cons.prems(4) a t k by auto
  obtain c1 m1 where s1: "keyed_by cm_id (cr_calls reg1)" "dget (cr_calls reg1) i = Some c1"
      "cr_metrics reg1 = Some m1"
      "(if b then 1 else 0) + call_rank (cm_state c) \<le> call_rank (cm_state c1)"
      "outcome_count (m_calls m) \<le> outcome_count (m_calls m1)"
      "outcome_count (m_calls m1) + outcome_left (cm_state c1)
         \<le> outcome_count (m_calls m) + outcome_left (cm_state c)"
    using attempt_progress [OF Cons.prems(1-3) t] by blast
  show ?case
    using Cons.IH [OF s1(1-3)] k s1(4-6) n by (force intro: order_trans)
qed

section \<open>Termination of bridged calls\<close>

definition terminated :: "int \<Rightarrow> str \<Rightarrow> call_machine \<Rightarrow> call_machine" where
  "terminated now reason c =
     (if cm_state c = BRIDGED
      then c\<lparr>cm_state := HANGUP, cm_updated_at := now, cm_error := Some reason\<rparr> else c)"

lemma hangup_bridged:
  "cm_state c = BRIDGED \<Longrightarrow> cm_transition now HANGUP c = Inr (c\<lparr>cm_state := HANGUP, cm_updated_at := now\<rparr>)"
  by (simp add: cm_transition_def allowed_from_def)

lemma terminate_loop_calls:
  assumes "distinct (map cm_id cs)" and "\<forall>c \<in> set cs. dget (cr_calls reg) (cm_id c) = Some c"
    and "terminate_loop now reason cs reg = (ids, reg')"
  shows "ids = map cm_id (filter (\<lambda>c. cm_state c = BRIDGED) cs) \<and> cr_pool reg' = cr_pool reg
     \<and> (\<forall>k. dget (cr_calls reg') k =
           (if k \<in> cm_id ` set cs then map_option (terminated now reason) (dget (cr_calls reg) k)
            else dget (cr_calls reg) k))"
  using assms
proof (induction cs arbitrary: reg ids)
  case Nil
  then show ?case by simp
next
  case (Cons c cs)
  show ?case
  proof (cases "cm_state c = BRIDGED")
    case False
    with Cons.prems Cons.IH [of reg ids] show ?thesis by (auto simp: terminated_def)
  next
    case True
    define c1 where "c1 = c\<lparr>cm_state := HANGUP, cm_updated_at := now\<rparr>"
    define reg1 where "reg1 = put_call c1 (metrics_hook now c1 reg)"
    define reg2 where "reg2 = snd (annotate (cm_id c) (NoteError reason) reg1)"
    have get: "dget (cr_calls reg) (cm_id c) = Some c" using Cons.prems(2) by simp
    have t: "snd (reg_transition now (cm_id c) HANGUP reg) = reg1"
      using get True by (simp add: reg_transition_def hooked_transition_def hangup_bridged c1_def reg1_def)
    have reg2: "cr_pool reg2 = cr_pool reg"
      "dget (cr_calls reg2) k = (if k = cm_id c then Some (terminated now reason c) else dget (cr_calls reg) k)" for k
      using True by (simp_all add: reg2_def annotate_def reg1_def c1_def terminated_def)
    obtain ids3 where loop: "terminate_loop now reason cs reg2 = (ids3, reg')" "ids = cm_id c # ids3"
      using Cons.prems(3) True t by (auto simp: Let_def reg2_def split: prod.splits)
    have "dget (cr_calls reg2) (cm_id d) = Some d" if "d \<in> set cs" for d
    proof -
      have "cm_id d \<noteq> cm_id c" using that Cons.prems(1) by (metis distinct.simps(2) image_eqI list.simps(9) list.set_map)
      then show ?thesis using that Cons.prems(2) reg2(2) by simp
    qed
    moreover have "distinct (map cm_id cs)" and fresh: "cm_id c \<notin> cm_id ` set cs"
      using Cons.prems(1) by auto
    ultimately have IH: "ids3 = map cm_id (filter (\<lambda>c. cm_state c = BRIDGED) cs)"
        "cr_pool reg' = cr_pool reg2"
        "dget (cr_calls reg') k = (if k \<in> cm_id ` set cs
            then map_option (terminated now reason) (dget (cr_calls reg2) k)
            else dget (cr_calls reg2) k)" for k
      using Cons.IH [OF _ _ loop(1)] by blast+
    have "dget (cr_calls reg') k = (if k \<in> cm_id ` set (c # cs)
            then map_option (terminated now reason) (dget (cr_calls reg) k)
            else dget (cr_calls reg) k)" for k
      using fresh get by (cases "k = cm_id c") (simp_all add: IH(3) reg2)
    with IH(1,2) reg2(1) loop(2) True show ?thesis by simp
  qed
qed

lemma keyed_transition:
  "keyed_by cm_id (cr_calls reg) \<Longrightarrow> keyed_by cm_id (cr_calls (snd (reg_transition now i s reg)))"
  by (cases rule: reg_transition_cases [of now i s reg]) (auto simp: keyed_by_dput)

lemma keyed_annotate:
  assumes "keyed_by cm_id (cr_calls reg)"
  shows "keyed_by cm_id (cr_calls (snd (annotate i n reg)))"
proof (cases "dget (cr_calls reg) i")
  case None
  with assms show ?thesis by (simp add: annotate_def)
next
  case (Some c)
  then have "cm_id (apply_note n c) = i"
    using keyed_by_key [OF assms Some] apply_note_same(1) [of c n] by (simp add: same_owner_def)
  with Some assms show ?thesis by (simp add: annotate_def keyed_by_dput)
qed

lemma keyed_terminate:
  "keyed_by cm_id (cr_calls reg) \<Longrightarrow> keyed_by cm_id (cr_calls (snd (terminate_loop now reason cs reg)))"
  by (induction now reason cs reg rule: terminate_loop.induct)
    (simp_all add: Let_def case_prod_unfold keyed_transition keyed_annotate)

section \<open>Waiting states\<close>

fun wait_limit :: "int \<Rightarrow> int \<Rightarrow> int \<Rightarrow> call_state \<Rightarrow> int option" where
  "wait_limit ring_wait max_call tg_ring RINGING = Some ring_wait"
| "wait_limit ring_wait max_call tg_ring TELEGRAM_RINGING = Some ring_wait"
| "wait_limit ring_wait max_call tg_ring MODEM_RESERVED = Some tg_ring"
| "wait_limit ring_wait max_call tg_ring TELEGRAM_CALLING = Some tg_ring"
| "wait_limit ring_wait max_call tg_ring BRIDGED = Some max_call"
| "wait_limit ring_wait max_call tg_ring _ = None"

lemma timed_out_limit:
  "timed_out now ring_wait max_call tg_ring c \<longleftrightarrow>
     (case wait_limit ring_wait max_call tg_ring (cm_state c) of
        None \<Rightarrow> False | Some l \<Rightarrow> now - cm_updated_at c > l * US)"
  by (cases "cm_state c") (simp_all add: timed_out_def is_terminal_def TERMINAL_STATES_def Let_def)

lemma wait_limit_states:
  "wait_limit ring_wait max_call tg_ring s \<noteq> None \<longleftrightarrow>
     s \<in> {RINGING, TELEGRAM_RINGING, MODEM_RESERVED, TELEGRAM_CALLING, BRIDGED}"
  by (cases s) simp_all

section \<open>The fast forward\<close>

lemma ff_skip:
  "dget (cr_calls reg) i = Some c \<Longrightarrow> cm_state c \<noteq> src \<Longrightarrow>
     ff_run now i ((src, dst) # steps) reg = ff_run now i steps reg"
  by simp

definition ff_at :: "str \<Rightarrow> call_state \<Rightarrow> 'p call_registry \<Rightarrow> bool" where
  "ff_at i s reg \<longleftrightarrow> keyed_by cm_id (cr_calls reg)
     \<and> (\<exists>c. dget (cr_calls reg) i = Some c \<and> cm_direction c = S ''incoming'' \<and> cm_state c = s)"

lemma ff_hit:
  assumes "ff_at i src reg" and "dst \<in> set (incoming_transitions src)"
  shows "\<exists>reg1. ff_run now i ((src, dst) # steps) reg = ff_run now i steps reg1 \<and> ff_at i dst reg1"
proof -
  obtain c where c: "dget (cr_calls reg) i = Some c" "cm_direction c = S ''incoming''" "cm_state c = src"
      and k: "keyed_by cm_id (cr_calls reg)"
    using assms(1) by (auto simp: ff_at_def)
  show ?thesis
  proof (cases rule: reg_transition_cases [of now i dst reg])
    case refused
    with c assms(2) show ?thesis by (simp add: allowed_from_def)
  next
    case (moved c0 c')
    then have "ff_at i dst (put_call c' (metrics_hook now c' reg))"
      using c k by (auto simp: ff_at_def same_owner_def keyed_by_dput dest: keyed_by_key)
    with moved(5) c show ?thesis by (intro exI conjI) (simp, assumption)
  qed
qed

definition ff_good :: "str \<Rightarrow> bool \<times> 'p call_registry \<Rightarrow> bool" where
  "ff_good i r \<longleftrightarrow> fst r \<and> map_option cm_state (dget (cr_calls (snd r)) i) = Some BRIDGED"

lemma ff_chain:
  fixes reg :: "'p call_registry"
  assumes "ff_at i src reg" and "dst \<in> set (incoming_transitions src)"
    and "\<And>reg1 :: 'p call_registry. ff_at i dst reg1 \<Longrightarrow> ff_good i (ff_run now i steps reg1)"
  shows "ff_good i (ff_run now i ((src, dst) # steps) reg)"
proof -
  obtain reg1 where "ff_run now i ((src, dst) # steps) reg = ff_run now i steps reg1" "ff_at i dst reg1"
    using ff_hit [OF assms(1,2), of now steps] by blast
  then show ?thesis using assms(3) by simp
qed

lemma ff_good_end: "ff_at i BRIDGED reg \<Longrightarrow> ff_good i (ff_run now i [] reg)"
  by (auto simp: ff_good_def ff_at_def)

lemma ff_good_answered:
  "ff_at i GSM_ANSWERED reg \<Longrightarrow> ff_good i (ff_run now i [(GSM_ANSWERED, BRIDGED)] reg)"
  by (rule ff_chain) (simp_all add: ff_good_end del: ff_run.simps)

lemma ff_good_accepted:
  "ff_at i TELEGRAM_ACCEPTED reg \<Longrightarrow>
     ff_good i (ff_run now i [(TELEGRAM_ACCEPTED, GSM_ANSWERED), (GSM_ANSWERED, BRIDGED)] reg)"
  by (rule ff_chain) (simp_all add: ff_good_answered del: ff_run.simps)

lemma ff_good_tg_ringing:
  "ff_at i TELEGRAM_RINGING reg \<Longrightarrow>
     ff_good i (ff_run now i [(TELEGRAM_RINGING, TELEGRAM_ACCEPTED), (TELEGRAM_ACCEPTED, GSM_ANSWERED),
                              (GSM_ANSWERED, BRIDGED)] reg)"
  by (rule ff_chain) (simp_all add: ff_good_accepted del: ff_run.simps)

lemma ff_good_ringing: "ff_at i RINGING reg \<Longrightarrow> ff_good i (ff_run now i ff_steps reg)"
  unfolding ff_steps_def by (rule ff_chain) (simp_all add: ff_good_tg_ringing del: ff_run.simps)

lemmas ff_good_suffix = ff_good_end ff_good_answered ff_good_accepted ff_good_tg_ringing ff_good_ringing

text \<open>What the invariant says of the calls that hold a modem.\<close>
lemma reg_inv_exclusive:
  assumes inv: "reg_inv ops valid reg"
  shows "(\<forall>c1 \<in> set (list_calls reg). \<forall>c2 \<in> set (list_calls reg).
            holds_modem c1 \<and> holds_modem c2 \<and> cm_modem_id c1 = cm_modem_id c2 \<longrightarrow> c1 = c2)
     \<and> (\<forall>p. cr_pool reg = Some p \<longrightarrow>
          mp_reserved p = cm_modem_id ` {c \<in> set (list_calls reg). holds_modem c})"
proof -
  have keyed: "keyed_by cm_id (cr_calls reg)" using inv by (simp add: reg_inv_def calls_ok_def)
  have mem: "c \<in> set (list_calls reg) \<longleftrightarrow> dget (cr_calls reg) (cm_id c) = Some c" for c
    using keyed_by_mem [OF keyed] dget_in_dvalues [of "cr_calls reg"] by (auto simp: list_calls_def)
  have H: "holders (cr_calls reg) = (\<lambda>c. (cm_id c, cm_modem_id c)) ` {c \<in> set (list_calls reg). holds_modem c}"
    using keyed by (force simp: holders_def mem dest: keyed_by_key)
  have "cr_pool reg = Some p \<Longrightarrow> mp_reserved p = snd ` holders (cr_calls reg)" for p
    using inv by (simp add: reg_inv_def reservations_ok_def)
  moreover have inj: "inj_on snd (holders (cr_calls reg))"
    using inv by (auto simp: reg_inv_def reservations_ok_def split: option.splits)
  have same: "c1 = c2" if c: "c1 \<in> set (list_calls reg)" "c2 \<in> set (list_calls reg)" "holds_modem c1"
      "holds_modem c2" "cm_modem_id c1 = cm_modem_id c2" for c1 c2
  proof -
    have "(cm_id c1, cm_modem_id c1) \<in> holders (cr_calls reg)"
      "(cm_id c2, cm_modem_id c2) \<in> holders (cr_calls reg)" using c H by auto
    then have "cm_id c1 = cm_id c2" using inj_onD [OF inj] c(5) by (metis prod.inject snd_conv)
    with c(1,2) mem show ?thesis by (metis option.inject)
  qed
  ultimately show ?thesis
    using same unfolding H image_image by simp
qed

section \<open>Properties\<close>

definition empty_reg :: "single_provider call_registry" where
  "empty_reg = new_call_registry [] (Some ready_pool) (Some new_metrics)"

definition dialing_reg :: "single_provider call_registry" where
  "dialing_reg = snd (create_outgoing 10 (S ''c1'') (S ''+79261234555'') (S ''simbridge'') None
                        (S ''gsm'') (Some 7) True empty_reg)"

definition dialing_call :: call_machine where
  "dialing_call = (new_call 10 (S ''c1'') (S ''outgoing''))
     \<lparr>cm_caller := S ''simbridge'', cm_callee := S ''+79261234555'', cm_modem_id := S ''gsm'',
      cm_tg_user := Some 7, cm_state := MODEM_RESERVED\<rparr>"

lemma dialing_choice:
  "choose_modem (S ''+79261234555'') (S ''gsm'') True empty_reg =
     (let pool' = snd (select_for_call (Some (S ''+79261234555'')) ready_pool)
      in (Inr (ModemChoice (S ''gsm'') (strategy_text (mp_strategy pool'))),
          empty_reg\<lparr>cr_pool := Some pool'\<rparr>))"
  using ready_pool_select(1) [of "Some (S ''+79261234555'')"] ready_pool_select(2)
  by (auto simp: choose_modem_def empty_reg_def new_call_registry_def Let_def split: prod.split)

lemma dialing_reg_calls: "cr_calls dialing_reg = [(S ''c1'', dialing_call)]"
  and dialing_reg_pool: "cr_pool dialing_reg = Some (snd (select_for_call (Some (S ''+79261234555'')) ready_pool))"
  and dialing_reg_metrics: "cr_metrics dialing_reg = Some new_metrics"
  by (simp_all add: dialing_reg_def dialing_choice create_outgoing_def hooked_transition_def
      cm_transition_def allowed_from_def new_call_def metrics_hook_def hook_metrics_def put_call_def
      dialing_call_def Let_def) (simp_all add: empty_reg_def new_call_registry_def)

lemma ready_pool_facts:
  "mp_ops ready_pool = single_ops" "sp_valid (mp_provider ready_pool)"
  "named_modems single_ops (mp_provider ready_pool)" "mp_reserved ready_pool = {}"
  by (simp_all add: ready_pool_def new_modem_pool_def ready_provider_def new_single_provider_def
      sp_defs sp_valid_def named_modems_def single_ops_def)

lemma dialing_reachable: "reg_reachable single_ops sp_valid empty_reg dialing_reg"
  unfolding dialing_reg_def
  by (rule step_reachable, rule reg_step.outgoing [OF _ _ surjective_pairing])
    (simp_all add: empty_reg_def new_call_registry_def)

text \<open>Without a pool the reservation counter is exact and at most one: it is one exactly while
  an outgoing call holds the modem, and no second such call exists.\<close>
theorem single_modem_counter:
  assumes "modem_provider ops valid"
    and "reg_reachable ops valid (new_call_registry audit None metrics) reg" and "cr_pool reg = None"
  shows "cr_modems_reserved reg = (if \<exists>c \<in> set (list_calls reg). holds_modem c then 1 else 0)
     \<and> length (filter holds_modem (list_calls reg)) \<le> 1"
proof -
  have inv: "reg_inv ops valid reg"
    using modem_provider.reachable_inv [OF assms(1,2)] new_registry_inv(1) by blast
  then have keyed: "keyed_by cm_id (cr_calls reg)" by (simp add: reg_inv_def calls_ok_def)
  let ?cs = "filter holds_modem (list_calls reg)"
  have mem: "c \<in> set ?cs \<Longrightarrow> (cm_id c, cm_modem_id c) \<in> holders (cr_calls reg)" for c
    using keyed_by_mem [OF keyed] by (auto simp: list_calls_def holders_def)
  have ids: "map cm_id (list_calls reg) = dkeys (cr_calls reg)"
    using keyed by (auto simp: list_calls_def dict_wf_mem keyed_by_key [OF keyed] keyed_by_wf)
  have "distinct (map cm_id ?cs)"
    using keyed ids by (metis dict_wf_def distinct_map_filter keyed_by_wf)
  have cases: "holders (cr_calls reg) = {} \<and> cr_modems_reserved reg = 0
      \<or> (\<exists>h. holders (cr_calls reg) = {h}) \<and> cr_modems_reserved reg = 1"
    using inv assms(3) by (simp add: reg_inv_def reservations_ok_def)
  have some: "holders (cr_calls reg) \<noteq> {} \<longleftrightarrow> ?cs \<noteq> []"
  proof
    assume "holders (cr_calls reg) \<noteq> {}"
    then obtain k c where "dget (cr_calls reg) k = Some c" "holds_modem c"
      by (auto simp: holders_def)
    then have "c \<in> set ?cs"
      using dget_in_dvalues [of "cr_calls reg" k c] by (simp add: list_calls_def)
    then show "?cs \<noteq> []" by (metis empty_iff list.set(1))
  next
    assume "?cs \<noteq> []"
    then show "holders (cr_calls reg) \<noteq> {}" using mem [of "hd ?cs"] list.set_sel(1) by blast
  qed
  have "length ?cs \<le> 1"
  proof (rule ccontr)
    assume "\<not> length ?cs \<le> 1"
    then obtain a b cs where ab: "?cs = a # b # cs"
      by (cases ?cs; cases "tl ?cs") auto
    then have "cm_id a \<noteq> cm_id b" using \<open>distinct (map cm_id ?cs)\<close> by simp
    moreover have "a \<in> set ?cs" "b \<in> set ?cs" using ab by auto
    ultimately show False using mem cases by (metis empty_iff prod.inject singletonD)
  qed
  moreover have "cr_modems_reserved reg = (if \<exists>c \<in> set (list_calls reg). holds_modem c then 1 else 0)"
    using cases some by (auto simp: filter_empty_conv)
  ultimately show ?thesis by blast
qed

definition counter_reg :: "single_provider call_registry" where
  "counter_reg = snd (create_outgoing 10 (S ''c1'') (S ''+79261234555'') (S ''simbridge'') None
                        (S ''gsm'') (Some 7) True (new_call_registry [] None None))"

lemma counter_reg_calls: "cr_calls counter_reg = [(S ''c1'', dialing_call)]" "cr_pool counter_reg = None"
  by (simp_all add: counter_reg_def new_call_registry_def create_outgoing_def
      choose_modem_def hooked_transition_def cm_transition_def allowed_from_def new_call_def
      metrics_hook_def hook_metrics_def put_call_def dialing_call_def Let_def)

theorem single_modem_counter_witness: "cr_modems_reserved counter_reg = 1"
proof -
  have "reg_reachable single_ops sp_valid (new_call_registry [] None None) counter_reg"
    unfolding counter_reg_def
    by (rule step_reachable, rule reg_step.outgoing [OF _ _ surjective_pairing])
      (simp_all add: new_call_registry_def)
  from single_modem_counter [OF single.modem_provider_axioms this counter_reg_calls(2)]
  show ?thesis
    by (simp add: list_calls_def counter_reg_calls dialing_call_def holds_modem_def new_call_def)
qed

text \<open>C29: a call cannot loop and is counted once. However many transitions are attempted on a call,
  in any order and at any times, at most eleven succeed, and together they add at most one
  outcome (answered, rejected, voicemail, timeout, failed) to the counters.\<close>
theorem call_moves_bounded:
  assumes "keyed_by cm_id (cr_calls reg)" and "dget (cr_calls reg) i = Some c"
    and "cr_metrics reg = Some m" and "reg_moves i ms reg = (n, reg')"
  shows "n \<le> 11 - call_rank (cm_state c)
     \<and> (\<exists>m'. cr_metrics reg' = Some m'
           \<and> outcome_count (m_calls m') - outcome_count (m_calls m) \<in> {0, 1})"
proof -
  obtain c' m' where "dget (cr_calls reg') i = Some c' \<and> cr_metrics reg' = Some m'
     \<and> n + call_rank (cm_state c) \<le> call_rank (cm_state c')
     \<and> outcome_count (m_calls m) \<le> outcome_count (m_calls m')
     \<and> outcome_count (m_calls m') + outcome_left (cm_state c')
         \<le> outcome_count (m_calls m) + outcome_left (cm_state c)"
    using moves_progress [OF assms] by (elim exE) (rule that)
  then have p: "cr_metrics reg' = Some m'" "n + call_rank (cm_state c) \<le> call_rank (cm_state c')"
      "outcome_count (m_calls m) \<le> outcome_count (m_calls m')"
      "outcome_count (m_calls m') + outcome_left (cm_state c')
         \<le> outcome_count (m_calls m) + outcome_left (cm_state c)"
    by simp_all
  have "outcome_left s \<in> {0, 1}" for s by (simp add: outcome_left_def)
  then have "0 \<le> outcome_left (cm_state c')" "outcome_left (cm_state c) \<le> 1"
    by (metis insert_iff singletonD order_refl zero_le_one)+
  then have "outcome_count (m_calls m') - outcome_count (m_calls m) \<in> {0, 1}"
    using p(3,4) by auto
  with p(1,2) call_rank_le [of "cm_state c'"] show ?thesis by auto
qed

theorem call_moves_bounded_witness:
  "fst (reg_moves (S ''c1'') [(11, TELEGRAM_CALLING), (12, BRIDGED), (13, REJECTED)] dialing_reg) \<le> 8"
proof -
  have "keyed_by cm_id (cr_calls dialing_reg)"
    by (simp add: dialing_reg_calls keyed_by_def dict_wf_def dialing_call_def new_call_def)
  moreover have "dget (cr_calls dialing_reg) (S ''c1'') = Some dialing_call"
    by (simp add: dialing_reg_calls)
  ultimately show ?thesis
    using call_moves_bounded [OF _ _ dialing_reg_metrics surjective_pairing, of "S ''c1''" dialing_call
        "[(11, TELEGRAM_CALLING), (12, BRIDGED), (13, REJECTED)]"]
    by (simp add: dialing_call_def)
qed

text \<open>A lost link ends exactly the bridged calls. \<open>terminate_bridged_calls\<close> returns the ids of
  the bridged calls, each of them is in \<open>HANGUP\<close> with the reason afterwards, and every other call
  is untouched. The pool is not touched either: a modem that a terminated outgoing call holds
  stays reserved until the call is cleaned up.\<close>
theorem terminate_bridged_exact:
  assumes "keyed_by cm_id (cr_calls reg)"
    and "terminate_bridged_calls now reason reg = (ids, reg')"
  shows "ids = map cm_id (get_bridged_calls reg) \<and> get_bridged_calls reg' = []
     \<and> (\<forall>k. get_call k reg' = map_option (terminated now reason) (get_call k reg))
     \<and> cr_pool reg' = cr_pool reg"
proof -
  let ?cs = "dvalues (cr_calls reg)"
  have ids: "map cm_id ?cs = dkeys (cr_calls reg)"
    using assms(1) by (auto simp: dict_wf_mem keyed_by_key [OF assms(1)] keyed_by_wf)
  then have d: "distinct (map cm_id ?cs)"
    using assms(1) by (metis dict_wf_def keyed_by_wf)
  have m: "\<forall>c \<in> set ?cs. dget (cr_calls reg) (cm_id c) = Some c"
    using keyed_by_mem [OF assms(1)] by blast
  note r = terminate_loop_calls [OF d m assms(2) [unfolded terminate_bridged_calls_def]]
  have get: "get_call k reg' = map_option (terminated now reason) (get_call k reg)" for k
  proof (cases "k \<in> cm_id ` set ?cs")
    case True
    then show ?thesis using r by (simp add: get_call_def)
  next
    case False
    then have "dget (cr_calls reg) k = None"
      using ids by (metis dom_map_of_conv_image_fst domIff list.set_map)
    with False r show ?thesis by (simp add: get_call_def)
  qed
  have "keyed_by cm_id (cr_calls reg')"
    using keyed_terminate [OF assms(1), of now reason] assms(2)
    by (metis snd_conv terminate_bridged_calls_def)
  then have "cm_state c \<noteq> BRIDGED" if "c \<in> set (dvalues (cr_calls reg'))" for c
    using that get [of "cm_id c"] keyed_by_mem [of cm_id "cr_calls reg'" c]
    by (cases "get_call (cm_id c) reg") (auto simp: get_call_def terminated_def split: if_splits)
  then show ?thesis using r get by (simp add: get_bridged_calls_def filter_empty_conv)
qed

text \<open>C40: the timeouts cover exactly the waiting states. A call in one of the five listed states is
  reported once its limit has passed since it entered the state, and from then on; a call in any
  other state is never reported, however long it stays there. In particular an outgoing call in
  \<open>USER_ACCEPTED\<close>, \<open>GSM_DIALING\<close>, \<open>GSM_RINGING\<close> or \<open>CONNECTED\<close> never times out.\<close>
theorem timeout_states_exact:
  "(\<exists>now0. \<forall>now \<ge> now0. timed_out now ring_wait max_call tg_ring c)
     = (cm_state c \<in> {RINGING, TELEGRAM_RINGING, MODEM_RESERVED, TELEGRAM_CALLING, BRIDGED})
   \<and> ((\<exists>now. timed_out now ring_wait max_call tg_ring c)
     = (cm_state c \<in> {RINGING, TELEGRAM_RINGING, MODEM_RESERVED, TELEGRAM_CALLING, BRIDGED}))"
proof -
  let ?w = "wait_limit ring_wait max_call tg_ring (cm_state c)"
  have "(\<exists>now0. \<forall>now \<ge> now0. timed_out now ring_wait max_call tg_ring c) = (?w \<noteq> None)"
  proof (cases ?w)
    case None
    then show ?thesis by (auto simp: timed_out_limit)
  next
    case (Some l)
    then have "\<forall>now \<ge> cm_updated_at c + l * US + 1. timed_out now ring_wait max_call tg_ring c"
      by (simp add: timed_out_limit)
    with Some show ?thesis by blast
  qed
  moreover have "(\<exists>now. timed_out now ring_wait max_call tg_ring c) = (?w \<noteq> None)"
  proof (cases ?w)
    case None
    then show ?thesis by (simp add: timed_out_limit)
  next
    case (Some l)
    then have "timed_out (cm_updated_at c + l * US + 1) ring_wait max_call tg_ring c"
      by (simp add: timed_out_limit)
    with Some show ?thesis by blast
  qed
  ultimately show ?thesis by (simp only: wait_limit_states)
qed

text \<open>The fast forward of an incoming call: from any state on the way to the bridge it ends
  \<open>BRIDGED\<close> and reports success; from any other state it changes nothing and reports failure.\<close>
theorem fast_forward_exact:
  assumes "keyed_by cm_id (cr_calls reg)" and "get_call i reg = Some c"
    and "cm_direction c = S ''incoming''"
  shows "(case fast_forward_bridged now i reg of (ok, reg') \<Rightarrow>
     if cm_state c \<in> {RINGING, TELEGRAM_RINGING, TELEGRAM_ACCEPTED, GSM_ANSWERED, BRIDGED}
     then ok \<and> map_option cm_state (get_call i reg') = Some BRIDGED
     else \<not> ok \<and> reg' = reg)"
proof (cases "cm_state c \<in> {RINGING, TELEGRAM_RINGING, TELEGRAM_ACCEPTED, GSM_ANSWERED, BRIDGED}")
  case True
  have at: "ff_at i (cm_state c) reg" using assms by (auto simp: ff_at_def get_call_def)
  have get: "dget (cr_calls reg) i = Some c" using assms(2) by (simp add: get_call_def)
  have "ff_good i (fast_forward_bridged now i reg)"
    using True ff_good_suffix [where i = i and reg = reg and now = now] at get
    by (auto simp: fast_forward_bridged_def ff_steps_def)
  with True show ?thesis by (simp add: ff_good_def get_call_def case_prod_unfold)
next
  case False
  then show ?thesis
    using assms(2) by (simp add: fast_forward_bridged_def ff_steps_def get_call_def)
qed

definition ringing_reg :: "single_provider call_registry" where
  "ringing_reg = snd (create_incoming 10 (S ''c2'') (S ''+79261234555'') None (S ''gsm'') None empty_reg)"

definition ringing_call :: call_machine where
  "ringing_call = (new_call 10 (S ''c2'') (S ''incoming''))
     \<lparr>cm_caller := S ''+79261234555'', cm_modem_id := S ''gsm'', cm_state := RINGING\<rparr>"

lemma ringing_reg_calls: "cr_calls ringing_reg = [(S ''c2'', ringing_call)]"
  by (simp add: ringing_reg_def empty_reg_def new_call_registry_def create_incoming_def
      hooked_transition_def cm_transition_def allowed_from_def new_call_def ringing_call_def Let_def)

lemma ringing_reg_keyed: "keyed_by cm_id (cr_calls ringing_reg)"
  by (simp add: ringing_reg_calls keyed_by_def dict_wf_def ringing_call_def new_call_def)

definition bridged_reg :: "single_provider call_registry" where
  "bridged_reg = snd (fast_forward_bridged 20 (S ''c2'') ringing_reg)"

theorem fast_forward_exact_witness:
  "map_option cm_state (get_call (S ''c2'') bridged_reg) = Some BRIDGED"
  using fast_forward_exact [OF ringing_reg_keyed, of "S ''c2''" ringing_call 20]
  by (simp add: get_call_def ringing_reg_calls ringing_call_def new_call_def bridged_reg_def
      case_prod_unfold)

lemma bridged_reg_calls:
  "cr_calls bridged_reg = [(S ''c2'', ringing_call\<lparr>cm_state := BRIDGED, cm_updated_at := 20,
      cm_bridged_at := Some 20\<rparr>)]"
  by (simp add: bridged_reg_def fast_forward_bridged_def ff_steps_def ringing_reg_calls ringing_call_def
      new_call_def reg_transition_def hooked_transition_def cm_transition_def allowed_from_def
      metrics_hook_def put_call_def Let_def)

theorem terminate_bridged_exact_witness:
  "fst (terminate_bridged_calls 30 (S ''link_drop'') bridged_reg) = [S ''c2'']
   \<and> get_bridged_calls (snd (terminate_bridged_calls 30 (S ''link_drop'') bridged_reg)) = []"
proof -
  have "keyed_by cm_id (cr_calls bridged_reg)"
    by (simp add: bridged_reg_calls keyed_by_def dict_wf_def ringing_call_def new_call_def)
  from terminate_bridged_exact [OF this surjective_pairing]
  show ?thesis
    by (simp add: get_bridged_calls_def [of bridged_reg] bridged_reg_calls ringing_call_def new_call_def)
qed

theorem timeout_states_exact_witness:
  "(\<exists>now. timed_out now 30 600 30 dialing_call) \<and> \<not> (\<exists>now. timed_out now 30 600 30 (dialing_call\<lparr>cm_state := CONNECTED\<rparr>))"
  using timeout_states_exact [of 30 600 30 dialing_call]
    timeout_states_exact [of 30 600 30 "dialing_call\<lparr>cm_state := CONNECTED\<rparr>"]
  by (simp add: dialing_call_def)

end
