(* ===== verification/CallRoutes.thy ===== *)
theory CallRoutes
  imports AgentSms CallProps
begin

text \<open>
  The call routes of \<open>agent/routes.py\<close>. A route returns the call its response is built from, as it
  is when the response is built (\<open>CallResponse\<close> and \<open>CallStateResponse\<close> are projections of it), or
  the \<open>HTTPException\<close>. A Python \<open>call\<close> is a reference into the registry; the model looks the call
  up again where a later state is read.
\<close>

section \<open>Helpers\<close>

definition on_reg :: "('p call_registry \<Rightarrow> bool \<times> 'p call_registry) \<Rightarrow> 'p agent \<Rightarrow> bool \<times> 'p agent" where
  "on_reg f ag = (case f (ag_reg ag) of (b, reg) \<Rightarrow> (b, ag\<lparr>ag_reg := reg\<rparr>))"

definition agent_cleanup :: "str \<Rightarrow> 'p agent \<Rightarrow> 'p agent" where
  "agent_cleanup call_id ag = ag\<lparr>ag_reg := cleanup call_id (ag_reg ag)\<rparr>"

definition call_event :: "env \<Rightarrow> event_type \<Rightarrow> str \<Rightarrow> str \<Rightarrow> (str \<times> json) list \<Rightarrow> audit_entry" where
  "call_event en ev call_id outcome details =
     (entry (en_now en) ev)\<lparr>ae_correlation := Some call_id, ae_outcome := outcome, ae_details := details\<rparr>"

definition user_event ::
    "env \<Rightarrow> event_type \<Rightarrow> call_machine \<Rightarrow> str \<Rightarrow> (str \<times> json) list \<Rightarrow> audit_entry" where
  "user_event en ev c outcome details = (call_event en ev (cm_id c) outcome details)\<lparr>ae_user := cm_tg_user c\<rparr>"

text \<open>The live object behind a reference: the entry of the registry, or the last known one.\<close>
definition live :: "call_machine \<Rightarrow> 'p agent \<Rightarrow> call_machine" where
  "live c ag = (case get_call (cm_id c) (ag_reg ag) of None \<Rightarrow> c | Some c' \<Rightarrow> c')"

definition call_not_found :: http_error where
  "call_not_found = HTTPException 404 (S ''Call not found'')"

definition cannot :: "string \<Rightarrow> call_machine \<Rightarrow> http_error" where
  "cannot verb c = HTTPException 409
     (S ''Cannot '' @ S verb @ S '' '' @ [8212] @ S '' call is in '' @ call_state_value (cm_state c) @ S '' state'')"

fun hangup_legs :: "env \<Rightarrow> str \<Rightarrow> str \<Rightarrow> str list \<Rightarrow> 'p agent \<Rightarrow> 'p agent" where
  "hangup_legs en reason call_id [] ag = ag"
| "hangup_legs en reason call_id (ch # chs) ag =
     (let ag1 = emit (EffHangup ch reason) ag;
          ag2 = (case en_hangup en ch of
                   None \<Rightarrow> ag1
                 | Some e \<Rightarrow> agent_log (call_event en CALL_HANGUP call_id (S ''partial_hangup'')
                       [(S ''error'', JStr e), (S ''channel'', JStr ch)]) ag1)
      in hangup_legs en reason call_id chs ag2)"

section \<open>Registration of calls\<close>

definition call_incoming ::
    "env \<Rightarrow> str \<Rightarrow> str option \<Rightarrow> str option \<Rightarrow> 'p agent \<Rightarrow> (http_error + call_machine) \<times> 'p agent" where
  "call_incoming en phone name channel ag =
     (case create_incoming (en_now en) (en_uuid en) phone name (ac_dongle (en_cfg en)) channel (ag_reg ag) of
        (Inl _, reg) \<Rightarrow> (Inl (Unhandled (S ''InvalidTransition'')), ag\<lparr>ag_reg := reg\<rparr>)
      | (Inr c, reg) \<Rightarrow>
          (let (_, ag1) = on_reg (start_telegram_ring (en_now en) (cm_id c)) (ag\<lparr>ag_reg := reg\<rparr>);
               ag2 = agent_log (call_event en CALL_INCOMING (cm_id c) (S ''ok'')
                       [(S ''from'', JStr phone), (S ''gsm_channel'', jopt channel)]) ag1
           in (Inr (live c ag2), ag2)))"

fun busy_detail :: "str \<Rightarrow> str" where
  "busy_detail reason =
     (if reason = S ''offline'' then S ''Modem offline '' @ [8212] @ S '' check the device''
      else S ''Modem busy '' @ [8212] @ S '' another call in progress'')"

fun create_error :: "call_error \<Rightarrow> http_error" where
  "create_error (ModemBusyError reason) = HTTPException 503 (busy_detail reason)"
| "create_error (TransitionError _) = Unhandled (S ''InvalidTransition'')"
| "create_error (StrategyError e) = e"

text \<open>The ACL check of a request: without a user id, or with id 0, it passes.\<close>
definition call_allowed :: "env \<Rightarrow> int option \<Rightarrow> 'p agent \<Rightarrow> bool \<times> 'p agent" where
  "call_allowed en user ag =
     (if user_or_0 user = 0 then (True, ag)
      else case acl_check (en_acl_file en) (user_or_0 user) (S ''out_call'') (ag_acl ag) of
             (ok, acl) \<Rightarrow> (ok, ag\<lparr>ag_acl := acl\<rparr>))"

definition place_outgoing ::
    "env \<Rightarrow> int option \<Rightarrow> destination \<Rightarrow> 'p agent \<Rightarrow> (http_error + call_machine) \<times> 'p agent" where
  "place_outgoing en user dest ag =
     (case create_outgoing (en_now en) (en_uuid en) (d_number dest)
             (S ''user:'' @ int_text (user_or_0 user)) None (S ''gsm'') user (\<not> d_internal dest) (ag_reg ag) of
        (Inl e, reg) \<Rightarrow> (Inl (create_error e), ag\<lparr>ag_reg := reg\<rparr>)
      | (Inr c, reg) \<Rightarrow>
          (let (_, ag1) = on_reg (start_telegram_calling (en_now en) (cm_id c)) (ag\<lparr>ag_reg := reg\<rparr>);
               ag2 = agent_log ((call_event en CALL_OUTGOING (cm_id c) (S ''ok'')
                       [(S ''to'', JStr (d_number dest))])\<lparr>ae_user := user\<rparr>) ag1
           in (Inr (live c ag2), ag2)))"

definition request_event :: "env \<Rightarrow> event_type \<Rightarrow> int option \<Rightarrow> str \<Rightarrow> str \<Rightarrow> audit_entry" where
  "request_event en ev user outcome phone =
     (entry (en_now en) ev)\<lparr>ae_user := user, ae_outcome := outcome, ae_details := [(S ''to'', JStr phone)]\<rparr>"

definition call_outgoing ::
    "env \<Rightarrow> str \<Rightarrow> int option \<Rightarrow> 'p agent \<Rightarrow> (http_error + call_machine) \<times> 'p agent" where
  "call_outgoing en phone user ag =
     (let (ok, lim) = allow (en_mono en) (S ''call:'' @ int_text (user_or_0 user)) (ag_call_limiter ag);
          ag1 = ag\<lparr>ag_call_limiter := lim\<rparr>
      in if \<not> ok
         then (Inl (HTTPException 429 (S ''Rate limit exceeded: ''
                 @ int_text (ac_calls_per_minute (en_cfg en)) @ S '' calls per minute'')), ag1)
         else
           (let (allowed, ag2) = call_allowed en user ag1
            in if \<not> allowed
               then (Inl (HTTPException 403 (S ''Not authorized to place outgoing calls'')),
                     agent_log (request_event en CALL_ACL_CHECK user (S ''denied'') phone) ag2)
               else
                 (let ag3 = agent_log (request_event en CALL_ACL_CHECK user (S ''allowed'') phone) ag2
                  in case parse_destination (Some phone) of
                       None \<Rightarrow>
                         (Inl (HTTPException 400 (error_text NUMBER_MALFORMED_CALL)),
                          agent_log (request_event en CALL_REQUESTED user (S ''malformed'') phone) ag3)
                     | Some dest \<Rightarrow>
                         (let (blocked, bl) = bl_contains (ag_bl_file ag3) (d_number dest) (ag_blacklist ag3);
                              ag4 = ag3\<lparr>ag_blacklist := bl\<rparr>
                          in if blocked then (Inl (HTTPException 403 (error_text BLACKLISTED)), ag4)
                             else place_outgoing en user dest ag4))))"

definition pending_outgoing :: "'p agent \<Rightarrow> call_machine list" where
  "pending_outgoing ag =
     filter (\<lambda>c. cm_direction c = S ''outgoing'' \<and> cm_state c \<in> {MODEM_RESERVED, TELEGRAM_CALLING})
       (dvalues (cr_calls (ag_reg ag)))"

definition call_outgoing_accepted ::
    "env \<Rightarrow> str \<Rightarrow> 'p agent \<Rightarrow> (http_error + call_machine) \<times> 'p agent" where
  "call_outgoing_accepted en bridge_channel ag =
     (case pending_outgoing ag of
        [] \<Rightarrow> (Inl (HTTPException 404 (S ''No pending outgoing call'')), ag)
      | [c] \<Rightarrow>
          (let i = cm_id c;
               ag1 = (if cm_state c = MODEM_RESERVED
                      then snd (on_reg (start_telegram_calling (en_now en) i) ag) else ag);
               ag2 = (if bridge_channel \<noteq> [] then snd (on_reg (set_bridge_leg i bridge_channel) ag1) else ag1);
               (ok1, ag3) = on_reg (user_accepted (en_now en) i) ag2
           in if \<not> ok1 then (Inl (cannot ''accept'' (live c ag3)), ag3)
              else
                (let (ok2, ag4) = on_reg (dial_gsm (en_now en) i None) ag3
                 in if \<not> ok2 then (Inl (cannot ''dial GSM'' (live c ag4)), ag4)
                    else
                      (let ag5 = agent_log (user_event en CALL_ACCEPTED c (S ''ok'')
                                   [(S ''to'', JStr (cm_callee c)), (S ''direction'', JStr (S ''outgoing'')),
                                    (S ''bridge_channel'', JStr bridge_channel)]) ag4
                       in (Inr (live c ag5), ag5))))
      | cs \<Rightarrow> (Inl (HTTPException 409 (S ''Ambiguous: '' @ nat_text (length cs)
                   @ S '' pending outgoing calls'')), ag))"

section \<open>The outcome of a leg\<close>

definition complete_bridged ::
    "env \<Rightarrow> call_machine \<Rightarrow> str \<Rightarrow> str option \<Rightarrow> 'p agent \<Rightarrow> (http_error + unit) \<times> 'p agent" where
  "complete_bridged en c status dialstatus ag =
     (if status = S ''answered'' then (Inl (HTTPException 409 (S ''Call already bridged'')), ag)
      else
        (let i = cm_id c;
             ag1 = hangup_legs en (S ''BYE'') i (get_active_channel_ids c) ag;
             (_, ag2) = on_reg (hangup (en_now en) i
                          (Some (if status = S ''ended'' then S ''completed'' else status))) ag1;
             ag3 = agent_log (user_event en CALL_HANGUP c status
                     [(S ''direction'', JStr (cm_direction c)), (S ''dialstatus'', jopt dialstatus)]) ag2
         in (Inr (), agent_cleanup i ag3)))"

definition complete_incoming ::
    "env \<Rightarrow> call_machine \<Rightarrow> str \<Rightarrow> str option \<Rightarrow> 'p agent \<Rightarrow> (http_error + unit) \<times> 'p agent" where
  "complete_incoming en c status dialstatus ag =
     (let i = cm_id c
      in if status = S ''answered'' then
           (let (ok, ag1) = on_reg (fast_forward_bridged (en_now en) i) ag
            in if \<not> ok then (Inl (cannot ''bridge'' (live c ag1)), ag1)
               else (Inr (), agent_log (call_event en CALL_BRIDGED i (S ''ok'')
                       [(S ''gsm_channel'', jopt (cm_gsm_channel c)),
                        (S ''bridge_channel'', jopt (cm_bridge_channel c))]) ag1))
         else if status = S ''no_answer'' then
           (let (ok, ag1) = on_reg (fallback_to_voicemail (en_now en) i) ag
            in if \<not> ok then (Inl (cannot ''fall back to voicemail'' (live c ag1)), ag1)
               else (Inr (), agent_cleanup i (agent_log (call_event en CALL_TELEGRAM_TIMEOUT i
                       (S ''voicemail_fallback'') [(S ''from'', JStr (cm_caller c))]) ag1)))
         else if status = S ''busy'' then
           (let (ok, ag1) = on_reg (reject (en_now en) i (Some (S ''telegram_rejected''))) ag
            in if \<not> ok then (Inl (cannot ''reject'' (live c ag1)), ag1)
               else (Inr (), agent_cleanup i (agent_log (call_event en CALL_REJECTED i
                       (S ''telegram_rejected'') [(S ''from'', JStr (cm_caller c))]) ag1)))
         else
           (let reason = (if status = S ''cancelled'' then S ''caller_hangup''
                          else S ''bridge_'' @ (case dialstatus of None \<Rightarrow> S ''failed''
                                                | Some d \<Rightarrow> if d = [] then S ''failed'' else d));
                (ok, ag1) = on_reg (hangup (en_now en) i (Some reason)) ag
            in if \<not> ok then (Inl (cannot ''hangup'' (live c ag1)), ag1)
               else (Inr (), agent_cleanup i (agent_log (call_event en CALL_HANGUP i status
                       [(S ''from'', JStr (cm_caller c)), (S ''dialstatus'', jopt dialstatus)]) ag1))))"

text \<open>\<open>gsm_ringing(..) and gsm_connected(..) and bridge_call(..)\<close>\<close>
definition gsm_answered :: "int \<Rightarrow> str \<Rightarrow> 'p call_registry \<Rightarrow> bool \<times> 'p call_registry" where
  "gsm_answered now i reg =
     (case gsm_ringing now i reg of
        (False, reg1) \<Rightarrow> (False, reg1)
      | (True, reg1) \<Rightarrow> (case gsm_connected now i reg1 of
                           (False, reg2) \<Rightarrow> (False, reg2)
                         | (True, reg2) \<Rightarrow> bridge_call now i reg2))"

definition gsm_failed ::
    "int \<Rightarrow> str \<Rightarrow> str \<Rightarrow> str option \<Rightarrow> 'p call_registry \<Rightarrow> bool \<times> 'p call_registry" where
  "gsm_failed now i status dialstatus reg =
     (if status = S ''no_answer'' then gsm_no_answer now i reg
      else if status = S ''busy'' then gsm_busy now i reg
      else gsm_error now i (Some (case dialstatus of None \<Rightarrow> S ''network_error''
                                  | Some d \<Rightarrow> if d = [] then S ''network_error'' else d)) reg)"

definition complete_outgoing ::
    "env \<Rightarrow> call_machine \<Rightarrow> str \<Rightarrow> str option \<Rightarrow> 'p agent \<Rightarrow> (http_error + unit) \<times> 'p agent" where
  "complete_outgoing en c status dialstatus ag =
     (let i = cm_id c; notify = (\<lambda>st. emit (EffNotifyCall (cm_callee c) (cm_tg_user c) st i))
      in if status = S ''answered'' then
           (let (ok, ag1) = on_reg (gsm_answered (en_now en) i) ag
            in if \<not> ok then (Inl (cannot ''bridge'' (live c ag1)), ag1)
               else (Inr (), notify (S ''answered'') (agent_log (user_event en CALL_BRIDGED c (S ''ok'')
                       [(S ''to'', JStr (cm_callee c))]) ag1)))
         else if status \<in> {S ''no_answer'', S ''busy'', S ''failed''} then
           (let (ok, ag1) = on_reg (gsm_failed (en_now en) i status dialstatus) ag
            in if \<not> ok
               then (Inl (HTTPException 409 (S ''Cannot record '' @ status @ S '' '' @ [8212] @ S '' call is in ''
                       @ call_state_value (cm_state (live c ag1)) @ S '' state'')), ag1)
               else (Inr (), agent_cleanup i (notify status (agent_log (user_event en CALL_HANGUP c status
                       [(S ''to'', JStr (cm_callee c)), (S ''dialstatus'', jopt dialstatus)]) ag1))))
         else
           (let ag1 = hangup_legs en (S ''BYE'') i (get_active_channel_ids c) ag;
                (ok, ag2) = on_reg (hangup (en_now en) i (Some (S ''telegram_hangup''))) ag1
            in if \<not> ok then (Inl (cannot ''hangup'' (live c ag2)), ag2)
               else (Inr (), agent_cleanup i (agent_log (user_event en CALL_HANGUP c status
                       [(S ''to'', JStr (cm_callee c))]) ag2))))"

definition call_complete ::
    "env \<Rightarrow> str \<Rightarrow> str \<Rightarrow> str option \<Rightarrow> 'p agent \<Rightarrow> (http_error + unit) \<times> 'p agent" where
  "call_complete en call_id status dialstatus ag =
     (case get_call call_id (ag_reg ag) of
        None \<Rightarrow> (Inl (HTTPException 404 (S ''Call not found or already closed'')), ag)
      | Some c \<Rightarrow>
          if is_terminal c then (Inl (HTTPException 404 (S ''Call not found or already closed'')), ag)
          else if cm_state c = BRIDGED then complete_bridged en c status dialstatus ag
          else if cm_direction c = S ''incoming'' then complete_incoming en c status dialstatus ag
          else complete_outgoing en c status dialstatus ag)"

section \<open>Single steps of a call\<close>

text \<open>A route that looks the call up, makes one transition, and logs it.\<close>
definition simple_route ::
    "string \<Rightarrow> str \<Rightarrow> (str \<Rightarrow> 'p call_registry \<Rightarrow> bool \<times> 'p call_registry)
     \<Rightarrow> (call_machine \<Rightarrow> audit_entry) \<Rightarrow> 'p agent \<Rightarrow> (http_error + call_machine) \<times> 'p agent" where
  "simple_route verb call_id op ev ag =
     (case get_call call_id (ag_reg ag) of
        None \<Rightarrow> (Inl call_not_found, ag)
      | Some c \<Rightarrow>
          (case on_reg (op call_id) ag of
             (False, ag1) \<Rightarrow> (Inl (cannot verb (live c ag1)), ag1)
           | (True, ag1) \<Rightarrow> (let ag2 = agent_log (ev c) ag1 in (Inr (live c ag2), ag2))))"

definition call_accept :: "env \<Rightarrow> str \<Rightarrow> 'p agent \<Rightarrow> (http_error + call_machine) \<times> 'p agent" where
  "call_accept en call_id =
     simple_route ''accept'' call_id (accept_incoming (en_now en))
       (\<lambda>c. call_event en CALL_ACCEPTED call_id (S ''ok'')
          [(S ''from'', JStr (cm_caller c)), (S ''direction'', JStr (cm_direction c))])"

text \<open>\<open>ami.answer_channel\<close> always raises \<open>NotImplementedError\<close>: AMI cannot answer a channel.\<close>
definition answer_unsupported :: "str \<Rightarrow> str" where
  "answer_unsupported channel =
     S ''AMI cannot answer a channel (no AMI action, no CLI verb); the dialplan Dial() answers ''
     @ channel @ S '' when the bridge endpoint connects '' @ [8212] @ S '' ARI is required for AMI-side answer''"

definition call_answer_gsm :: "env \<Rightarrow> str \<Rightarrow> 'p agent \<Rightarrow> (http_error + call_machine) \<times> 'p agent" where
  "call_answer_gsm en call_id ag =
     (case get_call call_id (ag_reg ag) of
        None \<Rightarrow> (Inl call_not_found, ag)
      | Some c \<Rightarrow>
          (case nonempty_opt (cm_gsm_channel c) of
             ch # _ \<Rightarrow>
               (Inl (HTTPException 500 (S ''Failed to answer GSM channel: '' @ answer_unsupported ch)),
                agent_log (call_event en CALL_GSM_ANSWERED call_id (S ''error'')
                  [(S ''error'', JStr (answer_unsupported ch))]) ag)
           | [] \<Rightarrow>
               simple_route ''answer GSM'' call_id
                 (\<lambda>i. answer_gsm (en_now en) i (cm_gsm_channel c))
                 (\<lambda>c. call_event en CALL_GSM_ANSWERED call_id (S ''ok'') []) ag))"

definition call_bridge :: "env \<Rightarrow> str \<Rightarrow> 'p agent \<Rightarrow> (http_error + call_machine) \<times> 'p agent" where
  "call_bridge en call_id =
     simple_route ''bridge'' call_id (bridge_call (en_now en))
       (\<lambda>c. call_event en CALL_BRIDGED call_id (S ''ok'')
          [(S ''gsm_channel'', jopt (cm_gsm_channel c)), (S ''bridge_channel'', jopt (cm_bridge_channel c))])"

definition call_telegram_ring :: "env \<Rightarrow> str \<Rightarrow> 'p agent \<Rightarrow> (http_error + call_machine) \<times> 'p agent" where
  "call_telegram_ring en call_id =
     simple_route ''start telegram ring'' call_id (start_telegram_ring (en_now en))
       (\<lambda>c. call_event en CALL_TELEGRAM_RING call_id (S ''ok'') [(S ''from'', JStr (cm_caller c))])"

definition call_set_bridge_leg :: "str \<Rightarrow> str \<Rightarrow> 'p agent \<Rightarrow> (http_error + unit) \<times> 'p agent" where
  "call_set_bridge_leg call_id channel ag =
     (case on_reg (set_bridge_leg call_id channel) ag of
        (False, ag1) \<Rightarrow> (Inl call_not_found, ag1)
      | (True, ag1) \<Rightarrow> (Inr (), ag1))"

definition call_set_gsm_channel :: "str \<Rightarrow> str \<Rightarrow> 'p agent \<Rightarrow> (http_error + unit) \<times> 'p agent" where
  "call_set_gsm_channel call_id channel ag =
     (case on_reg (annotate call_id (NoteGsmChannel channel)) ag of
        (False, ag1) \<Rightarrow> (Inl call_not_found, ag1)
      | (True, ag1) \<Rightarrow> (Inr (), ag1))"

definition call_reject :: "env \<Rightarrow> str \<Rightarrow> 'p agent \<Rightarrow> (http_error + call_machine) \<times> 'p agent" where
  "call_reject en call_id ag =
     (case simple_route ''reject'' call_id (\<lambda>i. reject (en_now en) i (Some (S ''user_rejected'')))
             (\<lambda>c. call_event en CALL_REJECTED call_id (S ''user_rejected'') [(S ''from'', JStr (cm_caller c))]) ag of
        (Inl e, ag1) \<Rightarrow> (Inl e, ag1)
      | (Inr c, ag1) \<Rightarrow> (Inr c, agent_cleanup call_id ag1))"

definition call_hangup :: "env \<Rightarrow> str \<Rightarrow> 'p agent \<Rightarrow> (http_error + call_machine) \<times> 'p agent" where
  "call_hangup en call_id ag =
     (case get_call call_id (ag_reg ag) of
        None \<Rightarrow> (Inl call_not_found, ag)
      | Some c \<Rightarrow>
          (let channels = get_active_channel_ids c
           in case simple_route ''hangup'' call_id (\<lambda>i. hangup (en_now en) i None)
                     (\<lambda>_. call_event en CALL_HANGUP call_id (S ''ok'')
                        [(S ''channels_terminated'', JInt (int (length channels)))])
                     (hangup_legs en (S ''BYE'') call_id channels ag) of
                (Inl e, ag1) \<Rightarrow> (Inl e, ag1)
              | (Inr c', ag1) \<Rightarrow> (Inr c', agent_cleanup call_id ag1)))"

section \<open>The timeout driver\<close>

text \<open>One timed-out call: what is done with it, and the action of the response.\<close>
definition expire_call :: "env \<Rightarrow> call_machine \<Rightarrow> 'p agent \<Rightarrow> (str \<times> str) list \<times> 'p agent" where
  "expire_call en c ag =
     (let i = cm_id c
      in if cm_state c \<in> {RINGING, TELEGRAM_RINGING} then
           (let (_, ag1) = on_reg (fallback_to_voicemail (en_now en) i) ag;
                ag2 = agent_log (call_event en CALL_TELEGRAM_TIMEOUT i (S ''voicemail_fallback'')
                        [(S ''from'', JStr (cm_caller c))]) ag1
            in ([(i, S ''voicemail'')], agent_cleanup i ag2))
         else if cm_state c \<in> {MODEM_RESERVED, TELEGRAM_CALLING} then
           (let (_, ag1) = on_reg (telegram_timeout (en_now en) i) ag;
                ag2 = agent_log (user_event en CALL_TELEGRAM_TIMEOUT c (S ''no_answer'')
                        [(S ''to'', JStr (cm_callee c))]) ag1;
                ag3 = emit (EffNotifyCall (cm_callee c) (cm_tg_user c) (S ''no_answer'') i) ag2
            in ([(i, S ''telegram_timeout'')], agent_cleanup i ag3))
         else if cm_state c = BRIDGED then
           (let ag1 = hangup_legs en (S ''max_duration'') i (get_active_channel_ids c) ag;
                (_, ag2) = on_reg (hangup (en_now en) i (Some (S ''max_duration_exceeded''))) ag1;
                ag3 = agent_log (user_event en CALL_DURATION_EXPIRED c (S ''max_duration'') []) ag2
            in ([(i, S ''hangup_duration'')], agent_cleanup i ag3))
         else ([], ag))"

fun expire_calls :: "env \<Rightarrow> call_machine list \<Rightarrow> 'p agent \<Rightarrow> (str \<times> str) list \<times> 'p agent" where
  "expire_calls en [] ag = ([], ag)"
| "expire_calls en (c # cs) ag =
     (case expire_call en c ag of
        (a, ag1) \<Rightarrow> (case expire_calls en cs ag1 of (b, ag2) \<Rightarrow> (a @ b, ag2)))"

definition call_check_timeouts :: "env \<Rightarrow> 'p agent \<Rightarrow> (str \<times> str) list \<times> 'p agent" where
  "call_check_timeouts en ag =
     expire_calls en (get_timed_out_calls (en_now en) (ac_ring_wait (en_cfg en)) (ac_max_call (en_cfg en))
       (ac_tg_ring (en_cfg en)) (ag_reg ag)) ag"

section \<open>Queries\<close>

definition call_state_route :: "str \<Rightarrow> 'p agent \<Rightarrow> http_error + call_machine" where
  "call_state_route call_id ag =
     (case get_call call_id (ag_reg ag) of None \<Rightarrow> Inl call_not_found | Some c \<Rightarrow> Inr c)"

definition list_calls_route :: "'p agent \<Rightarrow> json list" where
  "list_calls_route ag = map call_to_dict (list_active (ag_reg ag))"

end
