(* ===== verification/CallRouteProps.thy ===== *)
theory CallRouteProps
  imports CallRoutes
begin

text \<open>
  The properties of the call routes. \<open>serve\<close> is the dispatch of one request; every request is a
  sequence of registry steps, so the invariant of \<open>CallSafety\<close> holds after any run of requests.
  \<open>only_call\<close> says that an operation touches one call at most; from it follow the exact effects
  of the timeout driver and of the completion reports.
\<close>

section \<open>Requests as registry steps\<close>

abbreviation agent_reach ::
    "'p provider_ops \<Rightarrow> ('p \<Rightarrow> bool) \<Rightarrow> 'p agent \<Rightarrow> 'p agent \<Rightarrow> bool" where
  "agent_reach ops valid ag ag' \<equiv> reg_reachable ops valid (ag_reg ag) (ag_reg ag')"

lemma reach_refl [simp]: "agent_reach ops valid ag ag"
  by (rule reg_reachable.start)

lemma reach_trans: "agent_reach ops valid a b \<Longrightarrow> agent_reach ops valid b c \<Longrightarrow> agent_reach ops valid a c"
  using reg_reachable_trans by blast

lemma reach_others: "agent_reach ops valid ag (ag\<lparr>ag_reg := (ag_reg ag)\<lparr>cr_audit := a, cr_metrics := m\<rparr>\<rparr>)"
  by (simp add: step_reachable reg_step.others)

lemma reach_log: "agent_reach ops valid ag (agent_log e ag)"
  using reach_others [of ops valid ag "cr_metrics (ag_reg ag)" "audit_append e (cr_audit (ag_reg ag))"]
  by (simp add: agent_log_def)

lemma reach_metrics: "agent_reach ops valid ag (agent_metrics f ag)"
  using reach_others [of ops valid ag "map_option f (cr_metrics (ag_reg ag))" "cr_audit (ag_reg ag)"]
  by (simp add: agent_metrics_def)

lemma reach_cleanup: "agent_reach ops valid ag (agent_cleanup i ag)"
  by (simp add: agent_cleanup_def step_reachable reg_step.clean)

lemma reach_on_reg:
  "reg_reachable ops valid (ag_reg ag) (snd (f (ag_reg ag))) \<Longrightarrow> agent_reach ops valid ag (snd (on_reg f ag))"
  by (simp add: on_reg_def case_prod_unfold)

lemma gsm_answered_reachable: "reg_reachable ops valid reg (snd (gsm_answered now i reg))"
proof -
  obtain b1 r1 where t1: "reg_transition now i GSM_RINGING reg = (b1, r1)" by fastforce
  obtain b2 r2 where t2: "reg_transition now i CONNECTED r1 = (b2, r2)" by fastforce
  have 1: "reg_reachable ops valid reg r1"
    using reg_transition_reachable [of ops valid reg now i GSM_RINGING] t1 by simp
  have "reg_reachable ops valid r1 r2"
    using reg_transition_reachable [of ops valid r1 now i CONNECTED] t2 by simp
  then have 2: "reg_reachable ops valid reg r2" using 1 reg_reachable_trans by blast
  have 3: "reg_reachable ops valid reg (snd (reg_transition now i BRIDGED r2))"
    using reg_reachable_trans [OF reg_transition_reachable 2] .
  show ?thesis
    using 1 2 3 t1 t2
    by (simp add: gsm_answered_def gsm_ringing_def gsm_connected_def bridge_call_def split: bool.split)
qed

lemma reach_ops:
  "agent_reach ops valid ag (snd (on_reg (start_telegram_ring now i) ag))"
  "agent_reach ops valid ag (snd (on_reg (start_telegram_calling now i) ag))"
  "agent_reach ops valid ag (snd (on_reg (set_bridge_leg i ch) ag))"
  "agent_reach ops valid ag (snd (on_reg (annotate i n) ag))"
  "agent_reach ops valid ag (snd (on_reg (user_accepted now i) ag))"
  "agent_reach ops valid ag (snd (on_reg (dial_gsm now i opt) ag))"
  "agent_reach ops valid ag (snd (on_reg (hangup now i opt) ag))"
  "agent_reach ops valid ag (snd (on_reg (reject now i opt) ag))"
  "agent_reach ops valid ag (snd (on_reg (fast_forward_bridged now i) ag))"
  "agent_reach ops valid ag (snd (on_reg (fallback_to_voicemail now i) ag))"
  "agent_reach ops valid ag (snd (on_reg (telegram_timeout now i) ag))"
  "agent_reach ops valid ag (snd (on_reg (accept_incoming now i) ag))"
  "agent_reach ops valid ag (snd (on_reg (answer_gsm now i opt) ag))"
  "agent_reach ops valid ag (snd (on_reg (bridge_call now i) ag))"
  "agent_reach ops valid ag (snd (on_reg (gsm_answered now i) ag))"
  "agent_reach ops valid ag (snd (on_reg (gsm_failed now i status ds) ag))"
  by (rule reach_on_reg;
      simp add: orchestration_defs gsm_failed_def gsm_answered_reachable reg_transition_reachable
        annotate_reachable transition_note_reachable ff_run_reachable)+

lemmas reach_intros =
  reach_trans [OF _ reach_log] reach_trans [OF _ reach_metrics] reach_trans [OF _ reach_cleanup]
  reach_ops [THEN reach_trans [rotated]]

lemma reach_legs: "agent_reach ops valid ag (hangup_legs en reason i chs ag)"
proof (induction en reason i chs ag rule: hangup_legs.induct)
  case (1 en reason i ag)
  then show ?case by simp
next
  case (2 en reason i ch chs ag)
  define ag2 where "ag2 = (case en_hangup en ch of None \<Rightarrow> emit (EffHangup ch reason) ag
     | Some e \<Rightarrow> agent_log (call_event en CALL_HANGUP i (S ''partial_hangup'')
                       [(S ''error'', JStr e), (S ''channel'', JStr ch)]) (emit (EffHangup ch reason) ag))"
  have "agent_reach ops valid ag ag2"
    by (cases "en_hangup en ch") (auto simp: ag2_def intro: reach_intros)
  with 2 [OF refl ag2_def] show ?case
    by (simp add: Let_def ag2_def [symmetric]) (rule reach_trans)
qed

lemmas reach_rules = reach_intros reach_trans [OF _ reach_legs]

section \<open>Every route keeps to the registry's steps\<close>

lemma simple_route_reach:
  assumes "\<And>ag. agent_reach ops valid ag (snd (on_reg (op i) ag))"
  shows "agent_reach ops valid ag (snd (simple_route verb i op ev ag))"
  using assms [of ag]
  by (auto simp: simple_route_def Let_def split: option.split prod.split bool.split intro!: reach_intros)

lemma call_incoming_reach:
  assumes "dget (cr_calls (ag_reg ag)) (en_uuid en) = None"
  shows "agent_reach ops valid ag (snd (call_incoming en phone name ch ag))"
proof -
  obtain r reg where c: "create_incoming (en_now en) (en_uuid en) phone name (ac_dongle (en_cfg en)) ch (ag_reg ag) = (r, reg)"
    by fastforce
  have "agent_reach ops valid ag (ag\<lparr>ag_reg := reg\<rparr>)"
    using reg_step.incoming [OF assms c] by (simp add: step_reachable)
  with c show ?thesis
    by (auto simp: call_incoming_def Let_def case_prod_unfold split: sum.split intro!: reach_rules)
qed

lemma call_allowed_reg [simp]: "ag_reg (snd (call_allowed en user ag)) = ag_reg ag"
  by (simp add: call_allowed_def case_prod_unfold)

lemma place_outgoing_reach:
  assumes "dget (cr_calls (ag_reg ag)) (en_uuid en) = None"
  shows "agent_reach ops valid ag (snd (place_outgoing en user dest ag))"
proof -
  obtain r reg where c: "create_outgoing (en_now en) (en_uuid en) (d_number dest)
      (S ''user:'' @ int_text (user_or_0 user)) None (S ''gsm'') user (\<not> d_internal dest) (ag_reg ag) = (r, reg)"
    by fastforce
  have "agent_reach ops valid ag (ag\<lparr>ag_reg := reg\<rparr>)"
    using reg_step.outgoing [OF assms _ c] by (simp add: step_reachable)
  with c show ?thesis
    by (auto simp: place_outgoing_def Let_def case_prod_unfold split: sum.split intro!: reach_rules)
qed

lemma call_outgoing_reach:
  assumes "dget (cr_calls (ag_reg ag)) (en_uuid en) = None"
  shows "agent_reach ops valid ag (snd (call_outgoing en phone user ag))"
proof -
  let ?ag2 = "snd (call_allowed en user (ag\<lparr>ag_call_limiter :=
     snd (allow (en_mono en) (S ''call:'' @ int_text (user_or_0 user)) (ag_call_limiter ag))\<rparr>))"
  have reg: "ag_reg ?ag2 = ag_reg ag" by simp
  define ag3 where "ag3 = agent_log (request_event en CALL_ACL_CHECK user (S ''allowed'') phone) ?ag2"
  have r3: "agent_reach ops valid ag ag3"
    using reach_log [of ops valid ?ag2] reg by (simp add: ag3_def)
  have r2: "agent_reach ops valid ag (agent_log e ?ag2)" for e
    using reach_log [of ops valid ?ag2] reg by simp
  have "agent_reach ops valid ag (snd (place_outgoing en user d (ag3\<lparr>ag_blacklist := bl\<rparr>)))" for d bl
    using reach_trans [OF r3, of "snd (place_outgoing en user d (ag3\<lparr>ag_blacklist := bl\<rparr>))"]
      place_outgoing_reach [of "ag3\<lparr>ag_blacklist := bl\<rparr>" en ops valid user d] assms reg
    by (simp add: ag3_def)
  then show ?thesis
    using r2 r3
    by (auto simp: call_outgoing_def Let_def case_prod_unfold ag3_def [symmetric] split: option.split
        intro!: reach_rules)
qed

text \<open>The acceptance of one pending call.\<close>
lemma accepted_one:
  assumes "pending_outgoing ag = [c]"
  shows "agent_reach ops valid ag (snd (call_outgoing_accepted en ch ag))"
proof -
  define ag1 where "ag1 = (if cm_state c = MODEM_RESERVED
      then snd (on_reg (start_telegram_calling (en_now en) (cm_id c)) ag) else ag)"
  define ag2 where "ag2 = (if ch \<noteq> [] then snd (on_reg (set_bridge_leg (cm_id c) ch) ag1) else ag1)"
  have "agent_reach ops valid ag ag1" by (auto simp: ag1_def intro: reach_rules)
  then have "agent_reach ops valid ag ag2" by (auto simp: ag2_def intro: reach_rules)
  then have 3: "agent_reach ops valid ag (snd (on_reg (user_accepted (en_now en) (cm_id c)) ag2))"
    by (rule reach_rules)
  then have 4: "agent_reach ops valid ag
      (snd (on_reg (dial_gsm (en_now en) (cm_id c) None) (snd (on_reg (user_accepted (en_now en) (cm_id c)) ag2))))"
    by (rule reach_rules)
  show ?thesis
    unfolding call_outgoing_accepted_def assms list.case Let_def ag1_def [symmetric]
      ag2_def [symmetric] case_prod_unfold
    using 3 4 by (auto intro: reach_rules)
qed

lemma call_outgoing_accepted_reach: "agent_reach ops valid ag (snd (call_outgoing_accepted en ch ag))"
proof (cases "pending_outgoing ag")
  case Nil
  then show ?thesis by (simp add: call_outgoing_accepted_def)
next
  case (Cons c cs)
  then show ?thesis
    by (cases cs) (simp_all add: accepted_one, simp add: call_outgoing_accepted_def)
qed

lemma complete_reach:
  "agent_reach ops valid ag (snd (complete_bridged en c status ds ag))"
  "agent_reach ops valid ag (snd (complete_incoming en c status ds ag))"
  "agent_reach ops valid ag (snd (complete_outgoing en c status ds ag))"
  unfolding complete_bridged_def complete_incoming_def complete_outgoing_def Let_def case_prod_unfold
  by (simp_all del: S_eq_iff split: if_split, auto intro!: reach_rules)

lemma call_complete_reach: "agent_reach ops valid ag (snd (call_complete en i status ds ag))"
  by (simp add: call_complete_def complete_reach split: option.split)

lemma small_routes_reach:
  "agent_reach ops valid ag (snd (call_accept en i ag))"
  "agent_reach ops valid ag (snd (call_bridge en i ag))"
  "agent_reach ops valid ag (snd (call_telegram_ring en i ag))"
  unfolding call_accept_def call_bridge_def call_telegram_ring_def
  by (rule simple_route_reach, rule reach_ops)+

lemma leg_routes_reach:
  "agent_reach ops valid ag (snd (call_set_bridge_leg i ch ag))"
  "agent_reach ops valid ag (snd (call_set_gsm_channel i ch ag))"
  using reach_ops(3,4) [of ops valid ag i] 
  by (auto simp: call_set_bridge_leg_def call_set_gsm_channel_def case_prod_unfold split: bool.split)

lemma call_answer_gsm_reach: "agent_reach ops valid ag (snd (call_answer_gsm en i ag))"
  unfolding call_answer_gsm_def
  by (auto split: option.split list.split intro: reach_rules intro!: simple_route_reach reach_ops)

lemma closing_routes_reach:
  "agent_reach ops valid ag (snd (call_reject en i ag))"
  "agent_reach ops valid ag (snd (call_hangup en i ag))"
proof -
  have r: "agent_reach ops valid a (snd (simple_route v i (\<lambda>i. reject (en_now en) i opt) ev a))"
    "agent_reach ops valid a (snd (simple_route v i (\<lambda>i. hangup (en_now en) i opt) ev a))" for v opt ev a
    by (rule simple_route_reach, rule reach_ops)+
  show "agent_reach ops valid ag (snd (call_reject en i ag))"
    using r(1) [of ag]
    by (auto simp: call_reject_def case_prod_unfold split: sum.split intro!: reach_trans [OF _ reach_cleanup])
  show "agent_reach ops valid ag (snd (call_hangup en i ag))"
    using reach_trans [OF reach_legs r(2)]
    by (auto simp: call_hangup_def Let_def case_prod_unfold split: option.split sum.split
        intro!: reach_trans [OF _ reach_cleanup])
qed

lemma expire_call_reach: "agent_reach ops valid ag (snd (expire_call en c ag))"
  by (auto simp: expire_call_def Let_def case_prod_unfold intro!: reach_rules)

lemma expire_calls_reach: "agent_reach ops valid ag (snd (expire_calls en cs ag))"
proof (induction en cs ag rule: expire_calls.induct)
  case (1 en ag)
  then show ?case by simp
next
  case (2 en c cs ag)
  obtain a ag1 where e: "expire_call en c ag = (a, ag1)" by fastforce
  then have "agent_reach ops valid ag ag1" using expire_call_reach [of ops valid ag en c] by simp
  moreover have "agent_reach ops valid ag1 (snd (expire_calls en cs ag1))"
    using 2 [OF e [symmetric]] .
  ultimately show ?case using e by (simp add: case_prod_unfold) (rule reach_trans)
qed

section \<open>The dispatch\<close>

datatype route =
    RIncoming str "str option" "str option"
  | ROutgoing str "int option"
  | RAccepted str
  | RComplete str str "str option"
  | RAccept str
  | RAnswerGsm str
  | RBridge str
  | RTelegramRing str
  | RSetBridgeLeg str str
  | RSetGsmChannel str str
  | RReject str
  | RHangup str
  | RCheckTimeouts
  | RSms sms_request
  | RBlock str
  | RUnblock str
  | RDelivered str
  | RFailed str
  | RReport report_request

fun serve :: "env \<Rightarrow> route \<Rightarrow> 'p agent \<Rightarrow> 'p agent" where
  "serve en (RIncoming phone name ch) ag = snd (call_incoming en phone name ch ag)"
| "serve en (ROutgoing phone user) ag = snd (call_outgoing en phone user ag)"
| "serve en (RAccepted ch) ag = snd (call_outgoing_accepted en ch ag)"
| "serve en (RComplete i status ds) ag = snd (call_complete en i status ds ag)"
| "serve en (RAccept i) ag = snd (call_accept en i ag)"
| "serve en (RAnswerGsm i) ag = snd (call_answer_gsm en i ag)"
| "serve en (RBridge i) ag = snd (call_bridge en i ag)"
| "serve en (RTelegramRing i) ag = snd (call_telegram_ring en i ag)"
| "serve en (RSetBridgeLeg i ch) ag = snd (call_set_bridge_leg i ch ag)"
| "serve en (RSetGsmChannel i ch) ag = snd (call_set_gsm_channel i ch ag)"
| "serve en (RReject i) ag = snd (call_reject en i ag)"
| "serve en (RHangup i) ag = snd (call_hangup en i ag)"
| "serve en RCheckTimeouts ag = snd (call_check_timeouts en ag)"
| "serve en (RSms rq) ag = snd (send_sms en rq ag)"
| "serve en (RBlock n) ag = snd (block_number en n ag)"
| "serve en (RUnblock n) ag = snd (unblock_number en n ag)"
| "serve en (RDelivered i) ag = snd (report_sms_delivered en i ag)"
| "serve en (RFailed i) ag = snd (report_sms_failed en i ag)"
| "serve en (RReport rq) ag = snd (sms_delivery_report en rq ag)"

lemma sms_submit_reach: "agent_reach ops valid ag (snd (sms_submit en rq cid number ag))"
  by (auto simp: sms_submit_def sms_submit_failed_def Let_def case_prod_unfold split: ami_send.split
      intro!: reach_rules)

lemma send_sms_reach: "agent_reach ops valid ag (snd (send_sms en rq ag))"
proof (cases "sms_admitted en rq ag")
  case None
  then show ?thesis
    by (auto simp: sms_admitted_def send_sms_def Let_def case_prod_unfold split: option.splits if_splits
        intro!: reach_rules)
next
  case (Some number)
  show ?thesis
    unfolding sms_admitted_submit [OF Some] by (rule reach_trans [OF _ sms_submit_reach]) simp
qed

lemma announce_reach: "agent_reach ops valid ag (announce_delivery en r status err from ag)"
  by (auto simp: announce_delivery_def Let_def intro!: reach_rules)

lemma report_reach:
  "agent_reach ops valid ag (snd (report_sms_delivered en i ag))"
  "agent_reach ops valid ag (snd (report_sms_failed en i ag))"
  "agent_reach ops valid ag (snd (sms_delivery_report en rp ag))"
  by (auto simp: report_sms_delivered_def report_sms_failed_def sms_delivery_report_def Let_def
      split: option.split prod.split bool.split intro!: reach_trans [OF _ announce_reach] reach_rules)

lemma blacklist_reach:
  "agent_reach ops valid ag (snd (block_number en n ag))"
  "agent_reach ops valid ag (snd (unblock_number en n ag))"
  by (auto simp: block_number_def unblock_number_def split: prod.split sum.split intro!: reach_rules)

text \<open>Every request is a sequence of registry steps; a new call needs a fresh id.\<close>
lemma serve_reach:
  assumes "dget (cr_calls (ag_reg ag)) (en_uuid en) = None"
  shows "agent_reach ops valid ag (serve en rt ag)"
  using assms
  by (cases rt) (simp_all add: call_incoming_reach call_outgoing_reach call_outgoing_accepted_reach
      call_complete_reach small_routes_reach call_answer_gsm_reach leg_routes_reach closing_routes_reach
      call_check_timeouts_def expire_calls_reach send_sms_reach blacklist_reach report_reach)

text \<open>A run: the requests with what each of them meets, and the device reports in between.\<close>
datatype 'p input =
    Request env route
  | Device 'p

fun react :: "'p input \<Rightarrow> 'p agent \<Rightarrow> 'p agent" where
  "react (Request en rt) ag = serve en rt ag"
| "react (Device p) ag =
     ag\<lparr>ag_reg := (ag_reg ag)\<lparr>cr_pool := map_option (\<lambda>pool. pool\<lparr>mp_provider := p\<rparr>) (cr_pool (ag_reg ag))\<rparr>\<rparr>"

fun input_ok :: "'p provider_ops \<Rightarrow> ('p \<Rightarrow> bool) \<Rightarrow> 'p input \<Rightarrow> 'p agent \<Rightarrow> bool" where
  "input_ok ops valid (Request en rt) ag = (dget (cr_calls (ag_reg ag)) (en_uuid en) = None)"
| "input_ok ops valid (Device p) ag = (valid p \<and> named_modems ops p)"

fun inputs_ok :: "'p provider_ops \<Rightarrow> ('p \<Rightarrow> bool) \<Rightarrow> 'p input list \<Rightarrow> 'p agent \<Rightarrow> bool" where
  "inputs_ok ops valid [] ag = True"
| "inputs_ok ops valid (x # xs) ag = (input_ok ops valid x ag \<and> inputs_ok ops valid xs (react x ag))"

fun run :: "'p input list \<Rightarrow> 'p agent \<Rightarrow> 'p agent" where
  "run [] ag = ag"
| "run (x # xs) ag = run xs (react x ag)"

lemma react_reach: "input_ok ops valid x ag \<Longrightarrow> agent_reach ops valid ag (react x ag)"
proof (cases x)
  case (Request en rt)
  then show "input_ok ops valid x ag \<Longrightarrow> ?thesis" by (simp add: serve_reach)
next
  case (Device p)
  then show "input_ok ops valid x ag \<Longrightarrow> ?thesis"
    by (cases "cr_pool (ag_reg ag)")
      (simp_all add: step_reachable reg_step.device, metis call_registry.surjective call_registry.update_convs(3) reg_reachable.start)
qed

lemma run_reach: "inputs_ok ops valid xs ag \<Longrightarrow> agent_reach ops valid ag (run xs ag)"
  by (induction xs arbitrary: ag) (auto intro: reach_trans react_reach)

section \<open>One call at a time\<close>

text \<open>Only call \<open>i\<close> differs, its owner data does not, and the pool is the same.\<close>
definition only_call :: "str \<Rightarrow> 'p call_registry \<Rightarrow> 'p call_registry \<Rightarrow> bool" where
  "only_call i reg reg' \<longleftrightarrow>
     keyed_by cm_id (cr_calls reg') \<and> dpop i (cr_calls reg') = dpop i (cr_calls reg)
     \<and> cr_pool reg' = cr_pool reg \<and> cr_modems_reserved reg' = cr_modems_reserved reg
     \<and> (case get_call i reg of None \<Rightarrow> get_call i reg' = None
         | Some c \<Rightarrow> (\<exists>c'. get_call i reg' = Some c' \<and> same_owner c c'))"

lemma only_call_refl: "keyed_by cm_id (cr_calls reg) \<Longrightarrow> only_call i reg reg"
  by (simp add: only_call_def same_owner_def split: option.split)

lemma only_call_trans: "only_call i a b \<Longrightarrow> only_call i b c \<Longrightarrow> only_call i a c"
  by (auto simp: only_call_def same_owner_def split: option.splits)

lemma dpop_dput: "dpop k (dput k v d) = dpop k d"
  by (induction d) auto

lemma only_call_transition:
  assumes k: "keyed_by cm_id (cr_calls reg)"
  shows "only_call i reg (snd (reg_transition now i s reg))"
proof (cases rule: reg_transition_cases [of now i s reg])
  case refused
  with k show ?thesis by (simp add: only_call_refl)
next
  case (moved c c')
  then have "cm_id c' = i" using k keyed_by_key [OF k] by (simp add: same_owner_def)
  with moved k show ?thesis
    by (simp add: only_call_def keyed_by_dput dpop_dput get_call_def)
qed

lemma only_call_annotate:
  assumes k: "keyed_by cm_id (cr_calls reg)"
  shows "only_call i reg (snd (annotate i n reg))"
proof (cases "dget (cr_calls reg) i")
  case None
  with k show ?thesis by (simp add: annotate_def only_call_refl)
next
  case (Some c)
  then show ?thesis
    using keyed_annotate [OF k, of i n] apply_note_same(1) [of c n]
    by (simp add: annotate_def only_call_def dpop_dput get_call_def)
qed

lemma only_call_keyed: "only_call i a b \<Longrightarrow> keyed_by cm_id (cr_calls b)"
  by (simp add: only_call_def)

lemma only_call_note:
  assumes k: "keyed_by cm_id (cr_calls reg)"
  shows "only_call i reg (snd (transition_note now i s mk arg reg))"
proof -
  obtain b reg1 where t: "reg_transition now i s reg = (b, reg1)" by fastforce
  have 1: "only_call i reg reg1" using only_call_transition [OF k, of i now s] t by simp
  have "only_call i reg (snd (annotate i n reg1))" for n
    using only_call_trans [OF 1 only_call_annotate [OF only_call_keyed [OF 1]]] .
  with 1 t show ?thesis by (simp add: transition_note_def split: bool.split option.split)
qed

definition only_agent :: "str \<Rightarrow> 'p agent \<Rightarrow> 'p agent \<Rightarrow> bool" where
  "only_agent i ag ag' \<longleftrightarrow> only_call i (ag_reg ag) (ag_reg ag')"

lemma only_cong:
  "cr_calls (ag_reg b') = cr_calls (ag_reg b) \<Longrightarrow> cr_pool (ag_reg b') = cr_pool (ag_reg b) \<Longrightarrow>
     cr_modems_reserved (ag_reg b') = cr_modems_reserved (ag_reg b) \<Longrightarrow> only_agent i a b' = only_agent i a b"
  by (simp add: only_agent_def only_call_def get_call_def split: option.split)

lemma only_log [simp]: "only_agent i a (agent_log e b) = only_agent i a b"
  by (rule only_cong) simp_all

lemma only_emit [simp]: "only_agent i a (emit e b) = only_agent i a b"
  by (rule only_cong) simp_all

lemma only_legs [simp]: "only_agent i a (hangup_legs en reason k chs b) = only_agent i a b"
  by (induction en reason k chs b rule: hangup_legs.induct) (simp_all add: Let_def split: option.split)

lemma only_on_reg:
  assumes "only_agent i a b"
    and "\<And>reg. keyed_by cm_id (cr_calls reg) \<Longrightarrow> only_call i reg (snd (f reg))"
  shows "only_agent i a (snd (on_reg f b))"
  using assms only_call_trans only_call_keyed unfolding only_agent_def on_reg_def case_prod_unfold
  by (metis (no_types, lifting) agent.select_convs(1) agent.surjective agent.update_convs(1) snd_conv)

lemma only_ops:
  assumes "only_agent i a b"
  shows "only_agent i a (snd (on_reg (fallback_to_voicemail now i) b))"
    "only_agent i a (snd (on_reg (telegram_timeout now i) b))"
    "only_agent i a (snd (on_reg (hangup now i opt) b))"
    "only_agent i a (snd (on_reg (reject now i opt) b))"
    "only_agent i a (snd (on_reg (gsm_failed now i status ds) b))"
  using assms
  by (auto intro!: only_on_reg simp: orchestration_defs gsm_failed_def only_call_transition only_call_note)

text \<open>Cleaning up after operations on one call leaves the other calls, and gives its modem back.\<close>
lemma cleanup_only:
  assumes "only_agent i a b"
  shows "cr_calls (ag_reg (agent_cleanup i b)) = dpop i (cr_calls (ag_reg a))"
    and "get_call i (ag_reg a) = Some c \<Longrightarrow> cr_pool (ag_reg (agent_cleanup i b)) =
           (if holds_modem c then map_option (pool_release (cm_modem_id c)) (cr_pool (ag_reg a))
            else cr_pool (ag_reg a))"
  using assms
  by (auto simp: only_agent_def only_call_def agent_cleanup_def cleanup_def get_call_def Let_def
      same_owner_def holds_modem_def split: option.splits)

lemma expire_call_calls:
  assumes k: "keyed_by cm_id (cr_calls (ag_reg ag))"
    and t: "timed_out now rw mc tg c"
  shows "cr_calls (ag_reg (snd (expire_call en c ag))) = dpop (cm_id c) (cr_calls (ag_reg ag))
     \<and> map fst (fst (expire_call en c ag)) = [cm_id c]"
proof -
  have refl: "only_agent (cm_id c) ag ag" using k by (simp add: only_agent_def only_call_refl)
  have "cm_state c \<in> {RINGING, TELEGRAM_RINGING, MODEM_RESERVED, TELEGRAM_CALLING, BRIDGED}"
    using t wait_limit_states [of rw mc tg "cm_state c"] by (auto simp: timed_out_limit split: option.splits)
  then show ?thesis
    by (auto simp: expire_call_def Let_def case_prod_unfold cleanup_only(1) only_ops refl)
qed

lemma expire_calls_calls:
  assumes "keyed_by cm_id (cr_calls (ag_reg ag))" and "\<forall>c \<in> set cs. timed_out now rw mc tg c"
  shows "cr_calls (ag_reg (snd (expire_calls en cs ag)))
       = filter (\<lambda>(k, c). k \<notin> cm_id ` set cs) (cr_calls (ag_reg ag))
     \<and> map fst (fst (expire_calls en cs ag)) = map cm_id cs"
  using assms
proof (induction cs arbitrary: ag)
  case Nil
  then show ?case by simp
next
  case (Cons c cs)
  obtain a ag1 where e: "expire_call en c ag = (a, ag1)" by fastforce
  have c: "cr_calls (ag_reg ag1) = dpop (cm_id c) (cr_calls (ag_reg ag))" "map fst a = [cm_id c]"
    using expire_call_calls [OF Cons.prems(1), of now rw mc tg c en] Cons.prems(2) e by simp_all
  have k: "keyed_by cm_id (cr_calls (ag_reg ag1))" using Cons.prems(1) c(1) by (simp add: keyed_by_dpop)
  have IH: "cr_calls (ag_reg (snd (expire_calls en cs ag1)))
       = filter (\<lambda>(k, c). k \<notin> cm_id ` set cs) (dpop (cm_id c) (cr_calls (ag_reg ag)))"
    "map fst (fst (expire_calls en cs ag1)) = map cm_id cs"
    using Cons.IH [OF k] Cons.prems(2) c(1) by simp_all
  have "filter (\<lambda>(k, c). k \<notin> cm_id ` set cs) (dpop (cm_id c) d)
      = filter (\<lambda>(k, c'). k \<notin> cm_id ` set (c # cs)) d" for d :: "(str, call_machine) dict"
    by (induction d) auto
  with IH c(2) e show ?case by (simp add: case_prod_unfold)
qed

section \<open>The pool stays\<close>

lemma choose_modem_pool:
  "choose_modem callee m required reg = (r, reg1) \<Longrightarrow>
     cr_calls reg1 = cr_calls reg \<and> cr_modems_reserved reg1 = cr_modems_reserved reg
     \<and> (cr_pool reg1 = None \<longleftrightarrow> cr_pool reg = None)"
  by (auto simp: choose_modem_def split: if_splits option.splits prod.splits sum.splits)

lemma step_pool: "reg_step ops valid reg reg' \<Longrightarrow> cr_pool reg' = None \<longleftrightarrow> cr_pool reg = None"
proof (induction rule: reg_step.induct)
  case (incoming reg uuid now caller name modem_id chan r reg')
  then show ?case using create_incoming_result [of now uuid caller name modem_id chan reg]
    by (auto simp: created_def)
next
  case (outgoing reg uuid modem_id now callee caller name user required r reg')
  obtain x reg1 where c: "choose_modem callee modem_id required reg = (x, reg1)" by fastforce
  show ?case
  proof (cases x)
    case (Inl e)
    with outgoing(3) c choose_modem_pool [OF c] show ?thesis by (auto simp: create_outgoing_def)
  next
    case (Inr ch)
    with outgoing(3) create_outgoing_result [of callee modem_id required reg ch reg1 now uuid caller name user] c
      choose_modem_pool [OF c] show ?thesis by (auto simp: created_def)
  qed
next
  case (transition now i s reg b reg')
  then show ?case by (cases rule: reg_transition_cases [of now i s reg]) auto
qed (auto simp: annotate_def cleanup_def Let_def split: option.splits)

lemma reach_pool: "reg_reachable ops valid a b \<Longrightarrow> cr_pool b = None \<longleftrightarrow> cr_pool a = None"
  by (induction rule: reg_reachable.induct) (auto dest: step_pool)

section \<open>Placing a call\<close>

lemma create_outgoing_choice:
  "choose_modem callee m required reg = (Inl e, reg1) \<Longrightarrow>
     create_outgoing now uuid callee caller name m user required reg = (Inl e, reg1)"
  by (simp add: create_outgoing_def)

lemma choose_modem_failed:
  assumes "choose_modem callee m required reg = (Inl e, reg1)"
  shows "cr_calls reg1 = cr_calls reg \<and> cr_modems_reserved reg1 = cr_modems_reserved reg
     \<and> map_option mp_reserved (cr_pool reg1) = map_option mp_reserved (cr_pool reg)"
proof (cases "cr_pool reg")
  case None
  with assms show ?thesis by (auto simp: choose_modem_def split: if_splits)
next
  case (Some pool)
  obtain x pool' where sel: "select_for_call (Some callee) pool = (x, pool')" by fastforce
  with assms Some have "\<forall>m. x \<noteq> Inr (Some m)" "reg1 = reg\<lparr>cr_pool := Some pool'\<rparr>"
    by (auto simp: choose_modem_def split: if_splits sum.splits option.splits)
  with select_for_call_reserved(2) [OF sel] Some show ?thesis by simp
qed

lemma place_outgoing_cases:
  obtains (placed) c where "fst (place_outgoing en user d ag) = Inr c" "cm_callee c = d_number d"
      "cm_state c = TELEGRAM_CALLING" "cm_direction c = S ''outgoing''" "cm_id c = en_uuid en"
  | (failed) e where "fst (place_outgoing en user d ag) = Inl e"
      "cr_calls (ag_reg (snd (place_outgoing en user d ag))) = cr_calls (ag_reg ag)"
      "cr_modems_reserved (ag_reg (snd (place_outgoing en user d ag))) = cr_modems_reserved (ag_reg ag)"
      "map_option mp_reserved (cr_pool (ag_reg (snd (place_outgoing en user d ag))))
         = map_option mp_reserved (cr_pool (ag_reg ag))"
proof -
  obtain x reg1 where ch: "choose_modem (d_number d) (S ''gsm'') (\<not> d_internal d) (ag_reg ag) = (x, reg1)"
    by fastforce
  show ?thesis
  proof (cases x)
    case (Inl e)
    then show ?thesis
      using ch choose_modem_failed [of "d_number d" "S ''gsm''" "\<not> d_internal d" "ag_reg ag" e reg1]
      by (intro failed) (simp_all add: place_outgoing_def create_outgoing_choice)
  next
    case (Inr choice)
    then obtain c reg' where c: "create_outgoing (en_now en) (en_uuid en) (d_number d)
          (S ''user:'' @ int_text (user_or_0 user)) None (S ''gsm'') user (\<not> d_internal d) (ag_reg ag) = (Inr c, reg')"
        "created (en_uuid en) (S ''outgoing'') MODEM_RESERVED c reg1 reg'" "cm_callee c = d_number d"
      using create_outgoing_result [of "d_number d" "S ''gsm''" "\<not> d_internal d" "ag_reg ag" choice reg1] ch
      by blast
    define c' where "c' = c\<lparr>cm_state := TELEGRAM_CALLING, cm_updated_at := en_now en\<rparr>"
    have "reg_transition (en_now en) (cm_id c) TELEGRAM_CALLING reg' =
        (True, put_call c' (metrics_hook (en_now en) c' reg'))"
      using c(2) by (simp add: created_def reg_transition_def hooked_transition_def cm_transition_def
          allowed_from_def c'_def)
    then have "fst (place_outgoing en user d ag) = Inr c'"
      using c(1) by (simp add: place_outgoing_def Let_def on_reg_def start_telegram_calling_def live_def
          get_call_def c'_def)
    then show ?thesis
      using c(2,3) by (intro placed [of c']) (simp_all add: c'_def created_def)
  qed
qed

section \<open>Closing a call\<close>

definition closes :: "str \<Rightarrow> 'p agent \<Rightarrow> 'p agent \<Rightarrow> bool" where
  "closes i ag ag' \<longleftrightarrow> (\<exists>b. ag' = agent_cleanup i b \<and> only_agent i ag b)"

lemma complete_closes:
  assumes "keyed_by cm_id (cr_calls (ag_reg ag))" and "status \<noteq> S ''answered''"
  shows "is_ok (fst (complete_bridged en c status ds ag)) \<Longrightarrow> closes (cm_id c) ag (snd (complete_bridged en c status ds ag))"
    and "is_ok (fst (complete_incoming en c status ds ag)) \<Longrightarrow> closes (cm_id c) ag (snd (complete_incoming en c status ds ag))"
    and "is_ok (fst (complete_outgoing en c status ds ag)) \<Longrightarrow> closes (cm_id c) ag (snd (complete_outgoing en c status ds ag))"
proof -
  have refl: "only_agent (cm_id c) ag ag" using assms(1) by (simp add: only_agent_def only_call_refl)
  have close: "only_agent (cm_id c) ag b \<Longrightarrow> closes (cm_id c) ag (agent_cleanup (cm_id c) b)" for b
    by (auto simp: closes_def)
  show "is_ok (fst (complete_bridged en c status ds ag)) \<Longrightarrow> closes (cm_id c) ag (snd (complete_bridged en c status ds ag))"
    "is_ok (fst (complete_incoming en c status ds ag)) \<Longrightarrow> closes (cm_id c) ag (snd (complete_incoming en c status ds ag))"
    "is_ok (fst (complete_outgoing en c status ds ag)) \<Longrightarrow> closes (cm_id c) ag (snd (complete_outgoing en c status ds ag))"
    unfolding complete_bridged_def complete_incoming_def complete_outgoing_def Let_def case_prod_unfold
    using assms(2) by (auto simp: only_ops refl intro!: close split: if_splits)
qed

lemma closes_effect:
  assumes "closes i ag ag'" and "get_call i (ag_reg ag) = Some c"
  shows "cr_calls (ag_reg ag') = dpop i (cr_calls (ag_reg ag))
     \<and> cr_pool (ag_reg ag') = (if holds_modem c then map_option (pool_release (cm_modem_id c)) (cr_pool (ag_reg ag))
          else cr_pool (ag_reg ag))"
proof -
  obtain b where b: "ag' = agent_cleanup i b" "only_agent i ag b"
    using assms(1) by (auto simp: closes_def)
  show ?thesis using cleanup_only [OF b(2)] assms(2) b(1) by simp
qed

lemma call_complete_closes:
  assumes "keyed_by cm_id (cr_calls (ag_reg ag))" and "get_call i (ag_reg ag) = Some c"
    and "status \<noteq> S ''answered''" and "is_ok (fst (call_complete en i status ds ag))"
  shows "closes i ag (snd (call_complete en i status ds ag))"
proof -
  have "cm_id c = i" using assms(1,2) keyed_by_key by (auto simp: get_call_def)
  then show ?thesis
    using complete_closes [OF assms(1,3), where c = c and en = en and ds = ds] assms(2,4)
    by (auto simp: call_complete_def split: if_splits)
qed

section \<open>Properties\<close>

text \<open>C1: whatever requests arrive, in whatever order, and whatever the device does in between, the
  agent never lets two calls use one modem, and no modem stays reserved without a call: the
  reserved modems are always exactly the modems of the outgoing calls in the registry.\<close>
theorem agent_modems_exclusive:
  assumes "modem_provider ops valid" and "ag_reg ag = new_call_registry audit (Some (new_modem_pool ops p st)) metrics"
    and "valid p" and "named_modems ops p" and "inputs_ok ops valid xs ag"
  shows "(\<forall>c1 \<in> set (list_calls (ag_reg (run xs ag))). \<forall>c2 \<in> set (list_calls (ag_reg (run xs ag))).
            holds_modem c1 \<and> holds_modem c2 \<and> cm_modem_id c1 = cm_modem_id c2 \<longrightarrow> c1 = c2)
     \<and> (\<forall>pool. cr_pool (ag_reg (run xs ag)) = Some pool \<longrightarrow>
          mp_reserved pool = cm_modem_id ` {c \<in> set (list_calls (ag_reg (run xs ag))). holds_modem c})"
proof -
  have "reg_inv ops valid (ag_reg ag)"
    unfolding assms(2) using assms(3,4) by (intro new_registry_inv(2)) (simp_all add: new_modem_pool_def)
  then have "reg_inv ops valid (ag_reg (run xs ag))"
    using modem_provider.reachable_inv [OF assms(1) run_reach [OF assms(5)]] by blast
  then show ?thesis by (rule reg_inv_exclusive)
qed

definition agent0 :: "single_provider agent" where
  "agent0 =
     \<lparr>ag_reg = empty_reg, ag_sms = new_sms_store None, ag_sms_limiter = new_rate_limiter 30 3600,
      ag_call_limiter = new_rate_limiter 3 60, ag_blacklist = new_blacklist None, ag_bl_file = None,
      ag_acl = new_acl_manager None, ag_out = []\<rparr>"

definition outgoing_input :: "single_provider input" where
  "outgoing_input = Request sample_env (ROutgoing (S ''+79261234555'') None)"

theorem agent_modems_exclusive_witness:
  "mp_reserved (the (cr_pool (ag_reg (run [outgoing_input] agent0)))) =
     cm_modem_id ` {c \<in> set (list_calls (ag_reg (run [outgoing_input] agent0))). holds_modem c}"
proof -
  have pool: "ready_pool = new_modem_pool single_ops ready_provider None"
    by (simp add: ready_pool_def)
  have ok: "inputs_ok single_ops sp_valid [outgoing_input] agent0"
    by (simp add: outgoing_input_def agent0_def empty_reg_def new_call_registry_def)
  have reg: "ag_reg agent0 = new_call_registry [] (Some (new_modem_pool single_ops ready_provider None)) (Some new_metrics)"
    by (simp add: agent0_def empty_reg_def pool)
  have p: "sp_valid ready_provider" "named_modems single_ops ready_provider"
    using ready_pool_facts(2,3) by (simp_all add: ready_pool_def new_modem_pool_def)
  have "cr_pool (ag_reg (run [outgoing_input] agent0)) \<noteq> None"
    using reach_pool [OF run_reach [OF ok]] by (simp add: agent0_def empty_reg_def new_call_registry_def)
  then show ?thesis
    using agent_modems_exclusive [OF single.modem_provider_axioms reg p ok] by force
qed

text \<open>C28: the timeout driver removes exactly the calls that are over their limit. Every such call is
  reported in the answer and leaves the registry, and no other call is touched.\<close>
theorem check_timeouts_exact:
  assumes "keyed_by cm_id (cr_calls (ag_reg ag))"
    and "late = timed_out (en_now en) (ac_ring_wait (en_cfg en)) (ac_max_call (en_cfg en)) (ac_tg_ring (en_cfg en))"
  shows "cr_calls (ag_reg (snd (call_check_timeouts en ag)))
       = filter (\<lambda>(k, c). \<not> late c) (cr_calls (ag_reg ag))
     \<and> map fst (fst (call_check_timeouts en ag)) = map cm_id (filter late (list_calls (ag_reg ag)))"
proof -
  let ?calls = "cr_calls (ag_reg ag)"
  define cs where "cs = filter late (dvalues ?calls)"
  have r: "cr_calls (ag_reg (snd (expire_calls en cs ag))) = filter (\<lambda>(k, c). k \<notin> cm_id ` set cs) ?calls
     \<and> map fst (fst (expire_calls en cs ag)) = map cm_id cs"
    by (rule expire_calls_calls [OF assms(1)]) (auto simp: cs_def assms(2))
  have "k \<in> cm_id ` set cs \<longleftrightarrow> late c" if "(k, c) \<in> set ?calls" for k c
  proof -
    have c: "dget ?calls k = Some c" "cm_id c = k"
      using that dict_wf_mem [OF keyed_by_wf [OF assms(1)]] keyed_by_key [OF assms(1)] by simp_all
    show ?thesis
    proof
      assume "k \<in> cm_id ` set cs"
      then obtain x where x: "x \<in> set cs" "cm_id x = k" by auto
      then have "dget ?calls k = Some x"
        using keyed_by_mem [OF assms(1), of x] by (auto simp: cs_def)
      with c x(1) show "late c" by (simp add: cs_def)
    next
      assume "late c"
      with that have "c \<in> set cs" by (force simp: cs_def)
      with c(2) show "k \<in> cm_id ` set cs" by blast
    qed
  qed
  then have "filter (\<lambda>(k, c). k \<notin> cm_id ` set cs) ?calls = filter (\<lambda>(k, c). \<not> late c) ?calls"
    by (intro filter_cong) auto
  with r show ?thesis
    by (simp add: call_check_timeouts_def get_timed_out_calls_def assms(2) [symmetric] cs_def list_calls_def)
qed

definition late_agent :: "single_provider agent" where
  "late_agent = agent0\<lparr>ag_reg := ringing_reg\<rparr>"

definition late_env :: env where
  "late_env = sample_env\<lparr>en_now := 60 * US\<rparr>"

theorem check_timeouts_exact_witness:
  "map fst (fst (call_check_timeouts late_env late_agent)) = [S ''c2'']
   \<and> cr_calls (ag_reg (snd (call_check_timeouts late_env late_agent))) = []"
  using check_timeouts_exact [of late_agent, OF _ refl, of late_env] ringing_reg_keyed
  by (simp add: late_agent_def ringing_reg_calls list_calls_def timed_out_limit ringing_call_def
      new_call_def late_env_def sample_env_def US_def)


text \<open>A refused outgoing call leaves nothing behind: no call is registered and no modem is
  reserved, whatever the refusal was.\<close>
theorem refused_call_reserves_nothing:
  assumes "fst (call_outgoing en phone user ag) = Inl e"
  shows "cr_calls (ag_reg (snd (call_outgoing en phone user ag))) = cr_calls (ag_reg ag)
     \<and> map_option mp_reserved (cr_pool (ag_reg (snd (call_outgoing en phone user ag))))
         = map_option mp_reserved (cr_pool (ag_reg ag))
     \<and> cr_modems_reserved (ag_reg (snd (call_outgoing en phone user ag))) = cr_modems_reserved (ag_reg ag)"
proof -
  define ag3 where "ag3 = agent_log (request_event en CALL_ACL_CHECK user (S ''allowed'') phone)
     (snd (call_allowed en user (ag\<lparr>ag_call_limiter :=
        snd (allow (en_mono en) (S ''call:'' @ int_text (user_or_0 user)) (ag_call_limiter ag))\<rparr>)))"
  have reg: "cr_calls (ag_reg ag3) = cr_calls (ag_reg ag)" "cr_pool (ag_reg ag3) = cr_pool (ag_reg ag)"
    "cr_modems_reserved (ag_reg ag3) = cr_modems_reserved (ag_reg ag)"
    by (simp_all add: ag3_def)
  have "cr_calls (ag_reg (snd (place_outgoing en user d (ag3\<lparr>ag_blacklist := bl\<rparr>)))) = cr_calls (ag_reg ag)
     \<and> map_option mp_reserved (cr_pool (ag_reg (snd (place_outgoing en user d (ag3\<lparr>ag_blacklist := bl\<rparr>)))))
         = map_option mp_reserved (cr_pool (ag_reg ag))
     \<and> cr_modems_reserved (ag_reg (snd (place_outgoing en user d (ag3\<lparr>ag_blacklist := bl\<rparr>)))) = cr_modems_reserved (ag_reg ag)"
    if "fst (place_outgoing en user d (ag3\<lparr>ag_blacklist := bl\<rparr>)) = Inl e" for d bl
    using that reg by (cases rule: place_outgoing_cases [of en user d "ag3\<lparr>ag_blacklist := bl\<rparr>"]) auto
  then show ?thesis
    using assms reg
    by (auto simp: call_outgoing_def Let_def case_prod_unfold ag3_def [symmetric] split: if_splits option.splits)
qed

text \<open>The report that ends a call closes it. After a successful report with any status but
  "answered" the call is gone, every other call is as it was, and the modem of an outgoing call
  is free again.\<close>
theorem completion_releases:
  assumes "keyed_by cm_id (cr_calls (ag_reg ag))" and "get_call i (ag_reg ag) = Some c"
    and "status \<noteq> S ''answered''" and "is_ok (fst (call_complete en i status ds ag))"
  shows "cr_calls (ag_reg (snd (call_complete en i status ds ag))) = dpop i (cr_calls (ag_reg ag))
     \<and> cr_pool (ag_reg (snd (call_complete en i status ds ag))) =
         (if holds_modem c then map_option (pool_release (cm_modem_id c)) (cr_pool (ag_reg ag))
          else cr_pool (ag_reg ag))"
  by (rule closes_effect [OF call_complete_closes [OF assms] assms(2)])

lemma parse_1234: "parse_destination (Some (S ''1234'')) = Some \<lparr>d_number = S ''1234'', d_internal = True\<rparr>"
  by (simp add: parse_destination_def ext_plus_match_def ext_ru_match_def ext_short_match_def
      internal_match_def digits_to_end_def strip_def lstrip_def rstrip_def S_def is_space_def
      space_points_def Let_def)

lemma parse_12: "parse_destination (Some (S ''12'')) = None"
  by (simp add: parse_destination_def ext_plus_match_def ext_ru_match_def ext_short_match_def
      internal_match_def digits_to_end_def strip_def lstrip_def rstrip_def S_def is_space_def
      space_points_def Let_def)

lemma agent0_admits:
  "fst (allow t k (ag_call_limiter agent0))"
  "fst (bl_contains (ag_bl_file agent0) n (ag_blacklist agent0)) = False"
  by (simp_all add: agent0_def new_rate_limiter_def allow_def rl_bucket_def bl_contains_def
      new_blacklist_def bl_load_def bl_maybe_reload_def stat_mtime_def Let_def split: option.split)


theorem refused_call_reserves_nothing_witness:
  "map_option mp_reserved (cr_pool (ag_reg (snd (call_outgoing sample_env (S ''12'') None agent0)))) = Some {}"
proof -
  have "fst (call_outgoing sample_env (S ''12'') None agent0)
      = Inl (HTTPException 400 (error_text NUMBER_MALFORMED_CALL))"
    by (simp add: call_outgoing_def Let_def case_prod_unfold agent0_admits call_allowed_def user_or_0_def
        parse_12)
  from refused_call_reserves_nothing [OF this] show ?thesis
    by (simp add: agent0_def empty_reg_def new_call_registry_def ready_pool_facts)
qed

theorem completion_releases_witness:
  "cr_calls (ag_reg (snd (call_complete sample_env (S ''c2'') (S ''no_answer'') None late_agent))) = []"
proof -
  have get: "get_call (S ''c2'') (ag_reg late_agent) = Some ringing_call"
    by (simp add: late_agent_def get_call_def ringing_reg_calls)
  have "is_ok (fst (call_complete sample_env (S ''c2'') (S ''no_answer'') None late_agent))"
    by (simp add: call_complete_def is_terminal_def TERMINAL_STATES_def ringing_call_def new_call_def
        complete_incoming_def Let_def on_reg_def fallback_to_voicemail_def reg_transition_def
        hooked_transition_def cm_transition_def allowed_from_def late_agent_def ringing_reg_calls
        case_prod_unfold get_call_def)
  from completion_releases [OF _ get _ this] ringing_reg_keyed show ?thesis
    by (simp add: late_agent_def ringing_reg_calls)
qed

end
