(* ===== verification/Commands.thy ===== *)
theory Commands
  imports Text
begin

text \<open>
  The text rules of \<open>userbot/userbot.py\<close>: what counts as a number or as a command, which handlers a
  message reaches, and how arguments are cut out of it.

  A pattern \<open>(?i)^/cmd\b\<close> is \<open>command_match\<close>: the slash, the letters in any case (case-insensitive
  matching also equates the long s with s, the Kelvin sign with k, and the dotted capital and the dotless small
  i with i), and a word boundary.
  \<open>is_word\<close> is the class \<open>\w\<close> on ASCII, digits of any script and the Latin, Greek and Cyrillic
  blocks; other scripts count as separators here.
\<close>

section \<open>Classification\<close>

definition is_number_attempt :: "str \<Rightarrow> bool" where
  "is_number_attempt text \<longleftrightarrow> (case strip text of [] \<Rightarrow> False | c # _ \<Rightarrow> c = 43 \<or> is_digit c)"

definition KNOWN_COMMANDS :: "string list" where
  "KNOWN_COMMANDS = [''sms'', ''block'', ''unblock'', ''listblock'', ''redial'', ''call'', ''show'', ''add'', ''del'', ''help'']"

definition command_token :: "str \<Rightarrow> str option" where
  "command_token text =
     (case lstrip text of
        [] \<Rightarrow> None
      | c # rest \<Rightarrow>
          if c \<noteq> 47 then None
          else (case split_ws rest of [] \<Rightarrow> None | t # _ \<Rightarrow> Some (lower t)))"

definition is_unknown_command :: "str \<Rightarrow> bool" where
  "is_unknown_command text \<longleftrightarrow>
     (case command_token text of None \<Rightarrow> False | Some t \<Rightarrow> t \<notin> S ` set KNOWN_COMMANDS)"

definition is_plain_reply_candidate :: "str \<Rightarrow> bool" where
  "is_plain_reply_candidate text \<longleftrightarrow> command_token text = None \<and> \<not> is_number_attempt text"

section \<open>Patterns\<close>

definition is_word :: "cp \<Rightarrow> bool" where
  "is_word c \<longleftrightarrow>
     is_digit c \<or> 65 \<le> c \<and> c \<le> 90 \<or> 97 \<le> c \<and> c \<le> 122 \<or> c = 95 \<or> c = 170 \<or> c = 181 \<or> c = 186 \<or> c = 8490
     \<or> 192 \<le> c \<and> c \<le> 705 \<and> c \<noteq> 215 \<and> c \<noteq> 247 \<or> 880 \<le> c \<and> c \<le> 1327 \<and> c \<notin> {885, 894, 900, 901, 903, 1154}
     \<and> \<not> (1155 \<le> c \<and> c \<le> 1161)"

definition same_letter :: "cp \<Rightarrow> cp \<Rightarrow> bool" where
  "same_letter p c \<longleftrightarrow>
     c = p \<or> 97 \<le> p \<and> p \<le> 122 \<and> c + 32 = p \<or> p = 115 \<and> c = 383 \<or> p = 107 \<and> c = 8490
     \<or> p = 105 \<and> (c = 304 \<or> c = 305)"

text \<open>The text behind \<open>/cmd\<close> when \<open>(?i)^/cmd\<close> matches.\<close>
definition after_command :: "string \<Rightarrow> str \<Rightarrow> str option" where
  "after_command cmd text =
     (case text of
        [] \<Rightarrow> None
      | c # rest \<Rightarrow>
          if c = 47 \<and> length cmd \<le> length rest \<and> list_all2 same_letter (S cmd) (take (length cmd) rest)
          then Some (drop (length cmd) rest) else None)"

definition command_match :: "string \<Rightarrow> str \<Rightarrow> bool" where
  "command_match cmd text \<longleftrightarrow>
     (case after_command cmd text of
        None \<Rightarrow> False
      | Some rest \<Rightarrow> rest = [] \<or> \<not> is_word (hd rest))"

text \<open>\<open>re.sub(r"(?i)^/cmd\b\s*", "", raw)\<close>\<close>
definition strip_command :: "string \<Rightarrow> str \<Rightarrow> str" where
  "strip_command cmd raw =
     (case after_command cmd raw of
        Some rest \<Rightarrow> if rest = [] \<or> \<not> is_word (hd rest) then lstrip rest else raw
      | None \<Rightarrow> raw)"

text \<open>\<open>re.match(r"SMS\s+(\+?\d+)", text)\<close>, its group.\<close>
definition sms_quote :: "str \<Rightarrow> str option" where
  "sms_quote text =
     (if \<not> startswith text (S ''SMS'') then None
      else let r = drop 3 text; t = dropWhile is_space r
           in if t = r then None
              else case t of
                     [] \<Rightarrow> None
                   | c # u \<Rightarrow>
                       (let ds = takeWhile is_decimal (if c = 43 then u else t)
                        in if ds = [] then None else Some ((if c = 43 then [43] else []) @ ds)))"

text \<open>\<open>text.split(None, n)\<close>: at most \<open>n\<close> cuts; the rest keeps its inner and trailing white space.\<close>
fun split_max :: "nat \<Rightarrow> str \<Rightarrow> str list" where
  "split_max 0 s = (let t = lstrip s in if t = [] then [] else [t])"
| "split_max (Suc n) s =
     (let t = lstrip s
      in if t = [] then []
         else takeWhile (\<lambda>c. \<not> is_space c) t # split_max n (dropWhile (\<lambda>c. \<not> is_space c) t))"

text \<open>The last match of \<open>\s([+\d]\S*)\<close>: the text before it and the number.\<close>
fun scan_number :: "str \<Rightarrow> str \<Rightarrow> (str \<times> str) option \<Rightarrow> (str \<times> str) option" where
  "scan_number pre [] best = best"
| "scan_number pre (c # cs) best =
     scan_number (pre @ [c]) cs
       (if is_space c \<and> cs \<noteq> [] \<and> (hd cs = 43 \<or> is_decimal (hd cs))
        then Some (pre, takeWhile (\<lambda>x. \<not> is_space x) cs) else best)"

section \<open>Dispatch\<close>

text \<open>A message: its sender (0 when unknown), text, id, whether it is a voice note, and for a reply
  the text of the quoted message (\<open>None\<close> when that message is gone).\<close>
record tg_event =
  te_sender :: int
  te_text :: str
  te_id :: int
  te_voice :: bool
  te_reply :: "str option option"

datatype handler =
    HSms | HNumber | HRedial | HCall | HShow | HAdd | HDel | HVoice | HBlock | HUnblock | HListblock
  | HHelp | HUnknown | HReply

text \<open>The filters, in the order of registration. Every handler whose filter holds runs.\<close>
definition handlers_for :: "tg_event \<Rightarrow> handler list" where
  "handlers_for ev =
     (let t = te_text ev; on = (\<lambda>b h. if b then [h] else [])
      in on (command_match ''sms'' t) HSms @ on (is_number_attempt t) HNumber
         @ on (command_match ''redial'' t) HRedial @ on (command_match ''call'' t) HCall
         @ on (command_match ''show'' t) HShow @ on (command_match ''add'' t) HAdd
         @ on (command_match ''del'' t) HDel @ on (te_voice ev) HVoice
         @ on (command_match ''block'' t) HBlock @ on (command_match ''unblock'' t) HUnblock
         @ on (command_match ''listblock'' t) HListblock @ on (command_match ''help'' t) HHelp
         @ on (\<not> te_voice ev \<and> is_unknown_command t) HUnknown
         @ on (te_reply ev \<noteq> None \<and> \<not> te_voice ev \<and> strip t \<noteq> [] \<and> is_plain_reply_candidate t) HReply)"

section \<open>Lemmas\<close>

text \<open>The letters of the commands, and the tokens of Latin letters, digits and underscores.\<close>
definition letters :: "str \<Rightarrow> bool" where
  "letters s \<longleftrightarrow> (\<forall>c \<in> set s. 97 \<le> c \<and> c \<le> 122)"

definition ascii_word :: "cp \<Rightarrow> bool" where
  "ascii_word c \<longleftrightarrow> 48 \<le> c \<and> c \<le> 57 \<or> 65 \<le> c \<and> c \<le> 90 \<or> 97 \<le> c \<and> c \<le> 122 \<or> c = 95"

definition token :: "str \<Rightarrow> bool" where
  "token w \<longleftrightarrow> w \<noteq> [] \<and> (\<forall>c \<in> set w. ascii_word c)"

text \<open>What follows a token: nothing, or a character that is not a word character.\<close>
definition boundary :: "str \<Rightarrow> bool" where
  "boundary rest \<longleftrightarrow> rest = [] \<or> \<not> is_word (hd rest)"

lemma letters_S_KNOWN: "cmd \<in> set KNOWN_COMMANDS \<Longrightarrow> letters (S cmd)"
  by (auto simp: KNOWN_COMMANDS_def letters_def S_def)

lemma ascii_word_is_word: "ascii_word c \<Longrightarrow> is_word c"
  by (auto simp: ascii_word_def is_word_def is_digit_def)

lemma ascii_word_not_space: "ascii_word c \<Longrightarrow> \<not> is_space c"
  by (auto simp: ascii_word_def is_space_def space_points_def)

lemma same_letter_word: "97 \<le> p \<Longrightarrow> p \<le> 122 \<Longrightarrow> same_letter p c \<Longrightarrow> is_word c"
  by (auto simp: same_letter_def is_word_def)

lemma same_letter_lower:
  "97 \<le> p \<Longrightarrow> p \<le> 122 \<Longrightarrow> ascii_word c \<Longrightarrow> same_letter p c \<longleftrightarrow> lower_cp c = p"
  by (auto simp: same_letter_def ascii_word_def lower_cp_def)

lemma same_letters_lower:
  "letters ps \<Longrightarrow> \<forall>c \<in> set cs. ascii_word c \<Longrightarrow> list_all2 same_letter ps cs \<longleftrightarrow> lower cs = ps"
proof (induction ps arbitrary: cs)
  case Nil
  then show ?case by (auto simp: lower_def)
next
  case (Cons p ps)
  then show ?case
    by (cases cs) (auto simp: letters_def lower_def same_letter_lower)
qed

lemma spaces_not_word: "\<forall>c \<in> set space_points. \<not> is_word c"
  by (simp add: space_points_def is_word_def is_digit_def is_decimal_def decimal_blocks_def digit_ranges_def)

lemma space_boundary: "rest = [] \<or> is_space (hd rest) \<Longrightarrow> boundary rest"
  using spaces_not_word by (auto simp: boundary_def is_space_def)

text \<open>A pattern matches a token exactly when the token is the command in any case.\<close>
lemma command_match_token:
  assumes "letters (S cmd)" and w: "\<forall>c \<in> set w. ascii_word c" and rest: "boundary rest"
  shows "command_match cmd (47 # w @ rest) \<longleftrightarrow> lower w = S cmd"
proof -
  let ?k = "length cmd"
  have k: "length (S cmd) = ?k" by (simp add: S_def)
  consider "?k < length w" | "?k = length w" | "length w < ?k" by linarith
  then show ?thesis
  proof cases
    case 1
    then have "lower w \<noteq> S cmd" using k by (auto simp: lower_def dest: arg_cong [of _ _ length])
    moreover have "drop ?k (w @ rest) \<noteq> []" "hd (drop ?k (w @ rest)) = w ! ?k"
      using 1 by (simp_all add: hd_drop_conv_nth nth_append)
    ultimately show ?thesis
      using 1 w ascii_word_is_word
      by (auto simp: command_match_def after_command_def split: option.splits if_splits)
  next
    case 2
    then show ?thesis
      using w same_letters_lower [OF assms(1) w] rest
      by (auto simp: command_match_def after_command_def boundary_def)
  next
    case 3
    then have "lower w \<noteq> S cmd" using k by (auto simp: lower_def dest: arg_cong [of _ _ length])
    moreover have "\<not> list_all2 same_letter (S cmd) (take ?k (w @ rest))" if "?k \<le> length (w @ rest)"
    proof
      assume l: "list_all2 same_letter (S cmd) (take ?k (w @ rest))"
      from 3 that have "rest \<noteq> []" by auto
      with 3 have "take ?k (w @ rest) ! length w = hd rest" by (simp add: nth_append hd_conv_nth)
      then have "same_letter (S cmd ! length w) (hd rest)"
        using list_all2_nthD [OF l, of "length w"] 3 k by simp
      moreover have "S cmd ! length w \<in> set (S cmd)" using 3 k by simp
      ultimately show False
        using assms(1) rest \<open>rest \<noteq> []\<close> same_letter_word by (auto simp: letters_def boundary_def)
    qed
    ultimately show ?thesis by (auto simp: command_match_def after_command_def)
  qed
qed

lemma command_token_slash:
  "\<not> is_space c \<Longrightarrow>
   command_token (47 # c # t) = Some (lower (takeWhile (\<lambda>x. \<not> is_space x) (c # t)))"
  by (simp add: command_token_def lstrip_def split_ws.simps [of "c # t"] is_space_def space_points_def)

lemma command_token_word:
  assumes "token w" and "rest = [] \<or> is_space (hd rest)"
  shows "command_token (47 # w @ rest) = Some (lower w)"
proof -
  obtain c t where w: "w = c # t" "ascii_word c" using assms(1) by (cases w) (auto simp: token_def)
  have "takeWhile (\<lambda>x. \<not> is_space x) (w @ rest) = w"
    using assms ascii_word_not_space
    by (cases rest) (auto simp: token_def takeWhile_append)
  then show ?thesis
    using command_token_slash [of c "t @ rest"] w ascii_word_not_space by simp
qed

text \<open>Which handler owns a token.\<close>
definition owner :: "str \<Rightarrow> handler" where
  "owner t =
     (if t = S ''sms'' then HSms else if t = S ''redial'' then HRedial else if t = S ''call'' then HCall
      else if t = S ''show'' then HShow else if t = S ''add'' then HAdd else if t = S ''del'' then HDel
      else if t = S ''block'' then HBlock else if t = S ''unblock'' then HUnblock
      else if t = S ''listblock'' then HListblock else if t = S ''help'' then HHelp else HUnknown)"

lemma slash_not_number [simp]: "\<not> is_number_attempt (47 # t)"
proof -
  have "strip (47 # t) = 47 # rstrip t \<or> (\<exists>r. strip (47 # t) = 47 # r)"
    by (cases "dropWhile is_space (rev t) = []")
      (auto simp: strip_def lstrip_def rstrip_def is_space_def space_points_def dropWhile_append)
  then show ?thesis
    by (auto simp: is_number_attempt_def is_digit_def digit_ranges_def is_decimal_def decimal_blocks_def)
qed

lemma slash_not_plain [simp]:
  "\<not> is_space c \<Longrightarrow> \<not> is_plain_reply_candidate (47 # c # t)"
  by (simp add: is_plain_reply_candidate_def command_token_slash)

lemma one_handler:
  assumes "token w" and "rest = [] \<or> is_space (hd rest)"
    and "te_text ev = 47 # w @ rest" and "\<not> te_voice ev"
  shows "handlers_for ev = [owner (lower w)]"
proof -
  obtain c t where w: "w = c # t" "ascii_word c" using assms(1) by (cases w) (auto simp: token_def)
  have m: "command_match cmd (47 # w @ rest) \<longleftrightarrow> lower w = S cmd" if "cmd \<in> set KNOWN_COMMANDS" for cmd
    using command_match_token [OF letters_S_KNOWN [OF that]] assms(1,2) space_boundary
    by (auto simp: token_def)
  have u: "is_unknown_command (47 # w @ rest) \<longleftrightarrow> lower w \<notin> S ` set KNOWN_COMMANDS"
    using command_token_word [OF assms(1,2)] by (simp add: is_unknown_command_def)
  have "\<not> is_plain_reply_candidate (47 # w @ rest)"
    using w ascii_word_not_space slash_not_plain [of c "t @ rest"] by simp
  then show ?thesis
    using assms(3,4) u
    by (simp add: handlers_for_def Let_def m KNOWN_COMMANDS_def)
      (simp add: owner_def)
qed

text \<open>A plain reply reaches the reply handler and no other.\<close>
lemma command_match_token_some: "cmd \<noteq> [] \<Longrightarrow> letters (S cmd) \<Longrightarrow> command_match cmd t \<Longrightarrow> command_token t \<noteq> None"
proof -
  assume a: "cmd \<noteq> []" "letters (S cmd)" "command_match cmd t"
  then obtain rest where t: "t = 47 # rest" and l: "length cmd \<le> length rest"
    "list_all2 same_letter (S cmd) (take (length cmd) rest)"
    by (auto simp: command_match_def after_command_def split: list.splits if_splits option.splits)
  with a(1) obtain c r where r: "rest = c # r" by (cases rest) auto
  obtain p ps where p: "S cmd = p # ps" using a(1) by (cases cmd) (auto simp: S_def)
  have "97 \<le> p" "p \<le> 122" using a(2) p by (auto simp: letters_def)
  moreover have "same_letter p c"
    using l(2) p r a(1) by (cases "length cmd") auto
  ultimately have "is_word c" by (rule same_letter_word)
  then have "\<not> is_space c" using spaces_not_word by (auto simp: is_space_def)
  then show ?thesis by (simp add: t r command_token_slash)
qed

lemma plain_reply_handler:
  assumes "te_reply ev \<noteq> None" and "\<not> te_voice ev" and "strip (te_text ev) \<noteq> []"
    and plain: "is_plain_reply_candidate (te_text ev)"
  shows "handlers_for ev = [HReply]"
proof -
  have "\<not> command_match cmd (te_text ev)" if "cmd \<in> set KNOWN_COMMANDS" for cmd
    using plain command_match_token_some [OF _ letters_S_KNOWN [OF that], of "te_text ev"] that
    by (auto simp: is_plain_reply_candidate_def KNOWN_COMMANDS_def)
  moreover have "\<not> is_unknown_command (te_text ev)" "\<not> is_number_attempt (te_text ev)"
    using plain by (auto simp: is_plain_reply_candidate_def is_unknown_command_def)
  ultimately show ?thesis
    using assms by (simp add: handlers_for_def Let_def KNOWN_COMMANDS_def)
qed

text \<open>The number in a quoted notice, and the number at the end of \<open>/add\<close>.\<close>
lemma sms_quote_plus:
  assumes "\<forall>d \<in> set ds. is_decimal d" and "ds \<noteq> []" and "rest = [] \<or> \<not> is_decimal (hd rest)"
  shows "sms_quote (S ''SMS '' @ (43 # ds) @ rest) = Some (43 # ds)"
proof -
  have "takeWhile is_decimal (ds @ rest) = ds"
    using assms by (cases rest) (auto simp: takeWhile_append)
  then show ?thesis
    using assms(2) by (simp add: sms_quote_def S_def startswith_def is_space_def space_points_def Let_def)
qed

lemma scan_number_none: "\<forall>c \<in> set num. \<not> is_space c \<Longrightarrow> scan_number pre num best = best"
  by (induction num arbitrary: pre) auto

lemma scan_number_skip: "\<exists>best'. scan_number pre (a @ 32 # num) best = scan_number (pre @ a) (32 # num) best'"
proof (induction a arbitrary: pre best)
  case Nil
  then show ?case by (metis append_Nil append_Nil2)
next
  case (Cons c a)
  then show ?case by (metis append.assoc append_Cons append_Nil scan_number.simps(2))
qed

lemma scan_number_last:
  assumes "num \<noteq> []" and "hd num = 43 \<or> is_decimal (hd num)" and "\<forall>c \<in> set num. \<not> is_space c"
  shows "scan_number [] (a @ 32 # num) None = Some (a, num)"
proof -
  obtain best where "scan_number [] (a @ 32 # num) None = scan_number a (32 # num) best"
    using scan_number_skip [of "[]" a num None] by auto
  moreover have "is_space 32" by (simp add: is_space_def space_points_def)
  moreover have "takeWhile (\<lambda>x. \<not> is_space x) num = num" using assms(3) by (simp add: takeWhile_eq_all_conv)
  ultimately show ?thesis using assms scan_number_none by simp
qed

lemma strip_command_space:
  assumes "letters (S cmd)" and "\<forall>c \<in> set w. ascii_word c" and "lower w = S cmd"
  shows "strip_command cmd (47 # w @ 32 # rest) = lstrip rest"
proof -
  have len: "length w = length cmd" using arg_cong [OF assms(3), of length] by (simp add: lower_def)
  then have "list_all2 same_letter (S cmd) (take (length cmd) (w @ 32 # rest))"
    using same_letters_lower [OF assms(1,2)] assms(3) by simp
  moreover have "\<not> is_word 32" using space_boundary [of "[32]"] by (simp add: boundary_def is_space_def space_points_def)
  ultimately show ?thesis
    using len by (simp add: strip_command_def after_command_def lstrip_def is_space_def space_points_def)
qed

section \<open>Properties\<close>

text \<open>A message that is a slash, a command word and nothing or white space behind it reaches
  exactly one handler: the one that owns the word in any mixture of cases, and the
  unknown-command handler when none does.\<close>
theorem one_handler_per_command:
  assumes "token w" and "rest = [] \<or> is_space (hd rest)"
    and "te_text ev = 47 # w @ rest" and "\<not> te_voice ev"
  shows "handlers_for ev = [owner (lower w)]"
  using assms by (rule one_handler)

theorem one_handler_per_command_witness:
  "handlers_for \<lparr>te_sender = 7, te_text = S ''/SMS +79261234555 hi'', te_id = 1, te_voice = False, te_reply = None\<rparr>
     = [HSms]
   \<and> handlers_for \<lparr>te_sender = 7, te_text = S ''/eee'', te_id = 1, te_voice = False, te_reply = None\<rparr> = [HUnknown]"
proof -
  have "token (S ''SMS'')" "token (S ''eee'')" "lower (S ''SMS'') = S ''sms''" "lower (S ''eee'') = S ''eee''"
    by (simp_all add: token_def ascii_word_def S_def lower_def lower_cp_def)
  moreover have "S ''/SMS +79261234555 hi'' = 47 # S ''SMS'' @ S '' +79261234555 hi''"
    "S ''/eee'' = 47 # S ''eee'' @ []" "is_space (hd (S '' +79261234555 hi''))"
    by (simp_all add: S_def is_space_def space_points_def)
  moreover have "owner (S ''sms'') = HSms" "owner (S ''eee'') = HUnknown"
    by (simp_all add: owner_def)
  ultimately show ?thesis
    using one_handler_per_command [of "S ''SMS''" "S '' +79261234555 hi''"
        "\<lparr>te_sender = 7, te_text = S ''/SMS +79261234555 hi'', te_id = 1, te_voice = False, te_reply = None\<rparr>"]
      one_handler_per_command [of "S ''eee''" "[]"
        "\<lparr>te_sender = 7, te_text = S ''/eee'', te_id = 1, te_voice = False, te_reply = None\<rparr>"]
    by simp
qed

lemma lower_letter_is_word: "97 \<le> lower_cp c \<Longrightarrow> lower_cp c \<le> 122 \<Longrightarrow> is_word c"
  by (auto simp: lower_cp_def is_word_def split: if_splits)

lemma glued_not_known:
  assumes "\<not> is_word c"
  shows "S cmd @ lower_cp c # t \<notin> S ` set KNOWN_COMMANDS"
proof
  assume "S cmd @ lower_cp c # t \<in> S ` set KNOWN_COMMANDS"
  then obtain k where "k \<in> set KNOWN_COMMANDS" "S k = S cmd @ lower_cp c # t" by auto
  then have "letters (S cmd @ lower_cp c # t)" using letters_S_KNOWN by metis
  then show False using assms lower_letter_is_word by (auto simp: letters_def)
qed

text \<open>A known command glued to a character that is neither a word character nor white space
  reaches two handlers, its own and the one for unknown commands, although the comments call the
  filters mutually exclusive: \<open>/call+79261234555\<close> dials and is answered as unknown as well.\<close>
theorem glued_command_dispatched_twice:
  assumes "cmd \<in> set KNOWN_COMMANDS" and "token w" and "lower w = S cmd"
    and c: "\<not> is_word c" "\<not> is_space c"
    and "te_text ev = 47 # w @ c # rest" and "\<not> te_voice ev"
  shows "handlers_for ev = [owner (S cmd), HUnknown]"
proof -
  obtain d t where w: "w = d # t" "ascii_word d" using assms(2) by (cases w) (auto simp: token_def)
  have m: "command_match k (47 # w @ c # rest) \<longleftrightarrow> S cmd = S k" if "k \<in> set KNOWN_COMMANDS" for k
    using command_match_token [OF letters_S_KNOWN [OF that], of w "c # rest"] assms(2,3) c
    by (auto simp: token_def boundary_def)
  have "takeWhile (\<lambda>x. \<not> is_space x) (w @ c # rest) = w @ c # takeWhile (\<lambda>x. \<not> is_space x) rest"
    using assms(2) c ascii_word_not_space by (simp add: token_def takeWhile_append)
  then have "command_token (47 # w @ c # rest)
      = Some (S cmd @ lower_cp c # lower (takeWhile (\<lambda>x. \<not> is_space x) rest))"
    using command_token_slash [of d "t @ c # rest"] w ascii_word_not_space assms(3)
    by (simp add: lower_def)
  then have u: "is_unknown_command (47 # w @ c # rest)"
    using glued_not_known [OF c(1)] by (simp add: is_unknown_command_def)
  have "\<not> is_plain_reply_candidate (47 # w @ c # rest)"
    using w ascii_word_not_space slash_not_plain [of d "t @ c # rest"] by simp
  then show ?thesis
    using assms(1,6,7) u
    by (simp add: handlers_for_def Let_def m KNOWN_COMMANDS_def)
      (auto simp: owner_def)
qed

theorem glued_command_dispatched_twice_witness:
  "handlers_for \<lparr>te_sender = 7, te_text = S ''/call+79261234555'', te_id = 1, te_voice = False, te_reply = None\<rparr>
     = [HCall, HUnknown]"
proof -
  have "token (S ''call'')" "lower (S ''call'') = S ''call''" "\<not> is_word 43" "\<not> is_space 43"
    by (simp_all add: token_def ascii_word_def S_def lower_def lower_cp_def is_word_def is_digit_def
        digit_ranges_def is_space_def space_points_def)
  moreover have "S ''/call+79261234555'' = 47 # S ''call'' @ 43 # S ''79261234555''" by (simp add: S_def)
  moreover have "owner (S ''call'') = HCall" by (simp add: owner_def)
  ultimately show ?thesis
    using glued_command_dispatched_twice [of "''call''" "S ''call''" 43
        "\<lparr>te_sender = 7, te_text = S ''/call+79261234555'', te_id = 1, te_voice = False, te_reply = None\<rparr>"
        "S ''79261234555''"]
    by (simp add: KNOWN_COMMANDS_def)
qed

end
