(* ===== verification/Contacts.thy ===== *)
theory Contacts
  imports Phone HotReload
begin

text \<open>
  \<open>core/contacts.py\<close>: the CSV cache of contact names, the built-in service numbers, and the resolver
  that asks a chain of providers. The interface \<open>ContactProvider\<close> is the locale
  \<open>contact_provider\<close>; it is interpreted on both providers and on their composition. The file is
  read as text with its lines stripped, so the kind of line end does not matter.
\<close>

section \<open>Providers\<close>

definition SERVICE_NUMBERS :: "(str, str) dict" where
  "SERVICE_NUMBERS =
     [(S ''+74957877777'', S ''SberBank''),
      (S ''+74957777777'', S ''SberBank Info''),
      (S ''900'', [1043, 1086, 1088, 1086, 1076, 1089, 1082, 1086, 1081, 32, 1089, 1087, 1088, 1072,
        1074, 1086, 1095, 1085, 1099, 1081]),
      (S ''112'', [1045, 1076, 1080, 1085, 1072, 1103, 32, 1089, 1083, 1091, 1078, 1073, 1072, 32,
        1089, 1087, 1072, 1089, 1077, 1085, 1080, 1103]),
      (S ''101'', [1055, 1086, 1083, 1080, 1094, 1080, 1103]),
      (S ''102'', [1055, 1086, 1078, 1072, 1088, 1085, 1099, 1077]),
      (S ''103'', [1057, 1082, 1086, 1088, 1072, 1103]),
      (S ''104'', [1043, 1072, 1079, 32, 1089, 1083, 1091, 1078, 1073, 1072])]"

definition service_lookup :: "str \<Rightarrow> str option" where
  "service_lookup number =
     (case dget SERVICE_NUMBERS number of
        Some name \<Rightarrow> Some name
      | None \<Rightarrow> (case normalize_e164 number of None \<Rightarrow> None | Some norm \<Rightarrow> dget SERVICE_NUMBERS norm))"

record csv_provider =
  cv_cache :: "(str, str) dict"
  cv_mtime :: int

text \<open>One line \<open>number,name\<close>: the key it is cached under and the name.\<close>
definition csv_line :: "str \<Rightarrow> (str \<times> str) option" where
  "csv_line line =
     (let stripped = strip line
      in if stripped = [] \<or> startswith stripped [35] then None
         else case split_at 44 stripped of
                None \<Rightarrow> None
              | Some (a, b) \<Rightarrow>
                  (let name = strip b
                   in if name = [] then None
                      else Some (case normalize_e164 (strip a) of Some num \<Rightarrow> num | None \<Rightarrow> strip a, name)))"

fun csv_fill :: "(str, str) dict \<Rightarrow> str list \<Rightarrow> (str, str) dict" where
  "csv_fill cache [] = cache"
| "csv_fill cache (l # ls) =
     (case csv_line l of None \<Rightarrow> csv_fill cache ls | Some (k, name) \<Rightarrow> csv_fill (dput k name cache) ls)"

definition csv_parse :: "str \<Rightarrow> (str, str) dict" where
  "csv_parse content = csv_fill [] (text_lines content)"

definition csv_load :: "str stored \<Rightarrow> csv_provider \<Rightarrow> csv_provider" where
  "csv_load f p =
     (case f of
        None \<Rightarrow> p
      | Some (m, content) \<Rightarrow>
          if m \<le> cv_mtime p then p else p\<lparr>cv_cache := csv_parse content, cv_mtime := m\<rparr>)"

definition new_csv_provider :: "str stored \<Rightarrow> csv_provider" where
  "new_csv_provider f = csv_load f \<lparr>cv_cache = [], cv_mtime = 0\<rparr>"

definition csv_reload :: "str stored \<Rightarrow> csv_provider \<Rightarrow> csv_provider" where
  "csv_reload f p = csv_load f (p\<lparr>cv_mtime := 0\<rparr>)"

definition csv_lookup :: "csv_provider \<Rightarrow> str \<Rightarrow> str option" where
  "csv_lookup p number =
     (case normalize_e164 number of
        Some norm \<Rightarrow> dget (cv_cache p) norm
      | None \<Rightarrow> dget (cv_cache p) number)"

section \<open>The resolver\<close>

text \<open>\<open>resolve\<close>: the first provider with a name that is not empty.\<close>
fun first_name :: "(str \<Rightarrow> str option) list \<Rightarrow> str \<Rightarrow> str option" where
  "first_name [] number = None"
| "first_name (p # ps) number =
     (case p number of
        Some name \<Rightarrow> if name \<noteq> [] then Some name else first_name ps number
      | None \<Rightarrow> first_name ps number)"

definition contact_providers :: "csv_provider \<Rightarrow> (str \<Rightarrow> str option) list \<Rightarrow> (str \<Rightarrow> str option) list" where
  "contact_providers csv extra = csv_lookup csv # extra @ [service_lookup]"

definition contact_resolve :: "csv_provider \<Rightarrow> (str \<Rightarrow> str option) list \<Rightarrow> str \<Rightarrow> str option" where
  "contact_resolve csv extra number = first_name (contact_providers csv extra) number"

section \<open>The provider interface\<close>

text \<open>A provider may not distinguish the spellings of one number.\<close>
locale contact_provider =
  fixes lookup :: "str \<Rightarrow> str option"
  assumes lookup_normal: "normalize_e164 number = Some norm \<Longrightarrow> lookup number = lookup norm"
begin

lemma lookup_spelling:
  "normalize_e164 a = Some n \<Longrightarrow> normalize_e164 b = Some n \<Longrightarrow> lookup a = lookup b"
  using lookup_normal by metis

text \<open>In front of a chain of such providers it makes such a provider again.\<close>
lemma chain_normal:
  assumes "\<And>n m. normalize_e164 n = Some m \<Longrightarrow> first_name ps n = first_name ps m"
    and "normalize_e164 number = Some norm"
  shows "first_name (lookup # ps) number = first_name (lookup # ps) norm"
  using assms by (simp add: lookup_normal split: option.split)

end

lemma normalize_again: "normalize_e164 a = Some n \<Longrightarrow> normalize_e164 n = Some n"
  by (intro normalize_e164_fixes_form normalize_e164_form)

lemma service_keys:
  "\<forall>k \<in> set (dkeys SERVICE_NUMBERS). length (digits_of k) < 7 \<or> (hd k = 43 \<and> decimals (tl k) \<and> length k = 12)"
  by (simp add: SERVICE_NUMBERS_def S_def digits_of_def is_decimal_def decimal_blocks_def)

lemma service_keys_normal:
  assumes "dget SERVICE_NUMBERS k = Some name" and "normalize_e164 k = Some n"
  shows "n = k"
proof -
  have "k \<in> set (dkeys SERVICE_NUMBERS)" using map_of_SomeD [OF assms(1)] by force
  moreover have "\<not> length (digits_of k) < 7" using assms(2) normalize_e164_short by fastforce
  ultimately have k: "hd k = 43" "decimals (tl k)" "length k = 12" using service_keys by auto
  then have "k = 43 # tl k" by (cases k) auto
  with k have "e164_form k" by (auto simp: e164_form_def intro!: exI [of _ "tl k"])
  then show ?thesis using assms(2) normalize_e164_fixes_form by simp
qed

interpretation service: contact_provider service_lookup
proof
  fix number norm
  assume n: "normalize_e164 number = Some norm"
  show "service_lookup number = service_lookup norm"
  proof (cases "dget SERVICE_NUMBERS number")
    case None
    with n show ?thesis
      by (simp add: service_lookup_def normalize_again [OF n] split: option.split)
  next
    case (Some name)
    with n service_keys_normal have "norm = number" by blast
    then show ?thesis by simp
  qed
qed

interpretation csv: contact_provider "csv_lookup p" for p
  by unfold_locales (simp add: csv_lookup_def normalize_again)

interpretation csvr: hot_reload cv_cache cv_mtime "\<lambda>c. Some (csv_parse c)" "\<lambda>m m'. m < m'" csv_load
  by unfold_locales (auto simp: csv_load_def)

lemma first_name_normal:
  assumes "\<forall>p \<in> set ps. contact_provider p" and "normalize_e164 number = Some norm"
  shows "first_name ps number = first_name ps norm"
  using assms(1)
proof (induction ps)
  case Nil
  then show ?case by simp
next
  case (Cons p ps)
  then have "p number = p norm" using contact_provider.lookup_normal assms(2) by (metis list.set_intros(1))
  with Cons show ?case by (simp split: option.split)
qed

interpretation resolver: contact_provider "contact_resolve p []" for p
proof
  fix number norm
  assume "normalize_e164 number = Some norm"
  moreover have "\<forall>q \<in> set (contact_providers p []). contact_provider q"
    by (simp add: contact_providers_def csv.contact_provider_axioms service.contact_provider_axioms)
  ultimately show "contact_resolve p [] number = contact_resolve p [] norm"
    unfolding contact_resolve_def by (intro first_name_normal)
qed

section \<open>Lemmas\<close>

lemma csv_fill_get:
  "dget (csv_fill cache ls) k =
     (case dget (rev (List.map_filter csv_line ls)) k of None \<Rightarrow> dget cache k | Some n \<Rightarrow> Some n)"
proof (induction ls arbitrary: cache)
  case Nil
  then show ?case by (simp add: List.map_filter_def)
next
  case (Cons l ls)
  then show ?case by (auto simp: List.map_filter_def map_add_Some_iff split: option.splits)
qed

lemma csv_line_name: "csv_line l = Some (k, name) \<Longrightarrow> name \<noteq> []"
  by (auto simp: csv_line_def Let_def split: if_splits option.splits)

lemma csv_parse_names:
  assumes "dget (csv_parse content) k = Some name"
  shows "name \<noteq> []"
proof -
  have "(k, name) \<in> set (List.map_filter csv_line (text_lines content))"
    using assms map_of_SomeD by (fastforce simp: csv_parse_def csv_fill_get split: option.splits)
  then show ?thesis using csv_line_name by (auto simp: set_map_filter_iff)
qed

text \<open>The entries of a file, in order: key and name of each usable line.\<close>
definition csv_entries :: "str \<Rightarrow> (str \<times> str) list" where
  "csv_entries content = List.map_filter csv_line (text_lines content)"

section \<open>Properties\<close>

text \<open>Whom a number belongs to does not depend on how it is written, and the file wins: a number
  with an entry in the contacts file gets the name of its last entry there, a number without one
  gets its service name or none.\<close>
theorem contact_resolution:
  assumes "normalize_e164 number = Some norm" and "0 < m"
  shows "contact_resolve (new_csv_provider (Some (m, content))) [] number =
     (case dget (rev (csv_entries content)) norm of
        Some name \<Rightarrow> Some name
      | None \<Rightarrow> dget SERVICE_NUMBERS norm)"
proof -
  let ?p = "new_csv_provider (Some (m, content))"
  have c: "cv_cache ?p = csv_parse content"
    using assms(2) by (simp add: new_csv_provider_def csv_load_def)
  have g: "dget (csv_parse content) norm = dget (rev (csv_entries content)) norm"
    by (simp add: csv_parse_def csv_fill_get csv_entries_def split: option.split)
  have s: "service_lookup norm = dget SERVICE_NUMBERS norm"
    using normalize_again [OF assms(1)] by (simp add: service_lookup_def split: option.split)
  have names: "name \<noteq> []" if "dget SERVICE_NUMBERS norm = Some name" for name
    using map_of_SomeD [OF that] by (auto simp: SERVICE_NUMBERS_def)
  have "contact_resolve ?p [] number = contact_resolve ?p [] norm"
    by (rule resolver.lookup_normal [OF assms(1)])
  also have "\<dots> = (case dget (csv_parse content) norm of
        Some name \<Rightarrow> Some name | None \<Rightarrow> dget SERVICE_NUMBERS norm)"
    using csv_parse_names [of content norm] names normalize_again [OF assms(1)]
    by (auto simp: contact_resolve_def contact_providers_def csv_lookup_def c s split: option.split)
  finally show ?thesis by (simp only: g)
qed

theorem contact_resolution_witness:
  "contact_resolve (new_csv_provider (Some (1, S ''+74957877777,Bank''))) [] (S ''84957877777'') = Some (S ''Bank'')"
proof -
  have n: "normalize_e164 (S ''84957877777'') = Some (S ''+74957877777'')"
    "normalize_e164 (S ''+74957877777'') = Some (S ''+74957877777'')"
    by (simp_all add: S_def normalize_e164_def Let_def strip_def lstrip_def rstrip_def e164_match_def
        digits_to_end_def is_space_def space_points_def digits_of_def is_decimal_def decimal_blocks_def)
  have l: "csv_line (S ''+74957877777,Bank'') = Some (S ''+74957877777'', S ''Bank'')"
    using n(2) by (simp add: S_def csv_line_def Let_def strip_def lstrip_def rstrip_def
        is_space_def space_points_def)
  have t: "text_lines (S ''+74957877777,Bank'') = [S ''+74957877777,Bank'']"
    by (simp add: text_lines_def S_def)
  have e: "csv_entries (S ''+74957877777,Bank'') = [(S ''+74957877777'', S ''Bank'')]"
    by (simp add: csv_entries_def t l List.map_filter_def)
  have p: "(0::int) < 1" by simp
  show ?thesis using contact_resolution [OF n(1) p, of "S ''+74957877777,Bank''"] by (simp add: e)
qed

text \<open>Against the description "auto-reloads when the file changes", a lookup never reads the file.
  What a provider answers is fixed by the file it was constructed on, until \<open>reload\<close> is called,
  which nothing in the program does.\<close>
theorem contacts_never_reloaded:
  assumes "m' > m" and "m > 0" and "csv_parse new \<noteq> csv_parse content"
  shows "csv_lookup (new_csv_provider (Some (m, content))) number =
       (case normalize_e164 number of
          Some norm \<Rightarrow> dget (csv_parse content) norm | None \<Rightarrow> dget (csv_parse content) number)
     \<and> cv_cache (csv_reload (Some (m', new)) (new_csv_provider (Some (m, content)))) = csv_parse new"
  using assms by (simp add: csv_lookup_def new_csv_provider_def csv_load_def csv_reload_def split: option.split)

theorem contacts_never_reloaded_witness:
  "cv_cache (csv_reload (Some (2, S ''900,X'')) (new_csv_provider (Some (1, [])))) = csv_parse (S ''900,X'')"
proof -
  have "csv_parse (S ''900,X'') \<noteq> csv_parse []"
    by (simp add: csv_parse_def text_lines_def S_def csv_line_def Let_def strip_def lstrip_def
        rstrip_def is_space_def space_points_def split: option.split)
  then show ?thesis using contacts_never_reloaded [of 1 2 "S ''900,X''" "[]"] by simp
qed

end
