(* ===== verification/UserContacts.thy ===== *)
theory UserContacts
  imports Phone HotReload
begin

text \<open>
  \<open>core/user_contacts.py\<close>: the phonebook of each Telegram user, in one JSON file.

  The file is modelled by the JSON value it parses to (\<open>None\<close> when it does not parse); writing puts
  the value of the store back. An entry is the JSON object found in the file, so its name and its
  number need not be texts: the operations that treat them as texts raise then.
\<close>

section \<open>The store\<close>

type_synonym contact = "(str \<times> json) list"

record user_contacts =
  uc_data :: "(str, contact list) dict"
  uc_mtime :: int

type_synonym contacts_file = "json option stored"

definition has_field :: "string \<Rightarrow> contact \<Rightarrow> bool" where
  "has_field k e \<longleftrightarrow> (case dget e (S k) of None \<Rightarrow> False | Some v \<Rightarrow> truthy v)"

fun as_contact :: "json \<Rightarrow> contact option" where
  "as_contact (JObj e) = (if has_field ''name'' e \<and> has_field ''number'' e then Some e else None)"
| "as_contact _ = None"

text \<open>The usable part of the file: users with at least one complete entry.\<close>
fun uc_clean :: "(str \<times> json) list \<Rightarrow> (str, contact list) dict \<Rightarrow> (str, contact list) dict" where
  "uc_clean [] clean = clean"
| "uc_clean ((uid, JList es) # rest) clean =
     (let entries = List.map_filter as_contact es
      in uc_clean rest (if entries = [] then clean else dput uid entries clean))"
| "uc_clean (_ # rest) clean = uc_clean rest clean"

fun uc_parse :: "json option \<Rightarrow> (str, contact list) dict option" where
  "uc_parse (Some (JObj d)) = Some (uc_clean d [])"
| "uc_parse _ = None"

definition uc_reload :: "contacts_file \<Rightarrow> user_contacts \<Rightarrow> user_contacts" where
  "uc_reload f u =
     (case f of
        None \<Rightarrow> u
      | Some (m, content) \<Rightarrow>
          if m \<le> uc_mtime u then u
          else case uc_parse content of
                 None \<Rightarrow> u
               | Some clean \<Rightarrow> u\<lparr>uc_data := clean, uc_mtime := m\<rparr>)"

definition new_user_contacts :: "contacts_file \<Rightarrow> user_contacts" where
  "new_user_contacts f = uc_reload f \<lparr>uc_data = [], uc_mtime = 0\<rparr>"

section \<open>Reading\<close>

definition uc_entries :: "user_contacts \<Rightarrow> int \<Rightarrow> contact list" where
  "uc_entries u uid = (case dget (uc_data u) (int_text uid) of None \<Rightarrow> [] | Some es \<Rightarrow> es)"

definition uc_get :: "contacts_file \<Rightarrow> int \<Rightarrow> user_contacts \<Rightarrow> contact list \<times> user_contacts" where
  "uc_get f uid u = (let u' = uc_reload f u in (uc_entries u' uid, u'))"

definition uc_count :: "contacts_file \<Rightarrow> int \<Rightarrow> user_contacts \<Rightarrow> nat \<times> user_contacts" where
  "uc_count f uid u = (case uc_get f uid u of (es, u') \<Rightarrow> (length es, u'))"

definition uc_users :: "contacts_file \<Rightarrow> user_contacts \<Rightarrow> (http_error + int list) \<times> user_contacts" where
  "uc_users f u =
     (let u' = uc_reload f u; ids = map parse_int (dkeys (uc_data u'))
      in (if None \<in> set ids then Inl (Unhandled (S ''ValueError'')) else Inr (sort (map the ids)), u'))"

text \<open>\<open>e["name"]\<close> and \<open>e["number"]\<close>: present in every entry of the store.\<close>
definition e_field :: "string \<Rightarrow> contact \<Rightarrow> json" where
  "e_field k e = (case dget e (S k) of None \<Rightarrow> JNull | Some v \<Rightarrow> v)"

definition is_number :: "str \<Rightarrow> contact \<Rightarrow> bool" where
  "is_number number e \<longleftrightarrow>
     e_field ''number'' e = JStr number
     \<or> (case normalize_e164 number of None \<Rightarrow> False | Some norm \<Rightarrow> e_field ''number'' e = JStr norm)"

definition resolve_number ::
    "contacts_file \<Rightarrow> int \<Rightarrow> str \<Rightarrow> user_contacts \<Rightarrow> json option \<times> user_contacts" where
  "resolve_number f uid number u =
     (if number = [] then (None, u)
      else case uc_get f uid u of
             (es, u') \<Rightarrow> (map_option (e_field ''name'') (List.find (is_number number) es), u'))"

fun as_str :: "json \<Rightarrow> str option" where
  "as_str (JStr s) = Some s"
| "as_str _ = None"

definition AttributeError :: "http_error + 'a" where
  "AttributeError = Inl (Unhandled (S ''AttributeError''))"

definition name_of :: "contact \<Rightarrow> str" where
  "name_of e = (case as_str (e_field ''name'' e) of None \<Rightarrow> [] | Some s \<Rightarrow> s)"

definition number_of :: "contact \<Rightarrow> str" where
  "number_of e = (case as_str (e_field ''number'' e) of None \<Rightarrow> [] | Some s \<Rightarrow> s)"

text \<open>The tiers of \<open>find_by_name\<close> for a query that is already stripped and folded.\<close>
definition name_tiers :: "str \<Rightarrow> contact list \<Rightarrow> contact list" where
  "name_tiers q es =
     (let exact = filter (\<lambda>e. casefold (name_of e) = q) es;
          prefixed = filter (\<lambda>e. startswith (casefold (name_of e)) q) es
      in if exact \<noteq> [] then exact
         else if prefixed \<noteq> [] then prefixed
         else filter (\<lambda>e. occurs_in q (casefold (name_of e))) es)"

definition find_by_name ::
    "contacts_file \<Rightarrow> int \<Rightarrow> str \<Rightarrow> user_contacts \<Rightarrow> (http_error + contact list) \<times> user_contacts" where
  "find_by_name f uid query u =
     (let q = casefold (strip query)
      in if q = [] then (Inr [], u)
         else case uc_get f uid u of
                (es, u') \<Rightarrow>
                  (if \<exists>e \<in> set es. as_str (e_field ''name'' e) = None then AttributeError
                   else Inr (name_tiers q es), u'))"

section \<open>Writing\<close>

text \<open>How a write ends: at a new modification time, written but not read back, or not written.\<close>
datatype store_write =
    StoreOk int
  | StoreNoStat int
  | StoreFails

definition clean_entry :: "(json \<Rightarrow> str) \<Rightarrow> contact \<Rightarrow> contact option" where
  "clean_entry py_repr e =
     (let get = (\<lambda>k. case dget e (S k) of None \<Rightarrow> [] | Some v \<Rightarrow> strip (py_str py_repr v))
      in if get ''name'' \<noteq> [] \<and> get ''number'' \<noteq> []
         then Some [(S ''name'', JStr (get ''name'')), (S ''number'', JStr (get ''number''))] else None)"

definition uc_snapshot :: "(str, contact list) dict \<Rightarrow> json" where
  "uc_snapshot data = JObj (map (\<lambda>(k, es). (k, JList (map JObj es))) data)"

definition replace_for ::
    "(json \<Rightarrow> str) \<Rightarrow> store_write \<Rightarrow> contacts_file \<Rightarrow> int \<Rightarrow> contact list \<Rightarrow> user_contacts
     \<Rightarrow> (http_error + nat) \<times> contacts_file \<times> user_contacts" where
  "replace_for py_repr w f uid entries u =
     (let clean = List.map_filter (clean_entry py_repr) entries;
          data = (if clean \<noteq> [] then dput (int_text uid) clean (uc_data u) else dpop (int_text uid) (uc_data u));
          u' = u\<lparr>uc_data := data\<rparr>;
          content = Some (uc_snapshot data)
      in case w of
           StoreOk m \<Rightarrow> (Inr (length clean), Some (m, content), u'\<lparr>uc_mtime := m\<rparr>)
         | StoreNoStat m \<Rightarrow> (Inr (length clean), Some (m, content), u')
         | StoreFails \<Rightarrow> (Inl (Unhandled (S ''OSError'')), f, u'))"

datatype add_result =
    Added str
  | NumberExists json
  | NameExists json
  | AddInvalid str

text \<open>The two duplicate checks; \<open>None\<close> inside means that there is no duplicate.\<close>
fun same_number :: "str \<Rightarrow> contact list \<Rightarrow> http_error + contact option" where
  "same_number norm [] = Inr None"
| "same_number norm (e # es) =
     (case as_str (e_field ''number'' e) of
        None \<Rightarrow> AttributeError
      | Some n \<Rightarrow>
          if (case parse_destination (Some n) of None \<Rightarrow> n | Some d \<Rightarrow> d_number d) = norm
          then Inr (Some e) else same_number norm es)"

fun same_name :: "str \<Rightarrow> contact list \<Rightarrow> http_error + contact option" where
  "same_name name [] = Inr None"
| "same_name name (e # es) =
     (case as_str (e_field ''name'' e) of
        None \<Rightarrow> AttributeError
      | Some n \<Rightarrow> if casefold n = casefold name then Inr (Some e) else same_name name es)"

definition single_token :: "str \<Rightarrow> str" where
  "single_token name = replace_cp 32 95 (strip name)"

definition new_contact :: "str \<Rightarrow> str \<Rightarrow> contact" where
  "new_contact name number = [(S ''name'', JStr name), (S ''number'', JStr number)]"

definition add_unique ::
    "(json \<Rightarrow> str) \<Rightarrow> store_write \<Rightarrow> contacts_file \<Rightarrow> int \<Rightarrow> str \<Rightarrow> str \<Rightarrow> user_contacts
     \<Rightarrow> (http_error + add_result) \<times> contacts_file \<times> user_contacts" where
  "add_unique py_repr w f uid raw_name raw_number u =
     (let name = single_token raw_name; number = strip raw_number
      in if name = [] then (Inr (AddInvalid (S ''no name'')), f, u)
         else case parse_destination (Some number) of
                None \<Rightarrow> (Inr (AddInvalid (S ''bad number'')), f, u)
              | Some dest \<Rightarrow>
                  (case uc_get f uid u of
                     (entries, u1) \<Rightarrow>
                       (case same_number (d_number dest) entries of
                          Inl e \<Rightarrow> (Inl e, f, u1)
                        | Inr (Some e) \<Rightarrow> (Inr (NumberExists (e_field ''name'' e)), f, u1)
                        | Inr None \<Rightarrow>
                            (case same_name name entries of
                               Inl e \<Rightarrow> (Inl e, f, u1)
                             | Inr (Some e) \<Rightarrow> (Inr (NameExists (e_field ''number'' e)), f, u1)
                             | Inr None \<Rightarrow>
                                 (case replace_for py_repr w f uid
                                         (entries @ [new_contact name (d_number dest)]) u1 of
                                    (Inl e, f2, u2) \<Rightarrow> (Inl e, f2, u2)
                                  | (Inr _, f2, u2) \<Rightarrow> (Inr (Added (d_number dest)), f2, u2))))))"

definition delete_matching ::
    "(json \<Rightarrow> str) \<Rightarrow> store_write \<Rightarrow> contacts_file \<Rightarrow> int \<Rightarrow> (contact \<Rightarrow> bool) \<Rightarrow> contact list
     \<Rightarrow> user_contacts \<Rightarrow> (http_error + nat) \<times> contacts_file \<times> user_contacts" where
  "delete_matching py_repr w f uid gone entries u1 =
     (let kept = filter (\<lambda>e. \<not> gone e) entries; removed = length entries - length kept
      in if removed = 0 then (Inr 0, f, u1)
         else case replace_for py_repr w f uid kept u1 of
                (Inl e, f2, u2) \<Rightarrow> (Inl e, f2, u2)
              | (Inr _, f2, u2) \<Rightarrow> (Inr removed, f2, u2))"

definition delete_by_number ::
    "(json \<Rightarrow> str) \<Rightarrow> store_write \<Rightarrow> contacts_file \<Rightarrow> int \<Rightarrow> str \<Rightarrow> user_contacts
     \<Rightarrow> (http_error + nat) \<times> contacts_file \<times> user_contacts" where
  "delete_by_number py_repr w f uid number u =
     (if number = [] then (Inr 0, f, u)
      else case uc_get f uid u of
             (entries, u1) \<Rightarrow> delete_matching py_repr w f uid (is_number number) entries u1)"

definition delete_by_name ::
    "(json \<Rightarrow> str) \<Rightarrow> store_write \<Rightarrow> contacts_file \<Rightarrow> int \<Rightarrow> str \<Rightarrow> user_contacts
     \<Rightarrow> (http_error + nat) \<times> contacts_file \<times> user_contacts" where
  "delete_by_name py_repr w f uid name u =
     (let target = casefold (strip name)
      in if target = [] then (Inr 0, f, u)
         else case uc_get f uid u of
                (entries, u1) \<Rightarrow>
                  (if \<exists>e \<in> set entries. as_str (e_field ''name'' e) = None then (AttributeError, f, u1)
                   else delete_matching py_repr w f uid (\<lambda>e. casefold (name_of e) = target) entries u1))"

interpretation ucr: hot_reload uc_data uc_mtime uc_parse "\<lambda>m m'. m < m'" uc_reload
  by unfold_locales (auto simp: uc_reload_def)

section \<open>Well-formed phonebooks\<close>

text \<open>An entry as the store itself writes it: a single-token name and a canonical dial number.\<close>
definition dialable :: "str \<Rightarrow> bool" where
  "dialable n \<longleftrightarrow> (\<exists>d. parse_destination (Some n) = Some d \<and> d_number d = n)"

definition entry_ok :: "contact \<Rightarrow> bool" where
  "entry_ok e \<longleftrightarrow> (\<exists>n m. e = new_contact n m \<and> n \<noteq> [] \<and> strip n = n \<and> dialable m)"

definition directory_ok :: "contact list \<Rightarrow> bool" where
  "directory_ok es \<longleftrightarrow> (\<forall>e \<in> set es. entry_ok e)
     \<and> distinct (map (\<lambda>e. casefold (name_of e)) es) \<and> distinct (map number_of es)"

definition phonebook_ok :: "user_contacts \<Rightarrow> bool" where
  "phonebook_ok u \<longleftrightarrow> dict_wf (uc_data u)
     \<and> (\<forall>k es. dget (uc_data u) k = Some es \<longrightarrow> es \<noteq> [] \<and> directory_ok es)"

text \<open>The file holds nothing newer than the memory, or the same.\<close>
definition file_agrees :: "contacts_file \<Rightarrow> user_contacts \<Rightarrow> bool" where
  "file_agrees f u \<longleftrightarrow>
     (case f of None \<Rightarrow> True | Some (m, c) \<Rightarrow> m \<le> uc_mtime u \<or> uc_parse c = Some (uc_data u))"

lemma S_field [simp]: "S ''name'' \<noteq> S ''number''" "S ''number'' \<noteq> S ''name''"
  by simp_all

lemma contact_fields [simp]:
  "e_field ''name'' (new_contact n m) = JStr n" "e_field ''number'' (new_contact n m) = JStr m"
  "name_of (new_contact n m) = n" "number_of (new_contact n m) = m"
  by (simp_all add: new_contact_def e_field_def name_of_def number_of_def)

lemma dialable_stripped: "dialable m \<Longrightarrow> strip m = m \<and> m \<noteq> []"
proof -
  assume "dialable m"
  then obtain d where d: "parse_destination (Some m) = Some d" "d_number d = m" by (auto simp: dialable_def)
  then have "allowed_form m d"
    using allowed_form_number parse_destination_iff by metis
  then show ?thesis by (auto dest: allowed_form_stripped elim!: allowed_formE)
qed

lemma parsed_dialable: "parse_destination raw = Some d \<Longrightarrow> dialable (d_number d)"
  using reparse_number by (auto simp: dialable_def)

lemma clean_entry_ok: "entry_ok e \<Longrightarrow> clean_entry py_repr e = Some e"
  by (auto simp: entry_ok_def clean_entry_def new_contact_def Let_def dest: dialable_stripped)

lemma map_filter_id: "(\<And>x. x \<in> set xs \<Longrightarrow> f x = Some x) \<Longrightarrow> List.map_filter f xs = xs"
  by (induction xs) (auto simp: List.map_filter_def)

lemma clean_ok: "\<forall>e \<in> set es. entry_ok e \<Longrightarrow> List.map_filter (clean_entry py_repr) es = es"
  by (intro map_filter_id) (auto simp: clean_entry_ok)

lemma entry_ok_complete: "entry_ok e \<Longrightarrow> as_contact (JObj e) = Some e"
  by (auto simp: entry_ok_def has_field_def new_contact_def dest: dialable_stripped)

lemma entry_ok_strings:
  "entry_ok e \<Longrightarrow> e_field ''name'' e = JStr (name_of e) \<and> e_field ''number'' e = JStr (number_of e)"
  by (auto simp: entry_ok_def)

section \<open>Reading back\<close>

lemma uc_clean_snapshot:
  assumes "dict_wf (clean @ data)" and "\<forall>(k, es) \<in> set data. es \<noteq> [] \<and> (\<forall>e \<in> set es. entry_ok e)"
  shows "uc_clean (map (\<lambda>(k, es). (k, JList (map JObj es))) data) clean = clean @ data"
  using assms
proof (induction data arbitrary: clean)
  case Nil
  then show ?case by simp
next
  case (Cons p data)
  obtain k es where p: "p = (k, es)" by fastforce
  have es: "es \<noteq> []" "\<forall>e \<in> set es. entry_ok e" using Cons.prems(2) p by auto
  have "List.map_filter as_contact (map JObj es) = es"
    using es(2) by (induction es) (auto simp: List.map_filter_def entry_ok_complete simp del: as_contact.simps)
  moreover have "dget clean k = None"
    using Cons.prems(1) p by (auto simp: dict_wf_def map_of_eq_None_iff)
  ultimately show ?case
    using Cons p es by (simp add: Let_def dput_fresh)
qed

lemma uc_parse_snapshot:
  assumes "phonebook_ok u"
  shows "uc_parse (Some (uc_snapshot (uc_data u))) = Some (uc_data u)"
proof -
  have "\<forall>(k, es) \<in> set (uc_data u). es \<noteq> [] \<and> (\<forall>e \<in> set es. entry_ok e)"
    using assms dict_wf_mem [of "uc_data u"] by (fastforce simp: phonebook_ok_def directory_ok_def)
  then show ?thesis
    using assms uc_clean_snapshot [of "[]" "uc_data u"] by (simp add: uc_snapshot_def phonebook_ok_def)
qed

lemma reload_agrees:
  assumes "file_agrees f u"
  shows "uc_data (uc_reload f u) = uc_data u" "file_agrees f (uc_reload f u)"
  using assms by (auto simp: uc_reload_def file_agrees_def split: option.splits)

lemma uc_get_agrees:
  assumes "file_agrees f u" and "uc_get f uid u = (es, u1)"
  shows "es = uc_entries u uid" "uc_data u1 = uc_data u" "file_agrees f u1"
  using assms reload_agrees [OF assms(1)] by (auto simp: uc_get_def Let_def uc_entries_def)

lemma phonebook_data: "phonebook_ok u \<Longrightarrow> uc_data u' = uc_data u \<Longrightarrow> phonebook_ok u'"
  by (simp add: phonebook_ok_def)

lemma entries_ok: "phonebook_ok u \<Longrightarrow> directory_ok (uc_entries u uid)"
  by (cases "dget (uc_data u) (int_text uid)") (auto simp: phonebook_ok_def uc_entries_def directory_ok_def)

section \<open>Writing\<close>

lemma replace_for_ok:
  assumes "phonebook_ok u" and "directory_ok es" and "replace_for py_repr w f uid es u = (r, f', u')"
  shows "uc_data u' = (if es \<noteq> [] then dput (int_text uid) es (uc_data u) else dpop (int_text uid) (uc_data u))"
    and "phonebook_ok u'"
    and "w = StoreFails \<Longrightarrow> r = Inl (Unhandled (S ''OSError'')) \<and> f' = f \<and> uc_mtime u' = uc_mtime u"
    and "w \<noteq> StoreFails \<Longrightarrow> r = Inr (length es) \<and>
        (\<exists>m. (w = StoreOk m \<or> w = StoreNoStat m) \<and> f' = Some (m, Some (uc_snapshot (uc_data u'))))"
proof -
  have c: "List.map_filter (clean_entry py_repr) es = es"
    using assms(2) by (intro clean_ok) (auto simp: directory_ok_def)
  show d: "uc_data u' = (if es \<noteq> [] then dput (int_text uid) es (uc_data u) else dpop (int_text uid) (uc_data u))"
    using assms(3) by (auto simp: replace_for_def Let_def c split: store_write.splits)
  then show "phonebook_ok u'"
    using assms(1,2) by (auto simp: phonebook_ok_def split: if_splits)
  show "w = StoreFails \<Longrightarrow> r = Inl (Unhandled (S ''OSError'')) \<and> f' = f \<and> uc_mtime u' = uc_mtime u"
    using assms(3) by (auto simp: replace_for_def Let_def)
  show "w \<noteq> StoreFails \<Longrightarrow> r = Inr (length es) \<and>
        (\<exists>m. (w = StoreOk m \<or> w = StoreNoStat m) \<and> f' = Some (m, Some (uc_snapshot (uc_data u'))))"
    using assms(3) by (auto simp: replace_for_def Let_def c split: store_write.splits)
qed

lemma replace_for_agrees:
  assumes "phonebook_ok u" and "directory_ok es" and "replace_for py_repr w f uid es u = (r, f', u')"
    and "file_agrees f u" and "w = StoreFails \<Longrightarrow> uc_reload f u = u"
  shows "file_agrees f' u'"
proof (cases "w = StoreFails")
  case True
  with replace_for_ok(3) [OF assms(1-3)] have "f' = f" "uc_mtime u' = uc_mtime u" by auto
  moreover have "case f of None \<Rightarrow> True | Some (m, c) \<Rightarrow> m \<le> uc_mtime u \<or> uc_parse c = None"
    using arg_cong [OF assms(5) [OF True], of uc_mtime] by (auto simp: uc_reload_def split: option.splits if_splits)
  ultimately show ?thesis
    using assms(4) by (auto simp: file_agrees_def split: option.splits)
next
  case False
  with replace_for_ok(4) [OF assms(1-3)] obtain m where "f' = Some (m, Some (uc_snapshot (uc_data u')))" by auto
  moreover have "phonebook_ok u'" by (rule replace_for_ok(2) [OF assms(1-3)])
  ultimately show ?thesis by (simp add: file_agrees_def uc_parse_snapshot)
qed

lemma reload_reloaded: "uc_get f uid u = (es, u1) \<Longrightarrow> uc_reload f u1 = u1"
  by (auto simp: uc_get_def Let_def ucr.reload_idempotent)

lemma same_number_ok:
  "\<forall>e \<in> set es. entry_ok e \<Longrightarrow> same_number norm es = Inr (List.find (\<lambda>e. number_of e = norm) es)"
proof (induction es)
  case Nil
  then show ?case by simp
next
  case (Cons e es)
  then obtain n m d where "e = new_contact n m" "parse_destination (Some m) = Some d" "d_number d = m"
    by (auto simp: entry_ok_def dialable_def)
  with Cons show ?case by simp
qed

lemma same_name_ok:
  "\<forall>e \<in> set es. entry_ok e \<Longrightarrow>
     same_name name es = Inr (List.find (\<lambda>e. casefold (name_of e) = casefold name) es)"
  by (induction es) (auto simp: entry_ok_def)

lemma single_token_ok: "single_token raw \<noteq> [] \<Longrightarrow> strip (single_token raw) = single_token raw"
proof (intro strip_no_space)
  let ?f = "\<lambda>c::cp. if c = 32 then 95 else c"
  have f: "\<not> is_space c \<Longrightarrow> \<not> is_space (?f c)" for c by (auto simp: is_space_def space_points_def)
  assume ne: "single_token raw \<noteq> []"
  then have ne': "strip raw \<noteq> []" by (auto simp: single_token_def replace_cp_def)
  show "\<not> is_space (hd (single_token raw))"
    using f [OF hd_strip [OF ne']] ne' unfolding single_token_def replace_cp_def by (simp only: hd_map not_False_eq_True)
  show "\<not> is_space (last (single_token raw))"
    using f [OF last_strip [OF ne']] ne' unfolding single_token_def replace_cp_def by (simp only: last_map not_False_eq_True)
qed

section \<open>The operations\<close>

abbreviation OSError :: http_error where
  "OSError \<equiv> Unhandled (S ''OSError'')"

lemma find_snoc: "(\<And>x. x \<in> set xs \<Longrightarrow> \<not> P x) \<Longrightarrow> P y \<Longrightarrow> List.find P (xs @ [y]) = Some y"
  by (induction xs) auto

lemma directory_ok_add:
  assumes "directory_ok es" and "List.find (\<lambda>e. number_of e = m) es = None"
    and "List.find (\<lambda>e. casefold (name_of e) = casefold n) es = None"
    and "n \<noteq> []" and "strip n = n" and "dialable m"
  shows "directory_ok (es @ [new_contact n m])"
  using assms by (auto simp: directory_ok_def find_None_iff entry_ok_def)

lemma directory_ok_filter: "directory_ok es \<Longrightarrow> directory_ok (filter P es)"
  by (auto simp: directory_ok_def distinct_map_filter)

lemma add_unique_ok:
  assumes ok: "phonebook_ok u" and ag: "file_agrees f u"
    and add: "add_unique py_repr w f uid raw number u = (r, f', u')"
  shows "phonebook_ok u' \<and> file_agrees f' u' \<and> (\<forall>e. r = Inl e \<longrightarrow> e = OSError)
     \<and> (\<forall>x. r = Inr (Added x) \<longrightarrow>
          (\<exists>d. parse_destination (Some (strip number)) = Some d \<and> x = d_number d)
          \<and> directory_ok (uc_entries u uid @ [new_contact (single_token raw) x])
          \<and> uc_data u' = dput (int_text uid) (uc_entries u uid @ [new_contact (single_token raw) x]) (uc_data u)
          \<and> (\<exists>m. (w = StoreOk m \<or> w = StoreNoStat m) \<and> f' = Some (m, Some (uc_snapshot (uc_data u')))))"
proof (cases "single_token raw = [] \<or> parse_destination (Some (strip number)) = None")
  case True
  with add ok ag show ?thesis by (auto simp: add_unique_def Let_def split: if_splits)
next
  case False
  then obtain d where d: "parse_destination (Some (strip number)) = Some d" and n: "single_token raw \<noteq> []" by auto
  obtain es u1 where g: "uc_get f uid u = (es, u1)" by fastforce
  note es = uc_get_agrees [OF ag g]
  have dir: "directory_ok es" using entries_ok [OF ok] es(1) by simp
  then have all: "\<forall>e \<in> set es. entry_ok e" by (simp add: directory_ok_def)
  have ok1: "phonebook_ok u1" using phonebook_data [OF ok es(2)] .
  note dup = same_number_ok [OF all, of "d_number d"] same_name_ok [OF all, of "single_token raw"]
  show ?thesis
  proof (cases "List.find (\<lambda>e. number_of e = d_number d) es = None
        \<and> List.find (\<lambda>e. casefold (name_of e) = casefold (single_token raw)) es = None")
    case False
    with add d n g dup ok1 es(3) show ?thesis
      by (auto simp: add_unique_def Let_def split: option.splits)
  next
    case True
    let ?es = "es @ [new_contact (single_token raw) (d_number d)]"
    have dir': "directory_ok ?es"
      using directory_ok_add [OF dir] True n single_token_ok [OF n] parsed_dialable [OF d] by blast
    obtain r2 where rep: "replace_for py_repr w f uid ?es u1 = (r2, f', u')"
      and r: "r = (case r2 of Inl e \<Rightarrow> Inl e | Inr _ \<Rightarrow> Inr (Added (d_number d)))"
      using add True d n g dup by (auto simp: add_unique_def Let_def split: sum.splits prod.splits)
    note ok' = replace_for_ok [OF ok1 dir' rep]
    have "file_agrees f' u'"
      by (rule replace_for_agrees [OF ok1 dir' rep es(3)]) (rule reload_reloaded [OF g])
    note agrees = this
    show ?thesis
    proof (cases "w = StoreFails")
      case True
      with ok'(3) r have "r = Inl OSError" by simp
      with agrees ok'(2) show ?thesis by simp
    next
      case False
      from ok'(4) [OF False] obtain m where m: "w = StoreOk m \<or> w = StoreNoStat m"
        "f' = Some (m, Some (uc_snapshot (uc_data u')))" and "r2 = Inr (length ?es)" by blast
      then have "r = Inr (Added (d_number d))" using r by simp
      moreover have "uc_data u' = dput (int_text uid) ?es (uc_data u)" using ok'(1) es(2) by simp
      ultimately show ?thesis using agrees ok'(2) d dir' m es(1) by auto
    qed
  qed
qed

lemma delete_matching_ok:
  assumes ok: "phonebook_ok u" and ag: "file_agrees f u" and g: "uc_get f uid u = (es, u1)"
    and del: "delete_matching py_repr w f uid gone es u1 = (r, f', u')"
  shows "phonebook_ok u' \<and> file_agrees f' u' \<and> (\<forall>e. r = Inl e \<longrightarrow> e = OSError)
     \<and> (\<forall>n. r = Inr n \<longrightarrow> n = length (filter gone (uc_entries u uid))
          \<and> uc_entries u' uid = filter (\<lambda>e. \<not> gone e) (uc_entries u uid)
          \<and> (\<forall>other. other \<noteq> uid \<longrightarrow> uc_entries u' other = uc_entries u other))"
proof -
  note es = uc_get_agrees [OF ag g]
  let ?kept = "filter (\<lambda>e. \<not> gone e) es"
  have len: "length es = length (filter gone es) + length ?kept"
    using sum_length_filter_compl [of gone es] by simp
  have ok1: "phonebook_ok u1" using phonebook_data [OF ok es(2)] .
  show ?thesis
  proof (cases "filter gone es = []")
    case True
    then have "?kept = es" using len by (simp add: filter_id_conv filter_empty_conv)
    with True del ok1 es show ?thesis
      by (auto simp: delete_matching_def Let_def uc_entries_def)
  next
    case False
    then have "length es - length ?kept \<noteq> 0" using len by simp
    then obtain r2 where rep: "replace_for py_repr w f uid ?kept u1 = (r2, f', u')"
      and r: "r = (case r2 of Inl e \<Rightarrow> Inl e | Inr _ \<Rightarrow> Inr (length es - length ?kept))"
      using del by (auto simp: delete_matching_def Let_def split: sum.splits prod.splits)
    have dir: "directory_ok ?kept" using entries_ok [OF ok] es(1) by (auto intro: directory_ok_filter)
    note ok' = replace_for_ok [OF ok1 dir rep]
    have "file_agrees f' u'"
      by (rule replace_for_agrees [OF ok1 dir rep es(3)]) (rule reload_reloaded [OF g])
    moreover have "\<forall>e. r = Inl e \<longrightarrow> e = OSError"
      using ok'(3,4) r by (cases "w = StoreFails"; auto split: sum.splits)
    moreover have "uc_entries u' uid = ?kept" "other \<noteq> uid \<Longrightarrow> uc_entries u' other = uc_entries u other" for other
      using ok'(1) es(2) by (auto simp: uc_entries_def)
    ultimately show ?thesis using ok'(2) r len es(1) by (auto split: sum.splits)
  qed
qed

lemma delete_by_number_ok:
  assumes "phonebook_ok u" and "file_agrees f u"
    and "delete_by_number py_repr w f uid number u = (r, f', u')"
  shows "phonebook_ok u' \<and> file_agrees f' u' \<and> (\<forall>e. r = Inl e \<longrightarrow> e = OSError)
     \<and> (\<forall>n. r = Inr n \<longrightarrow> number \<noteq> [] \<longrightarrow> n = length (filter (is_number number) (uc_entries u uid))
          \<and> uc_entries u' uid = filter (\<lambda>e. \<not> is_number number e) (uc_entries u uid)
          \<and> (\<forall>other. other \<noteq> uid \<longrightarrow> uc_entries u' other = uc_entries u other))"
proof (cases "number = []")
  case True
  with assms show ?thesis by (auto simp: delete_by_number_def)
next
  case False
  obtain es u1 where g: "uc_get f uid u = (es, u1)" by fastforce
  with False assms(3) have "delete_matching py_repr w f uid (is_number number) es u1 = (r, f', u')"
    by (simp add: delete_by_number_def)
  from delete_matching_ok [OF assms(1,2) g this] show ?thesis by blast
qed

lemma delete_by_name_ok:
  assumes "phonebook_ok u" and "file_agrees f u"
    and "delete_by_name py_repr w f uid name u = (r, f', u')"
  shows "phonebook_ok u' \<and> file_agrees f' u' \<and> (\<forall>e. r = Inl e \<longrightarrow> e = OSError)"
proof (cases "casefold (strip name) = []")
  case True
  with assms show ?thesis by (auto simp: delete_by_name_def)
next
  case False
  obtain es u1 where g: "uc_get f uid u = (es, u1)" by fastforce
  have "\<forall>e \<in> set es. as_str (e_field ''name'' e) \<noteq> None"
    using entries_ok [OF assms(1), of uid] uc_get_agrees(1) [OF assms(2) g]
    by (auto simp: directory_ok_def entry_ok_def)
  with False assms(3) g
  have "delete_matching py_repr w f uid (\<lambda>e. casefold (name_of e) = casefold (strip name)) es u1 = (r, f', u')"
    by (auto simp: delete_by_name_def Let_def)
  from delete_matching_ok [OF assms(1,2) g this] show ?thesis by blast
qed

text \<open>An entry just added is found by its number and by its name.\<close>
lemma added_entry_found:
  assumes "phonebook_ok u" and "file_agrees f u"
    and "add_unique py_repr w f uid raw number u = (Inr (Added n), f', u')"
    and "casefold query = casefold (single_token raw)"
    and "strip query = query"
  shows "fst (resolve_number f' uid n u') = Some (JStr (single_token raw))
     \<and> fst (find_by_name f' uid query u') = Inr [new_contact (single_token raw) n]"
proof -
  let ?new = "new_contact (single_token raw) n" and ?es = "uc_entries u uid"
  note add = add_unique_ok [OF assms(1-3)]
  from add have ok: "phonebook_ok u'" and ag: "file_agrees f' u'" and dir: "directory_ok (?es @ [?new])"
    and data: "uc_data u' = dput (int_text uid) (?es @ [?new]) (uc_data u)"
    by auto
  have ent: "uc_entries u' uid = ?es @ [?new]" by (simp add: uc_entries_def data)
  obtain u1 where g: "uc_get f' uid u' = (?es @ [?new], u1)"
    using uc_get_agrees(1) [OF ag] ent by (metis prod.collapse)
  have all: "\<forall>e \<in> set ?es. entry_ok e \<and> number_of e \<noteq> n \<and> casefold (name_of e) \<noteq> casefold (single_token raw)"
    and new: "entry_ok ?new"
    using dir by (auto simp: directory_ok_def) (metis imageI)
  from new have n: "dialable n" and name: "single_token raw \<noteq> []" by (auto simp: entry_ok_def new_contact_def)
  have "\<not> is_number n e" if "e \<in> set ?es" for e
    using all that n destination_normalizes [of "Some n"] entry_ok_strings [of e]
    by (auto simp: is_number_def dialable_def split: option.splits if_splits)
  then have "List.find (is_number n) (?es @ [?new]) = Some ?new"
    by (intro find_snoc) (auto simp: is_number_def)
  moreover have "n \<noteq> []" using dialable_stripped [OF n] by simp
  ultimately have 1: "fst (resolve_number f' uid n u') = Some (JStr (single_token raw))"
    by (simp add: resolve_number_def g)
  have q: "casefold query \<noteq> []" using name assms(4) by (cases "single_token raw") (auto simp: casefold_def)
  have "filter (\<lambda>e. casefold (name_of e) = casefold query) (?es @ [?new]) = [?new]"
    using all assms(4) by (simp add: filter_empty_conv)
  then have "name_tiers (casefold query) (?es @ [?new]) = [?new]" by (simp add: name_tiers_def Let_def)
  moreover have "\<forall>e \<in> set (?es @ [?new]). as_str (e_field ''name'' e) \<noteq> None"
    using all new by (auto simp: entry_ok_strings)
  ultimately have 2: "fst (find_by_name f' uid query u') = Inr [?new]"
    using q assms(5) g by (auto simp: find_by_name_def Let_def)
  show ?thesis using 1 2 by simp
qed

section \<open>Properties\<close>

datatype phonebook_op =
    AddContact str str
  | DeleteNumber str
  | DeleteName str

definition phonebook_do ::
    "(json \<Rightarrow> str) \<Rightarrow> int \<times> phonebook_op \<times> store_write \<Rightarrow> contacts_file \<times> user_contacts
     \<Rightarrow> http_error option \<times> contacts_file \<times> user_contacts" where
  "phonebook_do py_repr req s =
     (case (req, s) of ((uid, op, w), (f, u)) \<Rightarrow>
        (case op of
           AddContact name number \<Rightarrow>
             (case add_unique py_repr w f uid name number u of
                (r, s') \<Rightarrow> (case r of Inl e \<Rightarrow> Some e | Inr _ \<Rightarrow> None, s'))
         | DeleteNumber number \<Rightarrow>
             (case delete_by_number py_repr w f uid number u of
                (r, s') \<Rightarrow> (case r of Inl e \<Rightarrow> Some e | Inr _ \<Rightarrow> None, s'))
         | DeleteName name \<Rightarrow>
             (case delete_by_name py_repr w f uid name u of
                (r, s') \<Rightarrow> (case r of Inl e \<Rightarrow> Some e | Inr _ \<Rightarrow> None, s'))))"

text \<open>A session: the errors of its requests and the state after it.\<close>
fun phonebook_run ::
    "(json \<Rightarrow> str) \<Rightarrow> (int \<times> phonebook_op \<times> store_write) list \<Rightarrow> contacts_file \<times> user_contacts
     \<Rightarrow> http_error option list \<times> contacts_file \<times> user_contacts" where
  "phonebook_run py_repr [] s = ([], s)"
| "phonebook_run py_repr (req # reqs) s =
     (case phonebook_do py_repr req s of
        (e, s') \<Rightarrow> (case phonebook_run py_repr reqs s' of (es, s'') \<Rightarrow> (e # es, s'')))"

lemma phonebook_do_ok:
  assumes "phonebook_ok u" and "file_agrees f u" and "phonebook_do py_repr req (f, u) = (e, f', u')"
  shows "phonebook_ok u' \<and> file_agrees f' u' \<and> e \<in> {None, Some OSError}"
proof -
  obtain uid op w where req: "req = (uid, op, w)" by (cases req) auto
  show ?thesis
  proof (cases op)
    case (AddContact name number)
    obtain r where "add_unique py_repr w f uid name number u = (r, f', u')"
      and "e = (case r of Inl e \<Rightarrow> Some e | Inr _ \<Rightarrow> None)"
      using assms(3) req AddContact by (auto simp: phonebook_do_def split: prod.splits)
    with add_unique_ok [OF assms(1,2) this(1)] show ?thesis by (auto split: sum.splits)
  next
    case (DeleteNumber number)
    obtain r where "delete_by_number py_repr w f uid number u = (r, f', u')"
      and "e = (case r of Inl e \<Rightarrow> Some e | Inr _ \<Rightarrow> None)"
      using assms(3) req DeleteNumber by (auto simp: phonebook_do_def split: prod.splits)
    with delete_by_number_ok [OF assms(1,2) this(1)] show ?thesis by (auto split: sum.splits)
  next
    case (DeleteName name)
    obtain r where "delete_by_name py_repr w f uid name u = (r, f', u')"
      and "e = (case r of Inl e \<Rightarrow> Some e | Inr _ \<Rightarrow> None)"
      using assms(3) req DeleteName by (auto simp: phonebook_do_def split: prod.splits)
    with delete_by_name_ok [OF assms(1,2) this(1)] show ?thesis by (auto split: sum.splits)
  qed
qed

text \<open>C37: the type of the phonebook store. From a store of well-formed entries, no sequence of
  additions and deletions by any users, with any failures of the disk, raises anything but the
  error of the disk, and every directory stays well formed: single-token names, canonical dial
  numbers, no two entries with the same number or with names that differ in case only.\<close>
theorem phonebook_well_typed:
  assumes "phonebook_ok u" and "file_agrees f u" and "phonebook_run py_repr reqs (f, u) = (es, f', u')"
  shows "phonebook_ok u' \<and> file_agrees f' u' \<and> set es \<subseteq> {None, Some OSError}"
  using assms
proof (induction reqs arbitrary: f u es)
  case Nil
  then show ?case by simp
next
  case (Cons req reqs)
  obtain e f1 u1 where 1: "phonebook_do py_repr req (f, u) = (e, f1, u1)" by (metis prod_cases3)
  obtain es' where 2: "phonebook_run py_repr reqs (f1, u1) = (es', f', u')" and es: "es = e # es'"
    using Cons.prems(3) 1 by (auto split: prod.splits)
  note ok = phonebook_do_ok [OF Cons.prems(1,2) 1]
  show ?case using Cons.IH [OF _ _ 2] ok es by auto
qed

theorem phonebook_well_typed_witness:
  "phonebook_ok (snd (snd (phonebook_run (\<lambda>_. [])
     [(7, AddContact (S ''Ivanov Ivan'') (S ''1001''), StoreOk 5), (7, DeleteName (S ''x''), StoreFails)]
     (None, \<lparr>uc_data = [], uc_mtime = 0\<rparr>))))"
proof -
  let ?u = "\<lparr>uc_data = [], uc_mtime = 0\<rparr>"
  let ?reqs = "[(7, AddContact (S ''Ivanov Ivan'') (S ''1001''), StoreOk 5), (7, DeleteName (S ''x''), StoreFails)]"
  obtain es f' u' where run: "phonebook_run (\<lambda>_. []) ?reqs (None, ?u) = (es, f', u')" by (metis prod_cases3)
  have "phonebook_ok ?u" "file_agrees None ?u" by (simp_all add: phonebook_ok_def file_agrees_def)
  from phonebook_well_typed [OF this run] run show ?thesis by simp
qed

text \<open>An added contact is found again, by its number and by its name in any case, and by a store
  constructed on the file after a restart; the directories of other users are unchanged.\<close>
theorem added_contact_found:
  assumes "phonebook_ok u" and "file_agrees f u"
    and "add_unique py_repr w f uid raw number u = (Inr (Added n), f', u')"
    and "w = StoreOk m \<or> w = StoreNoStat m" and "0 < m" and "casefold query = casefold (single_token raw)"
    and "strip query = query"
  shows "fst (resolve_number f' uid n u') = Some (JStr (single_token raw))
     \<and> fst (find_by_name f' uid query u') = Inr [new_contact (single_token raw) n]
     \<and> uc_data (new_user_contacts f') = uc_data u'
     \<and> (\<forall>other. other \<noteq> uid \<longrightarrow> uc_entries u' other = uc_entries u other)"
proof -
  let ?new = "new_contact (single_token raw) n" and ?es = "uc_entries u uid"
  from add_unique_ok [OF assms(1-3)] have ok: "phonebook_ok u'"
    and data: "uc_data u' = dput (int_text uid) (?es @ [?new]) (uc_data u)"
    and f': "f' = Some (m, Some (uc_snapshot (uc_data u')))"
    using assms(4) by auto
  have "uc_data (new_user_contacts f') = uc_data u'"
    using assms(5) by (simp add: new_user_contacts_def uc_reload_def f' uc_parse_snapshot [OF ok])
  then show ?thesis
    using added_entry_found [OF assms(1-3) assms(6,7)] by (simp add: uc_entries_def data)
qed

text \<open>Deleting the number of a contact just added restores every directory.\<close>
theorem delete_undoes_add:
  assumes "phonebook_ok u" and "file_agrees f u"
    and "add_unique py_repr w f uid raw number u = (Inr (Added n), f1, u1)"
    and "delete_by_number py_repr w2 f1 uid n u1 = (Inr k, f2, u2)"
  shows "k = 1 \<and> uc_entries u2 any = uc_entries u any"
proof -
  let ?new = "new_contact (single_token raw) n" and ?es = "uc_entries u uid"
  note add = add_unique_ok [OF assms(1-3)]
  from add have ok: "phonebook_ok u1" and ag: "file_agrees f1 u1" and dir: "directory_ok (?es @ [?new])"
    and data: "uc_data u1 = dput (int_text uid) (?es @ [?new]) (uc_data u)"
    by auto
  have ent: "uc_entries u1 uid = ?es @ [?new]" by (simp add: uc_entries_def data)
  have all: "\<forall>e \<in> set ?es. entry_ok e \<and> number_of e \<noteq> n" and new: "entry_ok ?new"
    using dir by (auto simp: directory_ok_def)
  from new have n: "dialable n" by (auto simp: entry_ok_def new_contact_def)
  have no: "\<forall>e \<in> set ?es. \<not> is_number n e"
    using all n destination_normalizes [of "Some n"] entry_ok_strings
    by (auto simp: is_number_def dialable_def split: option.splits if_splits)
  have yes: "is_number n ?new" by (simp add: is_number_def)
  have "n \<noteq> []" using dialable_stripped [OF n] by simp
  with delete_by_number_ok [OF ok ag assms(4)] ent
  have k: "k = length (filter (is_number n) (?es @ [?new]))"
    and u2: "uc_entries u2 uid = filter (\<lambda>e. \<not> is_number n e) (?es @ [?new])"
    and rest: "\<And>other. other \<noteq> uid \<Longrightarrow> uc_entries u2 other = uc_entries u1 other" by auto
  have "k = 1" "uc_entries u2 uid = ?es" using no yes k u2 by (simp_all add: filter_empty_conv filter_id_conv)
  then show ?thesis using rest [of any] by (cases "any = uid") (auto simp: uc_entries_def data)
qed

lemma sample_add:
  "add_unique (\<lambda>_. []) (StoreOk 5) None 7 (S ''Ann'') (S ''1001'') \<lparr>uc_data = [], uc_mtime = 0\<rparr>
     = (Inr (Added (S ''1001'')),
        Some (5, Some (uc_snapshot [(S ''7'', [new_contact (S ''Ann'') (S ''1001'')])])),
        \<lparr>uc_data = [(S ''7'', [new_contact (S ''Ann'') (S ''1001'')])], uc_mtime = 5\<rparr>)"
  by (simp add: S_def add_unique_def single_token_def replace_cp_def strip_def lstrip_def rstrip_def
      is_space_def space_points_def parse_destination_def ext_plus_match_def ext_ru_match_def
      ext_short_match_def internal_match_def digits_to_end_def Let_def uc_get_def uc_reload_def
      uc_entries_def replace_for_def clean_entry_def new_contact_def List.map_filter_def int_text_def
      nat_text.simps)

lemma sample_empty: "phonebook_ok \<lparr>uc_data = [], uc_mtime = 0\<rparr>" "file_agrees None \<lparr>uc_data = [], uc_mtime = 0\<rparr>"
  by (simp_all add: phonebook_ok_def file_agrees_def)

theorem added_contact_found_witness:
  "\<exists>f' u'. fst (find_by_name f' 7 (S ''ANN'') u') = Inr [new_contact (S ''Ann'') (S ''1001'')]"
proof -
  have "casefold (S ''ANN'') = casefold (single_token (S ''Ann''))" "strip (S ''ANN'') = S ''ANN''"
    and t: "single_token (S ''Ann'') = S ''Ann''"
    by (simp_all add: S_def casefold_def lower_cp_def single_token_def replace_cp_def strip_def lstrip_def
        rstrip_def is_space_def space_points_def)
  from added_contact_found [OF sample_empty sample_add _ _ this(1,2), of 5] t show ?thesis by auto
qed

theorem delete_undoes_add_witness:
  "\<exists>f1 u1 f2 u2. delete_by_number (\<lambda>_. []) (StoreOk 6) f1 7 (S ''1001'') u1 = (Inr 1, f2, u2)
     \<and> uc_entries u2 7 = []"
proof -
  obtain r f2 u2 where d: "delete_by_number (\<lambda>_. []) (StoreOk 6)
      (Some (5, Some (uc_snapshot [(S ''7'', [new_contact (S ''Ann'') (S ''1001'')])]))) 7 (S ''1001'')
      \<lparr>uc_data = [(S ''7'', [new_contact (S ''Ann'') (S ''1001'')])], uc_mtime = 5\<rparr> = (r, f2, u2)"
    by (metis prod_cases3)
  moreover from d obtain k where r: "r = Inr k"
    by (auto simp: delete_by_number_def delete_matching_def Let_def uc_get_def uc_reload_def replace_for_def
        split: if_splits sum.splits)
  ultimately show ?thesis
    using delete_undoes_add [OF sample_empty sample_add d [unfolded r], of 7] by (auto simp: uc_entries_def)
qed

end
