(* ===== verification/Recovery.thy ===== *)
theory Recovery
  imports Prelude
begin

text \<open>
  \<open>core/recovery.py\<close>: the reconnector with exponential backoff and the modem watchdog. The
  outcomes of the retried operation are a function of the attempt number, delays are integers
  (milliseconds), and \<open>rt_sleeps\<close> are the waits between attempts.
\<close>

section \<open>Backoff\<close>

record retry_result =
  rt_ok :: bool
  rt_attempts :: nat
  rt_sleeps :: "int list"
  rt_gave_up :: bool

text \<open>The loop from attempt \<open>attempt + 1\<close> on; \<open>works k\<close> says that attempt \<open>k\<close> succeeds.\<close>
function retry_loop :: "(nat \<Rightarrow> bool) \<Rightarrow> int \<Rightarrow> nat \<Rightarrow> nat \<Rightarrow> int \<Rightarrow> retry_result" where
  "retry_loop works max_delay max_retries attempt delay =
     (let k = attempt + 1
      in if works k then \<lparr>rt_ok = True, rt_attempts = k, rt_sleeps = [], rt_gave_up = False\<rparr>
         else if k \<ge> max_retries
         then \<lparr>rt_ok = False, rt_attempts = k, rt_sleeps = [], rt_gave_up = True\<rparr>
         else let r = retry_loop works max_delay max_retries k (min (delay * 2) max_delay)
              in r\<lparr>rt_sleeps := delay # rt_sleeps r\<rparr>)"
  by pat_completeness auto

termination retry_loop
  by (relation "measure (\<lambda>(_, _, max_retries, attempt, _). max_retries - attempt)") auto

declare retry_loop.simps [simp del]

definition reconnect :: "(nat \<Rightarrow> bool) \<Rightarrow> int \<Rightarrow> int \<Rightarrow> nat \<Rightarrow> retry_result" where
  "reconnect works min_delay max_delay max_retries = retry_loop works max_delay max_retries 0 min_delay"

section \<open>The watchdog\<close>

text \<open>One check: healthy, unhealthy, or an error of the check itself.\<close>
datatype check_result = Healthy | Unhealthy | CheckError

datatype watch_action =
    ResetSent
  | AlertRecovered
  | AlertStuck

text \<open>One round with the number of consecutive failures; \<open>reset_ok\<close> is the outcome of a reset.\<close>
definition watch_step :: "nat \<Rightarrow> check_result \<Rightarrow> bool \<Rightarrow> nat \<Rightarrow> watch_action list \<times> nat" where
  "watch_step max_resets check reset_ok failures =
     (case check of
        CheckError \<Rightarrow> ([], failures)
      | Healthy \<Rightarrow> (if failures > 0 then [AlertRecovered] else [], 0)
      | Unhealthy \<Rightarrow>
          (let failures' = failures + 1
           in if failures' \<ge> max_resets
              then (if reset_ok then ([ResetSent], 0) else ([ResetSent, AlertStuck], failures'))
              else ([], failures')))"

fun watch :: "nat \<Rightarrow> (check_result \<times> bool) list \<Rightarrow> nat \<Rightarrow> watch_action list list" where
  "watch max_resets [] failures = []"
| "watch max_resets ((c, ok) # cs) failures =
     (case watch_step max_resets c ok failures of (as, failures') \<Rightarrow> as # watch max_resets cs failures')"

section \<open>Lemmas\<close>

lemma retry_loop_stop:
  "works (Suc attempt) \<Longrightarrow> retry_loop works max_delay max_retries attempt delay
     = \<lparr>rt_ok = True, rt_attempts = Suc attempt, rt_sleeps = [], rt_gave_up = False\<rparr>"
  "\<not> works (Suc attempt) \<Longrightarrow> max_retries \<le> Suc attempt \<Longrightarrow>
     retry_loop works max_delay max_retries attempt delay
     = \<lparr>rt_ok = False, rt_attempts = Suc attempt, rt_sleeps = [], rt_gave_up = True\<rparr>"
  by (subst retry_loop.simps; simp add: Let_def)+

lemma retry_loop_go:
  assumes "\<not> works (Suc attempt)" and "\<not> max_retries \<le> Suc attempt"
  shows "retry_loop works max_delay max_retries attempt delay
     = (let r = retry_loop works max_delay max_retries (Suc attempt) (min (delay * 2) max_delay)
        in r\<lparr>rt_sleeps := delay # rt_sleeps r\<rparr>)"
  using assms by (subst retry_loop.simps) (simp add: Let_def)

lemma retry_loop_spec:
  "retry_loop works max_delay max_retries attempt delay = r \<Longrightarrow>
     attempt < rt_attempts r \<and> rt_attempts r \<le> max (attempt + 1) max_retries
     \<and> rt_ok r = works (rt_attempts r) \<and> rt_gave_up r = (\<not> rt_ok r)
     \<and> (\<forall>k. attempt < k \<and> k < rt_attempts r \<longrightarrow> \<not> works k)
     \<and> (rt_gave_up r \<longrightarrow> max_retries \<le> rt_attempts r)
     \<and> length (rt_sleeps r) = rt_attempts r - attempt - 1"
proof (induction works max_delay max_retries attempt delay arbitrary: r rule: retry_loop.induct)
  case (1 works max_delay max_retries attempt delay)
  define k where "k = Suc attempt"
  show ?case
  proof (cases "works k \<or> k \<ge> max_retries")
    case True
    then show ?thesis
      using "1.prems" by (cases "works k") (auto simp: retry_loop_stop k_def less_Suc_eq)
  next
    case False
    define r' where "r' = retry_loop works max_delay max_retries k (min (delay * 2) max_delay)"
    have r: "r = r'\<lparr>rt_sleeps := delay # rt_sleeps r'\<rparr>"
      using "1.prems" False by (simp add: retry_loop_go Let_def k_def r'_def)
    have IH: "k < rt_attempts r' \<and> rt_attempts r' \<le> max (k + 1) max_retries
     \<and> rt_ok r' = works (rt_attempts r') \<and> rt_gave_up r' = (\<not> rt_ok r')
     \<and> (\<forall>j. k < j \<and> j < rt_attempts r' \<longrightarrow> \<not> works j)
     \<and> (rt_gave_up r' \<longrightarrow> max_retries \<le> rt_attempts r')
     \<and> length (rt_sleeps r') = rt_attempts r' - k - 1"
      using "1.IH" [of k r'] False by (simp add: r'_def k_def)
    have "\<not> works j" if "attempt < j" "j < rt_attempts r'" for j
      using that IH False by (cases "j = k") (auto simp: k_def)
    with IH r False show ?thesis by (auto simp: k_def)
  qed
qed

lemma retry_sleeps:
  assumes "i < length (rt_sleeps (retry_loop works max_delay max_retries attempt delay))"
    and "0 \<le> delay" and "delay \<le> max_delay"
  shows "rt_sleeps (retry_loop works max_delay max_retries attempt delay) ! i = min (delay * 2 ^ i) max_delay"
  using assms
proof (induction works max_delay max_retries attempt delay arbitrary: i rule: retry_loop.induct)
  case (1 works max_delay max_retries attempt delay)
  define k where "k = Suc attempt"
  have w: "\<not> works k"
  proof
    assume "works k"
    with "1.prems"(1) show False by (simp add: retry_loop_stop k_def)
  qed
  have m: "\<not> k \<ge> max_retries"
  proof
    assume "k \<ge> max_retries"
    with w "1.prems"(1) show False by (simp add: retry_loop_stop k_def)
  qed
  note cont = w m
  define r' where "r' = retry_loop works max_delay max_retries k (min (delay * 2) max_delay)"
  have r: "rt_sleeps (retry_loop works max_delay max_retries attempt delay) = delay # rt_sleeps r'"
    using cont by (simp add: retry_loop_go Let_def k_def r'_def)
  show ?case
  proof (cases i)
    case 0
    with r "1.prems" show ?thesis by simp
  next
    case (Suc j)
    have "rt_sleeps r' ! j = min (min (delay * 2) max_delay * 2 ^ j) max_delay"
      using "1.IH" [OF _ cont, of j] "1.prems" r Suc by (simp add: r'_def k_def)
    also have "\<dots> = min (delay * 2 ^ Suc j) max_delay"
    proof (cases "delay * 2 \<le> max_delay")
      case True
      then show ?thesis by (simp add: mult.assoc)
    next
      case False
      have "max_delay \<le> max_delay * 2 ^ j"
        using "1.prems"(2,3) by (simp add: mult_le_cancel_left1)
      moreover have "delay * 2 \<le> delay * 2 * 2 ^ j" using "1.prems"(2) by (simp add: mult_le_cancel_left1)
      ultimately show ?thesis using False by (simp add: mult.assoc)
    qed
    finally show ?thesis using r Suc by simp
  qed
qed

section \<open>Properties\<close>

text \<open>The reconnector returns, for every behaviour of the operation. It stops at the first
  attempt that succeeds, or after \<open>max_retries\<close> failures (one at least); it gives up exactly when
  no attempt succeeded; and the waits double from the minimum up to the maximum.\<close>
theorem reconnect_bounded:
  assumes "r = reconnect works min_delay max_delay max_retries" and "0 \<le> min_delay" and "min_delay \<le> max_delay"
  shows "1 \<le> rt_attempts r \<and> rt_attempts r \<le> max 1 max_retries
     \<and> rt_ok r = works (rt_attempts r) \<and> (\<forall>k. 1 \<le> k \<and> k < rt_attempts r \<longrightarrow> \<not> works k)
     \<and> rt_gave_up r = (\<forall>k. 1 \<le> k \<and> k \<le> max 1 max_retries \<longrightarrow> \<not> works k)
     \<and> rt_sleeps r = map (\<lambda>i. min (min_delay * 2 ^ i) max_delay) [0..<rt_attempts r - 1]"
proof -
  have s: "0 < rt_attempts r \<and> rt_attempts r \<le> max 1 max_retries
     \<and> rt_ok r = works (rt_attempts r) \<and> rt_gave_up r = (\<not> rt_ok r)
     \<and> (\<forall>k. 0 < k \<and> k < rt_attempts r \<longrightarrow> \<not> works k)
     \<and> (rt_gave_up r \<longrightarrow> max_retries \<le> rt_attempts r)
     \<and> length (rt_sleeps r) = rt_attempts r - 1"
    using retry_loop_spec [of works max_delay max_retries 0 min_delay r] assms(1)
    by (simp add: reconnect_def)
  have "rt_gave_up r = (\<forall>k. 1 \<le> k \<and> k \<le> max 1 max_retries \<longrightarrow> \<not> works k)"
  proof
    assume g: "rt_gave_up r"
    then have "rt_attempts r = max 1 max_retries" "\<not> works (rt_attempts r)" using s by auto
    then show "\<forall>k. 1 \<le> k \<and> k \<le> max 1 max_retries \<longrightarrow> \<not> works k"
      using s by (metis One_nat_def Suc_le_eq le_neq_implies_less)
  next
    assume "\<forall>k. 1 \<le> k \<and> k \<le> max 1 max_retries \<longrightarrow> \<not> works k"
    then show "rt_gave_up r" using s by (metis One_nat_def Suc_le_eq)
  qed
  moreover have "rt_sleeps r = map (\<lambda>i. min (min_delay * 2 ^ i) max_delay) [0..<rt_attempts r - 1]"
    using s retry_sleeps [of _ works max_delay max_retries 0 min_delay] assms
    by (intro nth_equalityI) (simp_all add: reconnect_def)
  ultimately show ?thesis using s by (auto simp: Suc_le_eq)
qed

theorem reconnect_bounded_witness:
  "rt_attempts (reconnect (\<lambda>k. k = 3) 1000 60000 10) \<le> 10
   \<and> rt_gave_up (reconnect (\<lambda>k. False) 1000 60000 10)"
  using reconnect_bounded [OF refl, of 1000 60000 "\<lambda>k. k = 3" 10]
    reconnect_bounded [OF refl, of 1000 60000 "\<lambda>k. False" 10] by simp

text \<open>The watchdog against its description. While the modem stays unhealthy and resets fail it
  tries a reset and alerts in every round from the threshold on (it does not stop trying); and
  after a reset that was sent, the next healthy check raises no "recovered" alert.\<close>
theorem watchdog_keeps_trying:
  "watch max_resets (replicate n (Unhealthy, False)) failures
     = map (\<lambda>i. if failures + i + 1 \<ge> max_resets then [ResetSent, AlertStuck] else []) [0..<n]
   \<and> (failures + 1 \<ge> max_resets \<longrightarrow>
        watch max_resets [(Unhealthy, True), (Healthy, ok)] failures = [[ResetSent], []])"
proof -
  have "watch max_resets (replicate n (Unhealthy, False)) failures
     = map (\<lambda>i. if failures + i + 1 \<ge> max_resets then [ResetSent, AlertStuck] else []) [0..<n]"
  proof (induction n arbitrary: failures)
    case 0
    then show ?case by simp
  next
    case (Suc n)
    have "[0..<Suc n] = 0 # map Suc [0..<n]" by (simp add: upt_conv_Cons map_Suc_upt del: upt_Suc)
    with Suc show ?case
      by (auto simp: watch_step_def Let_def comp_def simp del: upt_Suc)
  qed
  then show ?thesis by (simp add: watch_step_def)
qed

theorem watchdog_keeps_trying_witness:
  "watch 3 [(Unhealthy, True), (Healthy, True)] 2 = [[ResetSent], []]"
  using watchdog_keeps_trying [of 3 0 2 True] by simp

end
