(* ===== verification/Userbot.thy ===== *)
theory Userbot
  imports Commands Bridge AuditTrail Acl Blacklist Contacts UserContacts Recovery
begin

text \<open>
  \<open>userbot/userbot.py\<close>: the Telegram side. Every handler of \<open>_register_handlers\<close> is a function from
  the event and the state of the userbot to the state after it, or to the exception that leaves the
  handler; Telethon logs such an exception and runs the next handler.

  The state holds the access list, the audit log, the blacklist and its file, the phonebooks and
  their file, the last dialled numbers, and what left the process: replies to Telegram and HTTP
  requests, in order. The rest of a handler's surroundings is \<open>tg_env\<close>: the clock, the access list's
  file, fresh ids, the answers of the agent and of the bridge, and how writes of the two files go.
  \<open>uc_repr\<close> is Python's \<open>repr\<close> and \<open>uc_status_text\<close> the text of an \<open>httpx.HTTPStatusError\<close>.
\<close>

section \<open>State\<close>

record userbot =
  ub_acl :: acl_manager
  ub_audit :: audit_log
  ub_blacklist :: blacklist
  ub_blacklist_disk :: "str stored"
  ub_book :: user_contacts
  ub_book_file :: contacts_file
  ub_last_call :: "(int, str) dict"
  ub_replies :: "(int \<times> str) list"
  ub_requests :: "http_request list"

record ub_cfg =
  uc_agent_url :: str
  uc_agent_token :: str
  uc_bridge :: bridge_control
  uc_repr :: "json \<Rightarrow> str"
  uc_status_text :: "http_request \<Rightarrow> nat \<Rightarrow> str"

record tg_env =
  tv_now :: int
  tv_acl_file :: "str stored"
  tv_cid :: str
  tv_cid2 :: str
  tv_net :: network
  tv_book_write :: store_write
  tv_blacklist_write :: write_outcome
  tv_stamp :: str

type_synonym outcome = "(http_error + unit) \<times> userbot"

definition reply :: "tg_event \<Rightarrow> str \<Rightarrow> userbot \<Rightarrow> outcome" where
  "reply ev msg ub = (Inr (), ub\<lparr>ub_replies := ub_replies ub @ [(te_sender ev, msg)]\<rparr>)"

definition raise :: "string \<Rightarrow> userbot \<Rightarrow> outcome" where
  "raise exc ub = (Inl (Unhandled (S exc)), ub)"

definition post :: "http_request \<Rightarrow> userbot \<Rightarrow> userbot" where
  "post r ub = ub\<lparr>ub_requests := ub_requests ub @ [r]\<rparr>"

definition ub_log :: "audit_entry \<Rightarrow> userbot \<Rightarrow> userbot" where
  "ub_log e ub = ub\<lparr>ub_audit := audit_append e (ub_audit ub)\<rparr>"

section \<open>Access\<close>

datatype verdict = VOk | VDenied | VUnknown

definition user_denied :: "tg_env \<Rightarrow> int \<Rightarrow> string \<Rightarrow> str \<Rightarrow> audit_entry" where
  "user_denied env sender why right =
     (entry (tv_now env) USER_DENIED)\<lparr>ae_user := Some sender, ae_outcome := S why,
        ae_details := [(S ''right'', JStr right)]\<rparr>"

definition access :: "tg_env \<Rightarrow> int \<Rightarrow> str \<Rightarrow> userbot \<Rightarrow> verdict \<times> userbot" where
  "access env sender right ub =
     (case get_user_rights (tv_acl_file env) sender (ub_acl ub) of
        (rights, acl) \<Rightarrow>
          (let ub1 = ub\<lparr>ub_acl := acl\<rparr>
           in if rights = [] then (VUnknown, ub_log (user_denied env sender ''unknown_user'' right) ub1)
              else if right \<notin> set rights
              then (VDenied, ub_log (user_denied env sender ''denied'' right) ub1)
              else (VOk, ub1)))"

definition is_known :: "tg_env \<Rightarrow> int \<Rightarrow> userbot \<Rightarrow> bool \<times> userbot" where
  "is_known env sender ub =
     (case get_user_rights (tv_acl_file env) sender (ub_acl ub) of
        (rights, acl) \<Rightarrow> (rights \<noteq> [], ub\<lparr>ub_acl := acl\<rparr>))"

text \<open>The first lines of the handlers: silence for a stranger, a refusal without the right.\<close>
definition gated ::
    "tg_env \<Rightarrow> tg_event \<Rightarrow> string \<Rightarrow> (userbot \<Rightarrow> outcome) \<Rightarrow> userbot \<Rightarrow> outcome" where
  "gated env ev right body ub =
     (case access env (te_sender ev) (S right) ub of
        (VOk, ub1) \<Rightarrow> body ub1
      | (VDenied, ub1) \<Rightarrow> reply ev (error_text DENIED) ub1
      | (VUnknown, ub1) \<Rightarrow> (Inr (), ub1))"

section \<open>Requests to the agent\<close>

definition agent_headers :: "ub_cfg \<Rightarrow> str \<Rightarrow> (str \<times> str) list" where
  "agent_headers c cid =
     [bearer (uc_agent_token c), (S ''Content-Type'', S ''application/json''), (S ''x-correlation-id'', cid)]"

definition agent_post :: "ub_cfg \<Rightarrow> str \<Rightarrow> str \<Rightarrow> json option \<Rightarrow> http_request" where
  "agent_post c cid path body =
     \<lparr>hr_url = uc_agent_url c @ path, hr_body = body, hr_headers = agent_headers c cid\<rparr>"

definition outgoing_request :: "ub_cfg \<Rightarrow> str \<Rightarrow> int \<Rightarrow> str \<Rightarrow> http_request" where
  "outgoing_request c cid sender number =
     agent_post c cid (S ''/v1/call/outgoing'')
       (Some (JObj [(S ''phone_number'', JStr number), (S ''telegram_user_id'', JInt sender)]))"

definition reject_request :: "ub_cfg \<Rightarrow> str \<Rightarrow> str \<Rightarrow> http_request" where
  "reject_request c cid call_id = agent_post c cid (S ''/v1/call/'' @ call_id @ S ''/reject'') None"

definition sms_post :: "ub_cfg \<Rightarrow> str \<Rightarrow> int \<Rightarrow> int \<Rightarrow> str \<Rightarrow> str \<Rightarrow> http_request" where
  "sms_post c cid sender message_id number text =
     agent_post c cid (S ''/v1/sms'')
       (Some (JObj [(S ''to'', JStr number), (S ''text'', JStr text), (S ''telegram_user_id'', JInt sender),
                    (S ''telegram_message_id'', JInt message_id), (S ''correlation_id'', JStr cid)]))"

definition number_request :: "ub_cfg \<Rightarrow> str \<Rightarrow> string \<Rightarrow> str \<Rightarrow> http_request" where
  "number_request c cid path number = agent_post c cid (S path) (Some (JObj [(S ''number'', JStr number)]))"

section \<open>Calls\<close>

text \<open>\<open>resp.json().get("call_id", "")\<close> as the f-string prints it; a body that is not JSON gives the
  empty id, and a JSON body that is not an object raises.\<close>
definition call_id_of :: "(json \<Rightarrow> str) \<Rightarrow> json option \<Rightarrow> str option" where
  "call_id_of py_repr body =
     (case body of
        None \<Rightarrow> Some []
      | Some (JObj d) \<Rightarrow> Some (case dget d (S ''call_id'') of None \<Rightarrow> [] | Some v \<Rightarrow> py_str py_repr v)
      | Some _ \<Rightarrow> None)"

text \<open>The part behind the agent's acceptance: remember the number, ring the user, take the call back
  when the bridge does not.\<close>
definition ring_user :: "ub_cfg \<Rightarrow> tg_env \<Rightarrow> tg_event \<Rightarrow> str \<Rightarrow> str \<Rightarrow> userbot \<Rightarrow> outcome" where
  "ring_user c env ev norm call_id ub =
     (let sender = te_sender ev;
          ub1 = ub\<lparr>ub_last_call := dput sender norm (ub_last_call ub)\<rparr>;
          result = start_call (uc_bridge c) (tv_net env) sender norm;
          ub2 = post (call_request (uc_bridge c) sender norm) ub1
      in if result \<noteq> BridgeOk
         then (let ub3 = post (reject_request c (tv_cid2 env) call_id) ub2
               in if result = BridgeBusy
                  then reply ev (S ''Bridge busy '' @ [8212] @ S '' another call in progress.'') ub3
                  else reply ev (S ''Error: voice bridge unavailable'') ub3)
         else reply ev (S ''Calling you in Telegram'' @ [8230]) ub2)"

definition place_call :: "ub_cfg \<Rightarrow> tg_env \<Rightarrow> tg_event \<Rightarrow> destination \<Rightarrow> userbot \<Rightarrow> outcome" where
  "place_call c env ev dest ub =
     (let norm = d_number dest;
          (listed, bl) = (if d_internal dest then (False, ub_blacklist ub)
                          else bl_contains (ub_blacklist_disk ub) norm (ub_blacklist ub));
          ub1 = ub\<lparr>ub_blacklist := bl\<rparr>
      in if listed then reply ev (error_text BLACKLISTED) ub1
         else
           (let req = outgoing_request c (tv_cid env) (te_sender ev) norm; ub2 = post req ub1
            in case tv_net env req of
                 HttpFails _ \<Rightarrow> reply ev (S ''Call service unavailable'') ub2
               | HttpReply code body _ \<Rightarrow>
                   if code = 403 then reply ev (error_text BLACKLISTED) ub2
                   else if code = 429 then reply ev (S ''Too many calls. Try later.'') ub2
                   else if code = 503
                   then reply ev (S ''Modem busy '' @ [8212] @ S '' another call in progress.'') ub2
                   else if code \<ge> 400 then reply ev (error_text SEND_FAILED) ub2
                   else (case call_id_of (uc_repr c) body of
                           None \<Rightarrow> raise ''AttributeError'' ub2
                         | Some call_id \<Rightarrow> ring_user c env ev norm call_id ub2)))"

section \<open>SMS\<close>

text \<open>\<open>e.response.json().get("detail") or ""\<close>, else the text of the body.\<close>
definition error_detail :: "(json \<Rightarrow> str) \<Rightarrow> json option \<Rightarrow> str \<Rightarrow> str" where
  "error_detail py_repr body text =
     (case body of
        Some (JObj d) \<Rightarrow>
          (case dget d (S ''detail'') of
             None \<Rightarrow> [] | Some v \<Rightarrow> if truthy v then py_str py_repr v else [])
      | _ \<Rightarrow> text)"

definition sms_outcome_text :: "(json \<Rightarrow> str) \<Rightarrow> http_reply \<Rightarrow> str" where
  "sms_outcome_text py_repr r =
     (case r of
        HttpFails _ \<Rightarrow> error_text MODEM_UNAVAILABLE
      | HttpReply code body text \<Rightarrow>
          if success code then S ''Sent''
          else if code = 403 then error_text BLACKLISTED
          else if code = 429 then S ''Too many SMS. Try later.''
          else let detail = error_detail py_repr body text
               in if detail \<noteq> [] then S ''Send error: '' @ detail else error_text SEND_FAILED)"

definition do_send_sms :: "ub_cfg \<Rightarrow> tg_env \<Rightarrow> tg_event \<Rightarrow> str \<Rightarrow> str \<Rightarrow> userbot \<Rightarrow> outcome" where
  "do_send_sms c env ev phone text ub =
     (if strip text = [] then reply ev (S ''Empty message'') ub
      else case parse_destination (Some phone) of
             None \<Rightarrow> reply ev (error_text NUMBER_MALFORMED_SMS) ub
           | Some dest \<Rightarrow>
               if d_internal dest \<or> is_service_number (d_number dest)
               then reply ev (error_text NUMBER_MALFORMED_SMS) ub
               else
                 (case bl_contains (ub_blacklist_disk ub) (d_number dest) (ub_blacklist ub) of
                    (listed, bl) \<Rightarrow>
                      (let ub1 = ub\<lparr>ub_blacklist := bl\<rparr>;
                           req = sms_post c (tv_cid env) (te_sender ev) (te_id ev) (d_number dest) text
                       in if listed then reply ev (error_text BLACKLISTED) ub1
                          else reply ev (sms_outcome_text (uc_repr c) (tv_net env req)) (post req ub1))))"

section \<open>The handlers of SMS and calls\<close>

text \<open>\<open>f"{m['name']}  {m['number']}"\<close>, and the numbered list of the first ten matches.\<close>
definition entry_line :: "(json \<Rightarrow> str) \<Rightarrow> contact \<Rightarrow> str" where
  "entry_line py_repr e =
     py_str py_repr (e_field ''name'' e) @ S ''  '' @ py_str py_repr (e_field ''number'' e)"

fun join_lines :: "str list \<Rightarrow> str" where
  "join_lines [] = []"
| "join_lines [l] = l"
| "join_lines (l # ls) = l @ [10] @ join_lines ls"

definition and_more :: "nat \<Rightarrow> nat \<Rightarrow> str" where
  "and_more shown n =
     (if n \<le> shown then [] else [10, 8230] @ S '' and '' @ nat_text (n - shown) @ S '' more'')"

definition numbered :: "(json \<Rightarrow> str) \<Rightarrow> contact list \<Rightarrow> str" where
  "numbered py_repr matches =
     join_lines (map (\<lambda>(i, m). nat_text i @ S '') '' @ entry_line py_repr m) (enumerate 1 (take 10 matches)))
     @ and_more 10 (length matches)"

definition not_found :: "str \<Rightarrow> str" where
  "not_found query = S ''Not found: '' @ query @ [10] @ S ''Add a contact: /add <name> <number>''"

text \<open>The phonebook search of \<open>/sms\<close>, \<open>/call\<close> and \<open>/del\<close>.\<close>
definition search_book ::
    "tg_event \<Rightarrow> str \<Rightarrow> (contact list \<Rightarrow> userbot \<Rightarrow> outcome) \<Rightarrow> userbot \<Rightarrow> outcome" where
  "search_book ev query use ub =
     (case find_by_name (ub_book_file ub) (te_sender ev) query (ub_book ub) of
        (Inl e, book) \<Rightarrow> (Inl e, ub\<lparr>ub_book := book\<rparr>)
      | (Inr matches, book) \<Rightarrow> use matches (ub\<lparr>ub_book := book\<rparr>))"

text \<open>\<open>parse_destination(m["number"])\<close>: a number that is not a text raises.\<close>
definition dial_entry ::
    "ub_cfg \<Rightarrow> tg_event \<Rightarrow> contact \<Rightarrow> (str \<Rightarrow> destination \<Rightarrow> userbot \<Rightarrow> outcome) \<Rightarrow> userbot \<Rightarrow> outcome" where
  "dial_entry c ev m use ub =
     (case as_str (e_field ''number'' m) of
        None \<Rightarrow> raise ''AttributeError'' ub
      | Some number \<Rightarrow>
          (case parse_destination (Some number) of
             None \<Rightarrow> reply ev (S ''Number in the directory is invalid: '' @ number) ub
           | Some dest \<Rightarrow> use number dest ub))"

text \<open>The number and text of a \<open>/sms\<close> that replies to a forwarded SMS.\<close>
definition quoted_sms :: "tg_event \<Rightarrow> (str \<times> str) option" where
  "quoted_sms ev =
     (case te_reply ev of
        Some (Some quoted) \<Rightarrow>
          (case sms_quote quoted of
             None \<Rightarrow> None
           | Some phone \<Rightarrow>
               (let raw = strip (te_text ev)
                in Some (phone, case after_command ''sms'' raw of None \<Rightarrow> raw | Some rest \<Rightarrow> strip rest)))
      | _ \<Rightarrow> None)"

definition isdigit :: "str \<Rightarrow> bool" where
  "isdigit s \<longleftrightarrow> s \<noteq> [] \<and> list_all is_digit s"

definition sms_body :: "ub_cfg \<Rightarrow> tg_env \<Rightarrow> tg_event \<Rightarrow> userbot \<Rightarrow> outcome" where
  "sms_body c env ev ub =
    (case quoted_sms ev of
       Some (phone, text) \<Rightarrow> do_send_sms c env ev phone text ub
     | None \<Rightarrow>
         (case split_max 2 (te_text ev) of
            [_, target, text] \<Rightarrow>
              if parse_destination (Some target) \<noteq> None then do_send_sms c env ev target text ub
              else if isdigit target then reply ev (error_text NUMBER_MALFORMED_SMS) ub
              else search_book ev target (\<lambda>matches ub1.
                     case matches of
                       [] \<Rightarrow> reply ev (not_found target) ub1
                     | [m] \<Rightarrow> dial_entry c ev m (\<lambda>number dest. do_send_sms c env ev number text) ub1
                     | _ \<Rightarrow> reply ev (S ''Multiple matches. To send the SMS, send the number:'' @ [10]
                                     @ numbered (uc_repr c) matches) ub1) ub
          | _ \<Rightarrow> reply ev (S ''Usage: /sms <name|number> <message>'') ub))"

definition handle_sms :: "ub_cfg \<Rightarrow> tg_env \<Rightarrow> tg_event \<Rightarrow> userbot \<Rightarrow> outcome" where
  "handle_sms c env ev = gated env ev ''out_sms'' (sms_body c env ev)"

definition bare_number_body :: "ub_cfg \<Rightarrow> tg_env \<Rightarrow> tg_event \<Rightarrow> userbot \<Rightarrow> outcome" where
  "bare_number_body c env ev ub =
    (case parse_destination (Some (strip (te_text ev))) of
       None \<Rightarrow> reply ev (error_text NUMBER_MALFORMED_CALL) ub
     | Some dest \<Rightarrow> place_call c env ev dest ub)"

definition handle_bare_number :: "ub_cfg \<Rightarrow> tg_env \<Rightarrow> tg_event \<Rightarrow> userbot \<Rightarrow> outcome" where
  "handle_bare_number c env ev = gated env ev ''out_call'' (bare_number_body c env ev)"

definition redial_body :: "ub_cfg \<Rightarrow> tg_env \<Rightarrow> tg_event \<Rightarrow> userbot \<Rightarrow> outcome" where
  "redial_body c env ev ub =
    (case dget (ub_last_call ub) (te_sender ev) of
       None \<Rightarrow> reply ev (S ''No last number to redial'') ub
     | Some stored \<Rightarrow>
         (case parse_destination (Some stored) of
            None \<Rightarrow> reply ev (error_text NUMBER_MALFORMED_CALL) ub
          | Some dest \<Rightarrow> place_call c env ev dest ub))"

definition handle_redial :: "ub_cfg \<Rightarrow> tg_env \<Rightarrow> tg_event \<Rightarrow> userbot \<Rightarrow> outcome" where
  "handle_redial c env ev = gated env ev ''out_call'' (redial_body c env ev)"

definition call_body :: "ub_cfg \<Rightarrow> tg_env \<Rightarrow> tg_event \<Rightarrow> userbot \<Rightarrow> outcome" where
  "call_body c env ev ub =
    (let raw = strip_command ''call'' (strip (te_text ev))
     in if raw = [] then reply ev (S ''Usage: /call <name or number>'') ub
        else case parse_destination (Some raw) of
               Some dest \<Rightarrow> place_call c env ev dest ub
             | None \<Rightarrow>
                 search_book ev raw (\<lambda>matches ub1.
                   case matches of
                     [] \<Rightarrow> reply ev (not_found raw) ub1
                   | [m] \<Rightarrow> dial_entry c ev m (\<lambda>number dest. place_call c env ev dest) ub1
                   | _ \<Rightarrow> reply ev (S ''Multiple matches. To call, send the number of the correct contact:''
                                   @ [10] @ numbered (uc_repr c) matches) ub1) ub)"

definition handle_call :: "ub_cfg \<Rightarrow> tg_env \<Rightarrow> tg_event \<Rightarrow> userbot \<Rightarrow> outcome" where
  "handle_call c env ev = gated env ev ''out_call'' (call_body c env ev)"

definition sms_reply_body :: "ub_cfg \<Rightarrow> tg_env \<Rightarrow> tg_event \<Rightarrow> userbot \<Rightarrow> outcome" where
  "sms_reply_body c env ev ub =
    (case te_reply ev of
       Some (Some quoted) \<Rightarrow>
         (case sms_quote quoted of
            None \<Rightarrow> (Inr (), ub)
          | Some phone \<Rightarrow> do_send_sms c env ev phone (strip (te_text ev)) ub)
     | _ \<Rightarrow> (Inr (), ub))"

definition handle_sms_reply :: "ub_cfg \<Rightarrow> tg_env \<Rightarrow> tg_event \<Rightarrow> userbot \<Rightarrow> outcome" where
  "handle_sms_reply c env ev = gated env ev ''out_sms'' (sms_reply_body c env ev)"

definition handle_voice_note :: "tg_env \<Rightarrow> tg_event \<Rightarrow> userbot \<Rightarrow> outcome" where
  "handle_voice_note env ev ub = (Inr (), snd (access env (te_sender ev) (S ''in_call'') ub))"

section \<open>The handlers of the phonebook\<close>

definition show_body :: "ub_cfg \<Rightarrow> tg_env \<Rightarrow> tg_event \<Rightarrow> userbot \<Rightarrow> outcome" where
  "show_body c env ev ub =
    (case uc_get (ub_book_file ub) (te_sender ev) (ub_book ub) of
       (entries, book) \<Rightarrow>
         (let ub1 = ub\<lparr>ub_book := book\<rparr>
          in if entries = [] then reply ev (S ''Directory is empty. Add a contact: /add <name> <number>'') ub1
             else reply ev (S ''Directory ('' @ nat_text (length entries) @ S ''):'' @ [10]
                    @ join_lines (map (entry_line (uc_repr c)) (take 50 entries))
                    @ and_more 50 (length entries)) ub1))"

definition handle_show :: "ub_cfg \<Rightarrow> tg_env \<Rightarrow> tg_event \<Rightarrow> userbot \<Rightarrow> outcome" where
  "handle_show c env ev = gated env ev ''out_call'' (show_body c env ev)"

text \<open>The name and the number of \<open>/add\<close>; without a trailing number the last dialled one.\<close>
definition add_arguments :: "str \<Rightarrow> str option \<Rightarrow> str \<times> str option" where
  "add_arguments raw last_number =
     (case scan_number [] raw None of
        Some (before, number) \<Rightarrow> (strip before, Some number)
      | None \<Rightarrow> (strip raw, last_number))"

definition added_text :: "(json \<Rightarrow> str) \<Rightarrow> str \<Rightarrow> add_result \<Rightarrow> str" where
  "added_text py_repr name r =
     (case r of
        Added number \<Rightarrow> S ''Added: '' @ single_token name @ S '' ('' @ number @ S '')''
      | NumberExists other \<Rightarrow>
          S ''Rejected: number already exists (contact '' @ [171] @ py_str py_repr other @ [187] @ S '').''
      | NameExists number \<Rightarrow> S ''Rejected: name already taken ('' @ py_str py_repr number @ S '').''
      | AddInvalid why \<Rightarrow>
          if why = S ''no name'' then S ''No name. Use /add <name> <number>.'' else S ''Invalid number.'')"

definition add_body :: "ub_cfg \<Rightarrow> tg_env \<Rightarrow> tg_event \<Rightarrow> userbot \<Rightarrow> outcome" where
  "add_body c env ev ub =
    (let raw = strip_command ''add'' (strip (te_text ev))
     in if raw = [] then reply ev (S ''Usage: /add <name> [number]'') ub
        else case add_arguments raw (dget (ub_last_call ub) (te_sender ev)) of
               (name, number) \<Rightarrow>
                 if number = None \<or> number = Some []
                 then reply ev (S ''No last number. Use /add <name> <number>.'') ub
                 else
                   (case add_unique (uc_repr c) (tv_book_write env) (ub_book_file ub) (te_sender ev) name
                           (the number) (ub_book ub) of
                      (r, book_file, book) \<Rightarrow>
                        (let ub1 = ub\<lparr>ub_book := book, ub_book_file := book_file\<rparr>
                         in case r of
                              Inl e \<Rightarrow> (Inl e, ub1)
                            | Inr res \<Rightarrow> reply ev (added_text (uc_repr c) name res) ub1)))"

definition handle_add :: "ub_cfg \<Rightarrow> tg_env \<Rightarrow> tg_event \<Rightarrow> userbot \<Rightarrow> outcome" where
  "handle_add c env ev = gated env ev ''out_call'' (add_body c env ev)"

text \<open>The answer to a deletion that ran, or its exception.\<close>
definition deleted ::
    "tg_event \<Rightarrow> (http_error + nat) \<times> contacts_file \<times> user_contacts \<Rightarrow> (nat \<Rightarrow> str) \<Rightarrow> str
     \<Rightarrow> userbot \<Rightarrow> outcome" where
  "deleted ev res some_text none_text ub =
     (case res of
        (r, book_file, book) \<Rightarrow>
          (let ub1 = ub\<lparr>ub_book := book, ub_book_file := book_file\<rparr>
           in case r of
                Inl e \<Rightarrow> (Inl e, ub1)
              | Inr n \<Rightarrow> reply ev (if n \<noteq> 0 then some_text n else none_text) ub1))"

definition del_body :: "ub_cfg \<Rightarrow> tg_env \<Rightarrow> tg_event \<Rightarrow> userbot \<Rightarrow> outcome" where
  "del_body c env ev ub =
    (let raw = strip_command ''del'' (strip (te_text ev))
     in if raw = [] then reply ev (S ''Usage: /del <name or number>'') ub
        else case parse_destination (Some raw) of
               Some dest \<Rightarrow>
                 deleted ev
                   (delete_by_number (uc_repr c) (tv_book_write env) (ub_book_file ub) (te_sender ev)
                      (d_number dest) (ub_book ub))
                   (\<lambda>n. S ''Deleted: '' @ nat_text n @ S '' (number '' @ d_number dest @ S '')'')
                   (S ''Number not found: '' @ d_number dest) ub
             | None \<Rightarrow>
                 search_book ev raw (\<lambda>matches ub1.
                   case matches of
                     [] \<Rightarrow> reply ev (S ''Not found: '' @ raw) ub1
                   | [m] \<Rightarrow>
                       deleted ev
                         (delete_by_name (uc_repr c) (tv_book_write env) (ub_book_file ub1) (te_sender ev)
                            (name_of m) (ub_book ub1))
                         (\<lambda>_. S ''Deleted: '' @ name_of m @ S '' ('' @ py_str (uc_repr c) (e_field ''number'' m) @ S '')'')
                         (S ''Failed to delete (record not found)'') ub1
                   | _ \<Rightarrow> reply ev (S ''Multiple matches. Delete by number:'' @ [10]
                                   @ numbered (uc_repr c) matches) ub1) ub)"

definition handle_del :: "ub_cfg \<Rightarrow> tg_env \<Rightarrow> tg_event \<Rightarrow> userbot \<Rightarrow> outcome" where
  "handle_del c env ev = gated env ev ''out_call'' (del_body c env ev)"

section \<open>The handlers of the blacklist\<close>

text \<open>\<open>/block\<close> and \<open>/unblock\<close> up to the local list: the agent is asked first.\<close>
definition blacklist_command ::
    "ub_cfg \<Rightarrow> tg_env \<Rightarrow> tg_event \<Rightarrow> string \<Rightarrow> string \<Rightarrow> string
     \<Rightarrow> (str \<Rightarrow> userbot \<Rightarrow> (http_error + bool) \<times> str stored \<times> blacklist) \<Rightarrow> userbot \<Rightarrow> outcome" where
  "blacklist_command c env ev usage path verb change ub =
     (case split_ws (te_text ev) of
        _ # arg # _ \<Rightarrow>
          (case parse_destination (Some arg) of
             None \<Rightarrow> reply ev (error_text NUMBER_MALFORMED) ub
           | Some dest \<Rightarrow>
               if d_internal dest \<or> is_service_number (d_number dest)
               then reply ev (error_text NUMBER_MALFORMED) ub
               else
                 (let norm = d_number dest; req = number_request c (tv_cid env) path norm; ub1 = post req ub;
                      failed = (\<lambda>why. reply ev (S ''Error '' @ S verb @ S ''ing number: '' @ why) ub1)
                  in case tv_net env req of
                       HttpFails why \<Rightarrow> failed why
                     | HttpReply code _ _ \<Rightarrow>
                         if \<not> success code then failed (uc_status_text c req code)
                         else (case change norm ub1 of
                                 (r, disk, bl) \<Rightarrow>
                                   (let ub2 = ub1\<lparr>ub_blacklist_disk := disk, ub_blacklist := bl\<rparr>
                                    in case r of
                                         Inl e \<Rightarrow> (Inl e, ub2)
                                       | Inr _ \<Rightarrow> reply ev (S ''Number '' @ norm @ S '' '' @ S verb @ S ''ed.'') ub2))))
      | _ \<Rightarrow> reply ev (S usage) ub)"

definition block_body :: "ub_cfg \<Rightarrow> tg_env \<Rightarrow> tg_event \<Rightarrow> userbot \<Rightarrow> outcome" where
  "block_body c env ev =
     blacklist_command c env ev ''Usage: /block <phone>'' ''/v1/blacklist'' ''block''
       (\<lambda>norm ub. bl_block (tv_blacklist_write env) (tv_stamp env) (ub_blacklist_disk ub) norm (ub_blacklist ub))"

definition handle_block :: "ub_cfg \<Rightarrow> tg_env \<Rightarrow> tg_event \<Rightarrow> userbot \<Rightarrow> outcome" where
  "handle_block c env ev = gated env ev ''out_sms'' (block_body c env ev)"

definition unblock_body :: "ub_cfg \<Rightarrow> tg_env \<Rightarrow> tg_event \<Rightarrow> userbot \<Rightarrow> outcome" where
  "unblock_body c env ev =
     blacklist_command c env ev ''Usage: /unblock <phone>'' ''/v1/unblock'' ''unblock''
       (\<lambda>norm ub. bl_unblock (tv_blacklist_write env) (tv_stamp env) (ub_blacklist_disk ub) norm (ub_blacklist ub))"

definition handle_unblock :: "ub_cfg \<Rightarrow> tg_env \<Rightarrow> tg_event \<Rightarrow> userbot \<Rightarrow> outcome" where
  "handle_unblock c env ev = gated env ev ''out_sms'' (unblock_body c env ev)"

definition listblock_body :: "tg_env \<Rightarrow> tg_event \<Rightarrow> userbot \<Rightarrow> outcome" where
  "listblock_body env ev ub =
    (case bl_list (ub_blacklist_disk ub) (ub_blacklist ub) of
       (numbers, bl) \<Rightarrow>
         (let ub1 = ub\<lparr>ub_blacklist := bl\<rparr>
          in if numbers = [] then reply ev (S ''Blacklist is empty.'') ub1
             else reply ev (join_lines ((S ''Blacklist ('' @ nat_text (length numbers) @ S ''):'')
                                        # map (\<lambda>n. S ''  '' @ n) numbers)) ub1))"

definition handle_listblock :: "tg_env \<Rightarrow> tg_event \<Rightarrow> userbot \<Rightarrow> outcome" where
  "handle_listblock env ev = gated env ev ''out_sms'' (listblock_body env ev)"

section \<open>Help and unknown commands\<close>

definition call_help :: "str list" where
  "call_help =
     [S ''<b>&lt;number&gt;</b> '' @ [8212] @ S '' voice call (simply enter the number)'',
      S ''<b>/redial</b> '' @ [8212] @ S '' redial the last number'',
      S ''<b>/add &lt;name&gt;</b> '' @ [8212] @ S '' add the last number to the phonebook'',
      S ''<b>/add &lt;name&gt; &lt;number&gt;</b> '' @ [8212] @ S '' add a contact to the phonebook'',
      S ''<b>/show</b> '' @ [8212] @ S '' show the phonebook'',
      S ''<b>/del &lt;name|number&gt;</b> '' @ [8212] @ S '' delete from the phonebook'',
      S ''<b>/call &lt;name|number&gt;</b> '' @ [8212] @ S '' call a contact from the phonebook'']"

definition block_help :: "str list" where
  "block_help =
     [S ''<b>/block &lt;number&gt;</b> '' @ [8212] @ S '' block a number'',
      S ''<b>/listblock</b> '' @ [8212] @ S '' show blocked numbers'',
      S ''<b>/unblock &lt;number&gt;</b> '' @ [8212] @ S '' unblock a number'']"

definition sms_help :: "str list" where
  "sms_help = [S ''<b>/sms &lt;name|number&gt; &lt;message&gt;</b> '' @ [8212] @ S '' send an SMS'']"

definition help_text :: "str list \<Rightarrow> str" where
  "help_text rights =
     (let has_call = S ''out_call'' \<in> set rights; has_sms = S ''out_sms'' \<in> set rights;
          lines = (if has_call then call_help else []) @ (if has_sms \<or> has_call then block_help else [])
                  @ (if has_sms then sms_help else [])
      in S ''SimBridge commands:'' @ [10]
         @ (if lines = [] then S ''  (no sending rights '' @ [8212] @ S '' see /help on the owner)''
            else join_lines (map (\<lambda>l. S ''  '' @ l) lines)))"

definition handle_help :: "tg_env \<Rightarrow> tg_event \<Rightarrow> userbot \<Rightarrow> outcome" where
  "handle_help env ev ub =
     (case is_known env (te_sender ev) ub of
        (known, ub1) \<Rightarrow>
          if \<not> known then (Inr (), ub1)
          else (case get_user_rights (tv_acl_file env) (te_sender ev) (ub_acl ub1) of
                  (rights, acl) \<Rightarrow> reply ev (help_text rights) (ub1\<lparr>ub_acl := acl\<rparr>)))"

definition handle_unknown_command :: "tg_env \<Rightarrow> tg_event \<Rightarrow> userbot \<Rightarrow> outcome" where
  "handle_unknown_command env ev ub =
     (case is_known env (te_sender ev) ub of
        (known, ub1) \<Rightarrow>
          if known then reply ev (error_text UNKNOWN_COMMAND @ S ''. /help '' @ [8212] @ S '' command list.'') ub1
          else (Inr (),
                ub_log ((entry (tv_now env) USER_DENIED)\<lparr>ae_user := Some (te_sender ev),
                   ae_outcome := S ''unknown_user'',
                   ae_details := [(S ''reason'', JStr (S ''unknown_command'')),
                                  (S ''text'', JStr (take 20 (te_text ev)))]\<rparr>) ub1))"

section \<open>One message\<close>

fun run_handler :: "ub_cfg \<Rightarrow> tg_env \<Rightarrow> tg_event \<Rightarrow> handler \<Rightarrow> userbot \<Rightarrow> outcome" where
  "run_handler c env ev HSms = handle_sms c env ev"
| "run_handler c env ev HNumber = handle_bare_number c env ev"
| "run_handler c env ev HRedial = handle_redial c env ev"
| "run_handler c env ev HCall = handle_call c env ev"
| "run_handler c env ev HShow = handle_show c env ev"
| "run_handler c env ev HAdd = handle_add c env ev"
| "run_handler c env ev HDel = handle_del c env ev"
| "run_handler c env ev HVoice = handle_voice_note env ev"
| "run_handler c env ev HBlock = handle_block c env ev"
| "run_handler c env ev HUnblock = handle_unblock c env ev"
| "run_handler c env ev HListblock = handle_listblock env ev"
| "run_handler c env ev HHelp = handle_help env ev"
| "run_handler c env ev HUnknown = handle_unknown_command env ev"
| "run_handler c env ev HReply = handle_sms_reply c env ev"

text \<open>A message runs every handler whose filter it passes; each has its own surroundings.\<close>
fun run_handlers :: "ub_cfg \<Rightarrow> (handler \<Rightarrow> tg_env) \<Rightarrow> tg_event \<Rightarrow> handler list \<Rightarrow> userbot \<Rightarrow> userbot" where
  "run_handlers c envs ev [] ub = ub"
| "run_handlers c envs ev (h # hs) ub = run_handlers c envs ev hs (snd (run_handler c (envs h) ev h ub))"

definition on_message :: "ub_cfg \<Rightarrow> (handler \<Rightarrow> tg_env) \<Rightarrow> tg_event \<Rightarrow> userbot \<Rightarrow> userbot" where
  "on_message c envs ev = run_handlers c envs ev (handlers_for ev)"

definition new_userbot :: "str stored \<Rightarrow> str stored \<Rightarrow> contacts_file \<Rightarrow> userbot" where
  "new_userbot acl_file blacklist_disk book_file =
     \<lparr>ub_acl = new_acl_manager acl_file, ub_audit = [], ub_blacklist = new_blacklist blacklist_disk,
      ub_blacklist_disk = blacklist_disk, ub_book = new_user_contacts book_file, ub_book_file = book_file,
      ub_last_call = [], ub_replies = [], ub_requests = []\<rparr>"

text \<open>\<open>format_incoming_sms\<close>: the notice with the name of the shared contacts.\<close>
definition format_incoming_sms :: "csv_provider \<Rightarrow> str \<Rightarrow> str \<Rightarrow> str" where
  "format_incoming_sms contacts phone text =
     (let norm = (case normalize_e164 phone of Some n \<Rightarrow> if n = [] then phone else n | None \<Rightarrow> phone);
          name = (case contact_resolve contacts [] norm of None \<Rightarrow> [] | Some n \<Rightarrow> n)
      in S ''SMS '' @ norm @ (if name \<noteq> [] then S '' ('' @ name @ S '')'' else []) @ S '':'' @ [10] @ text)"

section \<open>Session recovery\<close>

definition TG_RECONNECT_MIN_DELAY :: int where "TG_RECONNECT_MIN_DELAY = 5000"
definition TG_RECONNECT_MAX_DELAY :: int where "TG_RECONNECT_MAX_DELAY = 300000"
definition TG_RECONNECT_MAX_RETRIES :: nat where "TG_RECONNECT_MAX_RETRIES = 10"

text \<open>
  The loop over session drops: each drop sends an alert and reconnects; \<open>works k\<close> says whether
  attempt \<open>k\<close> after that drop succeeds. The result is the number of alerts and whether the process
  gave up; with no drop left it is still connected.
\<close>
fun run_with_recovery :: "(nat \<Rightarrow> bool) list \<Rightarrow> nat \<times> bool" where
  "run_with_recovery [] = (0, False)"
| "run_with_recovery (works # drops) =
     (if rt_ok (reconnect works TG_RECONNECT_MIN_DELAY TG_RECONNECT_MAX_DELAY TG_RECONNECT_MAX_RETRIES)
      then (case run_with_recovery drops of (alerts, gave_up) \<Rightarrow> (alerts + 1, gave_up))
      else (1, True))"

end
