(* ===== verification/UserbotEvents.thy ===== *)
theory UserbotEvents
  imports Auth Acl Config Contacts UserContacts Metrics Errors
begin

text \<open>
  \<open>userbot/http_server.py\<close>: the events the GSM node posts to the Telegram node (SMS, voicemail,
  delivery state, call outcome, alert) and their delivery to Telegram users.

  \<open>events_cfg\<close> holds the arguments of \<open>create_http_server\<close> that do not change, \<open>events_state\<close> the
  objects that do; \<open>ev_sent\<close> is what Telegram accepted, in order, and \<open>ev_temps\<close> the number of
  uploaded recordings on disk. The Telegram client is a record of the outcomes of its calls.
  A field of a body that the handlers use as a text and that is not one is an error here; the
  scripts that post the events send texts.
\<close>

section \<open>State\<close>

datatype tg_message =
    Message str
  | VoiceNote

record tg_client =
  tc_send :: "int \<Rightarrow> str \<Rightarrow> bool"
  tc_file :: "int \<Rightarrow> bool"
  tc_connected :: "bool option"

record events_cfg =
  ec_secret :: str
  ec_peers :: "str list"
  ec_contacts :: "csv_provider option"
  ec_client :: "tg_client option"
  ec_master :: "int option"
  ec_repr :: "json \<Rightarrow> str"

record events_state =
  ev_acl :: acl_manager
  ev_audit :: "audit_entry list"
  ev_metrics :: "metrics option"
  ev_contacts :: "user_contacts option"
  ev_sent :: "(int \<times> tg_message) list"
  ev_temps :: nat

text \<open>What one request meets besides its body: the clock, a new id, the two files.\<close>
record events_env =
  ee_now :: int
  ee_uuid :: str
  ee_acl_file :: "str stored"
  ee_contacts_file :: contacts_file

definition events_log :: "audit_entry \<Rightarrow> events_state \<Rightarrow> events_state" where
  "events_log e st = st\<lparr>ev_audit := audit_append e (ev_audit st)\<rparr>"

section \<open>The guard\<close>

text \<open>The first lines of every handler.\<close>
definition events_guard :: "events_cfg \<Rightarrow> request \<Rightarrow> http_error + unit" where
  "events_guard ec r =
     (case compare_digest (case header_get r ''x-simbridge-secret'' of None \<Rightarrow> [] | Some s \<Rightarrow> s) (ec_secret ec) of
        Inl e \<Rightarrow> Inl e
      | Inr same \<Rightarrow>
          if \<not> same then Inl (HTTPException 401 (S ''Invalid secret''))
          else if ec_peers ec \<noteq> [] \<and> rq_client r \<notin> Some ` set (ec_peers ec)
          then Inl (HTTPException 403 (S ''IP not allowed''))
          else Inr ())"

text \<open>A handler behind the guard.\<close>
definition guarded ::
    "events_cfg \<Rightarrow> request \<Rightarrow> (events_state \<Rightarrow> (http_error + 'r) \<times> events_state) \<Rightarrow> events_state
     \<Rightarrow> (http_error + 'r) \<times> events_state" where
  "guarded ec r handler st = (case events_guard ec r of Inl e \<Rightarrow> (Inl e, st) | Inr _ \<Rightarrow> handler st)"

section \<open>Names\<close>

text \<open>\<open>_resolve_name\<close>: the recipient's own phonebook first, then the contacts cache.\<close>
definition event_name ::
    "events_cfg \<Rightarrow> events_env \<Rightarrow> int option \<Rightarrow> str \<Rightarrow> events_state \<Rightarrow> json option \<times> events_state" where
  "event_name ec ee uid number st =
     (let shared = (case ec_contacts ec of
            None \<Rightarrow> None | Some p \<Rightarrow> map_option JStr (contact_resolve p [] number))
      in case (uid, ev_contacts st) of
           (Some u, Some book) \<Rightarrow>
             (case resolve_number (ee_contacts_file ee) u number book of
                (own, book') \<Rightarrow>
                  (case own of
                     Some name \<Rightarrow> if truthy name then Some name else shared
                   | None \<Rightarrow> shared, st\<lparr>ev_contacts := Some book'\<rparr>))
         | _ \<Rightarrow> (shared, st))"

text \<open>A text, with the name in parentheses when there is one.\<close>
definition named :: "events_cfg \<Rightarrow> str \<Rightarrow> json option \<Rightarrow> str" where
  "named ec number name =
     (case name of
        None \<Rightarrow> number
      | Some n \<Rightarrow> if truthy n then number @ S '' ('' @ py_str (ec_repr ec) n @ S '')'' else number)"

definition sms_notice :: "events_cfg \<Rightarrow> str \<Rightarrow> str \<Rightarrow> json option \<Rightarrow> str" where
  "sms_notice ec phone text name = S ''SMS '' @ named ec phone name @ S '':'' @ [10] @ text"

section \<open>Incoming SMS\<close>

text \<open>The delivery loop: who got the notice, who did not.\<close>
fun deliver_sms ::
    "events_cfg \<Rightarrow> events_env \<Rightarrow> tg_client \<Rightarrow> str \<Rightarrow> str \<Rightarrow> str \<Rightarrow> int list \<Rightarrow> events_state
     \<Rightarrow> int list \<times> int list \<times> events_state" where
  "deliver_sms ec ee tg phone text dflt [] st = ([], [], st)"
| "deliver_sms ec ee tg phone text dflt (uid # uids) st =
     (case event_name ec ee (Some uid) phone st of
        (name, st1) \<Rightarrow>
          (let msg = (case name of
                 None \<Rightarrow> dflt
               | Some n \<Rightarrow> if truthy n then sms_notice ec phone text name else dflt)
           in if tc_send tg uid msg
              then (case deliver_sms ec ee tg phone text dflt uids
                          (st1\<lparr>ev_sent := ev_sent st1 @ [(uid, Message msg)]\<rparr>) of
                      (ok, bad, st2) \<Rightarrow> (uid # ok, bad, st2))
              else (case deliver_sms ec ee tg phone text dflt uids st1 of
                      (ok, bad, st2) \<Rightarrow> (ok, uid # bad, st2))))"

definition event_field :: "cfg \<Rightarrow> string \<Rightarrow> http_error + str" where
  "event_field body key =
     (case dget body (S key) of
        None \<Rightarrow> Inl (Unhandled (S ''KeyError''))
      | Some (JStr s) \<Rightarrow> Inr s
      | Some _ \<Rightarrow> Inl (Unhandled (S ''TypeError'')))"

definition is_ring :: "str \<Rightarrow> bool" where
  "is_ring text \<longleftrightarrow> text = S ''RING'' \<or> startswith text (S ''RING '')"

definition delivery_outcome :: "int list \<Rightarrow> int list \<Rightarrow> int list \<Rightarrow> str" where
  "delivery_outcome audience delivered failed =
     (if delivered \<noteq> [] \<and> failed = [] then S ''ok''
      else if delivered \<noteq> [] then S ''partial''
      else if audience \<noteq> [] then S ''failed''
      else S ''no_audience'')"

record sms_event_response =
  ser_correlation :: str
  ser_text :: "str option"
  ser_delivered :: "int list"

definition sms_notice_event ::
    "events_cfg \<Rightarrow> events_env \<Rightarrow> str \<Rightarrow> str \<Rightarrow> str \<Rightarrow> events_state \<Rightarrow> sms_event_response \<times> events_state" where
  "sms_notice_event ec ee phone text modem st =
     (let ring = is_ring text;
          shared = (case ec_contacts ec of None \<Rightarrow> None | Some p \<Rightarrow> map_option JStr (contact_resolve p [] phone));
          formatted = (if ring then None else Some (sms_notice ec phone text shared));
          (aud, acl) = users_with_right (ee_acl_file ee) (if ring then S ''in_call'' else S ''in_sms'') (ev_acl st);
          audience = sorted_list_of_set aud;
          st1 = st\<lparr>ev_acl := acl\<rparr>;
          (delivered, failed, st2) =
            (case (formatted, ec_client ec) of
               (Some t, Some tg) \<Rightarrow> deliver_sms ec ee tg phone text t audience st1
             | _ \<Rightarrow> ([], [], st1));
          st3 = (if ring then st2 else st2\<lparr>ev_metrics := map_option sms_incoming (ev_metrics st2)\<rparr>);
          outcome = (if formatted = None then S ''suppressed'' else delivery_outcome audience delivered failed);
          st4 = events_log ((entry (ee_now ee) SMS_RECEIVED)\<lparr>ae_outcome := outcome,
                   ae_correlation := Some (ee_uuid ee), ae_modem := Some modem,
                   ae_details := [(S ''from'', JStr phone), (S ''text_len'', JInt (int (length text))),
                     (S ''kind'', JStr (if ring then S ''ring'' else S ''sms'')),
                     (S ''audience'', JList (map JInt audience)),
                     (S ''delivered_to'', JList (map JInt delivered))]\<rparr>) st3
      in (\<lparr>ser_correlation = ee_uuid ee, ser_text = formatted, ser_delivered = delivered\<rparr>, st4))"

definition handle_sms_event ::
    "events_cfg \<Rightarrow> events_env \<Rightarrow> request \<Rightarrow> cfg \<Rightarrow> events_state
     \<Rightarrow> (http_error + sms_event_response) \<times> events_state" where
  "handle_sms_event ec ee r body =
     guarded ec r (\<lambda>st.
       case (event_field body ''phone_number'', event_field body ''text'') of
         (Inl e, _) \<Rightarrow> (Inl e, st)
       | (_, Inl e) \<Rightarrow> (Inl e, st)
       | (Inr phone, Inr text) \<Rightarrow>
           (let modem = (case event_field body ''modem_id'' of Inr m \<Rightarrow> m | Inl _ \<Rightarrow> S ''gsm'')
            in case sms_notice_event ec ee phone text modem st of (resp, st') \<Rightarrow> (Inr resp, st')))"

section \<open>Voicemail\<close>

text \<open>The parsed form; the upload is its content, \<open>None\<close> when there is no file.\<close>
record voicemail_form =
  vf_file :: "str option"
  vf_phone :: "str option"
  vf_type :: "str option"
  vf_correlation :: "str option"
  vf_duration :: "str option"

definition form_get :: "str option \<Rightarrow> string \<Rightarrow> str" where
  "form_get v dflt = (case v of None \<Rightarrow> S dflt | Some s \<Rightarrow> s)"

text \<open>The labels begin with a pictogram: receiver, warning sign (two code points), microphone.\<close>
definition vm_label :: "events_cfg \<Rightarrow> str \<Rightarrow> str \<Rightarrow> json option \<Rightarrow> str" where
  "vm_label ec vm_type norm name =
     (let who = (case name of
            None \<Rightarrow> norm
          | Some n \<Rightarrow> if truthy n then py_str (ec_repr ec) n @ S '' ('' @ norm @ S '')'' else norm)
      in if vm_type = S ''early_hangup'' then [128222] @ S '' Call '' @ [8212, 32] @ who
         else if vm_type = S ''recording_missing'' then [9888, 65039] @ S '' No recording '' @ [8212, 32] @ who
         else [127897] @ S '' Voice note '' @ [8212, 32] @ who)"

fun deliver_voicemail ::
    "events_cfg \<Rightarrow> events_env \<Rightarrow> tg_client option \<Rightarrow> str \<Rightarrow> str \<Rightarrow> bool \<Rightarrow> int list \<Rightarrow> events_state
     \<Rightarrow> int list \<times> int list \<times> events_state" where
  "deliver_voicemail ec ee tg vm_type norm audio [] st = ([], [], st)"
| "deliver_voicemail ec ee tg vm_type norm audio (uid # uids) st =
     (let (sent, st1) =
        (case tg of
           None \<Rightarrow> (False, st)
         | Some c \<Rightarrow>
             (case event_name ec ee (Some uid) norm st of
                (name, sa) \<Rightarrow>
                  (let msg = vm_label ec vm_type norm name
                   in if \<not> tc_send c uid msg then (False, sa)
                      else let sb = sa\<lparr>ev_sent := ev_sent sa @ [(uid, Message msg)]\<rparr>
                           in if \<not> audio then (True, sb)
                              else if tc_file c uid
                              then (True, sb\<lparr>ev_sent := ev_sent sb @ [(uid, VoiceNote)]\<rparr>)
                              else (False, sb))))
      in case deliver_voicemail ec ee tg vm_type norm audio uids st1 of
           (ok, bad, st2) \<Rightarrow> if sent then (uid # ok, bad, st2) else (ok, uid # bad, st2))"

record voicemail_response =
  vr_type :: str
  vr_label :: str
  vr_delivered :: "int list"

text \<open>\<open>temp_ok\<close> says whether the temporary file can be written; its name is removed on every path.\<close>
definition voicemail_event ::
    "events_cfg \<Rightarrow> events_env \<Rightarrow> bool \<Rightarrow> voicemail_form \<Rightarrow> events_state
     \<Rightarrow> (http_error + voicemail_response) \<times> events_state" where
  "voicemail_event ec ee temp_ok vf st =
     (let phone = form_get (vf_phone vf) ''unknown'';
          vm_type = form_get (vf_type vf) ''normal'';
          norm = (case normalize_e164 phone of Some n \<Rightarrow> n | None \<Rightarrow> phone);
          (name, _) = event_name ec ee None norm st;
          (aud, acl) = users_with_right (ee_acl_file ee) (S ''in_call'') (ev_acl st);
          audience = sorted_list_of_set aud;
          st1 = st\<lparr>ev_acl := acl\<rparr>;
          content = (if vm_type = S ''normal'' \<and> ec_client ec \<noteq> None then vf_file vf else None);
          audio = (content \<noteq> None \<and> content \<noteq> Some [])
      in if audio \<and> \<not> temp_ok then (Inl (Unhandled (S ''OSError'')), st1)
         else
           (let st2 = (if audio then st1\<lparr>ev_temps := ev_temps st1 + 1\<rparr> else st1);
                (delivered, failed, st3) =
                  deliver_voicemail ec ee (ec_client ec) vm_type norm audio audience st2;
                st4 = (if audio then st3\<lparr>ev_temps := ev_temps st3 - 1\<rparr> else st3);
                st5 = events_log ((entry (ee_now ee)
                         (if vm_type = S ''early_hangup'' then VOICEMAIL_EARLY_HANGUP else VOICEMAIL_RECEIVED))
                       \<lparr>ae_outcome := delivery_outcome audience delivered failed,
                        ae_correlation := Some (form_get (vf_correlation vf) ''''),
                        ae_details := [(S ''from'', JStr norm),
                          (S ''name'', case name of None \<Rightarrow> JNull | Some n \<Rightarrow> n),
                          (S ''voicemail_type'', JStr vm_type),
                          (S ''duration'', JStr (form_get (vf_duration vf) ''0'')),
                          (S ''audience'', JList (map JInt audience)),
                          (S ''delivered_to'', JList (map JInt delivered)),
                          (S ''has_audio'', JBool audio)]\<rparr>) st4
            in (Inr \<lparr>vr_type = vm_type, vr_label = vm_label ec vm_type norm name, vr_delivered = delivered\<rparr>, st5)))"

definition form_content :: "str \<Rightarrow> bool" where
  "form_content ct \<longleftrightarrow>
     startswith ct (S ''multipart/form-data'') \<or> startswith ct (S ''application/x-www-form-urlencoded'')"

definition handle_voicemail_event ::
    "events_cfg \<Rightarrow> events_env \<Rightarrow> request \<Rightarrow> bool \<Rightarrow> voicemail_form \<Rightarrow> events_state
     \<Rightarrow> (http_error + voicemail_response) \<times> events_state" where
  "handle_voicemail_event ec ee r temp_ok vf =
     guarded ec r (\<lambda>st.
       if \<not> form_content (case header_get r ''content-type'' of None \<Rightarrow> [] | Some c \<Rightarrow> c)
       then (Inl (HTTPException 415 (S ''Unsupported content type'')), st)
       else voicemail_event ec ee temp_ok vf st)"

section \<open>Personal notifications\<close>

text \<open>\<open>str(body.get(key, ""))\<close>\<close>
definition body_text :: "(json \<Rightarrow> str) \<Rightarrow> cfg \<Rightarrow> string \<Rightarrow> str" where
  "body_text py_repr body key = (case dget body (S key) of None \<Rightarrow> [] | Some v \<Rightarrow> py_str py_repr v)"

text \<open>\<open>int(body.get("telegram_user_id", 0) or 0)\<close>\<close>
definition body_user :: "cfg \<Rightarrow> http_error + int" where
  "body_user body =
     (case dget body (S ''telegram_user_id'') of
        None \<Rightarrow> Inr 0
      | Some v \<Rightarrow>
          if \<not> truthy v then Inr 0
          else (case v of
                  JInt i \<Rightarrow> Inr i
                | JBool b \<Rightarrow> Inr 1
                | JStr s \<Rightarrow> (case parse_int s of Some i \<Rightarrow> Inr i | None \<Rightarrow> Inl (Unhandled (S ''ValueError'')))
                | _ \<Rightarrow> Inl (Unhandled (S ''TypeError''))))"

text \<open>One message to one user; nobody for user 0 or without a client.\<close>
definition notify_user :: "events_cfg \<Rightarrow> int \<Rightarrow> str \<Rightarrow> events_state \<Rightarrow> bool \<times> events_state" where
  "notify_user ec uid text st =
     (if uid = 0 then (False, st)
      else case ec_client ec of
             None \<Rightarrow> (False, st)
           | Some tg \<Rightarrow>
               if tc_send tg uid text
               then (True, st\<lparr>ev_sent := ev_sent st @ [(uid, Message text)]\<rparr>)
               else (False, st))"

text \<open>The suffix with the carrier's text: at most 200 characters, or elements of a list.\<close>
definition error_suffix :: "(json \<Rightarrow> str) \<Rightarrow> json \<Rightarrow> http_error + str" where
  "error_suffix py_repr err =
     (if \<not> truthy err then Inr []
      else case err of
             JStr s \<Rightarrow> Inr (10 # take 200 s)
           | JList xs \<Rightarrow> Inr (10 # py_repr (JList (take 200 xs)))
           | _ \<Rightarrow> Inl (Unhandled (S ''TypeError'')))"

definition delivery_event ::
    "events_cfg \<Rightarrow> events_env \<Rightarrow> cfg \<Rightarrow> events_state \<Rightarrow> (http_error + bool) \<times> events_state" where
  "delivery_event ec ee body st =
     (case body_user body of
        Inl e \<Rightarrow> (Inl e, st)
      | Inr uid \<Rightarrow>
          (let sms_id = body_text (ec_repr ec) body ''sms_id'';
               phone = body_text (ec_repr ec) body ''phone_number'';
               status = body_text (ec_repr ec) body ''status'';
               err = (case dget body (S ''error'') of None \<Rightarrow> JNull | Some v \<Rightarrow> v);
               finish = (\<lambda>text.
                 (case notify_user ec uid text st of
                    (notified, st1) \<Rightarrow>
                      (Inr notified,
                       events_log ((entry (ee_now ee) SMS_DELIVERY_REPORT)\<lparr>ae_user := Some uid,
                          ae_outcome := status, ae_correlation := Some sms_id,
                          ae_details := [(S ''phone'', JStr phone), (S ''error'', err),
                                         (S ''notified'', JBool notified)]\<rparr>) st1)))
           in if status = S ''delivered'' then finish (S ''Delivered: '' @ phone)
              else if status = S ''failed''
              then (case error_suffix (ec_repr ec) err of
                      Inl e \<Rightarrow> (Inl e, st)
                    | Inr suffix \<Rightarrow> finish (error_text DELIVERY_FAILED @ S '': '' @ phone @ suffix))
              else (Inr False,
                    events_log ((entry (ee_now ee) SMS_DELIVERY_REPORT)\<lparr>ae_outcome := S ''unknown_status'',
                       ae_correlation := Some sms_id,
                       ae_details := [(S ''phone'', JStr phone), (S ''status'', JStr status)]\<rparr>) st)))"

definition call_message :: "str \<Rightarrow> str \<Rightarrow> str option" where
  "call_message dest status =
     (if status = S ''answered'' then Some (S ''Connected to '' @ dest)
      else if status = S ''no_answer'' then Some (S ''No answer: '' @ dest)
      else if status = S ''busy'' then Some (S ''Busy: '' @ dest)
      else if status = S ''failed'' then Some (S ''Network error: '' @ dest)
      else None)"

definition call_outcome_event ::
    "events_cfg \<Rightarrow> events_env \<Rightarrow> cfg \<Rightarrow> events_state \<Rightarrow> (http_error + bool) \<times> events_state" where
  "call_outcome_event ec ee body st =
     (case body_user body of
        Inl e \<Rightarrow> (Inl e, st)
      | Inr uid \<Rightarrow>
          (let dest = body_text (ec_repr ec) body ''to'';
               status = body_text (ec_repr ec) body ''status'';
               call_id = body_text (ec_repr ec) body ''call_id'';
               log = (\<lambda>outcome details. events_log ((entry (ee_now ee) CALL_HANGUP)\<lparr>ae_user := Some uid,
                        ae_outcome := outcome, ae_correlation := Some call_id, ae_details := details\<rparr>))
           in case call_message dest status of
                None \<Rightarrow>
                  (Inr False, log (S ''unknown_status'') [(S ''to'', JStr dest), (S ''status'', JStr status)] st)
              | Some text \<Rightarrow>
                  (case notify_user ec uid text st of
                     (notified, st1) \<Rightarrow>
                       (Inr notified, log status [(S ''to'', JStr dest), (S ''notified'', JBool notified)] st1))))"

definition alert_event ::
    "events_cfg \<Rightarrow> events_env \<Rightarrow> cfg \<Rightarrow> events_state \<Rightarrow> (http_error + bool) \<times> events_state" where
  "alert_event ec ee body st =
     (let message = strip (body_text (ec_repr ec) body ''message'')
      in if message = [] then (Inl (HTTPException 400 (S ''message is empty'')), st)
         else
           (let (sent, st1) =
              (case (ec_master ec, ec_client ec) of
                 (Some uid, Some tg) \<Rightarrow>
                   if tc_send tg uid message
                   then (True, st\<lparr>ev_sent := ev_sent st @ [(uid, Message message)]\<rparr>) else (False, st)
               | _ \<Rightarrow> (False, st))
            in (Inr sent,
                events_log ((entry (ee_now ee) ALERT_SENT)\<lparr>ae_user := ec_master ec,
                   ae_outcome := (if sent then S ''ok'' else S ''failed''),
                   ae_details := [(S ''message_preview'', JStr (take 200 message)), (S ''sent'', JBool sent)]\<rparr>) st1)))"

text \<open>The three handlers behind the guard.\<close>
definition handle_delivery_event ::
    "events_cfg \<Rightarrow> events_env \<Rightarrow> request \<Rightarrow> cfg \<Rightarrow> events_state \<Rightarrow> (http_error + bool) \<times> events_state" where
  "handle_delivery_event ec ee r body = guarded ec r (delivery_event ec ee body)"

definition handle_call_event ::
    "events_cfg \<Rightarrow> events_env \<Rightarrow> request \<Rightarrow> cfg \<Rightarrow> events_state \<Rightarrow> (http_error + bool) \<times> events_state" where
  "handle_call_event ec ee r body = guarded ec r (call_outcome_event ec ee body)"

definition handle_alert_event ::
    "events_cfg \<Rightarrow> events_env \<Rightarrow> request \<Rightarrow> cfg \<Rightarrow> events_state \<Rightarrow> (http_error + bool) \<times> events_state" where
  "handle_alert_event ec ee r body = guarded ec r (alert_event ec ee body)"

section \<open>Health\<close>

record userbot_report =
  uh_status :: str
  uh_connected :: "bool option"
  uh_metrics :: "metrics_export option"

definition userbot_health :: "int \<Rightarrow> events_cfg \<Rightarrow> events_state \<Rightarrow> userbot_report" where
  "userbot_health mono_now ec st =
     (let connected = (case ec_client ec of
            None \<Rightarrow> None
          | Some tg \<Rightarrow> Some (case tc_connected tg of None \<Rightarrow> False | Some b \<Rightarrow> b))
      in \<lparr>uh_status = (if connected \<noteq> Some False then S ''ok'' else S ''degraded''), uh_connected = connected,
          uh_metrics = map_option (get_all mono_now) (ev_metrics st)\<rparr>)"

section \<open>Lemmas\<close>

text \<open>Names depend on the phonebook file as it is now; looking one up changes no later look-up.\<close>
definition books :: "events_env \<Rightarrow> events_state \<Rightarrow> user_contacts option" where
  "books ee st = map_option (uc_reload (ee_contacts_file ee)) (ev_contacts st)"

lemma resolve_number_reloaded:
  "fst (resolve_number f u number book)
     = (if number = [] then None
        else map_option (e_field ''name'') (List.find (is_number number) (uc_entries (uc_reload f book) u)))"
  "uc_reload f (snd (resolve_number f u number book)) = uc_reload f book"
  by (simp_all add: resolve_number_def uc_get_def Let_def ucr.reload_idempotent)

lemma event_name_books:
  "books ee st1 = books ee st2 \<Longrightarrow> fst (event_name ec ee uid number st1) = fst (event_name ec ee uid number st2)"
  by (cases uid; cases "ev_contacts st1"; cases "ev_contacts st2")
    (simp_all add: event_name_def books_def Let_def case_prod_beta resolve_number_reloaded)

lemma event_name_frame:
  "books ee (snd (event_name ec ee uid number st)) = books ee st"
  "ev_sent (snd (event_name ec ee uid number st)) = ev_sent st"
  "ev_temps (snd (event_name ec ee uid number st)) = ev_temps st"
  "ev_metrics (snd (event_name ec ee uid number st)) = ev_metrics st"
  "ev_audit (snd (event_name ec ee uid number st)) = ev_audit st"
  by (cases uid; cases "ev_contacts st";
      simp add: event_name_def books_def Let_def case_prod_beta resolve_number_reloaded)+

text \<open>The notice for one recipient.\<close>
definition notice_for :: "events_cfg \<Rightarrow> events_env \<Rightarrow> events_state \<Rightarrow> str \<Rightarrow> str \<Rightarrow> str \<Rightarrow> int \<Rightarrow> str" where
  "notice_for ec ee st phone text dflt uid =
     (case fst (event_name ec ee (Some uid) phone st) of
        None \<Rightarrow> dflt | Some n \<Rightarrow> if truthy n then sms_notice ec phone text (Some n) else dflt)"

lemma deliver_sms_spec:
  assumes "deliver_sms ec ee tg phone text dflt uids st = (ok, bad, st')" and "books ee st = books ee st0"
  defines "msg \<equiv> notice_for ec ee st0 phone text dflt"
  shows "ok = filter (\<lambda>u. tc_send tg u (msg u)) uids \<and> bad = filter (\<lambda>u. \<not> tc_send tg u (msg u)) uids
     \<and> ev_sent st' = ev_sent st @ map (\<lambda>u. (u, Message (msg u))) ok
     \<and> ev_metrics st' = ev_metrics st \<and> ev_audit st' = ev_audit st \<and> ev_temps st' = ev_temps st"
  using assms(1,2)
proof (induction uids arbitrary: st ok bad st')
  case Nil
  then show ?case by simp
next
  case (Cons uid uids)
  obtain name st1 where n: "event_name ec ee (Some uid) phone st = (name, st1)" by fastforce
  have name: "name = fst (event_name ec ee (Some uid) phone st0)"
    using event_name_books [OF Cons.prems(2), of ec "Some uid" phone] n by simp
  note frame = event_name_frame [where ec = ec and ee = ee and uid = "Some uid" and number = phone and st = st,
      unfolded n snd_conv]
  have m: "(case name of None \<Rightarrow> dflt | Some n \<Rightarrow> if truthy n then sms_notice ec phone text name else dflt) = msg uid"
    unfolding msg_def notice_for_def name [symmetric] by (cases name) simp_all
  show ?case
  proof (cases "tc_send tg uid (msg uid)")
    case True
    let ?st = "st1\<lparr>ev_sent := ev_sent st1 @ [(uid, Message (msg uid))]\<rparr>"
    obtain ok' bad' st2 where d: "deliver_sms ec ee tg phone text dflt uids ?st = (ok', bad', st2)"
      by (metis prod_cases3)
    have "books ee ?st = books ee st0" using frame(1) Cons.prems(2) by (simp add: books_def)
    from Cons.IH [OF d this] True d Cons.prems(1) n m frame show ?thesis by auto
  next
    case False
    obtain ok' bad' st2 where d: "deliver_sms ec ee tg phone text dflt uids st1 = (ok', bad', st2)"
      by (metis prod_cases3)
    have "books ee st1 = books ee st0" using frame(1) Cons.prems(2) by simp
    from Cons.IH [OF d this] False d Cons.prems(1) n m frame show ?thesis by auto
  qed
qed

lemma deliver_voicemail_frame:
  assumes "deliver_voicemail ec ee tg vm_type norm audio uids st = (ok, bad, st')"
  shows "ev_temps st' = ev_temps st
     \<and> (\<exists>msgs. ev_sent st' = ev_sent st @ msgs \<and> fst ` set msgs \<subseteq> set uids
          \<and> (\<not> audio \<longrightarrow> VoiceNote \<notin> snd ` set msgs) \<and> (tg = None \<longrightarrow> msgs = []))"
  using assms
proof (induction uids arbitrary: st ok bad st')
  case Nil
  then show ?case by simp
next
  case (Cons uid uids)
  obtain sent st1 where one: "(case tg of None \<Rightarrow> (False, st)
      | Some c \<Rightarrow> (case event_name ec ee (Some uid) norm st of (name, sa) \<Rightarrow>
          (let msg = vm_label ec vm_type norm name
           in if \<not> tc_send c uid msg then (False, sa)
              else let sb = sa\<lparr>ev_sent := ev_sent sa @ [(uid, Message msg)]\<rparr>
                   in if \<not> audio then (True, sb)
                      else if tc_file c uid then (True, sb\<lparr>ev_sent := ev_sent sb @ [(uid, VoiceNote)]\<rparr>)
                      else (False, sb)))) = (sent, st1)"
    by fastforce
  have st1: "ev_temps st1 = ev_temps st \<and> (\<exists>msgs. ev_sent st1 = ev_sent st @ msgs
      \<and> fst ` set msgs \<subseteq> {uid} \<and> (\<not> audio \<longrightarrow> VoiceNote \<notin> snd ` set msgs) \<and> (tg = None \<longrightarrow> msgs = []))"
  proof (cases tg)
    case None
    with one show ?thesis by auto
  next
    case (Some c)
    obtain name sa where n: "event_name ec ee (Some uid) norm st = (name, sa)" by fastforce
    note frame = event_name_frame(2,3) [where ec = ec and ee = ee and uid = "Some uid" and number = norm and st = st,
      unfolded n snd_conv]
    show ?thesis
      using one frame unfolding Some n
      by (auto simp: Let_def split: if_splits)
  qed
  obtain ok' bad' st2 where rest: "deliver_voicemail ec ee tg vm_type norm audio uids st1 = (ok', bad', st2)"
    by (metis prod_cases3)
  then have st2: "st' = st2" using Cons.prems one by (auto simp: Let_def split: if_splits)
  from Cons.IH [OF rest] st1 st2 show ?case by fastforce
qed

lemma books_acl [simp]: "books ee (st\<lparr>ev_acl := a\<rparr>) = books ee st"
  by (simp add: books_def)

lemma events_log_frame [simp]:
  "ev_sent (events_log e st) = ev_sent st" "ev_temps (events_log e st) = ev_temps st"
  "ev_metrics (events_log e st) = ev_metrics st" "ev_audit (events_log e st) = ev_audit st @ [e]"
  by (simp_all add: events_log_def audit_append_def)

lemma notify_user_sent:
  "notify_user ec uid text st = (n, st') \<Longrightarrow>
     ev_sent st' = ev_sent st @ (if n then [(uid, Message text)] else []) \<and> (n \<longrightarrow> uid \<noteq> 0)"
  by (auto simp: notify_user_def split: if_splits option.splits)

text \<open>At most one message, to this user, and none unless the answer says so.\<close>
definition sent_only :: "int \<Rightarrow> bool \<Rightarrow> events_state \<Rightarrow> events_state \<Rightarrow> bool" where
  "sent_only uid n st st' \<longleftrightarrow> (\<exists>text. ev_sent st' = ev_sent st @ (if n then [(uid, Message text)] else []))"

lemma sent_only_none [simp]: "ev_sent st' = ev_sent st \<Longrightarrow> sent_only uid False st st'"
  by (simp add: sent_only_def)

lemma notified_sent:
  assumes "(case notify_user ec uid text st of (m, st1) \<Rightarrow> (Inr m, events_log (e m) st1)) = (Inr n, st')"
  shows "sent_only uid n st st'"
proof -
  obtain m st1 where "notify_user ec uid text st = (m, st1)" by fastforce
  with assms notify_user_sent [OF this] show ?thesis by (auto simp: sent_only_def)
qed

lemma delivery_event_sent:
  assumes "delivery_event ec ee body st = (Inr n, st')" and "body_user body = Inr uid"
  shows "sent_only uid n st st'"
proof -
  let ?status = "body_text (ec_repr ec) body ''status''"
  consider "?status = S ''delivered''" | "?status = S ''failed''" | "?status \<noteq> S ''delivered''" "?status \<noteq> S ''failed''"
    by blast
  then show ?thesis
  proof cases
    case 1
    with assms show ?thesis by (simp add: delivery_event_def Let_def) (erule notified_sent)
  next
    case 2
    with assms show ?thesis
      by (cases "error_suffix (ec_repr ec) (case dget body (S ''error'') of None \<Rightarrow> JNull | Some v \<Rightarrow> v)")
        (simp_all add: delivery_event_def Let_def, erule notified_sent)
  next
    case 3
    with assms show ?thesis by (auto simp: delivery_event_def Let_def)
  qed
qed

lemma call_event_sent:
  assumes "call_outcome_event ec ee body st = (Inr n, st')" and "body_user body = Inr uid"
  shows "sent_only uid n st st'"
proof (cases "call_message (body_text (ec_repr ec) body ''to'') (body_text (ec_repr ec) body ''status'')")
  case None
  with assms show ?thesis by (auto simp: call_outcome_event_def Let_def)
next
  case (Some msg)
  with assms show ?thesis by (simp add: call_outcome_event_def Let_def) (erule notified_sent)
qed

text \<open>The users an SMS is for.\<close>
definition sms_audience :: "events_env \<Rightarrow> events_state \<Rightarrow> int list" where
  "sms_audience ee st = sorted_list_of_set (fst (users_with_right (ee_acl_file ee) (S ''in_sms'') (ev_acl st)))"

definition sms_default :: "events_cfg \<Rightarrow> str \<Rightarrow> str \<Rightarrow> str" where
  "sms_default ec phone text =
     sms_notice ec phone text (case ec_contacts ec of None \<Rightarrow> None | Some p \<Rightarrow> map_option JStr (contact_resolve p [] phone))"

lemma sms_notice_prefix: "startswith (sms_notice ec phone text name) (S ''SMS '' @ phone)"
proof -
  have "\<exists>rest. named ec phone name = phone @ rest" by (cases name) (auto simp: named_def)
  then obtain rest where "sms_notice ec phone text name = (S ''SMS '' @ phone) @ rest"
    by (auto simp: sms_notice_def)
  then show ?thesis by (simp only: startswith_append)
qed

lemma guarded_refused: "events_guard ec r \<noteq> Inr () \<Longrightarrow> snd (guarded ec r handler st) = st"
  by (cases "events_guard ec r") (auto simp: guarded_def)

lemma guarded_ok: "guarded ec r handler st = (Inr x, st') \<Longrightarrow> handler st = (Inr x, st')"
  by (auto simp: guarded_def split: sum.splits)

lemma voicemail_event_frame:
  "ev_temps (snd (voicemail_event ec ee temp_ok vf st)) = ev_temps st
     \<and> (\<exists>msgs. ev_sent (snd (voicemail_event ec ee temp_ok vf st)) = ev_sent st @ msgs
          \<and> (form_get (vf_type vf) ''normal'' \<noteq> S ''normal'' \<longrightarrow> VoiceNote \<notin> snd ` set msgs))"
proof -
  let ?phone = "form_get (vf_phone vf) ''unknown''" and ?type = "form_get (vf_type vf) ''normal''"
  let ?norm = "case normalize_e164 ?phone of Some n \<Rightarrow> n | None \<Rightarrow> ?phone"
  let ?content = "if ?type = S ''normal'' \<and> ec_client ec \<noteq> None then vf_file vf else None"
  define audio where "audio = (?content \<noteq> None \<and> ?content \<noteq> Some [])"
  obtain name sa where n: "event_name ec ee None ?norm st = (name, sa)" by fastforce
  obtain aud acl where a: "users_with_right (ee_acl_file ee) (S ''in_call'') (ev_acl st) = (aud, acl)" by fastforce
  let ?st1 = "st\<lparr>ev_acl := acl\<rparr>"
  let ?st2 = "if audio then ?st1\<lparr>ev_temps := ev_temps ?st1 + 1\<rparr> else ?st1"
  obtain ok bad st3 where d: "deliver_voicemail ec ee (ec_client ec) ?type ?norm audio (sorted_list_of_set aud) ?st2
      = (ok, bad, st3)" by (metis prod_cases3)
  obtain msgs where f: "ev_temps st3 = ev_temps ?st2" "ev_sent st3 = ev_sent ?st2 @ msgs"
    "\<not> audio \<longrightarrow> VoiceNote \<notin> snd ` set msgs"
    using deliver_voicemail_frame [OF d] by blast
  have t: "?type \<noteq> S ''normal'' \<longrightarrow> \<not> audio" by (simp add: audio_def)
  have s2: "ev_temps ?st2 = ev_temps st + (if audio then 1 else 0)" "ev_sent ?st2 = ev_sent st" by simp_all
  show ?thesis
  proof (cases "audio \<and> \<not> temp_ok")
    case True
    then have "snd (voicemail_event ec ee temp_ok vf st) = ?st1"
      using n a by (simp add: voicemail_event_def Let_def audio_def del: split_paired_Ex)
    then show ?thesis by (intro conjI exI [of _ "[]"]) simp_all
  next
    case False
    obtain e where "snd (voicemail_event ec ee temp_ok vf st)
        = events_log e (if audio then st3\<lparr>ev_temps := ev_temps st3 - 1\<rparr> else st3)"
      using False n a d unfolding voicemail_event_def Let_def audio_def [symmetric]
      by (simp only: split_conv if_False snd_conv)
    then show ?thesis using f s2 t by (intro conjI exI [of _ msgs]) auto
  qed
qed

lemma notice_prefix: "startswith (notice_for ec ee st phone text (sms_default ec phone text) uid) (S ''SMS '' @ phone)"
  by (auto simp: notice_for_def sms_default_def sms_notice_prefix split: option.split)

section \<open>Properties\<close>

text \<open>Delivery of an incoming SMS. Every user with the right \<open>in_sms\<close>, in the order of their ids,
  is sent one notice that begins with the number of the sender and carries the name from the
  recipient's own phonebook, or else from the shared contacts; a failing recipient costs nobody
  else the message; nobody else gets anything; and the SMS is counted and audited once.\<close>
theorem sms_event_delivery:
  fixes st :: events_state and ee :: events_env and phone msg_text :: str
  assumes "ec_client ec = Some tg" and "\<not> is_ring msg_text"
  defines "msg \<equiv> notice_for ec ee st phone msg_text (sms_default ec phone msg_text)"
  defines "good \<equiv> filter (\<lambda>u. tc_send tg u (msg u)) (sms_audience ee st)"
  shows "\<exists>e st'. sms_notice_event ec ee phone msg_text modem st
       = (\<lparr>ser_correlation = ee_uuid ee, ser_text = Some (sms_default ec phone msg_text), ser_delivered = good\<rparr>, st')
     \<and> ev_sent st' = ev_sent st @ map (\<lambda>u. (u, Message (msg u))) good
     \<and> (\<forall>u. startswith (msg u) (S ''SMS '' @ phone))
     \<and> ev_metrics st' = map_option sms_incoming (ev_metrics st)
     \<and> ev_audit st' = ev_audit st @ [e]"
proof -
  obtain aud acl where a: "users_with_right (ee_acl_file ee) (S ''in_sms'') (ev_acl st) = (aud, acl)" by fastforce
  have aud: "sorted_list_of_set aud = sms_audience ee st" by (simp add: sms_audience_def a)
  obtain ok bad st2 where d: "deliver_sms ec ee tg phone msg_text (sms_default ec phone msg_text) (sms_audience ee st)
      (st\<lparr>ev_acl := acl\<rparr>) = (ok, bad, st2)" by (metis prod_cases3)
  have b: "books ee (st\<lparr>ev_acl := acl\<rparr>) = books ee st" by simp
  note spec = deliver_sms_spec [OF d b, folded msg_def]
  have pre: "startswith (msg u) (S ''SMS '' @ phone)" for u unfolding msg_def by (rule notice_prefix)
  show ?thesis
    using spec d assms(1,2) pre
    by (auto simp: sms_notice_event_def Let_def a aud good_def sms_default_def [symmetric])
qed

text \<open>A ring is silent. The notification of an incoming call is audited but sends no message to
  anybody, counts no SMS and reports no recipient.\<close>
theorem ring_is_silent:
  assumes "is_ring text" and "sms_notice_event ec ee phone text modem st = (resp, st')"
  shows "ev_sent st' = ev_sent st \<and> ev_metrics st' = ev_metrics st \<and> ser_text resp = None
     \<and> ser_delivered resp = [] \<and> (\<exists>e. ev_audit st' = ev_audit st @ [e] \<and> ae_outcome e = S ''suppressed'')"
  using assms by (auto simp: sms_notice_event_def Let_def split: prod.splits)

text \<open>The guard. A request passes exactly when its secret is the configured one (an absent header
  counts as the empty secret) and, if peers are configured, it comes from one of them: without
  configured peers every host passes, unlike the agent, which then admits only the local host. A
  refused request changes nothing, whatever the event.\<close>
theorem userbot_guard_exact:
  "(events_guard ec r = Inr () \<longleftrightarrow>
      ascii (ec_secret ec) \<and> (case header_get r ''x-simbridge-secret'' of None \<Rightarrow> [] | Some s \<Rightarrow> s) = ec_secret ec
      \<and> (ec_peers ec = [] \<or> rq_client r \<in> Some ` set (ec_peers ec)))
   \<and> (events_guard ec r \<noteq> Inr () \<longrightarrow>
        snd (handle_sms_event ec ee r body st) = st \<and> snd (handle_voicemail_event ec ee r temp_ok vf st) = st
        \<and> snd (handle_delivery_event ec ee r body st) = st \<and> snd (handle_call_event ec ee r body st) = st
        \<and> snd (handle_alert_event ec ee r body st) = st)"
proof -
  have "events_guard ec r = Inr () \<longleftrightarrow>
      ascii (ec_secret ec) \<and> (case header_get r ''x-simbridge-secret'' of None \<Rightarrow> [] | Some s \<Rightarrow> s) = ec_secret ec
      \<and> (ec_peers ec = [] \<or> rq_client r \<in> Some ` set (ec_peers ec))"
    by (auto simp: events_guard_def compare_digest_def Let_def)
  moreover have "events_guard ec r \<noteq> Inr () \<Longrightarrow> snd (handle_sms_event ec ee r body st) = st
        \<and> snd (handle_voicemail_event ec ee r temp_ok vf st) = st
        \<and> snd (handle_delivery_event ec ee r body st) = st \<and> snd (handle_call_event ec ee r body st) = st
        \<and> snd (handle_alert_event ec ee r body st) = st"
    by (simp only: handle_sms_event_def handle_voicemail_event_def handle_delivery_event_def
        handle_call_event_def handle_alert_event_def guarded_refused HOL.simp_thms)
  ultimately show ?thesis by blast
qed

text \<open>No recording stays behind, and only a normal voicemail carries one. After every voicemail
  event, refused or not and whatever Telegram does, there are as many uploaded recordings on disk
  as before; and an event of another type sends text only.\<close>
theorem recordings_never_stay:
  "ev_temps (snd (handle_voicemail_event ec ee r temp_ok vf st)) = ev_temps st
   \<and> (form_get (vf_type vf) ''normal'' \<noteq> S ''normal'' \<longrightarrow>
        (\<exists>msgs. ev_sent (snd (handle_voicemail_event ec ee r temp_ok vf st)) = ev_sent st @ msgs
           \<and> VoiceNote \<notin> snd ` set msgs))"
proof (cases "events_guard ec r = Inr ()
    \<and> form_content (case header_get r ''content-type'' of None \<Rightarrow> [] | Some c \<Rightarrow> c)")
  case True
  then have "snd (handle_voicemail_event ec ee r temp_ok vf st) = snd (voicemail_event ec ee temp_ok vf st)"
    by (simp add: handle_voicemail_event_def guarded_def)
  then show ?thesis using voicemail_event_frame by metis
next
  case False
  then have "snd (handle_voicemail_event ec ee r temp_ok vf st) = st"
    by (cases "events_guard ec r") (auto simp: handle_voicemail_event_def guarded_def)
  then show ?thesis by simp
qed

text \<open>Personal events stay personal. A delivery state or a call outcome is sent to the user it
  names and to nobody else, at most once, and an alert to the master only; the answer says whether
  it was.\<close>
theorem personal_events:
  assumes "(handle_delivery_event ec ee r body st = (Inr n, st') \<or> handle_call_event ec ee r body st = (Inr n, st'))
        \<and> body_user body = Inr uid
      \<or> handle_alert_event ec ee r body st = (Inr n, st') \<and> ec_master ec = Some uid"
  shows "sent_only uid n st st'"
proof -
  consider (d) "delivery_event ec ee body st = (Inr n, st')" "body_user body = Inr uid"
    | (c) "call_outcome_event ec ee body st = (Inr n, st')" "body_user body = Inr uid"
    | (a) "alert_event ec ee body st = (Inr n, st')" "ec_master ec = Some uid"
    using assms guarded_ok unfolding handle_delivery_event_def handle_call_event_def handle_alert_event_def by metis
  then show ?thesis
  proof cases
    case d
    then show ?thesis by (rule delivery_event_sent)
  next
    case c
    then show ?thesis by (rule call_event_sent)
  next
    case a
    then show ?thesis by (auto simp: alert_event_def sent_only_def Let_def split: if_splits option.splits)
  qed
qed

section \<open>Samples\<close>

definition tg0 :: tg_client where
  "tg0 = \<lparr>tc_send = (\<lambda>_ _. True), tc_file = (\<lambda>_. True), tc_connected = Some True\<rparr>"

definition ec0 :: events_cfg where
  "ec0 = \<lparr>ec_secret = S ''k'', ec_peers = [], ec_contacts = None, ec_client = Some tg0, ec_master = Some 7,
     ec_repr = (\<lambda>_. [])\<rparr>"

definition ee0 :: events_env where
  "ee0 = \<lparr>ee_now = 0, ee_uuid = S ''u'', ee_acl_file = None, ee_contacts_file = None\<rparr>"

definition es0 :: events_state where
  "es0 = \<lparr>ev_acl = \<lparr>acl_rules = [(7, [S ''in_sms''])], acl_mtime = 0\<rparr>, ev_audit = [], ev_metrics = None,
     ev_contacts = None, ev_sent = [], ev_temps = 0\<rparr>"

definition rq_none :: request where
  "rq_none = \<lparr>rq_headers = [], rq_client = None\<rparr>"

definition rq_k :: request where
  "rq_k = \<lparr>rq_headers = [(S ''x-simbridge-secret'', S ''k'')], rq_client = None\<rparr>"

definition rq_form :: request where
  "rq_form = \<lparr>rq_headers = [(S ''x-simbridge-secret'', S ''k''), (S ''content-type'', S ''multipart/form-data'')],
     rq_client = None\<rparr>"

lemma sample_guard: "events_guard ec0 rq_k = Inr ()" "events_guard ec0 rq_none \<noteq> Inr ()"
  "events_guard ec0 rq_form = Inr ()"
  by (simp_all add: events_guard_def ec0_def rq_k_def rq_none_def rq_form_def header_get_def compare_digest_def ascii_def
      S_def)

lemma rq_form_content: "form_content (case header_get rq_form ''content-type'' of None \<Rightarrow> [] | Some c \<Rightarrow> c)"
  by (simp add: rq_form_def header_get_def form_content_def startswith_def)

theorem sms_event_delivery_witness:
  "\<exists>e st'. sms_notice_event ec0 ee0 (S ''900'') (S ''hi'') (S ''gsm'') es0
       = (\<lparr>ser_correlation = S ''u'', ser_text = Some (S ''SMS 900:'' @ 10 # S ''hi''), ser_delivered = [7]\<rparr>, st')
     \<and> ev_sent st' = [(7, Message (S ''SMS 900:'' @ 10 # S ''hi''))]"
proof -
  have c: "ec_client ec0 = Some tg0" and r: "\<not> is_ring (S ''hi'')"
    by (simp_all add: ec0_def is_ring_def startswith_def S_def)
  have d: "sms_default ec0 (S ''900'') (S ''hi'') = S ''SMS 900:'' @ 10 # S ''hi''"
    by (simp add: sms_default_def sms_notice_def named_def ec0_def S_def)
  have n: "notice_for ec0 ee0 es0 (S ''900'') (S ''hi'') t u = t" for t u
    by (simp add: notice_for_def event_name_def es0_def ec0_def)
  have a: "sms_audience ee0 es0 = [7]"
  proof -
    have "{x. x = (7::int, [S ''in_sms'']) \<and> (case x of (uid, rights) \<Rightarrow> S ''in_sms'' \<in> set rights)} = {(7, [S ''in_sms''])}"
      by auto
    then show ?thesis
      by (simp add: sms_audience_def users_with_right_def ee0_def es0_def acl_reload_def RIGHTS_def)
  qed
  have u: "ee_uuid ee0 = S ''u''" "ev_sent es0 = []" by (simp_all add: ee0_def es0_def)
  show ?thesis
    using sms_event_delivery [OF c r, of ee0 "S ''900''" "S ''gsm''" es0]
    by (simp add: n a d u tg0_def) blast
qed

theorem ring_is_silent_witness:
  "ev_sent (snd (sms_notice_event ec0 ee0 (S ''900'') (S ''RING'') (S ''gsm'') es0)) = []"
proof -
  obtain resp st' where e: "sms_notice_event ec0 ee0 (S ''900'') (S ''RING'') (S ''gsm'') es0 = (resp, st')" by fastforce
  have "is_ring (S ''RING'')" by (simp add: is_ring_def)
  from ring_is_silent [OF this e] e show ?thesis by (simp add: es0_def)
qed

theorem userbot_guard_exact_witness:
  "snd (handle_alert_event ec0 ee0 rq_none [] es0) = es0"
  using userbot_guard_exact [of ec0 rq_none ee0 "[]" es0] sample_guard(2) by blast

definition vf0 :: voicemail_form where
  "vf0 = \<lparr>vf_file = None, vf_phone = None, vf_type = Some (S ''early_hangup''), vf_correlation = None, vf_duration = None\<rparr>"

theorem recordings_never_stay_witness:
  "\<exists>msgs. ev_sent (snd (handle_voicemail_event ec0 ee0 rq_form True vf0 es0)) = msgs \<and> VoiceNote \<notin> snd ` set msgs"
proof -
  have "form_get (vf_type vf0) ''normal'' \<noteq> S ''normal''" by (simp add: vf0_def form_get_def)
  moreover have "ev_sent es0 = []" by (simp add: es0_def)
  ultimately show ?thesis using recordings_never_stay [of ec0 ee0 rq_form True vf0 es0] by simp
qed

theorem personal_events_witness:
  "\<exists>n st'. handle_alert_event ec0 ee0 rq_k [(S ''message'', JStr (S ''x''))] es0 = (Inr n, st') \<and> sent_only 7 n es0 st'"
proof -
  have "body_text (ec_repr ec0) [(S ''message'', JStr (S ''x''))] ''message'' = S ''x''" "strip (S ''x'') = S ''x''"
    by (simp_all add: body_text_def S_def strip_def lstrip_def rstrip_def is_space_def space_points_def)
  then obtain n st' where h: "handle_alert_event ec0 ee0 rq_k [(S ''message'', JStr (S ''x''))] es0 = (Inr n, st')"
    by (simp add: handle_alert_event_def guarded_def sample_guard alert_event_def Let_def case_prod_beta)
  moreover have "ec_master ec0 = Some 7" by (simp add: ec0_def)
  ultimately show ?thesis using personal_events [of ec0 ee0 rq_k _ es0 n st' 7] by blast
qed

end
