(* ===== verification/UserbotProps.thy ===== *)
theory UserbotProps
  imports Userbot UserbotEvents
begin

text \<open>
  What the Telegram side guarantees: nobody outside the access list sees a reaction, no handler acts
  without its right (locale \<open>gated_handler\<close>, interpreted on the eleven handlers behind the gate),
  the state stays well formed, an accepted call rings or is taken back, an SMS goes where the strict
  validator allows, a reply to a forwarded SMS reaches its sender, and a saved contact is dialled by
  its name.
\<close>

section \<open>The gate\<close>

lemma raise_eq [simp]: "raise exc ub = (Inl (Unhandled (S exc)), ub)"
  by (simp add: raise_def)

text \<open>What the world can see of the userbot: everything but the access list's cache and the log.\<close>
definition visible where
  "visible ub = (ub_replies ub, ub_requests ub, ub_blacklist ub, ub_blacklist_disk ub, ub_book ub,
     ub_book_file ub, ub_last_call ub)"

definition rights_now :: "tg_env \<Rightarrow> tg_event \<Rightarrow> userbot \<Rightarrow> str list" where
  "rights_now env ev ub = fst (get_user_rights (tv_acl_file env) (te_sender ev) (ub_acl ub))"

abbreviation acl_now :: "tg_env \<Rightarrow> userbot \<Rightarrow> acl_manager" where
  "acl_now env ub \<equiv> acl_reload (tv_acl_file env) (ub_acl ub)"

definition refused :: "tg_env \<Rightarrow> tg_event \<Rightarrow> str \<Rightarrow> userbot \<Rightarrow> userbot" where
  "refused env ev right ub =
     ub\<lparr>ub_acl := acl_now env ub,
        ub_audit := ub_audit ub @ [user_denied env (te_sender ev) ''denied'' right],
        ub_replies := ub_replies ub @ [(te_sender ev, error_text DENIED)]\<rparr>"

definition ignored :: "tg_env \<Rightarrow> tg_event \<Rightarrow> str \<Rightarrow> userbot \<Rightarrow> userbot" where
  "ignored env ev right ub =
     ub\<lparr>ub_acl := acl_now env ub,
        ub_audit := ub_audit ub @ [user_denied env (te_sender ev) ''unknown_user'' right]\<rparr>"

lemma rights_now_acl: "rights_now env ev ub = acl_rights (acl_now env ub) (te_sender ev)"
  by (simp add: rights_now_def get_user_rights_def Let_def)

lemma rights_again:
  "ub_acl ub' = acl_now env ub \<Longrightarrow> tv_acl_file env' = tv_acl_file env \<Longrightarrow> rights_now env' ev ub' = rights_now env ev ub"
  by (simp add: rights_now_acl aclr.reload_idempotent)

locale gated_handler =
  fixes run :: "ub_cfg \<Rightarrow> tg_env \<Rightarrow> tg_event \<Rightarrow> userbot \<Rightarrow> outcome"
    and right :: string
    and body :: "ub_cfg \<Rightarrow> tg_env \<Rightarrow> tg_event \<Rightarrow> userbot \<Rightarrow> outcome"
  assumes run_gated: "run c env ev = gated env ev right (body c env ev)"
begin

lemma stranger: "rights_now env ev ub = [] \<Longrightarrow> run c env ev ub = (Inr (), ignored env ev (S right) ub)"
  by (simp add: run_gated gated_def access_def rights_now_def get_user_rights_def Let_def ignored_def ub_log_def
      audit_append_def)

lemma no_right:
  "rights_now env ev ub \<noteq> [] \<Longrightarrow> S right \<notin> set (rights_now env ev ub) \<Longrightarrow>
     run c env ev ub = (Inr (), refused env ev (S right) ub)"
  by (simp add: run_gated gated_def access_def rights_now_def get_user_rights_def Let_def refused_def ub_log_def
      audit_append_def reply_def)

lemma allowed:
  "S right \<in> set (rights_now env ev ub) \<Longrightarrow> run c env ev ub = body c env ev (ub\<lparr>ub_acl := acl_now env ub\<rparr>)"
  by (auto simp: run_gated gated_def access_def rights_now_def get_user_rights_def Let_def)

text \<open>What the body keeps, and the bookkeeping of the gate keeps, the handler keeps.\<close>
lemma keeps:
  assumes "\<And>ub. P ub \<Longrightarrow> P (snd (body c env ev ub))"
    and "\<And>ub acl audit replies. P ub \<Longrightarrow> P (ub\<lparr>ub_acl := acl, ub_audit := audit, ub_replies := replies\<rparr>)"
    and "P ub"
  shows "P (snd (run c env ev ub))"
proof -
  have acl: "P (ub\<lparr>ub_acl := acl_now env ub\<rparr>)"
    using assms(2) [OF assms(3), where acl = "acl_now env ub" and audit = "ub_audit ub"
        and replies = "ub_replies ub"] by simp
  have ign: "P (ignored env ev (S right) ub)"
    using assms(2) [OF assms(3), where acl = "acl_now env ub" and replies = "ub_replies ub"]
    by (simp add: ignored_def)
  have ref: "P (refused env ev (S right) ub)"
    using assms(2) [OF assms(3)] by (simp add: refused_def)
  consider "rights_now env ev ub = []" | "rights_now env ev ub \<noteq> []" "S right \<notin> set (rights_now env ev ub)"
    | "S right \<in> set (rights_now env ev ub)" by auto
  then show ?thesis
    using acl ign ref assms(1) by cases (simp_all add: stranger no_right allowed)
qed

end

interpretation sms: gated_handler handle_sms "''out_sms''" sms_body
  by unfold_locales (simp add: handle_sms_def)

interpretation number: gated_handler handle_bare_number "''out_call''" bare_number_body
  by unfold_locales (simp add: handle_bare_number_def)

interpretation redial: gated_handler handle_redial "''out_call''" redial_body
  by unfold_locales (simp add: handle_redial_def)

interpretation dial: gated_handler handle_call "''out_call''" call_body
  by unfold_locales (simp add: handle_call_def)

interpretation show_book: gated_handler handle_show "''out_call''" show_body
  by unfold_locales (simp add: handle_show_def)

interpretation add_entry: gated_handler handle_add "''out_call''" add_body
  by unfold_locales (simp add: handle_add_def)

interpretation delete_entry: gated_handler handle_del "''out_call''" del_body
  by unfold_locales (simp add: handle_del_def)

interpretation block: gated_handler handle_block "''out_sms''" block_body
  by unfold_locales (simp add: handle_block_def)

interpretation unblock: gated_handler handle_unblock "''out_sms''" unblock_body
  by unfold_locales (simp add: handle_unblock_def)

interpretation listblock: gated_handler "\<lambda>c. handle_listblock" "''out_sms''" "\<lambda>c. listblock_body"
  by unfold_locales (simp add: handle_listblock_def)

interpretation sms_reply: gated_handler handle_sms_reply "''out_sms''" sms_reply_body
  by unfold_locales (simp add: handle_sms_reply_def)

text \<open>The right a handler asks for, if it is behind the gate.\<close>
fun needs :: "handler \<Rightarrow> string option" where
  "needs HVoice = None"
| "needs HHelp = None"
| "needs HUnknown = None"
| "needs HSms = Some ''out_sms''"
| "needs HReply = Some ''out_sms''"
| "needs HBlock = Some ''out_sms''"
| "needs HUnblock = Some ''out_sms''"
| "needs HListblock = Some ''out_sms''"
| "needs _ = Some ''out_call''"

lemmas strangers = sms.stranger number.stranger redial.stranger dial.stranger show_book.stranger
  add_entry.stranger delete_entry.stranger block.stranger unblock.stranger listblock.stranger sms_reply.stranger

lemmas refusals = sms.no_right number.no_right redial.no_right dial.no_right show_book.no_right
  add_entry.no_right delete_entry.no_right block.no_right unblock.no_right listblock.no_right sms_reply.no_right

lemmas keepers = sms.keeps number.keeps redial.keeps dial.keeps show_book.keeps
  add_entry.keeps delete_entry.keeps block.keeps unblock.keeps listblock.keeps sms_reply.keeps

lemma ignored_facts [simp]:
  "visible (ignored env ev right ub) = visible ub" "ub_acl (ignored env ev right ub) = acl_now env ub"
  by (simp_all add: ignored_def visible_def)

lemma stranger_step:
  assumes "rights_now env ev ub = []"
  shows "visible (snd (run_handler c env ev h ub)) = visible ub
     \<and> ub_acl (snd (run_handler c env ev h ub)) = acl_now env ub"
  using assms
  by (cases h)
    (simp_all add: strangers handle_help_def handle_unknown_command_def is_known_def handle_voice_note_def access_def
      rights_now_def get_user_rights_def Let_def ub_log_def visible_def ignored_def)

lemma stranger_steps:
  assumes "\<And>h. h \<in> set hs \<Longrightarrow> tv_acl_file (envs h) = f" and "acl_rights (acl_reload f (ub_acl ub)) (te_sender ev) = []"
  shows "visible (run_handlers c envs ev hs ub) = visible ub"
  using assms
proof (induction hs arbitrary: ub)
  case Nil
  then show ?case by simp
next
  case (Cons h hs)
  let ?ub = "snd (run_handler c (envs h) ev h ub)"
  have "rights_now (envs h) ev ub = []" using Cons.prems by (simp add: rights_now_acl)
  from stranger_step [OF this, of c h] have 1: "visible ?ub = visible ub" "ub_acl ?ub = acl_reload f (ub_acl ub)"
    using Cons.prems by simp_all
  have "acl_rights (acl_reload f (ub_acl ?ub)) (te_sender ev) = []"
    using 1 Cons.prems(2) by (simp add: aclr.reload_idempotent)
  then show ?case using Cons.IH [of ?ub] Cons.prems(1) 1 by simp
qed

section \<open>The state stays well formed\<close>

definition userbot_ok :: "userbot \<Rightarrow> bool" where
  "userbot_ok ub \<longleftrightarrow>
     phonebook_ok (ub_book ub) \<and> file_agrees (ub_book_file ub) (ub_book ub)
     \<and> numbers_wf (bl_numbers (ub_blacklist ub))
     \<and> (\<forall>user n. dget (ub_last_call ub) user = Some n \<longrightarrow> dialable n)"

lemma userbot_ok_gate:
  "userbot_ok ub \<Longrightarrow> userbot_ok (ub\<lparr>ub_acl := acl, ub_audit := audit, ub_replies := replies\<rparr>)"
  by (simp add: userbot_ok_def)

lemma ok_bookkeeping [simp]:
  "userbot_ok (ub\<lparr>ub_acl := acl\<rparr>) \<longleftrightarrow> userbot_ok ub" "userbot_ok (ub\<lparr>ub_audit := audit\<rparr>) \<longleftrightarrow> userbot_ok ub"
  "userbot_ok (ub\<lparr>ub_acl := acl, ub_audit := audit\<rparr>) \<longleftrightarrow> userbot_ok ub"
  by (simp_all add: userbot_ok_def)

lemma ok_reply [simp]: "userbot_ok (snd (reply ev msg ub)) \<longleftrightarrow> userbot_ok ub"
  by (simp add: reply_def userbot_ok_def)

lemma ok_post [simp]: "userbot_ok (post r ub) \<longleftrightarrow> userbot_ok ub"
  by (simp add: post_def userbot_ok_def)

lemma ok_blacklist:
  "userbot_ok ub \<Longrightarrow> numbers_wf (bl_numbers bl) \<Longrightarrow> userbot_ok (ub\<lparr>ub_blacklist_disk := disk, ub_blacklist := bl\<rparr>)"
  "userbot_ok ub \<Longrightarrow> numbers_wf (bl_numbers bl) \<Longrightarrow> userbot_ok (ub\<lparr>ub_blacklist := bl\<rparr>)"
  by (simp_all add: userbot_ok_def)

lemma ok_book:
  "userbot_ok ub \<Longrightarrow> phonebook_ok book \<Longrightarrow> file_agrees book_file book \<Longrightarrow>
     userbot_ok (ub\<lparr>ub_book := book, ub_book_file := book_file\<rparr>)"
  "userbot_ok ub \<Longrightarrow> phonebook_ok book \<Longrightarrow> file_agrees (ub_book_file ub) book \<Longrightarrow> userbot_ok (ub\<lparr>ub_book := book\<rparr>)"
  by (simp_all add: userbot_ok_def)

lemma ok_last_call:
  "userbot_ok ub \<Longrightarrow> dialable n \<Longrightarrow> userbot_ok (ub\<lparr>ub_last_call := dput user n (ub_last_call ub)\<rparr>)"
  by (simp add: userbot_ok_def)

lemma ok_contains:
  "userbot_ok ub \<Longrightarrow> userbot_ok (ub\<lparr>ub_blacklist := snd (bl_contains disk n (ub_blacklist ub))\<rparr>)"
  by (auto simp: bl_contains_def Let_def userbot_ok_def)

lemma numbers_wf_bl_write: "bl_write w stamp disk b = (r, disk', b') \<Longrightarrow> bl_numbers b' = bl_numbers b"
  by (auto simp: bl_write_def split: write_outcome.splits)

lemma numbers_wf_block:
  assumes "numbers_wf (bl_numbers b)" and "bl_block w stamp disk n b = (r, disk', b')"
  shows "numbers_wf (bl_numbers b')"
  using assms numbers_wf_maybe_reload [OF assms(1), of disk]
  by (auto simp: bl_block_def Let_def normalize_e164_form dest!: numbers_wf_bl_write
      split: option.splits if_splits prod.splits sum.splits)

lemma numbers_wf_unblock:
  assumes "numbers_wf (bl_numbers b)" and "bl_unblock w stamp disk n b = (r, disk', b')"
  shows "numbers_wf (bl_numbers b')"
  using assms numbers_wf_maybe_reload [OF assms(1), of disk]
  by (auto simp: bl_unblock_def Let_def dest!: numbers_wf_bl_write intro!: numbers_wf_diff
      split: option.splits if_splits prod.splits sum.splits)

lemma place_call_ok:
  assumes "userbot_ok ub" and "dialable (d_number dest)"
  shows "userbot_ok (snd (place_call c env ev dest ub))"
proof -
  have "userbot_ok ub' \<Longrightarrow> userbot_ok (snd (ring_user c env ev (d_number dest) call_id ub'))" for ub' call_id
    using assms(2) by (simp add: ring_user_def Let_def ok_last_call)
  note ring = this
  obtain listed bl where g: "(if d_internal dest then (False, ub_blacklist ub)
      else bl_contains (ub_blacklist_disk ub) (d_number dest) (ub_blacklist ub)) = (listed, bl)"
    by (rule prod.exhaust)
  then have "userbot_ok (ub\<lparr>ub_blacklist := bl\<rparr>)"
    using assms(1) ok_contains [OF assms(1), of "ub_blacklist_disk ub" "d_number dest"] by (auto split: if_splits)
  then show ?thesis
    by (simp add: place_call_def Let_def g ring split: http_reply.split option.split)
qed

lemma do_send_sms_ok: "userbot_ok ub \<Longrightarrow> userbot_ok (snd (do_send_sms c env ev phone text ub))"
  using ok_contains [of ub]
  by (simp add: do_send_sms_def Let_def split_beta split: option.split)

lemma search_book_ok:
  assumes "userbot_ok ub" and "\<And>matches ub1. userbot_ok ub1 \<Longrightarrow> userbot_ok (snd (use matches ub1))"
  shows "userbot_ok (snd (search_book ev query use ub))"
proof -
  obtain r book where f: "find_by_name (ub_book_file ub) (te_sender ev) query (ub_book ub) = (r, book)"
    by (rule prod.exhaust)
  have "uc_data book = uc_data (ub_book ub) \<and> file_agrees (ub_book_file ub) book"
    using f assms(1) uc_get_agrees(2,3) [of "ub_book_file ub" "ub_book ub" "te_sender ev"]
    by (auto simp: find_by_name_def Let_def userbot_ok_def split: if_splits prod.splits)
  then have "userbot_ok (ub\<lparr>ub_book := book\<rparr>)"
    using assms(1) by (intro ok_book(2)) (auto simp: userbot_ok_def intro: phonebook_data)
  then show ?thesis using assms(2) by (simp add: search_book_def f split: sum.split)
qed

lemma dial_entry_ok:
  assumes "userbot_ok ub"
    and "\<And>number dest. parse_destination (Some number) = Some dest \<Longrightarrow> userbot_ok (snd (use number dest ub))"
  shows "userbot_ok (snd (dial_entry c ev m use ub))"
  using assms by (simp add: dial_entry_def split: option.split)

lemma deleted_ok:
  assumes "userbot_ok ub" and "\<And>r f u. res = (r, f, u) \<Longrightarrow> phonebook_ok u \<and> file_agrees f u"
  shows "userbot_ok (snd (deleted ev res some_text none_text ub))"
  using assms ok_book(1) [OF assms(1)] by (cases res) (simp add: deleted_def Let_def split: sum.split)

lemma blacklist_command_ok:
  assumes "userbot_ok ub"
    and "\<And>norm ub1 r disk bl. userbot_ok ub1 \<Longrightarrow> change norm ub1 = (r, disk, bl) \<Longrightarrow> numbers_wf (bl_numbers bl)"
  shows "userbot_ok (snd (blacklist_command c env ev usage path verb change ub))"
proof -
  have "userbot_ok (post req ub)" for req using assms(1) by simp
  note changed = ok_blacklist(1) [OF this assms(2) [OF this]]
  show ?thesis
    using assms(1)
    by (simp add: blacklist_command_def Let_def changed split: list.split option.split http_reply.split prod.split sum.split)
qed

lemma bodies_ok:
  assumes "userbot_ok ub"
  shows "userbot_ok (snd (sms_body c env ev ub))" "userbot_ok (snd (bare_number_body c env ev ub))"
    "userbot_ok (snd (redial_body c env ev ub))" "userbot_ok (snd (call_body c env ev ub))"
    "userbot_ok (snd (sms_reply_body c env ev ub))" "userbot_ok (snd (block_body c env ev ub))"
    "userbot_ok (snd (unblock_body c env ev ub))"
proof -
  show "userbot_ok (snd (sms_body c env ev ub))"
    using assms
    by (auto simp: sms_body_def do_send_sms_ok intro!: search_book_ok dial_entry_ok split: option.split list.split)
  show "userbot_ok (snd (bare_number_body c env ev ub))"
    using assms by (auto simp: bare_number_body_def intro!: place_call_ok parsed_dialable split: option.split)
  show "userbot_ok (snd (redial_body c env ev ub))"
    using assms by (auto simp: redial_body_def intro!: place_call_ok parsed_dialable split: option.split)
  show "userbot_ok (snd (call_body c env ev ub))"
    using assms
    by (auto simp: call_body_def Let_def intro!: place_call_ok parsed_dialable search_book_ok dial_entry_ok
        split: option.split list.split)
  show "userbot_ok (snd (sms_reply_body c env ev ub))"
    using assms by (auto simp: sms_reply_body_def do_send_sms_ok split: option.split)
  show "userbot_ok (snd (block_body c env ev ub))"
    unfolding block_body_def
    by (rule blacklist_command_ok [OF assms]) (auto simp: userbot_ok_def intro: numbers_wf_block)
  show "userbot_ok (snd (unblock_body c env ev ub))"
    unfolding unblock_body_def
    by (rule blacklist_command_ok [OF assms]) (auto simp: userbot_ok_def intro: numbers_wf_unblock)
qed

lemma book_bodies_ok:
  assumes "userbot_ok ub"
  shows "userbot_ok (snd (show_body c env ev ub))" "userbot_ok (snd (add_body c env ev ub))"
    "userbot_ok (snd (del_body c env ev ub))" "userbot_ok (snd (listblock_body env ev ub))"
proof -
  have book: "phonebook_ok (ub_book ub)" "file_agrees (ub_book_file ub) (ub_book ub)"
    using assms by (auto simp: userbot_ok_def)
  have "userbot_ok (ub\<lparr>ub_book := snd (uc_get (ub_book_file ub) (te_sender ev) (ub_book ub))\<rparr>)"
    using uc_get_agrees [OF book(2)] phonebook_data [OF book(1)]
    by (intro ok_book(2) [OF assms]) (metis prod.collapse)+
  then show "userbot_ok (snd (show_body c env ev ub))"
    by (simp add: show_body_def Let_def split_beta)
  have "userbot_ok (ub\<lparr>ub_book := b, ub_book_file := f\<rparr>)"
    if "add_unique (uc_repr c) (tv_book_write env) (ub_book_file ub) (te_sender ev) name number (ub_book ub) = (r, f, b)"
    for name number r f b
    using add_unique_ok [OF book that] by (intro ok_book(1) [OF assms]) auto
  then show "userbot_ok (snd (add_body c env ev ub))"
    using assms by (auto simp: add_body_def Let_def split: prod.split sum.split)
  have "userbot_ok (snd (deleted ev (delete_by_number (uc_repr c) (tv_book_write env) (ub_book_file ub)
      (te_sender ev) n (ub_book ub)) t1 t2 ub))" for n t1 t2
    by (rule deleted_ok [OF assms]) (use delete_by_number_ok [OF book] in blast)
  moreover have "userbot_ok (snd (deleted ev (delete_by_name (uc_repr c) (tv_book_write env) (ub_book_file ub1)
      (te_sender ev) n (ub_book ub1)) t1 t2 ub1))" if "userbot_ok ub1" for n t1 t2 ub1
    using that delete_by_name_ok [of "ub_book ub1" "ub_book_file ub1"]
    by (intro deleted_ok [OF that]) (auto simp: userbot_ok_def)
  ultimately show "userbot_ok (snd (del_body c env ev ub))"
    using assms by (auto simp: del_body_def Let_def intro!: search_book_ok split: option.split list.split)
  have "userbot_ok (ub\<lparr>ub_blacklist := bl_maybe_reload (ub_blacklist_disk ub) (ub_blacklist ub)\<rparr>)"
    using assms by (intro ok_blacklist(2)) (auto simp: userbot_ok_def)
  then show "userbot_ok (snd (listblock_body env ev ub))"
    by (simp add: listblock_body_def bl_list_def Let_def)
qed

lemma run_handler_ok: "userbot_ok ub \<Longrightarrow> userbot_ok (snd (run_handler c env ev h ub))"
  by (cases h)
    (auto intro!: keepers [where P = userbot_ok] bodies_ok book_bodies_ok userbot_ok_gate
      simp: handle_voice_note_def handle_help_def handle_unknown_command_def is_known_def access_def ub_log_def Let_def
        split_beta)

section \<open>Calls and SMS\<close>

definition listed :: "userbot \<Rightarrow> destination \<Rightarrow> bool" where
  "listed ub dest \<longleftrightarrow> \<not> d_internal dest \<and> fst (bl_contains (ub_blacklist_disk ub) (d_number dest) (ub_blacklist ub))"

text \<open>The id of the call when the agent takes it.\<close>
definition accepted_id :: "ub_cfg \<Rightarrow> tg_env \<Rightarrow> tg_event \<Rightarrow> destination \<Rightarrow> str option" where
  "accepted_id c env ev dest =
     (case tv_net env (outgoing_request c (tv_cid env) (te_sender ev) (d_number dest)) of
        HttpFails _ \<Rightarrow> None
      | HttpReply code body _ \<Rightarrow> if code < 400 then call_id_of (uc_repr c) body else None)"

definition calling_text :: str where
  "calling_text = S ''Calling you in Telegram'' @ [8230]"

text \<open>What the user reads when the agent does not take the call.\<close>
definition turned_down :: "ub_cfg \<Rightarrow> tg_env \<Rightarrow> tg_event \<Rightarrow> destination \<Rightarrow> userbot \<Rightarrow> outcome" where
  "turned_down c env ev dest ub =
     (case tv_net env (outgoing_request c (tv_cid env) (te_sender ev) (d_number dest)) of
        HttpFails _ \<Rightarrow> reply ev (S ''Call service unavailable'') ub
      | HttpReply code body _ \<Rightarrow>
          if code = 403 then reply ev (error_text BLACKLISTED) ub
          else if code = 429 then reply ev (S ''Too many calls. Try later.'') ub
          else if code = 503 then reply ev (S ''Modem busy '' @ [8212] @ S '' another call in progress.'') ub
          else if code \<ge> 400 then reply ev (error_text SEND_FAILED) ub
          else raise ''AttributeError'' ub)"

lemma place_call_unlisted:
  assumes "\<not> listed ub dest"
  obtains bl where "place_call c env ev dest ub =
     (let asked = post (outgoing_request c (tv_cid env) (te_sender ev) (d_number dest)) (ub\<lparr>ub_blacklist := bl\<rparr>)
      in case accepted_id c env ev dest of
           Some call_id \<Rightarrow> ring_user c env ev (d_number dest) call_id asked
         | None \<Rightarrow> turned_down c env ev dest asked)"
proof -
  obtain l bl where g: "(if d_internal dest then (False, ub_blacklist ub)
      else bl_contains (ub_blacklist_disk ub) (d_number dest) (ub_blacklist ub)) = (l, bl)"
    by (rule prod.exhaust)
  then have "\<not> l" using assms by (auto simp: listed_def split: if_splits)
  then show ?thesis
    by (intro that [of bl])
      (simp add: place_call_def Let_def g accepted_id_def turned_down_def split: http_reply.split option.split)
qed

lemma turned_down_facts:
  assumes "turned_down c env ev dest ub = (r, ub')"
  shows "ub_last_call ub' = ub_last_call ub" "ub_requests ub' = ub_requests ub"
    "ub_replies ub' \<noteq> ub_replies ub @ [(te_sender ev, calling_text)]"
  using assms
  by (auto simp: turned_down_def reply_def calling_text_def S_def split: http_reply.splits if_splits)

lemma ring_user_facts:
  assumes "ring_user c env ev norm call_id ub = (r, ub')"
  shows "ub_last_call ub' = dput (te_sender ev) norm (ub_last_call ub)"
    and "start_call (uc_bridge c) (tv_net env) (te_sender ev) norm = BridgeOk \<Longrightarrow>
       ub_requests ub' = ub_requests ub @ [call_request (uc_bridge c) (te_sender ev) norm]
       \<and> ub_replies ub' = ub_replies ub @ [(te_sender ev, calling_text)]"
    and "start_call (uc_bridge c) (tv_net env) (te_sender ev) norm \<noteq> BridgeOk \<Longrightarrow>
       ub_requests ub' = ub_requests ub @
         [call_request (uc_bridge c) (te_sender ev) norm, reject_request c (tv_cid2 env) call_id]
       \<and> (\<exists>t. t \<noteq> calling_text \<and> ub_replies ub' = ub_replies ub @ [(te_sender ev, t)])"
  using assms
  by (auto simp: ring_user_def Let_def reply_def post_def calling_text_def S_def split: if_splits)

text \<open>Where \<open>do_send_sms\<close> sends: the canonical number, when the strict validator and the blacklist let it.\<close>
definition sms_target :: "userbot \<Rightarrow> str \<Rightarrow> str \<Rightarrow> str option" where
  "sms_target ub phone text =
     (if strip text = [] then None
      else case parse_destination (Some phone) of
             None \<Rightarrow> None
           | Some d \<Rightarrow>
               if d_internal d \<or> is_service_number (d_number d) \<or> listed ub d then None else Some (d_number d))"

lemma do_send_sms_posts:
  "ub_requests (snd (do_send_sms c env ev phone text ub)) = ub_requests ub @
     (case sms_target ub phone text of
        None \<Rightarrow> []
      | Some n \<Rightarrow> [sms_post c (tv_cid env) (te_sender ev) (te_id ev) n text])"
  by (simp add: do_send_sms_def sms_target_def listed_def Let_def reply_def post_def split: option.split prod.split)

lemma do_send_sms_replies:
  "\<exists>t. ub_replies (snd (do_send_sms c env ev phone text ub)) = ub_replies ub @ [(te_sender ev, t)]
     \<and> (t = S ''Sent'' \<longleftrightarrow> (\<exists>n code body txt. sms_target ub phone text = Some n \<and> success code
           \<and> tv_net env (sms_post c (tv_cid env) (te_sender ev) (te_id ev) n text) = HttpReply code body txt))"
proof -
  have "sms_outcome_text py_repr r = S ''Sent'' \<longleftrightarrow> (\<exists>code body txt. r = HttpReply code body txt \<and> success code)"
    for py_repr r
    by (cases r) (auto simp: sms_outcome_text_def Let_def, simp_all add: S_def)
  then show ?thesis
    by (simp add: do_send_sms_def sms_target_def listed_def Let_def reply_def post_def split: option.split prod.split)
      auto
qed

lemma on_single: "handlers_for ev = [h] \<Longrightarrow> on_message c envs ev ub = snd (run_handler c (envs h) ev h ub)"
  by (simp add: on_message_def)

section \<open>Conversations\<close>

lemma named_suffix: "\<exists>suffix. named ec number name = number @ suffix \<and> (suffix = [] \<or> hd suffix = 32)"
  by (cases name) (auto simp: named_def S_def)

lemma notice_quote:
  assumes "e164_form phone"
  shows "sms_quote (sms_notice ec phone text name) = Some phone"
proof -
  obtain ds where p: "phone = 43 # ds" "decimals ds" and "7 \<le> length ds"
    using assms unfolding e164_form_def by blast
  then have "ds \<noteq> []" by auto
  have ends: "\<not> is_decimal 32" "\<not> is_decimal 58" by (simp_all add: is_decimal_def decimal_blocks_def)
  obtain suffix where n: "named ec phone name = phone @ suffix" "suffix = [] \<or> hd suffix = 32"
    using named_suffix by blast
  let ?rest = "suffix @ S '':'' @ [10] @ text"
  have "hd ?rest = 32 \<or> hd ?rest = 58" using n(2) by (cases suffix) (auto simp: S_def)
  then have "sms_quote (S ''SMS '' @ (43 # ds) @ ?rest) = Some (43 # ds)"
    using ends p \<open>ds \<noteq> []\<close> by (intro sms_quote_plus) (auto simp: decimals_def)
  then show ?thesis using n(1) by (simp add: sms_notice_def p(1))
qed

lemma e164_destination:
  assumes "e164_form n" and "12 \<le> length n"
  shows "parse_destination (Some n) = Some \<lparr>d_number = n, d_internal = False\<rparr>" and "\<not> is_service_number n"
proof -
  obtain ds where n: "n = 43 # ds" "decimals ds" "length ds \<le> 15"
    using assms(1) unfolding e164_form_def by blast
  then have "allowed_form (strip n) \<lparr>d_number = n, d_internal = False\<rparr>"
    using assms(2) by (auto intro: allowed_form.plus)
  then show "parse_destination (Some n) = Some \<lparr>d_number = n, d_internal = False\<rparr>"
    by (rule allowed_parse_destination)
  show "\<not> is_service_number n" by (simp add: is_service_number_def n startswith_def)
qed

text \<open>A successful search dials.\<close>
lemma call_body_found:
  assumes "strip_command ''call'' (strip (te_text ev)) = query" and "query \<noteq> []"
    and "parse_destination (Some query) = None"
    and "find_by_name (ub_book_file ub) (te_sender ev) query (ub_book ub) = (Inr [new_contact name n], book)"
    and "parse_destination (Some n) = Some d"
  shows "call_body c env ev ub = place_call c env ev d (ub\<lparr>ub_book := book\<rparr>)"
  using assms by (simp add: call_body_def Let_def search_book_def dial_entry_def)

lemma allowed_form_chars:
  assumes "allowed_form s d"
  shows "s \<noteq> [] \<and> (hd s = 43 \<or> is_decimal (hd s)) \<and> (\<forall>c \<in> set s. \<not> is_space c)"
proof -
  have ds: "decimals ds \<Longrightarrow> \<forall>c \<in> set ds. \<not> is_space c" for ds by (auto simp: decimals_def decimal_not_space)
  have hd: "decimals ds \<Longrightarrow> ds \<noteq> [] \<Longrightarrow> is_decimal (hd ds)" for ds by (auto simp: decimals_def)
  have "\<not> is_space 56" by (simp add: decimal_not_space)
  with assms ds hd show ?thesis by cases (simp; fastforce)+
qed

text \<open>A successful addition stores the entry and answers.\<close>
lemma add_body_added:
  assumes msg: "te_text ev = 47 # S ''add'' @ 32 # name @ 32 # number"
    and name: "strip name = name" "name \<noteq> []" and number: "strip number = number"
    and d: "parse_destination (Some number) = Some d"
    and added: "add_unique (uc_repr c) (tv_book_write env) (ub_book_file ub) (te_sender ev) name number (ub_book ub)
       = (Inr res, f', u')"
  shows "add_body c env ev ub
     = reply ev (added_text (uc_repr c) name res) (ub\<lparr>ub_book := u', ub_book_file := f'\<rparr>)"
proof -
  have form: "allowed_form number d" using parse_destination_allowed [OF d] number by simp
  then have num: "number \<noteq> []" "hd number = 43 \<or> is_decimal (hd number)" "\<forall>c \<in> set number. \<not> is_space c"
    using allowed_form_chars by blast+
  have "strip (te_text ev) = te_text ev"
    using num number last_strip [of number] by (intro strip_no_space) (auto simp: msg is_space_def space_points_def)
  moreover have "lstrip (name @ 32 # number) = name @ 32 # number"
    using name hd_strip [of name] by (intro lstrip_no_space) auto
  moreover have "\<forall>c \<in> set (S ''add''). ascii_word c" "lower (S ''add'') = S ''add''"
    by (simp_all add: S_def ascii_word_def lower_def lower_cp_def)
  moreover have "letters (S ''add'')" by (rule letters_S_KNOWN) (simp add: KNOWN_COMMANDS_def)
  ultimately have "strip_command ''add'' (strip (te_text ev)) = name @ 32 # number"
    using strip_command_space [of "''add''" "S ''add''" "name @ 32 # number"] by (simp add: msg)
  moreover have "add_arguments (name @ 32 # number) l = (name, Some number)" for l
    using scan_number_last [OF num] name by (simp add: add_arguments_def)
  ultimately show ?thesis
    using num added by (simp add: add_body_def Let_def)
qed

lemma place_call_asks:
  assumes "\<not> listed ub dest"
  shows "outgoing_request c (tv_cid env) (te_sender ev) (d_number dest) \<in> set (ub_requests (snd (place_call c env ev dest ub)))"
proof -
  let ?asked = "outgoing_request c (tv_cid env) (te_sender ev) (d_number dest)"
  obtain bl where p: "place_call c env ev dest ub =
     (let asked = post ?asked (ub\<lparr>ub_blacklist := bl\<rparr>)
      in case accepted_id c env ev dest of
           Some call_id \<Rightarrow> ring_user c env ev (d_number dest) call_id asked
         | None \<Rightarrow> turned_down c env ev dest asked)"
    by (rule place_call_unlisted [OF assms])
  show ?thesis
    by (cases "accepted_id c env ev dest")
      (auto simp: p Let_def ring_user_def turned_down_def reply_def post_def split: http_reply.split)
qed

section \<open>A sample\<close>

definition sample_ub_cfg :: ub_cfg where
  "sample_ub_cfg =
     \<lparr>uc_agent_url = S ''http://gsm:8090'', uc_agent_token = S ''t'',
      uc_bridge = \<lparr>bc_base_url = S ''http://127.0.0.1:5063'', bc_token = [], bc_gsm_host = S ''gsm''\<rparr>,
      uc_repr = (\<lambda>_. []), uc_status_text = (\<lambda>_ _. [])\<rparr>"

definition sample_tg_env :: "network \<Rightarrow> tg_env" where
  "sample_tg_env net =
     \<lparr>tv_now = 0, tv_acl_file = None, tv_cid = S ''c1'', tv_cid2 = S ''c2'', tv_net = net,
      tv_book_write = StoreOk 5, tv_blacklist_write = WriteOk 5, tv_stamp = []\<rparr>"

definition sample_ub :: userbot where
  "sample_ub =
     \<lparr>ub_acl = \<lparr>acl_rules = [(7, [S ''out_sms'', S ''out_call'']), (8, [S ''in_sms''])], acl_mtime = 0\<rparr>, ub_audit = [],
      ub_blacklist = \<lparr>bl_numbers = {}, bl_mtime = 0\<rparr>, ub_blacklist_disk = None,
      ub_book = \<lparr>uc_data = [], uc_mtime = 0\<rparr>, ub_book_file = None,
      ub_last_call = [], ub_replies = [], ub_requests = []\<rparr>"

definition sample_event :: "int \<Rightarrow> str \<Rightarrow> str option option \<Rightarrow> tg_event" where
  "sample_event sender t quoted = \<lparr>te_sender = sender, te_text = t, te_id = 1, te_voice = False, te_reply = quoted\<rparr>"

lemma sample_event_parts [simp]:
  "te_sender (sample_event u t q) = u" "te_text (sample_event u t q) = t" "te_id (sample_event u t q) = 1"
  "te_voice (sample_event u t q) = False" "te_reply (sample_event u t q) = q"
  by (simp_all add: sample_event_def)

definition down :: network where
  "down = (\<lambda>_. HttpFails [])"

lemma sample_rights:
  "rights_now (sample_tg_env net) (sample_event u t q) sample_ub =
     (if u = 7 then [S ''out_sms'', S ''out_call''] else if u = 8 then [S ''in_sms''] else [])"
  by (simp add: rights_now_def get_user_rights_def acl_reload_def acl_rights_def sample_tg_env_def sample_event_def
      sample_ub_def)

lemma sample_ok: "userbot_ok sample_ub"
  by (simp add: userbot_ok_def sample_ub_def phonebook_ok_def file_agrees_def numbers_wf_def)

lemma sample_unlisted: "\<not> listed sample_ub d"
  by (simp add: listed_def sample_ub_def bl_contains_def bl_maybe_reload_def stat_mtime_def Let_def split: option.split)

section \<open>Properties\<close>

text \<open>C14: a sender without any right in the access list gets no reaction: whatever the message,
  no reply and no request leaves the process, and blacklist, phonebooks and last dialled numbers are
  unchanged; only the access list's cache and the audit log move.\<close>
theorem strangers_get_silence:
  assumes "\<And>h. tv_acl_file (envs h) = f" and "fst (get_user_rights f (te_sender ev) (ub_acl ub)) = []"
  shows "visible (on_message c envs ev ub) = visible ub"
  using assms by (simp add: on_message_def stranger_steps get_user_rights_def Let_def)

theorem strangers_get_silence_witness:
  "visible (on_message sample_ub_cfg (\<lambda>_. sample_tg_env down) (sample_event 9 (S ''/help'') None) sample_ub) = visible sample_ub"
  by (rule strangers_get_silence [where f = None])
    (simp_all add: sample_tg_env_def sample_event_def sample_ub_def get_user_rights_def acl_reload_def acl_rights_def)

text \<open>Without its right, a gated handler does exactly one thing for a known user: it refuses, and
  logs the refusal.\<close>
theorem refusal_is_exact:
  assumes "needs h = Some right" and "rights_now env ev ub \<noteq> []" and "S right \<notin> set (rights_now env ev ub)"
  shows "run_handler c env ev h ub = (Inr (), refused env ev (S right) ub)"
  using assms by (cases h) (auto simp: refusals)

theorem refusal_is_exact_witness:
  "run_handler sample_ub_cfg (sample_tg_env down) (sample_event 8 (S ''/call Ann'') None) HCall sample_ub
     = (Inr (), refused (sample_tg_env down) (sample_event 8 (S ''/call Ann'') None) (S ''out_call'') sample_ub)"
  by (rule refusal_is_exact) (simp_all add: sample_rights)

text \<open>C3: the state of the userbot stays well formed, whatever messages it gets, whoever answers and
  however writes fail: every directory holds distinct single-token names with distinct canonical
  numbers and agrees with its file, the blacklist holds E.164 numbers, and every remembered last
  number is accepted by the strict validator again.\<close>
theorem userbot_state_ok:
  assumes "userbot_ok ub"
  shows "userbot_ok (foldl (\<lambda>ub (envs, ev). on_message c envs ev ub) ub messages)"
proof (induction messages rule: rev_induct)
  case Nil
  then show ?case using assms by simp
next
  case (snoc m messages)
  have "userbot_ok ub' \<Longrightarrow> userbot_ok (run_handlers c envs ev hs ub')" for envs ev hs ub'
    by (induction hs arbitrary: ub') (simp_all add: run_handler_ok)
  with snoc show ?case by (cases m) (simp add: on_message_def)
qed

theorem userbot_state_ok_witness:
  "userbot_ok (foldl (\<lambda>ub (envs, ev). on_message sample_ub_cfg envs ev ub) sample_ub
     [(\<lambda>_. sample_tg_env down, sample_event 7 (S ''/add Ann 1001'') None)])"
  by (rule userbot_state_ok [OF sample_ok])

text \<open>C10: an accepted call is never left hanging. The agent is asked once for a number that is not
  blacklisted. When it takes the call, the number is remembered for redialling and the bridge is
  asked to ring the user; the user reads that the call is coming exactly when the bridge rings, and
  otherwise the same call is rejected at the agent. When the agent does not take it, nothing else
  happens.\<close>
theorem call_rings_or_is_taken_back:
  assumes "\<not> listed ub dest" and "place_call c env ev dest ub = (r, ub')"
  shows "let sender = te_sender ev; n = d_number dest; bridge = uc_bridge c;
             asked = outgoing_request c (tv_cid env) sender n; ring = call_request bridge sender n;
             ok = (start_call bridge (tv_net env) sender n = BridgeOk);
             told = (ub_replies ub' = ub_replies ub @ [(sender, calling_text)])
         in case accepted_id c env ev dest of
              Some call_id \<Rightarrow> dget (ub_last_call ub') sender = Some n \<and> told = ok
                \<and> ub_requests ub' = ub_requests ub @ [asked, ring]
                    @ (if ok then [] else [reject_request c (tv_cid2 env) call_id])
            | None \<Rightarrow> ub_last_call ub' = ub_last_call ub \<and> \<not> told \<and> ub_requests ub' = ub_requests ub @ [asked]"
proof -
  let ?asked = "outgoing_request c (tv_cid env) (te_sender ev) (d_number dest)"
  obtain bl where p: "place_call c env ev dest ub =
     (let asked = post ?asked (ub\<lparr>ub_blacklist := bl\<rparr>)
      in case accepted_id c env ev dest of
           Some call_id \<Rightarrow> ring_user c env ev (d_number dest) call_id asked
         | None \<Rightarrow> turned_down c env ev dest asked)"
    by (rule place_call_unlisted [OF assms(1)])
  show ?thesis
  proof (cases "accepted_id c env ev dest")
    case None
    with assms(2) p have "turned_down c env ev dest (post ?asked (ub\<lparr>ub_blacklist := bl\<rparr>)) = (r, ub')"
      by (simp add: Let_def)
    from turned_down_facts [OF this] None show ?thesis by (simp add: Let_def post_def)
  next
    case (Some call_id)
    with assms(2) p
    have "ring_user c env ev (d_number dest) call_id (post ?asked (ub\<lparr>ub_blacklist := bl\<rparr>)) = (r, ub')"
      by (simp add: Let_def)
    from ring_user_facts [OF this] Some show ?thesis
      by (cases "start_call (uc_bridge c) (tv_net env) (te_sender ev) (d_number dest) = BridgeOk")
        (auto simp: Let_def post_def)
  qed
qed

theorem call_rings_or_is_taken_back_witness:
  "\<exists>net. reject_request sample_ub_cfg (S ''c2'') (S ''abc'') \<in> set (ub_requests (snd
     (place_call sample_ub_cfg (sample_tg_env net) (sample_event 7 (S ''1001'') None)
        \<lparr>d_number = S ''1001'', d_internal = True\<rparr> sample_ub)))"
proof (intro exI)
  let ?net = "\<lambda>r. if hr_url r = S ''http://gsm:8090/v1/call/outgoing''
       then HttpReply 200 (Some (JObj [(S ''call_id'', JStr (S ''abc''))])) [] else HttpFails []"
  let ?d = "\<lparr>d_number = S ''1001'', d_internal = True\<rparr>" and ?ev = "sample_event 7 (S ''1001'') None"
  obtain r ub' where p: "place_call sample_ub_cfg (sample_tg_env ?net) ?ev ?d sample_ub = (r, ub')" by (rule prod.exhaust)
  have url: "S ''http://gsm:8090'' @ S ''/v1/call/outgoing'' = S ''http://gsm:8090/v1/call/outgoing''"
    "S ''http://127.0.0.1:5063'' @ S ''/call'' \<noteq> S ''http://gsm:8090/v1/call/outgoing''"
    by (simp_all add: S_def)
  have "accepted_id sample_ub_cfg (sample_tg_env ?net) ?ev ?d = Some (S ''abc'')"
    "start_call (uc_bridge sample_ub_cfg) (tv_net (sample_tg_env ?net)) (te_sender ?ev) (d_number ?d) \<noteq> BridgeOk"
    using url
    by (simp_all add: accepted_id_def sample_ub_cfg_def sample_tg_env_def outgoing_request_def agent_post_def call_id_of_def
        start_call_def call_request_def)
  moreover have "tv_cid2 (sample_tg_env ?net) = S ''c2''" by (simp add: sample_tg_env_def)
  ultimately have "reject_request sample_ub_cfg (S ''c2'') (S ''abc'') \<in> set (ub_requests ub')"
    using call_rings_or_is_taken_back [OF sample_unlisted p] by (simp add: Let_def)
  then show "reject_request sample_ub_cfg (S ''c2'') (S ''abc'') \<in> set (ub_requests (snd
     (place_call sample_ub_cfg (sample_tg_env ?net) ?ev ?d sample_ub)))"
    by (simp only: p snd_conv)
qed

text \<open>An SMS leaves exactly when its text is not blank and the strict validator reads its number as
  an external number that is neither a service number nor blacklisted; it carries the canonical
  number and the text unchanged, and the user reads \<open>Sent\<close> exactly when the agent confirmed it.\<close>
theorem sms_submission_exact:
  "ub_requests (snd (do_send_sms c env ev phone text ub)) = ub_requests ub @
     (case sms_target ub phone text of
        None \<Rightarrow> [] | Some n \<Rightarrow> [sms_post c (tv_cid env) (te_sender ev) (te_id ev) n text])
   \<and> (\<exists>t. ub_replies (snd (do_send_sms c env ev phone text ub)) = ub_replies ub @ [(te_sender ev, t)]
        \<and> (t = S ''Sent'' \<longleftrightarrow> (\<exists>n code body txt. sms_target ub phone text = Some n \<and> success code
              \<and> tv_net env (sms_post c (tv_cid env) (te_sender ev) (te_id ev) n text) = HttpReply code body txt)))"
  using do_send_sms_posts do_send_sms_replies by blast

text \<open>C15: a conversation by SMS. A plain reply to the notice the server sent for an SMS posts one SMS:
  to the number the notice came from, with the stripped reply as its text, provided the sender may
  send SMS, the number has at least 11 digits and is not blacklisted. So the notices of
  \<open>userbot/http_server.py\<close> and the pattern of \<open>userbot/userbot.py\<close> fit together, with or without a
  contact name.\<close>
theorem reply_reaches_sender:
  assumes "te_reply ev = Some (Some (sms_notice ec phone text name))" and "e164_form phone" and "12 \<le> length phone"
    and "\<not> te_voice ev" and "strip (te_text ev) \<noteq> []" and "is_plain_reply_candidate (te_text ev)"
    and "S ''out_sms'' \<in> set (rights_now (envs HReply) ev ub)"
    and "\<not> listed ub \<lparr>d_number = phone, d_internal = False\<rparr>"
  shows "ub_requests (on_message c envs ev ub) = ub_requests ub
     @ [sms_post c (tv_cid (envs HReply)) (te_sender ev) (te_id ev) phone (strip (te_text ev))]"
proof -
  let ?ub = "ub\<lparr>ub_acl := acl_now (envs HReply) ub\<rparr>"
  have h: "handlers_for ev = [HReply]" using assms by (intro plain_reply_handler) auto
  have "sms_target ?ub phone (strip (te_text ev)) = Some phone"
    using assms(5,8) e164_destination [OF assms(2,3)] by (simp add: sms_target_def listed_def)
  then show ?thesis
    using do_send_sms_posts [of c "envs HReply" ev phone "strip (te_text ev)" ?ub] assms(1,7)
    by (simp add: on_message_def h sms_reply.allowed sms_reply_body_def notice_quote [OF assms(2)])
qed

theorem reply_reaches_sender_witness:
  "\<exists>ec. ub_requests (on_message sample_ub_cfg (\<lambda>_. sample_tg_env down)
      (sample_event 7 (S ''ok'') (Some (Some (sms_notice ec (S ''+79261234555'') (S ''hi'') None)))) sample_ub)
     = [sms_post sample_ub_cfg (S ''c1'') 7 1 (S ''+79261234555'') (S ''ok'')]"
proof (intro exI)
  let ?ec = "\<lparr>ec_secret = [], ec_peers = [], ec_contacts = None, ec_client = None, ec_master = None, ec_repr = (\<lambda>_. [])\<rparr>"
  let ?ev = "sample_event 7 (S ''ok'') (Some (Some (sms_notice ?ec (S ''+79261234555'') (S ''hi'') None)))"
  have strip: "strip (S ''ok'') = S ''ok''"
    by (simp add: S_def strip_def lstrip_def rstrip_def is_space_def space_points_def)
  have "e164_form (S ''+79261234555'')" using sample_number_normal by (rule normalize_e164_form)
  moreover have "is_plain_reply_candidate (S ''ok'')"
    using strip by (simp add: is_plain_reply_candidate_def command_token_def is_number_attempt_def)
      (simp add: S_def lstrip_def is_space_def space_points_def is_digit_def is_decimal_def decimal_blocks_def digit_ranges_def)
  ultimately show "ub_requests (on_message sample_ub_cfg (\<lambda>_. sample_tg_env down) ?ev sample_ub)
     = [sms_post sample_ub_cfg (S ''c1'') 7 1 (S ''+79261234555'') (S ''ok'')]"
    using reply_reaches_sender [of ?ev ?ec "S ''+79261234555''" "S ''hi''" None "\<lambda>_. sample_tg_env down" sample_ub sample_ub_cfg]
      strip sample_unlisted
    by (simp add: sample_rights) (simp add: sample_event_def sample_tg_env_def sample_ub_def)
qed

text \<open>C27: a contact is dialled by its name. After \<open>/add <name> <number>\<close> succeeded, \<open>/call\<close> with the
  name in any case asks the agent for the number, in the canonical form the strict validator gives
  it, provided the name itself is not a number and the number is not blacklisted.\<close>
theorem saved_contact_is_dialled:
  assumes "userbot_ok ub" and "te_sender ev2 = te_sender ev1" and "\<not> te_voice ev1" and "\<not> te_voice ev2"
    and text1: "te_text ev1 = S ''/add '' @ name @ [32] @ number"
    and text2: "te_text ev2 = S ''/call '' @ query"
    and name: "strip name = name" "name \<noteq> []" and number: "strip number = number"
    and query: "strip query = query" "query \<noteq> []" "casefold query = casefold (single_token name)"
      "parse_destination (Some query) = None"
    and "S ''out_call'' \<in> set (rights_now (envs1 HAdd) ev1 ub)"
    and "tv_acl_file (envs2 HCall) = tv_acl_file (envs1 HAdd)"
    and added: "add_unique (uc_repr c) (tv_book_write (envs1 HAdd)) (ub_book_file ub) (te_sender ev1) name number
       (ub_book ub) = (Inr (Added n), f', u')"
    and "\<And>d. parse_destination (Some number) = Some d \<Longrightarrow> \<not> listed ub d"
  shows "outgoing_request c (tv_cid (envs2 HCall)) (te_sender ev2) n
     \<in> set (ub_requests (on_message c envs2 ev2 (on_message c envs1 ev1 ub)))"
proof -
  let ?ub1 = "on_message c envs1 ev1 ub"
  have book: "phonebook_ok (ub_book ub)" "file_agrees (ub_book_file ub) (ub_book ub)"
    using assms(1) by (auto simp: userbot_ok_def)
  have ascii: "token (S ''add'')" "token (S ''call'')" "lower (S ''add'') = S ''add''" "lower (S ''call'') = S ''call''"
    "is_space 32" "\<not> is_space 47"
    by (simp_all add: token_def ascii_word_def S_def lower_def lower_cp_def is_space_def space_points_def)
  have t1: "te_text ev1 = 47 # S ''add'' @ 32 # name @ 32 # number" and t2: "te_text ev2 = 47 # S ''call'' @ 32 # query"
    by (simp_all add: text1 text2 S_def)
  have h: "handlers_for ev1 = [HAdd]" "handlers_for ev2 = [HCall]"
    using one_handler [OF ascii(1) _ t1 assms(3)] one_handler [OF ascii(2) _ t2 assms(4)] ascii
    by (simp_all add: owner_def)
  obtain d where d: "parse_destination (Some number) = Some d" "n = d_number d"
    using add_unique_ok [OF book added] number by auto
  have 1: "ub_book ?ub1 = u'" "ub_book_file ?ub1 = f'" "ub_blacklist ?ub1 = ub_blacklist ub"
    "ub_blacklist_disk ?ub1 = ub_blacklist_disk ub" "ub_acl ?ub1 = acl_now (envs1 HAdd) ub"
    using add_body_added [OF t1 name number d(1), where c = c and env = "envs1 HAdd"
        and ub = "ub\<lparr>ub_acl := acl_now (envs1 HAdd) ub\<rparr>"] added assms(14)
    by (simp_all add: on_message_def h add_entry.allowed reply_def)
  have "strip (te_text ev2) = te_text ev2"
    using query(1,2) ascii last_strip [of query] by (intro strip_no_space) (auto simp: t2)
  then have q: "strip_command ''call'' (strip (te_text ev2)) = query"
    using strip_command_space [of "''call''" "S ''call''" query] ascii query(1,2) hd_strip [of query]
    by (simp add: t2 letters_S_KNOWN KNOWN_COMMANDS_def token_def lstrip_no_space)
  have rights: "S ''out_call'' \<in> set (rights_now (envs2 HCall) ev2 ?ub1)"
    using assms(2,14) rights_again [OF 1(5) assms(15)] by (simp add: rights_now_def)
  let ?ub2 = "?ub1\<lparr>ub_acl := acl_now (envs2 HCall) ?ub1\<rparr>"
  obtain r book' where g: "find_by_name f' (te_sender ev1) query u' = (r, book')" by (rule prod.exhaust)
  then have "find_by_name (ub_book_file ?ub2) (te_sender ev2) query (ub_book ?ub2)
      = (Inr [new_contact (single_token name) n], book')"
    using added_entry_found [OF book added query(3,1)] assms(2) 1(1,2) by simp
  note found = call_body_found [OF q query(2,4) this reparse_number [OF d(1), folded d(2)]]
  have "\<not> listed (?ub2\<lparr>ub_book := book'\<rparr>) d"
    using assms(17) [OF d(1)] 1(3,4) by (simp add: listed_def)
  from place_call_asks [OF this, of c "envs2 HCall" ev2] show ?thesis
    by (simp add: on_single [OF h(2)] dial.allowed [OF rights] found d(2))
qed

theorem saved_contact_is_dialled_witness:
  "outgoing_request sample_ub_cfg (S ''c1'') 7 (S ''1001'') \<in> set (ub_requests
     (on_message sample_ub_cfg (\<lambda>_. sample_tg_env down) (sample_event 7 (S ''/call ANN'') None)
       (on_message sample_ub_cfg (\<lambda>_. sample_tg_env down) (sample_event 7 (S ''/add Ann 1001'') None) sample_ub)))"
proof -
  let ?envs = "\<lambda>_ :: handler. sample_tg_env down"
  let ?ev1 = "sample_event 7 (S ''/add Ann 1001'') None" and ?ev2 = "sample_event 7 (S ''/call ANN'') None"
  have parts: "S ''/add Ann 1001'' = S ''/add '' @ S ''Ann'' @ [32] @ S ''1001''" "S ''/call ANN'' = S ''/call '' @ S ''ANN''"
    by (simp_all add: S_def)
  have strip: "strip (S ''Ann'') = S ''Ann''" "strip (S ''ANN'') = S ''ANN''" "strip (S ''1001'') = S ''1001''"
    by (simp_all add: S_def strip_def lstrip_def rstrip_def is_space_def space_points_def)
  have "single_token (S ''Ann'') = S ''Ann''" by (simp add: single_token_def strip) (simp add: S_def replace_cp_def)
  then have fold: "casefold (S ''ANN'') = casefold (single_token (S ''Ann''))"
    by (simp add: S_def casefold_def lower_cp_def)
  have none: "parse_destination (Some (S ''ANN'')) = None"
    by (simp add: parse_destination_def strip)
      (simp add: S_def ext_plus_match_def ext_ru_match_def ext_short_match_def internal_match_def digits_to_end_def
        is_decimal_def decimal_blocks_def)
  have stored: "add_unique (uc_repr sample_ub_cfg) (tv_book_write (sample_tg_env down)) (ub_book_file sample_ub) 7 (S ''Ann'')
      (S ''1001'') (ub_book sample_ub)
    = (Inr (Added (S ''1001'')), Some (5, Some (uc_snapshot [(S ''7'', [new_contact (S ''Ann'') (S ''1001'')])])),
       \<lparr>uc_data = [(S ''7'', [new_contact (S ''Ann'') (S ''1001'')])], uc_mtime = 5\<rparr>)"
    using sample_add by (simp add: sample_ub_cfg_def sample_tg_env_def sample_ub_def)
  have "outgoing_request sample_ub_cfg (tv_cid (sample_tg_env down)) (te_sender ?ev2) (S ''1001'') \<in> set (ub_requests
     (on_message sample_ub_cfg ?envs ?ev2 (on_message sample_ub_cfg ?envs ?ev1 sample_ub)))"
    by (rule saved_contact_is_dialled [OF sample_ok, where ?envs1.0 = ?envs and ?envs2.0 = ?envs])
      (use stored parts strip fold none in \<open>simp_all add: sample_rights sample_unlisted\<close>)
  then show ?thesis by (simp add: sample_tg_env_def)
qed

text \<open>Three-digit numbers are documented as callable but not sendable, and the guard misses those
  that begin with 7 or 8: an SMS to such a number leaves, and no blacklist entry can stop it.\<close>
theorem short_numbers_slip_through:
  assumes "decimals n" and "length n = 3" and "hd n = 55 \<or> hd n = 56" and "strip text \<noteq> []"
  shows "sms_target ub n text = Some n"
proof -
  have p: "parse_destination (Some n) = Some \<lparr>d_number = n, d_internal = False\<rparr>"
    using assms(1,2) by (intro allowed_parse_destination) (auto intro: allowed_form.short)
  moreover have "\<not> is_service_number n"
    using assms(2,3) by (cases n) (auto simp: is_service_number_def startswith_def Let_def)
  moreover have "normalize_e164 n = None" using destination_normalizes [OF p] assms(2) by simp
  ultimately show ?thesis
    using assms(4) by (simp add: sms_target_def listed_def bl_contains_def)
qed

theorem short_numbers_slip_through_witness:
  "sms_target sample_ub (S ''811'') (S ''hi'') = Some (S ''811'')"
  by (rule short_numbers_slip_through)
    (simp_all add: S_def decimals_def strip_def lstrip_def rstrip_def is_space_def space_points_def)

lemma retry_ok:
  assumes "1 \<le> max_retries"
  shows "rt_ok (reconnect works min_delay max_delay max_retries) \<longleftrightarrow> (\<exists>k \<in> {1..max_retries}. works k)"
proof -
  define r where "r = reconnect works min_delay max_delay max_retries"
  then have "retry_loop works max_delay max_retries 0 min_delay = r" by (simp add: reconnect_def)
  note spec = retry_loop_spec [OF this]
  show ?thesis
  proof (cases "rt_ok r")
    case True
    with spec assms show ?thesis by (auto simp: r_def intro!: bexI [of _ "rt_attempts r"])
  next
    case False
    with spec have "\<not> works k" if "1 \<le> k" "k \<le> max_retries" for k
      using that by (cases "k = rt_attempts r") auto
    with False show ?thesis by (auto simp: r_def)
  qed
qed

text \<open>A drop after which one of the ten attempts to reconnect succeeds.\<close>
definition survivable :: "(nat \<Rightarrow> bool) \<Rightarrow> bool" where
  "survivable works \<longleftrightarrow> (\<exists>k \<in> {1..10}. works k)"

text \<open>The userbot leaves its recovery loop exactly at the first session drop after which all ten
  attempts to reconnect fail, and until then it has sent one alert for every drop.\<close>
theorem session_loop_exact:
  "run_with_recovery drops =
     (if list_all survivable drops then (length drops, False)
      else (Suc (length (takeWhile survivable drops)), True))"
proof (induction drops)
  case Nil
  then show ?case by simp
next
  case (Cons works drops)
  have "rt_ok (reconnect works TG_RECONNECT_MIN_DELAY TG_RECONNECT_MAX_DELAY TG_RECONNECT_MAX_RETRIES)
     \<longleftrightarrow> survivable works"
    unfolding survivable_def by (subst retry_ok) (simp_all add: TG_RECONNECT_MAX_RETRIES_def)
  with Cons show ?case by simp
qed

end
