(* ===== verification/Nodes.thy ===== *)
theory Nodes
  imports CallRouteProps UserbotProps
begin

text \<open>
  The two nodes together: how an answer of the agent's call route reaches the userbot as an HTTP
  reply, how the notifications the agent emits become requests of the userbot's event server, and
  what placing a call and taking it back does to the agent's registry.
\<close>

section \<open>The agent over HTTP\<close>

definition call_response :: "call_machine \<Rightarrow> json" where
  "call_response c = JObj
     [(S ''call_id'', JStr (cm_id c)), (S ''state'', JStr (call_state_value (cm_state c))),
      (S ''caller_number'', JStr (cm_caller c)), (S ''callee_number'', JStr (cm_callee c)),
      (S ''direction'', JStr (cm_direction c))]"

text \<open>The framework's rendering of a route's result: 200 with the response, the status of an
  \<open>HTTPException\<close> with its detail, 500 for any other exception.\<close>
definition call_reply :: "http_error + call_machine \<Rightarrow> http_reply" where
  "call_reply r =
     (case r of
        Inr c \<Rightarrow> HttpReply 200 (Some (call_response c)) []
      | Inl (HTTPException code detail) \<Rightarrow> HttpReply (nat code) (Some (JObj [(S ''detail'', JStr detail)])) []
      | Inl (Unhandled _) \<Rightarrow> HttpReply 500 None (S ''Internal Server Error''))"

section \<open>A call that is taken back\<close>

lemma place_outgoing_registered:
  assumes "fst (place_outgoing en user d ag) = Inr c"
  shows "\<exists>ch reg1. choose_modem (d_number d) (S ''gsm'') (\<not> d_internal d) (ag_reg ag) = (Inr ch, reg1)
     \<and> cm_modem_id c = ch_modem ch \<and> cm_id c = en_uuid en \<and> cm_direction c = S ''outgoing'' \<and> cm_state c = TELEGRAM_CALLING
     \<and> (let reg' = ag_reg (snd (place_outgoing en user d ag))
        in cr_calls reg' = dput (en_uuid en) c (cr_calls reg1) \<and> cr_pool reg' = cr_pool reg1
           \<and> cr_modems_reserved reg' = cr_modems_reserved reg1 + (if \<not> d_internal d \<and> cr_pool reg1 = None then 1 else 0))"
proof -
  obtain x reg1 where ch: "choose_modem (d_number d) (S ''gsm'') (\<not> d_internal d) (ag_reg ag) = (x, reg1)"
    by fastforce
  show ?thesis
  proof (cases x)
    case (Inl e)
    with assms ch show ?thesis by (simp add: place_outgoing_def create_outgoing_choice)
  next
    case (Inr choice)
    then obtain c0 reg' where c: "create_outgoing (en_now en) (en_uuid en) (d_number d)
          (S ''user:'' @ int_text (user_or_0 user)) None (S ''gsm'') user (\<not> d_internal d) (ag_reg ag) = (Inr c0, reg')"
        "created (en_uuid en) (S ''outgoing'') MODEM_RESERVED c0 reg1 reg'" "cm_modem_id c0 = ch_modem choice"
        "cr_modems_reserved reg' = cr_modems_reserved reg1 + (if \<not> d_internal d \<and> cr_pool reg1 = None then 1 else 0)"
      using create_outgoing_result [of "d_number d" "S ''gsm''" "\<not> d_internal d" "ag_reg ag" choice reg1] ch
      by blast
    define c' where "c' = c0\<lparr>cm_state := TELEGRAM_CALLING, cm_updated_at := en_now en\<rparr>"
    have "reg_transition (en_now en) (cm_id c0) TELEGRAM_CALLING reg' =
        (True, put_call c' (metrics_hook (en_now en) c' reg'))"
      using c(2) by (simp add: created_def reg_transition_def hooked_transition_def cm_transition_def
          allowed_from_def c'_def)
    then have "place_outgoing en user d ag = (Inr c', snd (place_outgoing en user d ag))"
      and "let r = ag_reg (snd (place_outgoing en user d ag))
           in cr_calls r = dput (en_uuid en) c' (cr_calls reg') \<and> cr_pool r = cr_pool reg'
              \<and> cr_modems_reserved r = cr_modems_reserved reg'"
      using c(1,2) by (simp_all add: place_outgoing_def Let_def on_reg_def start_telegram_calling_def live_def
          get_call_def c'_def created_def put_call_def metrics_hook_def split: option.split)
    moreover from this(1) have "c = c'" using assms by (metis fst_conv sum.inject(2))
    ultimately show ?thesis
      using c(2,3,4) ch Inr by (simp add: c'_def created_def Let_def)
  qed
qed

lemma cleanup_count:
  assumes "only_agent i a b" and "get_call i (ag_reg a) = Some c"
  shows "cr_modems_reserved (ag_reg (agent_cleanup i b)) =
     (if holds_modem c \<and> cr_pool (ag_reg a) = None then max 0 (cr_modems_reserved (ag_reg a) - 1)
      else cr_modems_reserved (ag_reg a))"
  using assms
  by (auto simp: only_agent_def only_call_def agent_cleanup_def cleanup_def get_call_def Let_def
      same_owner_def holds_modem_def split: option.splits)

lemma reject_calling:
  assumes "keyed_by cm_id (cr_calls (ag_reg ag))" and "get_call i (ag_reg ag) = Some c"
    and "cm_direction c = S ''outgoing''" and "cm_state c = TELEGRAM_CALLING"
  shows "\<exists>b. snd (call_reject en i ag) = agent_cleanup i b \<and> only_agent i ag b \<and> is_ok (fst (call_reject en i ag))"
proof -
  define b where "b = snd (on_reg (reject (en_now en) i (Some (S ''user_rejected''))) ag)"
  have "fst (on_reg (reject (en_now en) i (Some (S ''user_rejected''))) ag)"
    using assms(2-4) by (simp add: on_reg_def reject_def transition_note_def reg_transition_def get_call_def
        hooked_transition_def cm_transition_def allowed_from_def case_prod_unfold)
  then have "on_reg (reject (en_now en) i (Some (S ''user_rejected''))) ag = (True, b)"
    by (simp add: b_def prod_eq_iff)
  moreover have "only_agent i ag b"
    using only_ops(4) [of i ag ag "en_now en" "Some (S ''user_rejected'')"] assms(1)
    by (simp add: only_agent_def only_call_refl b_def)
  ultimately show ?thesis
    using assms(2) by (auto simp: call_reject_def simple_route_def Let_def)
qed

text \<open>Placing a call and taking it back restores calls and reservations.\<close>
lemma placed_then_rejected:
  assumes "modem_provider ops valid" and inv: "reg_inv ops valid (ag_reg ag)"
    and fresh: "dget (cr_calls (ag_reg ag)) (en_uuid en) = None"
    and placed: "place_outgoing en user d ag = (Inr c, ag1)"
  shows "is_ok (fst (call_reject en' (en_uuid en) ag1))
     \<and> (let reg = ag_reg (snd (call_reject en' (en_uuid en) ag1))
        in cr_calls reg = cr_calls (ag_reg ag) \<and> cr_modems_reserved reg = cr_modems_reserved (ag_reg ag)
           \<and> map_option mp_reserved (cr_pool reg) = map_option mp_reserved (cr_pool (ag_reg ag)))"
proof -
  let ?i = "en_uuid en"
  obtain ch reg1 where ch: "choose_modem (d_number d) (S ''gsm'') (\<not> d_internal d) (ag_reg ag) = (Inr ch, reg1)"
    and c: "cm_modem_id c = ch_modem ch" "cm_id c = ?i" "cm_direction c = S ''outgoing''" "cm_state c = TELEGRAM_CALLING"
    and reg: "cr_calls (ag_reg ag1) = dput ?i c (cr_calls reg1)" "cr_pool (ag_reg ag1) = cr_pool reg1"
      "cr_modems_reserved (ag_reg ag1) = cr_modems_reserved reg1 + (if \<not> d_internal d \<and> cr_pool reg1 = None then 1 else 0)"
    using place_outgoing_registered [of en user d ag c] placed by (auto simp: Let_def)
  have calls: "cr_calls reg1 = cr_calls (ag_reg ag)" "cr_modems_reserved reg1 = cr_modems_reserved (ag_reg ag)"
    using choose_modem_pool [OF ch] by auto
  have keyed: "keyed_by cm_id (cr_calls (ag_reg ag))" using inv by (auto simp: reg_inv_def calls_ok_def)
  then have keyed1: "keyed_by cm_id (cr_calls (ag_reg ag1))" by (simp add: reg calls keyed_by_dput c(2))
  have get: "get_call ?i (ag_reg ag1) = Some c" by (simp add: get_call_def reg)
  obtain b where b: "snd (call_reject en' ?i ag1) = agent_cleanup ?i b" "only_agent ?i ag1 b"
    "is_ok (fst (call_reject en' ?i ag1))"
    using reject_calling [OF keyed1 get c(3,4)] by blast
  have "dpop ?i (cr_calls (ag_reg ag1)) = cr_calls (ag_reg ag)"
    using fresh by (simp add: reg calls dpop_dput delete_id map_of_eq_None_iff)
  moreover have holds: "holds_modem c \<longleftrightarrow> ch_modem ch \<noteq> []" by (simp add: holds_modem_def c)
  have "map_option mp_reserved (if holds_modem c then map_option (pool_release (cm_modem_id c)) (cr_pool (ag_reg ag1))
          else cr_pool (ag_reg ag1)) = map_option mp_reserved (cr_pool (ag_reg ag))
     \<and> (if holds_modem c \<and> cr_pool (ag_reg ag1) = None then max 0 (cr_modems_reserved (ag_reg ag1) - 1)
        else cr_modems_reserved (ag_reg ag1)) = cr_modems_reserved (ag_reg ag)"
    using ch
  proof (cases rule: modem_provider.choose_modem_cases [OF assms(1) inv ch])
    case (1 e)
    then show ?thesis by simp
  next
    case 2
    then show ?thesis using holds by (auto simp: reg)
  next
    case (3 pol)
    moreover have "0 \<le> cr_modems_reserved (ag_reg ag)"
      using inv 3(4) by (auto simp: reg_inv_def reservations_ok_def)
    ultimately show ?thesis using holds by (auto simp: reg calls)
  next
    case (4 m pol pool pool')
    then show ?thesis using holds c(1) calls by (auto simp: reg pool_release_def)
  qed
  ultimately show ?thesis
    using b cleanup_only [OF b(2)] cleanup_count [OF b(2) get] get by (simp add: Let_def)
qed

lemma call_outgoing_placed:
  assumes "call_outgoing en phone user ag = (Inr c, ag1)"
  shows "\<exists>d ag4. place_outgoing en user d ag4 = (Inr c, ag1) \<and> parse_destination (Some phone) = Some d
     \<and> cr_calls (ag_reg ag4) = cr_calls (ag_reg ag) \<and> cr_pool (ag_reg ag4) = cr_pool (ag_reg ag)
     \<and> cr_modems_reserved (ag_reg ag4) = cr_modems_reserved (ag_reg ag)"
proof -
  define ag3 where "ag3 = agent_log (request_event en CALL_ACL_CHECK user (S ''allowed'') phone)
     (snd (call_allowed en user (ag\<lparr>ag_call_limiter :=
        snd (allow (en_mono en) (S ''call:'' @ int_text (user_or_0 user)) (ag_call_limiter ag))\<rparr>)))"
  have reg: "cr_calls (ag_reg ag3) = cr_calls (ag_reg ag)" "cr_pool (ag_reg ag3) = cr_pool (ag_reg ag)"
    "cr_modems_reserved (ag_reg ag3) = cr_modems_reserved (ag_reg ag)"
    by (simp_all add: ag3_def)
  obtain d bl where "place_outgoing en user d (ag3\<lparr>ag_blacklist := bl\<rparr>) = (Inr c, ag1)"
    and "parse_destination (Some phone) = Some d"
    using assms
    by (auto simp: call_outgoing_def Let_def case_prod_unfold ag3_def [symmetric] split: if_splits option.splits)
  with reg show ?thesis by (intro exI [of _ d] exI [of _ "ag3\<lparr>ag_blacklist := bl\<rparr>"]) simp
qed

section \<open>Notifications\<close>

text \<open>The body of the request an effect sends to the userbot: \<open>/events/delivery\<close> or \<open>/events/call\<close>.\<close>
fun notification_body :: "effect \<Rightarrow> cfg option" where
  "notification_body (EffNotifyDelivery sms_id phone user status err) =
     Some [(S ''sms_id'', JStr sms_id), (S ''phone_number'', JStr phone), (S ''telegram_user_id'', JInt user),
           (S ''status'', JStr status), (S ''error'', jopt err)]"
| "notification_body (EffNotifyCall callee user status call_id) =
     Some [(S ''to'', JStr callee), (S ''telegram_user_id'', jopt_int user), (S ''status'', JStr status),
           (S ''call_id'', JStr call_id)]"
| "notification_body _ = None"

text \<open>A client that delivers to the user.\<close>
definition delivers_to :: "events_cfg \<Rightarrow> int \<Rightarrow> bool" where
  "delivers_to ec user \<longleftrightarrow> user \<noteq> 0 \<and> (\<exists>tg. ec_client ec = Some tg \<and> (\<forall>m. tc_send tg user m))"

lemma notify_delivered:
  "delivers_to ec user \<Longrightarrow>
     notify_user ec user msg st = (True, st\<lparr>ev_sent := ev_sent st @ [(user, Message msg)]\<rparr>)"
  by (auto simp: delivers_to_def notify_user_def)

lemma log_sent [simp]: "ev_sent (events_log e st) = ev_sent st"
  by (simp add: events_log_def)

lemma body_fields:
  "body_user (the (notification_body (EffNotifyDelivery i p u s e))) = Inr u"
  "body_user (the (notification_body (EffNotifyCall p (Some u) s i))) = Inr u"
  by (simp_all add: body_user_def)

end
