(* ===== verification/AgiProps.thy ===== *)
theory AgiProps
  imports Agi Nodes
begin

text \<open>
  What the dialplan scripts achieve together with the agent and the event server: a number blocked
  in Telegram is refused on the telephone, a delivery report with an id resolves the SMS that was
  sent with it, the two reports of one hangup close the call once, and which texts the scripts lose.
\<close>

section \<open>Sessions\<close>

text \<open>The environment block and its end.\<close>
definition env_block :: "str list \<Rightarrow> str list" where
  "env_block env = map (\<lambda>l. l @ [10]) env @ [[10]]"

definition session :: "str list \<Rightarrow> str list \<Rightarrow> agi" where
  "session env replies = \<lparr>io_in = env_block env @ replies, io_out = []\<rparr>"

definition plain_line :: "str \<Rightarrow> bool" where
  "plain_line l \<longleftrightarrow> l \<noteq> [] \<and> 10 \<notin> set l \<and> 13 \<notin> set l"

lemma rstrip_crlf_line:
  assumes "plain_line l"
  shows "rstrip_crlf (l @ [10]) = l"
proof -
  have "rev l \<noteq> []" "hd (rev l) \<noteq> 10" "hd (rev l) \<noteq> 13"
    using assms by (auto simp: plain_line_def hd_rev) (metis last_in_set)+
  then show ?thesis by (cases "rev l") (auto simp: rstrip_crlf_def rev_swap)
qed

lemma read_env_block:
  "list_all plain_line env \<Longrightarrow> \<exists>e. read_env (env_block env @ rest) e0 = (e, rest)"
proof (induction env arbitrary: e0)
  case Nil
  then show ?case by (simp add: env_block_def rstrip_crlf_def)
next
  case (Cons l env)
  then have "rstrip_crlf (l @ [10]) = l" "l \<noteq> []"
    by (simp_all add: rstrip_crlf_line) (simp add: plain_line_def)
  with Cons show ?case by (simp add: env_block_def Let_def)
qed

lemma read_session:
  assumes "list_all plain_line env"
  shows "snd (read_agi_env (session env replies)) = \<lparr>io_in = replies, io_out = []\<rparr>"
  using read_env_block [OF assms, of replies "[]"]
  by (auto simp: read_agi_env_def session_def)

section \<open>The blacklist on the telephone\<close>

definition blocked_flag :: "bool \<Rightarrow> str" where
  "blocked_flag b = S ''SET VARIABLE BL_BLOCKED '' @ (if b then S ''1'' else S ''0'') @ [10]
     @ S ''200 '' @ (if b then S ''blocked'' else S ''ok'') @ [10, 10]"

lemma blacklist_session:
  assumes "list_all plain_line env"
  shows "io_out (blacklist_agi files (session env (var_reply caller # var_reply path # rest)))
     = S ''GET VARIABLE CALLER'' @ 10 # S ''GET VARIABLE BL_PATH'' @ 10 #
       blocked_flag (value_or_empty caller \<noteq> [] \<and> value_or_empty path \<noteq> []
          \<and> is_blacklisted files (value_or_empty caller) (value_or_empty path) = Inr True)"
  using read_session [OF assms, of "var_reply caller # var_reply path # rest"]
  by (cases "read_agi_env (session env (var_reply caller # var_reply path # rest))")
    (simp add: blacklist_agi_def Let_def case_prod_unfold respond_def say_def hear_def blocked_flag_def S_def
      split: list.split)

lemma is_blacklisted_iff:
  "is_blacklisted files caller path = Inr True \<longleftrightarrow>
     (\<exists>disk n. files path = Inr disk \<and> normalize_e164 caller = Some n \<and> n \<in> bl_load disk)"
  by (auto simp: is_blacklisted_def bl_contains_def Let_def new_blacklist_def bl_maybe_reload_def
      split: sum.splits option.splits)

section \<open>Reports and notices\<close>

lemma strip_reply: "strip (var_reply (Some v)) = VALUE_PREFIX @ v @ [41]"
proof -
  have "lstrip (VALUE_PREFIX @ v @ [41, 10]) = VALUE_PREFIX @ v @ [41, 10]"
    by (simp add: lstrip_def VALUE_PREFIX_def S_def is_space_def space_points_def)
  then show ?thesis by (simp add: strip_def rstrip_def is_space_def space_points_def var_reply.simps)
qed

lemma get_variable_stripped [simp]:
  "agi_get_variable_stripped name \<lparr>io_in = var_reply (Some v) # ls, io_out = out\<rparr>
     = (v, \<lparr>io_in = ls, io_out = out @ S ''GET VARIABLE '' @ S name @ [10]\<rparr>)"
  by (simp add: agi_get_variable_stripped_def hear_def say_def strip_reply)

lemma complete_agi_posts:
  assumes "call_id \<noteq> []"
  shows "run_posts (complete_agi environ net [raw] \<lparr>io_in = var_reply (Some call_id) # rest, io_out = out\<rparr>)
     = [complete_request environ call_id raw]"
  using assms by (simp add: complete_agi_def Let_def finish_def split: prod.split)

lemma sms_session:
  assumes "list_all plain_line env" and "event \<in> {S ''sms'', S ''report'', S ''ring'', S ''ussd''}"
  shows "sms_agi py_repr environ net [event] (session env (var_reply sender # var_reply modem # rest)) =
     (let io = \<lparr>io_in = rest, io_out = S ''GET VARIABLE SMS_FROM'' @ 10 # S ''GET VARIABLE MODEM_ID'' @ [10]\<rparr>;
          from_number = value_or_empty sender; modem_id = or_default (value_or_empty modem) ''gsm''
      in if event = S ''report'' then report_agi environ net from_number modem_id io
         else forward_agi environ net event from_number modem_id io)"
  using assms(2)
  by (simp add: sms_agi_def read_session [OF assms(1)] Let_def) (simp add: S_def)

lemma sms_session_body:
  assumes "list_all plain_line env"
  shows "map hr_body (run_posts (sms_agi py_repr environ net [S ''sms'']
          (session env (map (\<lambda>v. var_reply (Some v)) [sender, modem, text, url] @ rest))))
     = (if text = [] then [] else [Some (sms_payload sender text (or_default modem ''gsm''))])"
  by (simp add: sms_session [OF assms] forward_agi_def forward_text_def Let_def value_or_empty_def finish_def
      json_request_def split: prod.split bool.split)

text \<open>An accepted SMS has its record.\<close>
lemma sent_record:
  assumes "send_sms en rq ag = (Inr resp, ag1)"
  shows "\<exists>r. sms_get (en_uuid en) (ag_sms ag1) = Some r \<and> sr_text r = sq_text rq"
proof (cases "sms_admitted en rq ag")
  case None
  with sms_refused_keeps [OF None] assms show ?thesis by simp
next
  case (Some number)
  from sms_submit_result(3) assms show ?thesis
    unfolding sms_admitted_submit [OF Some] by (metis snd_conv)
qed

lemma report_delivered_effect:
  assumes "sms_get i (ag_sms ag) = Some r"
  shows "\<exists>ag2. report_sms_delivered en i ag = (Inr (), ag2)
     \<and> sms_get i (ag_sms ag2) = Some (r\<lparr>sr_delivery := S ''delivered'', sr_delivered_at := Some (en_now en)\<rparr>)
     \<and> (\<forall>k. k = i \<or> sms_get k (ag_sms ag2) = sms_get k (ag_sms ag))"
proof -
  let ?f = "\<lambda>r. r\<lparr>sr_delivery := S ''delivered'', sr_delivered_at := Some (en_now en)\<rparr>"
  let ?u = "sms_update (en_log_writable en) i ?f (ag_sms ag)"
  have m: "sms_mark_delivered (en_log_writable en) (en_now en) i (ag_sms ag) = (True, snd ?u)"
    using assms by (simp add: sms_mark_delivered_def prod_eq_iff sms_update_get)
  have get: "sms_get k (snd ?u) = (if k = i then Some (?f r) else sms_get k (ag_sms ag))" for k
    using assms by (simp add: sms_update_get)
  show ?thesis using assms m get by (simp add: report_sms_delivered_def announce_delivery_def Let_def)
qed

text \<open>A text the script forwards is the text the event server handles.\<close>
lemma forwarded_event:
  assumes "events_guard ec r = Inr ()"
  shows "\<exists>body. sms_payload sender text modem = JObj body
     \<and> handle_sms_event ec ee r body st =
         (case sms_notice_event ec ee sender text modem st of (resp, st') \<Rightarrow> (Inr resp, st'))"
  using assms by (simp add: sms_payload_def handle_sms_event_def guarded_def event_field_def)

section \<open>Properties\<close>

text \<open>C5: a block in Telegram reaches the telephone. After a successful block route the dialplan script,
  which reads the file afresh, refuses exactly the callers whose number, in any spelling, is the
  blocked one or was in the file before; nobody else is refused.\<close>
theorem block_reaches_dialplan:
  assumes "bl_synced (ag_bl_file ag) (ag_blacklist ag)" and "normalize_e164 number = Some n"
    and "en_bl_write en = WriteOk m" and "10 \<notin> set (en_bl_stamp en)" and "13 \<notin> set (en_bl_stamp en)"
    and "block_number en number ag = (r, ag')" and "files path = Inr (ag_bl_file ag')" and "path \<noteq> []"
    and "list_all plain_line env" and "caller \<noteq> []"
  shows "is_ok r
     \<and> io_out (blacklist_agi files (session env (var_reply (Some caller) # var_reply (Some path) # rest)))
       = S ''GET VARIABLE CALLER'' @ 10 # S ''GET VARIABLE BL_PATH'' @ 10 #
         blocked_flag (\<exists>k. normalize_e164 caller = Some k \<and> k \<in> insert n (bl_load (ag_bl_file ag)))"
proof -
  obtain b disk' bl' where block: "bl_block (WriteOk m) (en_bl_stamp en) (ag_bl_file ag) number (ag_blacklist ag) = (b, disk', bl')"
    by (rule prod_cases3)
  note facts = bl_block_synced [OF assms(1,2,4,5) block]
  have "ag_bl_file ag' = disk'" and "is_ok r"
    using assms(3,6) block facts(1) by (auto simp: block_number_def)
  moreover have "bl_load disk' = insert n (bl_load (ag_bl_file ag))"
    using facts assms(1) by (simp add: bl_synced_def)
  ultimately show ?thesis
    using assms(7,8,10) by (simp add: blacklist_session [OF assms(9)] is_blacklisted_iff value_or_empty_def)
qed

text \<open>The check fails open and always answers. When the caller or the path is missing, or the import
  or the file system raises, the call proceeds; the session ends with a complete answer whatever
  happens.\<close>
theorem failing_check_lets_calls_through:
  assumes "list_all plain_line env"
    and "caller = None \<or> path = None \<or> (\<exists>p. path = Some p \<and> files p = Inl ())"
  shows "io_out (blacklist_agi files (session env (var_reply caller # var_reply path # rest)))
     = S ''GET VARIABLE CALLER'' @ 10 # S ''GET VARIABLE BL_PATH'' @ 10 # blocked_flag False"
  using assms(2) by (auto simp: blacklist_session [OF assms(1)] is_blacklisted_def value_or_empty_def)


text \<open>C21: the two reports of one hangup close the call once. The dialplan reports the end of a call after
  the dial and again from the hangup handler. When the first report ended the call, the second
  changes nothing at the agent, which answers 404, and the script takes that for success.\<close>
theorem double_report_harmless:
  assumes "keyed_by cm_id (cr_calls (ag_reg ag))" and "get_call i (ag_reg ag) = Some c" and "i \<noteq> []"
    and "raw \<noteq> S ''ANSWERED''"
    and "is_ok (fst (call_complete en i (dial_outcome raw) (Some raw) ag))"
    and "net (complete_request environ i raw2) = UrlError 404 e"
  defines "ag1 \<equiv> snd (call_complete en i (dial_outcome raw) (Some raw) ag)"
  shows "snd (call_complete en2 i (dial_outcome raw2) (Some raw2) ag1) = ag1
     \<and> fst (call_complete en2 i (dial_outcome raw2) (Some raw2) ag1)
        = Inl (HTTPException 404 (S ''Call not found or already closed''))
     \<and> io_out (run_io (complete_agi environ net [raw2] \<lparr>io_in = var_reply (Some i) # rest, io_out = out\<rparr>))
        = out @ S ''GET VARIABLE CALL_ID'' @ 10 # S ''200 ok='' @ dial_outcome raw2 @ [10, 10]"
proof -
  have "dial_outcome raw \<noteq> S ''answered''"
    using assms(4) by (simp add: dial_outcome_def DIALSTATUS_TO_STATUS_def)
  note closed = call_complete_closes [OF assms(1,2) this assms(5)]
  then have "cr_calls (ag_reg ag1) = dpop i (cr_calls (ag_reg ag))"
    using closes_effect [OF closed assms(2)] by (simp add: ag1_def)
  then have gone: "get_call i (ag_reg ag1) = None"
    using assms(1) keyed_by_wf dget_dpop by (metis get_call_def)
  have "post_status (net (complete_request environ i raw2)) = (404, JObj [], S ''HTTP '' @ nat_text 404)"
    by (simp add: assms(6) post_status_def)
  then show ?thesis
    using gone assms(3)
    by (simp add: call_complete_def complete_agi_def Let_def finish_def respond_def say_def) (simp add: S_def)
qed

text \<open>An SMS that the dialplan forwards is handled by the event server with its sender and text. The
  script makes one request, and its body, once the guard lets it pass, is the notice of that
  sender with that text, whatever the text is; an empty text is not forwarded.\<close>
theorem incoming_sms_reaches_server:
  assumes "list_all plain_line env" and "events_guard ec r = Inr ()"
  shows "\<exists>body. sms_payload sender text (or_default modem ''gsm'') = JObj body
     \<and> map hr_body (run_posts (sms_agi py_repr environ net [S ''sms'']
          (session env (map (\<lambda>v. var_reply (Some v)) [sender, modem, text, url] @ rest))))
        = (if text = [] then [] else [Some (JObj body)])
     \<and> handle_sms_event ec ee r body st =
         (case sms_notice_event ec ee sender text (or_default modem ''gsm'') st of (resp, st') \<Rightarrow> (Inr resp, st'))"
  using forwarded_event [OF assms(2), of sender "text" "or_default modem ''gsm''" ee st]
  by (auto simp only: sms_session_body [OF assms(1)])

text \<open>An SMS can be lost by its text. One that reads \<open>RING\<close>, or begins with \<open>RING\<close> and a space, is
  forwarded like any other, but the server takes it for the notification of a call: it is sent to
  nobody and not counted, although the script reports that it was forwarded.\<close>
theorem ring_text_is_lost:
  assumes "list_all plain_line env" and "events_guard ec r = Inr ()" and "is_ring text"
    and "net = (\<lambda>_. UrlOk 200 answer e)"
  shows "\<exists>body resp st'. map hr_body (run_posts (sms_agi py_repr environ net [S ''sms'']
          (session env (map (\<lambda>v. var_reply (Some v)) [sender, modem, text, url] @ rest)))) = [Some (JObj body)]
     \<and> handle_sms_event ec ee r body st = (Inr resp, st') \<and> ev_sent st' = ev_sent st
     \<and> ev_metrics st' = ev_metrics st \<and> ser_delivered resp = []"
proof -
  let ?payload = "sms_payload sender text (or_default modem ''gsm'')"
  obtain resp st' where n: "sms_notice_event ec ee sender text (or_default modem ''gsm'') st = (resp, st')"
    by (rule prod.exhaust)
  have "text \<noteq> []" using assms(3) by (auto simp: is_ring_def startswith_def S_def)
  then have "map hr_body (run_posts (sms_agi py_repr environ net [S ''sms'']
          (session env (map (\<lambda>v. var_reply (Some v)) [sender, modem, text, url] @ rest)))) = [Some ?payload]"
    by (simp only: sms_session_body [OF assms(1)]) simp
  moreover from n have "handle_sms_event ec ee r body st = (Inr resp, st')" if "?payload = JObj body" for body
    using that forwarded_event [OF assms(2), of sender "text" "or_default modem ''gsm''" ee st] by auto
  ultimately show ?thesis using ring_is_silent [OF assms(3) n] by (auto simp: sms_payload_def)
qed

section \<open>Samples\<close>

definition sample_sms_request :: sms_request where
  "sample_sms_request = \<lparr>sq_to = S ''+79261234555'', sq_text = S ''hi'', sq_correlation = None, sq_user = Some 7,
     sq_message_id = None\<rparr>"

lemma sample_number_external:
  "parse_destination (Some (S ''+79261234555'')) = Some \<lparr>d_number = S ''+79261234555'', d_internal = False\<rparr>"
  "\<not> is_service_number (S ''+79261234555'')"
  using e164_destination [OF normalize_e164_form [OF sample_number_normal]] by (simp_all add: S_def)

lemma sample_sms_admitted: "sms_admitted en sample_sms_request agent0 = Some (S ''+79261234555'')"
  by (simp add: sms_admitted_def sample_sms_request_def sample_number_external agent0_admits(2))
    (simp add: agent0_def new_rate_limiter_def allow_def rl_bucket_def Let_def)

theorem block_reaches_dialplan_witness:
  "io_out (blacklist_agi (\<lambda>_. Inr (ag_bl_file (snd (block_number sample_env (S ''+79261234555'') sample_agent))))
       (session [] [var_reply (Some (S ''+79261234555'')), var_reply (Some (S ''bl''))]))
     = S ''GET VARIABLE CALLER'' @ 10 # S ''GET VARIABLE BL_PATH'' @ 10 # blocked_flag True"
proof -
  obtain r ag' where b: "block_number sample_env (S ''+79261234555'') sample_agent = (r, ag')" by (rule prod.exhaust)
  have "bl_synced (ag_bl_file sample_agent) (ag_blacklist sample_agent)" by (simp add: sample_agent_def)
  from block_reaches_dialplan [OF this sample_number_normal _ _ _ b, where caller = "S ''+79261234555''" and env = "[]"
      and path = "S ''bl''" and files = "\<lambda>_. Inr (ag_bl_file ag')" and m = 1 and rest = "[]"]
  show ?thesis using b sample_number_normal by (simp add: sample_env_def S_def)
qed

theorem failing_check_lets_calls_through_witness:
  "io_out (blacklist_agi (\<lambda>_. Inl ()) (session [] [var_reply (Some (S ''900'')), var_reply (Some (S ''bl''))]))
     = S ''GET VARIABLE CALLER'' @ 10 # S ''GET VARIABLE BL_PATH'' @ 10 # blocked_flag False"
  using failing_check_lets_calls_through [of "[]" "Some (S ''900'')" "Some (S ''bl'')" "\<lambda>_. Inl ()" "[]"] by simp


theorem double_report_harmless_witness:
  "\<exists>ag. fst (call_complete sample_env (S ''c2'') (dial_outcome (S ''ENDED'')) (Some (S ''ENDED'')) ag)
        = Inl (HTTPException 404 (S ''Call not found or already closed''))
     \<and> ag = snd (call_complete sample_env (S ''c2'') (S ''no_answer'') (Some (S ''NOANSWER'')) late_agent)"
proof -
  have get: "get_call (S ''c2'') (ag_reg late_agent) = Some ringing_call"
    by (simp add: late_agent_def get_call_def ringing_reg_calls)
  have out: "dial_outcome (S ''NOANSWER'') = S ''no_answer''"
    by (simp add: dial_outcome_def DIALSTATUS_TO_STATUS_def)
  have "is_ok (fst (call_complete sample_env (S ''c2'') (S ''no_answer'') (Some (S ''NOANSWER'')) late_agent))"
    by (simp add: call_complete_def is_terminal_def TERMINAL_STATES_def ringing_call_def new_call_def
        complete_incoming_def Let_def on_reg_def fallback_to_voicemail_def reg_transition_def
        hooked_transition_def cm_transition_def allowed_from_def late_agent_def ringing_reg_calls
        case_prod_unfold get_call_def)
  from double_report_harmless [OF _ get _ _ this [folded out], of "\<lambda>_. UrlError 404 []" "\<lambda>_. None" "S ''ENDED''"] ringing_reg_keyed out
  show ?thesis by (simp add: late_agent_def)
qed

theorem incoming_sms_reaches_server_witness:
  "\<exists>body. sms_payload (S ''900'') (S ''hi'') (S ''gsm'') = JObj body
     \<and> map hr_body (run_posts (sms_agi (\<lambda>_. []) (\<lambda>_. None) (\<lambda>_. UrlFails []) [S ''sms'']
          (session [] (map (\<lambda>v. var_reply (Some v)) [S ''900'', [], S ''hi'', []])))) = [Some (JObj body)]"
  using incoming_sms_reaches_server [of "[]" ec0 rq_k "S ''900''" "S ''hi''" "[]" "\<lambda>_. []" "\<lambda>_. None" "\<lambda>_. UrlFails []" "[]" "[]" ee0 es0]
    sample_guard by (auto simp: or_default_def)

theorem ring_text_is_lost_witness:
  "\<exists>body resp st'. sms_payload (S ''900'') (S ''RING me'') (S ''gsm'') = JObj body
     \<and> handle_sms_event ec0 ee0 rq_k body es0 = (Inr resp, st') \<and> ev_sent st' = []"
proof -
  have "is_ring (S ''RING me'')" by (simp add: is_ring_def startswith_def S_def)
  from ring_text_is_lost [OF _ sample_guard(1) this, of "[]" "\<lambda>_. UrlOk 200 None []" None "[]" "\<lambda>_. []" "\<lambda>_. None" "S ''900''" "[]" "[]" "[]" ee0 es0]
  show ?thesis
    by (auto simp: sms_session_body [of "[]" _ _ _ _ _ _ _ "[]", simplified] or_default_def es0_def)
qed

end
