(* ===== verification/VoicemailProps.thy ===== *)
theory VoicemailProps
  imports Voicemail AgiProps
begin

text \<open>
  What happens to a recording: which notice is sent for it, when it is deleted and when it is kept,
  what a sweep leaves, and that no field of the notice can forge another.
\<close>

section \<open>Files\<close>

text \<open>The server takes a request.\<close>
definition accepts :: "tools \<Rightarrow> vm_request \<Rightarrow> bool" where
  "accepts tk rq \<longleftrightarrow> (\<exists>code. tl_net tk rq = VmStatus code \<and> success code)"

definition taken :: "http_error + bool \<times> 'a \<Rightarrow> bool" where
  "taken r = (case r of Inl _ \<Rightarrow> False | Inr (ok, _) \<Rightarrow> ok)"

lemma taken_simps [simp]: "taken (Inl e) = False" "taken (Inr (ok, x)) = ok"
  by (simp_all add: taken_def)

text \<open>A computation that makes at most one request, touches no file, and says whether it was taken.\<close>
definition posts_once :: "tools \<Rightarrow> (vm_request \<Rightarrow> bool) \<Rightarrow> vm \<Rightarrow> (http_error + bool \<times> 'a) \<times> vm \<Rightarrow> bool" where
  "posts_once tk P v r \<longleftrightarrow> vm_files (snd r) = vm_files v
     \<and> ((\<exists>rq. vm_posts (snd r) = vm_posts v @ [rq] \<and> P rq \<and> taken (fst r) = accepts tk rq)
        \<or> (vm_posts (snd r) = vm_posts v \<and> \<not> is_ok (fst r)))"

lemma vm_post_once: "P rq \<Longrightarrow> posts_once tk P v (vm_post tk rq v)"
  by (auto simp: posts_once_def vm_post_def Let_def accepts_def split: vm_reply.split)

definition is_form :: "vm_request \<Rightarrow> bool" where
  "is_form rq \<longleftrightarrow> vq_type rq = S ''application/x-www-form-urlencoded''"

lemma with_type_facts [simp]:
  "taken (fst (with_type t r)) = taken (fst r)" "is_ok (fst (with_type t r)) = is_ok (fst r)"
  "snd (with_type t r) = snd r"
  by (cases r; cases "fst r"; auto simp: with_type_def)+

lemma with_type_once: "posts_once tk P v r \<Longrightarrow> posts_once tk P v (with_type t r)"
  by (simp add: posts_once_def)

lemma post_form_once: "posts_once tk is_form v (post_form tk et pairs v)"
proof (cases "encode_fields pairs")
  case (Inl e)
  then show ?thesis by (simp add: post_form_def posts_once_def)
next
  case (Inr bs)
  then show ?thesis by (simp add: post_form_def) (intro vm_post_once, simp add: is_form_def voicemail_request_def)
qed

lemma report_once: "posts_once tk is_form v (report_missing_or_empty tk et rc d t v)"
  unfolding report_missing_or_empty_def by (intro with_type_once post_form_once)

lemma post_multipart_once: "posts_once tk (\<lambda>rq. \<not> is_form rq) v (post_multipart tk et pairs f v)"
proof -
  have "\<not> is_form (voicemail_request et (S ''multipart/form-data; boundary='' @ b) body)" for b body
    by (simp add: is_form_def voicemail_request_def S_def)
  then show ?thesis
    by (auto simp: post_multipart_def Let_def posts_once_def intro!: vm_post_once [unfolded posts_once_def]
        split: sum.split)
qed

text \<open>The converters add temporary files only.\<close>
lemma ffmpeg_files:
  "vm_files v \<subseteq> vm_files (snd (ffmpeg tk i c out seek af v))"
  "vm_files (snd (ffmpeg tk i c out seek af v)) \<subseteq> insert out (vm_files v)"
  "vm_posts (snd (ffmpeg tk i c out seek af v)) = vm_posts v"
  by (auto simp: ffmpeg_def Let_def)

lemma normalize_files:
  assumes "normalize_volume tk path p v = (r, v')"
  shows "vm_files v \<subseteq> vm_files v'" and "vm_files v' \<subseteq> vm_files v \<union> {opus_file path, ogg_file path}"
    and "vm_posts v' = vm_posts v"
proof -
  define filt where "filt = (case measure_loudness tk path p of Inl _ \<Rightarrow> [] | Inr m \<Rightarrow> loudnorm_filter m)"
  define v1 where "v1 = snd (ffmpeg tk path ''libopus'' (opus_file path) p filt v)"
  define v2 where "v2 = snd (ffmpeg tk path ''libvorbis'' (ogg_file path) p filt v1)"
  have "v' \<in> {v, v1, v2}"
    using assms
    by (auto simp: normalize_volume_def Let_def filt_def v1_def v2_def split: sum.splits prod.splits if_splits)
  moreover note ffmpeg_files [where v = v and tk = tk and i = path and c = "''libopus''" and out = "opus_file path" and seek = p
      and af = filt, folded v1_def]
    ffmpeg_files [where v = v1 and tk = tk and i = path and c = "''libvorbis''" and out = "ogg_file path" and seek = p
      and af = filt, folded v2_def]
  ultimately show "vm_files v \<subseteq> vm_files v'" and "vm_files v' \<subseteq> vm_files v \<union> {opus_file path, ogg_file path}"
    and "vm_posts v' = vm_posts v"
    by auto
qed

text \<open>The temporary files are never recordings.\<close>
lemma endswith_append: "length t = length u \<Longrightarrow> endswith (s @ t) u \<longleftrightarrow> t = u"
  by (auto simp: endswith_def)

lemma temps_not_wav [simp]:
  "endswith (opus_file path) (S ''.wav'') = False" "endswith (ogg_file path) (S ''.wav'') = False"
proof -
  have "opus_file path = (temp_base path @ S ''.'') @ S ''opus''" "S ''.opus'' = S ''.'' @ S ''opus''"
    by (simp_all add: opus_file_def S_def)
  moreover have "endswith (x @ S ''opus'') (S ''.wav'') = False" for x by (subst endswith_append) simp_all
  ultimately show "endswith (opus_file path) (S ''.wav'') = False" by metis
  show "endswith (ogg_file path) (S ''.wav'') = False"
    by (simp add: ogg_file_def endswith_append)
qed

lemma temps_not_input [simp]: "opus_file path \<noteq> path" "ogg_file path \<noteq> path"
proof -
  have "f \<noteq> path" if "endswith f (S ''.wav'') = False" and "length (temp_base path) < length f" for f
    using that by (cases "endswith path (S ''.wav'')") (auto simp: temp_base_def)
  moreover have "length (temp_base path) < length (opus_file path)" "length (temp_base path) < length (ogg_file path)"
    by (simp_all add: opus_file_def ogg_file_def)
  ultimately show "opus_file path \<noteq> path" "ogg_file path \<noteq> path"
    using temps_not_wav [of path] by blast+
qed

definition temps :: "str \<Rightarrow> str set" where
  "temps path = {opus_file path, ogg_file path}"

lemma not_temps [simp]: "path \<notin> temps path" "endswith p (S ''.wav'') \<Longrightarrow> p \<notin> temps path"
  unfolding temps_def using temps_not_input [of path] temps_not_wav [of path] by (metis insert_iff singletonD)+

lemma forward_audio_effect:
  assumes "forward_audio tk et rc d t v = (r, v')"
  shows "vm_files v' = vm_files v - temps (rc_path rc)"
    and "(\<exists>rq. vm_posts v' = vm_posts v @ [rq] \<and> \<not> is_form rq \<and> taken r = accepts tk rq)
      \<or> (vm_posts v' = vm_posts v \<and> \<not> is_ok r)"
proof -
  obtain x v1 where n: "normalize_volume tk (rc_path rc) (rc_prompt rc) v = (x, v1)" by (rule prod.exhaust)
  note files = normalize_files [OF n]
  define up where "up = with_type t (post_multipart tk et (event_fields tk rc t d) (case x of Inl _ \<Rightarrow> [] | Inr f \<Rightarrow> f) v1)"
  have up: "posts_once tk (\<lambda>rq. \<not> is_form rq) v1 up"
    unfolding up_def by (intro with_type_once post_multipart_once)
  have "(r, v') = (case x of Inl e \<Rightarrow> (Inl e, remove_temps (rc_path rc) v1)
                   | Inr _ \<Rightarrow> (fst up, remove_temps (rc_path rc) (snd up)))"
    using assms n by (cases x) (auto simp: forward_audio_def up_def case_prod_unfold prod_eq_iff)
  then show "vm_files v' = vm_files v - temps (rc_path rc)"
    and "(\<exists>rq. vm_posts v' = vm_posts v @ [rq] \<and> \<not> is_form rq \<and> taken r = accepts tk rq)
      \<or> (vm_posts v' = vm_posts v \<and> \<not> is_ok r)"
    using up files by (auto simp: posts_once_def remove_temps_def temps_def split: sum.splits)
qed

text \<open>The three notices.\<close>
definition is_audio_notice :: "tools \<Rightarrow> recording \<Rightarrow> vm \<Rightarrow> bool" where
  "is_audio_notice tk rc v \<longleftrightarrow>
     rc_path rc \<in> vm_files v \<and> \<not> float_le (ffprobe_duration tk (rc_path rc)) (Fin 0)
     \<and> classify (ffprobe_duration tk (rc_path rc)) (rc_prompt rc) (rc_early_max rc) = Inr (S ''normal'')"

lemma classify_cases: "classify d p m = Inr t \<Longrightarrow> t = S ''early_hangup'' \<or> t = S ''normal''"
  by (auto simp: classify_def split: sum.splits if_splits)

lemma forward_effect:
  assumes "forward_recording tk et rc v = (r, v')"
  shows "vm_files v' = (if is_audio_notice tk rc v then vm_files v - temps (rc_path rc) else vm_files v)"
    and "(\<exists>rq. vm_posts v' = vm_posts v @ [rq] \<and> is_form rq = (\<not> is_audio_notice tk rc v) \<and> taken r = accepts tk rq)
      \<or> (vm_posts v' = vm_posts v \<and> \<not> is_ok r)"
proof -
  let ?d = "ffprobe_duration tk (rc_path rc)"
  have "vm_files v' = (if is_audio_notice tk rc v then vm_files v - temps (rc_path rc) else vm_files v)
     \<and> ((\<exists>rq. vm_posts v' = vm_posts v @ [rq] \<and> is_form rq = (\<not> is_audio_notice tk rc v) \<and> taken r = accepts tk rq)
      \<or> (vm_posts v' = vm_posts v \<and> \<not> is_ok r))"
  proof (cases "is_audio_notice tk rc v")
    case True
    then have "forward_audio tk et rc ?d (S ''normal'') v = (r, v')"
      using assms by (simp add: is_audio_notice_def forward_recording_def Let_def)
    from forward_audio_effect [OF this] True show ?thesis by simp
  next
    case False
    then have "(\<exists>d t. report_missing_or_empty tk et rc d t v = (r, v')) \<or> (v' = v \<and> \<not> is_ok r)"
      using assms classify_cases [of ?d "rc_prompt rc" "rc_early_max rc"]
      by (auto simp: forward_recording_def is_audio_notice_def Let_def split: if_splits sum.splits)
    then show ?thesis
    proof
      assume "\<exists>d t. report_missing_or_empty tk et rc d t v = (r, v')"
      then obtain d t where "report_missing_or_empty tk et rc d t v = (r, v')" by blast
      with report_once [of tk v et rc d t] show ?thesis using False by (simp add: posts_once_def)
    qed (simp add: False)
  qed
  then show "vm_files v' = (if is_audio_notice tk rc v then vm_files v - temps (rc_path rc) else vm_files v)"
    and "(\<exists>rq. vm_posts v' = vm_posts v @ [rq] \<and> is_form rq = (\<not> is_audio_notice tk rc v) \<and> taken r = accepts tk rq)
      \<or> (vm_posts v' = vm_posts v \<and> \<not> is_ok r)"
    by blast+
qed

section \<open>The wire format of a notice\<close>

text \<open>How a reader of the form decodes it: pairs between ampersands, the key up to the first equals sign,
  plus signs as spaces and percent escapes as bytes.\<close>
definition hex_value :: "nat \<Rightarrow> nat" where
  "hex_value h = (if h < 58 then h - 48 else h - 55)"

fun percent_decode :: "nat list \<Rightarrow> nat list" where
  "percent_decode [] = []"
| "percent_decode (c # cs) =
     (if c = 37 \<and> 2 \<le> length cs
      then (16 * hex_value (cs ! 0) + hex_value (cs ! 1)) # percent_decode (drop 2 cs)
      else (if c = 43 then 32 else c) # percent_decode cs)"

definition form_decode :: "nat list \<Rightarrow> (nat list \<times> nat list) list" where
  "form_decode body =
     map (\<lambda>part. (percent_decode (takeWhile (\<lambda>c. c \<noteq> 61) part),
                    percent_decode (drop 1 (dropWhile (\<lambda>c. c \<noteq> 61) part)))) (split_all 38 body)"

definition bytes :: "nat list \<Rightarrow> bool" where
  "bytes bs \<longleftrightarrow> (\<forall>b \<in> set bs. b < 256)"

lemma bytes_utf8: "utf8 s = Inr bs \<Longrightarrow> bytes bs"
proof -
  have m: "128 + x mod 64 < 256" for x :: nat by (rule less_trans [of _ "128 + 64"]) simp_all
  have "n < 256" if c: "c < 1114112" and n: "n \<in> set (utf8_cp c)" for c n
  proof -
    consider "c < 128" "n = c" | "c < 2048" "n = 192 + c div 64" | "c < 65536" "n = 224 + c div 4096"
      | "n = 240 + c div 262144" | x where "n = 128 + x mod 64"
      using n by (auto simp: utf8_cp_def split: if_splits)
    then show ?thesis
    proof cases
      case 2
      then have "c div 64 < 32" by (simp add: div_less_iff_less_mult)
      with 2 show ?thesis by simp
    next
      case 3
      then have "c div 4096 < 16" by (simp add: div_less_iff_less_mult)
      with 3 show ?thesis by simp
    next
      case 4
      have "c div 262144 < 5" using c by (simp add: div_less_iff_less_mult)
      with 4 show ?thesis by simp
    qed (use m in auto)
  qed
  moreover assume "utf8 s = Inr bs"
  then have "encodable s" and "bs = concat (map utf8_cp s)" by (auto simp: utf8_def split: if_splits)
  moreover from this(1) have "\<forall>c \<in> set s. c < 1114112" by (auto simp: encodable_def list_all_iff)
  ultimately show "bytes bs" unfolding bytes_def by auto
qed

lemma hex_value_digit: "n < 16 \<Longrightarrow> hex_value (hex_upper n) = n"
  by (auto simp: hex_value_def hex_upper_def)

lemma decode_quote_byte: "b < 256 \<Longrightarrow> percent_decode (quote_byte b @ rest) = b # percent_decode rest"
proof -
  assume "b < 256"
  then have "b div 16 < 16" by (simp add: div_less_iff_less_mult)
  then show ?thesis by (simp add: quote_byte_def unreserved_def hex_value_digit)
qed

lemma decode_quote: "bytes bs \<Longrightarrow> percent_decode (quote_plus bs) = bs"
  by (induction bs) (simp_all add: quote_plus_def bytes_def decode_quote_byte)

lemma quote_no_separator:
  assumes "bytes bs"
  shows "38 \<notin> set (quote_plus bs)" and "61 \<notin> set (quote_plus bs)"
proof -
  have "38 \<notin> set (quote_byte b) \<and> 61 \<notin> set (quote_byte b)" for b
    by (auto simp: quote_byte_def unreserved_def hex_upper_def)
  then show "38 \<notin> set (quote_plus bs)" and "61 \<notin> set (quote_plus bs)" by (auto simp: quote_plus_def)
qed

lemma split_all_append: "c \<notin> set x \<Longrightarrow> split_all c (x @ c # y) = x # split_all c y"
  by (induction x) auto

lemma split_join: "parts \<noteq> [] \<Longrightarrow> \<forall>p \<in> set parts. c \<notin> set p \<Longrightarrow> split_all c (join_bytes c parts) = parts"
  by (induction c parts rule: join_bytes.induct) (auto simp: split_all_whole split_all_append)

lemma form_decode_urlencode:
  assumes "pairs \<noteq> []" and "\<forall>(k, v) \<in> set pairs. bytes k \<and> bytes v"
  shows "form_decode (urlencode pairs) = pairs"
proof -
  let ?part = "\<lambda>(k, v). quote_plus k @ [61] @ quote_plus v"
  have "split_all 38 (urlencode pairs) = map ?part pairs"
    unfolding urlencode_def using assms quote_no_separator by (intro split_join) auto
  moreover have "takeWhile (\<lambda>c. c \<noteq> 61) (?part (k, v)) = quote_plus k"
    "drop 1 (dropWhile (\<lambda>c. c \<noteq> 61) (?part (k, v))) = quote_plus v" if "(k, v) \<in> set pairs" for k v
    using that assms(2) quote_no_separator(2) [of k] by (auto simp: takeWhile_append dropWhile_append)
  ultimately show ?thesis
    using assms(2) decode_quote unfolding form_decode_def by (force intro!: map_idI simp: o_def)
qed

lemma encode_fields_bytes: "encode_fields pairs = Inr bs \<Longrightarrow> \<forall>(k, v) \<in> set bs. bytes k \<and> bytes v"
proof (induction pairs arbitrary: bs)
  case (Cons kv pairs)
  obtain k v where kv: "kv = (k, v)" by (rule prod.exhaust)
  with Cons.prems obtain k' v' r where "utf8 k = Inr k'" "utf8 v = Inr v'" "encode_fields pairs = Inr r"
    "bs = (k', v') # r"
    by (auto split: sum.splits) (auto simp: map_sum_def split: sum.splits)
  with Cons.IH show ?case using bytes_utf8 by auto
qed simp

text \<open>What the hangup handler does with a recording.\<close>
lemma voice_agi_forwards:
  assumes "fst (agi_get_variable ''VMFILE'' (snd (read_agi_env io))) = path" and "path \<noteq> []"
    and "voice_agi tk environ True io v = (io', v')"
  shows "\<exists>et rc r v1. forward_recording tk et rc v = (r, v1) \<and> rc_path rc = path
     \<and> v' = (if taken r then cleanup_recording path v1 else v1)"
proof -
  obtain env io1 where 1: "read_agi_env io = (env, io1)" by (rule prod.exhaust)
  obtain io2 where 2: "agi_get_variable ''VMFILE'' io1 = (path, io2)" using assms(1) 1 by (metis prod.collapse snd_conv)
  obtain caller io3 where 3: "agi_get_variable ''CALLER'' io2 = (caller, io3)" by (rule prod.exhaust)
  obtain url io4 where 4: "agi_get_variable ''FWD_URL'' io3 = (url, io4)" by (rule prod.exhaust)
  obtain eh_max io5 where 5: "agi_get_variable ''EH_MAX'' io4 = (eh_max, io5)" by (rule prod.exhaust)
  obtain prompt io6 where 6: "agi_get_variable ''VM_PROMPT_DURATION'' io5 = (prompt, io6)" by (rule prod.exhaust)
  define et where "et = \<lparr>et_url = or_default url ''http://127.0.0.1:8088'',
    et_secret = environ_or environ ''SIMBRIDGE_HTTP_SECRET''\<rparr>"
  define rc where "rc = \<lparr>rc_path = path, rc_caller = or_default caller ''unknown'',
    rc_correlation = (case dget env (S ''agi_uniqueid'') of None \<Rightarrow> [] | Some i \<Rightarrow> i),
    rc_early_max = early_max_of eh_max, rc_prompt = prompt_of prompt\<rparr>"
  obtain r v1 where f: "forward_recording tk et rc v = (r, v1)" by (rule prod.exhaust)
  then have "v' = (if taken r then cleanup_recording path v1 else v1)"
    using assms(2,3) 1 2 3 4 5 6 by (auto simp: voice_agi_def et_def rc_def split: sum.splits if_splits)
  then show ?thesis using f by (intro exI [of _ et] exI [of _ rc] exI [of _ r] exI [of _ v1]) (simp add: rc_def)
qed

section \<open>Properties\<close>

text \<open>C4: a recording is deleted exactly when the server has taken it. The hangup handler makes at most
  one request; it removes the recording exactly when that request is answered with success, in
  every other case, exceptions included, the recording stays for the sweep; and no file but the
  recording and its two temporary files is ever removed or left behind.\<close>
theorem recording_kept_until_accepted:
  assumes "fst (agi_get_variable ''VMFILE'' (snd (read_agi_env io))) = path" and "path \<noteq> []"
    and "path \<in> vm_files v" and "voice_agi tk environ loads io v = (io', v')"
  shows "(path \<notin> vm_files v' \<longleftrightarrow> (\<exists>rq. vm_posts v' = vm_posts v @ [rq] \<and> accepts tk rq))
     \<and> vm_files v' \<subseteq> vm_files v \<and> vm_files v - insert path (temps path) \<subseteq> vm_files v'"
proof (cases loads)
  case False
  then show ?thesis using assms by (auto simp: voice_agi_def Let_def case_prod_unfold)
next
  case True
  then obtain et rc r v1 where f: "forward_recording tk et rc v = (r, v1)" and rc: "rc_path rc = path"
    and v': "v' = (if taken r then cleanup_recording path v1 else v1)"
    using voice_agi_forwards [OF assms(1,2), of tk environ v io' v'] assms(4) by auto
  note effect = forward_effect [OF f, unfolded rc]
  have "taken r \<Longrightarrow> is_ok r" by (cases r) auto
  with effect(2) have "taken r \<longleftrightarrow> (\<exists>rq. vm_posts v1 = vm_posts v @ [rq] \<and> accepts tk rq)" by auto
  moreover have "path \<in> vm_files v1" using effect(1) assms(3) by auto
  moreover have "vm_files v1 \<subseteq> vm_files v" "vm_files v - temps path \<subseteq> vm_files v1"
    using effect(1) by (auto split: if_splits)
  ultimately show ?thesis unfolding v' by (auto simp: cleanup_recording_def)
qed

text \<open>Which notice a recording gets. With a measured duration and a known greeting, the notice is
  "recording_missing" without a file, "normal" with the audio exactly when the caller spoke at
  least the configured time beyond the greeting, and "early_hangup" without audio otherwise.\<close>
theorem notice_type_exact:
  assumes "ffprobe_duration tk (rc_path rc) = Fin d" and "rc_prompt rc = Fin p" and "0 \<le> p" and "0 < rc_early_max rc"
    and "forward_recording tk et rc v = (Inr (ok, detail, t), v')"
  shows "t = (if rc_path rc \<notin> vm_files v then S ''recording_missing''
              else if d < p + of_int (rc_early_max rc) then S ''early_hangup'' else S ''normal'')
     \<and> (\<exists>rq. vm_posts v' = vm_posts v @ [rq] \<and> ok = accepts tk rq \<and> (is_form rq \<longleftrightarrow> t \<noteq> S ''normal''))"
proof -
  have type: "with_type k x = (Inr (ok, detail, t), v') \<Longrightarrow> t = k" for k x
    by (auto simp: with_type_def map_sum_def split: prod.splits sum.splits)
  have audio: "forward_audio tk et rc x k v = (Inr (ok, detail, t), v') \<Longrightarrow> t = k" for x k
    by (auto simp: forward_audio_def with_type_def map_sum_def split: prod.splits sum.splits)
  have early: "classify (Fin d) (Fin p) (rc_early_max rc) = Inr (S ''normal'') \<longleftrightarrow> p + of_int (rc_early_max rc) \<le> d"
    using truncate_less_iff [OF assms(4), of "d - p"] by (auto simp: classify_def)
  have pos: "(0::rat) < p + of_int (rc_early_max rc)" using assms(3,4) by (simp add: add_nonneg_pos)
  have notice: "is_audio_notice tk rc v \<longleftrightarrow> rc_path rc \<in> vm_files v \<and> p + of_int (rc_early_max rc) \<le> d"
    using assms(1,2) early pos by (auto simp: is_audio_notice_def float_le_def)
  have "t = (if rc_path rc \<notin> vm_files v then S ''recording_missing''
              else if d < p + of_int (rc_early_max rc) then S ''early_hangup'' else S ''normal'')"
    using assms(1,2,5) early pos
    by (auto simp: forward_recording_def Let_def float_le_def report_missing_or_empty_def classify_def
        dest!: type audio split: if_splits sum.splits)
  then show ?thesis using forward_effect(2) [OF assms(5)] notice by (auto split: if_splits)
qed

text \<open>A notice cannot be forged by the values in it. Whatever the caller's number and the ids contain
  (ampersands, equals signs, percent signs, line breaks), a reader of the posted form gets exactly
  the fields that were written, in order.\<close>
theorem notice_round_trip:
  assumes "post_form tk et pairs v = (r, v')" and "pairs \<noteq> []"
  shows "(\<exists>rq bs. encode_fields pairs = Inr bs \<and> vm_posts v' = vm_posts v @ [rq] \<and> form_decode (vq_body rq) = bs)
     \<or> (v' = v \<and> \<not> is_ok r \<and> \<not> is_ok (encode_fields pairs))"
proof (cases "encode_fields pairs")
  case (Inl e)
  then show ?thesis using assms(1) by (auto simp: post_form_def)
next
  case (Inr bs)
  have "length bs = length pairs"
    using Inr by (induction pairs arbitrary: bs) (auto simp: map_sum_def split: sum.splits)
  then have "bs \<noteq> []" using assms(2) by auto
  then have "form_decode (urlencode bs) = bs" using encode_fields_bytes [OF Inr] by (rule form_decode_urlencode)
  then show ?thesis
    using assms(1) Inr by (auto simp: post_form_def vm_post_def voicemail_request_def Let_def split: vm_reply.splits)
qed

text \<open>Which entries of the directory a sweep handles, and which it deletes unsent.\<close>
definition overdue :: "sweep_settings \<Rightarrow> (str \<Rightarrow> rat option) \<Rightarrow> str \<Rightarrow> bool" where
  "overdue sw age name \<longleftrightarrow> endswith name (S ''.wav'')
     \<and> (case age (path_join (sw_dir sw) name) of None \<Rightarrow> False | Some a \<Rightarrow> of_int (sw_max_age sw) \<le> a)"

definition expired_recording :: "sweep_settings \<Rightarrow> (str \<Rightarrow> rat option) \<Rightarrow> str \<Rightarrow> bool" where
  "expired_recording sw age name \<longleftrightarrow> overdue sw age name
     \<and> (case age (path_join (sw_dir sw) name) of None \<Rightarrow> False | Some a \<Rightarrow> of_int (sw_max_retain sw) \<le> a)"

lemma sweep_entry_effect:
  assumes "sweep_entry tk sw age name v = (Inr n, v')" and "\<forall>rq. accepts tk rq \<longleftrightarrow> up" and "endswith p (S ''.wav'')"
  shows "p \<in> vm_files v' \<longleftrightarrow> p \<in> vm_files v
    \<and> \<not> (p = path_join (sw_dir sw) name \<and> overdue sw age name \<and> (up \<or> expired_recording sw age name))"
proof (cases "overdue sw age name \<and> \<not> expired_recording sw age name")
  case True
  obtain r v1 where f: "forward_recording tk (sw_target sw) (sweep_recording sw name) v = (r, v1)" by (rule prod.exhaust)
  have v': "is_ok r" "v' = (if taken r then cleanup_recording (path_join (sw_dir sw) name) v1 else v1)"
    using True assms(1) f
    by (auto simp: sweep_entry_def Let_def overdue_def expired_recording_def split: option.splits sum.splits if_splits)
  note effect = forward_effect [OF f]
  have "p \<in> vm_files v1 \<longleftrightarrow> p \<in> vm_files v" using effect(1) assms(3) by auto
  moreover have "taken r = up" using effect(2) v'(1) assms(2) by auto
  ultimately show ?thesis using True v'(2) by (auto simp: cleanup_recording_def)
next
  case False
  then show ?thesis
    using assms(1)
    by (auto simp: sweep_entry_def Let_def overdue_def expired_recording_def cleanup_recording_def
        split: option.splits if_splits)
qed

lemma sweep_entries_effect:
  assumes "sweep_entries tk sw age names v = (Inr n, v')" and "\<forall>rq. accepts tk rq \<longleftrightarrow> up" and "endswith p (S ''.wav'')"
  shows "p \<in> vm_files v' \<longleftrightarrow> p \<in> vm_files v
    \<and> \<not> (\<exists>name \<in> set names. p = path_join (sw_dir sw) name \<and> overdue sw age name \<and> (up \<or> expired_recording sw age name))"
  using assms(1)
proof (induction names arbitrary: v n)
  case (Cons name names)
  then obtain k v1 m where 1: "sweep_entry tk sw age name v = (Inr k, v1)" "sweep_entries tk sw age names v1 = (Inr m, v')"
    by (auto split: prod.splits sum.splits)
  from sweep_entry_effect [OF 1(1) assms(2,3)] Cons.IH [OF 1(2)] show ?case by auto
qed simp

text \<open>What a sweep leaves. A sweep that comes to its end, over any directory, with a server that takes
  either every notice or none, has removed exactly the recordings older than the retention and, if
  the server is up, those older than the minimum age; every other recording is still there.\<close>
theorem sweep_exact:
  assumes "sweep_settings_of tk py_repr environ cfg = Inr sw" and "listing (sw_dir sw) = Some names"
    and "sweep_main tk py_repr environ (Inr cfg) listing age v = (Inr code, v')"
    and "\<forall>rq. accepts tk rq \<longleftrightarrow> up" and "endswith p (S ''.wav'')"
  shows "p \<in> vm_files v' \<longleftrightarrow> p \<in> vm_files v
    \<and> \<not> (\<exists>name \<in> set names. p = path_join (sw_dir sw) name \<and> overdue sw age name \<and> (up \<or> expired_recording sw age name))"
proof -
  obtain n where "sweep_entries tk sw age (sort names) v = (Inr n, v')"
    using assms(1-3) by (auto simp: sweep_main_def split: prod.splits sum.splits)
  from sweep_entries_effect [OF this assms(4,5)] show ?thesis by simp
qed

text \<open>C39: a voicemail nobody got is deleted. When every message to Telegram fails, the event server still
  answers a voicemail notice with success, listing no recipient; a forwarder that reads that answer
  deletes the recording, so that no later sweep can deliver it.\<close>
theorem undelivered_voicemail_deleted:
  assumes "events_guard ec r = Inr ()"
    and "form_content (case header_get r ''content-type'' of None \<Rightarrow> [] | Some c \<Rightarrow> c)"
    and "ec_client ec = Some c" and "\<forall>u m. \<not> tc_send c u m"
    and "\<forall>rq. tl_net tk rq = VmStatus (if is_ok (fst (handle_voicemail_event ec ee r True vf st)) then 200 else 500)"
    and "fst (agi_get_variable ''VMFILE'' (snd (read_agi_env io))) = path" and "path \<noteq> []"
    and "path \<in> vm_files v" and "voice_agi tk environ True io v = (io', v')" and "vm_posts v' \<noteq> vm_posts v"
  shows "\<exists>resp st'. handle_voicemail_event ec ee r True vf st = (Inr resp, st') \<and> vr_delivered resp = []
     \<and> ev_sent st' = ev_sent st \<and> path \<notin> vm_files v'"
proof -
  have none: "fst (deliver_voicemail ec ee (Some c) t n a us s) = []
      \<and> ev_sent (snd (snd (deliver_voicemail ec ee (Some c) t n a us s))) = ev_sent s" for t n a us s
    using assms(4) by (induction us arbitrary: s) (auto simp: Let_def case_prod_unfold event_name_frame)
  obtain resp st' where h: "handle_voicemail_event ec ee r True vf st = (Inr resp, st')"
    and silent: "vr_delivered resp = []" "ev_sent st' = ev_sent st"
    using assms(1-3) none
    by (auto simp: handle_voicemail_event_def guarded_def voicemail_event_def Let_def case_prod_unfold events_log_def)
  obtain et rc x v1 where f: "forward_recording tk et rc v = (x, v1)" "rc_path rc = path"
    and v': "v' = (if taken x then cleanup_recording path v1 else v1)"
    using voice_agi_forwards [OF assms(6,7,9)] by blast
  have "accepts tk rq" for rq using assms(5) h by (simp add: accepts_def success_def)
  moreover have "vm_posts v1 \<noteq> vm_posts v" using v' assms(10) by (auto simp: cleanup_recording_def split: if_splits)
  ultimately have "taken x" using forward_effect(2) [OF f(1)] by auto
  then show ?thesis using h silent v' by (auto simp: cleanup_recording_def)
qed

section \<open>Samples\<close>

text \<open>A probe that measures ten seconds, a converter that fails, and a server that answers with a fixed code.\<close>
definition sample_tools :: "nat \<Rightarrow> tools" where
  "sample_tools code =
     \<lparr>tl_run = (\<lambda>cmd. if hd cmd = S ''ffprobe'' then Proc 0 (S ''10'') [] else ProcRaises), tl_writes = (\<lambda>_. False),
      tl_content = (\<lambda>_. [1, 2]), tl_json = (\<lambda>_. None), tl_repr = (\<lambda>_. S ''10.0''), tl_net = (\<lambda>_. VmStatus code),
      tl_boundary = S ''b''\<rparr>"

definition sample_vm :: vm where
  "sample_vm = \<lparr>vm_files = {S ''a.wav''}, vm_posts = []\<rparr>"

definition sample_voice :: agi where
  "sample_voice = session [] [var_reply (Some (S ''a.wav'')), var_reply None, var_reply None, var_reply None, var_reply None]"

lemma sample_vmfile: "fst (agi_get_variable ''VMFILE'' (snd (read_agi_env sample_voice))) = S ''a.wav''"
  by (simp add: sample_voice_def read_session value_or_empty_def)

lemma sample_duration: "ffprobe_duration (sample_tools code) path = Fin 10"
proof -
  have "strip (S ''10'') = S ''10''" by (simp add: S_def strip_def lstrip_def rstrip_def is_space_def space_points_def)
  moreover have "float_of (S ''10'') = Some (Fin 10)"
    by (simp add: float_of_def calculation) (simp add: S_def unsigned_float_def lower_def lower_cp_def
        float_mantissa_def digit_run_def digit_value_def decimal_blocks_def)
  ultimately show ?thesis by (simp add: ffprobe_duration_def sample_tools_def Let_def)
qed

lemma sample_accepts: "accepts (sample_tools code) rq \<longleftrightarrow> success code"
  by (simp add: accepts_def sample_tools_def)

lemma sample_utf8: "list_all (\<lambda>c. c < 128) s \<Longrightarrow> utf8 s = Inr s"
proof -
  assume "list_all (\<lambda>c. c < 128) s"
  then have "encodable s \<and> concat (map utf8_cp s) = s" by (induction s) (auto simp: encodable_def utf8_cp_def)
  then show ?thesis by (simp add: utf8_def)
qed

theorem recording_kept_until_accepted_witness:
  "\<exists>io' v'. voice_agi (sample_tools 503) (\<lambda>_. None) True sample_voice sample_vm = (io', v') \<and> S ''a.wav'' \<in> vm_files v'"
proof -
  obtain io' v' where a: "voice_agi (sample_tools 503) (\<lambda>_. None) True sample_voice sample_vm = (io', v')"
    by (rule prod.exhaust)
  have "S ''a.wav'' \<in> vm_files sample_vm" by (simp add: sample_vm_def)
  from recording_kept_until_accepted [OF sample_vmfile _ this a] show ?thesis
    using a by (auto simp: sample_accepts success_def)
qed

theorem notice_type_exact_witness:
  "\<exists>ok detail v'. forward_recording (sample_tools 200) \<lparr>et_url = [], et_secret = []\<rparr>
     \<lparr>rc_path = S ''a.wav'', rc_caller = S ''900'', rc_correlation = S ''c'', rc_early_max = 3, rc_prompt = Fin 8\<rparr> sample_vm
     = (Inr (ok, detail, S ''early_hangup''), v')"
proof -
  let ?et = "\<lparr>et_url = [], et_secret = []\<rparr>"
  let ?rc = "\<lparr>rc_path = S ''a.wav'', rc_caller = S ''900'', rc_correlation = S ''c'', rc_early_max = 3, rc_prompt = Fin 8\<rparr>"
  have ascii: "utf8 (S ''900'') = Inr (S ''900'')" "utf8 (S ''c'') = Inr (S ''c'')" "utf8 (S ''10.0'') = Inr (S ''10.0'')"
    "utf8 (S ''phone_number'') = Inr (S ''phone_number'')" "utf8 (S ''voicemail_type'') = Inr (S ''voicemail_type'')"
    "utf8 (S ''correlation_id'') = Inr (S ''correlation_id'')" "utf8 (S ''duration'') = Inr (S ''duration'')"
    "utf8 (S ''early_hangup'') = Inr (S ''early_hangup'')"
    by (simp_all add: sample_utf8 S_def)
  have "is_ok (fst (forward_recording (sample_tools 200) ?et ?rc sample_vm))"
    by (simp add: forward_recording_def sample_vm_def sample_duration float_le_def classify_def truncate_rat_def
        report_missing_or_empty_def post_form_def event_fields_def ascii vm_post_def Let_def)
      (simp add: sample_tools_def ascii vm_post_def Let_def)
  then obtain ok detail t v' where f: "forward_recording (sample_tools 200) ?et ?rc sample_vm = (Inr (ok, detail, t), v')"
    by (cases "forward_recording (sample_tools 200) ?et ?rc sample_vm") (auto simp: is_ok_iff)
  from notice_type_exact [OF _ _ _ _ f, of 10 8] have "t = S ''early_hangup''"
    by (simp add: sample_duration sample_vm_def)
  with f show ?thesis by blast
qed

theorem notice_round_trip_witness:
  "\<exists>rq. vm_posts (snd (post_form (sample_tools 200) \<lparr>et_url = [], et_secret = []\<rparr>
       [(S ''phone_number'', S ''1&voicemail_type=normal'')] sample_vm)) = [rq]
     \<and> form_decode (vq_body rq) = [(S ''phone_number'', S ''1&voicemail_type=normal'')]"
proof -
  have ascii: "encode_fields [(S ''phone_number'', S ''1&voicemail_type=normal'')]
      = Inr [(S ''phone_number'', S ''1&voicemail_type=normal'')]"
    by (simp add: sample_utf8 S_def)
  obtain r v' where p: "post_form (sample_tools 200) \<lparr>et_url = [], et_secret = []\<rparr>
       [(S ''phone_number'', S ''1&voicemail_type=normal'')] sample_vm = (r, v')" by (rule prod.exhaust)
  from notice_round_trip [OF p] ascii p show ?thesis by (auto simp: sample_vm_def)
qed

theorem sweep_exact_witness:
  "\<exists>code v'. sweep_main (sample_tools 503) (\<lambda>_. []) (\<lambda>_. None) (Inr []) (\<lambda>_. Some [S ''a.wav'']) (\<lambda>_. Some 700000)
       \<lparr>vm_files = {S ''/var/lib/simbridge/recordings/a.wav''}, vm_posts = []\<rparr> = (Inr code, v')
     \<and> S ''/var/lib/simbridge/recordings/a.wav'' \<notin> vm_files v'"
proof -
  let ?dir = "S ''/var/lib/simbridge/recordings''" and ?p = "S ''/var/lib/simbridge/recordings/a.wav''"
  let ?v = "\<lparr>vm_files = {?p}, vm_posts = []\<rparr>"
  have empty: "cfg_get [] key d = d" for key d by (simp add: cfg_get_def cfg_item.simps split: option.split)
  obtain sw where sw: "sweep_settings_of (sample_tools 503) (\<lambda>_. []) (\<lambda>_. None) [] = Inr sw"
    "sw_dir sw = ?dir" "sw_max_age sw = 300" "sw_max_retain sw = 604800"
    by (simp add: sweep_settings_of_def empty resolve_userbot_url_def get_or_def)
  have path: "path_join ?dir (S ''a.wav'') = ?p" and wav: "endswith ?p (S ''.wav'')" "endswith (S ''a.wav'') (S ''.wav'')"
    by (simp_all add: path_join_def endswith_def S_def)
  obtain v' where m: "sweep_main (sample_tools 503) (\<lambda>_. []) (\<lambda>_. None) (Inr []) (\<lambda>_. Some [S ''a.wav'']) (\<lambda>_. Some 700000) ?v
      = (Inr 0, v')"
    using sw by (simp add: sweep_main_def sweep_entry_def path wav Let_def)
  have "S ''a.wav'' \<in> set [S ''a.wav'']" by simp
  with sweep_exact [OF sw(1) _ m, of "[S ''a.wav'']" False ?p] m sw path wav show ?thesis
    by (auto simp: sample_accepts success_def overdue_def expired_recording_def)
qed

lemma sample_upload:
  assumes "rc_path rc = S ''a.wav''" and "rc_prompt rc = Fin 0" and "rc_early_max rc = 3" and "rc_caller rc = S ''unknown''"
    and "rc_correlation rc = []"
  shows "is_ok (fst (forward_recording (sample_tools 200) et rc sample_vm))"
proof -
  let ?b = "S ''----simbridge'' @ S ''b''"
  have 1: "utf8 (concat (map (field_part ?b) (event_fields (sample_tools 200) rc (S ''normal'') (Fin 10))))
      = Inr (concat (map (field_part ?b) (event_fields (sample_tools 200) rc (S ''normal'') (Fin 10))))"
    by (intro sample_utf8) (simp add: event_fields_def assms(4,5) sample_tools_def field_part_def part_header_def EOL_def S_def)
  have 2: "utf8 (file_part ?b (S ''a.wav'')) = Inr (file_part ?b (S ''a.wav''))"
    "utf8 (S ''--'' @ ?b @ S ''--'' @ EOL) = Inr (S ''--'' @ ?b @ S ''--'' @ EOL)"
    by (intro sample_utf8; simp add: file_part_def part_header_def basename_def EOL_def S_def)+
  have "normalize_volume (sample_tools 200) (S ''a.wav'') (Fin 0) sample_vm = (Inr (S ''a.wav''), sample_vm)"
    by (simp add: normalize_volume_def measure_loudness_def ffmpeg_def sample_tools_def Let_def)
  then show ?thesis
    using assms(1-3) 1 2
    by (simp add: forward_recording_def sample_duration float_le_def classify_def truncate_rat_def forward_audio_def)
      (simp add: sample_vm_def post_multipart_def multipart_body_def sample_tools_def vm_post_def Let_def with_type_def)
qed

lemma sample_voice_posts:
  assumes "voice_agi (sample_tools 200) (\<lambda>_. None) True sample_voice sample_vm = (io', v')"
  shows "vm_posts v' \<noteq> vm_posts sample_vm"
proof -
  let ?et = "\<lparr>et_url = S ''http://127.0.0.1:8088'', et_secret = []\<rparr>"
  let ?rc = "\<lparr>rc_path = S ''a.wav'', rc_caller = S ''unknown'', rc_correlation = [], rc_early_max = 3, rc_prompt = Fin 0\<rparr>"
  obtain r v1 where f: "forward_recording (sample_tools 200) ?et ?rc sample_vm = (r, v1)" by (rule prod.exhaust)
  have "is_ok r" using sample_upload [of ?rc ?et] f by simp
  then have new: "vm_posts v1 \<noteq> vm_posts sample_vm" and ok: "taken r" "\<exists>d t. r = Inr (True, d, t)"
    using forward_effect(2) [OF f] by (auto simp: sample_accepts success_def is_ok_iff)
  have "read_agi_env sample_voice = ([], \<lparr>io_in = [var_reply (Some (S ''a.wav'')), var_reply None, var_reply None,
      var_reply None, var_reply None], io_out = []\<rparr>)"
    by (simp add: read_agi_env_def sample_voice_def session_def env_block_def rstrip_crlf_def)
  then have "v' = cleanup_recording (S ''a.wav'') v1"
    using assms f ok
    by (auto simp: voice_agi_def value_or_empty_def or_default_def environ_or_def early_max_of_def prompt_of_def)
  with new show ?thesis by (simp add: cleanup_recording_def)
qed

theorem undelivered_voicemail_deleted_witness:
  "\<exists>ec resp st' io' v'. handle_voicemail_event ec ee0 rq_form True vf0 es0 = (Inr resp, st') \<and> vr_delivered resp = []
     \<and> voice_agi (sample_tools 200) (\<lambda>_. None) True sample_voice sample_vm = (io', v') \<and> S ''a.wav'' \<notin> vm_files v'"
proof -
  let ?c = "tg0\<lparr>tc_send := \<lambda>_ _. False\<rparr>"
  let ?ec = "ec0\<lparr>ec_client := Some ?c\<rparr>"
  have guard: "events_guard ?ec rq_form = Inr ()" 
    by (simp add: events_guard_def ec0_def rq_form_def header_get_def compare_digest_def ascii_def S_def)
  have ok: "is_ok (fst (handle_voicemail_event ?ec ee0 rq_form True vf0 es0))"
    using rq_form_content
    by (simp add: handle_voicemail_event_def guarded_def guard voicemail_event_def Let_def case_prod_unfold vf0_def form_get_def)
  obtain io' v' where a: "voice_agi (sample_tools 200) (\<lambda>_. None) True sample_voice sample_vm = (io', v')"
    by (rule prod.exhaust)
  have posts: "vm_posts v' \<noteq> vm_posts sample_vm" using a by (rule sample_voice_posts)
  have "S ''a.wav'' \<in> vm_files sample_vm" by (simp add: sample_vm_def)
  from undelivered_voicemail_deleted [OF guard rq_form_content _ _ _ sample_vmfile _ this a posts, where c = ?c and vf = vf0 and ee = ee0 and st = es0] ok a
  show ?thesis by (auto simp: sample_tools_def)
qed

end
