(* ===== verification/ModemProfile.thy ===== *)
theory ModemProfile
  imports Config "HOL-Library.List_Lexorder"
begin

text \<open>
  \<open>scripts/modem_profile.py\<close>: the profiles of USB modems, the files rendered from the active one, and the
  switch from one modem to another.

  A profile is the dictionary its YAML file holds (\<open>yaml.safe_load\<close> is the argument \<open>parse\<close>, \<open>None\<close>
  for a text that is no YAML). The disk is the text of every file the script touches; commands of the
  shell are constructors and their outcomes a function of the commands run before. What the script
  prints is left out, and so are failures of the file system.
\<close>

section \<open>Errors\<close>

datatype profile_issue =
    RequiredText str
  | AlsadevType
  | AudioRequired
  | VoiceExclusive
  | AlsadevSpace
  | NameForm
  | VidPidForm
  | VerifiedType
  | UdevType
  | EntryType nat
  | EntryIface nat
  | EntrySymlink nat

datatype profile_error =
    BadProfileName
  | NotAMapping
  | InvalidProfile "profile_issue list"
  | NoSuchProfile
  | ProfileExists
  | NotVerified
  | NoVidPid
  | EmptyUdev
  | KeyNotFound str str
  | NoActiveProfile
  | NothingToCapture
  | NoDevices
  | NoDataPort
  | NoVoicePath
  | Crashed str

type_synonym profile = "(str \<times> json) list"

section \<open>Profiles\<close>

text \<open>\<open>[a-z0-9][a-z0-9-]*\<close>\<close>
definition name_form :: "str \<Rightarrow> bool" where
  "name_form s \<longleftrightarrow>
     (case s of
        [] \<Rightarrow> False
      | c # cs \<Rightarrow> (97 \<le> c \<and> c \<le> 122 \<or> 48 \<le> c \<and> c \<le> 57)
          \<and> list_all (\<lambda>c. 97 \<le> c \<and> c \<le> 122 \<or> 48 \<le> c \<and> c \<le> 57 \<or> c = 45) cs)"

definition is_hex :: "cp \<Rightarrow> bool" where
  "is_hex c \<longleftrightarrow> 48 \<le> c \<and> c \<le> 57 \<or> 97 \<le> c \<and> c \<le> 102 \<or> 65 \<le> c \<and> c \<le> 70"

text \<open>\<open>[0-9a-fA-F]{4}:[0-9a-fA-F]{4}\<close>\<close>
definition vid_pid_form :: "str \<Rightarrow> bool" where
  "vid_pid_form s \<longleftrightarrow>
     length s = 9 \<and> list_all is_hex (take 4 s) \<and> s ! 4 = 58 \<and> list_all is_hex (drop 5 s)"

text \<open>\<open>\d{2}\<close>\<close>
definition two_digits :: "str \<Rightarrow> bool" where
  "two_digits s \<longleftrightarrow> length s = 2 \<and> list_all is_decimal s"

definition text_field :: "profile \<Rightarrow> string \<Rightarrow> str" where
  "text_field p key = (case dget p (S key) of Some (JStr s) \<Rightarrow> s | _ \<Rightarrow> [])"

text \<open>\<open>str(p.get(key, ""))\<close>\<close>
definition shown_field :: "(json \<Rightarrow> str) \<Rightarrow> profile \<Rightarrow> string \<Rightarrow> str" where
  "shown_field py_repr p key = (case dget p (S key) of None \<Rightarrow> [] | Some v \<Rightarrow> py_str py_repr v)"

definition has_value :: "profile \<Rightarrow> string \<Rightarrow> bool" where
  "has_value p key \<longleftrightarrow> (case dget p (S key) of None \<Rightarrow> False | Some v \<Rightarrow> truthy v)"

definition entry_issues :: "(json \<Rightarrow> str) \<Rightarrow> nat \<Rightarrow> json \<Rightarrow> profile_issue list" where
  "entry_issues py_repr i e =
     (case e of
        JObj d \<Rightarrow>
          (if two_digits (shown_field py_repr d ''iface'') then [] else [EntryIface i])
          @ (if text_field d ''symlink'' = [] then [EntrySymlink i] else [])
      | _ \<Rightarrow> [EntryType i])"

definition voice_issues :: "profile \<Rightarrow> profile_issue list" where
  "voice_issues p =
     (let audio = text_field p ''audio_device''; alsadev = text_field p ''alsadev''
      in (case dget p (S ''alsadev'') of
            None \<Rightarrow> [] | Some JNull \<Rightarrow> [] | Some (JStr _) \<Rightarrow> [] | Some _ \<Rightarrow> [AlsadevType])
         @ (if strip audio = [] then (if alsadev = [] then [AudioRequired] else [])
            else if alsadev \<noteq> [] then [VoiceExclusive] else [])
         @ (if list_ex is_space alsadev then [AlsadevSpace] else []))"

definition validate_profile :: "(json \<Rightarrow> str) \<Rightarrow> profile \<Rightarrow> profile_issue list" where
  "validate_profile py_repr p =
     concat (map (\<lambda>k. if strip (text_field p k) = [] then [RequiredText (S k)] else [])
       [''name'', ''modem_model'', ''dongle_name'', ''data_device''])
     @ voice_issues p
     @ (if text_field p ''name'' \<noteq> [] \<and> \<not> name_form (text_field p ''name'') then [NameForm] else [])
     @ (if has_value p ''vid_pid'' \<and> \<not> vid_pid_form (shown_field py_repr p ''vid_pid'') then [VidPidForm] else [])
     @ (case dget p (S ''verified'') of Some (JBool _) \<Rightarrow> [] | _ \<Rightarrow> [VerifiedType])
     @ (case dget p (S ''udev'') of
          None \<Rightarrow> []
        | Some (JList es) \<Rightarrow> concat (map (\<lambda>(i, e). entry_issues py_repr i e) (List.enumerate 0 es))
        | Some _ \<Rightarrow> [UdevType])"

text \<open>\<open>_ys\<close>: backslashes, then quotes.\<close>
definition yaml_scalar :: "str \<Rightarrow> str" where
  "yaml_scalar v = [34] @ replace_sub [34] [92, 34] (replace_sub [92] [92, 92] v) @ [34]"

definition udev_entries :: "profile \<Rightarrow> json list" where
  "udev_entries p = (case dget p (S ''udev'') of Some (JList es) \<Rightarrow> es | _ \<Rightarrow> [])"

definition entry_text :: "(json \<Rightarrow> str) \<Rightarrow> json \<Rightarrow> string \<Rightarrow> str" where
  "entry_text py_repr e key = (case e of JObj d \<Rightarrow> shown_field py_repr d key | _ \<Rightarrow> [])"

definition join_lines :: "str list \<Rightarrow> str" where
  "join_lines ls = concat (map (\<lambda>l. l @ [10]) ls)"

text \<open>\<open>render_profile\<close> of a valid profile.\<close>
definition render_profile :: "(json \<Rightarrow> str) \<Rightarrow> profile \<Rightarrow> str" where
  "render_profile py_repr p =
     (let shown = shown_field py_repr p
      in join_lines
        ([S ''# SimBridge modem profile '' @ [8212, 32] @ shown ''name'',
          S ''# Written by scripts/modem_profile.py (new/capture/probe/init).'',
          S ''# '' @ [39] @ S ''verified'' @ [39] @ S '' means a live end-to-end test on this modem passed.'',
          S ''name: '' @ yaml_scalar (shown ''name''),
          S ''modem_model: '' @ yaml_scalar (shown ''modem_model''),
          S ''vid_pid: '' @ yaml_scalar (shown ''vid_pid''),
          S ''dongle_name: '' @ shown ''dongle_name'',
          S ''audio_device: '' @ shown ''audio_device'',
          S ''data_device: '' @ shown ''data_device'']
         @ (if has_value p ''alsadev'' then [S ''alsadev: '' @ yaml_scalar (shown ''alsadev'')] else [])
         @ [S ''sim_phone: '' @ yaml_scalar (shown ''sim_phone'')]
         @ (if udev_entries p = [] then [S ''udev: []'']
            else S ''udev:'' # map (\<lambda>e. S ''  - {iface: '' @ [34] @ entry_text py_repr e ''iface'' @ [34]
                   @ S '', symlink: '' @ entry_text py_repr e ''symlink'' @ S ''}'') (udev_entries p))
         @ [S ''verified: '' @ lower (shown ''verified''), S ''notes: '' @ yaml_scalar (shown ''notes'')]))"

definition setdefault :: "string \<Rightarrow> json \<Rightarrow> profile \<Rightarrow> profile" where
  "setdefault key v p = (if dget p (S key) = None then dput (S key) v p else p)"

text \<open>\<open>load_profile\<close> on the text of a file.\<close>
definition load_profile :: "(json \<Rightarrow> str) \<Rightarrow> (str \<Rightarrow> json option) \<Rightarrow> str \<Rightarrow> profile_error + profile" where
  "load_profile py_repr parse content =
     (case parse (universal_newlines content) of
        None \<Rightarrow> Inl (Crashed (S ''YAMLError''))
      | Some (JObj p) \<Rightarrow>
          (case validate_profile py_repr p of
             [] \<Rightarrow>
               Inr (setdefault ''notes'' (JStr []) (setdefault ''udev'' (JList []) (setdefault ''sim_phone'' (JStr [])
                 (setdefault ''vid_pid'' (JStr [])
                   (if has_value p ''audio_device'' then p else dput (S ''audio_device'') (JStr []) p)))))
           | issues \<Rightarrow> Inl (InvalidProfile issues))
      | Some _ \<Rightarrow> Inl NotAMapping)"

section \<open>The disk\<close>

datatype artifact =
    UdevRule
  | LegacyRule
  | DongleConf
  | ConfigYaml
  | ActivePointer

datatype command =
    UdevReload
  | Generate
  | RestartAsterisk
  | RestartAgent
  | ShowDevices
  | AgentActive
  | ListSymlinks
  | ListPorts
  | UdevInfo str
  | ListCards
  | TestCard str

record completed =
  cp_code :: int
  cp_out :: str
  cp_err :: str

type_synonym shell = "command list \<Rightarrow> command \<Rightarrow> completed"

record disk =
  dk_profiles :: "(str, str) dict"
  dk_file :: "artifact \<Rightarrow> str option"
  dk_backups :: "(artifact \<times> str) list"
  dk_runs :: "command list"

definition shell_run :: "shell \<Rightarrow> command \<Rightarrow> disk \<Rightarrow> completed \<times> disk" where
  "shell_run sh c d = (sh (dk_runs d) c, d\<lparr>dk_runs := dk_runs d @ [c]\<rparr>)"

definition write_file :: "artifact \<Rightarrow> str \<Rightarrow> disk \<Rightarrow> disk" where
  "write_file a content d = d\<lparr>dk_file := (dk_file d)(a := Some content)\<rparr>"

definition remove_file :: "artifact \<Rightarrow> disk \<Rightarrow> disk" where
  "remove_file a d = d\<lparr>dk_file := (dk_file d)(a := None)\<rparr>"

text \<open>\<open>path.is_file() and path.read_text() == content\<close>\<close>
definition holds_text :: "artifact \<Rightarrow> str \<Rightarrow> disk \<Rightarrow> bool" where
  "holds_text a content d \<longleftrightarrow> map_option universal_newlines (dk_file d a) = Some content"

text \<open>\<open>backup\<close>: a copy under a time stamp; nothing when the file is missing.\<close>
definition backup :: "artifact \<Rightarrow> disk \<Rightarrow> disk" where
  "backup a d =
     (case dk_file d a of None \<Rightarrow> d | Some content \<Rightarrow> d\<lparr>dk_backups := dk_backups d @ [(a, content)]\<rparr>)"

definition profile_path :: "str \<Rightarrow> profile_error + str" where
  "profile_path name = (if name_form name then Inr name else Inl BadProfileName)"

text \<open>\<open>write_profile\<close>\<close>
definition write_profile :: "(json \<Rightarrow> str) \<Rightarrow> profile \<Rightarrow> disk \<Rightarrow> (profile_error + unit) \<times> disk" where
  "write_profile py_repr p d =
     (case validate_profile py_repr p of
        [] \<Rightarrow>
          (case profile_path (text_field p ''name'') of
             Inl e \<Rightarrow> (Inl e, d)
           | Inr name \<Rightarrow> (Inr (), d\<lparr>dk_profiles := dput name (render_profile py_repr p) (dk_profiles d)\<rparr>))
      | issues \<Rightarrow> (Inl (InvalidProfile issues), d))"

definition read_active :: "disk \<Rightarrow> str" where
  "read_active d =
     (case dk_file d ActivePointer of None \<Rightarrow> [] | Some content \<Rightarrow> strip (universal_newlines content))"

definition write_active :: "str \<Rightarrow> disk \<Rightarrow> disk" where
  "write_active name = write_file ActivePointer (name @ [10])"

section \<open>Rendering\<close>

definition render_dongle_conf :: "(json \<Rightarrow> str) \<Rightarrow> profile \<Rightarrow> str" where
  "render_dongle_conf py_repr p =
     (let shown = shown_field py_repr p
      in join_lines
        [S ''; SimBridge chan_dongle config '' @ [8212] @ S '' GENERATED by scripts/modem_profile.py'',
         S ''; Profile: '' @ shown ''name'' @ [32, 8212, 32] @ shown ''modem_model'' @ S '' (''
           @ (if has_value p ''vid_pid'' then shown ''vid_pid'' else S ''unknown vid:pid'') @ S '')'',
         S ''; Do NOT edit manually. To swap modems:'',
         S '';   python3 /opt/simbridge/scripts/modem_profile.py use <profile>'',
         S ''; App constants mirror asterisk/dongle.conf.example.'',
         [],
         S ''[general]'',
         S ''interval=15'',
         [],
         S ''['' @ shown ''dongle_name'' @ S '']'',
         (if has_value p ''alsadev'' then S ''alsadev = '' @ shown ''alsadev'' else S ''audio = '' @ shown ''audio_device''),
         S ''data = '' @ shown ''data_device'',
         S ''context = incoming-mobile'',
         S ''group = 1'',
         S ''smsaspdu = yes'',
         S ''autodeletesms = yes''])"

definition quoted :: "str \<Rightarrow> str" where
  "quoted s = [34] @ s @ [34]"

definition udev_rule :: "str \<Rightarrow> str \<Rightarrow> str \<Rightarrow> str" where
  "udev_rule pid iface symlink =
     S ''SUBSYSTEM=='' @ quoted (S ''tty'') @ S '', ENV{ID_MODEL_ID}=='' @ quoted pid
     @ S '', ENV{ID_USB_INTERFACE_NUM}=='' @ quoted iface @ S '', SYMLINK+='' @ quoted symlink
     @ S '', OWNER='' @ quoted (S ''asterisk'') @ S '', GROUP='' @ quoted (S ''dialout'') @ S '', MODE='' @ quoted (S ''0660'')"

definition ignore_self_rule :: "str \<Rightarrow> str \<Rightarrow> str" where
  "ignore_self_rule vid pid =
     S ''SUBSYSTEM=='' @ quoted (S ''usb'') @ S '', ATTR{idVendor}=='' @ quoted vid @ S '', ATTR{idProduct}=='' @ quoted pid
     @ S '', ENV{ID_MM_DEVICE_IGNORE}='' @ quoted (S ''1'')"

definition ignore_subtree_rule :: "str \<Rightarrow> str \<Rightarrow> str" where
  "ignore_subtree_rule vid pid =
     S ''ATTRS{idVendor}=='' @ quoted vid @ S '', ATTRS{idProduct}=='' @ quoted pid
     @ S '', ENV{ID_MM_DEVICE_IGNORE}='' @ quoted (S ''1'')"

text \<open>The two halves of the id: both empty unless there is exactly one colon.\<close>
definition vid_and_pid :: "profile \<Rightarrow> str \<times> str" where
  "vid_and_pid p =
     (case split_all 58 (if has_value p ''vid_pid'' then text_field p ''vid_pid'' else []) of
        [vid, pid] \<Rightarrow> (vid, pid)
      | _ \<Rightarrow> ([], []))"

definition render_udev_rules :: "(json \<Rightarrow> str) \<Rightarrow> profile \<Rightarrow> profile_error + str" where
  "render_udev_rules py_repr p =
     (let (vid, pid) = vid_and_pid p; shown = shown_field py_repr p
      in if pid = [] then Inl NoVidPid
         else if \<not> has_value p ''udev'' then Inl EmptyUdev
         else Inr (join_lines
           ([S ''# SimBridge dongle symlinks '' @ [8212] @ S '' GENERATED by scripts/modem_profile.py'',
             S ''# Profile: '' @ shown ''name'' @ [32, 8212, 32] @ shown ''modem_model'' @ S '' ('' @ shown ''vid_pid'' @ S '')'',
             S ''# Do NOT edit manually.'']
            @ (if vid = [] then [] else [ignore_self_rule vid pid, ignore_subtree_rule vid pid])
            @ map (\<lambda>e. udev_rule pid (entry_text py_repr e ''iface'') (entry_text py_repr e ''symlink'')) (udev_entries p))))"

text \<open>The first \<open>ID_MODEL_ID}=="...."\<close> of a text.\<close>
fun find_model_id :: "str \<Rightarrow> str option" where
  "find_model_id [] = None"
| "find_model_id (c # cs) =
     (let mark = S ''ID_MODEL_ID}=='' @ [34]; id4 = take 4 (drop (length mark) (c # cs))
      in if startswith (c # cs) mark \<and> length id4 = 4 \<and> list_all is_hex id4
            \<and> startswith (drop (length mark + 4) (c # cs)) [34]
         then Some id4 else find_model_id cs)"

text \<open>\<open>_retire_legacy_udev_rule\<close>\<close>
definition retire_legacy_udev_rule :: "profile \<Rightarrow> disk \<Rightarrow> disk" where
  "retire_legacy_udev_rule p d =
     (case dk_file d LegacyRule of
        None \<Rightarrow> d
      | Some content \<Rightarrow>
          (let pid = snd (vid_and_pid p)
           in case find_model_id (universal_newlines content) of
                None \<Rightarrow> d
              | Some m \<Rightarrow>
                  if pid \<noteq> [] \<and> lower m = lower pid then remove_file LegacyRule (backup LegacyRule d) else d))"

definition update_udev_rule :: "shell \<Rightarrow> str \<Rightarrow> disk \<Rightarrow> disk" where
  "update_udev_rule sh rules d =
     (if holds_text UdevRule rules d then d else snd (shell_run sh UdevReload (write_file UdevRule rules d)))"

definition update_dongle_conf :: "str \<Rightarrow> disk \<Rightarrow> disk" where
  "update_dongle_conf conf d = (if holds_text DongleConf conf d then d else write_file DongleConf conf d)"

definition backup_all :: "disk \<Rightarrow> disk" where
  "backup_all d = backup ActivePointer (backup ConfigYaml (backup DongleConf (backup UdevRule d)))"

text \<open>\<open>apply_artifacts\<close> with \<open>backup_old=True\<close>, as every caller has it.\<close>
definition apply_artifacts :: "(json \<Rightarrow> str) \<Rightarrow> shell \<Rightarrow> profile \<Rightarrow> disk \<Rightarrow> (profile_error + unit) \<times> disk" where
  "apply_artifacts py_repr sh p d =
     (let d1 = backup_all d; conf = render_dongle_conf py_repr p
      in if has_value p ''vid_pid'' \<and> has_value p ''udev''
         then (case render_udev_rules py_repr p of
                 Inl e \<Rightarrow> (Inl e, d1)
               | Inr rules \<Rightarrow>
                   (Inr (), update_dongle_conf conf (retire_legacy_udev_rule p (update_udev_rule sh rules d1))))
         else (Inr (), update_dongle_conf conf d1))"

section \<open>The configuration file\<close>

text \<open>The line breaks of \<open>str.splitlines\<close>.\<close>
definition is_break :: "cp \<Rightarrow> bool" where
  "is_break c \<longleftrightarrow> c \<in> {10, 11, 12, 13, 28, 29, 30, 133, 8232, 8233}"

text \<open>\<open>s.splitlines(keepends=True)\<close>\<close>
fun lines_keep :: "str \<Rightarrow> str list" where
  "lines_keep [] = []"
| "lines_keep (c # cs) =
     (if is_break c
      then (case cs of
              d # ds \<Rightarrow> if c = 13 \<and> d = 10 then [c, d] # lines_keep ds else [c] # lines_keep cs
            | [] \<Rightarrow> [[c]])
      else (case lines_keep cs of [] \<Rightarrow> [[c]] | l # ls \<Rightarrow> (c # l) # ls))"

definition chomp :: "str \<Rightarrow> str" where
  "chomp l = takeWhile (\<lambda>c. \<not> is_break c) l"

definition indented :: "str \<Rightarrow> bool" where
  "indented l \<longleftrightarrow> startswith l [32] \<or> startswith l [9]"

text \<open>Whether the scan is inside the section after a line.\<close>
definition in_section :: "str \<Rightarrow> bool \<Rightarrow> str \<Rightarrow> bool" where
  "in_section sec inside l = (if indented l then inside else rstrip l = sec @ [58])"

definition unquote :: "str \<Rightarrow> str" where
  "unquote v = (if 2 \<le> length v \<and> hd v = 34 \<and> last v = 34 then butlast (tl v) else v)"

text \<open>\<open>^\s+key:\s*(.*)$\<close>, the value stripped and unquoted.\<close>
definition field_value :: "str \<Rightarrow> str \<Rightarrow> str option" where
  "field_value key l =
     (if l \<noteq> [] \<and> is_space (hd l) \<and> startswith (lstrip l) (key @ [58])
      then Some (unquote (strip (drop (length key + 1) (lstrip l)))) else None)"

fun yaml_scan :: "str \<Rightarrow> str \<Rightarrow> bool \<Rightarrow> str list \<Rightarrow> str" where
  "yaml_scan sec key inside [] = []"
| "yaml_scan sec key inside (l # ls) =
     (if \<not> indented l then yaml_scan sec key (in_section sec inside l) ls
      else if inside then (case field_value key l of Some v \<Rightarrow> v | None \<Rightarrow> yaml_scan sec key inside ls)
      else yaml_scan sec key inside ls)"

text \<open>\<open>_yaml_field\<close>\<close>
definition yaml_field :: "str \<Rightarrow> string \<Rightarrow> string \<Rightarrow> str" where
  "yaml_field content sec key = yaml_scan (S sec) (S key) False (map chomp (lines_keep content))"

text \<open>\<open>^\s+key\s*:\<close>\<close>
definition key_line :: "str \<Rightarrow> str \<Rightarrow> bool" where
  "key_line key l \<longleftrightarrow>
     l \<noteq> [] \<and> is_space (hd l) \<and> startswith (lstrip l) key \<and> startswith (lstrip (drop (length key) (lstrip l))) [58]"

definition patched_line :: "str \<Rightarrow> str \<Rightarrow> str \<Rightarrow> str" where
  "patched_line key val l =
     takeWhile (\<lambda>c. c = 32 \<or> c = 9) l @ key @ [58, 32] @ val @ (if l \<noteq> [] \<and> last l = 10 then [10] else [])"

text \<open>The first line of the key in the section is replaced, \<open>None\<close> when there is none.\<close>
fun patch_scan :: "str \<Rightarrow> str \<Rightarrow> str \<Rightarrow> bool \<Rightarrow> str list \<Rightarrow> str list option" where
  "patch_scan sec key val inside [] = None"
| "patch_scan sec key val inside (l # ls) =
     (let inside' = in_section sec inside l
      in if inside' \<and> key_line key l then Some (patched_line key val l # ls)
         else map_option ((#) l) (patch_scan sec key val inside' ls))"

definition patch_yaml_field :: "str \<Rightarrow> string \<Rightarrow> string \<Rightarrow> str \<Rightarrow> bool \<Rightarrow> profile_error + str" where
  "patch_yaml_field content sec key v quote =
     (case patch_scan (S sec) (S key) (if quote then quoted v else v) False (lines_keep content) of
        None \<Rightarrow> Inl (KeyNotFound (S sec) (S key))
      | Some ls \<Rightarrow> Inr (concat ls))"

section \<open>The switch\<close>

text \<open>The profile of a name, for the commands that need an existing one.\<close>
definition stored_profile ::
    "(json \<Rightarrow> str) \<Rightarrow> (str \<Rightarrow> json option) \<Rightarrow> str \<Rightarrow> disk \<Rightarrow> profile_error + profile" where
  "stored_profile py_repr parse name d =
     (case profile_path name of
        Inl e \<Rightarrow> Inl e
      | Inr n \<Rightarrow> (case dget (dk_profiles d) n of None \<Rightarrow> Inl NoSuchProfile | Some c \<Rightarrow> load_profile py_repr parse c))"

definition config_text :: "disk \<Rightarrow> str" where
  "config_text d = (case dk_file d ConfigYaml of None \<Rightarrow> [] | Some c \<Rightarrow> universal_newlines c)"

text \<open>The two fields of the configuration a switch sets; an empty or missing file stays.\<close>
definition patched_config :: "(json \<Rightarrow> str) \<Rightarrow> profile \<Rightarrow> str \<Rightarrow> profile_error + str" where
  "patched_config py_repr p content =
     (if content = [] then Inr []
      else case patch_yaml_field content ''asterisk'' ''dongle'' (shown_field py_repr p ''dongle_name'') False of
             Inl e \<Rightarrow> Inl e
           | Inr c \<Rightarrow> patch_yaml_field c ''sim'' ''modem_model'' (shown_field py_repr p ''modem_model'') True)"

text \<open>What the switch renders before it touches anything: the udev rules if the profile has a mapping, the
  channel driver's file and the configuration.\<close>
definition render_all ::
    "(json \<Rightarrow> str) \<Rightarrow> profile \<Rightarrow> disk \<Rightarrow> profile_error + str option \<times> str \<times> str" where
  "render_all py_repr p d =
     (case (if has_value p ''vid_pid'' \<and> has_value p ''udev'' then map_sum id Some (render_udev_rules py_repr p) else Inr None) of
        Inl e \<Rightarrow> Inl e
      | Inr rules \<Rightarrow>
          (case patched_config py_repr p (config_text d) of
             Inl e \<Rightarrow> Inl e
           | Inr new_yaml \<Rightarrow> Inr (rules, render_dongle_conf py_repr p, new_yaml)))"

definition in_sync :: "str \<Rightarrow> str option \<times> str \<times> str \<Rightarrow> disk \<Rightarrow> bool" where
  "in_sync name rendered d \<longleftrightarrow>
     (case rendered of
        (rules, conf, new_yaml) \<Rightarrow>
          read_active d = name \<and> (case rules of None \<Rightarrow> True | Some r \<Rightarrow> holds_text UdevRule r d)
          \<and> holds_text DongleConf conf d \<and> new_yaml = config_text d)"

text \<open>Up to four looks at the devices.\<close>
fun await_dongle :: "nat \<Rightarrow> shell \<Rightarrow> str \<Rightarrow> disk \<Rightarrow> bool \<times> disk" where
  "await_dongle 0 sh dongle d = (False, d)"
| "await_dongle (Suc n) sh dongle d =
     (case shell_run sh ShowDevices d of
        (r, d1) \<Rightarrow>
          if cp_code r = 0 \<and> occurs_in dongle (cp_out r) then (True, d1) else await_dongle n sh dongle d1)"

text \<open>The restarts and the verification: the exit status.\<close>
definition restart_and_verify :: "shell \<Rightarrow> str \<Rightarrow> str \<Rightarrow> disk \<Rightarrow> int \<times> disk" where
  "restart_and_verify sh old_dongle dongle d =
     (let d1 = snd (shell_run sh Generate d);
          d2 = snd (shell_run sh RestartAsterisk d1);
          d3 = (if old_dongle \<noteq> [] \<and> old_dongle \<noteq> dongle then snd (shell_run sh RestartAgent d2) else d2);
          (ok, d4) = await_dongle 4 sh dongle d3;
          (ra, d5) = shell_run sh AgentActive d4
      in (if ok \<and> strip (cp_out ra) = S ''active'' then 0 else 1, d5))"

text \<open>\<open>_switch\<close>\<close>
definition switch ::
    "(json \<Rightarrow> str) \<Rightarrow> (str \<Rightarrow> json option) \<Rightarrow> shell \<Rightarrow> str \<Rightarrow> bool \<Rightarrow> disk \<Rightarrow> (profile_error + int) \<times> disk" where
  "switch py_repr parse sh name force d =
     (case stored_profile py_repr parse name d of
        Inl e \<Rightarrow> (Inl e, d)
      | Inr p \<Rightarrow>
          if \<not> has_value p ''verified'' \<and> \<not> force then (Inl NotVerified, d)
          else
            (case render_all py_repr p d of
               Inl e \<Rightarrow> (Inl e, d)
             | Inr (rules, conf, new_yaml) \<Rightarrow>
                 if in_sync name (rules, conf, new_yaml) d then (Inr 0, d)
                 else
                   (case apply_artifacts py_repr sh p d of
                      (Inl e, d1) \<Rightarrow> (Inl e, d1)
                    | (Inr _, d1) \<Rightarrow>
                        (let d2 = (if config_text d = [] then d1 else write_file ConfigYaml new_yaml d1);
                             old_dongle = (if config_text d = [] then [] else yaml_field (config_text d) ''asterisk'' ''dongle'')
                         in map_prod Inr id
                              (restart_and_verify sh old_dongle (shown_field py_repr p ''dongle_name'') (write_active name d2))))))"

text \<open>\<open>main\<close> around a command: a \<open>ProfileError\<close> is printed and the exit status is 1; other exceptions leave
  the program.\<close>
definition exit_status :: "profile_error + int \<Rightarrow> int option" where
  "exit_status r =
     (case r of Inr code \<Rightarrow> Some code | Inl (Crashed _) \<Rightarrow> None | Inl _ \<Rightarrow> Some 1)"

section \<open>Creating profiles\<close>

text \<open>The arguments of \<open>new\<close> and \<open>init\<close>.\<close>
record profile_args =
  pa_name :: str
  pa_model :: str
  pa_vid_pid :: str
  pa_dongle :: str
  pa_audio :: str
  pa_data :: str
  pa_phone :: str
  pa_interfaces :: str
  pa_force :: bool

definition or_text :: "str \<Rightarrow> string \<Rightarrow> str" where
  "or_text v dflt = (if v = [] then S dflt else v)"

text \<open>An entry \<open>{iface, symlink}\<close> with the symlink \<open>dongle_if<int>\<close>.\<close>
definition udev_entry :: "str \<Rightarrow> json" where
  "udev_entry iface =
     JObj [(S ''iface'', JStr iface),
           (S ''symlink'', JStr (S ''dongle_if'' @ (case parse_int iface of Some n \<Rightarrow> int_text n | None \<Rightarrow> [])))]"

definition args_profile :: "profile_args \<Rightarrow> json list \<Rightarrow> str \<Rightarrow> profile" where
  "args_profile a udev remark =
     [(S ''name'', JStr (pa_name a)), (S ''modem_model'', JStr (pa_model a)), (S ''vid_pid'', JStr (pa_vid_pid a)),
      (S ''dongle_name'', JStr (or_text (pa_dongle a) ''gsm'')), (S ''audio_device'', JStr (or_text (pa_audio a) ''/dev/dongle_if1'')),
      (S ''data_device'', JStr (or_text (pa_data a) ''/dev/dongle_if2'')), (S ''sim_phone'', JStr (pa_phone a)),
      (S ''udev'', JList udev), (S ''verified'', JBool False), (S ''notes'', JStr remark)]"

text \<open>The check at the head of the commands that create a profile.\<close>
definition may_create :: "str \<Rightarrow> bool \<Rightarrow> disk \<Rightarrow> profile_error + unit" where
  "may_create name force d =
     (case profile_path name of
        Inl e \<Rightarrow> Inl e
      | Inr n \<Rightarrow> if dget (dk_profiles d) n \<noteq> None \<and> \<not> force then Inl ProfileExists else Inr ())"

definition cmd_new :: "(json \<Rightarrow> str) \<Rightarrow> profile_args \<Rightarrow> disk \<Rightarrow> (profile_error + int) \<times> disk" where
  "cmd_new py_repr a d =
     (case may_create (pa_name a) (pa_force a) d of
        Inl e \<Rightarrow> (Inl e, d)
      | Inr _ \<Rightarrow>
          (let udev = (if pa_vid_pid a = [] then [] else map udev_entry [S ''00'', S ''01'', S ''02''])
           in map_prod (map_sum id (\<lambda>_. 0)) id
                (write_profile py_repr (args_profile a udev
                   (S ''template '' @ [8212] @ S '' complete with probe --commit or capture; ''
                    @ S ''verified stays false until a live E2E test passes'')) d)))"

definition init_interfaces :: "profile_args \<Rightarrow> str list" where
  "init_interfaces a =
     filter two_digits (map strip (split_all 44 (or_text (pa_interfaces a) ''00,01,02'')))"

text \<open>\<open>cmd_init\<close>: the profile, the pointer, then the artifacts.\<close>
definition cmd_init :: "(json \<Rightarrow> str) \<Rightarrow> shell \<Rightarrow> profile_args \<Rightarrow> disk \<Rightarrow> (profile_error + int) \<times> disk" where
  "cmd_init py_repr sh a d =
     (case may_create (pa_name a) (pa_force a) d of
        Inl e \<Rightarrow> (Inl e, d)
      | Inr _ \<Rightarrow>
          (let udev = (if pa_vid_pid a = [] then [] else map udev_entry (init_interfaces a));
               p = args_profile a udev (S ''created by install.py (fresh install) '' @ [8212]
                     @ S '' refine with probe/capture after the first live test'')
           in case write_profile py_repr p d of
                (Inl e, d1) \<Rightarrow> (Inl e, d1)
              | (Inr _, d1) \<Rightarrow>
                  map_prod (map_sum id (\<lambda>_. 0)) id (apply_artifacts py_repr sh p (write_active (pa_name a) d1))))"

definition cmd_apply ::
    "(json \<Rightarrow> str) \<Rightarrow> (str \<Rightarrow> json option) \<Rightarrow> shell \<Rightarrow> str \<Rightarrow> disk \<Rightarrow> (profile_error + int) \<times> disk" where
  "cmd_apply py_repr parse sh name d =
     (case stored_profile py_repr parse name d of
        Inl e \<Rightarrow> (Inl e, d)
      | Inr p \<Rightarrow> map_prod (map_sum id (\<lambda>_. 0)) id (apply_artifacts py_repr sh p d))"

text \<open>\<open>cmd_show\<close>: the text it prints.\<close>
definition cmd_show :: "str \<Rightarrow> disk \<Rightarrow> profile_error + str" where
  "cmd_show name d =
     (let n = (if name = [] then read_active d else name)
      in if n = [] then Inl NoActiveProfile
         else case profile_path n of
                Inl e \<Rightarrow> Inl e
              | Inr f \<Rightarrow>
                  (case dget (dk_profiles d) f of
                     None \<Rightarrow> Inl NoSuchProfile | Some c \<Rightarrow> Inr (universal_newlines c)))"

end
