(* ===== verification/DialplanConfig.thy ===== *)
theory DialplanConfig
  imports Voicemail ModemProfile
begin

text \<open>
  \<open>scripts/generate_asterisk_config.py\<close>: the files for Asterisk that are generated from the configuration,
  the global variables of the dialplan (\<open>generate\<close>) and the SIP objects of the voice bridge
  (\<open>generate_pjsip\<close>).

  The configuration is the value of the YAML file as it is: this program neither validates it nor expands
  environment references. An exception is its name; \<open>SystemExit\<close> is a refusal. What is printed is left out.
\<close>

section \<open>Settings\<close>

text \<open>\<open>config.get(key, {})\<close> where the code goes on with \<open>.get\<close>.\<close>
definition sub_config :: "cfg \<Rightarrow> string \<Rightarrow> str + cfg" where
  "sub_config d key =
     (case dget d (S key) of
        None \<Rightarrow> Inr []
      | Some (JObj e) \<Rightarrow> Inr e
      | Some _ \<Rightarrow> Inl (S ''AttributeError''))"

definition value_or :: "cfg \<Rightarrow> string \<Rightarrow> json \<Rightarrow> json" where
  "value_or d key dflt = (case dget d (S key) of None \<Rightarrow> dflt | Some v \<Rightarrow> v)"

text \<open>\<open>int(v)\<close>\<close>
definition int_value :: "json \<Rightarrow> str + int" where
  "int_value v =
     (case v of
        JInt n \<Rightarrow> Inr n
      | JBool b \<Rightarrow> Inr (if b then 1 else 0)
      | JStr s \<Rightarrow> (case parse_int s of None \<Rightarrow> Inl (S ''ValueError'') | Some n \<Rightarrow> Inr n)
      | _ \<Rightarrow> Inl (S ''TypeError''))"

definition int_of_key :: "cfg \<Rightarrow> string \<Rightarrow> int \<Rightarrow> str + int" where
  "int_of_key d key dflt = int_value (value_or d key (JInt dflt))"

definition bind_sum :: "'e + 'a \<Rightarrow> ('a \<Rightarrow> 'e + 'b) \<Rightarrow> 'e + 'b" where
  "bind_sum r f = (case r of Inl e \<Rightarrow> Inl e | Inr x \<Rightarrow> f x)"

text \<open>The sound without the extension of its last path component.\<close>
definition prompt_stem :: "str \<Rightarrow> str" where
  "prompt_stem p =
     (if 46 \<in> set (last (split_all 47 p))
      then (case split_at 46 (rev p) of Some (_, base) \<Rightarrow> rev base | None \<Rightarrow> p) else p)"

section \<open>The globals\<close>

definition OUTPUT_HEADER :: "str list" where
  "OUTPUT_HEADER =
     [S ''; SimBridge '' @ [8212] @ S '' auto-generated Asterisk globals'',
      S ''; Generated by scripts/generate-asterisk-config.py'',
      S ''; Do NOT edit manually. Change values in simbridge.yaml instead.'']"

definition setting :: "string \<Rightarrow> str \<Rightarrow> str" where
  "setting key v = S key @ 61 # v"

text \<open>\<open>generate\<close>: the text of the file.\<close>
definition generate :: "(json \<Rightarrow> str) \<Rightarrow> tools \<Rightarrow> cfg \<Rightarrow> str + str" where
  "generate py_repr tk config =
     bind_sum (sub_config config ''asterisk'') (\<lambda>a.
     bind_sum (int_of_key a ''ring_wait_seconds'' 18) (\<lambda>ring_wait.
     bind_sum (int_of_key a ''max_record_seconds'' 90) (\<lambda>max_record.
     bind_sum (int_of_key a ''early_hangup_max_seconds'' 3) (\<lambda>early_hangup.
     bind_sum (case value_or a ''prompt'' (JStr (S ''/var/lib/asterisk/sounds/custom/vm-prompt'')) of
                 JStr p \<Rightarrow> Inr p | _ \<Rightarrow> Inl (S ''AttributeError'')) (\<lambda>prompt.
     bind_sum (sub_config config ''voice'') (\<lambda>voice.
     bind_sum (int_of_key voice ''bridge_port'' 5062) (\<lambda>bridge_port.
     bind_sum (int_of_key voice ''outbound_answer_timeout'' 30) (\<lambda>outbound_timeout.
     bind_sum (int_of_key voice ''outbound_gsm_ring_seconds'' 30) (\<lambda>outbound_gsm_ring.
     bind_sum (sub_config config ''paths'') (\<lambda>paths.
     bind_sum (sub_config config ''limits'') (\<lambda>limits.
     bind_sum (int_of_key limits ''max_call_seconds'' 1800) (\<lambda>max_call.
     bind_sum (case resolve_userbot_url py_repr config of None \<Rightarrow> Inl (S ''AttributeError'') | Some u \<Rightarrow> Inr u) (\<lambda>userbot_url.
       let duration = (if prompt = [] then Fin 0 else ffprobe_duration tk prompt); shown = py_str py_repr
       in Inr (join_lines (OUTPUT_HEADER @
           [S ''[globals]'',
            S ''; Timing: ring_wait_seconds='' @ int_text ring_wait @ S '' ('' @ [8776, 32] @ int_text (ring_wait div 5) @ S '' ring cycles)'',
            setting ''RING_WAIT_SECONDS'' (int_text ring_wait),
            setting ''MAX_RECORD_SECONDS'' (int_text max_record),
            setting ''EARLY_HANGUP_MAX_SECONDS'' (int_text early_hangup),
            setting ''VM_PROMPT'' (prompt_stem prompt),
            S ''; S03.1: greeting length in seconds (probed) '' @ [8212]
              @ S '' the AGI trims this many seconds from the front of the recording'',
            setting ''PROMPT_DURATION'' (fixed 3 duration),
            setting ''VM_REC_DIR'' (shown (value_or paths ''recordings_dir'' (JStr (S ''/var/lib/simbridge/recordings'')))),
            S ''; Bridge (S04.2): Telegram voice bridge settings'',
            setting ''BRIDGE_ENDPOINT'' (shown (value_or voice ''bridge_endpoint'' (JStr (S ''tg-bridge'')))),
            setting ''BRIDGE_HOST'' (shown (value_or voice ''bridge_host'' (JStr (S ''127.0.0.1'')))),
            setting ''BRIDGE_PORT'' (int_text bridge_port),
            setting ''OUTBOUND_RING_TIMEOUT'' (int_text outbound_timeout),
            S ''; S04.3: max seconds the GSM number may ring on an outgoing call'',
            setting ''OUTBOUND_GSM_RING_SECONDS'' (int_text outbound_gsm_ring),
            S ''; Call limits (S04.3)'',
            setting ''MAX_CALL_SECONDS'' (int_text max_call),
            S ''; Distributed mode (S04.4): Tailscale network'',
            setting ''TAILNET_CGNAT'' (S ''100.64.0.0/10''),
            S ''; Userbot HTTP (SMS/voicemail event forwarding)'',
            setting ''USERBOT_URL'' (shown userbot_url),
            S ''; Blacklist file (S02.2: incoming call/SMS check)'',
            setting ''BLACKLIST_PATH'' (shown (value_or paths ''blacklist'' (JStr (S ''/etc/simbridge/blacklist.txt'')))),
            S ''; Modem ID for event payloads (single-dongle S01)'',
            setting ''MODEM_ID'' (shown (value_or a ''dongle'' (JStr (S ''gsm''))))])))))))))))))))"

section \<open>The SIP objects\<close>

definition PJSIP_HEADER :: "str list" where
  "PJSIP_HEADER =
     [S ''; SimBridge '' @ [8212] @ S '' auto-generated PJSIP config (S04.2)'',
      S ''; Generated by scripts/generate-asterisk-config.py'',
      S ''; Do NOT edit manually. Change values in simbridge.yaml instead.'',
      S '';'',
      S ''; Asterisk 13+ (sorcery) format: every section MUST carry a type='',
      S ''; line. res_sorcery_config loads sections via the criterion'',
      S ''; '' @ quoted (S ''pjsip.conf,criteria=type=<TYPE>'') @ S '', so a section without type= is'',
      S ''; silently ignored (result: transport never binds, '' @ [34] @ S ''pjsip show'',
      S ''; endpoints'' @ [34] @ S '' -> '' @ quoted (S ''No objects found'') @ S '').'',
      S '';'',
      S ''; The Telegram voice bridge (blitss/sip-tg-bridge) speaks PJSIP in both'',
      S ''; roles:'',
      S '';   - UAS: it answers this endpoint'' @ [39] @ S ''s INVITE on incoming calls'',
      S '';     (the dialplan Dials SIP/<endpoint>; the bridge rings Telegram)'',
      S '';   - UAC: it INVITEs this node for outgoing calls, target number as'',
      S '';     Request-URI user -> context <endpoint>, exten = target number'',
      S ''; Both directions therefore authenticate: outbound_auth authenticates'',
      S ''; Asterisk towards the bridge, auth authenticates the bridge towards'',
      S ''; Asterisk (an unauthenticated INVITE could dial arbitrary GSM numbers'',
      S ''; through the modem).'']"

definition local_host :: json where
  "local_host = JStr (S ''127.0.0.1'')"

text \<open>The sections of the endpoint.\<close>
definition endpoint_lines :: "str \<Rightarrow> str list" where
  "endpoint_lines endpoint =
     [S ''['' @ endpoint @ S '']'',
      S ''type=endpoint'',
      S ''transport=transport-udp'',
      setting ''context'' endpoint,
      S ''disallow=all'',
      S ''allow=ulaw,alaw'',
      S ''dtmf_mode=rfc4733'',
      S ''; S04.2: the bridge must transcode '' @ [8212] @ S '' media must NOT be'',
      S ''; redirected between the caller and the bridge (no direct'',
      S ''; RTP). Asterisk stays on the media path.'',
      S ''direct_media=no'',
      S ''rtp_timeout=60'',
      S ''rtp_timeout_hold=30'',
      S ''ice_support=no'',
      setting ''auth'' (endpoint @ S ''-auth''),
      setting ''outbound_auth'' (endpoint @ S ''-auth''),
      setting ''aors'' (endpoint @ S ''-aor''),
      S ''; S04.5: default identify_by is username,ip. The bridge (UAC)'',
      S ''; authenticates as tg-bridge but its From user is not this AOR'',
      S ''; name, so it is only identifiable via the Authorization header.'',
      S ''; Without auth_username the request is not identified to this'',
      S ''; endpoint and is authed against the artificial endpoint instead:'',
      S ''; 401 despite correct credentials. Root-caused 2026-08-19 via'',
      S ''; core set debug 3 (res_pjsip_authenticator_digest.c).'',
      S ''identify_by=username,ip,auth_username'',
      []]"

text \<open>\<open>generate_pjsip\<close>: the text of the file.\<close>
definition generate_pjsip :: "(json \<Rightarrow> str) \<Rightarrow> cfg \<Rightarrow> str \<Rightarrow> str \<Rightarrow> str + str" where
  "generate_pjsip py_repr config bridge_secret node_ip =
     (if bridge_secret = [] then Inl (S ''SystemExit'')
      else
        bind_sum (sub_config config ''voice'') (\<lambda>voice.
        bind_sum (int_of_key voice ''bridge_port'' 5062) (\<lambda>bridge_port.
          let endpoint = py_str py_repr (value_or voice ''bridge_endpoint'' (JStr (S ''tg-bridge'')));
              bridge_host = value_or voice ''bridge_host'' local_host;
              distributed = (bridge_host \<noteq> local_host)
          in if distributed \<and> node_ip = [] then Inl (S ''SystemExit'')
             else Inr (join_lines (PJSIP_HEADER @
               [S ''[global]'', S ''type=global'', S ''user_agent=SimBridge'', [],
                S ''[transport-udp]'', S ''type=transport'', S ''protocol=udp'',
                setting ''bind'' (if distributed then node_ip else S ''127.0.0.1''), S ''local_net=100.64.0.0/10'']
               @ (if distributed then [setting ''external_media_address'' node_ip] else []) @ [[]]
               @ endpoint_lines endpoint
               @ [S ''['' @ endpoint @ S ''-auth]'', S ''type=auth'', S ''auth_type=userpass'', S ''username=tg-bridge'',
                  setting ''password'' bridge_secret, [],
                  S ''['' @ endpoint @ S ''-aor]'', S ''type=aor'', S ''max_contacts=1'',
                  setting ''contact'' (S ''sip:'' @ py_str py_repr bridge_host @ [58] @ int_text bridge_port)])))))"

section \<open>The program\<close>

definition BRIDGE_SECRET_ENV :: str where "BRIDGE_SECRET_ENV = S ''SIMBRIDGE_BRIDGE_SECRET''"
definition NODE_IP_ENV :: str where "NODE_IP_ENV = S ''SIMBRIDGE_NODE_TAILSCALE_IP''"

definition env_or_empty :: "(str \<Rightarrow> str option) \<Rightarrow> str \<Rightarrow> str" where
  "env_or_empty environ name = (case environ name of None \<Rightarrow> [] | Some v \<Rightarrow> v)"

text \<open>The files Asterisk reads, as the program leaves them.\<close>
record asterisk_files =
  as_globals :: "str option"
  as_pjsip :: "str option"

text \<open>\<open>main\<close>; \<open>pjsip\<close> says that the option \<open>--pjsip-out\<close> is given.\<close>
definition generator_main ::
    "(json \<Rightarrow> str) \<Rightarrow> tools \<Rightarrow> (str \<Rightarrow> str option) \<Rightarrow> json \<Rightarrow> bool \<Rightarrow> asterisk_files \<Rightarrow> (str + unit) \<times> asterisk_files" where
  "generator_main py_repr tk environ yaml pjsip fs =
     (case yaml of
        JObj config \<Rightarrow>
          (case generate py_repr tk config of
             Inl e \<Rightarrow> (Inl e, fs)
           | Inr globals \<Rightarrow>
               (let fs1 = fs\<lparr>as_globals := Some globals\<rparr>
                in if \<not> pjsip then (Inr (), fs1)
                   else (case generate_pjsip py_repr config (env_or_empty environ BRIDGE_SECRET_ENV) (env_or_empty environ NODE_IP_ENV) of
                           Inl e \<Rightarrow> (Inl e, fs1)
                         | Inr content \<Rightarrow> (Inr (), fs1\<lparr>as_pjsip := Some content\<rparr>))))
      | _ \<Rightarrow> (Inl (S ''AttributeError''), fs))"

end
