(* ===== verification/ModemProbe.thy ===== *)
theory ModemProbe
  imports ModemProfile Commands
begin

text \<open>
  The part of \<open>scripts/modem_profile.py\<close> that looks at the machine: reading back the channel driver's file,
  \<open>udevadm\<close>, the AT commands and the sound cards, and the commands \<open>capture\<close> and \<open>probe\<close> that make a profile
  from what they find.

  Commands of the shell are answered as in \<open>ModemProfile\<close>; \<open>realpath\<close> resolves symbolic links and \<open>raw\<close> is
  the answer of a serial port to an AT command, \<open>None\<close> when the port cannot be opened.
\<close>

section \<open>Reading back\<close>

definition split_lines :: "str \<Rightarrow> str list" where
  "split_lines s = map chomp (lines_keep s)"

record dongle_conf =
  dc_section :: str
  dc_audio :: str
  dc_data :: str
  dc_alsadev :: str

text \<open>\<open>^\[(.+)\]$\<close>\<close>
definition section_header :: "str \<Rightarrow> str option" where
  "section_header l = (if 3 \<le> length l \<and> hd l = 91 \<and> last l = 93 then Some (butlast (tl l)) else None)"

text \<open>\<open>^key\s*=\s*(\S+)\<close>\<close>
definition assigned :: "string \<Rightarrow> str \<Rightarrow> str option" where
  "assigned key l =
     (let r = lstrip (drop (length key) l); v = takeWhile (\<lambda>c. \<not> is_space c) (lstrip (drop 1 r))
      in if startswith l (S key) \<and> startswith r [61] \<and> v \<noteq> [] then Some v else None)"

definition conf_line :: "str \<Rightarrow> dongle_conf \<Rightarrow> dongle_conf" where
  "conf_line line dc =
     (let l = strip line
      in case section_header l of
           Some sec \<Rightarrow> dc\<lparr>dc_section := sec\<rparr>
         | None \<Rightarrow>
             if dc_section dc = [] \<or> dc_section dc = S ''general'' then dc
             else (case assigned ''audio'' l of
                     Some v \<Rightarrow> dc\<lparr>dc_audio := v\<rparr>
                   | None \<Rightarrow>
                       (case assigned ''data'' l of
                          Some v \<Rightarrow> dc\<lparr>dc_data := v\<rparr>
                        | None \<Rightarrow>
                            (case assigned ''alsadev'' l of Some v \<Rightarrow> dc\<lparr>dc_alsadev := v\<rparr> | None \<Rightarrow> dc))))"

definition parse_dongle_conf :: "str \<Rightarrow> dongle_conf" where
  "parse_dongle_conf content =
     fold conf_line (split_lines content) \<lparr>dc_section = [], dc_audio = [], dc_data = [], dc_alsadev = []\<rparr>"

definition key_char :: "cp \<Rightarrow> bool" where
  "key_char c \<longleftrightarrow> 65 \<le> c \<and> c \<le> 90 \<or> 97 \<le> c \<and> c \<le> 122 \<or> 48 \<le> c \<and> c \<le> 57 \<or> c = 95"

text \<open>\<open>s.strip(c)\<close>\<close>
definition strip_cp :: "cp \<Rightarrow> str \<Rightarrow> str" where
  "strip_cp c s = rev (dropWhile (\<lambda>x. x = c) (rev (dropWhile (\<lambda>x. x = c) s)))"

text \<open>\<open>^(?:[A-Z]: )?([A-Za-z0-9_]+)=(.*)$\<close>\<close>
definition udev_property :: "str \<Rightarrow> (str \<times> str) option" where
  "udev_property l =
     (let body = (if 3 \<le> length l \<and> 65 \<le> l ! 0 \<and> l ! 0 \<le> 90 \<and> l ! 1 = 58 \<and> l ! 2 = 32 then drop 3 l else l);
          key = takeWhile key_char body; rest = drop (length key) body
      in if key \<noteq> [] \<and> startswith rest [61] then Some (key, strip_cp 34 (drop 1 rest)) else None)"

definition parse_udev_all :: "str \<Rightarrow> (str, str) dict" where
  "parse_udev_all content =
     fold (\<lambda>l d. case udev_property l of None \<Rightarrow> d | Some (k, v) \<Rightarrow> dput k v d) (split_lines content) []"

definition udev_meta :: "shell \<Rightarrow> (str \<Rightarrow> str) \<Rightarrow> str \<Rightarrow> disk \<Rightarrow> (str, str) dict \<times> disk" where
  "udev_meta sh realpath dev d =
     (case shell_run sh (UdevInfo (realpath dev)) d of (r, d1) \<Rightarrow> (parse_udev_all (cp_out r), d1))"

definition meta_of :: "(str, str) dict \<Rightarrow> string \<Rightarrow> str" where
  "meta_of meta key = (case dget meta (S key) of None \<Rightarrow> [] | Some v \<Rightarrow> v)"

section \<open>Capturing the live state\<close>

text \<open>\<open>Path(dev).name\<close>\<close>
definition path_name :: "str \<Rightarrow> str" where
  "path_name path = rev (takeWhile (\<lambda>c. c \<noteq> 47) (rev path))"

text \<open>The ids and the interface map, over the device links.\<close>
fun capture_links ::
    "shell \<Rightarrow> (str \<Rightarrow> str) \<Rightarrow> str list \<Rightarrow> str \<times> str \<times> (str \<times> str) list \<Rightarrow> disk \<Rightarrow> (str \<times> str \<times> (str \<times> str) list) \<times> disk" where
  "capture_links sh realpath [] acc d = (acc, d)"
| "capture_links sh realpath (dev # devs) (vid, pid, links) d =
     (case udev_meta sh realpath dev d of
        (meta, d1) \<Rightarrow>
          (let iface = meta_of meta ''ID_USB_INTERFACE_NUM'';
               v = meta_of meta ''ID_VENDOR_ID''; m = meta_of meta ''ID_MODEL_ID''
           in capture_links sh realpath devs
                (if v = [] then vid else v, if m = [] then pid else m,
                 if two_digits iface then links @ [(iface, path_name dev)] else links) d1))"

text \<open>\<open>\bID\s+([0-9a-fA-F]{4}):([0-9a-fA-F]{4})\<close>, searched; \<open>word\<close> says that a word character comes before.\<close>
fun find_usb_id :: "bool \<Rightarrow> str \<Rightarrow> (str \<times> str) option" where
  "find_usb_id word [] = None"
| "find_usb_id word (c # cs) =
     (let r = drop 1 cs; q = lstrip r; t = take 9 q
      in if \<not> word \<and> startswith (c # cs) (S ''ID'') \<and> r \<noteq> [] \<and> is_space (hd r) \<and> vid_pid_form t
         then Some (take 4 t, drop 5 t) else find_usb_id (is_word c) cs)"

definition link_json :: "str \<times> str \<Rightarrow> json" where
  "link_json l = JObj [(S ''iface'', JStr (fst l)), (S ''symlink'', JStr (snd l))]"

text \<open>\<open>_capture_from_live\<close>\<close>
definition capture_from_live :: "shell \<Rightarrow> (str \<Rightarrow> str) \<Rightarrow> disk \<Rightarrow> (profile_error + profile) \<times> disk" where
  "capture_from_live sh realpath d =
     (case dk_file d DongleConf of
        None \<Rightarrow> (Inl NothingToCapture, d)
      | Some content \<Rightarrow>
          (let dc = parse_dongle_conf (universal_newlines content)
           in if dc_section dc = [] \<or> dc_data dc = [] \<or> dc_alsadev dc = [] \<and> dc_audio dc = []
              then (Inl NothingToCapture, d)
              else
                (let cfg = config_text d;
                     dongle = yaml_field cfg ''asterisk'' ''dongle'';
                     dongle_name = (if dongle = [] then dc_section dc else dongle);
                     model = yaml_field cfg ''sim'' ''modem_model'';
                     phone = yaml_field cfg ''sim'' ''phone'';
                     (r, d1) = shell_run sh ListSymlinks d;
                     ((vid, pid, links), d2) = capture_links sh realpath (split_ws (cp_out r)) ([], [], []) d1;
                     (vid2, pid2) = (if (vid = [] \<or> pid = []) \<and> model \<noteq> []
                                     then (case find_usb_id False model of Some ids \<Rightarrow> ids | None \<Rightarrow> (vid, pid))
                                     else (vid, pid))
                 in (Inr ([(S ''name'', JStr dongle_name), (S ''modem_model'', JStr model),
                           (S ''vid_pid'', JStr (if vid2 \<noteq> [] \<and> pid2 \<noteq> [] then vid2 @ [58] @ pid2 else [])),
                           (S ''dongle_name'', JStr dongle_name),
                           (S ''audio_device'', JStr (if dc_alsadev dc \<noteq> [] then [] else dc_audio dc)),
                           (S ''data_device'', JStr (dc_data dc)), (S ''sim_phone'', JStr phone),
                           (S ''udev'', JList (map link_json (sort_key fst links))), (S ''verified'', JBool True),
                           (S ''notes'', JStr (S ''captured from live state by modem_profile.py capture''))]
                          @ (if dc_alsadev dc \<noteq> [] then [(S ''alsadev'', JStr (dc_alsadev dc))] else [])), d2))))"

definition cmd_capture ::
    "(json \<Rightarrow> str) \<Rightarrow> shell \<Rightarrow> (str \<Rightarrow> str) \<Rightarrow> str \<Rightarrow> bool \<Rightarrow> disk \<Rightarrow> (profile_error + int) \<times> disk" where
  "cmd_capture py_repr sh realpath name force d =
     (case may_create name force d of
        Inl e \<Rightarrow> (Inl e, d)
      | Inr _ \<Rightarrow>
          (case capture_from_live sh realpath d of
             (Inl e, d1) \<Rightarrow> (Inl e, d1)
           | (Inr p, d1) \<Rightarrow>
               map_prod (map_sum id (\<lambda>_. 0)) id (write_profile py_repr (dput (S ''name'') (JStr name) p) d1)))"

section \<open>AT commands\<close>

text \<open>The answer of a port: the lines but for the echo and the final status.\<close>
definition at_body :: "str \<Rightarrow> str \<Rightarrow> str" where
  "at_body at_cmd resp =
     (let body = filter (\<lambda>l. l \<notin> {[], S ''OK'', S ''ERROR'', filter (\<lambda>c. c \<noteq> 13) at_cmd}) (map strip (split_lines resp))
      in concat (case body of [] \<Rightarrow> [] | l # ls \<Rightarrow> l # map (\<lambda>l. 10 # l) ls))"

definition at_query :: "(str \<Rightarrow> str \<Rightarrow> str option) \<Rightarrow> str \<Rightarrow> str \<Rightarrow> str" where
  "at_query raw dev at_cmd = (case raw dev at_cmd of None \<Rightarrow> [] | Some resp \<Rightarrow> at_body at_cmd resp)"

definition CGMM :: str where "CGMM = S ''AT+CGMM''"
definition USBCFG :: str where "USBCFG = S ''AT+QCFG='' @ quoted (S ''USBCFG'')"

text \<open>What carries the voice.\<close>
datatype voice = Uac | Serial | NoVoice

definition is_hex_number :: "str \<Rightarrow> bool" where
  "is_hex_number f \<longleftrightarrow> startswith f (S ''0x'') \<and> 3 \<le> length f \<and> list_all is_hex (drop 2 f)"

text \<open>\<open>re.findall(r'"([^"]*)"', s)\<close>: the parts between the first and second quote, the third and fourth, and so on.\<close>
fun odd_parts :: "str list \<Rightarrow> str list" where
  "odd_parts (a # b # c # ps) = b # odd_parts (c # ps)"
| "odd_parts _ = []"

definition interpret_usbcfg :: "str \<Rightarrow> voice" where
  "interpret_usbcfg answer =
     (let parts = map strip (split_all 44 (strip_cp 44 (strip (last (split_all 34 answer)))))
      in if length parts = 9 \<and> list_all is_hex_number (take 2 parts) \<and> list_all (\<lambda>f. f = S ''0'' \<or> f = S ''1'') (drop 2 parts)
         then (if parts ! 8 = S ''1'' then Uac else if parts ! 3 = S ''1'' then Serial else NoVoice)
         else (let named = odd_parts (split_all 34 answer)
               in if occurs_in (S ''Audio'') answer \<or> occurs_in (S ''AUD'') answer then Serial
                  else if occurs_in (S ''UAC=1'') answer \<or> named \<noteq> [] \<and> occurs_in (S ''UAC'') (last named) then Uac
                  else NoVoice))"

section \<open>The sound card\<close>

record sound_card =
  so_index :: str
  so_short :: str
  so_bus :: str
  so_desc :: str

text \<open>\<open>(\S+)\s*-\s*(.*)$\<close> with \<open>n\<close> characters or fewer for the first group, the longest first.\<close>
fun bus_split :: "nat \<Rightarrow> str \<Rightarrow> (str \<times> str) option" where
  "bus_split 0 s = None"
| "bus_split (Suc n) s =
     (let r = lstrip (drop (Suc n) s)
      in if startswith r [45] then Some (take (Suc n) s, lstrip (drop 1 r)) else bus_split n s)"

text \<open>\<open>^\s*(\d+)\s+\[([^\]]+)\]\s*:\s*(\S+)\s*-\s*(.*)$\<close>\<close>
definition card_line :: "str \<Rightarrow> sound_card option" where
  "card_line l =
     (let a = lstrip l; idx = takeWhile is_decimal a; b = drop (length idx) a; c = lstrip b;
          short = takeWhile (\<lambda>x. x \<noteq> 93) (drop 1 c); e = drop (length short + 1) c;
          f = lstrip (drop 1 e); g = lstrip (drop 1 f)
      in if idx \<noteq> [] \<and> b \<noteq> c \<and> startswith c [91] \<and> short \<noteq> [] \<and> startswith e [93] \<and> startswith f [58]
         then map_option (\<lambda>(bus, desc). \<lparr>so_index = idx, so_short = strip short, so_bus = bus, so_desc = desc\<rparr>)
                (bus_split (length (takeWhile (\<lambda>x. \<not> is_space x) g)) g)
         else None)"

text \<open>The cards of the listing; the description goes on in an indented next line.\<close>
function cards_of :: "str list \<Rightarrow> sound_card list" where
  "cards_of [] = []"
| "cards_of (l # ls) =
     (case card_line l of
        None \<Rightarrow> cards_of ls
      | Some c \<Rightarrow>
          (case ls of
             m # ms \<Rightarrow> if startswith m [32] then c\<lparr>so_desc := so_desc c @ [32] @ strip m\<rparr> # cards_of ms else c # cards_of ls
           | [] \<Rightarrow> [c]))"
  by pat_completeness auto

termination cards_of
  by (relation "measure length") auto

text \<open>The first USB card that fits the hint and can record and play.\<close>
fun first_card :: "shell \<Rightarrow> str \<Rightarrow> sound_card list \<Rightarrow> disk \<Rightarrow> str \<times> disk" where
  "first_card sh hint [] d = ([], d)"
| "first_card sh hint (c # cs) d =
     (if so_bus c \<noteq> S ''USB-Audio''
         \<or> hint \<noteq> [] \<and> \<not> occurs_in (lower hint) (lower (so_short c @ [32] @ so_desc c))
      then first_card sh hint cs d
      else (case shell_run sh (TestCard (so_index c)) d of
              (r, d1) \<Rightarrow> if cp_code r = 0 then (S ''hw:CARD='' @ so_short c @ S '',DEV=0'', d1) else first_card sh hint cs d1))"

definition find_uac_card :: "shell \<Rightarrow> str \<Rightarrow> disk \<Rightarrow> str \<times> disk" where
  "find_uac_card sh hint d =
     (case shell_run sh ListCards d of (r, d1) \<Rightarrow> first_card sh hint (cards_of (split_lines (cp_out r))) d1)"

section \<open>Probing\<close>

record port =
  po_dev :: str
  po_vid :: str
  po_pid :: str
  po_iface :: str
  po_model :: str

fun port_list :: "shell \<Rightarrow> (str \<Rightarrow> str) \<Rightarrow> str list \<Rightarrow> disk \<Rightarrow> port list \<times> disk" where
  "port_list sh realpath [] d = ([], d)"
| "port_list sh realpath (dev # devs) d =
     (case udev_meta sh realpath dev d of
        (meta, d1) \<Rightarrow>
          (case port_list sh realpath devs d1 of
             (ports, d2) \<Rightarrow>
               (\<lparr>po_dev = dev, po_vid = meta_of meta ''ID_VENDOR_ID'', po_pid = meta_of meta ''ID_MODEL_ID'',
                 po_iface = meta_of meta ''ID_USB_INTERFACE_NUM'', po_model = meta_of meta ''ID_MODEL''\<rparr> # ports, d2)))"

text \<open>\<open>_probe_devices\<close>\<close>
definition probe_devices :: "shell \<Rightarrow> (str \<Rightarrow> str) \<Rightarrow> disk \<Rightarrow> port list \<times> disk" where
  "probe_devices sh realpath d =
     (case shell_run sh ListPorts d of (r, d1) \<Rightarrow> port_list sh realpath (split_ws (cp_out r)) d1)"

definition first_text :: "str list \<Rightarrow> str" where
  "first_text xs = (case List.find (\<lambda>x. x \<noteq> []) xs of None \<Rightarrow> [] | Some x \<Rightarrow> x)"

text \<open>The port that answers \<open>AT+CGMM\<close>.\<close>
definition at_port :: "(str \<Rightarrow> str \<Rightarrow> str option) \<Rightarrow> port list \<Rightarrow> port option" where
  "at_port raw ports = List.find (\<lambda>p. at_query raw (po_dev p) CGMM \<noteq> []) ports"

definition is_ec2x :: "port \<Rightarrow> bool" where
  "is_ec2x p \<longleftrightarrow> lower (po_vid p) = S ''2c7c''"

text \<open>The voice port: the NMEA port of an EC2x whose AT port is in its place, else the first other port that
  is not the EC2x diagnosis port.\<close>
definition audio_guess :: "port option \<Rightarrow> port list \<Rightarrow> str" where
  "audio_guess at ports =
     (let nmea = (case at of
            Some p \<Rightarrow> if is_ec2x p \<and> po_iface p = S ''02''
                      then (case List.find (\<lambda>q. po_iface q = S ''01'') ports of Some q \<Rightarrow> po_dev q | None \<Rightarrow> []) else []
          | None \<Rightarrow> [])
      in if nmea \<noteq> [] then nmea
         else case List.find (\<lambda>q. Some (po_dev q) \<noteq> map_option po_dev at \<and> two_digits (po_iface q)
                       \<and> \<not> (is_ec2x q \<and> po_iface q = S ''00'')) ports of
                Some q \<Rightarrow> po_dev q | None \<Rightarrow> [])"

record probe_args =
  pr_commit :: str
  pr_audio :: str
  pr_data :: str
  pr_alsadev :: str

text \<open>\<open>_as_symlink\<close>: \<open>None\<close> is the \<open>ValueError\<close> of an interface number that is not decimal.\<close>
definition as_symlink :: "port list \<Rightarrow> str \<Rightarrow> str option" where
  "as_symlink ports dev =
     (case List.find (\<lambda>p. po_dev p = dev) (rev ports) of
        None \<Rightarrow> Some dev
      | Some p \<Rightarrow>
          if po_iface p = [] then Some dev
          else map_option (\<lambda>n. S ''/dev/dongle_if'' @ int_text n) (parse_int (po_iface p)))"

definition blank_profile :: "str \<Rightarrow> profile" where
  "blank_profile name =
     [(S ''name'', JStr name), (S ''modem_model'', JStr []), (S ''vid_pid'', JStr []), (S ''dongle_name'', JStr (S ''gsm'')),
      (S ''audio_device'', JStr []), (S ''data_device'', JStr []), (S ''sim_phone'', JStr []), (S ''udev'', JList []),
      (S ''verified'', JBool False), (S ''notes'', JStr [])]"

text \<open>The findings of a probe: the devices for data and voice, the sound card and the ports.\<close>
record findings =
  fi_ports :: "port list"
  fi_data :: str
  fi_audio :: str
  fi_alsadev :: str
  fi_voice :: voice

definition probe :: "shell \<Rightarrow> (str \<Rightarrow> str) \<Rightarrow> (str \<Rightarrow> str \<Rightarrow> str option) \<Rightarrow> disk \<Rightarrow> (profile_error + findings) \<times> disk" where
  "probe sh realpath raw d =
     (case probe_devices sh realpath d of
        (ports, d1) \<Rightarrow>
          if ports = [] then (Inl NoDevices, d1)
          else
            (let d2 = snd (shell_run sh ShowDevices d1);
                 at = at_port raw ports;
                 voice = (case at of
                    None \<Rightarrow> NoVoice
                  | Some p \<Rightarrow> (let a = at_query raw (po_dev p) USBCFG in if a = [] then NoVoice else interpret_usbcfg a));
                 (card, d3) = (case at of
                    Some p \<Rightarrow> if voice = Uac then find_uac_card sh (at_query raw (po_dev p) CGMM) d2 else ([], d2)
                  | None \<Rightarrow> ([], d2))
             in (Inr \<lparr>fi_ports = ports, fi_data = (case at of None \<Rightarrow> [] | Some p \<Rightarrow> po_dev p),
                      fi_audio = audio_guess at ports, fi_alsadev = card, fi_voice = voice\<rparr>, d3)))"

text \<open>The profile \<open>probe --commit\<close> writes, from the one it extends.\<close>
definition probed_profile :: "findings \<Rightarrow> probe_args \<Rightarrow> profile \<Rightarrow> profile_error + profile" where
  "probed_profile fi a p =
     (let ports = fi_ports fi;
          data = (if pr_data a = [] then fi_data fi else pr_data a);
          audio = (if fi_voice fi = Uac then [] else if pr_audio a = [] then fi_audio fi else pr_audio a);
          alsadev = (if pr_alsadev a \<noteq> [] then pr_alsadev a else if fi_voice fi = Uac then fi_alsadev fi else []);
          ifaces = filter two_digits (map po_iface (sort_key (\<lambda>p. if po_iface p = [] then S ''99'' else po_iface p) ports));
          model = first_text (map po_model ports);
          p1 = (if model = [] then p else dput (S ''modem_model'') (JStr model) p);
          p2 = (case List.find (\<lambda>p. po_vid p \<noteq> [] \<and> po_pid p \<noteq> []) ports of
                  None \<Rightarrow> p1 | Some q \<Rightarrow> dput (S ''vid_pid'') (JStr (po_vid q @ [58] @ po_pid q)) p1)
      in case (if alsadev = [] then as_symlink ports audio else Some [], as_symlink ports data) of
           (Some audio_link, Some data_link) \<Rightarrow>
             (let p3 = (if alsadev = [] then dpop (S ''alsadev'') (dput (S ''audio_device'') (JStr audio_link) p2)
                        else dput (S ''alsadev'') (JStr alsadev) (dput (S ''audio_device'') (JStr []) p2));
                  p4 = dput (S ''data_device'') (JStr data_link) p3;
                  p5 = (if ifaces = [] then p4 else dput (S ''udev'') (JList (map udev_entry ifaces)) p4)
              in Inr (dput (S ''notes'')
                   (JStr (S ''probe: AT+CGMM answered on data port; port mapping is a GUESS until a live E2E test passes ''
                          @ [8212] @ S '' see AT/USBCFG output in the session log''))
                   (dput (S ''verified'') (JBool False) p5)))
         | _ \<Rightarrow> Inl (Crashed (S ''ValueError'')))"

text \<open>The ports a commit needs.\<close>
definition probe_complete :: "findings \<Rightarrow> probe_args \<Rightarrow> profile_error + unit" where
  "probe_complete fi a =
     (if pr_data a = [] \<and> fi_data fi = [] then Inl NoDataPort
      else if pr_alsadev a = [] \<and> (if fi_voice fi = Uac then fi_alsadev fi = [] else pr_audio a = [] \<and> fi_audio fi = [])
      then Inl NoVoicePath else Inr ())"

definition cmd_probe ::
    "(json \<Rightarrow> str) \<Rightarrow> (str \<Rightarrow> json option) \<Rightarrow> shell \<Rightarrow> (str \<Rightarrow> str) \<Rightarrow> (str \<Rightarrow> str \<Rightarrow> str option) \<Rightarrow> probe_args \<Rightarrow> disk
     \<Rightarrow> (profile_error + int) \<times> disk" where
  "cmd_probe py_repr parse sh realpath raw a d =
     (case probe sh realpath raw d of
        (Inl e, d1) \<Rightarrow> (Inl e, d1)
      | (Inr fi, d1) \<Rightarrow>
          if pr_commit a = [] then (Inr 0, d1)
          else
            (case probe_complete fi a of
               Inl e \<Rightarrow> (Inl e, d1)
             | Inr _ \<Rightarrow>
                 (case profile_path (pr_commit a) of
                    Inl e \<Rightarrow> (Inl e, d1)
                  | Inr name \<Rightarrow>
                      (case (case dget (dk_profiles d1) name of
                               None \<Rightarrow> Inr (blank_profile name) | Some c \<Rightarrow> load_profile py_repr parse c) of
                         Inl e \<Rightarrow> (Inl e, d1)
                       | Inr p \<Rightarrow>
                           (case probed_profile fi a p of
                              Inl e \<Rightarrow> (Inl e, d1)
                            | Inr q \<Rightarrow> map_prod (map_sum id (\<lambda>_. 0)) id (write_profile py_repr q d1))))))"

end
