(* ===== verification/ModemProfileProps.thy ===== *)
theory ModemProfileProps
  imports ModemProfile
begin

text \<open>
  What a switch of the modem guarantees: it changes nothing when it fails or when there is nothing to do,
  it leaves every file as the profile says with the old contents backed up, and running it again is a
  no-op. The line-based editing of the configuration changes one field and nothing else.
\<close>

section \<open>Lines\<close>

lemma concat_lines_keep: "concat (lines_keep s) = s"
proof (induction s rule: lines_keep.induct)
  case (2 c cs)
  show ?case
  proof (cases "is_break c")
    case True
    show ?thesis
    proof (cases cs)
      case Nil
      with True show ?thesis by simp
    next
      case (Cons d ds)
      have "lines_keep (c # cs) = (if c = 13 \<and> d = 10 then [c, d] # lines_keep ds else [c] # lines_keep cs)"
        using True Cons by (subst lines_keep.simps) simp
      with 2(1) [OF True Cons] 2(2) [OF True Cons] Cons show ?thesis by auto
    qed
  next
    case False
    then have "lines_keep (c # cs) = (case lines_keep cs of [] \<Rightarrow> [[c]] | l # ls \<Rightarrow> (c # l) # ls)"
      by (subst lines_keep.simps) simp
    with 2(3) [OF False] show ?thesis by (cases "lines_keep cs") auto
  qed
qed simp

definition unbroken :: "str \<Rightarrow> bool" where
  "unbroken s \<longleftrightarrow> (\<forall>c \<in> set s. \<not> is_break c)"

text \<open>A text whose only line breaks are line feeds.\<close>
definition plain_breaks :: "str \<Rightarrow> bool" where
  "plain_breaks s \<longleftrightarrow> (\<forall>c \<in> set s. is_break c \<longrightarrow> c = 10)"

definition line_form :: "bool \<Rightarrow> str \<Rightarrow> bool" where
  "line_form final l \<longleftrightarrow> (\<exists>a. unbroken a \<and> (l = a @ [10] \<or> final \<and> l = a \<and> a \<noteq> []))"

fun line_list :: "str list \<Rightarrow> bool" where
  "line_list [] = True"
| "line_list (l # ls) = (line_form (ls = []) l \<and> line_list ls)"

lemma unbroken_simps [simp]:
  "unbroken []" "unbroken (c # s) \<longleftrightarrow> \<not> is_break c \<and> unbroken s" "unbroken (a @ b) \<longleftrightarrow> unbroken a \<and> unbroken b"
  by (auto simp: unbroken_def)

lemma plain_breaks_Cons [simp]: "plain_breaks (c # s) \<longleftrightarrow> (is_break c \<longrightarrow> c = 10) \<and> plain_breaks s"
  by (simp add: plain_breaks_def)

lemma breaks [simp]: "is_break 10" "\<not> is_break 32" "\<not> is_break 9" "\<not> is_break 58" "\<not> is_break 34"
  by (simp_all add: is_break_def)

lemma lines_keep_line: "unbroken a \<Longrightarrow> lines_keep (a @ 10 # s) = (a @ [10]) # lines_keep s"
  by (induction a) (simp_all split: list.split)

lemma lines_keep_last: "unbroken a \<Longrightarrow> a \<noteq> [] \<Longrightarrow> lines_keep a = [a]"
proof (induction a)
  case (Cons c a)
  then show ?case by (cases a) simp_all
qed simp

lemma lines_keep_concat: "line_list ls \<Longrightarrow> lines_keep (concat ls) = ls"
proof (induction ls)
  case (Cons l ls)
  then obtain a where a: "unbroken a" "l = a @ [10] \<or> ls = [] \<and> l = a \<and> a \<noteq> []"
    by (auto simp: line_form_def)
  show ?case
  proof (cases "l = a @ [10]")
    case True
    with a(1) Cons show ?thesis by (simp add: lines_keep_line)
  next
    case False
    with a show ?thesis by (simp add: lines_keep_last)
  qed
qed simp

lemma line_form_Cons: "\<not> is_break c \<Longrightarrow> line_form final l \<Longrightarrow> line_form final (c # l)"
  unfolding line_form_def by (metis append_Cons list.distinct(1) unbroken_simps(2))

lemma line_form_single: "\<not> is_break c \<Longrightarrow> line_form True [c]" "line_form final [10]"
  unfolding line_form_def by (rule exI [of _ "[c]"], simp, rule exI [of _ "[]"], simp)

lemma line_list_keep: "plain_breaks s \<Longrightarrow> line_list (lines_keep s)"
proof (induction s)
  case (Cons c s)
  show ?case
  proof (cases "is_break c")
    case True
    with Cons have "lines_keep (c # s) = [10] # lines_keep s" using lines_keep_line [of "[]" s] by simp
    with Cons show ?thesis by (simp add: line_form_single)
  next
    case False
    with Cons show ?thesis by (cases "lines_keep s") (simp_all add: line_form_single line_form_Cons)
  qed
qed simp

section \<open>Spaces\<close>

lemma space_facts [simp]: "is_space 32" "is_space 9" "is_space 10" "\<not> is_space 58" "\<not> is_space 34"
  by (simp_all add: is_space_def space_points_def)

lemma indented_iff: "indented l \<longleftrightarrow> l \<noteq> [] \<and> (hd l = 32 \<or> hd l = 9)"
  by (cases l) (auto simp: indented_def startswith_def)

lemma lstrip_word: "s = [] \<or> \<not> is_space (hd s) \<Longrightarrow> lstrip s = s"
  by (cases s) (auto simp: lstrip_def)

lemma lstrip_blanks: "\<forall>c \<in> set a. is_space c \<Longrightarrow> lstrip (a @ s) = lstrip s"
  by (induction a) (simp_all add: lstrip_def)

lemma rstrip_newline [simp]: "rstrip (a @ [10]) = rstrip a"
  by (simp add: rstrip_def)

lemma chomp_line [simp]: "unbroken a \<Longrightarrow> chomp (a @ [10]) = a" "unbroken a \<Longrightarrow> chomp a = a"
  by (induction a) (simp_all add: chomp_def)

lemma line_formE:
  assumes "line_form final l"
  obtains a where "unbroken a" "chomp l = a" "l = a @ [10] \<or> final \<and> l = a \<and> a \<noteq> []"
  using assms that by (auto simp: line_form_def)

lemma indented_chomp: "line_form final l \<Longrightarrow> indented (chomp l) = indented l"
proof (elim line_formE)
  fix a assume "chomp l = a" "l = a @ [10] \<or> final \<and> l = a \<and> a \<noteq> []"
  then show ?thesis by (cases a) (auto simp: indented_iff)
qed

lemma in_section_chomp: "line_form final l \<Longrightarrow> in_section sec inside (chomp l) = in_section sec inside l"
  using indented_chomp by (auto simp: in_section_def line_form_def)

lemma rstrip_hd: "rstrip l = c # s \<Longrightarrow> l \<noteq> [] \<and> hd l = c"
proof -
  assume r: "rstrip l = c # s"
  have "l = rstrip l @ rev (takeWhile is_space (rev l))"
    unfolding rstrip_def by (metis rev_append rev_rev_ident takeWhile_dropWhile_id)
  with r show ?thesis by (metis append_Cons list.sel(1) list.distinct(1))
qed

text \<open>A word can name a section or a key: not empty, not beginning with a space, without breaks.\<close>
definition word_start :: "str \<Rightarrow> bool" where
  "word_start s \<longleftrightarrow> s \<noteq> [] \<and> \<not> is_space (hd s) \<and> unbroken s"

text \<open>A line of a key inside a section is indented.\<close>
lemma key_line_indented:
  assumes "word_start sec" and "in_section sec inside l" and "key_line key l"
  shows "indented l"
proof (rule ccontr)
  assume n: "\<not> indented l"
  with assms(2) have "rstrip l = sec @ [58]" by (simp add: in_section_def)
  with assms(1) have "hd l = hd sec"
    by (cases sec) (auto simp: word_start_def dest: rstrip_hd)
  with assms show False by (simp add: word_start_def key_line_def)
qed


section \<open>Editing a field\<close>

lemma startswith_append_self [simp]: "startswith (p @ s) p"
  by (simp add: startswith_def)

lemma startswith_split: "startswith s p \<Longrightarrow> \<exists>r. s = p @ r"
  by (metis append_take_drop_id startswith_def)

lemma patched_facts:
  assumes "word_start key" and "indented l"
  shows "indented (patched_line key val l)" and "key_line key (patched_line key val l)"
    and "in_section sec inside (patched_line key val l) = inside"
proof -
  define ws where "ws = takeWhile (\<lambda>c. c = 32 \<or> c = 9) l"
  define fin where "fin = (if l \<noteq> [] \<and> last l = 10 then [10 :: nat] else [])"
  have p: "patched_line key val l = ws @ key @ [58, 32] @ val @ fin" by (simp add: patched_line_def ws_def fin_def)
  have ws: "ws \<noteq> []" "hd ws = 32 \<or> hd ws = 9" "\<forall>c \<in> set ws. is_space c"
  proof -
    obtain c l0 where l: "l = c # l0" "c = 32 \<or> c = 9" using assms(2) by (cases l) (simp_all add: indented_iff)
    then have "ws = c # takeWhile (\<lambda>c. c = 32 \<or> c = 9) l0" by (auto simp: ws_def)
    with l(2) show "ws \<noteq> []" "hd ws = 32 \<or> hd ws = 9" by simp_all
    show "\<forall>c \<in> set ws. is_space c" unfolding ws_def
      by (intro ballI) (drule set_takeWhileD, elim conjE disjE, simp_all)
  qed
  show i: "indented (patched_line key val l)" using ws by (simp add: p indented_iff)
  show "in_section sec inside (patched_line key val l) = inside" by (simp add: in_section_def i)
  have "lstrip (key @ [58, 32] @ val @ fin) = key @ [58, 32] @ val @ fin"
    using assms(1) by (intro lstrip_word) (simp add: word_start_def)
  then have "lstrip (patched_line key val l) = key @ [58, 32] @ val @ fin" by (simp only: p lstrip_blanks [OF ws(3)])
  then show "key_line key (patched_line key val l)"
    using ws by (auto simp: key_line_def p lstrip_word startswith_def)
qed

lemma patched_twice:
  assumes "word_start key" and "indented l" and "unbroken val"
  shows "patched_line key val (patched_line key val l) = patched_line key val l"
proof -
  have "hd key \<noteq> 32" "hd key \<noteq> 9" "key \<noteq> []" using assms(1) by (auto simp: word_start_def)
  then have "takeWhile (\<lambda>c. c = 32 \<or> c = 9) (ws @ key @ s) = ws" if "\<forall>c \<in> set ws. c = 32 \<or> c = 9" for ws s
  proof -
    have "takeWhile (\<lambda>c. c = 32 \<or> c = 9) (ws @ key @ s) = ws @ takeWhile (\<lambda>c. c = 32 \<or> c = 9) (key @ s)"
      by (rule takeWhile_append2) (use that in blast)
    with \<open>hd key \<noteq> 32\<close> \<open>hd key \<noteq> 9\<close> \<open>key \<noteq> []\<close> show ?thesis by (cases key) simp_all
  qed
  note take = this
  define ws where "ws = takeWhile (\<lambda>c. c = 32 \<or> c = 9) l"
  have ws: "\<forall>c \<in> set ws. c = 32 \<or> c = 9" unfolding ws_def by (intro ballI) (drule set_takeWhileD, simp)
  define nl where "nl = (if l \<noteq> [] \<and> last l = 10 then [10 :: nat] else [])"
  have p: "patched_line key val l = ws @ key @ [58, 32] @ val @ nl" by (simp add: patched_line_def ws_def nl_def)
  have "last ([58, 32] @ val) \<noteq> 10"
  proof (cases "val = []")
    case False
    then have "\<not> is_break (last val)" using assms(3) last_in_set [of val] by (simp add: unbroken_def)
    then have "last val \<noteq> 10" using breaks(1) by metis
    with False show ?thesis by simp
  qed simp
  moreover have "last (ws @ key @ [58, 32] @ val @ nl) = last ([58, 32] @ val @ nl)" by simp
  ultimately have "last (ws @ key @ [58, 32] @ val @ nl) = 10 \<longleftrightarrow> nl = [10]"
    by (cases "nl = []") (auto simp: nl_def split: if_splits)
  moreover have "nl = [] \<or> nl = [10]" by (simp add: nl_def)
  ultimately show ?thesis
    using take [OF ws, of "[58, 32] @ val @ nl"] unfolding p by (subst patched_line_def) auto
qed

lemma line_form_patched:
  assumes "line_form final l" and "unbroken key" and "unbroken val"
  shows "line_form final (patched_line key val l)"
proof -
  obtain a where a: "unbroken a" "l = a @ [10] \<or> final \<and> l = a \<and> a \<noteq> []" using line_formE [OF assms(1)] by metis
  define b where "b = takeWhile (\<lambda>c. c = 32 \<or> c = 9) l @ key @ [58, 32] @ val"
  have "unbroken (takeWhile (\<lambda>c. c = 32 \<or> c = 9) l)"
    unfolding unbroken_def by (intro ballI) (drule set_takeWhileD, auto)
  with assms(2,3) have b: "unbroken b" "b \<noteq> []" by (simp_all add: b_def)
  have p: "patched_line key val l = b @ (if l \<noteq> [] \<and> last l = 10 then [10] else [])"
    by (simp add: patched_line_def b_def)
  show ?thesis
  proof (cases "l = a @ [10]")
    case True
    with b p show ?thesis by (auto simp: line_form_def)
  next
    case False
    with a have l: "final" "l = a" "a \<noteq> []" by simp_all
    moreover have "last a \<noteq> 10" using last_in_set [OF l(3)] a(1) by (auto simp: unbroken_def)
    ultimately show ?thesis using b p by (auto simp: line_form_def)
  qed
qed


text \<open>What an edit does to the list of lines.\<close>
lemma patch_scan_split:
  "patch_scan sec key val inside ls = Some ls' \<Longrightarrow>
     \<exists>pre l post. ls = pre @ l # post \<and> ls' = pre @ patched_line key val l # post \<and> key_line key l"
proof (induction ls arbitrary: inside ls')
  case (Cons l ls)
  show ?case
  proof (cases "in_section sec inside l \<and> key_line key l")
    case True
    with Cons.prems show ?thesis by (intro exI [of _ "[]"] exI [of _ l] exI [of _ ls]) (simp add: Let_def)
  next
    case False
    with Cons.prems obtain ls0 where r: "patch_scan sec key val (in_section sec inside l) ls = Some ls0" "ls' = l # ls0"
      by (auto simp: Let_def)
    from Cons.IH [OF r(1)] obtain pre m post where "ls = pre @ m # post" "ls0 = pre @ patched_line key val m # post" "key_line key m"
      by blast
    with r(2) show ?thesis by (intro exI [of _ "l # pre"] exI [of _ m] exI [of _ post]) simp
  qed
qed simp

lemma patch_scan_lines:
  "patch_scan sec key val inside ls = Some ls' \<Longrightarrow> line_list ls \<Longrightarrow> unbroken key \<Longrightarrow> unbroken val \<Longrightarrow>
     line_list ls' \<and> (ls' = [] \<longleftrightarrow> ls = [])"
  by (induction ls arbitrary: inside ls') (auto simp: Let_def line_form_patched split: if_splits)

lemma field_value_key_line:
  assumes "line_form final l" and "word_start key" and "field_value key (chomp l) = Some v"
  shows "key_line key l"
proof -
  obtain a where a: "unbroken a" "chomp l = a" "l = a @ [10] \<or> final \<and> l = a \<and> a \<noteq> []"
    using line_formE [OF assms(1)] by metis
  with assms(3) have f: "a \<noteq> []" "is_space (hd a)" "startswith (lstrip a) (key @ [58])"
    by (auto simp: field_value_def split: if_splits)
  then obtain r where r: "lstrip a = key @ 58 # r" using startswith_split by fastforce
  have "lstrip (a @ s) = lstrip a @ s" for s
    using r unfolding lstrip_def by (simp add: dropWhile_append) (metis dropWhile_eq_Nil_conv append_is_Nil_conv list.distinct(1))
  from this [of "[10]"] r have "lstrip (a @ [10]) = key @ 58 # r @ [10]" by simp
  with a(3) f(1,2) r have "l \<noteq> [] \<and> is_space (hd l) \<and> (\<exists>q. lstrip l = key @ 58 # q)"
    by (elim disjE) auto
  then show ?thesis by (auto simp: key_line_def lstrip_word startswith_def)
qed

lemma field_value_patched:
  assumes "word_start key" and "indented l" and "unbroken val"
  shows "field_value key (chomp (patched_line key val l)) = Some (unquote (strip val))"
proof -
  define ws where "ws = takeWhile (\<lambda>c. c = 32 \<or> c = 9) l"
  have ws: "\<forall>c \<in> set ws. c = 32 \<or> c = 9" unfolding ws_def by (intro ballI) (drule set_takeWhileD, simp)
  then have sp: "\<forall>c \<in> set ws. is_space c" "unbroken ws" by (auto simp: unbroken_def)
  have ne: "ws \<noteq> []" "is_space (hd ws)"
    using assms(2) by (cases l; auto simp: ws_def indented_iff)+
  define b where "b = ws @ key @ [58, 32] @ val"
  have "unbroken b" using sp(2) assms(1,3) by (simp add: b_def word_start_def)
  moreover have "patched_line key val l = b \<or> patched_line key val l = b @ [10]"
    by (simp add: patched_line_def b_def ws_def)
  ultimately have c: "chomp (patched_line key val l) = b" by auto
  have "lstrip b = key @ [58, 32] @ val"
    unfolding b_def lstrip_blanks [OF sp(1)] using assms(1) by (intro lstrip_word) (simp add: word_start_def)
  moreover have "strip (32 # val) = strip val" by (simp add: strip_def lstrip_def)
  moreover have "b \<noteq> []" "is_space (hd b)" using ne by (simp_all add: b_def)
  ultimately show ?thesis by (simp add: field_value_def c startswith_def)
qed

text \<open>Reading back an edited field.\<close>
lemma scan_patched:
  assumes "word_start sec" and "word_start key" and "unbroken val"
  shows "patch_scan sec key val inside ls = Some ls' \<Longrightarrow> line_list ls \<Longrightarrow>
     yaml_scan sec key inside (map chomp ls') = unquote (strip val)"
proof (induction ls arbitrary: inside ls')
  case (Cons l ls)
  then have form: "line_form (ls = []) l" by simp
  show ?case
  proof (cases "in_section sec inside l \<and> key_line key l")
    case True
    then have i: "indented l" using key_line_indented assms(1) by blast
    then have inside using True by (simp add: in_section_def)
    have ls': "ls' = patched_line key val l # ls" using True Cons.prems by (simp add: Let_def)
    have pf: "line_form (ls = []) (patched_line key val l)"
      using line_form_patched form assms by (simp add: word_start_def)
    have "field_value key (chomp (patched_line key val l)) = Some (unquote (strip val))"
      using field_value_patched [OF assms(2) i assms(3)] .
    moreover have "indented (chomp (patched_line key val l))"
      using patched_facts(1) [OF assms(2) i] indented_chomp [OF pf] by simp
    ultimately show ?thesis using \<open>inside\<close> by (simp add: ls')
  next
    case False
    with Cons.prems obtain ls0 where r: "patch_scan sec key val (in_section sec inside l) ls = Some ls0" "ls' = l # ls0"
      by (auto simp: Let_def)
    have IH: "yaml_scan sec key (in_section sec inside l) (map chomp ls0) = unquote (strip val)"
      using Cons.IH [OF r(1)] Cons.prems(2) by simp
    show ?thesis
    proof (cases "indented l \<and> inside")
      case True
      then have "\<not> key_line key l" using False by (simp add: in_section_def)
      then have "field_value key (chomp l) = None"
        using field_value_key_line [OF form assms(2)] by (cases "field_value key (chomp l)") blast+
      with True IH show ?thesis using indented_chomp [OF form] by (simp add: r(2) in_section_def)
    next
      case False
      with IH show ?thesis
        using indented_chomp [OF form] in_section_chomp [OF form] by (auto simp: r(2) in_section_def)
    qed
  qed
qed simp


lemma patch_scan_again:
  assumes "word_start sec" and "word_start key" and "unbroken val"
  shows "patch_scan sec key val inside ls = Some ls' \<Longrightarrow> patch_scan sec key val inside ls' = Some ls'"
proof (induction ls arbitrary: inside ls')
  case (Cons l ls)
  show ?case
  proof (cases "in_section sec inside l \<and> key_line key l")
    case True
    then have i: "indented l" using key_line_indented assms(1) by blast
    then have inside using True by (simp add: in_section_def)
    with True Cons.prems show ?thesis
      using patched_facts [OF assms(2) i] patched_twice [OF assms(2) i assms(3)] by (auto simp: Let_def)
  next
    case False
    with Cons.prems obtain ls0 where r: "patch_scan sec key val (in_section sec inside l) ls = Some ls0" "ls' = l # ls0"
      by (auto simp: Let_def)
    from Cons.IH [OF r(1)] False show ?thesis by (auto simp: r(2) Let_def)
  qed
qed simp

text \<open>Editing a field of another section keeps a field that is already as it should be.\<close>
lemma patch_scan_other:
  assumes "word_start s1" and "word_start s2" and "s1 \<noteq> s2" and "word_start k2"
  shows "patch_scan s1 k1 v1 i1 ls = Some ls \<Longrightarrow> patch_scan s2 k2 v2 i2 ls = Some ls' \<Longrightarrow> \<not> (i1 \<and> i2) \<Longrightarrow>
     patch_scan s1 k1 v1 i1 ls' = Some ls'"
proof (induction ls arbitrary: i1 i2 ls')
  case (Cons l ls)
  have excl: "\<not> (in_section s1 i1 l \<and> in_section s2 i2 l)"
    using Cons.prems(3) assms(3) by (auto simp: in_section_def)
  show ?case
  proof (cases "in_section s2 i2 l \<and> key_line k2 l")
    case True
    then have i: "indented l" using key_line_indented assms(2) by blast
    then have "\<not> i1" using True excl by (simp add: in_section_def)
    moreover have "ls' = patched_line k2 v2 l # ls" using True Cons.prems(2) by (simp add: Let_def)
    moreover have "patch_scan s1 k1 v1 i1 ls = Some ls"
      using Cons.prems(1) i \<open>\<not> i1\<close> by (auto simp: Let_def in_section_def)
    ultimately show ?thesis using patched_facts(3) [OF assms(4) i] by (simp add: Let_def)
  next
    case False
    with Cons.prems(2) obtain ls0 where r: "patch_scan s2 k2 v2 (in_section s2 i2 l) ls = Some ls0" "ls' = l # ls0"
      by (auto simp: Let_def)
    show ?thesis
    proof (cases "in_section s1 i1 l \<and> key_line k1 l")
      case True
      with Cons.prems(1) show ?thesis by (simp add: r(2) Let_def)
    next
      case False
      with Cons.prems(1) have "patch_scan s1 k1 v1 (in_section s1 i1 l) ls = Some ls" by (auto simp: Let_def)
      from Cons.IH [OF this r(1) excl] False show ?thesis by (auto simp: r(2) Let_def)
    qed
  qed
qed simp

lemma quoted_back: "unquote (strip (quoted v)) = v"
proof -
  have "strip (quoted v) = quoted v"
    by (simp add: strip_def lstrip_def rstrip_def quoted_def)
  then show ?thesis by (simp add: unquote_def quoted_def)
qed

lemma unbroken_quoted [simp]: "unbroken (quoted v) = unbroken v"
  by (simp add: quoted_def)

lemma patch_field_scan:
  assumes "patch_yaml_field content sec key v quote = Inr content'" and "plain_breaks content"
    and "word_start (S key)" and "unbroken v"
  shows "patch_scan (S sec) (S key) (if quote then quoted v else v) False (lines_keep content) = Some (lines_keep content')"
    and "line_list (lines_keep content')" and "plain_breaks content'"
proof -
  obtain ls where ls: "patch_scan (S sec) (S key) (if quote then quoted v else v) False (lines_keep content) = Some ls"
    "content' = concat ls"
    using assms(1) by (auto simp: patch_yaml_field_def split: option.splits)
  then have l: "line_list ls"
    using patch_scan_lines [OF ls(1) line_list_keep [OF assms(2)]] assms(3,4) by (auto simp: word_start_def)
  with ls show "patch_scan (S sec) (S key) (if quote then quoted v else v) False (lines_keep content) = Some (lines_keep content')"
    and "line_list (lines_keep content')" by (simp_all add: lines_keep_concat)
  from l show "plain_breaks content'"
    unfolding ls(2) by (induction ls) (auto simp: line_form_def plain_breaks_def unbroken_def)
qed

section \<open>The configuration\<close>

text \<open>Editing the configuration changes one field and nothing else. When a field of a section is set
  in a file whose lines end with line feeds, reading it back gives the value, and the file is as
  before but for one line of that key, whose indentation and end it keeps.\<close>
theorem config_edit_exact:
  assumes "patch_yaml_field content sec key v quote = Inr content'" and "plain_breaks content"
    and "word_start (S sec)" and "word_start (S key)" and "unbroken v"
    and "quote \<or> strip v = v \<and> unquote v = v"
  shows "yaml_field content' sec key = v
     \<and> (\<exists>pre l post. content = pre @ l @ post \<and> key_line (S key) l
          \<and> content' = pre @ patched_line (S key) (if quote then quoted v else v) l @ post)"
proof -
  let ?val = "if quote then quoted v else v"
  note scan = patch_field_scan(1) [OF assms(1,2,4,5)]
  have "unbroken ?val" using assms(5) by simp
  from scan_patched [OF assms(3,4) this scan line_list_keep [OF assms(2)]]
  have "yaml_field content' sec key = unquote (strip ?val)" by (simp add: yaml_field_def)
  also have "\<dots> = v" using assms(6) by (auto simp: quoted_back)
  finally have v: "yaml_field content' sec key = v" .
  from patch_scan_split [OF scan] obtain pre l post where "lines_keep content = pre @ l # post" "key_line (S key) l"
    "lines_keep content' = pre @ patched_line (S key) ?val l # post" by blast
  then have "content = concat pre @ l @ concat post" "content' = concat pre @ patched_line (S key) ?val l @ concat post"
    by (metis concat.simps(2) concat_append concat_lines_keep)+
  with v \<open>key_line (S key) l\<close> show ?thesis by blast
qed


section \<open>The switch\<close>

lemma no_cr: "13 \<notin> set s \<Longrightarrow> universal_newlines s = s"
  by (induction s rule: universal_newlines.induct) auto

lemma universal_no_cr: "13 \<notin> set (universal_newlines s)"
  by (induction s rule: universal_newlines.induct) auto

lemma plain_no_cr: "plain_breaks s \<Longrightarrow> universal_newlines s = s"
  by (rule no_cr) (auto simp: plain_breaks_def is_break_def)

text \<open>A profile whose texts have no line breaks in them.\<close>
definition plain_profile :: "(json \<Rightarrow> str) \<Rightarrow> profile \<Rightarrow> bool" where
  "plain_profile py_repr p \<longleftrightarrow>
     (\<forall>k \<in> {''name'', ''modem_model'', ''vid_pid'', ''dongle_name'', ''audio_device'', ''alsadev'', ''data_device''}.
        unbroken (shown_field py_repr p k))
     \<and> (\<forall>e \<in> set (udev_entries p). unbroken (entry_text py_repr e ''iface'') \<and> unbroken (entry_text py_repr e ''symlink''))"

lemma cr_break: "is_break 13"
  by (simp add: is_break_def)

lemma unbroken_cr: "unbroken s \<Longrightarrow> 13 \<notin> set s"
  using cr_break by (auto simp: unbroken_def)

lemma conf_no_cr: "plain_profile py_repr p \<Longrightarrow> universal_newlines (render_dongle_conf py_repr p) = render_dongle_conf py_repr p"
  by (rule no_cr) (simp add: plain_profile_def render_dongle_conf_def join_lines_def unbroken_cr S_def Let_def)

lemma vid_and_pid_cr: "plain_profile py_repr p \<Longrightarrow> 13 \<notin> set (fst (vid_and_pid p)) \<and> 13 \<notin> set (snd (vid_and_pid p))"
proof -
  assume "plain_profile py_repr p"
  then have "13 \<notin> set (text_field p ''vid_pid'')"
    by (auto simp: plain_profile_def text_field_def shown_field_def unbroken_cr split: option.splits json.splits)
  moreover have "x \<in> set (split_all c t) \<Longrightarrow> set x \<subseteq> set t" for x c t
    by (induction c t arbitrary: x rule: split_all.induct) (fastforce split: if_splits list.splits)+
  moreover define t where "t = (if has_value p ''vid_pid'' then text_field p ''vid_pid'' else [])"
  ultimately have t: "x \<in> set (split_all 58 t) \<Longrightarrow> 13 \<notin> set x" for x by (auto split: if_splits)
  show ?thesis
  proof (cases "\<exists>v q. split_all 58 t = [v, q]")
    case True
    with t show ?thesis by (auto simp: vid_and_pid_def simp flip: t_def)
  next
    case False
    then have "vid_and_pid p = ([], [])" unfolding vid_and_pid_def t_def [symmetric] by (simp split: list.split)
    then show ?thesis by simp
  qed
qed

lemma cr_join: "13 \<in> set (join_lines ls) \<longleftrightarrow> (\<exists>l \<in> set ls. 13 \<in> set l)"
  by (auto simp: join_lines_def)

lemma rules_no_cr:
  assumes "plain_profile py_repr p" and "render_udev_rules py_repr p = Inr r"
  shows "universal_newlines r = r"
proof (rule no_cr)
  obtain vid pid where v: "vid_and_pid p = (vid, pid)" by (rule prod.exhaust)
  then have "13 \<notin> set vid" "13 \<notin> set pid" using vid_and_pid_cr [OF assms(1)] by simp_all
  then have rules: "13 \<notin> set i \<Longrightarrow> 13 \<notin> set l \<Longrightarrow> 13 \<notin> set (udev_rule pid i l)"
    "13 \<notin> set (ignore_self_rule vid pid)" "13 \<notin> set (ignore_subtree_rule vid pid)" for i l
    by (simp_all add: udev_rule_def ignore_self_rule_def ignore_subtree_rule_def quoted_def S_def)
  have entries: "13 \<notin> set (udev_rule pid (entry_text py_repr e ''iface'') (entry_text py_repr e ''symlink''))"
    if "e \<in> set (udev_entries p)" for e
    using assms(1) that by (intro rules) (auto simp: plain_profile_def unbroken_cr)
  have fields: "13 \<notin> set (shown_field py_repr p ''name'')" "13 \<notin> set (shown_field py_repr p ''modem_model'')"
    "13 \<notin> set (shown_field py_repr p ''vid_pid'')"
    using assms(1) by (simp_all add: plain_profile_def unbroken_cr)
  from assms(2) obtain heads where "r = join_lines (heads @ map (\<lambda>e. udev_rule pid (entry_text py_repr e ''iface'')
        (entry_text py_repr e ''symlink'')) (udev_entries p))" "\<forall>l \<in> set heads. 13 \<notin> set l"
  proof (rule_tac that)
    let ?heads = "[S ''# SimBridge dongle symlinks '' @ [8212] @ S '' GENERATED by scripts/modem_profile.py'',
             S ''# Profile: '' @ shown_field py_repr p ''name'' @ [32, 8212, 32] @ shown_field py_repr p ''modem_model''
               @ S '' ('' @ shown_field py_repr p ''vid_pid'' @ S '')'',
             S ''# Do NOT edit manually.'']
            @ (if vid = [] then [] else [ignore_self_rule vid pid, ignore_subtree_rule vid pid])"
    show "r = join_lines (?heads @ map (\<lambda>e. udev_rule pid (entry_text py_repr e ''iface'')
        (entry_text py_repr e ''symlink'')) (udev_entries p))"
      using assms(2) by (simp add: render_udev_rules_def v Let_def split: if_splits)
    show "\<forall>l \<in> set ?heads. 13 \<notin> set l" using fields rules(2,3) by (simp add: S_def)
  qed
  with entries show "13 \<notin> set r" by (auto simp: cr_join)
qed


text \<open>The disk after the artifacts are rendered.\<close>
lemma holds_write: "universal_newlines t = t \<Longrightarrow> holds_text a t (write_file a t d)"
  by (simp add: holds_text_def write_file_def)

lemma apply_frame:
  assumes "apply_artifacts py_repr sh p d = (Inr (), d1)"
  shows "dk_profiles d1 = dk_profiles d" and "a \<in> {ConfigYaml, ActivePointer} \<Longrightarrow> dk_file d1 a = dk_file d a"
proof -
  have "dk_profiles (backup_all d) = dk_profiles d \<and> dk_file (backup_all d) = dk_file d"
    by (simp add: backup_all_def backup_def split: option.split)
  moreover have "dk_profiles (update_dongle_conf c e) = dk_profiles e
      \<and> (a \<noteq> DongleConf \<longrightarrow> dk_file (update_dongle_conf c e) a = dk_file e a)" for c e a
    by (simp add: update_dongle_conf_def write_file_def)
  moreover have "dk_profiles (retire_legacy_udev_rule q e) = dk_profiles e
      \<and> (a \<noteq> LegacyRule \<longrightarrow> dk_file (retire_legacy_udev_rule q e) a = dk_file e a)" for q e a
    by (simp add: retire_legacy_udev_rule_def remove_file_def backup_def Let_def split: option.split)
  moreover have "dk_profiles (update_udev_rule sh r e) = dk_profiles e
      \<and> (a \<noteq> UdevRule \<longrightarrow> dk_file (update_udev_rule sh r e) a = dk_file e a)" for r e a
    by (simp add: update_udev_rule_def shell_run_def write_file_def)
  ultimately show "dk_profiles d1 = dk_profiles d" "a \<in> {ConfigYaml, ActivePointer} \<Longrightarrow> dk_file d1 a = dk_file d a"
    using assms by (auto simp: apply_artifacts_def Let_def split: if_splits sum.splits)
qed

lemma apply_written:
  assumes "apply_artifacts py_repr sh p d = (Inr (), d1)" and "plain_profile py_repr p"
  shows "holds_text DongleConf (render_dongle_conf py_repr p) d1"
    and "has_value p ''vid_pid'' \<and> has_value p ''udev'' \<Longrightarrow> render_udev_rules py_repr p = Inr r \<Longrightarrow> holds_text UdevRule r d1"
proof -
  have conf: "holds_text DongleConf (render_dongle_conf py_repr p) (update_dongle_conf (render_dongle_conf py_repr p) e)" for e
    using conf_no_cr [OF assms(2)] by (simp add: update_dongle_conf_def holds_write)
  then show "holds_text DongleConf (render_dongle_conf py_repr p) d1"
    using assms(1) by (auto simp: apply_artifacts_def Let_def split: if_splits sum.splits)
  assume h: "has_value p ''vid_pid'' \<and> has_value p ''udev''" "render_udev_rules py_repr p = Inr r"
  have "holds_text UdevRule r (update_udev_rule sh r e)" for e
    using rules_no_cr [OF assms(2) h(2)]
    by (simp add: update_udev_rule_def shell_run_def holds_text_def write_file_def)
  then have "holds_text UdevRule r (update_dongle_conf c (retire_legacy_udev_rule p (update_udev_rule sh r e)))" for c e
    by (simp add: holds_text_def update_dongle_conf_def write_file_def retire_legacy_udev_rule_def remove_file_def backup_def
        Let_def split: option.split)
  with assms(1) h show "holds_text UdevRule r d1"
    by (auto simp: apply_artifacts_def Let_def split: if_splits)
qed

text \<open>What the backups hold after the artifacts are rendered.\<close>
lemma apply_backups:
  assumes "apply_artifacts py_repr sh p d = (Inr (), d1)"
  shows "a \<noteq> LegacyRule \<Longrightarrow> dk_file d a = Some old \<Longrightarrow> (a, old) \<in> set (dk_backups d1)"
    and "dk_file d LegacyRule = Some old \<Longrightarrow> dk_file d1 LegacyRule \<noteq> Some old \<Longrightarrow> (LegacyRule, old) \<in> set (dk_backups d1)"
proof -
  have all: "a \<noteq> LegacyRule \<Longrightarrow> dk_file d a = Some old \<Longrightarrow> (a, old) \<in> set (dk_backups (backup_all d))" for a old
    by (cases a) (auto simp: backup_all_def backup_def split: option.splits)
  have same: "dk_file (backup_all d) = dk_file d"
    by (simp add: backup_all_def backup_def split: option.split)
  have conf: "dk_backups (update_dongle_conf c e) = dk_backups e \<and> dk_file (update_dongle_conf c e) LegacyRule = dk_file e LegacyRule" for c e
    by (simp add: update_dongle_conf_def write_file_def)
  have rules: "dk_backups (update_udev_rule sh r e) = dk_backups e \<and> dk_file (update_udev_rule sh r e) LegacyRule = dk_file e LegacyRule" for r e
    by (simp add: update_udev_rule_def shell_run_def write_file_def)
  have leg: "set (dk_backups e) \<subseteq> set (dk_backups (retire_legacy_udev_rule p e))
      \<and> (dk_file e LegacyRule = Some old \<longrightarrow> dk_file (retire_legacy_udev_rule p e) LegacyRule = Some old
           \<or> (LegacyRule, old) \<in> set (dk_backups (retire_legacy_udev_rule p e)))" for e old
    by (auto simp: retire_legacy_udev_rule_def remove_file_def backup_def Let_def split: option.split)
  obtain c e where d1: "d1 = update_dongle_conf c e"
    and e: "e = backup_all d \<or> (\<exists>r. e = retire_legacy_udev_rule p (update_udev_rule sh r (backup_all d)))"
    using assms by (auto simp: apply_artifacts_def Let_def split: if_splits sum.splits)
  have kept: "set (dk_backups (backup_all d)) \<subseteq> set (dk_backups d1)" using e leg conf rules by (metis d1 order_refl)
  with all show "a \<noteq> LegacyRule \<Longrightarrow> dk_file d a = Some old \<Longrightarrow> (a, old) \<in> set (dk_backups d1)" by blast
  assume h: "dk_file d LegacyRule = Some old" "dk_file d1 LegacyRule \<noteq> Some old"
  then have "dk_file e LegacyRule \<noteq> Some old" using conf by (simp add: d1)
  with e h(1) same obtain r where r: "e = retire_legacy_udev_rule p (update_udev_rule sh r (backup_all d))" by auto
  have "dk_file (update_udev_rule sh r (backup_all d)) LegacyRule = Some old" using rules same h(1) by simp
  with leg \<open>dk_file e LegacyRule \<noteq> Some old\<close> have "(LegacyRule, old) \<in> set (dk_backups e)" unfolding r by blast
  then show "(LegacyRule, old) \<in> set (dk_backups d1)" using conf by (simp add: d1)
qed


definition same_disk :: "disk \<Rightarrow> disk \<Rightarrow> bool" where
  "same_disk d d' \<longleftrightarrow> dk_profiles d' = dk_profiles d \<and> dk_file d' = dk_file d \<and> dk_backups d' = dk_backups d"

lemma same_disk_trans: "same_disk a b \<Longrightarrow> same_disk b c \<Longrightarrow> same_disk a c"
  by (simp add: same_disk_def)

lemma shell_same: "same_disk d (snd (shell_run sh c d))"
  by (simp add: shell_run_def same_disk_def)

lemma await_same: "same_disk d (snd (await_dongle n sh dongle d))"
proof (induction n arbitrary: d)
  case 0
  show ?case by (simp add: same_disk_def)
next
  case (Suc n)
  then show ?case
    using shell_same [of d sh ShowDevices] same_disk_trans by (auto simp: case_prod_beta)
qed

lemma verify_same: "same_disk d (snd (restart_and_verify sh old dongle d))"
  unfolding restart_and_verify_def Let_def case_prod_beta snd_conv
  by (intro same_disk_trans [OF _ shell_same] same_disk_trans [OF _ await_same])
    (auto intro: same_disk_trans [OF shell_same shell_same] same_disk_trans [OF same_disk_trans [OF shell_same shell_same] shell_same])

text \<open>The outcomes of a switch: an error, nothing to do, or all of it.\<close>
lemma switch_outcomes:
  assumes "switch py_repr parse sh name force d = (r, d')"
  obtains (failed) e where "r = Inl e" "d' = d"
  | (synced) p rendered where "r = Inr 0" "d' = d" "stored_profile py_repr parse name d = Inr p"
      "render_all py_repr p d = Inr rendered" "in_sync name rendered d" "has_value p ''verified'' \<or> force"
  | (switched) p rules new_yaml d1 code where "r = Inr code" "stored_profile py_repr parse name d = Inr p"
      "has_value p ''verified'' \<or> force" "render_all py_repr p d = Inr (rules, render_dongle_conf py_repr p, new_yaml)"
      "apply_artifacts py_repr sh p d = (Inr (), d1)"
      "same_disk (write_active name (if config_text d = [] then d1 else write_file ConfigYaml new_yaml d1)) d'"
proof (cases "stored_profile py_repr parse name d")
  case (Inl e)
  with assms show ?thesis by (intro failed [of e]) (simp_all add: switch_def)
next
  case (Inr p)
  note st = Inr
  show ?thesis
  proof (cases "has_value p ''verified'' \<or> force")
    case False
    with assms st show ?thesis by (intro failed [of NotVerified]) (simp_all add: switch_def)
  next
    case True
    show ?thesis
    proof (cases "render_all py_repr p d")
      case (Inl e)
      with assms st True show ?thesis by (intro failed [of e]) (auto simp: switch_def)
    next
      case (Inr rendered)
      then obtain rules new_yaml where rd: "rendered = (rules, render_dongle_conf py_repr p, new_yaml)"
        and ok: "has_value p ''vid_pid'' \<and> has_value p ''udev'' \<Longrightarrow> \<exists>t. render_udev_rules py_repr p = Inr t"
        by (cases "render_udev_rules py_repr p") (auto simp: render_all_def split: sum.splits if_splits)
      show ?thesis
      proof (cases "in_sync name rendered d")
        case True
        with assms st \<open>has_value p ''verified'' \<or> force\<close> Inr rd show ?thesis by (intro synced) (auto simp: switch_def)
      next
        case False
        obtain d1 where d1: "apply_artifacts py_repr sh p d = (Inr (), d1)"
          using ok by (cases "render_udev_rules py_repr p"; cases "has_value p ''vid_pid'' \<and> has_value p ''udev''")
            (auto simp: apply_artifacts_def Let_def)
        define d2 where "d2 = write_active name (if config_text d = [] then d1 else write_file ConfigYaml new_yaml d1)"
        define old where "old = (if config_text d = [] then [] else yaml_field (config_text d) ''asterisk'' ''dongle'')"
        have "(r, d') = map_prod Inr id (restart_and_verify sh old (shown_field py_repr p ''dongle_name'') d2)"
          using assms st True Inr False d1 by (auto simp: switch_def rd Let_def d2_def old_def)
        then have "r = Inr (fst (restart_and_verify sh old (shown_field py_repr p ''dongle_name'') d2))"
          and "same_disk d2 d'"
          using verify_same [of d2 sh old "shown_field py_repr p ''dongle_name''"]
          by (cases "restart_and_verify sh old (shown_field py_repr p ''dongle_name'') d2"; simp)+
        with st True Inr d1 show ?thesis unfolding d2_def rd by (intro switched)
      qed
    qed
  qed
qed


text \<open>The two edits of a switch, together.\<close>
lemma words [simp]: "word_start (S ''asterisk'')" "word_start (S ''dongle'')" "word_start (S ''sim'')" "word_start (S ''modem_model'')"
  by (simp_all add: word_start_def unbroken_def is_break_def is_space_def space_points_def S_def)

lemma patch_scan_field:
  "patch_scan (S sec) (S key) (if quote then quoted v else v) False (lines_keep c) = Some (lines_keep c) \<Longrightarrow>
     patch_yaml_field c sec key v quote = Inr c"
  by (simp add: patch_yaml_field_def concat_lines_keep)

lemma patched_config_spec:
  assumes "patched_config py_repr p content = Inr c" and "content \<noteq> []" and "plain_breaks content" and "plain_profile py_repr p"
  shows "c \<noteq> [] \<and> plain_breaks c \<and> patched_config py_repr p c = Inr c
     \<and> yaml_field c ''asterisk'' ''dongle'' = unquote (strip (shown_field py_repr p ''dongle_name''))
     \<and> yaml_field c ''sim'' ''modem_model'' = shown_field py_repr p ''modem_model''"
proof -
  let ?dn = "shown_field py_repr p ''dongle_name''" and ?mm = "shown_field py_repr p ''modem_model''"
  have u: "unbroken ?dn" "unbroken ?mm" using assms(4) by (simp_all add: plain_profile_def)
  obtain b where b: "patch_yaml_field content ''asterisk'' ''dongle'' ?dn False = Inr b"
    and c: "patch_yaml_field b ''sim'' ''modem_model'' ?mm True = Inr c"
    using assms(1,2) by (auto simp: patched_config_def split: sum.splits)
  note sb = patch_field_scan [OF b assms(3) words(2) u(1)]
  note sc = patch_field_scan [OF c sb(3) words(4) u(2)]
  have again: "patch_scan (S ''asterisk'') (S ''dongle'') ?dn False (lines_keep b) = Some (lines_keep b)"
    using patch_scan_again [OF words(1,2) u(1) sb(1) [simplified]] .
  have fix1: "patch_scan (S ''asterisk'') (S ''dongle'') ?dn False (lines_keep c) = Some (lines_keep c)"
    by (rule patch_scan_other [OF words(1,3) _ words(4) again sc(1) [simplified]]) simp_all
  have fix2: "patch_scan (S ''sim'') (S ''modem_model'') (quoted ?mm) False (lines_keep c) = Some (lines_keep c)"
    using patch_scan_again [OF words(3,4) _ sc(1) [simplified]] u(2) by simp
  have ne: "c \<noteq> []"
  proof
    assume "c = []"
    with fix1 show False by simp
  qed
  have "patch_yaml_field c ''asterisk'' ''dongle'' ?dn False = Inr c" "patch_yaml_field c ''sim'' ''modem_model'' ?mm True = Inr c"
    using fix1 fix2 by (simp_all add: patch_scan_field)
  then have "patched_config py_repr p c = Inr c" using ne by (simp add: patched_config_def)
  moreover have "yaml_field c ''asterisk'' ''dongle'' = unquote (strip ?dn)"
    using scan_patched [OF words(1,2) u(1) fix1 sc(2)] by (simp add: yaml_field_def)
  moreover have "yaml_field c ''sim'' ''modem_model'' = unquote (strip (quoted ?mm))"
    using scan_patched [OF words(3,4) _ fix2 sc(2)] u(2) by (simp add: yaml_field_def)
  ultimately show ?thesis using ne sc(3) by (simp add: quoted_back)
qed

text \<open>The profile is printable, and so is the configuration it is written to.\<close>
definition plain_switch :: "(json \<Rightarrow> str) \<Rightarrow> profile \<Rightarrow> disk \<Rightarrow> bool" where
  "plain_switch py_repr p d \<longleftrightarrow>
     plain_profile py_repr p \<and> plain_breaks (config_text d)
     \<and> unquote (strip (shown_field py_repr p ''dongle_name'')) = shown_field py_repr p ''dongle_name''"

text \<open>Everything a profile determines is as the profile says.\<close>
definition profile_in_force :: "(json \<Rightarrow> str) \<Rightarrow> str \<Rightarrow> profile \<Rightarrow> disk \<Rightarrow> bool" where
  "profile_in_force py_repr name p d \<longleftrightarrow>
     read_active d = name \<and> holds_text DongleConf (render_dongle_conf py_repr p) d
     \<and> (\<forall>r. has_value p ''vid_pid'' \<and> has_value p ''udev'' \<and> render_udev_rules py_repr p = Inr r \<longrightarrow> holds_text UdevRule r d)
     \<and> (config_text d \<noteq> [] \<longrightarrow>
          yaml_field (config_text d) ''asterisk'' ''dongle'' = shown_field py_repr p ''dongle_name''
          \<and> yaml_field (config_text d) ''sim'' ''modem_model'' = shown_field py_repr p ''modem_model'')"

lemma name_form_strip: "name_form n \<Longrightarrow> strip (universal_newlines (n @ [10])) = n"
proof -
  assume n: "name_form n"
  have sp: "\<not> is_space c" if "97 \<le> c \<and> c \<le> 122 \<or> 48 \<le> c \<and> c \<le> 57 \<or> c = 45" for c
    using that by (auto simp: is_space_def space_points_def)
  have all: "\<forall>c \<in> set n. 97 \<le> c \<and> c \<le> 122 \<or> 48 \<le> c \<and> c \<le> 57 \<or> c = 45"
    using n by (auto simp: name_form_def list_all_iff split: list.splits)
  then have "universal_newlines (n @ [10]) = n @ [10]" by (intro no_cr) force
  moreover have "n \<noteq> []" using n by (auto simp: name_form_def)
  then have "\<not> is_space (hd n)" "\<not> is_space (last n)" using all sp by simp_all
  then have "strip (n @ [10]) = n"
  proof -
    have "dropWhile is_space (rev n) = rev n"
      using \<open>\<not> is_space (last n)\<close> \<open>n \<noteq> []\<close> by (simp add: dropWhile_eq_self_iff hd_rev)
    moreover have "lstrip (n @ [10]) = n @ [10]" using \<open>\<not> is_space (hd n)\<close> \<open>n \<noteq> []\<close> by (intro lstrip_word) simp
    ultimately show ?thesis by (simp add: strip_def rstrip_def)
  qed
  ultimately show ?thesis by simp
qed


lemma stored_name: "stored_profile py_repr parse name d = Inr p \<Longrightarrow> name_form name"
  by (auto simp: stored_profile_def profile_path_def split: if_splits)

lemma render_all_parts:
  assumes "render_all py_repr p d = Inr (rules, conf, new_yaml)"
  shows "patched_config py_repr p (config_text d) = Inr new_yaml"
    and "rules = (if has_value p ''vid_pid'' \<and> has_value p ''udev''
           then (case render_udev_rules py_repr p of Inr r \<Rightarrow> Some r | Inl _ \<Rightarrow> None) else None)"
    and "conf = render_dongle_conf py_repr p"
    and "has_value p ''vid_pid'' \<and> has_value p ''udev'' \<Longrightarrow> \<exists>r. render_udev_rules py_repr p = Inr r"
  using assms by (cases "render_udev_rules py_repr p"; auto simp: render_all_def split: sum.splits if_splits)+

text \<open>A profile is in force when the disk is in sync with it, and after a switch.\<close>
lemma in_force_synced:
  assumes "render_all py_repr p d = Inr rendered" and "in_sync name rendered d" and "plain_switch py_repr p d"
  shows "profile_in_force py_repr name p d"
proof -
  obtain rules conf new_yaml where rd: "rendered = (rules, conf, new_yaml)" by (rule prod_cases3)
  note parts = render_all_parts [OF assms(1) [unfolded rd]]
  have sync: "read_active d = name" "case rules of None \<Rightarrow> True | Some r \<Rightarrow> holds_text UdevRule r d"
    "holds_text DongleConf conf d" "new_yaml = config_text d"
    using assms(2) by (simp_all add: in_sync_def rd)
  have "holds_text UdevRule r d" if "has_value p ''vid_pid'' \<and> has_value p ''udev''" "render_udev_rules py_repr p = Inr r" for r
    using sync(2) parts(2) that by simp
  moreover have "config_text d \<noteq> [] \<Longrightarrow>
      yaml_field (config_text d) ''asterisk'' ''dongle'' = shown_field py_repr p ''dongle_name''
      \<and> yaml_field (config_text d) ''sim'' ''modem_model'' = shown_field py_repr p ''modem_model''"
    using patched_config_spec [of py_repr p "config_text d" new_yaml] parts(1) sync(4) assms(3) by (simp add: plain_switch_def)
  ultimately show ?thesis using sync(1,3) parts(3) by (simp add: profile_in_force_def)
qed

lemma switched_files:
  assumes "apply_artifacts py_repr sh p d = (Inr (), d1)" and "plain_switch py_repr p d"
    and "render_all py_repr p d = Inr (rules, conf, new_yaml)" and "name_form name"
    and "same_disk (write_active name (if config_text d = [] then d1 else write_file ConfigYaml new_yaml d1)) d'"
  shows "read_active d' = name" and "holds_text DongleConf conf d'"
    and "case rules of None \<Rightarrow> True | Some r \<Rightarrow> holds_text UdevRule r d'"
    and "config_text d' = new_yaml" and "patched_config py_repr p (config_text d') = Inr (config_text d')"
    and "dk_profiles d' = dk_profiles d"
    and "config_text d' \<noteq> [] \<Longrightarrow>
      yaml_field (config_text d') ''asterisk'' ''dongle'' = shown_field py_repr p ''dongle_name''
      \<and> yaml_field (config_text d') ''sim'' ''modem_model'' = shown_field py_repr p ''modem_model''"
proof -
  note parts = render_all_parts [OF assms(3)]
  have plain: "plain_profile py_repr p" "plain_breaks (config_text d)" using assms(2) by (simp_all add: plain_switch_def)
  have fl: "dk_file d' = (if config_text d = [] then dk_file d1 else (dk_file d1)(ConfigYaml := Some new_yaml))
      (ActivePointer := Some (name @ [10]))"
    using assms(5) by (simp add: same_disk_def write_active_def write_file_def split: if_splits)
  show "dk_profiles d' = dk_profiles d"
    using assms(5) apply_frame(1) [OF assms(1)] by (simp add: same_disk_def write_active_def write_file_def split: if_splits)
  show "read_active d' = name" using name_form_strip [OF assms(4)] by (simp add: read_active_def fl)
  show "holds_text DongleConf conf d'"
    using apply_written(1) [OF assms(1) plain(1)] parts(3) by (simp add: holds_text_def fl)
  have "holds_text UdevRule r d'" if "rules = Some r" for r
    using apply_written(2) [OF assms(1) plain(1)] parts(2) that
    by (auto simp: holds_text_def fl split: if_splits sum.splits)
  then show "case rules of None \<Rightarrow> True | Some r \<Rightarrow> holds_text UdevRule r d'" by (simp split: option.split)
  have "config_text d1 = config_text d" using apply_frame(2) [OF assms(1), of ConfigYaml] by (simp add: config_text_def)
  show cfg: "config_text d' = new_yaml"
  proof (cases "config_text d = []")
    case True
    then show ?thesis
      using parts(1) \<open>config_text d1 = config_text d\<close> by (simp add: config_text_def fl patched_config_def)
  next
    case False
    from patched_config_spec [OF parts(1) False plain(2,1)] plain_no_cr [of new_yaml] False
    show ?thesis by (simp add: config_text_def fl)
  qed
  show "patched_config py_repr p (config_text d') = Inr (config_text d')"
    and "config_text d' \<noteq> [] \<Longrightarrow>
      yaml_field (config_text d') ''asterisk'' ''dongle'' = shown_field py_repr p ''dongle_name''
      \<and> yaml_field (config_text d') ''sim'' ''modem_model'' = shown_field py_repr p ''modem_model''"
    using patched_config_spec [OF parts(1) _ plain(2,1)] parts(1) assms(2)
    by (cases "config_text d = []"; simp add: cfg patched_config_def plain_switch_def)+
qed


section \<open>Properties of the switch\<close>


text \<open>C18: switching again changes nothing and restarts nothing. After a switch that did not end in an
  error, whether or not the verification found the modem, the same switch leaves every file as it is,
  runs no command and reports success.\<close>
theorem switch_idempotent:
  assumes "stored_profile py_repr parse name d = Inr p" and "plain_switch py_repr p d"
    and "switch py_repr parse sh name force d = (Inr code, d')"
  shows "switch py_repr parse sh2 name force d' = (Inr 0, d')"
  using assms(3)
proof (cases rule: switch_outcomes)
  case (synced q rendered)
  then show ?thesis by (cases rendered) (auto simp: switch_def)
next
  case (switched q rules new_yaml d1 code2)
  then have q: "q = p" using assms(1) by simp
  note parts = render_all_parts [OF switched(4) [unfolded q]]
  note files = switched_files [OF switched(5) [unfolded q] assms(2) switched(4) [unfolded q] stored_name [OF assms(1)] switched(6)]
  have "stored_profile py_repr parse name d' = stored_profile py_repr parse name d"
    unfolding stored_profile_def files(6) ..
  then have "stored_profile py_repr parse name d' = Inr p" using assms(1) by simp
  moreover have "render_all py_repr p d' = Inr (rules, render_dongle_conf py_repr p, config_text d')"
    using parts(2,4) files(5) by (auto simp: render_all_def)
  moreover have "in_sync name (rules, render_dongle_conf py_repr p, config_text d') d'"
    using files(1-3) by (simp add: in_sync_def)
  ultimately show ?thesis using switched(3) q by (auto simp: switch_def)
qed simp

lemma apply_pointer_backups:
  assumes "apply_artifacts py_repr sh p d = (Inr (), d1)" and "(ActivePointer, old) \<in> set (dk_backups d1)"
  shows "(ActivePointer, old) \<in> set (dk_backups d) \<or> dk_file d ActivePointer = Some old"
proof -
  have all: "(ActivePointer, old) \<in> set (dk_backups (backup_all d)) \<Longrightarrow>
      (ActivePointer, old) \<in> set (dk_backups d) \<or> dk_file d ActivePointer = Some old"
    by (auto simp: backup_all_def backup_def split: option.splits)
  have "dk_backups (update_dongle_conf c e) = dk_backups e" "dk_backups (update_udev_rule sh r e) = dk_backups e"
    "(ActivePointer, old) \<in> set (dk_backups (retire_legacy_udev_rule p e)) \<longleftrightarrow> (ActivePointer, old) \<in> set (dk_backups e)" for c e r
    by (auto simp: update_dongle_conf_def write_file_def update_udev_rule_def shell_run_def retire_legacy_udev_rule_def
        remove_file_def backup_def Let_def split: option.splits if_splits)
  with assms all show ?thesis by (auto simp: apply_artifacts_def Let_def split: if_splits sum.splits)
qed

text \<open>The installer's command overwrites the pointer before it backs it up: afterwards no backup has the
  old name, unlike after a switch.\<close>
theorem init_backs_up_new_pointer:
  assumes "may_create (pa_name a) (pa_force a) d = Inr ()" and "fst (cmd_init py_repr sh a d) = Inr 0"
    and "dk_file d ActivePointer = Some old" and "dk_backups d = []" and "old \<noteq> pa_name a @ [10]"
  shows "(ActivePointer, old) \<notin> set (dk_backups (snd (cmd_init py_repr sh a d)))
     \<and> (ActivePointer, pa_name a @ [10]) \<in> set (dk_backups (snd (cmd_init py_repr sh a d)))"
proof -
  obtain p d1 where w: "fst (write_profile py_repr p d) = Inr ()" "d1 = snd (write_profile py_repr p d)"
    and r: "cmd_init py_repr sh a d = map_prod (map_sum id (\<lambda>_. 0)) id (apply_artifacts py_repr sh p (write_active (pa_name a) d1))"
  proof -
    let ?p = "args_profile a (if pa_vid_pid a = [] then [] else map udev_entry (init_interfaces a))
      (S ''created by install.py (fresh install) '' @ [8212] @ S '' refine with probe/capture after the first live test'')"
    obtain x d1 where w: "write_profile py_repr ?p d = (x, d1)" by (rule prod.exhaust)
    have "is_ok x" using assms(1,2) w by (cases x) (simp_all add: cmd_init_def Let_def)
    then have "x = Inr ()" by (cases x) simp_all
    then show thesis using w assms(1) by (intro that [of ?p d1]) (simp_all add: cmd_init_def Let_def)
  qed
  define d2 where "d2 = write_active (pa_name a) d1"
  have d2: "dk_file d2 ActivePointer = Some (pa_name a @ [10])" "dk_backups d2 = []"
    using assms(4) by (auto simp: d2_def w(2) write_active_def write_file_def write_profile_def split: list.split sum.split)
  obtain x d3 where ap: "apply_artifacts py_repr sh p d2 = (x, d3)" by (rule prod.exhaust)
  with assms(2) r have "apply_artifacts py_repr sh p d2 = (Inr (), d3)" "snd (cmd_init py_repr sh a d) = d3"
    by (cases x; simp add: d2_def)+
  with apply_backups(1) [OF this(1), of ActivePointer] apply_pointer_backups [OF this(1), of old] d2 assms(5)
  show ?thesis by auto
qed


section \<open>Examples\<close>

definition sample_profile :: profile where
  "sample_profile =
     [(S ''name'', JStr (S ''e161'')), (S ''modem_model'', JStr (S ''Huawei'')), (S ''vid_pid'', JStr (S ''12d1:1001'')),
      (S ''dongle_name'', JStr (S ''gsm'')), (S ''audio_device'', JStr (S ''a'')), (S ''data_device'', JStr (S ''b'')),
      (S ''sim_phone'', JStr []), (S ''udev'', JList [JObj [(S ''iface'', JStr (S ''00'')), (S ''symlink'', JStr (S ''s''))]]),
      (S ''verified'', JBool True), (S ''notes'', JStr [])]"

text \<open>The relevant lines of the example configuration, with its comment behind the name of the channel.\<close>
definition sample_config :: str where
  "sample_config =
     S ''asterisk:'' @ [10] @ S ''  dongle: gsm  # name'' @ [10] @ S ''sim:'' @ [10] @ S ''  modem_model: x'' @ [10]"

definition sample_disk :: disk where
  "sample_disk =
     \<lparr>dk_profiles = [(S ''e161'', [])], dk_file = (\<lambda>_. None)(ConfigYaml := Some sample_config), dk_backups = [], dk_runs = []\<rparr>"

definition sample_shell :: shell where
  "sample_shell runs c = \<lparr>cp_code = 0, cp_out = (if c = AgentActive then S ''active'' else S ''gsm''), cp_err = []\<rparr>"

lemmas text_facts = is_space_def space_points_def is_break_def is_hex_def is_decimal_def decimal_blocks_def

lemma sample_values [simp]:
  "shown_field r sample_profile ''name'' = S ''e161''" "shown_field r sample_profile ''modem_model'' = S ''Huawei''"
  "shown_field r sample_profile ''vid_pid'' = S ''12d1:1001''" "shown_field r sample_profile ''dongle_name'' = S ''gsm''"
  "shown_field r sample_profile ''audio_device'' = S ''a''" "shown_field r sample_profile ''data_device'' = S ''b''"
  "shown_field r sample_profile ''alsadev'' = []"
  "text_field sample_profile ''vid_pid'' = S ''12d1:1001''" "text_field sample_profile ''alsadev'' = []"
  "has_value sample_profile ''vid_pid''" "has_value sample_profile ''udev''" "has_value sample_profile ''verified''"
  "has_value sample_profile ''audio_device''"
  "udev_entries sample_profile = [JObj [(S ''iface'', JStr (S ''00'')), (S ''symlink'', JStr (S ''s''))]]"
  by (simp_all add: shown_field_def text_field_def has_value_def udev_entries_def sample_profile_def)

lemma sample_valid: "validate_profile r sample_profile = []"
proof -
  have "name_form (S ''e161'')" "vid_pid_form (S ''12d1:1001'')" "two_digits (S ''00'')"
    by (simp_all add: name_form_def vid_pid_form_def two_digits_def text_facts S_def)
  moreover have "strip (S t) \<noteq> []" if "t \<in> {''e161'', ''Huawei'', ''gsm'', ''a'', ''b''}" for t
    using that by (auto simp: strip_def lstrip_def rstrip_def text_facts S_def)
  ultimately show ?thesis
    by (simp add: validate_profile_def voice_issues_def entry_issues_def text_field_def shown_field_def has_value_def
        sample_profile_def Let_def)
qed

lemma sample_stored: "stored_profile (\<lambda>_. []) (\<lambda>_. Some (JObj sample_profile)) (S ''e161'') sample_disk = Inr sample_profile"
proof -
  have "name_form (S ''e161'')" by (simp add: name_form_def S_def)
  moreover have "setdefault k v sample_profile = sample_profile" if "k \<in> {''vid_pid'', ''sim_phone'', ''udev'', ''notes''}" for k v
    using that by (auto simp: setdefault_def sample_profile_def)
  ultimately show ?thesis
    by (simp add: stored_profile_def profile_path_def load_profile_def sample_valid sample_disk_def)
qed

definition sample_lines :: "str list" where
  "sample_lines = [S ''asterisk:'' @ [10], S ''  dongle: gsm  # name'' @ [10], S ''sim:'' @ [10], S ''  modem_model: x'' @ [10]]"

lemma sample_config_lines: "lines_keep sample_config = sample_lines" and sample_breaks: "plain_breaks sample_config"
proof -
  have "sample_config = concat sample_lines" by (simp add: sample_config_def sample_lines_def)
  moreover have "unbroken (S ''asterisk:'')" "unbroken (S ''  dongle: gsm  # name'')" "unbroken (S ''sim:'')"
    "unbroken (S ''  modem_model: x'')" by (simp_all add: is_break_def S_def)
  then have "line_list sample_lines" by (auto simp: sample_lines_def line_form_def)
  ultimately show "lines_keep sample_config = sample_lines" by (metis lines_keep_concat)
  show "plain_breaks sample_config" by (simp add: sample_config_def plain_breaks_def is_break_def S_def)
qed

lemma sample_config_text: "config_text sample_disk = sample_config" "sample_config \<noteq> []"
  by (simp_all add: config_text_def sample_disk_def plain_no_cr [OF sample_breaks]) (simp add: sample_config_def)

lemma sample_plain: "plain_switch (\<lambda>_. []) sample_profile sample_disk"
proof -
  have "plain_profile (\<lambda>_. []) sample_profile"
    by (simp add: plain_profile_def entry_text_def) (simp add: shown_field_def is_break_def S_def)
  moreover have "unquote (strip (S ''gsm'')) = S ''gsm''"
    by (simp add: unquote_def strip_def lstrip_def rstrip_def text_facts S_def)
  ultimately show ?thesis by (simp add: plain_switch_def sample_config_text sample_breaks)
qed

lemma sample_patched: "\<exists>c. patched_config (\<lambda>_. []) sample_profile sample_config = Inr c"
proof -
  have k: "in_section (S ''asterisk'') False (S ''asterisk:'' @ [10])" "\<not> key_line (S ''dongle'') (S ''asterisk:'' @ [10])"
    "in_section (S ''asterisk'') True (S ''  dongle: gsm  # name'' @ [10])" "key_line (S ''dongle'') (S ''  dongle: gsm  # name'' @ [10])"
    by (simp_all add: in_section_def key_line_def indented_def startswith_def lstrip_def rstrip_def text_facts S_def)
  then obtain b where b: "patch_yaml_field sample_config ''asterisk'' ''dongle'' (S ''gsm'') False = Inr b"
    by (simp add: patch_yaml_field_def sample_config_lines sample_lines_def Let_def)
  have "patch_scan (S ''asterisk'') (S ''dongle'') (S ''gsm'') False sample_lines
      = Some [S ''asterisk:'' @ [10], S ''  dongle: gsm'' @ [10], S ''sim:'' @ [10], S ''  modem_model: x'' @ [10]]"
    using k by (simp add: sample_lines_def Let_def patched_line_def) (simp add: S_def)
  moreover have "unbroken (S ''gsm'')" by (simp add: is_break_def S_def)
  ultimately have "lines_keep b = [S ''asterisk:'' @ [10], S ''  dongle: gsm'' @ [10], S ''sim:'' @ [10], S ''  modem_model: x'' @ [10]]"
    using patch_field_scan(1) [OF b sample_breaks words(2)] by (simp add: sample_config_lines)
  then obtain c where "patch_yaml_field b ''sim'' ''modem_model'' (S ''Huawei'') True = Inr c"
    by (simp add: patch_yaml_field_def Let_def in_section_def key_line_def indented_def startswith_def lstrip_def rstrip_def
        text_facts S_def)
  with b sample_config_text(2) show ?thesis by (simp add: patched_config_def)
qed

lemma sample_rendered: "\<exists>r. render_all (\<lambda>_. []) sample_profile sample_disk = Inr r"
proof -
  have "vid_and_pid sample_profile = (S ''12d1'', S ''1001'')"
    by (simp add: vid_and_pid_def) (simp add: S_def)
  then show ?thesis using sample_patched by (auto simp: render_all_def render_udev_rules_def sample_config_text)
qed

text \<open>A verified profile that can be rendered is switched to.\<close>
lemma switch_succeeds:
  assumes "stored_profile py_repr parse name d = Inr p" and "has_value p ''verified''" and "render_all py_repr p d = Inr rd"
  shows "\<exists>code. fst (switch py_repr parse sh name force d) = Inr code"
proof -
  obtain r d' where sw: "switch py_repr parse sh name force d = (r, d')" by (rule prod.exhaust)
  obtain rules conf new_yaml where rd: "rd = (rules, conf, new_yaml)" by (rule prod_cases3)
  note parts = render_all_parts [OF assms(3) [unfolded rd]]
  obtain d1 where d1: "apply_artifacts py_repr sh p d = (Inr (), d1)"
    using parts(4) by (cases "has_value p ''vid_pid'' \<and> has_value p ''udev''") (auto simp: apply_artifacts_def Let_def)
  show ?thesis
    using assms d1 by (auto simp: switch_def rd Let_def)
qed

lemma sample_switches:
  "\<exists>code. fst (switch (\<lambda>_. []) (\<lambda>_. Some (JObj sample_profile)) sample_shell (S ''e161'') False sample_disk) = Inr code"
proof -
  obtain r where "render_all (\<lambda>_. []) sample_profile sample_disk = Inr r" using sample_rendered by blast
  then show ?thesis by (intro switch_succeeds [OF sample_stored]) simp
qed


theorem switch_idempotent_witness:
  "\<exists>d'. switch (\<lambda>_. []) (\<lambda>_. Some (JObj sample_profile)) sample_shell (S ''e161'') False sample_disk \<noteq> (Inl NotVerified, d')
     \<and> switch (\<lambda>_. []) (\<lambda>_. Some (JObj sample_profile)) sample_shell (S ''e161'') False d' = (Inr 0, d')"
proof -
  let ?s = "switch (\<lambda>_. []) (\<lambda>_. Some (JObj sample_profile)) sample_shell (S ''e161'') False sample_disk"
  obtain code where "fst ?s = Inr code" using sample_switches by blast
  then have "?s = (Inr code, snd ?s)" by (metis prod.collapse)
  from switch_idempotent [OF sample_stored sample_plain this] this show ?thesis by (metis old.sum.distinct(1) prod.inject)
qed

text \<open>A comment behind a value is taken for a part of it. On the line of the example configuration that
  names the channel, the reader returns the name together with the comment, so a switch that keeps
  the channel's name restarts the agent as if the name had changed.\<close>
theorem comment_restarts_agent:
  "yaml_field sample_config ''asterisk'' ''dongle'' = S ''gsm  # name''
   \<and> RestartAgent \<in> set (dk_runs (snd (restart_and_verify sh (yaml_field sample_config ''asterisk'' ''dongle'') (S ''gsm'') d)))"
proof -
  have "yaml_field sample_config ''asterisk'' ''dongle'' = S ''gsm  # name''"
    unfolding yaml_field_def sample_config_lines
    by (simp add: sample_lines_def chomp_def indented_def in_section_def field_value_def startswith_def lstrip_def rstrip_def strip_def
        unquote_def text_facts S_def)
  moreover have "set (dk_runs e) \<subseteq> set (dk_runs (snd (await_dongle n sh dongle e)))" for n dongle e
    by (induction n arbitrary: e) (fastforce simp: shell_run_def case_prod_beta)+
  then have "RestartAgent \<in> set (dk_runs (snd (restart_and_verify sh (S ''gsm  # name'') (S ''gsm'') d)))"
    by (fastforce simp: restart_and_verify_def shell_run_def case_prod_beta Let_def)
  ultimately show ?thesis by simp
qed


theorem config_edit_exact_witness:
  "\<exists>c. patch_yaml_field sample_config ''asterisk'' ''dongle'' (S ''usb0'') False = Inr c
     \<and> yaml_field c ''asterisk'' ''dongle'' = S ''usb0''"
proof -
  have k: "in_section (S ''asterisk'') False (S ''asterisk:'' @ [10])" "\<not> key_line (S ''dongle'') (S ''asterisk:'' @ [10])"
    "in_section (S ''asterisk'') True (S ''  dongle: gsm  # name'' @ [10])" "key_line (S ''dongle'') (S ''  dongle: gsm  # name'' @ [10])"
    by (simp_all add: in_section_def key_line_def indented_def startswith_def lstrip_def rstrip_def text_facts S_def)
  then obtain c where c: "patch_yaml_field sample_config ''asterisk'' ''dongle'' (S ''usb0'') False = Inr c"
    by (simp add: patch_yaml_field_def sample_config_lines sample_lines_def Let_def)
  have "unbroken (S ''usb0'')" "strip (S ''usb0'') = S ''usb0''" "unquote (S ''usb0'') = S ''usb0''"
    by (simp_all add: unquote_def strip_def lstrip_def rstrip_def text_facts S_def)
  with config_edit_exact [OF c sample_breaks words(1,2)] c show ?thesis by simp
qed

definition sample_args :: profile_args where
  "sample_args = \<lparr>pa_name = S ''m'', pa_model = S ''x'', pa_vid_pid = [], pa_dongle = [], pa_audio = [], pa_data = [],
     pa_phone = [], pa_interfaces = [], pa_force = False\<rparr>"

lemma sample_args_valid: "validate_profile (\<lambda>_. []) (args_profile sample_args [] r) = []"
proof -
  have name: "name_form (S ''m'')" by (simp add: name_form_def S_def)
  have "strip (S t) \<noteq> []" if "t \<in> {''m'', ''x'', ''gsm'', ''/dev/dongle_if1'', ''/dev/dongle_if2''}" for t
    using that by (auto simp: strip_def lstrip_def rstrip_def text_facts S_def)
  then show ?thesis
    by (simp add: validate_profile_def voice_issues_def text_field_def shown_field_def has_value_def args_profile_def or_text_def
        sample_args_def name)
qed

theorem init_backs_up_new_pointer_witness:
  "(ActivePointer, S ''old'') \<notin> set (dk_backups (snd (cmd_init (\<lambda>_. []) sample_shell sample_args
      \<lparr>dk_profiles = [], dk_file = (\<lambda>_. None)(ActivePointer := Some (S ''old'')), dk_backups = [], dk_runs = []\<rparr>)))"
proof -
  let ?d = "\<lparr>dk_profiles = [], dk_file = (\<lambda>_. None)(ActivePointer := Some (S ''old'')), dk_backups = [], dk_runs = []\<rparr>"
  have name: "name_form (S ''m'')" by (simp add: name_form_def S_def)
  have may: "may_create (pa_name sample_args) (pa_force sample_args) ?d = Inr ()"
    by (simp add: may_create_def profile_path_def name sample_args_def)
  have "fst (cmd_init (\<lambda>_. []) sample_shell sample_args ?d) = Inr 0"
    using may sample_args_valid by (simp add: cmd_init_def write_profile_def profile_path_def Let_def apply_artifacts_def)
      (simp add: sample_args_def args_profile_def text_field_def has_value_def name)
  moreover have "S ''old'' \<noteq> pa_name sample_args @ [10]" by (simp add: sample_args_def S_def)
  ultimately show ?thesis using init_backs_up_new_pointer [OF may, of "\<lambda>_. []" sample_shell "S ''old''"] by simp
qed

end
