(* ===== verification/ModemProbeProps.thy ===== *)
theory ModemProbeProps
  imports ModemProbe ModemProfileProps
begin

text \<open>
  What is read back from the machine: the channel driver's file is parsed to the devices it was rendered
  from, and a profile made from guesses is never marked as verified.
\<close>

section \<open>Reading the rendered file back\<close>

text \<open>A value the file can hold: one word.\<close>
definition one_word :: "str \<Rightarrow> bool" where
  "one_word s \<longleftrightarrow> s \<noteq> [] \<and> (\<forall>c \<in> set s. \<not> is_space c)"

lemma space_break: "is_break c \<Longrightarrow> is_space c"
  by (auto simp: is_break_def is_space_def space_points_def)

lemma one_word_unbroken: "one_word s \<Longrightarrow> unbroken s"
  using space_break by (auto simp: one_word_def unbroken_def)

lemma split_join_lines: "\<forall>l \<in> set ls. unbroken l \<Longrightarrow> split_lines (join_lines ls) = ls"
proof -
  assume ls: "\<forall>l \<in> set ls. unbroken l"
  then have "line_list (map (\<lambda>l. l @ [10]) ls)" by (induction ls) (auto simp: line_form_def)
  then have "split_lines (join_lines ls) = map chomp (map (\<lambda>l. l @ [10]) ls)"
    by (simp add: split_lines_def join_lines_def lines_keep_concat)
  also have "\<dots> = ls" using ls by (induction ls) simp_all
  finally show ?thesis .
qed

lemma rstrip_Cons: "\<not> is_space c \<Longrightarrow> rstrip (c # s) = c # rstrip s"
  by (simp add: rstrip_def dropWhile_append3)

lemma take_word: "one_word v \<Longrightarrow> takeWhile (\<lambda>c. \<not> is_space c) (lstrip (32 # v)) = v"
proof -
  assume v: "one_word v"
  then have "lstrip (32 # v) = v" using lstrip_word [of v] by (auto simp: one_word_def lstrip_def)
  with v show ?thesis by (simp add: one_word_def takeWhile_eq_all_conv)
qed

text \<open>A line \<open>key = value\<close>.\<close>
definition assignment :: "string \<Rightarrow> str \<Rightarrow> str" where
  "assignment key v = S key @ [32, 61, 32] @ v"

lemma assigned_line:
  assumes "one_word v" and "\<not> is_space (hd (S key))" and "S key \<noteq> []"
  shows "strip (assignment key v) = assignment key v" and "assigned key (assignment key v) = Some v"
proof -
  have v: "v \<noteq> []" "\<not> is_space (last v)" using assms(1) by (auto simp: one_word_def)
  then show "strip (assignment key v) = assignment key v"
    unfolding assignment_def using assms(2,3) by (intro strip_no_space) simp_all
  have "lstrip (32 # 61 # 32 # v) = 61 # 32 # v"
    by (simp add: lstrip_def is_space_def space_points_def)
  with v take_word [OF assms(1)] show "assigned key (assignment key v) = Some v"
    by (simp add: assigned_def assignment_def Let_def startswith_def S_def)
qed

lemma conf_comment: "dc_section dc = [] \<Longrightarrow> conf_line (59 # s) dc = dc"
proof -
  assume dc: "dc_section dc = []"
  have "\<not> is_space 59" by (simp add: is_space_def space_points_def)
  then have "strip (59 # s) = 59 # rstrip s" by (simp add: strip_def lstrip_word rstrip_Cons)
  with dc show ?thesis by (simp add: conf_line_def section_header_def)
qed

lemma conf_section: "n \<noteq> [] \<Longrightarrow> conf_line (91 # n @ [93]) dc = dc\<lparr>dc_section := n\<rparr>"
proof -
  assume n: "n \<noteq> []"
  have "strip (91 # n @ [93]) = 91 # n @ [93]" by (rule strip_no_space) (simp_all add: is_space_def space_points_def)
  with n show ?thesis by (cases n) (simp_all add: conf_line_def section_header_def)
qed

lemma conf_blank: "dc_section dc = [] \<Longrightarrow> conf_line [] dc = dc"
  by (simp add: conf_line_def section_header_def strip_def lstrip_def rstrip_def)

lemma conf_general: "dc_section dc = S ''general'' \<Longrightarrow> conf_line l dc = (case section_header (strip l) of Some sec \<Rightarrow> dc\<lparr>dc_section := sec\<rparr> | None \<Rightarrow> dc)"
  by (simp add: conf_line_def Let_def split: option.split)

text \<open>A device's lines.\<close>
definition in_device :: "dongle_conf \<Rightarrow> bool" where
  "in_device dc \<longleftrightarrow> dc_section dc \<noteq> [] \<and> dc_section dc \<noteq> S ''general''"

lemma conf_assignment:
  assumes "in_device dc" and "one_word v"
  shows "conf_line (assignment ''audio'' v) dc = dc\<lparr>dc_audio := v\<rparr>"
    and "conf_line (assignment ''data'' v) dc = dc\<lparr>dc_data := v\<rparr>"
    and "conf_line (assignment ''alsadev'' v) dc = dc\<lparr>dc_alsadev := v\<rparr>"
proof -
  have sp: "\<not> is_space (hd (S k))" "S k \<noteq> []" if "k \<in> {''audio'', ''data'', ''alsadev''}" for k
    using that by (auto simp: S_def is_space_def space_points_def)
  have none: "section_header (assignment k v) = None" if "k \<in> {''audio'', ''data'', ''alsadev''}" for k
    using that by (auto simp: section_header_def assignment_def S_def)
  have "assigned ''audio'' (assignment ''data'' v) = None" "assigned ''audio'' (assignment ''alsadev'' v) = None"
    "assigned ''data'' (assignment ''alsadev'' v) = None"
    by (simp_all add: assigned_def assignment_def Let_def startswith_def S_def)
  with assms sp none show "conf_line (assignment ''audio'' v) dc = dc\<lparr>dc_audio := v\<rparr>"
    "conf_line (assignment ''data'' v) dc = dc\<lparr>dc_data := v\<rparr>"
    "conf_line (assignment ''alsadev'' v) dc = dc\<lparr>dc_alsadev := v\<rparr>"
    by (simp_all add: conf_line_def assigned_line in_device_def)
qed

lemma conf_other:
  assumes "in_device dc" and "l \<in> {S ''context = incoming-mobile'', S ''group = 1'', S ''smsaspdu = yes'', S ''autodeletesms = yes''}"
  shows "conf_line l dc = dc"
proof -
  have "strip l = l" using assms(2) by (intro strip_no_space) (auto simp: S_def is_space_def space_points_def)
  moreover have "section_header l = None" "assigned ''audio'' l = None" "assigned ''data'' l = None" "assigned ''alsadev'' l = None"
    using assms(2) by (auto simp: section_header_def assigned_def startswith_def S_def)
  ultimately show ?thesis using assms(1) by (simp add: conf_line_def in_device_def)
qed

text \<open>The fields of a profile that the file can hold.\<close>
definition conf_profile :: "(json \<Rightarrow> str) \<Rightarrow> profile \<Rightarrow> bool" where
  "conf_profile py_repr p \<longleftrightarrow>
     (let shown = shown_field py_repr p
      in unbroken (shown ''name'') \<and> unbroken (shown ''modem_model'') \<and> unbroken (shown ''vid_pid'')
         \<and> unbroken (shown ''dongle_name'') \<and> shown ''dongle_name'' \<noteq> [] \<and> shown ''dongle_name'' \<noteq> S ''general''
         \<and> one_word (shown (if has_value p ''alsadev'' then ''alsadev'' else ''audio_device'')) \<and> one_word (shown ''data_device''))"

lemma unbroken_lit: "unbroken (S s) \<longleftrightarrow> list_all (\<lambda>c. \<not> is_break (of_char c)) s"
  by (induction s) (simp_all add: S_def)

lemma break_code: "is_break (of_char c) \<longleftrightarrow> of_char c \<in> {10, 11, 12, 13, 28, 29, 30, 133, 8232, 8233 :: nat}"
  by (simp add: is_break_def)

lemma conf_preamble:
  "fold conf_line [59 # a, 59 # b, 59 # c, 59 # e, 59 # f, [], S ''[general]'', S ''interval=15'', []]
     \<lparr>dc_section = [], dc_audio = [], dc_data = [], dc_alsadev = []\<rparr>
   = \<lparr>dc_section = S ''general'', dc_audio = [], dc_data = [], dc_alsadev = []\<rparr>"
proof -
  have g: "S ''[general]'' = 91 # S ''general'' @ [93]" "S ''general'' \<noteq> []" by (simp_all add: S_def)
  have i: "section_header (strip (S ''interval=15'')) = None"
    by (subst strip_no_space) (simp_all add: S_def is_space_def space_points_def section_header_def)
  have e: "section_header (strip []) = None" "section_header [] = None"
    by (simp_all add: section_header_def strip_def lstrip_def rstrip_def)
  show ?thesis by (simp add: conf_comment conf_blank g conf_section conf_general i e)
qed

lemma conf_device:
  assumes "n \<noteq> []" "n \<noteq> S ''general''" "one_word v" "one_word w"
    and "(key, m) = (if alsa then (''alsadev'', \<lparr>dc_section = n, dc_audio = [], dc_data = w, dc_alsadev = v\<rparr>)
                      else (''audio'', \<lparr>dc_section = n, dc_audio = v, dc_data = w, dc_alsadev = []\<rparr>))"
  shows "fold conf_line
      [91 # n @ [93], assignment key v, assignment ''data'' w, S ''context = incoming-mobile'', S ''group = 1'',
       S ''smsaspdu = yes'', S ''autodeletesms = yes''] \<lparr>dc_section = S ''general'', dc_audio = [], dc_data = [], dc_alsadev = []\<rparr> = m"
  using assms by (auto simp: conf_section conf_assignment conf_other in_device_def split: if_splits)

lemma conf_lines:
  "\<exists>a b c e f. \<exists>key. key = (if has_value p ''alsadev'' then ''alsadev'' else ''audio'')
     \<and> render_dongle_conf py_repr p = join_lines ([59 # a, 59 # b, 59 # c, 59 # e, 59 # f, [], S ''[general]'', S ''interval=15'', []]
        @ [91 # shown_field py_repr p ''dongle_name'' @ [93],
           assignment key (shown_field py_repr p (if has_value p ''alsadev'' then ''alsadev'' else ''audio_device'')),
           assignment ''data'' (shown_field py_repr p ''data_device''), S ''context = incoming-mobile'', S ''group = 1'',
           S ''smsaspdu = yes'', S ''autodeletesms = yes''])
     \<and> (conf_profile py_repr p \<longrightarrow> unbroken a \<and> unbroken b \<and> unbroken c \<and> unbroken e \<and> unbroken f)"
proof -
  have "render_dongle_conf py_repr p = join_lines
     ([59 # S '' SimBridge chan_dongle config '' @ [8212] @ S '' GENERATED by scripts/modem_profile.py'',
       59 # S '' Profile: '' @ shown_field py_repr p ''name'' @ [32, 8212, 32] @ shown_field py_repr p ''modem_model'' @ S '' (''
           @ (if has_value p ''vid_pid'' then shown_field py_repr p ''vid_pid'' else S ''unknown vid:pid'') @ S '')'',
       59 # S '' Do NOT edit manually. To swap modems:'',
       59 # S ''   python3 /opt/simbridge/scripts/modem_profile.py use <profile>'',
       59 # S '' App constants mirror asterisk/dongle.conf.example.'', [], S ''[general]'', S ''interval=15'', []]
        @ [91 # shown_field py_repr p ''dongle_name'' @ [93],
           assignment (if has_value p ''alsadev'' then ''alsadev'' else ''audio'')
             (shown_field py_repr p (if has_value p ''alsadev'' then ''alsadev'' else ''audio_device'')),
           assignment ''data'' (shown_field py_repr p ''data_device''), S ''context = incoming-mobile'', S ''group = 1'',
           S ''smsaspdu = yes'', S ''autodeletesms = yes''])"
    unfolding render_dongle_conf_def Let_def by (rule arg_cong [where f = join_lines]) (simp add: assignment_def S_def)
  moreover have "unbroken (S '' SimBridge chan_dongle config '' @ [8212] @ S '' GENERATED by scripts/modem_profile.py'')"
    "unbroken (S '' Do NOT edit manually. To swap modems:'')"
    "unbroken (S ''   python3 /opt/simbridge/scripts/modem_profile.py use <profile>'')"
    "unbroken (S '' App constants mirror asterisk/dongle.conf.example.'')"
    by (simp_all add: S_def is_break_def)
  moreover have "unbroken (S '' Profile: '' @ shown_field py_repr p ''name'' @ [32, 8212, 32] @ shown_field py_repr p ''modem_model'' @ S '' (''
           @ (if has_value p ''vid_pid'' then shown_field py_repr p ''vid_pid'' else S ''unknown vid:pid'') @ S '')'')"
    if "conf_profile py_repr p"
    using that by (simp add: conf_profile_def Let_def S_def is_break_def)
  ultimately show ?thesis by blast
qed

text \<open>What the script writes into the channel driver's file it reads back (roundtrip): for a profile whose
  fields are single-line texts and whose device paths are single words, parsing the file rendered from it
  yields the section of the dongle, its data port and its voice path, as a serial port or as a sound card
  but never both. So \<open>capture\<close> on a machine that \<open>use\<close> or \<open>init\<close> configured takes over the same devices.\<close>
theorem dongle_conf_round_trip:
  assumes "conf_profile py_repr p"
  shows "parse_dongle_conf (render_dongle_conf py_repr p) =
     \<lparr>dc_section = shown_field py_repr p ''dongle_name'',
      dc_audio = (if has_value p ''alsadev'' then [] else shown_field py_repr p ''audio_device''),
      dc_data = shown_field py_repr p ''data_device'',
      dc_alsadev = (if has_value p ''alsadev'' then shown_field py_repr p ''alsadev'' else [])\<rparr>"
proof -
  define n where "n = shown_field py_repr p ''dongle_name''"
  define w where "w = shown_field py_repr p ''data_device''"
  define v where "v = shown_field py_repr p (if has_value p ''alsadev'' then ''alsadev'' else ''audio_device'')"
  note defs = n_def [symmetric] v_def [symmetric] w_def [symmetric]
  have f: "n \<noteq> []" "n \<noteq> S ''general''" "unbroken n" "one_word v" "one_word w"
    using assms by (simp_all add: conf_profile_def Let_def defs)
  define key where "key = (if has_value p ''alsadev'' then ''alsadev'' else ''audio'')"
  obtain a b c e g where conf: "render_dongle_conf py_repr p =
      join_lines ([59 # a, 59 # b, 59 # c, 59 # e, 59 # g, [], S ''[general]'', S ''interval=15'', []]
        @ [91 # n @ [93], assignment key v, assignment ''data'' w, S ''context = incoming-mobile'', S ''group = 1'',
           S ''smsaspdu = yes'', S ''autodeletesms = yes''])"
    and u: "unbroken a" "unbroken b" "unbroken c" "unbroken e" "unbroken g"
    using conf_lines [of p py_repr] assms unfolding defs key_def by blast
  have "unbroken (assignment k x)" if "one_word x" "k \<in> {''audio'', ''data'', ''alsadev''}" for k x
    using that one_word_unbroken [OF that(1)] by (auto simp: assignment_def S_def is_break_def)
  moreover have "key \<in> {''audio'', ''data'', ''alsadev''}" by (simp add: key_def)
  ultimately have "unbroken (assignment key v)" "unbroken (assignment ''data'' w)" using f(4,5) by auto
  then have "split_lines (render_dongle_conf py_repr p) =
      [59 # a, 59 # b, 59 # c, 59 # e, 59 # g, [], S ''[general]'', S ''interval=15'', []]
        @ [91 # n @ [93], assignment key v, assignment ''data'' w, S ''context = incoming-mobile'', S ''group = 1'',
           S ''smsaspdu = yes'', S ''autodeletesms = yes'']"
    unfolding conf using u f(3) by (intro split_join_lines) (simp add: S_def is_break_def)
  then have "parse_dongle_conf (render_dongle_conf py_repr p) = fold conf_line
        [91 # n @ [93], assignment key v, assignment ''data'' w, S ''context = incoming-mobile'', S ''group = 1'',
           S ''smsaspdu = yes'', S ''autodeletesms = yes''] \<lparr>dc_section = S ''general'', dc_audio = [], dc_data = [], dc_alsadev = []\<rparr>"
    unfolding parse_dongle_conf_def by (simp only: fold_append comp_apply conf_preamble)
  then show ?thesis
    using conf_device [OF f(1,2,4,5), of key _ "has_value p ''alsadev''"] unfolding defs v_def [symmetric]
    by (auto simp: key_def v_def split: if_splits)
qed

theorem dongle_conf_round_trip_witness:
  "parse_dongle_conf (render_dongle_conf (\<lambda>_. []) sample_profile)
     = \<lparr>dc_section = S ''gsm'', dc_audio = S ''a'', dc_data = S ''b'', dc_alsadev = []\<rparr>"
proof -
  have "\<not> has_value sample_profile ''alsadev''" by (simp add: has_value_def sample_profile_def)
  moreover from this have "conf_profile (\<lambda>_. []) sample_profile"
    by (simp add: conf_profile_def Let_def one_word_def text_facts S_def)
  ultimately show ?thesis using dongle_conf_round_trip [of "\<lambda>_. []" sample_profile] by simp
qed


section \<open>Profiles made from guesses\<close>

lemma setdefault_get: "key \<noteq> k \<Longrightarrow> dget (setdefault key v p) (S k) = dget p (S k)"
  by (simp add: setdefault_def)

lemma meta_same: "same_disk d (snd (udev_meta sh realpath dev d))"
  using shell_same [of d sh] by (simp add: udev_meta_def case_prod_beta)

lemma port_list_same: "same_disk d (snd (port_list sh realpath devs d))"
proof (induction devs arbitrary: d)
  case Nil
  show ?case by (simp add: same_disk_def)
next
  case (Cons dev devs)
  show ?case
    using same_disk_trans [OF meta_same Cons.IH, of d sh realpath dev] by (simp add: case_prod_beta)
qed

lemma first_card_same: "same_disk d (snd (first_card sh hint cs d))"
proof (induction cs arbitrary: d)
  case Nil
  show ?case by (simp add: same_disk_def)
next
  case (Cons c cs)
  show ?case
    using Cons.IH [of d] same_disk_trans [OF shell_same Cons.IH, of d sh] shell_same [of d sh]
    by (simp add: case_prod_beta)
qed

lemma probe_same: "same_disk d (snd (probe sh realpath raw d))"
proof -
  obtain ports d1 where p: "probe_devices sh realpath d = (ports, d1)" by (rule prod.exhaust)
  have 1: "same_disk d d1"
    using p same_disk_trans [OF shell_same port_list_same] by (simp add: probe_devices_def case_prod_beta) (metis snd_conv)
  have 2: "same_disk d (snd (shell_run sh ShowDevices d1))" using same_disk_trans [OF 1 shell_same] .
  have 3: "same_disk d (snd (find_uac_card sh h (snd (shell_run sh ShowDevices d1))))" for h
    using same_disk_trans [OF same_disk_trans [OF 2 shell_same] first_card_same]
    by (simp add: find_uac_card_def case_prod_beta)
  show ?thesis using 1 2 3 by (simp add: probe_def p Let_def case_prod_beta split: option.split)
qed

lemma apply_profiles: "dk_profiles (snd (apply_artifacts py_repr sh p d)) = dk_profiles d"
proof (cases "apply_artifacts py_repr sh p d")
  case (Pair r d1)
  then show ?thesis
  proof (cases r)
    case (Inl e)
    with Pair have "d1 = backup_all d"
      by (auto simp: apply_artifacts_def Let_def split: if_splits sum.splits)
    with Pair show ?thesis by (simp add: backup_all_def backup_def split: option.split)
  next
    case (Inr u)
    with Pair show ?thesis using apply_frame(1) by simp
  qed
qed

text \<open>A step that changes no stored profile but for writing an unverified one.\<close>
definition unverified_write :: "(json \<Rightarrow> str) \<Rightarrow> disk \<Rightarrow> disk \<Rightarrow> bool" where
  "unverified_write py_repr d d' \<longleftrightarrow>
     (\<forall>n. dget (dk_profiles d') n = dget (dk_profiles d) n
        \<or> name_form n \<and> (\<exists>q. dget q (S ''verified'') = Some (JBool False)
             \<and> dget (dk_profiles d') n = Some (render_profile py_repr q)))"

lemma write_unverified:
  assumes "dget q (S ''verified'') = Some (JBool False)" and "dk_profiles d0 = dk_profiles d"
    and "dk_profiles d' = dk_profiles (snd (write_profile py_repr q d0))"
  shows "unverified_write py_repr d d'"
  using assms
  by (auto simp: unverified_write_def write_profile_def profile_path_def split: list.splits if_splits)

lemma write_step:
  "dget q (S ''verified'') = Some (JBool False) \<Longrightarrow> dk_profiles d0 = dk_profiles d
   \<Longrightarrow> unverified_write py_repr d (snd (write_profile py_repr q d0))"
  by (rule write_unverified) simp_all

lemma unverified_same: "dk_profiles d' = dk_profiles d \<Longrightarrow> unverified_write py_repr d d'"
  by (simp add: unverified_write_def)

lemma args_unverified: "dget (args_profile a u r) (S ''verified'') = Some (JBool False)"
  by (simp add: args_profile_def)

lemma probed_unverified: "probed_profile fi a p = Inr q \<Longrightarrow> dget q (S ''verified'') = Some (JBool False)"
  by (auto simp: probed_profile_def Let_def split: option.splits prod.splits)

lemma new_unverified: "unverified_write py_repr d (snd (cmd_new py_repr a d))"
  by (simp add: cmd_new_def Let_def unverified_same write_step args_unverified split: sum.split)

lemma init_unverified: "unverified_write py_repr d (snd (cmd_init py_repr sh a d))"
proof (cases "may_create (pa_name a) (pa_force a) d")
  case (Inr u)
  define p where "p = args_profile a (if pa_vid_pid a = [] then [] else map udev_entry (init_interfaces a))
      (S ''created by install.py (fresh install) '' @ [8212] @ S '' refine with probe/capture after the first live test'')"
  obtain x d1 where w: "write_profile py_repr p d = (x, d1)" by (rule prod.exhaust)
  have "cmd_init py_repr sh a d =
     (case write_profile py_repr p d of
        (Inl e, d1) \<Rightarrow> (Inl e, d1)
      | (Inr _, d1) \<Rightarrow> map_prod (map_sum id (\<lambda>_. 0)) id (apply_artifacts py_repr sh p (write_active (pa_name a) d1)))"
    unfolding cmd_init_def Inr sum.case Let_def p_def by (rule refl)
  then have "dk_profiles (snd (cmd_init py_repr sh a d)) = dk_profiles (snd (write_profile py_repr p d))"
    unfolding w by (cases x) (simp_all add: apply_profiles write_active_def write_file_def)
  then show ?thesis by (intro write_unverified [of p d d]) (simp_all add: p_def args_unverified)
qed (simp add: cmd_init_def unverified_same)

lemma probe_unverified: "unverified_write py_repr d (snd (cmd_probe py_repr parse sh realpath raw a d))"
proof -
  obtain r d1 where p: "probe sh realpath raw d = (r, d1)" by (rule prod.exhaust)
  have d1: "dk_profiles d1 = dk_profiles d" using probe_same [of d sh realpath raw] p by (simp add: same_disk_def)
  show ?thesis
    using d1 by (auto simp: cmd_probe_def p unverified_same probed_unverified intro: write_step split: sum.split)
qed



end
