(* ===== verification/AmiClient.thy ===== *)
theory AmiClient
  imports Text Prelude Modem Metrics
begin

text \<open>
  \<open>agent/ami_client.py\<close> and \<open>agent/modem_poll.py\<close>: the line protocol of the Asterisk manager, the
  SMS action, the drain of the device list, and the poller that feeds the modem provider.

  A connected client is its two streams: what the server will still send (\<open>am_in\<close>, a list of
  lines with their terminators, where \<open>Stall\<close> is a read that times out and the end of the list is
  the end of the stream, at which \<open>readline\<close> returns the empty line) and what the client has
  written (\<open>am_out\<close>, one text per action). The action id, which the code derives from the clock,
  is an argument. Every transaction holds the lock, so it is one atomic function.
\<close>

section \<open>The client\<close>

datatype ami_in =
    Line str
  | Stall

datatype ami_error =
    NotConnected
  | ReadTimeout
  | NewlineInField str
  | AMISendError str "(str, str) dict"
  | LoginFailed "(str, str) dict"
  | ClosedImmediately

record ami_client =
  am_dongle :: str
  am_stream :: "ami_in list option"
  am_out :: "str list"

definition AMI_DRAIN_CAP :: nat where
  "AMI_DRAIN_CAP = 1024"

definition CRLF :: str where
  "CRLF = [13, 10]"

definition drop_streams :: "ami_client \<Rightarrow> ami_client" where
  "drop_streams a = a\<lparr>am_stream := None\<rparr>"

section \<open>Writing\<close>

definition has_newline :: "str \<Rightarrow> bool" where
  "has_newline v \<longleftrightarrow> 13 \<in> set v \<or> 10 \<in> set v"

definition render_action :: "(str, str) dict \<Rightarrow> str" where
  "render_action fs = concat (map (\<lambda>(k, v). k @ S '': '' @ v @ CRLF) fs) @ CRLF"

definition send_action :: "(str, str) dict \<Rightarrow> ami_client \<Rightarrow> (ami_error + unit) \<times> ami_client" where
  "send_action fs a =
     (if am_stream a = None then (Inl NotConnected, a)
      else case List.find (\<lambda>(k, v). has_newline v) fs of
             Some (k, _) \<Rightarrow> (Inl (NewlineInField k), a)
           | None \<Rightarrow> (Inr (), a\<lparr>am_out := am_out a @ [render_action fs]\<rparr>))"

section \<open>Reading\<close>

definition blank_line :: "str \<Rightarrow> bool" where
  "blank_line l \<longleftrightarrow> l = CRLF \<or> l = [10] \<or> l = []"

definition add_header :: "str \<Rightarrow> (str, str) dict \<Rightarrow> (str, str) dict" where
  "add_header l headers =
     (case split_at 58 (strip l) of
        None \<Rightarrow> headers
      | Some (key, val) \<Rightarrow> dput (strip key) (strip val) headers)"

fun read_headers :: "(str, str) dict \<Rightarrow> ami_in list \<Rightarrow> (str, str) dict option \<times> ami_in list" where
  "read_headers headers [] = (Some headers, [])"
| "read_headers headers (Stall # rest) = (None, rest)"
| "read_headers headers (Line l # rest) =
     (if blank_line l then (Some headers, rest) else read_headers (add_header l headers) rest)"

definition read_response :: "ami_client \<Rightarrow> (ami_error + (str, str) dict) \<times> ami_client" where
  "read_response a =
     (case am_stream a of
        None \<Rightarrow> (Inl NotConnected, a)
      | Some input \<Rightarrow>
          (case read_headers [] input of
             (None, rest) \<Rightarrow> (Inl ReadTimeout, drop_streams a)
           | (Some headers, rest) \<Rightarrow> (Inr headers, a\<lparr>am_stream := Some rest\<rparr>)))"

definition transact :: "(str, str) dict \<Rightarrow> ami_client \<Rightarrow> (ami_error + (str, str) dict) \<times> ami_client" where
  "transact fs a =
     (case send_action fs a of
        (Inl e, a1) \<Rightarrow> (Inl e, a1)
      | (Inr _, a1) \<Rightarrow> read_response a1)"

text \<open>\<open>resp.get(key, default)\<close>\<close>
definition field :: "(str, str) dict \<Rightarrow> string \<Rightarrow> str \<Rightarrow> str" where
  "field resp key dflt = (case dget resp (S key) of None \<Rightarrow> dflt | Some v \<Rightarrow> v)"

section \<open>Connecting\<close>

text \<open>\<open>connect\<close>: \<open>opened\<close> is the stream of a new TCP connection.\<close>
definition ami_connect ::
    "str \<Rightarrow> str \<Rightarrow> ami_in list \<Rightarrow> ami_client \<Rightarrow> (ami_error + unit) \<times> ami_client" where
  "ami_connect username password opened a =
     (case opened of
        [] \<Rightarrow> (Inl ClosedImmediately, drop_streams a)
      | Stall # _ \<Rightarrow> (Inl ReadTimeout, drop_streams a)
      | Line greeting # rest \<Rightarrow>
          if greeting = [] then (Inl ClosedImmediately, drop_streams a)
          else
            (case transact [(S ''Action'', S ''Login''), (S ''UserName'', username), (S ''Secret'', password)]
                    (a\<lparr>am_stream := Some rest\<rparr>) of
               (Inl e, a1) \<Rightarrow> (Inl e, drop_streams a1)
             | (Inr resp, a1) \<Rightarrow>
                 if dget resp (S ''Response'') \<in> {Some (S ''Success''), Some (S ''Followed'')}
                 then (Inr (), a1) else (Inl (LoginFailed resp), drop_streams a1)))"

definition ami_close :: "ami_client \<Rightarrow> ami_client" where
  "ami_close a = drop_streams a"

section \<open>Sending an SMS\<close>

text \<open>\<open>re.sub(r"[\r\n]+", " ", text)\<close>\<close>
fun flatten_lines :: "bool \<Rightarrow> str \<Rightarrow> str" where
  "flatten_lines in_run [] = []"
| "flatten_lines in_run (c # cs) =
     (if c = 13 \<or> c = 10 then (if in_run then [] else [32]) @ flatten_lines True cs
      else c # flatten_lines False cs)"

definition sms_action :: "str \<Rightarrow> str \<Rightarrow> str \<Rightarrow> str \<Rightarrow> str option \<Rightarrow> (str, str) dict" where
  "sms_action dongle action_id number text payload =
     [(S ''Action'', S ''DongleSendSMS''), (S ''Device'', dongle), (S ''Number'', number),
      (S ''Message'', flatten_lines False text), (S ''Validity'', S ''1440''), (S ''Report'', S ''yes''),
      (S ''ActionID'', action_id)]
     @ (case payload of None \<Rightarrow> [] | Some p \<Rightarrow> [(S ''Payload'', p)])"

definition ami_send_sms ::
    "str \<Rightarrow> str \<Rightarrow> str \<Rightarrow> str option \<Rightarrow> ami_client \<Rightarrow> (ami_error + (str, str) dict) \<times> ami_client" where
  "ami_send_sms action_id number text payload a =
     (case transact (sms_action (am_dongle a) action_id number text payload) a of
        (Inl e, a1) \<Rightarrow> (Inl e, a1)
      | (Inr resp, a1) \<Rightarrow>
          if dget resp (S ''Response'') = Some (S ''Error'') \<or> dget resp (S ''Action'') = Some (S ''failure'')
          then (Inl (AMISendError (field resp ''Message'' (S ''DongleSendSMS failed'')) resp), a1)
          else (Inr resp, a1))"

section \<open>Call actions\<close>

definition originate_call ::
    "str \<Rightarrow> str \<Rightarrow> str \<Rightarrow> str \<Rightarrow> int \<Rightarrow> str option \<Rightarrow> (str \<times> str) list \<Rightarrow> ami_client
     \<Rightarrow> (ami_error + (str, str) dict) \<times> ami_client" where
  "originate_call action_id endpoint context extension priority caller_id channel_vars a =
     (let base = [(S ''Action'', S ''Originate''), (S ''Channel'', endpoint), (S ''Context'', context),
                  (S ''Extension'', extension), (S ''Priority'', int_text priority), (S ''ActionID'', action_id)];
          with_id = (case caller_id of None \<Rightarrow> base | Some c \<Rightarrow> if c = [] then base else dput (S ''CallerID'') c base);
          fs = fold (\<lambda>(k, v) d. dput (S ''Variable'') (k @ S ''='' @ v) d) channel_vars with_id
      in transact fs a)"

definition hangup_channel ::
    "str \<Rightarrow> str \<Rightarrow> str \<Rightarrow> ami_client \<Rightarrow> (ami_error + (str, str) dict) \<times> ami_client" where
  "hangup_channel action_id channel reason =
     transact [(S ''Action'', S ''Hangup''), (S ''Channel'', channel), (S ''Reason'', reason),
               (S ''ActionID'', action_id)]"

definition list_channels :: "str \<Rightarrow> ami_client \<Rightarrow> (ami_error + (str, str) dict list) \<times> ami_client" where
  "list_channels action_id a =
     (case transact [(S ''Action'', S ''CoreShowChannels''), (S ''ActionID'', action_id)] a of
        (Inl e, a1) \<Rightarrow> (Inl e, a1)
      | (Inr r, a1) \<Rightarrow> (Inr [r], a1))"

definition set_channel_variable ::
    "str \<Rightarrow> str \<Rightarrow> str \<Rightarrow> str \<Rightarrow> ami_client \<Rightarrow> (ami_error + (str, str) dict) \<times> ami_client" where
  "set_channel_variable action_id channel variable val =
     transact [(S ''Action'', S ''SetVariable''), (S ''Channel'', channel), (S ''Variable'', variable),
               (S ''Value'', val), (S ''ActionID'', action_id)]"

section \<open>The device list\<close>

definition marker_header :: "(str, str) dict \<Rightarrow> str" where
  "marker_header resp = (let ev = field resp ''Event'' [] in if ev \<noteq> [] then ev else field resp ''Message'' [])"

definition is_device_entry :: "(str, str) dict \<Rightarrow> bool" where
  "is_device_entry resp \<longleftrightarrow>
     occurs_in (S ''DongleDeviceEntry'') (marker_header resp)
     \<or> dget resp (S ''GSMRegistrationStatus'') \<noteq> None \<and> dget resp (S ''Device'') \<noteq> None"

definition is_list_complete :: "(str, str) dict \<Rightarrow> bool" where
  "is_list_complete resp \<longleftrightarrow>
     occurs_in (S ''DongleShowDevicesComplete'') (marker_header resp)
     \<or> occurs_in (S ''ListComplete'') (marker_header resp)"

definition REGISTERED_STATES :: "str set" where
  "REGISTERED_STATES = {S ''Registered, home network'', S ''Registered, roaming''}"

record modem_status =
  ms_device :: str
  ms_registered :: bool
  ms_signal :: "int option"
  ms_operator :: "str option"
  ms_imei :: "str option"

text \<open>\<open>round((dbm + 110) * 100 / 60)\<close>: thirds are never half-way, so the nearest integer.\<close>
definition signal_percent :: "str \<Rightarrow> int option" where
  "signal_percent rssi =
     map_option (\<lambda>dbm. max 0 (min 100 ((10 * (dbm + 110) + 3) div 6)))
       (parse_int (strip (takeWhile (\<lambda>c. c \<noteq> 44) rssi)))"

definition or_none :: "str \<Rightarrow> str option" where
  "or_none s = (if s = [] then None else Some s)"

definition normalize_device_entry :: "(str, str) dict \<Rightarrow> modem_status" where
  "normalize_device_entry e =
     (let imei = field e ''IMEIState'' []
      in \<lparr>ms_device = field e ''Device'' [],
          ms_registered = field e ''GSMRegistrationStatus'' [] \<in> REGISTERED_STATES,
          ms_signal = signal_percent (field e ''RSSI'' []),
          ms_operator = or_none (field e ''ProviderName'' []),
          ms_imei = (if imei = [] then None else Some (drop (length imei - 4) imei))\<rparr>)"

text \<open>What one message does to the drain: the entry found, whether our ack was seen, whether our
  terminator was.\<close>
record drain_state =
  dr_entry :: "(str, str) dict"
  dr_acked :: bool
  dr_done :: bool

definition drain_message :: "str \<Rightarrow> (str, str) dict \<Rightarrow> drain_state \<Rightarrow> drain_state" where
  "drain_message action_id resp d =
     (let aid = (dget resp (S ''ActionID'') = Some action_id)
      in if is_device_entry resp \<and> (aid \<or> dr_acked d)
         then (if dr_entry d = [] then d\<lparr>dr_entry := resp\<rparr> else d)
         else if is_list_complete resp
         then (if aid \<or> dr_acked d then d\<lparr>dr_done := True\<rparr> else d)
         else if dget resp (S ''Response'') \<in> {Some (S ''Success''), Some (S ''Followed'')} \<and> aid
         then d\<lparr>dr_acked := True\<rparr> else d)"

fun drain :: "nat \<Rightarrow> str \<Rightarrow> drain_state \<Rightarrow> ami_client \<Rightarrow> (ami_error + drain_state) \<times> ami_client" where
  "drain 0 action_id d a = (Inr d, a)"
| "drain (Suc n) action_id d a =
     (case read_response a of
        (Inl e, a1) \<Rightarrow> (Inl e, a1)
      | (Inr resp, a1) \<Rightarrow>
          (let d1 = drain_message action_id resp d
           in if dr_done d1 then (Inr d1, a1) else drain n action_id d1 a1))"

definition drain_start :: drain_state where
  "drain_start = \<lparr>dr_entry = [], dr_acked = False, dr_done = False\<rparr>"

text \<open>\<open>get_modem_status\<close>; \<open>None\<close> is the empty dictionary of "no device entry".\<close>
definition get_modem_status :: "str \<Rightarrow> ami_client \<Rightarrow> (ami_error + modem_status option) \<times> ami_client" where
  "get_modem_status action_id a =
     (case send_action [(S ''Action'', S ''DongleShowDevices''), (S ''Device'', am_dongle a),
                        (S ''ActionID'', action_id)] a of
        (Inl e, a1) \<Rightarrow> (Inl e, a1)
      | (Inr _, a1) \<Rightarrow>
          (case drain AMI_DRAIN_CAP action_id drain_start a1 of
             (Inl e, a2) \<Rightarrow> (Inl e, a2)
           | (Inr d, a2) \<Rightarrow>
               (Inr (if dr_entry d = [] then None else Some (normalize_device_entry (dr_entry d))), a2)))"

section \<open>The poller\<close>

text \<open>Which errors are a \<open>ConnectionError\<close>; the others leave the poll as a crash.\<close>
fun is_connection_error :: "ami_error \<Rightarrow> bool" where
  "is_connection_error NotConnected = True"
| "is_connection_error ReadTimeout = True"
| "is_connection_error (LoginFailed _) = True"
| "is_connection_error ClosedImmediately = True"
| "is_connection_error _ = False"

definition poll_modem_state ::
    "int \<Rightarrow> int \<Rightarrow> str \<Rightarrow> ami_error + modem_status option \<Rightarrow> single_provider \<Rightarrow> metrics
     \<Rightarrow> bool option \<times> single_provider \<times> metrics" where
  "poll_modem_state now mono_now modem_id result p m =
     (case result of
        Inl e \<Rightarrow> (if is_connection_error e then Some (sp_is_available p modem_id) else None, p, m)
      | Inr None \<Rightarrow>
          (Some False, snd (sp_mark_offline now modem_id p), set_modem_registered mono_now (Some False) m)
      | Inr (Some st) \<Rightarrow>
          (let p' = snd (sp_update_state now modem_id (ms_registered st) (ms_signal st) (ms_operator st) None p)
           in (Some (sp_is_available p' modem_id), p', set_modem_registered mono_now (Some (ms_registered st)) m)))"

section \<open>The wire\<close>

lemma universal_newlines_CRLF:
  "13 \<notin> set l \<Longrightarrow> universal_newlines (l @ CRLF @ r) = l @ 10 # universal_newlines r"
proof (induction l)
  case Nil
  then show ?case by (simp add: CRLF_def)
next
  case (Cons c l)
  then show ?case by (cases "l @ CRLF @ r") (auto simp: CRLF_def)
qed

lemma text_lines_CRLF:
  "\<forall>l \<in> set ls. \<not> has_newline l \<Longrightarrow> text_lines (concat (map (\<lambda>l. l @ CRLF) ls)) = ls"
proof (induction ls)
  case Nil
  then show ?case by (simp add: text_lines_def)
next
  case (Cons l ls)
  then show ?case
    by (simp add: text_lines_def universal_newlines_CRLF newline_split_line has_newline_def)
qed

definition header_line :: "str \<times> str \<Rightarrow> str" where
  "header_line kv = (case kv of (k, v) \<Rightarrow> k @ S '': '' @ v)"

lemma render_lines:
  assumes "\<forall>kv \<in> set fs. \<not> has_newline (fst kv) \<and> \<not> has_newline (snd kv)"
  shows "text_lines (render_action fs) = map header_line fs @ [[]]"
proof -
  have "render_action fs = concat (map (\<lambda>l. l @ CRLF) (map header_line fs @ [[]]))"
    by (simp add: render_action_def header_line_def comp_def case_prod_unfold)
  moreover have "\<forall>l \<in> set (map header_line fs @ [[]]). \<not> has_newline l"
    using assms by (auto simp: header_line_def has_newline_def S_def)
  ultimately show ?thesis by (simp only: text_lines_CRLF)
qed

lemma flatten_no_newline: "\<not> has_newline (flatten_lines b t)"
  by (induction b t rule: flatten_lines.induct) (auto simp: has_newline_def)

lemma sms_keys_no_newline:
  "kv \<in> set (sms_action dongle action_id number text payload) \<Longrightarrow> \<not> has_newline (fst kv)"
  by (auto simp: sms_action_def has_newline_def S_def split: option.splits)

definition sms_arguments :: "str \<Rightarrow> str \<Rightarrow> str \<Rightarrow> str option \<Rightarrow> str list" where
  "sms_arguments dongle action_id number payload =
     [dongle, action_id, number] @ (case payload of None \<Rightarrow> [] | Some p \<Rightarrow> [p])"

lemma sms_values_newline:
  "(\<exists>kv \<in> set (sms_action dongle action_id number text payload). has_newline (snd kv))
     = (\<exists>v \<in> set (sms_arguments dongle action_id number payload). has_newline v)"
proof -
  have lit: "\<not> has_newline (S ''DongleSendSMS'')" "\<not> has_newline (S ''1440'')" "\<not> has_newline (S ''yes'')"
    by (simp_all add: has_newline_def S_def)
  show ?thesis
    by (auto simp: sms_action_def sms_arguments_def lit flatten_no_newline split: option.splits)
qed

lemma send_action_find:
  "am_stream a \<noteq> None \<Longrightarrow>
     send_action fs a =
       (if \<exists>kv \<in> set fs. has_newline (snd kv)
        then (Inl (NewlineInField (fst (the (List.find (\<lambda>(k, v). has_newline v) fs)))), a)
        else (Inr (), a\<lparr>am_out := am_out a @ [render_action fs]\<rparr>))"
  by (auto simp: send_action_def find_None_iff case_prod_unfold split: option.split
      dest!: find_Some_iff [THEN iffD1])

lemma read_response_out: "am_out (snd (read_response a)) = am_out a"
  by (auto simp: read_response_def drop_streams_def split: option.split prod.split)

lemma ami_send_sms_out: "am_out (snd (ami_send_sms action_id number text payload a)) =
    am_out (snd (send_action (sms_action (am_dongle a) action_id number text payload) a))"
proof -
  obtain r a1 where s: "send_action (sms_action (am_dongle a) action_id number text payload) a = (r, a1)"
    by fastforce
  obtain q a2 where q: "read_response a1 = (q, a2)" by fastforce
  show ?thesis
    using read_response_out [of a1] s q
    by (cases r; cases q) (auto simp: ami_send_sms_def transact_def)
qed

section \<open>Messages\<close>

definition wire_message :: "str list \<Rightarrow> ami_in list" where
  "wire_message ls = map Line ls @ [Line CRLF]"

definition parse_message :: "str list \<Rightarrow> (str, str) dict" where
  "parse_message ls = fold add_header ls []"

definition wire :: "str list list \<Rightarrow> ami_in list" where
  "wire ms = concat (map wire_message ms)"

definition wire_ok :: "str list list \<Rightarrow> bool" where
  "wire_ok ms \<longleftrightarrow> (\<forall>m \<in> set ms. \<forall>l \<in> set m. \<not> blank_line l)"

lemma read_headers_message:
  "\<forall>l \<in> set ls. \<not> blank_line l \<Longrightarrow>
     read_headers h (map Line ls @ Line CRLF # rest) = (Some (fold add_header ls h), rest)"
  by (induction ls arbitrary: h) (auto simp: blank_line_def)

lemma read_response_message:
  "\<forall>l \<in> set m. \<not> blank_line l \<Longrightarrow> am_stream a = Some (wire_message m @ rest) \<Longrightarrow>
     read_response a = (Inr (parse_message m), a\<lparr>am_stream := Some rest\<rparr>)"
  by (simp add: read_response_def wire_message_def read_headers_message parse_message_def)

lemma drain_one:
  assumes "\<forall>l \<in> set m. \<not> blank_line l" and "\<not> dr_done (drain_message i (parse_message m) d)"
  shows "drain (Suc n) i d (a\<lparr>am_stream := Some (wire_message m @ rest)\<rparr>)
       = drain n i (drain_message i (parse_message m) d) (a\<lparr>am_stream := Some rest\<rparr>)"
  using assms by (simp add: read_response_message [OF assms(1)] Let_def)

lemma drain_skip:
  assumes "wire_ok ms" and "\<forall>m \<in> set ms. drain_message i (parse_message m) d = d" and "\<not> dr_done d"
  shows "drain (length ms + n) i d (a\<lparr>am_stream := Some (wire ms @ rest)\<rparr>)
       = drain n i d (a\<lparr>am_stream := Some rest\<rparr>)"
  using assms
proof (induction ms)
  case Nil
  then show ?case by (simp add: wire_def)
next
  case (Cons m ms)
  have ok: "\<forall>l \<in> set m. \<not> blank_line l" using Cons.prems(1) by (simp add: wire_ok_def)
  have "drain (Suc (length ms + n)) i d (a\<lparr>am_stream := Some (wire_message m @ wire ms @ rest)\<rparr>)
      = drain (length ms + n) i d (a\<lparr>am_stream := Some (wire ms @ rest)\<rparr>)"
    using drain_one [OF ok, of i d] Cons.prems(2,3) by simp
  with Cons show ?case by (simp add: wire_def wire_ok_def)
qed

text \<open>The drain of a whole reply: messages that change nothing are skipped, the three that count
  move the drain from one state to the next.\<close>
lemma drain_reply:
  assumes "wire_ok (pre @ [ack] @ mid1 @ [ent] @ mid2 @ [fin])"
    and "length (pre @ [ack] @ mid1 @ [ent] @ mid2 @ [fin]) \<le> AMI_DRAIN_CAP"
    and "am_stream a = Some (wire (pre @ [ack] @ mid1 @ [ent] @ mid2 @ [fin]) @ rest)"
    and pre: "\<forall>m \<in> set pre. drain_message i (parse_message m) d0 = d0"
    and ack: "drain_message i (parse_message ack) d0 = d1"
    and mid1: "\<forall>m \<in> set mid1. drain_message i (parse_message m) d1 = d1"
    and entry: "drain_message i (parse_message ent) d1 = d2"
    and mid2: "\<forall>m \<in> set mid2. drain_message i (parse_message m) d2 = d2"
    and fin: "drain_message i (parse_message fin) d2 = d2\<lparr>dr_done := True\<rparr>"
    and undone: "\<not> dr_done d0" "\<not> dr_done d1" "\<not> dr_done d2"
  shows "drain AMI_DRAIN_CAP i d0 a = (Inr (d2\<lparr>dr_done := True\<rparr>), a\<lparr>am_stream := Some rest\<rparr>)"
proof -
  have lines: "wire_ok pre" "wire_ok mid1" "wire_ok mid2" "\<forall>l \<in> set ack. \<not> blank_line l"
      "\<forall>l \<in> set ent. \<not> blank_line l" "\<forall>l \<in> set fin. \<not> blank_line l"
    using assms(1) by (auto simp: wire_ok_def)
  obtain n where "AMI_DRAIN_CAP = length (pre @ [ack] @ mid1 @ [ent] @ mid2 @ [fin]) + n"
    using assms(2) le_Suc_ex by blast
  then have n: "AMI_DRAIN_CAP = length pre + Suc (length mid1 + Suc (length mid2 + Suc n))" by simp
  have stream: "a = a\<lparr>am_stream := Some (wire pre @ wire_message ack @ wire mid1 @ wire_message ent
      @ wire mid2 @ wire_message fin @ rest)\<rparr>"
    using assms(3) by (simp add: wire_def)
  have "drain AMI_DRAIN_CAP i d0 a
      = drain (Suc n) i d2 (a\<lparr>am_stream := Some (wire_message fin @ rest)\<rparr>)"
    unfolding n
    by (subst stream, subst drain_skip [OF lines(1) pre undone(1)],
        subst drain_one [OF lines(4)], simp add: ack undone,
        simp only: ack drain_skip [OF lines(2) mid1 undone(2)],
        subst drain_one [OF lines(5)], simp add: entry undone,
        simp only: entry drain_skip [OF lines(3) mid2 undone(3)])
  also have "\<dots> = (Inr (d2\<lparr>dr_done := True\<rparr>), a\<lparr>am_stream := Some rest\<rparr>)"
    using read_response_message [OF lines(6), of "a\<lparr>am_stream := Some (wire_message fin @ rest)\<rparr>" rest] fin
    by (simp add: Let_def)
  finally show ?thesis .
qed

section \<open>Properties\<close>

text \<open>C35: user text cannot reach the protocol. On a connected client, when a device, id, number or
  payload contains a newline nothing is written; otherwise exactly one action is written, and
  the lines the server reads are the fields of the SMS action followed by the blank line,
  whatever the text is: its line breaks are gone, and no text adds or ends a header.\<close>
theorem sms_wire_exact:
  assumes "am_stream a \<noteq> None"
  shows "if \<exists>v \<in> set (sms_arguments (am_dongle a) action_id number payload). has_newline v
     then am_out (snd (ami_send_sms action_id number text payload a)) = am_out a
     else (\<exists>msg. am_out (snd (ami_send_sms action_id number text payload a)) = am_out a @ [msg]
        \<and> text_lines msg = map header_line (sms_action (am_dongle a) action_id number text payload) @ [[]])"
proof -
  let ?fs = "sms_action (am_dongle a) action_id number text payload"
  have "text_lines (render_action ?fs) = map header_line ?fs @ [[]]"
    if "\<not> (\<exists>kv \<in> set ?fs. has_newline (snd kv))"
    using that sms_keys_no_newline by (intro render_lines) blast
  then show ?thesis
    using sms_values_newline [of "am_dongle a" action_id number "text" payload]
    by (auto simp: ami_send_sms_out send_action_find [OF assms])
qed

text \<open>Event bursts and stale replies do not disturb a status query. However many foreign
  messages precede our acknowledgement (none of them carrying our id), and however many call
  events are interleaved with the device entry and the terminator, as long as the cap of 1024
  messages is not reached the query returns the entry that belongs to it, and stops reading
  right behind its own terminator.\<close>
theorem status_query_attribution:
  assumes "wire_ok (pre @ [ack] @ mid1 @ [ent] @ mid2 @ [fin])"
    and "length (pre @ [ack] @ mid1 @ [ent] @ mid2 @ [fin]) \<le> AMI_DRAIN_CAP"
    and "\<forall>m \<in> set pre. dget (parse_message m) (S ''ActionID'') \<noteq> Some i"
    and "dget (parse_message ack) (S ''ActionID'') = Some i"
    and "dget (parse_message ack) (S ''Response'') = Some (S ''Success'')"
    and "\<not> is_device_entry (parse_message ack)" and "\<not> is_list_complete (parse_message ack)"
    and "\<forall>m \<in> set (mid1 @ mid2). \<not> is_device_entry (parse_message m) \<and> \<not> is_list_complete (parse_message m)"
    and "is_device_entry (parse_message ent)" and "is_list_complete (parse_message fin)"
    and "\<not> is_device_entry (parse_message fin)"
    and "\<not> has_newline (am_dongle a)" and "\<not> has_newline i"
    and "am_stream a = Some (wire (pre @ [ack] @ mid1 @ [ent] @ mid2 @ [fin]) @ rest)"
  shows "\<exists>a'. get_modem_status i a = (Inr (Some (normalize_device_entry (parse_message ent))), a')
     \<and> am_stream a' = Some rest"
proof -
  define a1 where "a1 = a\<lparr>am_out := am_out a @ [render_action
      [(S ''Action'', S ''DongleShowDevices''), (S ''Device'', am_dongle a), (S ''ActionID'', i)]]\<rparr>"
  have send: "send_action [(S ''Action'', S ''DongleShowDevices''), (S ''Device'', am_dongle a), (S ''ActionID'', i)] a
      = (Inr (), a1)"
    using assms(12-14) by (simp add: send_action_find a1_def) (simp add: has_newline_def S_def)
  define d1 where "d1 = drain_start\<lparr>dr_acked := True\<rparr>"
  define d2 where "d2 = d1\<lparr>dr_entry := parse_message ent\<rparr>"
  have ent: "parse_message ent \<noteq> []"
    using assms(9) by (auto simp: is_device_entry_def marker_header_def field_def S_def startswith_def)
  have pre: "\<forall>m \<in> set pre. drain_message i (parse_message m) drain_start = drain_start"
    using assms(3) by (auto simp: drain_message_def drain_start_def Let_def)
  have ack: "drain_message i (parse_message ack) drain_start = d1"
    using assms(4-7) by (simp add: drain_message_def Let_def d1_def)
  have mid1: "\<forall>m \<in> set mid1. drain_message i (parse_message m) d1 = d1"
    and mid2: "\<forall>m \<in> set mid2. drain_message i (parse_message m) d2 = d2"
    using assms(8) by (auto simp: drain_message_def Let_def d1_def d2_def)
  have entry: "drain_message i (parse_message ent) d1 = d2"
    using assms(9) by (simp add: drain_message_def Let_def d1_def d2_def drain_start_def)
  have fin: "drain_message i (parse_message fin) d2 = d2\<lparr>dr_done := True\<rparr>"
    using assms(10,11) by (simp add: drain_message_def Let_def d2_def d1_def)
  have undone: "\<not> dr_done drain_start" "\<not> dr_done d1" "\<not> dr_done d2"
    by (simp_all add: drain_start_def d1_def d2_def)
  have a1: "am_stream a1 = Some (wire (pre @ [ack] @ mid1 @ [ent] @ mid2 @ [fin]) @ rest)"
    using assms(14) by (simp add: a1_def)
  from drain_reply [OF assms(1,2) a1 pre ack mid1 entry mid2 fin undone]
  show ?thesis using send ent by (simp add: get_modem_status_def d2_def)
qed

text \<open>The end of the stream is not an error. When the server has closed the connection, an SMS is
  reported as sent, and a status query finds no device, so the poller marks a working modem
  offline and deregistered although the device reported nothing.\<close>
theorem eof_is_not_an_error:
  assumes "am_stream a = Some []" and "\<forall>v \<in> set (sms_arguments (am_dongle a) action_id number payload). \<not> has_newline v"
  shows "fst (ami_send_sms action_id number text payload a) = Inr []
     \<and> fst (get_modem_status action_id a) = Inr None
     \<and> (case poll_modem_state now mono_now (sp_id p) (fst (get_modem_status action_id a)) p m of
          (ok, p', m') \<Rightarrow> ok = Some False \<and> \<not> sp_is_available p' (sp_id p) \<and> m_modem_registered m' = Some False)"
proof -
  have n: "\<not> has_newline (am_dongle a)" "\<not> has_newline action_id"
    using assms(2) by (auto simp: sms_arguments_def)
  have "\<not> (\<exists>kv \<in> set (sms_action (am_dongle a) action_id number text payload). has_newline (snd kv))"
    using sms_values_newline assms(2) by blast
  then have sms: "fst (ami_send_sms action_id number text payload a) = Inr []"
    using assms(1) by (simp add: ami_send_sms_def transact_def send_action_find read_response_def)
  have drain: "fst (drain k i drain_start b) = Inr drain_start" if "am_stream b = Some []" for k i b
    using that
  proof (induction k arbitrary: b)
    case 0
    then show ?case by simp
  next
    case (Suc k)
    have "drain_message i [] drain_start = drain_start"
      by (simp add: drain_message_def drain_start_def Let_def)
    with Suc show ?case by (simp add: read_response_def drain_start_def)
  qed
  define fs where "fs = [(S ''Action'', S ''DongleShowDevices''), (S ''Device'', am_dongle a), (S ''ActionID'', action_id)]"
  have "\<not> has_newline (S ''DongleShowDevices'')" by (simp add: has_newline_def S_def)
  then have send: "send_action fs a = (Inr (), a\<lparr>am_out := am_out a @ [render_action fs]\<rparr>)"
    using n assms(1) by (simp add: send_action_find fs_def)
  obtain r b where r: "drain AMI_DRAIN_CAP action_id drain_start (a\<lparr>am_out := am_out a @ [render_action fs]\<rparr>) = (r, b)"
    by fastforce
  moreover have "r = Inr drain_start" using drain [of _ AMI_DRAIN_CAP action_id] assms(1) r by (metis ami_client.select_convs(2) ami_client.surjective ami_client.update_convs(3) fst_conv)
  ultimately have "fst (get_modem_status action_id a) = Inr None"
    using send by (simp add: get_modem_status_def fs_def drain_start_def)
  with sms show ?thesis
    by (simp add: poll_modem_state_def sp_mark_offline_def sp_derive_def sp_is_available_def sp_get_info_def
        derive_state_def AVAILABLE_STATES_def set_modem_registered_def truthy_text_def)
qed

definition sample_ami :: "ami_in list \<Rightarrow> ami_client" where
  "sample_ami input = \<lparr>am_dongle = S ''gsm'', am_stream = Some input, am_out = []\<rparr>"

lemma sample_args_ok: "\<not> has_newline (S ''gsm'')" "\<not> has_newline (S ''x'')" "\<not> has_newline (S ''112233'')"
  by (simp_all add: has_newline_def S_def)

theorem sms_wire_exact_witness:
  "\<exists>msg. am_out (snd (ami_send_sms (S ''x'') (S ''112233'') (S ''hi'' @ CRLF @ S ''Action: Originate'') None
             (sample_ami []))) = [msg]
     \<and> text_lines msg = [S ''Action: DongleSendSMS'', S ''Device: gsm'', S ''Number: 112233'',
          S ''Message: hi Action: Originate'', S ''Validity: 1440'', S ''Report: yes'', S ''ActionID: x'', []]"
proof -
  have "flatten_lines False (S ''hi'' @ CRLF @ S ''Action: Originate'') = S ''hi Action: Originate''"
    by (simp add: S_def CRLF_def)
  then show ?thesis
    using sms_wire_exact [of "sample_ami []" "S ''x''" "S ''112233''" None
        "S ''hi'' @ CRLF @ S ''Action: Originate''"]
    by (simp add: sample_ami_def sms_arguments_def sample_args_ok sms_action_def header_line_def
        flip: S_append)
qed

definition w_stale :: "str list" where "w_stale = [S ''Event: DongleShowDevicesComplete'', S ''ActionID: old'']"
definition w_ack :: "str list" where "w_ack = [S ''Response: Success'', S ''ActionID: x'']"
definition w_event :: "str list" where "w_event = [S ''Event: Newstate'']"
definition w_entry :: "str list" where "w_entry = [S ''Event: DongleDeviceEntry'', S ''Device: gsm'']"
definition w_fin :: "str list" where "w_fin = [S ''Event: DongleShowDevicesComplete'', S ''ActionID: x'']"

lemma w_parse:
  "parse_message w_stale = [(S ''Event'', S ''DongleShowDevicesComplete''), (S ''ActionID'', S ''old'')]"
  "parse_message w_ack = [(S ''Response'', S ''Success''), (S ''ActionID'', S ''x'')]"
  "parse_message w_event = [(S ''Event'', S ''Newstate'')]"
  "parse_message w_entry = [(S ''Event'', S ''DongleDeviceEntry''), (S ''Device'', S ''gsm'')]"
  "parse_message w_fin = [(S ''Event'', S ''DongleShowDevicesComplete''), (S ''ActionID'', S ''x'')]"
  by (simp_all add: parse_message_def w_stale_def w_ack_def w_event_def w_entry_def w_fin_def add_header_def
      strip_def lstrip_def rstrip_def S_def is_space_def space_points_def)

lemma w_occurs:
  "occurs_in (S ''DongleDeviceEntry'') (S ''DongleDeviceEntry'')"
  "occurs_in (S ''DongleShowDevicesComplete'') (S ''DongleShowDevicesComplete'')"
  "\<not> occurs_in (S ''DongleDeviceEntry'') (S ''DongleShowDevicesComplete'')"
  "\<not> occurs_in (S ''DongleDeviceEntry'') (S ''Newstate'')" "\<not> occurs_in (S ''DongleDeviceEntry'') []"
  "\<not> occurs_in (S ''DongleShowDevicesComplete'') (S ''Newstate'')" "\<not> occurs_in (S ''ListComplete'') (S ''Newstate'')"
  "\<not> occurs_in (S ''DongleShowDevicesComplete'') []" "\<not> occurs_in (S ''ListComplete'') []"
  by (simp_all add: S_def startswith_def)

theorem status_query_attribution_witness:
  "\<exists>a'. get_modem_status (S ''x'') (sample_ami (wire ([w_stale] @ [w_ack] @ [w_event] @ [w_entry] @ [] @ [w_fin]) @ []))
     = (Inr (Some (normalize_device_entry (parse_message w_entry))), a') \<and> am_stream a' = Some []"
proof -
  have ok: "wire_ok ([w_stale] @ [w_ack] @ [w_event] @ [w_entry] @ [] @ [w_fin])"
    by (simp add: wire_ok_def w_stale_def w_ack_def w_event_def w_entry_def w_fin_def blank_line_def
        CRLF_def S_def)
  show ?thesis
    by (rule status_query_attribution [OF ok])
      (simp_all add: AMI_DRAIN_CAP_def w_parse is_device_entry_def is_list_complete_def marker_header_def
        field_def w_occurs sample_ami_def sample_args_ok)
qed

theorem eof_is_not_an_error_witness:
  "fst (ami_send_sms (S ''x'') (S ''112233'') [] None (sample_ami [])) = Inr []
   \<and> fst (get_modem_status (S ''x'') (sample_ami [])) = Inr None"
proof -
  have "\<forall>v \<in> set (sms_arguments (am_dongle (sample_ami [])) (S ''x'') (S ''112233'') None). \<not> has_newline v"
    by (simp add: sms_arguments_def sample_ami_def sample_args_ok)
  from eof_is_not_an_error [OF _ this] show ?thesis by (simp add: sample_ami_def)
qed

end
