(* ===== verification/Alerting.thy ===== *)
theory Alerting
  imports RateLimit Metrics Modem
begin

text \<open>
  \<open>core/alerting.py\<close> and \<open>agent/supervisor.py\<close>: alert rules with a cooldown, the manager that
  sends alerts through a pluggable transport, and the supervisor that turns state changes into
  alerts. The clock is \<open>time.monotonic\<close> in nanoseconds (\<open>NS\<close> per second), which starts near zero
  when the machine boots. Whether the transport delivers a message is an argument; \<open>al_sent\<close> lists
  the attempts.
\<close>

section \<open>Rules and manager\<close>

record alert_rule =
  ar_cooldown :: int
  ar_last_sent :: int

definition new_rule :: "int \<Rightarrow> alert_rule" where
  "new_rule cooldown = \<lparr>ar_cooldown = cooldown, ar_last_sent = 0\<rparr>"

definition should_send :: "int \<Rightarrow> alert_rule \<Rightarrow> bool \<times> alert_rule" where
  "should_send now r =
     (if now - ar_last_sent r \<ge> ar_cooldown r * NS then (True, r\<lparr>ar_last_sent := now\<rparr>) else (False, r))"

record alert_manager =
  al_rules :: "(str, alert_rule) dict"
  al_sent :: "(int \<times> str \<times> str) list"

definition default_rules :: "(str, alert_rule) dict" where
  "default_rules =
     [(S ''dongle_offline'', new_rule 300), (S ''gsm_registration_lost'', new_rule 300),
      (S ''telegram_session_invalid'', new_rule 600), (S ''peer_unreachable'', new_rule 300),
      (S ''repeated_call_failures'', new_rule 600), (S ''modem_recovery'', new_rule 600),
      (S ''peer_recovery'', new_rule 600)]"

definition new_alert_manager :: alert_manager where
  "new_alert_manager = \<lparr>al_rules = default_rules, al_sent = []\<rparr>"

definition register_rule :: "str \<Rightarrow> int \<Rightarrow> alert_manager \<Rightarrow> alert_manager" where
  "register_rule name cooldown m = m\<lparr>al_rules := dput name (new_rule cooldown) (al_rules m)\<rparr>"

text \<open>\<open>alert\<close>. An unknown rule sends the bare message and lets the transport's exception out.\<close>
definition send_alert ::
    "int \<Rightarrow> str \<Rightarrow> str \<Rightarrow> bool \<Rightarrow> alert_manager \<Rightarrow> (http_error + bool) \<times> alert_manager" where
  "send_alert now name message delivered m =
     (case dget (al_rules m) name of
        None \<Rightarrow> (if delivered then Inr True else Inl (Unhandled (S ''transport'')),
                 m\<lparr>al_sent := al_sent m @ [(now, name, message)]\<rparr>)
      | Some r \<Rightarrow>
          (case should_send now r of
             (False, _) \<Rightarrow> (Inr False, m)
           | (True, r') \<Rightarrow>
               (Inr delivered,
                m\<lparr>al_rules := dput name r' (al_rules m),
                  al_sent := al_sent m @ [(now, name, [128680] @ S '' SimBridge: '' @ message)]\<rparr>)))"

section \<open>The supervisor\<close>

record supervisor_state =
  su_modem_present :: "bool option"
  su_modem_registered :: "bool option"
  su_peer_healthy :: "bool option"

definition new_supervisor :: supervisor_state where
  "new_supervisor = \<lparr>su_modem_present = None, su_modem_registered = None, su_peer_healthy = None\<rparr>"

text \<open>What a cycle reads from the health check: the bridge, and the peer with the
  \<open>telegram_connected\<close> of its own health body when that is a boolean.\<close>
record peer_status =
  ps_healthy :: bool
  ps_detail :: str
  ps_telegram :: "bool option"

record observation =
  ob_bridge :: "bool option"
  ob_peer :: "peer_status option"
  ob_modem :: "modem_info option"

definition modem_present :: "modem_info option \<Rightarrow> bool" where
  "modem_present info \<longleftrightarrow> (case info of None \<Rightarrow> MOFFLINE | Some i \<Rightarrow> mi_state i) \<in> ONLINE_STATES"

definition modem_reg :: "modem_info option \<Rightarrow> bool" where
  "modem_reg info \<longleftrightarrow> (case info of None \<Rightarrow> False | Some i \<Rightarrow> mi_registered i)"

definition dongle :: "str \<Rightarrow> string \<Rightarrow> str" where
  "dongle modem_id s = S ''Dongle '' @ modem_id @ S s"

text \<open>The alerts of a cycle, in the order they are raised.\<close>
definition modem_alerts :: "str \<Rightarrow> modem_info option \<Rightarrow> supervisor_state \<Rightarrow> (str \<times> str) list" where
  "modem_alerts modem_id info st =
     (let present = modem_present info; registered = modem_reg info;
          state = (case info of None \<Rightarrow> MOFFLINE | Some i \<Rightarrow> mi_state i)
      in (if su_modem_present st = Some True \<and> \<not> present
          then [(S ''dongle_offline'', dongle modem_id '': device not present (state=''
                   @ modem_state_value state @ S '')'')] else [])
         @ (if su_modem_registered st = Some True \<and> present \<and> \<not> registered
            then [(S ''gsm_registration_lost'', dongle modem_id '': lost network registration'')] else [])
         @ (if su_modem_registered st = Some False \<and> registered
            then [(S ''modem_recovery'', dongle modem_id '': registered again'')] else []))"

definition peer_alerts :: "peer_status option \<Rightarrow> supervisor_state \<Rightarrow> (str \<times> str) list" where
  "peer_alerts peer st =
     (case peer of
        None \<Rightarrow> []
      | Some p \<Rightarrow>
          (if su_peer_healthy st = Some (\<not> ps_healthy p)
           then (if ps_healthy p then [(S ''peer_recovery'', S ''Userbot node reachable again'')]
                 else [(S ''peer_unreachable'', S ''Userbot node unreachable: '' @ ps_detail p)])
           else []))"

definition supervisor_cycle ::
    "str \<Rightarrow> int \<Rightarrow> observation \<Rightarrow> supervisor_state \<Rightarrow> metrics
     \<Rightarrow> (str \<times> str) list \<times> supervisor_state \<times> metrics" where
  "supervisor_cycle modem_id mono_now ob st m =
     (let m1 = (case ob_bridge ob of None \<Rightarrow> m | Some b \<Rightarrow> set_bridge_reachable mono_now (Some b) m);
          m2 = (case ob_peer ob of None \<Rightarrow> m1
                | Some p \<Rightarrow> (case ps_telegram p of None \<Rightarrow> m1
                              | Some tg \<Rightarrow> set_telegram_connected mono_now (Some tg) m1));
          alerts = modem_alerts modem_id (ob_modem ob) st @ peer_alerts (ob_peer ob) st;
          st1 = st\<lparr>su_modem_present := Some (modem_present (ob_modem ob)),
                   su_modem_registered := Some (modem_reg (ob_modem ob))\<rparr>;
          st2 = (case ob_peer ob of None \<Rightarrow> st1 | Some p \<Rightarrow> st1\<lparr>su_peer_healthy := Some (ps_healthy p)\<rparr>)
      in (alerts, st2, m2))"

text \<open>A run of cycles and the alerts of each; \<open>None\<close> is a failed health check, which is skipped.\<close>
fun supervise :: "str \<Rightarrow> observation option list \<Rightarrow> supervisor_state \<Rightarrow> (str \<times> str) list list" where
  "supervise modem_id [] st = []"
| "supervise modem_id (None # obs) st = [] # supervise modem_id obs st"
| "supervise modem_id (Some ob # obs) st =
     (let st' = fst (snd (supervisor_cycle modem_id 0 ob st new_metrics))
      in (modem_alerts modem_id (ob_modem ob) st @ peer_alerts (ob_peer ob) st)
           # supervise modem_id obs st')"

section \<open>Lemmas\<close>

text \<open>A session of alerts: time, rule, message, delivered.\<close>
fun alert_session :: "(int \<times> str \<times> str \<times> bool) list \<Rightarrow> alert_manager \<Rightarrow> alert_manager" where
  "alert_session [] m = m"
| "alert_session ((now, name, msg, ok) # as) m = alert_session as (snd (send_alert now name msg ok m))"

definition sent_times :: "str \<Rightarrow> alert_manager \<Rightarrow> int list" where
  "sent_times name m = map fst (filter (\<lambda>(t, n, _). n = name) (al_sent m))"

fun spaced :: "int \<Rightarrow> int list \<Rightarrow> bool" where
  "spaced gap [] = True"
| "spaced gap [t] = True"
| "spaced gap (t # u # ts) = (u - t \<ge> gap \<and> spaced gap (u # ts))"

lemma spaced_snoc: "spaced gap (ts @ [t]) \<longleftrightarrow> spaced gap ts \<and> (ts = [] \<or> t - last ts \<ge> gap)"
  by (induction gap ts rule: spaced.induct) auto

text \<open>The rule remembers the last attempt, or 0 when there was none.\<close>
definition rule_inv :: "str \<Rightarrow> int \<Rightarrow> alert_manager \<Rightarrow> bool" where
  "rule_inv name cooldown m \<longleftrightarrow>
     (\<exists>r. dget (al_rules m) name = Some r \<and> ar_cooldown r = cooldown
        \<and> (sent_times name m = [] \<or> ar_last_sent r = last (sent_times name m)))
     \<and> spaced (cooldown * NS) (sent_times name m)"

lemma sent_times_add [simp]:
  "sent_times name (m\<lparr>al_rules := rs, al_sent := al_sent m @ [(t, n, msg)]\<rparr>) =
     (if n = name then sent_times name m @ [t] else sent_times name m)"
  "sent_times name (m\<lparr>al_sent := al_sent m @ [(t, n, msg)]\<rparr>) =
     (if n = name then sent_times name m @ [t] else sent_times name m)"
  by (simp_all add: sent_times_def)

lemma send_alert_inv:
  assumes "rule_inv name cd m"
  shows "rule_inv name cd (snd (send_alert now n msg ok m))"
proof (cases "dget (al_rules m) n")
  case None
  with assms have "n \<noteq> name" by (auto simp: rule_inv_def)
  with None assms show ?thesis by (simp add: send_alert_def rule_inv_def)
next
  case (Some r)
  show ?thesis
  proof (cases "now - ar_last_sent r \<ge> ar_cooldown r * NS")
    case False
    with Some assms show ?thesis by (simp add: send_alert_def should_send_def)
  next
    case True
    with Some assms show ?thesis
      by (cases "n = name") (auto simp: send_alert_def should_send_def rule_inv_def spaced_snoc)
  qed
qed

lemma alert_session_inv: "rule_inv name cd m \<Longrightarrow> rule_inv name cd (alert_session as m)"
  by (induction as m rule: alert_session.induct) (simp_all add: send_alert_inv)

section \<open>Properties\<close>

text \<open>The cooldown holds. In any session of alerts of any rules, the attempts to send one rule
  are at least its cooldown apart.\<close>
theorem alert_cooldown:
  assumes "dget (al_rules m) name = Some r" and "al_sent m = []"
  shows "spaced (ar_cooldown r * NS) (sent_times name (alert_session as m))"
proof -
  have "rule_inv name (ar_cooldown r) m"
    using assms by (simp add: rule_inv_def sent_times_def)
  from alert_session_inv [OF this] show ?thesis by (simp add: rule_inv_def)
qed

theorem alert_cooldown_witness:
  "spaced (300 * NS) (sent_times (S ''dongle_offline'')
     (alert_session [(400 * NS, S ''dongle_offline'', [], True), (500 * NS, S ''dongle_offline'', [], True)]
        new_alert_manager))"
proof -
  have r: "dget (al_rules new_alert_manager) (S ''dongle_offline'') = Some (new_rule 300)"
    by (simp add: new_alert_manager_def default_rules_def)
  have s: "al_sent new_alert_manager = []" by (simp add: new_alert_manager_def)
  have c: "ar_cooldown (new_rule 300) = 300" by (simp add: new_rule_def)
  show ?thesis using alert_cooldown [OF r s] by (simp only: c)
qed

text \<open>Two ways an alert is lost. A rule that never fired suppresses every alert in the first
  cooldown after boot, because "never sent" is recorded as sent at time zero; and an alert whose
  delivery failed is not retried, because the failed attempt starts the cooldown.\<close>
theorem lost_alerts:
  assumes "dget (al_rules m) name = Some (new_rule cd)" and "now < cd * NS"
    and "t \<ge> cd * NS" and "u - t < cd * NS"
  shows "send_alert now name msg True m = (Inr False, m)
     \<and> fst (send_alert u name msg True (snd (send_alert t name msg False m))) = Inr False"
  using assms by (simp add: send_alert_def should_send_def new_rule_def)

theorem lost_alerts_witness:
  "send_alert (200 * NS) (S ''dongle_offline'') [] True new_alert_manager = (Inr False, new_alert_manager)"
proof -
  have "dget (al_rules new_alert_manager) (S ''dongle_offline'') = Some (new_rule 300)"
    by (simp add: new_alert_manager_def default_rules_def)
  from lost_alerts [OF this, of "200 * NS" "300 * NS" "301 * NS"] show ?thesis by (simp add: NS_def)
qed

text \<open>The supervisor is edge-triggered. Repeating an observation raises no alert, a first
  observation raises none, and an alert about the peer is raised exactly on a change of its
  health.\<close>
theorem supervisor_edges:
  "modem_alerts modem_id (ob_modem ob) (fst (snd (supervisor_cycle modem_id t ob st m))) = []
   \<and> peer_alerts (ob_peer ob) (fst (snd (supervisor_cycle modem_id t ob st m))) = []
   \<and> fst (supervisor_cycle modem_id t ob new_supervisor m) = []
   \<and> ((peer_alerts (Some p) st \<noteq> []) = (su_peer_healthy st = Some (\<not> ps_healthy p)))"
  by (auto simp: supervisor_cycle_def modem_alerts_def peer_alerts_def new_supervisor_def Let_def
      split: option.split)

end
