(* ===== verification/Wiring.thy ===== *)
theory Wiring
  imports AmiClient Alerting Recovery UserbotEvents Bridge CallRoutes
begin

text \<open>
  How the processes are put together: \<open>agent/agent.py\<close> (the objects of the agent, its alerts, the check of
  its watchdog), \<open>agent/ami_reconnect.py\<close> (the AMI client that heals itself), the entry points
  \<open>agent/main.py\<close> and \<open>userbot/main.py\<close>, and the timer \<open>scripts/call-timeout-check.py\<close>.

  Delays are milliseconds, as in \<open>Recovery\<close>. The tasks of the event loop interleave at the events of
  \<open>link_event\<close>: the end of a call of the AMI client, the end of a reconnection attempt, the end of a wait.
\<close>

section \<open>Alerts over the network\<close>

text \<open>The userbot's address and the shared secret.\<close>
record alert_target =
  at_url :: str
  at_secret :: str

definition alert_request :: "alert_target \<Rightarrow> str \<Rightarrow> http_request" where
  "alert_request at message =
     \<lparr>hr_url = at_url at @ S ''/events/alert'', hr_body = Some (JObj [(S ''message'', JStr message)]),
      hr_headers = [(S ''x-simbridge-secret'', at_secret at)]\<rparr>"

text \<open>\<open>alert_send\<close>: an address that is not configured and a refusing status raise \<open>ConnectionError\<close>.\<close>
definition alert_send :: "alert_target \<Rightarrow> network \<Rightarrow> str \<Rightarrow> http_error + unit" where
  "alert_send at net message =
     (if at_url at = [] then Inl (Unhandled (S ''ConnectionError''))
      else case net (alert_request at message) of
             HttpReply code _ _ \<Rightarrow> (if 400 \<le> code then Inl (Unhandled (S ''ConnectionError'')) else Inr ())
           | HttpFails _ \<Rightarrow> Inl (Unhandled (S ''HTTPError'')))"

text \<open>The text the manager hands to the transport.\<close>
definition alert_text :: "str \<Rightarrow> str \<Rightarrow> alert_manager \<Rightarrow> str" where
  "alert_text rule message m =
     (if dget (al_rules m) rule = None then message else [128680] @ S '' SimBridge: '' @ message)"

definition agent_alert ::
    "alert_target \<Rightarrow> network \<Rightarrow> int \<Rightarrow> str \<Rightarrow> str \<Rightarrow> alert_manager \<Rightarrow> (http_error + bool) \<times> alert_manager" where
  "agent_alert at net now rule message m =
     send_alert now rule message (is_ok (alert_send at net (alert_text rule message m))) m"

definition agent_alerts :: alert_manager where
  "agent_alerts = register_rule (S ''ami_down'') 600 new_alert_manager"

section \<open>The AMI client that heals itself\<close>

definition AMI_RECONNECT_MAX_RETRIES :: nat where
  "AMI_RECONNECT_MAX_RETRIES = 10"

definition AMI_MIN_DELAY :: int where "AMI_MIN_DELAY = 2000"
definition AMI_MAX_DELAY :: int where "AMI_MAX_DELAY = 60000"

text \<open>The reconnection task: none in flight, attempt \<open>k\<close> running, or waiting after attempt \<open>k\<close>.\<close>
datatype link =
    Quiet
  | Attempting nat int
  | Sleeping nat int

datatype link_event =
    CallEnds "ami_error option"
  | AttemptEnds bool
  | SleepEnds

datatype link_note =
    Attempt nat
  | Sleep int
  | Reconnected
  | GaveUp

text \<open>\<open>_kick\<close>: a reconnection in flight is left alone.\<close>
definition kick :: "link \<Rightarrow> link_note list \<times> link" where
  "kick l = (if l = Quiet then ([Attempt 1], Attempting 1 AMI_MIN_DELAY) else ([], l))"

text \<open>The end of a wrapped call; its outcome goes to the caller unchanged.\<close>
definition call_ended :: "ami_error option \<Rightarrow> link \<Rightarrow> link_note list \<times> link" where
  "call_ended err l =
     (case err of
        None \<Rightarrow> ([], l)
      | Some e \<Rightarrow> if is_connection_error e then kick l else ([], l))"

text \<open>One turn of \<open>_retry_loop\<close>: after attempt \<open>k\<close> with the current delay \<open>d\<close>.\<close>
definition attempt_ended :: "bool \<Rightarrow> nat \<Rightarrow> int \<Rightarrow> link_note list \<times> link" where
  "attempt_ended works k d =
     (if works then ([Reconnected], Quiet)
      else if AMI_RECONNECT_MAX_RETRIES \<le> k then ([GaveUp], Quiet)
      else ([Sleep d], Sleeping k d))"

definition sleep_ended :: "nat \<Rightarrow> int \<Rightarrow> link_note list \<times> link" where
  "sleep_ended k d = ([Attempt (Suc k)], Attempting (Suc k) (min (d * 2) AMI_MAX_DELAY))"

text \<open>Which events can come next, and what they do.\<close>
fun link_next :: "link_event \<Rightarrow> link \<Rightarrow> (link_note list \<times> link) option" where
  "link_next (CallEnds err) l = Some (call_ended err l)"
| "link_next (AttemptEnds works) (Attempting k d) = Some (attempt_ended works k d)"
| "link_next SleepEnds (Sleeping k d) = Some (sleep_ended k d)"
| "link_next _ _ = None"

text \<open>A session: the notes of a run of events from a quiet client.\<close>
inductive link_run :: "link_event list \<Rightarrow> link_note list \<Rightarrow> link \<Rightarrow> bool" where
  link_start: "link_run [] [] Quiet"
| link_more: "link_run es notes l \<Longrightarrow> link_next e l = Some (new, l') \<Longrightarrow> link_run (es @ [e]) (notes @ new) l'"

text \<open>\<open>on_ami_give_up\<close>\<close>
definition give_up_message :: str where
  "give_up_message = S ''AMI reconnect failed after 10 attempts '' @ [8212] @ S '' agent non-functional''"

definition on_ami_give_up :: "alert_target \<Rightarrow> network \<Rightarrow> int \<Rightarrow> alert_manager \<Rightarrow> (http_error + bool) \<times> alert_manager" where
  "on_ami_give_up at net now m = agent_alert at net now (S ''ami_down'') give_up_message m"

section \<open>The watchdog of the modem\<close>

definition modem_alert_rule :: "str \<Rightarrow> str" where
  "modem_alert_rule message =
     (if occurs_in (S ''recovered'') message then S ''modem_recovery'' else S ''dongle_offline'')"

text \<open>\<open>make_modem_check\<close>\<close>
definition modem_check :: "single_provider \<Rightarrow> str \<Rightarrow> check_result" where
  "modem_check p modem_id =
     (if \<not> sp_has_observed p modem_id then Healthy
      else if is_broken (sp_get_info p modem_id) then Unhealthy else Healthy)"

text \<open>The messages of the watchdog, with the text of the exception of a reset.\<close>
fun watch_message :: "str \<Rightarrow> str \<Rightarrow> watch_action \<Rightarrow> str option" where
  "watch_message label err ResetSent = None"
| "watch_message label err AlertRecovered = Some (label @ S '' recovered'')"
| "watch_message label err AlertStuck =
     Some (label @ S '' stuck '' @ [8212] @ S '' reset failed: '' @ err)"

definition modem_alert_fn ::
    "alert_target \<Rightarrow> network \<Rightarrow> int \<Rightarrow> str \<Rightarrow> alert_manager \<Rightarrow> (http_error + bool) \<times> alert_manager" where
  "modem_alert_fn at net now message m = agent_alert at net now (modem_alert_rule message) message m"

section \<open>Requests\<close>

text \<open>\<open>set_request_correlation\<close>: the id of a request, also returned in the response.\<close>
definition request_correlation :: "request \<Rightarrow> str \<Rightarrow> str" where
  "request_correlation r fresh =
     (case header_get r ''x-correlation-id'' of None \<Rightarrow> fresh | Some c \<Rightarrow> if c = [] then fresh else c)"

section \<open>The objects of the agent\<close>

text \<open>What the files hold when the agent starts.\<close>
record agent_files =
  af_audit :: audit_log
  af_blacklist :: "str stored"
  af_sms_log :: "sms_log_line list option"
  af_acl :: "str stored"

definition and_then :: "'e + 'a \<Rightarrow> ('a \<Rightarrow> 'e + 'b) \<Rightarrow> 'e + 'b" where
  "and_then r f = (case r of Inl e \<Rightarrow> Inl e | Inr x \<Rightarrow> f x)"

text \<open>\<open>cfg[key]\<close> for a text and for an integer. A value of another type (validation lets only null through)
  is a \<open>TypeError\<close> here, where the code fails in the object that gets it.\<close>
definition text_setting :: "cfg \<Rightarrow> string \<Rightarrow> http_error + str" where
  "text_setting cfg key =
     (case cfg_item cfg (S key) of
        None \<Rightarrow> Inl (Unhandled (S ''KeyError''))
      | Some (JStr s) \<Rightarrow> Inr s
      | Some _ \<Rightarrow> Inl (Unhandled (S ''TypeError'')))"

definition int_setting :: "cfg \<Rightarrow> string \<Rightarrow> http_error + int" where
  "int_setting cfg key =
     (case cfg_item cfg (S key) of
        None \<Rightarrow> Inl (Unhandled (S ''KeyError''))
      | Some (JInt n) \<Rightarrow> Inr n
      | Some _ \<Rightarrow> Inl (Unhandled (S ''TypeError'')))"

text \<open>\<open>cfg.get("sim.phone") or None\<close>\<close>
definition sim_phone :: "cfg \<Rightarrow> str option" where
  "sim_phone cfg =
     (case cfg_get cfg ''sim.phone'' JNull of JStr s \<Rightarrow> if s = [] then None else Some s | _ \<Rightarrow> None)"

text \<open>\<open>lifespan\<close>: the settings in the order they are read, and the objects built from them.\<close>
definition boot_agent :: "cfg \<Rightarrow> int \<Rightarrow> agent_files \<Rightarrow> http_error + single_provider agent" where
  "boot_agent cfg now fs =
     and_then (text_setting cfg ''paths.audit_log'') (\<lambda>_.
     and_then (text_setting cfg ''asterisk.dongle'') (\<lambda>dongle.
     and_then (int_setting cfg ''limits.sms_per_hour'') (\<lambda>sms_per_hour.
     and_then (int_setting cfg ''limits.calls_per_minute'') (\<lambda>calls_per_minute.
     and_then (text_setting cfg ''paths.contacts_cache'') (\<lambda>_.
     and_then (text_setting cfg ''paths.blacklist'') (\<lambda>_.
     and_then (text_setting cfg ''paths.sms_correlation'') (\<lambda>_.
     and_then (text_setting cfg ''telegram.acl_file'') (\<lambda>_.
       Inr \<lparr>ag_reg = new_call_registry (af_audit fs)
              (Some (new_modem_pool single_ops (new_single_provider now dongle dongle (sim_phone cfg)) None))
              (Some new_metrics),
            ag_sms = new_sms_store (af_sms_log fs),
            ag_sms_limiter = new_rate_limiter sms_per_hour 3600,
            ag_call_limiter = new_rate_limiter calls_per_minute 60,
            ag_blacklist = new_blacklist (af_blacklist fs), ag_bl_file = af_blacklist fs,
            ag_acl = new_acl_manager (af_acl fs), ag_out = []\<rparr>))))))))"

section \<open>Starting the processes\<close>

datatype start =
    Skips
  | Serves str int
  | Raises str

text \<open>\<open>int(port)\<close>\<close>
definition serve_at :: "str \<Rightarrow> str \<Rightarrow> start" where
  "serve_at host port = (case parse_int port of None \<Rightarrow> Raises (S ''ValueError'') | Some p \<Rightarrow> Serves host p)"

definition agent_serves :: "cfg \<Rightarrow> start" where
  "agent_serves cfg =
     (case cfg_item cfg (S ''agent.listen'') of
        None \<Rightarrow> Raises (S ''KeyError'')
      | Some (JStr listen) \<Rightarrow>
          (case split_at 58 (rev listen) of
             None \<Rightarrow> Raises (S ''ValueError'')
           | Some (port, host) \<Rightarrow> serve_at (rev host) (rev port))
      | Some _ \<Rightarrow> Raises (S ''AttributeError''))"

text \<open>\<open>main\<close> of the agent.\<close>
definition agent_main :: "config_error + cfg \<Rightarrow> start" where
  "agent_main loaded =
     (case loaded of
        Inl _ \<Rightarrow> Raises (S ''ConfigError'')
      | Inr cfg \<Rightarrow>
          (case cfg_item cfg (S ''node.role'') of
             None \<Rightarrow> Raises (S ''KeyError'')
           | Some role \<Rightarrow>
               if role \<notin> {JStr (S ''gsm''), JStr (S ''all-in-one'')} then Skips else agent_serves cfg))"

text \<open>The event server of the userbot. The parts of \<open>rpartition\<close> are the whole text and an empty host when
  there is no colon.\<close>
definition userbot_serves :: "(str \<Rightarrow> str option) \<Rightarrow> cfg \<Rightarrow> start" where
  "userbot_serves environ cfg =
     (case cfg_item cfg (S ''userbot_http.secret_env'') of
        None \<Rightarrow> Raises (S ''KeyError'')
      | Some (JStr name) \<Rightarrow>
          if environ name = None then Raises (S ''KeyError'')
          else
            (case cfg_item cfg (S ''userbot_http.listen'') of
               None \<Rightarrow> Raises (S ''KeyError'')
             | Some (JStr listen) \<Rightarrow>
                 (case split_at 58 (rev listen) of
                    None \<Rightarrow> serve_at [] listen
                  | Some (port, host) \<Rightarrow> serve_at (rev host) (rev port))
             | Some _ \<Rightarrow> Raises (S ''AttributeError''))
      | Some _ \<Rightarrow> Raises (S ''TypeError''))"

text \<open>\<open>async_main\<close>: \<open>started\<close> says that the construction and the start of the Telegram client succeed.\<close>
definition userbot_main :: "(str \<Rightarrow> str option) \<Rightarrow> bool \<Rightarrow> config_error + cfg \<Rightarrow> start" where
  "userbot_main environ started loaded =
     (case loaded of
        Inl _ \<Rightarrow> Raises (S ''ConfigError'')
      | Inr cfg \<Rightarrow>
          (case cfg_item cfg (S ''node.role'') of
             None \<Rightarrow> Raises (S ''KeyError'')
           | Some role \<Rightarrow>
               if role \<notin> {JStr (S ''telegram''), JStr (S ''all-in-one'')} then Skips
               else if \<not> started then Raises (S ''Exception'')
               else userbot_serves environ cfg))"

section \<open>The timer\<close>

text \<open>Whether the lines that print a report of reaped calls run through.\<close>
definition reaped_fine :: "cfg \<Rightarrow> bool" where
  "reaped_fine d \<longleftrightarrow>
     (case dget d (S ''timed_out'') of
        None \<Rightarrow> True
      | Some n \<Rightarrow>
          \<not> truthy n
          \<or> (case dget d (S ''actions'') of
               None \<Rightarrow> True
             | Some (JList xs) \<Rightarrow> list_all (\<lambda>x. case x of JObj _ \<Rightarrow> True | _ \<Rightarrow> False) xs
             | Some (JObj e) \<Rightarrow> e = []
             | Some (JStr t) \<Rightarrow> t = []
             | Some _ \<Rightarrow> False))"

text \<open>One run of \<open>call-timeout-check.py\<close>: its requests and its exit status, \<open>None\<close> for an exception that
  leaves \<open>main\<close>. The token comes from the environment, under the name the configuration gives.\<close>
definition timeout_check ::
    "(json \<Rightarrow> str) \<Rightarrow> (str \<Rightarrow> str option) \<Rightarrow> network \<Rightarrow> config_error + cfg \<Rightarrow> http_request list \<times> nat option" where
  "timeout_check py_repr environ net loaded =
     (case loaded of
        Inl _ \<Rightarrow> ([], Some 1)
      | Inr cfg \<Rightarrow>
          (case cfg_item cfg (S ''agent.token_env'') of
             Some (JStr name) \<Rightarrow>
               (case environ name of
                  None \<Rightarrow> ([], Some 1)
                | Some token \<Rightarrow>
                    (case cfg_item cfg (S ''agent.listen'') of
                       None \<Rightarrow> ([], None)
                     | Some listen \<Rightarrow>
                         (let req = \<lparr>hr_url = S ''http://'' @ py_str py_repr listen @ S ''/v1/call/check-timeouts'',
                                     hr_body = None, hr_headers = [bearer token]\<rparr>
                          in case net req of
                               HttpFails _ \<Rightarrow> ([req], Some 0)
                             | HttpReply code body _ \<Rightarrow>
                                 if \<not> success code then ([req], Some 0)
                                 else ([req], (case body of
                                     Some (JObj d) \<Rightarrow> if reaped_fine d then Some 0 else None
                                   | _ \<Rightarrow> None)))))
           | _ \<Rightarrow> ([], Some 1)))"

end
