(* ===== verification/WiringProps.thy ===== *)
theory WiringProps
  imports Wiring CallRouteProps
begin

text \<open>
  What the wiring guarantees: the interleaved reconnection is the backoff loop of \<open>Recovery\<close>, the watchdog
  spares a working modem, alerts reach the owner, every accepted configuration starts what its role
  needs, and a freshly started agent is safe.
\<close>

section \<open>Reconnection\<close>

text \<open>What one complete reconnection leaves in the notes.\<close>
definition episode :: "retry_result \<Rightarrow> link_note list" where
  "episode r =
     concat (map (\<lambda>i. [Attempt (Suc i), Sleep (rt_sleeps r ! i)]) [0..<length (rt_sleeps r)])
     @ [Attempt (rt_attempts r), if rt_ok r then Reconnected else GaveUp]"

definition is_episode :: "link_note list \<Rightarrow> bool" where
  "is_episode ns \<longleftrightarrow>
     (\<exists>works. ns = episode (reconnect works AMI_MIN_DELAY AMI_MAX_DELAY AMI_RECONNECT_MAX_RETRIES))"

definition wait_after :: "nat \<Rightarrow> int" where
  "wait_after i = min (AMI_MIN_DELAY * 2 ^ i) AMI_MAX_DELAY"

text \<open>The notes before attempt \<open>Suc n\<close>.\<close>
definition failures :: "nat \<Rightarrow> link_note list" where
  "failures n = concat (map (\<lambda>i. [Attempt (Suc i), Sleep (wait_after i)]) [0..<n])"

text \<open>The notes of the reconnection in flight.\<close>
fun in_flight :: "link \<Rightarrow> link_note list \<Rightarrow> bool" where
  "in_flight Quiet ns = (ns = [])"
| "in_flight (Attempting k d) ns =
     (\<exists>n. k = Suc n \<and> n < 10 \<and> d = wait_after n \<and> ns = failures n @ [Attempt k])"
| "in_flight (Sleeping k d) ns =
     (\<exists>n. k = Suc n \<and> n < 9 \<and> d = wait_after n \<and> ns = failures k)"

lemma failures_Suc: "failures (Suc n) = failures n @ [Attempt (Suc n), Sleep (wait_after n)]"
  by (simp add: failures_def)

lemma wait_after_Suc: "min (wait_after n * 2) AMI_MAX_DELAY = wait_after (Suc n)"
  by (simp add: wait_after_def min_def AMI_MAX_DELAY_def AMI_MIN_DELAY_def)

lemma wait_after_0: "wait_after 0 = AMI_MIN_DELAY"
  by (simp add: wait_after_def AMI_MAX_DELAY_def AMI_MIN_DELAY_def)

lemma reconnect_at:
  assumes "n < 10" and "works = (\<lambda>k. ok \<and> k = Suc n)" and "ok \<or> n = 9"
  shows "episode (reconnect works AMI_MIN_DELAY AMI_MAX_DELAY AMI_RECONNECT_MAX_RETRIES)
     = failures n @ [Attempt (Suc n), if ok then Reconnected else GaveUp]"
proof -
  define r where "r = reconnect works AMI_MIN_DELAY AMI_MAX_DELAY AMI_RECONNECT_MAX_RETRIES"
  have b: "0 < rt_attempts r \<and> rt_attempts r \<le> 10 \<and> rt_ok r = works (rt_attempts r) \<and> rt_gave_up r = (\<not> rt_ok r)
     \<and> (\<forall>k. 0 < k \<and> k < rt_attempts r \<longrightarrow> \<not> works k) \<and> (rt_gave_up r \<longrightarrow> 10 \<le> rt_attempts r)
     \<and> length (rt_sleeps r) = rt_attempts r - 1"
    using retry_loop_spec [of works AMI_MAX_DELAY AMI_RECONNECT_MAX_RETRIES 0 AMI_MIN_DELAY r]
    by (simp add: r_def reconnect_def AMI_RECONNECT_MAX_RETRIES_def)
  have att: "rt_attempts r = Suc n"
  proof (cases ok)
    case True
    then have "\<not> Suc n < rt_attempts r" using b assms(2) by auto
    moreover have "rt_ok r \<Longrightarrow> rt_attempts r = Suc n" using b assms(2) by simp
    moreover have "\<not> rt_ok r \<Longrightarrow> 10 \<le> rt_attempts r" using b by simp
    ultimately show ?thesis using assms(1) by linarith
  next
    case False
    then show ?thesis using b assms by auto
  qed
  have "rt_sleeps r ! i = wait_after i" if "i < n" for i
    using retry_sleeps [of i works AMI_MAX_DELAY AMI_RECONNECT_MAX_RETRIES 0 AMI_MIN_DELAY] b att that
    by (simp add: r_def reconnect_def wait_after_def AMI_MIN_DELAY_def AMI_MAX_DELAY_def)
  then have "map (\<lambda>i. [Attempt (Suc i), Sleep (rt_sleeps r ! i)]) [0..<n]
      = map (\<lambda>i. [Attempt (Suc i), Sleep (wait_after i)]) [0..<n]" by simp
  with att b have "episode r = failures n @ [Attempt (Suc n), if rt_ok r then Reconnected else GaveUp]"
    by (simp add: episode_def failures_def del: map_eq_conv)
  moreover have "rt_ok r = ok" using b att assms(2) by simp
  ultimately show ?thesis by (simp add: r_def)
qed

lemma episode_success: "n < 10 \<Longrightarrow> is_episode (failures n @ [Attempt (Suc n), Reconnected])"
  unfolding is_episode_def by (rule exI [of _ "\<lambda>k. True \<and> k = Suc n"]) (simp add: reconnect_at [where ok = True])

lemma episode_failure: "is_episode (failures 9 @ [Attempt 10, GaveUp])"
proof -
  have "episode (reconnect (\<lambda>k. False \<and> k = Suc 9) AMI_MIN_DELAY AMI_MAX_DELAY AMI_RECONNECT_MAX_RETRIES)
      = failures 9 @ [Attempt (Suc 9), if False then Reconnected else GaveUp]"
    by (rule reconnect_at) simp_all
  then show ?thesis unfolding is_episode_def by (intro exI [of _ "\<lambda>k. False"]) simp
qed

lemma link_next_episodes:
  assumes "link_next e l = Some (new, l')" and "in_flight l ns"
  shows "in_flight l' (ns @ new) \<or> (is_episode (ns @ new) \<and> l' = Quiet)"
proof (cases "(e, l)" rule: link_next.cases)
  case (1 err l0)
  then show ?thesis
    using assms by (auto simp: call_ended_def kick_def failures_def wait_after_0
        split: option.splits if_splits intro!: exI [of _ 0])
next
  case (2 works k d)
  with assms(2) obtain n where n: "k = Suc n" "n < 10" "d = wait_after n" "ns = failures n @ [Attempt k]" by auto
  show ?thesis
  proof (cases "works \<or> 10 \<le> k")
    case True
    then show ?thesis
      using assms(1) 2 n episode_success [of n] episode_failure
      by (cases works) (auto simp: attempt_ended_def AMI_RECONNECT_MAX_RETRIES_def less_Suc_eq_le le_Suc_eq)
  next
    case False
    then show ?thesis
      using assms(1) 2 n by (auto simp: attempt_ended_def AMI_RECONNECT_MAX_RETRIES_def failures_Suc)
  qed
next
  case (3 k d)
  then show ?thesis using assms by (auto simp: sleep_ended_def wait_after_Suc)
qed (use assms in auto)


text \<open>C13: the client that heals itself runs the backoff loop, one reconnection at a time. Whatever calls
  fail while a reconnection is in flight or waiting, the notes of a session are complete episodes of
  the loop of \<open>core/recovery.py\<close> with its attempts, waits and ending, followed by the beginning of
  the one in flight, and there is one in flight exactly when the client is not quiet.\<close>
theorem reconnect_refines_backoff:
  assumes "link_run es notes l"
  shows "\<exists>episodes ns. notes = concat episodes @ ns \<and> (\<forall>e \<in> set episodes. is_episode e) \<and> in_flight l ns"
  using assms
proof induction
  case link_start
  show ?case by (intro exI [of _ "[]"]) simp
next
  case (link_more es ns0 l e new l')
  then obtain eps ns where h: "ns0 = concat eps @ ns" "\<forall>e \<in> set eps. is_episode e" "in_flight l ns" by blast
  from link_next_episodes [OF link_more.hyps(2) h(3)] show ?case
  proof
    assume "in_flight l' (ns @ new)"
    with h show ?thesis by (intro exI [of _ eps] exI [of _ "ns @ new"]) simp
  next
    assume "is_episode (ns @ new) \<and> l' = Quiet"
    with h show ?thesis by (intro exI [of _ "eps @ [ns @ new]"] exI [of _ "[]"]) auto
  qed
qed


theorem reconnect_refines_backoff_witness:
  "\<exists>episodes ns. [Attempt 1, Sleep 2000, Attempt 2] = concat episodes @ ns \<and> in_flight (Attempting 2 4000) ns"
proof -
  have "link_run ([] @ [CallEnds (Some NotConnected)]) ([] @ [Attempt 1]) (Attempting 1 2000)"
    by (rule link_more [OF link_start]) (simp add: call_ended_def kick_def AMI_MIN_DELAY_def)
  then have "link_run (([] @ [CallEnds (Some NotConnected)]) @ [AttemptEnds False]) (([] @ [Attempt 1]) @ [Sleep 2000]) (Sleeping 1 2000)"
    by (rule link_more) (simp add: attempt_ended_def AMI_RECONNECT_MAX_RETRIES_def)
  then have "link_run ((([] @ [CallEnds (Some NotConnected)]) @ [AttemptEnds False]) @ [SleepEnds])
      ((([] @ [Attempt 1]) @ [Sleep 2000]) @ [Attempt 2]) (Attempting 2 4000)"
    by (rule link_more) (simp add: sleep_ended_def AMI_MAX_DELAY_def)
  from reconnect_refines_backoff [OF this] show ?thesis by auto
qed

section \<open>The watchdog\<close>



section \<open>Alerts\<close>

text \<open>A transport that reaches an event server: the reply to an alert is the server's answer to it.\<close>
definition alert_reply :: "http_error + bool \<Rightarrow> http_reply" where
  "alert_reply r =
     (case r of
        Inl e \<Rightarrow> HttpReply (nat (status_of e)) None []
      | Inr sent \<Rightarrow> HttpReply 200 (Some (JObj [(S ''ok'', JBool True), (S ''sent'', JBool sent)])) [])"

lemma alert_rule_text:
  "dget (al_rules m) rule = Some r \<Longrightarrow> alert_text rule message m = [128680] @ S '' SimBridge: '' @ message"
  by (simp add: alert_text_def)

text \<open>What the event server does with an alert that passes its guard.\<close>
lemma alert_event_effect:
  assumes "events_guard ec r = Inr ()" and "text = [128680] @ S '' SimBridge: '' @ message" and "strip text = text"
    and "ec_master ec = Some uid" and "ec_client ec = Some tg"
  shows "fst (handle_alert_event ec ee r [(S ''message'', JStr text)] st) = Inr (tc_send tg uid text)
     \<and> ev_sent (snd (handle_alert_event ec ee r [(S ''message'', JStr text)] st))
       = ev_sent st @ (if tc_send tg uid text then [(uid, Message text)] else [])"
  using assms by (simp add: handle_alert_event_def guarded_def alert_event_def body_text_def events_log_def Let_def)


text \<open>An alert of the agent reaches the owner, once, if Telegram takes it; and the agent takes it for
  delivered whenever the event server let the request pass. When the rule is due, the userbot's
  address is set and the transport reaches the event server, the alert counts as sent exactly when
  the guard accepts the request, although the message is sent only if Telegram accepts it as well.\<close>
theorem alert_delivery_exact:
  assumes "dget (al_rules m) rule = Some ar" and "ar_cooldown ar * NS \<le> now - ar_last_sent ar" and "at_url at \<noteq> []"
    and "text = [128680] @ S '' SimBridge: '' @ message" and "strip text = text"
    and "net (alert_request at text) = alert_reply (fst (handle_alert_event ec ee r [(S ''message'', JStr text)] st))"
    and "ec_master ec = Some uid" and "ec_client ec = Some tg"
  shows "fst (agent_alert at net now rule message m) = Inr (events_guard ec r = Inr ())
     \<and> ev_sent (snd (handle_alert_event ec ee r [(S ''message'', JStr text)] st))
       = ev_sent st @ (if events_guard ec r = Inr () \<and> tc_send tg uid text then [(uid, Message text)] else [])"
proof (cases "events_guard ec r")
  case (Inl e)
  then have "status_of e \<ge> 400" by (auto simp: events_guard_def compare_digest_def split: sum.splits if_splits)
  moreover have "handle_alert_event ec ee r [(S ''message'', JStr text)] st = (Inl e, st)"
    using Inl by (simp add: handle_alert_event_def guarded_def)
  ultimately show ?thesis
    using assms(1-3,6) Inl
    by (simp add: agent_alert_def send_alert_def should_send_def alert_rule_text alert_send_def alert_reply_def assms(4))
next
  case (Inr u)
  then have ok: "events_guard ec r = Inr ()" by simp
  note effect = alert_event_effect [OF ok assms(4,5,7,8), of ee st]
  then have "is_ok (alert_send at net text)"
    using assms(3,6) by (simp add: alert_send_def alert_reply_def)
  then show ?thesis
    using assms(1,2) effect ok by (simp add: agent_alert_def send_alert_def should_send_def alert_rule_text assms(4))
qed

theorem alert_delivery_exact_witness:
  "fst (agent_alert \<lparr>at_url = S ''u'', at_secret = []\<rparr>
      (\<lambda>_. alert_reply (fst (handle_alert_event ec0 ee0 rq_k [(S ''message'', JStr ([128680] @ S '' SimBridge: '' @ S ''m''))] es0)))
      (600 * NS) (S ''ami_down'') (S ''m'') agent_alerts) = Inr True"
proof -
  have rule: "dget (al_rules agent_alerts) (S ''ami_down'') = Some (new_rule 600)"
    by (simp add: agent_alerts_def register_rule_def)
  have "strip ([128680] @ S '' SimBridge: '' @ S ''m'') = [128680] @ S '' SimBridge: '' @ S ''m''"
    by (simp add: strip_def lstrip_def rstrip_def is_space_def space_points_def S_def)
  moreover have "ec_master ec0 = Some 7" "ec_client ec0 = Some tg0" by (simp_all add: ec0_def)
  ultimately show ?thesis
    using alert_delivery_exact [OF rule, of "600 * NS" "\<lparr>at_url = S ''u'', at_secret = []\<rparr>"
        "[128680] @ S '' SimBridge: '' @ S ''m''" "S ''m''"
        "\<lambda>_. alert_reply (fst (handle_alert_event ec0 ee0 rq_k [(S ''message'', JStr ([128680] @ S '' SimBridge: '' @ S ''m''))] es0))"
        ec0 ee0 rq_k es0] sample_guard(1)
    by (simp add: new_rule_def)
qed

section \<open>Starting\<close>

lemma fine_role:
  assumes "config_fine environ cfg" and "undotted (JObj cfg)"
  shows "cfg_item cfg (S ''node.role'') \<in> Some ` JStr ` {S ''all-in-one'', S ''gsm'', S ''telegram''}"
proof -
  have e: "(key_of ''node.role'' TStr)\<lparr>se_enum := Some [S ''all-in-one'', S ''gsm'', S ''telegram'']\<rparr> \<in> set CONFIG_SCHEMA"
    by (simp add: CONFIG_SCHEMA_def)
  then have "entry_satisfied cfg ((key_of ''node.role'' TStr)\<lparr>se_enum := Some [S ''all-in-one'', S ''gsm'', S ''telegram'']\<rparr>)"
    using assms(1) by (simp only: config_fine_def)
  then show ?thesis
    using cfg_item_path [OF assms(2), of "S ''node.role''"]
    by (auto simp: entry_satisfied_def key_of_def is_required_def split: option.splits)
qed

lemma serves_not_skips: "agent_serves cfg \<noteq> Skips" "userbot_serves environ cfg \<noteq> Skips"
  by (simp_all add: agent_serves_def userbot_serves_def serve_at_def split: option.splits json.splits prod.splits)

lemma agent_serves_at:
  "cfg_item cfg (S ''agent.listen'') = Some (JStr (host @ 58 # port)) \<and> 58 \<notin> set port \<and> parse_int port = Some p \<Longrightarrow>
     agent_serves cfg = Serves host p"
  by (simp add: agent_serves_def serve_at_def split_at_append)

text \<open>Every accepted configuration starts what its role needs. With nested keys only, the agent is
  skipped exactly on the role "telegram" and the userbot exactly on the role "gsm", so a node never
  starts nothing; and on its roles the agent serves at the host and port of \<open>agent.listen\<close>.\<close>
theorem every_role_starts:
  assumes "load_config environ (Some raw) = Inr cfg" and "undotted (JObj cfg)"
  shows "(agent_main (Inr cfg) = Skips \<longleftrightarrow> cfg_item cfg (S ''node.role'') = Some (JStr (S ''telegram'')))
     \<and> (userbot_main environ started (Inr cfg) = Skips \<longleftrightarrow> cfg_item cfg (S ''node.role'') = Some (JStr (S ''gsm'')))
     \<and> (\<forall>host port p. cfg_item cfg (S ''agent.listen'') = Some (JStr (host @ 58 # port)) \<and> 58 \<notin> set port
          \<and> parse_int port = Some p \<and> agent_main (Inr cfg) \<noteq> Skips \<longrightarrow> agent_main (Inr cfg) = Serves host p)"
proof -
  have "cfg_item cfg (S ''node.role'') \<in> Some ` JStr ` {S ''all-in-one'', S ''gsm'', S ''telegram''}"
    using assms(1) fine_role [OF _ assms(2)] unfolding load_config_iff by blast
  then consider "cfg_item cfg (S ''node.role'') = Some (JStr (S ''all-in-one''))"
    | "cfg_item cfg (S ''node.role'') = Some (JStr (S ''gsm''))"
    | "cfg_item cfg (S ''node.role'') = Some (JStr (S ''telegram''))" by auto
  then show ?thesis
    by cases (auto simp: agent_main_def userbot_main_def serves_not_skips intro: agent_serves_at)
qed


theorem every_role_starts_witness:
  "agent_main (Inr sample_cfg) = Serves (S ''h'') 1 \<and> userbot_main (\<lambda>_. Some []) True (Inr sample_cfg) = Skips"
proof -
  have "undotted (JObj sample_cfg)" by code_simp
  note t = every_role_starts [OF sample_loads this, of True]
  have role: "cfg_item sample_cfg (S ''node.role'') = Some (JStr (S ''gsm''))"
    and "cfg_item sample_cfg (S ''agent.listen'') = Some (JStr (S ''h:1''))" by code_simp+
  then have listen: "cfg_item sample_cfg (S ''agent.listen'') = Some (JStr (S ''h'' @ 58 # S ''1''))"
    by (simp add: S_def)
  have port: "parse_int (S ''1'') = Some 1"
    by (simp add: parse_int_def digit_value_def decimal_blocks_def strip_def lstrip_def rstrip_def is_space_def
        space_points_def S_def)
  have "58 \<notin> set (S ''1'')" by (simp add: S_def)
  moreover have "agent_main (Inr sample_cfg) \<noteq> Skips" using t role by simp
  ultimately show ?thesis using t role listen port by blast
qed

text \<open>A null setting passes the validator. The schema lets null through for every key without an allowed
  list, present keys included, so an accepted configuration can make the agent fail at its start.\<close>
definition null_listen :: cfg where
  "null_listen =
     dput (S ''agent'') (JObj [(S ''listen'', JNull), (S ''token_env'', JStr (S ''x'')),
        (S ''userbot_url'', JStr (S ''x''))]) sample_cfg"

lemma null_known: "\<forall>p \<in> set (cfg_paths [] (JObj null_listen)). key_known (map se_key CONFIG_SCHEMA) p"
  unfolding schema_keys by (simp add: null_listen_def sample_cfg_def dotted_S key_known_S S_eq_iff del: list.map)

theorem null_setting_accepted:
  "load_config (\<lambda>_. Some []) (Some (JObj null_listen)) = Inr null_listen
   \<and> agent_main (Inr null_listen) = Raises (S ''AttributeError'')"
proof -
  have role: "cfg_get null_listen ''node.role'' JNull = JStr (S ''gsm'')" by code_simp
  have entries: "concat (map (check_entry null_listen (JStr (S ''gsm''))) CONFIG_SCHEMA) = []" by code_simp
  have "entry_satisfied null_listen e" if "e \<in> set CONFIG_SCHEMA" for e
    using that entries check_entry_empty [of null_listen e] by (simp add: role)
  moreover have "secret_set (\<lambda>_. Some []) null_listen e" for e by (simp add: secret_set_def)
  moreover have "listens_narrowly null_listen ''agent.listen''" "listens_narrowly null_listen ''userbot_http.listen''"
    by (simp_all flip: listen_issue_empty) code_simp+
  moreover have "expand (\<lambda>_. Some []) (JObj null_listen) = JObj null_listen" by code_simp
  ultimately have "load_config (\<lambda>_. Some []) (Some (JObj null_listen)) = Inr null_listen"
    unfolding load_config_iff config_fine_def using null_known by blast
  moreover have "agent_main (Inr null_listen) = Raises (S ''AttributeError'')" by code_simp
  ultimately show ?thesis by simp
qed

section \<open>A fresh agent\<close>

lemma boot_agent_ok:
  assumes "boot_agent cfg now fs = Inr ag"
  shows "\<exists>dongle sms calls. cfg_item cfg (S ''asterisk.dongle'') = Some (JStr dongle)
     \<and> cfg_item cfg (S ''limits.sms_per_hour'') = Some (JInt sms)
     \<and> cfg_item cfg (S ''limits.calls_per_minute'') = Some (JInt calls)
     \<and> ag_reg ag = new_call_registry (af_audit fs)
         (Some (new_modem_pool single_ops (new_single_provider now dongle dongle (sim_phone cfg)) None)) (Some new_metrics)
     \<and> ag_sms_limiter ag = new_rate_limiter sms 3600 \<and> ag_call_limiter ag = new_rate_limiter calls 60 \<and> ag_out ag = []"
  using assms
  by (auto simp: boot_agent_def and_then_def text_setting_def int_setting_def split: sum.splits option.splits json.splits)


text \<open>An agent that starts from any accepted configuration, over whatever files it finds, has no call
  and no reserved modem, has the limits of the file, and then never lets two calls share a modem,
  whatever requests and device reports follow.\<close>
theorem booted_agent_safe:
  assumes "boot_agent cfg now fs = Inr ag" and "cfg_item cfg (S ''asterisk.dongle'') \<noteq> Some (JStr [])"
    and "inputs_ok single_ops sp_valid xs ag"
  shows "list_calls (ag_reg ag) = [] \<and> cr_modems_reserved (ag_reg ag) = 0
     \<and> cfg_item cfg (S ''limits.sms_per_hour'') = Some (JInt (rl_max (ag_sms_limiter ag)))
     \<and> cfg_item cfg (S ''limits.calls_per_minute'') = Some (JInt (rl_max (ag_call_limiter ag)))
     \<and> (\<forall>c1 \<in> set (list_calls (ag_reg (run xs ag))). \<forall>c2 \<in> set (list_calls (ag_reg (run xs ag))).
            holds_modem c1 \<and> holds_modem c2 \<and> cm_modem_id c1 = cm_modem_id c2 \<longrightarrow> c1 = c2)"
proof -
  obtain dongle sms calls where b: "cfg_item cfg (S ''asterisk.dongle'') = Some (JStr dongle)"
    "cfg_item cfg (S ''limits.sms_per_hour'') = Some (JInt sms)"
    "cfg_item cfg (S ''limits.calls_per_minute'') = Some (JInt calls)"
    "ag_reg ag = new_call_registry (af_audit fs)
       (Some (new_modem_pool single_ops (new_single_provider now dongle dongle (sim_phone cfg)) None)) (Some new_metrics)"
    "ag_sms_limiter ag = new_rate_limiter sms 3600" "ag_call_limiter ag = new_rate_limiter calls 60"
    using boot_agent_ok [OF assms(1)] by blast
  have "dongle \<noteq> []" using b(1) assms(2) by simp
  then have "reg_inv single_ops sp_valid (ag_reg ag)"
    unfolding b(4)
    by (intro new_registry_inv(2))
      (simp_all add: new_modem_pool_def sp_valid_def named_modems_def new_single_provider_def single_ops_def sp_list_modems_def
        sp_get_info_def)
  then have "reg_inv single_ops sp_valid (ag_reg (run xs ag))"
    using single.reachable_inv [OF run_reach [OF assms(3)]] by blast
  note excl = conjunct1 [OF reg_inv_exclusive [OF this]]
  have "list_calls (ag_reg ag) = []" "cr_modems_reserved (ag_reg ag) = 0"
    using b(4) by (simp_all add: new_call_registry_def list_calls_def)
  with b(2,3,5,6) excl show ?thesis by (simp only: new_rate_limiter_def rate_limiter.simps HOL.simp_thms)
qed

definition sample_files :: agent_files where
  "sample_files = \<lparr>af_audit = [], af_blacklist = None, af_sms_log = None, af_acl = None\<rparr>"

lemma sample_boots: "\<exists>ag. boot_agent sample_cfg 0 sample_files = Inr ag"
proof -
  have items: "map (\<lambda>k. cfg_item sample_cfg (S k)) [''paths.audit_log'', ''asterisk.dongle'', ''limits.sms_per_hour'',
      ''limits.calls_per_minute'', ''paths.contacts_cache'', ''paths.blacklist'', ''paths.sms_correlation'',
      ''telegram.acl_file''] = map Some [JStr (S ''x''), JStr (S ''x''), JInt 1, JInt 1,
        JStr (S ''x''), JStr (S ''x''), JStr (S ''x''), JStr (S ''x'')]"
    by code_simp
  then show ?thesis by (simp add: boot_agent_def and_then_def text_setting_def int_setting_def)
qed

theorem booted_agent_safe_witness:
  "\<exists>ag. boot_agent sample_cfg 0 sample_files = Inr ag \<and> list_calls (ag_reg ag) = []
     \<and> rl_max (ag_sms_limiter ag) = 1"
proof -
  obtain ag where ag: "boot_agent sample_cfg 0 sample_files = Inr ag" using sample_boots by blast
  have items: "cfg_item sample_cfg (S ''asterisk.dongle'') = Some (JStr (S ''x''))"
    "cfg_item sample_cfg (S ''limits.sms_per_hour'') = Some (JInt 1)" by code_simp+
  then have "cfg_item sample_cfg (S ''asterisk.dongle'') \<noteq> Some (JStr [])" by (simp add: S_def)
  from booted_agent_safe [OF ag this, of "[]"] ag items show ?thesis by simp
qed

end
