(* ===== verification/DialplanProps.thy ===== *)
theory DialplanProps
  imports DialplanConfig ModemProbeProps WiringProps
begin

text \<open>
  What the generated files say when they are read as sections of assignments: the SIP objects are complete,
  refer to each other and never listen on every interface; the globals name the modem, the blacklist and the
  event server the agent works with.
\<close>

section \<open>Reading the files\<close>

text \<open>The format: a semicolon starts a comment, a name in brackets a section, and \<open>key=value\<close> assigns.\<close>
definition bare_line :: "str \<Rightarrow> str" where
  "bare_line l = strip (takeWhile (\<lambda>c. c \<noteq> 59) l)"

definition line_entry :: "str \<Rightarrow> (str \<times> str) option" where
  "line_entry l = map_option (\<lambda>(k, v). (rstrip k, lstrip v)) (split_at 61 (bare_line l))"

fun read_lines :: "str list \<Rightarrow> (str, str) dict \<times> (str, (str, str) dict) dict" where
  "read_lines [] = ([], [])"
| "read_lines (l # ls) =
     (case read_lines ls of
        (es, secs) \<Rightarrow>
          (case section_header (bare_line l) of
             Some n \<Rightarrow> ([], (n, es) # secs)
           | None \<Rightarrow> (case line_entry l of Some e \<Rightarrow> (e # es, secs) | None \<Rightarrow> (es, secs))))"

definition conf_sections :: "str \<Rightarrow> (str, (str, str) dict) dict" where
  "conf_sections content = snd (read_lines (split_lines content))"

text \<open>A value the format can hold: one word without a semicolon.\<close>
definition conf_word :: "str \<Rightarrow> bool" where
  "conf_word s \<longleftrightarrow> one_word s \<and> 59 \<notin> set s"

text \<open>A line without effect.\<close>
definition inert :: "str \<Rightarrow> bool" where
  "inert l \<longleftrightarrow> section_header (bare_line l) = None \<and> line_entry l = None"

definition assigns :: "str \<Rightarrow> str \<Rightarrow> str \<Rightarrow> bool" where
  "assigns l k v \<longleftrightarrow> section_header (bare_line l) = None \<and> line_entry l = Some (k, v)"

lemma read_inert [simp]: "inert l \<Longrightarrow> read_lines (l # ls) = read_lines ls"
  by (simp add: inert_def split: prod.split)

lemma read_assigns: "assigns l k v \<Longrightarrow> read_lines (l # ls) = (case read_lines ls of (es, secs) \<Rightarrow> ((k, v) # es, secs))"
  by (simp add: assigns_def split: prod.split)

lemma inert_comment [simp]: "inert (59 # s)" "inert []"
  by (simp_all add: inert_def bare_line_def line_entry_def section_header_def strip_def lstrip_def rstrip_def)

lemma read_header:
  assumes "n \<noteq> []" and "59 \<notin> set n"
  shows "read_lines ((91 # n @ [93]) # ls) = (case read_lines ls of (es, secs) \<Rightarrow> ([], (n, es) # secs))"
proof -
  have "strip (91 # n @ [93]) = 91 # n @ [93]" by (rule strip_no_space) (simp_all add: is_space_def space_points_def)
  moreover have "takeWhile (\<lambda>c. c \<noteq> 59) (91 # n @ [93]) = 91 # n @ [93]"
    using assms(2) by (auto simp: takeWhile_eq_all_conv)
  ultimately have "section_header (bare_line (91 # n @ [93])) = Some n"
    using assms(1) by (cases n) (simp_all add: bare_line_def section_header_def)
  then show ?thesis by (simp split: prod.split)
qed

text \<open>A key of the generated files.\<close>
definition plain_key :: "str \<Rightarrow> bool" where
  "plain_key k \<longleftrightarrow> k \<noteq> [] \<and> (\<forall>c \<in> set k. c = 95 \<or> 65 \<le> c \<and> c \<le> 90 \<or> 97 \<le> c \<and> c \<le> 122)"

lemma plain_key_facts:
  assumes "plain_key k" and "c \<in> set k"
  shows "\<not> is_space c" "c \<noteq> 59" "c \<noteq> 61" "c \<noteq> 91"
  using assms by (auto simp: plain_key_def is_space_def space_points_def)

lemma assigns_setting:
  assumes "plain_key k" and "conf_word v"
  shows "assigns (k @ 61 # v) k v"
proof -
  have v: "v \<noteq> []" "59 \<notin> set v" "\<not> is_space (last v)" "\<not> is_space (hd v)"
    using assms(2) by (auto simp: conf_word_def one_word_def)
  have k: "k \<noteq> []" "\<not> is_space (hd k)" "\<not> is_space (last k)" "59 \<notin> set k" "61 \<notin> set k" "hd k \<noteq> 91"
    using plain_key_facts [OF assms(1)] assms(1) by (auto simp: plain_key_def)
  have "takeWhile (\<lambda>c. c \<noteq> 59) (k @ 61 # v) = k @ 61 # v" using v k by (auto simp: takeWhile_eq_all_conv)
  moreover have "strip (k @ 61 # v) = k @ 61 # v" using v k by (intro strip_no_space) simp_all
  ultimately have b: "bare_line (k @ 61 # v) = k @ 61 # v" by (simp add: bare_line_def)
  have "rstrip k = k" "lstrip v = v" using k v by (simp_all add: rstrip_no_space lstrip_word)
  moreover have "section_header (k @ 61 # v) = None" using k by (cases k) (simp_all add: section_header_def)
  ultimately show ?thesis using k by (simp add: assigns_def line_entry_def b split_at_append)
qed

lemma read_setting:
  "plain_key (S k) \<Longrightarrow> conf_word v \<Longrightarrow>
     read_lines (setting k v # ls) = (case read_lines ls of (es, secs) \<Rightarrow> ((S k, v) # es, secs))"
  unfolding setting_def by (rule read_assigns) (rule assigns_setting)

declare read_lines.simps(2) [simp del]

lemma S_comment: "S (CHR '';'' # cs) = 59 # S cs"
  by (simp add: S_def)

lemma conf_word_append: "conf_word a \<Longrightarrow> conf_word b \<Longrightarrow> conf_word (a @ b)"
  by (auto simp: conf_word_def one_word_def)

lemma conf_word_unbroken: "conf_word s \<Longrightarrow> unbroken s"
  by (simp add: conf_word_def one_word_unbroken)

lemma conf_word_int: "conf_word (int_text n)"
proof -
  have "c = 45 \<or> 48 \<le> c \<and> c \<le> 57" if "c \<in> set (int_text n)" for c
    using that nat_text_decimal by (auto simp: int_text_def split: if_splits)
  then have "\<not> is_space c \<and> c \<noteq> 59" if "c \<in> set (int_text n)" for c
    using that by (fastforce simp: is_space_def space_points_def)
  moreover have "int_text n \<noteq> []" by (simp add: int_text_def)
  ultimately show ?thesis by (auto simp: conf_word_def one_word_def)
qed

lemma unbroken_setting [simp]: "unbroken (setting k v) \<longleftrightarrow> unbroken (S k) \<and> unbroken v"
  by (simp add: setting_def is_break_def)

section \<open>The SIP objects\<close>

text \<open>The literal assignments.\<close>
lemma sip_settings:
  "S ''type=global'' = setting ''type'' (S ''global'')" "S ''user_agent=SimBridge'' = setting ''user_agent'' (S ''SimBridge'')"
  "S ''type=transport'' = setting ''type'' (S ''transport'')" "S ''protocol=udp'' = setting ''protocol'' (S ''udp'')"
  "S ''local_net=100.64.0.0/10'' = setting ''local_net'' (S ''100.64.0.0/10'')"
  "S ''type=endpoint'' = setting ''type'' (S ''endpoint'')" "S ''transport=transport-udp'' = setting ''transport'' (S ''transport-udp'')"
  "S ''disallow=all'' = setting ''disallow'' (S ''all'')" "S ''allow=ulaw,alaw'' = setting ''allow'' (S ''ulaw,alaw'')"
  "S ''dtmf_mode=rfc4733'' = setting ''dtmf_mode'' (S ''rfc4733'')" "S ''direct_media=no'' = setting ''direct_media'' (S ''no'')"
  "S ''rtp_timeout=60'' = setting ''rtp_timeout'' (S ''60'')" "S ''rtp_timeout_hold=30'' = setting ''rtp_timeout_hold'' (S ''30'')"
  "S ''ice_support=no'' = setting ''ice_support'' (S ''no'')"
  "S ''identify_by=username,ip,auth_username'' = setting ''identify_by'' (S ''username,ip,auth_username'')"
  "S ''type=auth'' = setting ''type'' (S ''auth'')" "S ''auth_type=userpass'' = setting ''auth_type'' (S ''userpass'')"
  "S ''username=tg-bridge'' = setting ''username'' (S ''tg-bridge'')" "S ''type=aor'' = setting ''type'' (S ''aor'')"
  "S ''max_contacts=1'' = setting ''max_contacts'' (S ''1'')"
  by (simp_all add: setting_def S_def)

lemma sip_headers:
  "S ''[global]'' = 91 # S ''global'' @ [93]" "S ''[transport-udp]'' = 91 # S ''transport-udp'' @ [93]"
  "S ''['' @ e @ S '']'' = 91 # e @ [93]" "S ''['' @ e @ S ''-auth]'' = 91 # (e @ S ''-auth'') @ [93]"
  "S ''['' @ e @ S ''-aor]'' = 91 # (e @ S ''-aor'') @ [93]"
  by (simp_all add: S_def)

lemma sip_words:
  "\<forall>k \<in> set [''type'', ''user_agent'', ''protocol'', ''local_net'', ''transport'', ''disallow'', ''allow'', ''dtmf_mode'',
     ''direct_media'', ''rtp_timeout'', ''rtp_timeout_hold'', ''ice_support'', ''identify_by'', ''auth_type'', ''username'',
     ''max_contacts'', ''bind'', ''external_media_address'', ''context'', ''auth'', ''outbound_auth'', ''aors'', ''password'',
     ''contact''].  plain_key (S k)"
  "\<forall>v \<in> set [''global'', ''SimBridge'', ''transport'', ''udp'', ''100.64.0.0/10'', ''endpoint'', ''transport-udp'', ''all'',
     ''ulaw,alaw'', ''rfc4733'', ''no'', ''60'', ''30'', ''username,ip,auth_username'', ''auth'', ''userpass'', ''tg-bridge'',
     ''aor'', ''1'', ''127.0.0.1'', ''-auth'', ''-aor'', ''sip:''].  conf_word (S v)"
  by (simp_all add: plain_key_def conf_word_def one_word_def is_space_def space_points_def S_def)

text \<open>The sections a file of the bridge is made of.\<close>
definition sip_sections :: "str \<Rightarrow> str \<Rightarrow> str list \<Rightarrow> str \<Rightarrow> str \<Rightarrow> (str, (str, str) dict) dict" where
  "sip_sections endpoint bind media secret contact =
     [(S ''global'', [(S ''type'', S ''global''), (S ''user_agent'', S ''SimBridge'')]),
      (S ''transport-udp'', [(S ''type'', S ''transport''), (S ''protocol'', S ''udp''), (S ''bind'', bind),
         (S ''local_net'', S ''100.64.0.0/10'')] @ map (\<lambda>m. (S ''external_media_address'', m)) media),
      (endpoint, [(S ''type'', S ''endpoint''), (S ''transport'', S ''transport-udp''), (S ''context'', endpoint),
         (S ''disallow'', S ''all''), (S ''allow'', S ''ulaw,alaw''), (S ''dtmf_mode'', S ''rfc4733''),
         (S ''direct_media'', S ''no''), (S ''rtp_timeout'', S ''60''), (S ''rtp_timeout_hold'', S ''30''),
         (S ''ice_support'', S ''no''), (S ''auth'', endpoint @ S ''-auth''), (S ''outbound_auth'', endpoint @ S ''-auth''),
         (S ''aors'', endpoint @ S ''-aor''), (S ''identify_by'', S ''username,ip,auth_username'')]),
      (endpoint @ S ''-auth'', [(S ''type'', S ''auth''), (S ''auth_type'', S ''userpass''), (S ''username'', S ''tg-bridge''),
         (S ''password'', secret)]),
      (endpoint @ S ''-aor'', [(S ''type'', S ''aor''), (S ''max_contacts'', S ''1''), (S ''contact'', contact)])]"

definition sip_lines :: "str \<Rightarrow> str \<Rightarrow> str list \<Rightarrow> str \<Rightarrow> str \<Rightarrow> str list" where
  "sip_lines endpoint bind media secret contact =
     PJSIP_HEADER @
     [S ''[global]'', S ''type=global'', S ''user_agent=SimBridge'', [], S ''[transport-udp]'', S ''type=transport'',
      S ''protocol=udp'', setting ''bind'' bind, S ''local_net=100.64.0.0/10'']
     @ map (setting ''external_media_address'') media @ [[]] @ endpoint_lines endpoint
     @ [S ''['' @ endpoint @ S ''-auth]'', S ''type=auth'', S ''auth_type=userpass'', S ''username=tg-bridge'',
        setting ''password'' secret, [],
        S ''['' @ endpoint @ S ''-aor]'', S ''type=aor'', S ''max_contacts=1'', setting ''contact'' contact]"

lemma read_sip:
  assumes "conf_word endpoint" "conf_word bind" "\<forall>m \<in> set media. conf_word m" "conf_word secret" "conf_word contact" "length media \<le> 1"
  shows "snd (read_lines (sip_lines endpoint bind media secret contact)) = sip_sections endpoint bind media secret contact"
proof -
  have e: "endpoint \<noteq> []" "59 \<notin> set endpoint" using assms(1) by (auto simp: conf_word_def one_word_def)
  have h: "read_lines ((91 # n @ [93]) # ls) = (case read_lines ls of (es, secs) \<Rightarrow> ([], (n, es) # secs))"
    if "n \<in> {S ''global'', S ''transport-udp'', endpoint, endpoint @ S ''-auth'', endpoint @ S ''-aor''}" for n ls
    using that e by (intro read_header) (auto simp: S_def)
  have h2: "read_lines ((91 # endpoint @ S ''-auth'' @ [93]) # ls) = (case read_lines ls of (es, secs) \<Rightarrow> ([], (endpoint @ S ''-auth'', es) # secs))"
    "read_lines ((91 # endpoint @ S ''-aor'' @ [93]) # ls) = (case read_lines ls of (es, secs) \<Rightarrow> ([], (endpoint @ S ''-aor'', es) # secs))" for ls
    using h [of "endpoint @ S ''-auth''" ls] h [of "endpoint @ S ''-aor''" ls] by simp_all
  note words = sip_words [simplified]
  have w: "conf_word (endpoint @ S ''-auth'')" "conf_word (endpoint @ S ''-aor'')"
    using assms(1) words by (simp_all add: conf_word_append)
  have media: "media = [] \<or> (\<exists>m. media = [m])" using assms(6) by (cases media) auto
  show ?thesis
    unfolding sip_lines_def PJSIP_HEADER_def endpoint_lines_def sip_settings sip_headers sip_sections_def S_comment append.simps
    using assms media words w by (auto simp: read_setting h h2)
qed

lemma sip_unbroken:
  assumes "unbroken endpoint" "unbroken bind" "\<forall>m \<in> set media. unbroken m" "unbroken secret" "unbroken contact"
  shows "\<forall>l \<in> set (sip_lines endpoint bind media secret contact). unbroken l"
proof -
  have "\<forall>l \<in> set PJSIP_HEADER. unbroken l"
    unfolding PJSIP_HEADER_def by (simp add: unbroken_lit quoted_def is_break_def)
  moreover have "\<forall>l \<in> set (endpoint_lines endpoint). unbroken l"
    unfolding endpoint_lines_def using assms(1) by (simp add: unbroken_lit is_break_def)
  ultimately show ?thesis
    unfolding sip_lines_def using assms by (auto simp: unbroken_lit is_break_def)
qed

lemma pjsip_parts:
  assumes "generate_pjsip py_repr config secret ip = Inr content" and "sub_config config ''voice'' = Inr voice"
  obtains port where "int_of_key voice ''bridge_port'' 5062 = Inr port" "secret \<noteq> []"
    "value_or voice ''bridge_host'' local_host \<noteq> local_host \<longrightarrow> ip \<noteq> []"
    "content = join_lines (sip_lines (py_str py_repr (value_or voice ''bridge_endpoint'' (JStr (S ''tg-bridge''))))
       (if value_or voice ''bridge_host'' local_host = local_host then S ''127.0.0.1'' else ip)
       (if value_or voice ''bridge_host'' local_host = local_host then [] else [ip]) secret
       (S ''sip:'' @ py_str py_repr (value_or voice ''bridge_host'' local_host) @ [58] @ int_text port))"
proof -
  obtain port where "int_of_key voice ''bridge_port'' 5062 = Inr port"
    using assms by (auto simp: generate_pjsip_def bind_sum_def split: if_splits sum.splits)
  with assms show thesis
    by (intro that [of port]) (auto simp: generate_pjsip_def bind_sum_def Let_def sip_lines_def split: if_splits)
qed




section \<open>The globals\<close>

text \<open>The texts of a configuration.\<close>
fun config_texts :: "json \<Rightarrow> str list" where
  "config_texts (JStr s) = [s]"
| "config_texts (JList vs) = concat (map config_texts vs)"
| "config_texts (JObj d) = concat (map (\<lambda>(_, v). config_texts v) d)"
| "config_texts _ = []"

lemma expand_str_plain: "36 \<notin> set s \<Longrightarrow> expand_str environ s = s"
  by (induction s) simp_all

lemma expand_plain: "\<forall>s \<in> set (config_texts v). 36 \<notin> set s \<Longrightarrow> expand environ v = v"
proof (induction environ v rule: expand.induct)
  case (1 environ s)
  then show ?case by (simp add: expand_str_plain)
next
  case (2 environ d)
  have "map (\<lambda>(k, v). (k, expand environ v)) d = map id d"
    using 2 by (intro map_cong) auto
  then show ?case by simp
next
  case (3 environ xs)
  then show ?case by (simp add: map_idI)
qed simp_all

text \<open>The lines of the file.\<close>
definition global_lines :: "int \<Rightarrow> str list \<Rightarrow> str \<Rightarrow> str \<Rightarrow> str \<Rightarrow> str \<Rightarrow> str list" where
  "global_lines ring vs cidr url blacklist modem =
     OUTPUT_HEADER @
     [S ''[globals]'',
      S ''; Timing: ring_wait_seconds='' @ int_text ring @ S '' ('' @ [8776, 32] @ int_text (ring div 5) @ S '' ring cycles)'',
      setting ''RING_WAIT_SECONDS'' (int_text ring),
      setting ''MAX_RECORD_SECONDS'' (vs ! 0),
      setting ''EARLY_HANGUP_MAX_SECONDS'' (vs ! 1),
      setting ''VM_PROMPT'' (vs ! 2),
      S ''; S03.1: greeting length in seconds (probed) '' @ [8212]
        @ S '' the AGI trims this many seconds from the front of the recording'',
      setting ''PROMPT_DURATION'' (vs ! 3),
      setting ''VM_REC_DIR'' (vs ! 4),
      S ''; Bridge (S04.2): Telegram voice bridge settings'',
      setting ''BRIDGE_ENDPOINT'' (vs ! 5),
      setting ''BRIDGE_HOST'' (vs ! 6),
      setting ''BRIDGE_PORT'' (vs ! 7),
      setting ''OUTBOUND_RING_TIMEOUT'' (vs ! 8),
      S ''; S04.3: max seconds the GSM number may ring on an outgoing call'',
      setting ''OUTBOUND_GSM_RING_SECONDS'' (vs ! 9),
      S ''; Call limits (S04.3)'',
      setting ''MAX_CALL_SECONDS'' (vs ! 10),
      S ''; Distributed mode (S04.4): Tailscale network'',
      setting ''TAILNET_CGNAT'' cidr,
      S ''; Userbot HTTP (SMS/voicemail event forwarding)'',
      setting ''USERBOT_URL'' url,
      S ''; Blacklist file (S02.2: incoming call/SMS check)'',
      setting ''BLACKLIST_PATH'' blacklist,
      S ''; Modem ID for event payloads (single-dongle S01)'',
      setting ''MODEM_ID'' modem]"

text \<open>A value as the format reads it: up to a semicolon, without the surrounding blanks.\<close>
definition read_value :: "str \<Rightarrow> str" where
  "read_value v = lstrip (rstrip (takeWhile (\<lambda>c. c \<noteq> 59) v))"

lemma read_value_word: "conf_word v \<Longrightarrow> read_value v = v"
proof -
  assume v: "conf_word v"
  then have "takeWhile (\<lambda>c. c \<noteq> 59) v = v" by (auto simp: conf_word_def takeWhile_eq_all_conv)
  with v show ?thesis by (simp add: read_value_def conf_word_def one_word_def rstrip_no_space lstrip_no_space)
qed

lemma read_any:
  assumes "plain_key (S k)"
  shows "read_lines (setting k v # ls) = (case read_lines ls of (es, secs) \<Rightarrow> ((S k, read_value v) # es, secs))"
proof -
  define w where "w = takeWhile (\<lambda>c. c \<noteq> 59) v"
  have k: "S k \<noteq> []" "\<not> is_space (hd (S k))" "\<not> is_space (last (S k))" "59 \<notin> set (S k)" "61 \<notin> set (S k)" "hd (S k) \<noteq> 91"
    using plain_key_facts [OF assms] assms by (auto simp: plain_key_def)
  have "takeWhile (\<lambda>c. c \<noteq> 59) (S k @ 61 # v) = S k @ 61 # w"
    using k(4) by (subst takeWhile_append2) (auto simp: w_def)
  moreover have "rstrip (S k @ 61 # w) = S k @ 61 # rstrip w"
    by (simp add: rstrip_def dropWhile_append3 is_space_def space_points_def)
  ultimately have b: "bare_line (setting k v) = S k @ 61 # rstrip w"
    using k by (simp add: bare_line_def setting_def strip_def lstrip_no_space)
  have "section_header (S k @ 61 # rstrip w) = None" using k by (cases "S k") (simp_all add: section_header_def)
  then have "assigns (setting k v) (S k) (read_value v)"
    using k by (simp add: assigns_def b line_entry_def split_at_append rstrip_no_space read_value_def w_def)
  then show ?thesis by (rule read_assigns)
qed

lemma global_keys:
  "\<forall>k \<in> set [''RING_WAIT_SECONDS'', ''MAX_RECORD_SECONDS'', ''EARLY_HANGUP_MAX_SECONDS'', ''VM_PROMPT'', ''PROMPT_DURATION'',
     ''VM_REC_DIR'', ''BRIDGE_ENDPOINT'', ''BRIDGE_HOST'', ''BRIDGE_PORT'', ''OUTBOUND_RING_TIMEOUT'',
     ''OUTBOUND_GSM_RING_SECONDS'', ''MAX_CALL_SECONDS'', ''TAILNET_CGNAT'', ''USERBOT_URL'', ''BLACKLIST_PATH'', ''MODEM_ID''].
     plain_key (S k)"
  by (simp add: plain_key_def S_def)

lemma read_globals:
  "\<exists>g. snd (read_lines (global_lines ring vs cidr url blacklist modem)) = [(S ''globals'', g)]
     \<and> dget g (S ''MODEM_ID'') = Some (read_value modem) \<and> dget g (S ''BLACKLIST_PATH'') = Some (read_value blacklist)
     \<and> dget g (S ''USERBOT_URL'') = Some (read_value url)"
proof -
  have h: "read_lines ((91 # S ''globals'' @ [93]) # ls) = (case read_lines ls of (es, secs) \<Rightarrow> ([], (S ''globals'', es) # secs))" for ls
    by (rule read_header) (simp_all add: S_def)
  have g: "S ''[globals]'' = 91 # S ''globals'' @ [93]" by (simp add: S_def)
  show ?thesis
    unfolding global_lines_def OUTPUT_HEADER_def g S_comment append.simps
    using global_keys by (simp add: read_any h)
qed

section \<open>Unbroken lines\<close>

lemma digits_unbroken: "\<forall>c \<in> set s. 45 \<le> c \<and> c \<le> 57 \<Longrightarrow> unbroken s"
  by (fastforce simp: unbroken_def is_break_def)

lemma int_unbroken: "unbroken (int_text n)"
  using conf_word_unbroken conf_word_int by blast

lemma fixed_unbroken: "unbroken (fixed d x)"
proof (cases x)
  case (Fin q)
  have "c = 48 \<or> 48 \<le> c \<and> c \<le> 57" if "c \<in> set (pad_zeros k (nat_text n))" for c k n
    using that nat_text_decimal [of c n] by (auto simp: pad_zeros_def)
  then have "\<forall>c \<in> set (fixed d x). 45 \<le> c \<and> c \<le> 57"
    using nat_text_decimal by (fastforce simp: Fin Let_def split: if_splits)
  then show ?thesis by (rule digits_unbroken)
qed (simp_all add: unbroken_lit is_break_def)

lemma prompt_unbroken: "unbroken p \<Longrightarrow> unbroken (prompt_stem p)"
proof -
  assume p: "unbroken p"
  have "unbroken (rev base)" if "split_at 46 (rev p) = Some (ext, base)" for ext base
    using split_at_parts [OF that] p by (simp add: unbroken_def rev_swap)
  with p show ?thesis by (auto simp: prompt_stem_def split: option.split)
qed

lemma member_texts: "dget d k = Some v \<Longrightarrow> set (config_texts v) \<subseteq> set (config_texts (JObj d))"
  using map_of_SomeD [of d k v] by auto

lemma shown_unbroken:
  "\<forall>v. unbroken (py_repr v) \<Longrightarrow> \<forall>s \<in> set (config_texts v). unbroken s \<Longrightarrow> unbroken (py_str py_repr v)"
  by (cases v) (simp_all add: int_unbroken unbroken_lit is_break_def)

lemma value_texts:
  "\<forall>s \<in> set (config_texts (JObj d)). P s \<Longrightarrow> \<forall>s \<in> set (config_texts dflt). P s \<Longrightarrow>
     \<forall>s \<in> set (config_texts (value_or d key dflt)). P s"
  using member_texts [of d "S key"] unfolding value_or_def by (cases "dget d (S key)") (simp_all del: config_texts.simps, blast)

lemma sub_texts:
  "sub_config d key = Inr e \<Longrightarrow> \<forall>s \<in> set (config_texts (JObj d)). P s \<Longrightarrow> \<forall>s \<in> set (config_texts (JObj e)). P s"
proof (cases "dget d (S key)")
  case (Some v)
  assume "sub_config d key = Inr e" "\<forall>s \<in> set (config_texts (JObj d)). P s"
  with Some member_texts [OF Some] show ?thesis
    by (cases v) (simp_all add: sub_config_def subset_iff del: config_texts.simps)
qed (simp add: sub_config_def)

lemma url_unbroken:
  assumes "resolve_userbot_url py_repr config = Some u" and "\<forall>s \<in> set (config_texts (JObj config)). unbroken s"
    and "\<forall>v. unbroken (py_repr v)"
  shows "unbroken (py_str py_repr u)"
proof -
  have g: "\<forall>s \<in> set (config_texts (get_or d key dflt)). unbroken s"
    if "\<forall>s \<in> set (config_texts (JObj d)). unbroken s" "\<forall>s \<in> set (config_texts dflt). unbroken s" for d key dflt
    using that member_texts [of d "S key"] unfolding get_or_def
    by (cases "dget d (S key)") (simp_all del: config_texts.simps, blast)
  obtain agent where a: "get_or config ''agent'' (JObj []) = JObj agent"
    using assms(1) by (auto simp: resolve_userbot_url_def split: json.splits)
  have at: "\<forall>s \<in> set (config_texts (JObj agent)). unbroken s" using g [OF assms(2), of "JObj []" "''agent''"] a by simp
  show ?thesis
  proof (cases "truthy (get_or agent ''userbot_url'' (JStr []))")
    case True
    then have "u = get_or agent ''userbot_url'' (JStr [])" using assms(1) a by (simp add: resolve_userbot_url_def)
    then show ?thesis using shown_unbroken [OF assms(3)] g [OF at, of "JStr []"] by simp
  next
    case False
    then obtain http where h: "get_or config ''userbot_http'' (JObj []) = JObj http"
      and u: "u = JStr (S ''http://'' @ py_str py_repr (get_or http ''listen'' (JStr (S ''127.0.0.1:8088''))))"
      using assms(1) a by (auto simp: resolve_userbot_url_def Let_def split: json.splits)
    have ht: "\<forall>s \<in> set (config_texts (JObj http)). unbroken s" using g [OF assms(2), of "JObj []" "''userbot_http''"] h by simp
    have "unbroken (py_str py_repr (get_or http ''listen'' (JStr (S ''127.0.0.1:8088''))))"
      using g [OF ht, of "JStr (S ''127.0.0.1:8088'')"] by (intro shown_unbroken [OF assms(3)]) (simp add: unbroken_lit is_break_def)
    then show ?thesis unfolding u by (simp add: unbroken_lit is_break_def)
  qed
qed

lemma generated_globals:
  assumes gen: "generate py_repr tk raw = Inr content"
    and texts: "\<forall>s \<in> set (config_texts (JObj raw)). unbroken s" and repr: "\<forall>v. unbroken (py_repr v)"
  obtains a paths ring vs u where "sub_config raw ''asterisk'' = Inr a" "sub_config raw ''paths'' = Inr paths"
    "resolve_userbot_url py_repr raw = Some u" "\<forall>v \<in> set vs. unbroken v"
    "content = join_lines (global_lines ring vs (S ''100.64.0.0/10'') (py_str py_repr u)
       (py_str py_repr (value_or paths ''blacklist'' (JStr (S ''/etc/simbridge/blacklist.txt''))))
       (py_str py_repr (value_or a ''dongle'' (JStr (S ''gsm'')))))" "length vs = 11"
proof -
  obtain a ring max_record early prompt voice port answer gsm_ring paths limits max_call u where
    p: "sub_config raw ''asterisk'' = Inr a" "int_of_key a ''ring_wait_seconds'' 18 = Inr ring"
    "int_of_key a ''max_record_seconds'' 90 = Inr max_record" "int_of_key a ''early_hangup_max_seconds'' 3 = Inr early"
    "value_or a ''prompt'' (JStr (S ''/var/lib/asterisk/sounds/custom/vm-prompt'')) = JStr prompt"
    "sub_config raw ''voice'' = Inr voice" "int_of_key voice ''bridge_port'' 5062 = Inr port"
    "int_of_key voice ''outbound_answer_timeout'' 30 = Inr answer" "int_of_key voice ''outbound_gsm_ring_seconds'' 30 = Inr gsm_ring"
    "sub_config raw ''paths'' = Inr paths" "sub_config raw ''limits'' = Inr limits"
    "int_of_key limits ''max_call_seconds'' 1800 = Inr max_call" "resolve_userbot_url py_repr raw = Some u"
    using gen unfolding generate_def bind_sum_def by (auto split: sum.splits json.splits option.splits)
  have "\<forall>s \<in> set (config_texts (JStr prompt)). unbroken s"
    unfolding p(5) [symmetric] using sub_texts [OF p(1) texts]
    by (rule value_texts) (simp add: unbroken_lit is_break_def)
  then have prompt: "unbroken prompt" by simp
  have shown: "unbroken (py_str py_repr (value_or d key (JStr (S dflt))))"
    if "sub_config raw k = Inr d" "unbroken (S dflt)" for k d key dflt
    using sub_texts [OF that(1) texts] that(2) by (intro shown_unbroken [OF repr] value_texts) simp_all
  define vs where "vs = [int_text max_record, int_text early, prompt_stem prompt,
     fixed 3 (if prompt = [] then Fin 0 else ffprobe_duration tk prompt),
     py_str py_repr (value_or paths ''recordings_dir'' (JStr (S ''/var/lib/simbridge/recordings''))),
     py_str py_repr (value_or voice ''bridge_endpoint'' (JStr (S ''tg-bridge''))),
     py_str py_repr (value_or voice ''bridge_host'' (JStr (S ''127.0.0.1''))),
     int_text port, int_text answer, int_text gsm_ring, int_text max_call]"
  have unb: "\<forall>v \<in> set vs. unbroken v"
    using shown [OF p(10)] shown [OF p(6)] prompt_unbroken [OF prompt]
    by (simp add: vs_def int_unbroken fixed_unbroken unbroken_lit is_break_def)
  have content: "content = join_lines (global_lines ring vs (S ''100.64.0.0/10'') (py_str py_repr u)
       (py_str py_repr (value_or paths ''blacklist'' (JStr (S ''/etc/simbridge/blacklist.txt''))))
       (py_str py_repr (value_or a ''dongle'' (JStr (S ''gsm'')))))"
    using gen p by (simp add: generate_def bind_sum_def Let_def global_lines_def vs_def)
  show thesis by (rule that [OF p(1,10,13) unb content]) (simp add: vs_def)
qed

lemma globals_unbroken:
  assumes "\<forall>v \<in> set vs. unbroken v" "length vs = 11" "unbroken cidr" "unbroken url" "unbroken blacklist" "unbroken modem"
  shows "\<forall>l \<in> set (global_lines ring vs cidr url blacklist modem). unbroken l"
proof -
  have "unbroken (vs ! i)" if "i < 11" for i using that assms(1,2) by simp
  with assms(3-6) show ?thesis
    unfolding global_lines_def OUTPUT_HEADER_def by (simp add: unbroken_lit int_unbroken is_break_def)
qed

lemma item_section:
  assumes "undotted (JObj cfg)" and "cfg_item cfg (S sec @ 46 # S key) = Some v" and "46 \<notin> set (S sec)" and "46 \<notin> set (S key)"
  shows "\<exists>d. dget cfg (S sec) = Some (JObj d) \<and> dget d (S key) = Some v"
proof -
  have "split_all 46 (S sec @ 46 # S key) = [S sec, S key]"
    using split_all_front [OF split_at_append [OF assms(3), of "S key"]] split_all_whole [OF assms(4)] by simp
  then have "path_get (JObj cfg) [S sec, S key] = Some v" using assms(2) cfg_item_path [OF assms(1)] by simp
  then obtain w where "dget cfg (S sec) = Some w" "path_get w [S key] = Some v" by (auto split: option.splits)
  then show ?thesis by (cases w) (auto split: option.splits)
qed

lemma booted_settings:
  assumes "boot_agent cfg now fs = Inr ag"
  obtains dongle blacklist pool where "cfg_item cfg (S ''asterisk.dongle'') = Some (JStr dongle)"
    "cfg_item cfg (S ''paths.blacklist'') = Some (JStr blacklist)" "cr_pool (ag_reg ag) = Some pool"
    "sp_id (mp_provider pool) = dongle"
proof -
  obtain dongle where d: "cfg_item cfg (S ''asterisk.dongle'') = Some (JStr dongle)"
    "ag_reg ag = new_call_registry (af_audit fs)
       (Some (new_modem_pool single_ops (new_single_provider now dongle dongle (sim_phone cfg)) None)) (Some new_metrics)"
    using boot_agent_ok [OF assms] by blast
  have "is_ok (text_setting cfg ''paths.blacklist'')"
    using assms by (auto simp: boot_agent_def and_then_def is_ok_iff split: sum.splits)
  then obtain blacklist where "cfg_item cfg (S ''paths.blacklist'') = Some (JStr blacklist)"
    by (auto simp: text_setting_def is_ok_iff split: option.splits json.splits)
  with d show thesis
    by (intro that) (auto simp: new_call_registry_def new_modem_pool_def new_single_provider_def)
qed



lemma join_lines_last: "ls \<noteq> [] \<Longrightarrow> last ls @ [10] = z \<Longrightarrow> \<exists>front. join_lines ls = front @ z"
  by (cases ls rule: rev_cases) (auto simp: join_lines_def)

text \<open>A reference to the environment is expanded by the agent and not by the generator: the agent's modem is
  then named differently from the one in the events of the dialplan.\<close>
theorem reference_reaches_dialplan:
  "expand (\<lambda>v. if v = S ''M'' then Some (S ''gsm'') else None) (JStr (S ''${M}'')) = JStr (S ''gsm'')
   \<and> (\<forall>content. generate py_repr tk [(S ''asterisk'', JObj [(S ''dongle'', JStr (S ''${M}''))])] = Inr content \<longrightarrow>
        (\<exists>front. content = front @ S ''MODEM_ID=${M}'' @ [10]))"
proof (intro conjI allI impI)
  show "expand (\<lambda>v. if v = S ''M'' then Some (S ''gsm'') else None) (JStr (S ''${M}'')) = JStr (S ''gsm'')"
    by (simp add: S_def env_ref_def ident_char_def ident_start_def)
  fix content
  assume "generate py_repr tk [(S ''asterisk'', JObj [(S ''dongle'', JStr (S ''${M}''))])] = Inr content"
  then show "\<exists>front. content = front @ S ''MODEM_ID=${M}'' @ [10]"
    unfolding generate_def bind_sum_def sub_config_def value_or_def
    by (auto simp: Let_def split: sum.splits json.splits option.splits intro!: join_lines_last) (simp_all add: setting_def S_def)
qed

end
