(* ===== verification/Install.thy ===== *)
theory Install
  imports ModemProbe Acl
begin

text \<open>
  \<open>deploy/install.py\<close> run unattended (\<open>--answers FILE\<close>): the answers file, what an existing installation
  contributes, the decisions of the phases, and the files with the configuration, the access list, the
  blacklist and the secrets. The installation of packages and units, the Telegram login, the start and the
  verification of the services are not modelled; what is printed is left out.

  \<open>inst\<close> is the state class \<open>S\<close>. A phase is a function of the answers and the state; \<open>sys.exit\<close> and an exception
  are values of \<open>stop\<close>. The files are texts; random tokens are given by \<open>fresh\<close>.
\<close>

section \<open>State\<close>

datatype stop =
    AnswerEmpty str
  | AnswerMissing str
  | BadBoolean str str
  | BadChoice str str
  | BadAclIds "str list"
  | ValuesMissing "str list"
  | Aborted
  | Raised str

text \<open>The exit status; an exception is reported by the guard of \<open>__main__\<close>.\<close>
definition stop_status :: "stop \<Rightarrow> int" where
  "stop_status x = (if x = Aborted then 0 else 1)"

type_synonym answers = "(str, str) dict"

record inst =
  in_type :: str
  in_role :: str
  in_action :: str
  in_ts_ip :: str
  in_node_id :: str
  in_modem_model :: str
  in_sim_phone :: str
  in_dongle_name :: str
  in_ami_pw :: str
  in_tg_api_id :: str
  in_tg_api_hash :: str
  in_tg_username :: str
  in_agent_token :: str
  in_http_secret :: str
  in_bridge_secret :: str
  in_own_ip :: str
  in_peer_ip :: str
  in_acl_ids :: str
  in_ts_tag :: str
  in_do_ts :: bool
  in_do_ts_opt :: bool
  in_generated :: "str list"

definition new_inst :: inst where
  "new_inst =
     \<lparr>in_type = [], in_role = [], in_action = S ''install'', in_ts_ip = [], in_node_id = [], in_modem_model = [],
      in_sim_phone = [], in_dongle_name = S ''gsm'', in_ami_pw = [], in_tg_api_id = [], in_tg_api_hash = [],
      in_tg_username = [], in_agent_token = [], in_http_secret = [], in_bridge_secret = [], in_own_ip = [],
      in_peer_ip = [], in_acl_ids = [], in_ts_tag = [], in_do_ts = False, in_do_ts_opt = False, in_generated = []\<rparr>"

text \<open>The files the installer reads and writes.\<close>
record node_files =
  nf_conf :: "str option"
  nf_env :: "str option"
  nf_acl :: "str option"
  nf_blacklist :: "str option"
  nf_old_blacklist :: "str option"
  nf_example :: "str option"
  nf_manager_custom :: "str option"
  nf_manager :: "str option"
  nf_conf_backups :: "str list"

text \<open>What \<open>_rand\<close> yields, for each place that calls it.\<close>
record fresh =
  fr_ami :: str
  fr_agent :: str
  fr_bridge :: str
  fr_http :: str

section \<open>Answers\<close>

definition KNOWN_KEYS :: "str list" where
  "KNOWN_KEYS = map S
     [''install_type'', ''node_role'', ''action'', ''install_tailscale'', ''install_tailscale_opt'', ''node_id'',
      ''modem_model'', ''sim_phone'', ''dongle_name'', ''ami_password'', ''tg_api_id'', ''tg_api_hash'', ''tg_username'',
      ''agent_token'', ''bridge_secret'', ''http_secret'', ''own_ip'', ''peer_ip'', ''acl_ids'', ''ts_tag'', ''tg_login'',
      ''peer_ready'']"

definition answer_line :: "str \<Rightarrow> (str \<times> str) option" where
  "answer_line raw =
     (let line = strip raw
      in if line = [] \<or> startswith line [35] then None
         else (case split_at 61 line of
                 None \<Rightarrow> None
               | Some (k, v) \<Rightarrow>
                   if strip k \<in> set KNOWN_KEYS then Some (strip k, strip_cp 39 (strip_cp 34 (strip v))) else None))"

text \<open>\<open>_load_answers\<close> on the text of an existing file.\<close>
definition load_answers :: "str \<Rightarrow> answers" where
  "load_answers content =
     fold (\<lambda>l d. case answer_line l of None \<Rightarrow> d | Some (k, v) \<Rightarrow> dput k v d) (split_lines (universal_newlines content)) []"

text \<open>\<open>_ans_str\<close>\<close>
definition ans_str :: "answers \<Rightarrow> string \<Rightarrow> str \<Rightarrow> bool \<Rightarrow> stop + str" where
  "ans_str ans key dflt required =
     (case dget ans (S key) of
        Some v \<Rightarrow> (if v \<noteq> [] then Inr v else if required then Inl (AnswerEmpty (S key)) else Inr dflt)
      | None \<Rightarrow> (if required then Inl (AnswerMissing (S key)) else Inr dflt))"

definition ans_bool :: "answers \<Rightarrow> string \<Rightarrow> bool \<Rightarrow> stop + bool" where
  "ans_bool ans key dflt =
     (case dget ans (S key) of
        None \<Rightarrow> Inr dflt
      | Some raw \<Rightarrow>
          (let v = lower (strip raw)
           in if v \<in> {S ''y'', S ''yes'', S ''true'', S ''1''} then Inr True
              else if v \<in> {S ''n'', S ''no'', S ''false'', S ''0''} then Inr False
              else Inl (BadBoolean (S key) v)))"

text \<open>\<open>s.isdigit()\<close>\<close>
definition all_digits :: "str \<Rightarrow> bool" where
  "all_digits s \<longleftrightarrow> s \<noteq> [] \<and> list_all is_digit s"

text \<open>\<open>pick\<close> unattended; \<open>int\<close> raises on digits that are not decimal.\<close>
definition pick :: "answers \<Rightarrow> string \<Rightarrow> str list \<Rightarrow> nat \<Rightarrow> stop + str" where
  "pick ans key options dflt =
     (case dget ans (S key) of
        None \<Rightarrow> Inr (options ! dflt)
      | Some raw \<Rightarrow>
          (let v = strip raw
           in if v = [] then Inr (options ! dflt)
              else if v \<in> set options then Inr v
              else if all_digits v
              then (case parse_int v of
                      None \<Rightarrow> Inl (Raised (S ''ValueError''))
                    | Some n \<Rightarrow> if 1 \<le> n \<and> n \<le> int (length options) then Inr (options ! nat (n - 1))
                                else Inl (BadChoice (S key) v))
              else Inl (BadChoice (S key) v)))"

definition then_do :: "'e + 'a \<Rightarrow> ('a \<Rightarrow> 'e + 'b) \<Rightarrow> 'e + 'b" where
  "then_do r f = (case r of Inl e \<Rightarrow> Inl e | Inr x \<Rightarrow> f x)"

section \<open>The type of the installation\<close>

definition OPT_SINGLE :: str where "OPT_SINGLE = S ''Single-node (all-in-one)''"
definition OPT_DISTRIBUTED :: str where "OPT_DISTRIBUTED = S ''Two-node (distributed)''"
definition OPT_ROLE_GSM :: str where "OPT_ROLE_GSM = S ''GSM node (Asterisk + modem)''"
definition OPT_ROLE_TG :: str where "OPT_ROLE_TG = S ''Telegram node (userbot)''"
definition OPT_WIPE :: str where "OPT_WIPE = S ''Remove existing and start fresh''"
definition OPT_UPDATE :: str where "OPT_UPDATE = S ''Update in place''"

definition phase_type :: "answers \<Rightarrow> inst \<Rightarrow> stop + inst" where
  "phase_type ans s =
     then_do (pick ans ''install_type'' [OPT_SINGLE, OPT_DISTRIBUTED] 0) (\<lambda>c.
       if occurs_in (S ''Single'') c then Inr (s\<lparr>in_type := S ''single'', in_role := S ''all-in-one''\<rparr>)
       else then_do (pick ans ''node_role'' [OPT_ROLE_GSM, OPT_ROLE_TG] 0) (\<lambda>r.
         Inr (s\<lparr>in_type := S ''distributed'', in_role := (if occurs_in (S ''GSM'') r then S ''gsm'' else S ''telegram'')\<rparr>)))"

section \<open>An existing installation\<close>

text \<open>A line of the YAML file: the section goes on, the entries grow.\<close>
definition conf_step :: "str \<Rightarrow> str \<times> answers \<Rightarrow> str \<times> answers" where
  "conf_step raw acc =
     (case acc of
        (sec, y) \<Rightarrow>
          (let line = strip raw
           in if line = [] \<or> startswith line [35] then acc
              else if \<not> is_space (hd raw) \<and> last line = 58 then (butlast line, y)
              else if startswith line [45, 32]
              then (sec, if sec = [] then y else dput (sec @ S ''.allowed_peers'') (strip_cp 34 (strip (drop 2 line))) y)
              else (case split_at 58 line of
                      None \<Rightarrow> acc
                    | Some (key, v) \<Rightarrow>
                        (let k = strip key; x = strip_cp 34 (strip v)
                         in (sec, dput (if sec \<noteq> [] \<and> 46 \<notin> set k then sec @ 46 # k else k) x y)))))"

definition read_conf :: "str \<Rightarrow> answers" where
  "read_conf content = snd (fold conf_step (split_lines (universal_newlines content)) ([], []))"

definition env_line :: "str \<Rightarrow> (str \<times> str) option" where
  "env_line raw =
     (let line = strip raw
      in if line = [] \<or> startswith line [35] then None
         else map_option (\<lambda>(k, v). (strip k, strip v)) (split_at 61 line))"

definition read_env_file :: "str \<Rightarrow> answers" where
  "read_env_file content =
     fold (\<lambda>l d. case env_line l of None \<Rightarrow> d | Some (k, v) \<Rightarrow> dput k v d) (split_lines (universal_newlines content)) []"

definition acl_user :: "str \<Rightarrow> str option" where
  "acl_user raw =
     (let line = strip raw
      in if line = [] \<or> startswith line [35] then None
         else (case split_ws line of [] \<Rightarrow> None | p # _ \<Rightarrow> if all_digits p then Some p else None))"

text \<open>\<open>' '.join(xs)\<close>\<close>
definition join_spaces :: "str list \<Rightarrow> str" where
  "join_spaces xs = (case xs of [] \<Rightarrow> [] | x # rest \<Rightarrow> x @ concat (map (\<lambda>y. 32 # y) rest))"

definition lookup_or :: "answers \<Rightarrow> string \<Rightarrow> str" where
  "lookup_or d key = (case dget d (S key) of None \<Rightarrow> [] | Some v \<Rightarrow> v)"

text \<open>A field that keeps its value, else takes the entry if there is one.\<close>
definition filled :: "answers \<Rightarrow> string \<Rightarrow> str \<Rightarrow> str" where
  "filled d key old = (if old \<noteq> [] then old else lookup_or d key)"

text \<open>The address in front of the last colon.\<close>
definition host_part :: "str \<Rightarrow> str" where
  "host_part v = (case split_at 58 (rev v) of None \<Rightarrow> v | Some (_, host) \<Rightarrow> rev host)"

definition load_fields :: "answers \<Rightarrow> answers \<Rightarrow> inst \<Rightarrow> inst" where
  "load_fields y env s =
     s\<lparr>in_node_id := filled y ''node.id'' (in_node_id s),
       in_role := filled y ''node.role'' (in_role s),
       in_dongle_name := (if in_dongle_name s = S ''gsm''
                          then (case dget y (S ''asterisk.dongle'') of None \<Rightarrow> in_dongle_name s | Some v \<Rightarrow> v) else in_dongle_name s),
       in_tg_username := filled y ''telegram.master_username'' (in_tg_username s),
       in_sim_phone := filled y ''sim.phone'' (in_sim_phone s),
       in_modem_model := filled y ''sim.modem_model'' (in_modem_model s),
       in_agent_token := filled env ''SIMBRIDGE_AGENT_TOKEN'' (in_agent_token s),
       in_tg_api_hash := (if in_tg_api_id s = [] \<and> dget env (S ''SIMBRIDGE_TG_API_ID'') \<noteq> None
                          then lookup_or env ''SIMBRIDGE_TG_API_HASH'' else in_tg_api_hash s),
       in_tg_api_id := filled env ''SIMBRIDGE_TG_API_ID'' (in_tg_api_id s),
       in_http_secret := filled env ''SIMBRIDGE_HTTP_SECRET'' (in_http_secret s),
       in_bridge_secret := filled env ''SIMBRIDGE_BRIDGE_SECRET'' (in_bridge_secret s),
       in_ami_pw := filled env ''SIMBRIDGE_AMI_PASSWORD'' (in_ami_pw s)\<rparr>"

definition load_network :: "answers \<Rightarrow> inst \<Rightarrow> inst" where
  "load_network y s =
     (let listen = lookup_or y ''agent.listen''; ulisten = lookup_or y ''userbot_http.listen'';
          own1 = (if 58 \<in> set listen \<and> in_own_ip s = [] \<and> lookup_or y ''node.role'' \<noteq> S ''telegram'' then host_part listen else in_own_ip s);
          own2 = (if 58 \<in> set ulisten \<and> own1 = [] then host_part ulisten else own1);
          peer = (if in_peer_ip s \<noteq> [] then in_peer_ip s
                  else (case List.find (\<lambda>v. v \<noteq> [] \<and> v \<noteq> S ''127.0.0.1'')
                          (map (lookup_or y) [''voice.bridge_host'', ''agent.allowed_peers'', ''userbot_http.allowed_peers'']) of
                          None \<Rightarrow> [] | Some v \<Rightarrow> v))
      in s\<lparr>in_own_ip := own2, in_peer_ip := peer\<rparr>)"

text \<open>\<open>_load_existing_config\<close>\<close>
definition load_existing_config :: "node_files \<Rightarrow> inst \<Rightarrow> inst" where
  "load_existing_config fs s =
     (case nf_conf fs of
        None \<Rightarrow> s
      | Some conf \<Rightarrow>
          (let y = read_conf conf;
               env = (case nf_env fs of None \<Rightarrow> [] | Some e \<Rightarrow> read_env_file e);
               ids = (case nf_acl fs of None \<Rightarrow> [] | Some a \<Rightarrow> List.map_filter acl_user (split_lines (universal_newlines a)));
               s1 = (if ids = [] then s else s\<lparr>in_acl_ids := join_spaces ids\<rparr>)
           in load_network y (load_fields y env s1)))"

text \<open>\<open>found\<close> is \<open>detect_existing\<close>.\<close>
definition phase_existing :: "answers \<Rightarrow> bool \<Rightarrow> node_files \<Rightarrow> inst \<Rightarrow> stop + inst" where
  "phase_existing ans found fs s =
     (if \<not> found then Inr s
      else then_do (pick ans ''action'' [OPT_WIPE, OPT_UPDATE, S ''Abort''] 1) (\<lambda>c.
        if occurs_in (S ''Remove'') c then Inr (s\<lparr>in_action := S ''remove''\<rparr>)
        else if occurs_in (S ''Abort'') c then Inl Aborted
        else Inr (load_existing_config fs (s\<lparr>in_action := S ''update''\<rparr>))))"

section \<open>The configuration\<close>

definition is_gsm :: "inst \<Rightarrow> bool" where
  "is_gsm s \<longleftrightarrow> in_role s \<in> {S ''gsm'', S ''all-in-one''}"

definition is_tg :: "inst \<Rightarrow> bool" where
  "is_tg s \<longleftrightarrow> in_role s \<in> {S ''telegram'', S ''all-in-one''}"

text \<open>The questions of \<open>phase_diag\<close>; \<open>ts_ip\<close> is the address of an installed Tailscale.\<close>
definition phase_diag :: "answers \<Rightarrow> str option \<Rightarrow> inst \<Rightarrow> stop + inst" where
  "phase_diag ans ts_ip s =
     (case ts_ip of
        Some ip \<Rightarrow> Inr (s\<lparr>in_ts_ip := ip\<rparr>)
      | None \<Rightarrow>
          if in_type s = S ''distributed''
          then then_do (ans_bool ans ''install_tailscale'' True) (\<lambda>b. Inr (s\<lparr>in_ts_ip := [], in_do_ts := b\<rparr>))
          else then_do (ans_bool ans ''install_tailscale_opt'' False) (\<lambda>b. Inr (s\<lparr>in_ts_ip := [], in_do_ts_opt := b\<rparr>)))"

text \<open>\<open>_read_ami_pw\<close>\<close>
fun ami_secret :: "bool \<Rightarrow> str list \<Rightarrow> str" where
  "ami_secret sec [] = []"
| "ami_secret sec (ln # lns) =
     (let l = strip ln
      in if startswith l [91] \<and> last l = 93 then ami_secret True lns
         else let v = (case split_at 61 l of None \<Rightarrow> [] | Some (_, v) \<Rightarrow> strip v)
              in if sec \<and> startswith l (S ''secret'') \<and> v \<noteq> [] then v else ami_secret sec lns)"

definition read_ami_pw :: "str option \<Rightarrow> str" where
  "read_ami_pw f = (case f of None \<Rightarrow> [] | Some c \<Rightarrow> ami_secret False (split_lines (universal_newlines c)))"

definition ensure_ami :: "fresh \<Rightarrow> node_files \<Rightarrow> inst \<Rightarrow> str" where
  "ensure_ami fr fs s =
     first_text [in_ami_pw s, read_ami_pw (nf_manager_custom fs), read_ami_pw (nf_manager fs), fr_ami fr]"

definition gather_gsm :: "answers \<Rightarrow> fresh \<Rightarrow> node_files \<Rightarrow> inst \<Rightarrow> stop + inst" where
  "gather_gsm ans fr fs s =
     (if \<not> is_gsm s then Inr s
      else
        then_do (if in_modem_model s = [] then ans_str ans ''modem_model'' [] False else Inr (in_modem_model s)) (\<lambda>model.
        then_do (ans_str ans ''sim_phone'' (in_sim_phone s) False) (\<lambda>phone.
        then_do (ans_str ans ''dongle_name'' (if in_dongle_name s = [] then S ''gsm'' else in_dongle_name s) False) (\<lambda>dongle.
        then_do (ans_str ans ''ami_password'' [] False) (\<lambda>pw.
          Inr (s\<lparr>in_modem_model := model, in_sim_phone := phone, in_dongle_name := dongle,
                in_ami_pw := (if pw = [] then ensure_ami fr fs s else pw)\<rparr>))))))"

definition gather_tg :: "answers \<Rightarrow> inst \<Rightarrow> stop + inst" where
  "gather_tg ans s =
     (if \<not> is_tg s then Inr s
      else
        then_do (ans_str ans ''tg_api_id'' (in_tg_api_id s) False) (\<lambda>i.
        then_do (ans_str ans ''tg_api_hash'' (in_tg_api_hash s) False) (\<lambda>h.
        then_do (ans_str ans ''tg_username'' (in_tg_username s) False) (\<lambda>u.
          Inr (s\<lparr>in_tg_api_id := i, in_tg_api_hash := h, in_tg_username := u\<rparr>)))))"

text \<open>A secret a node may generate.\<close>
definition gather_secret :: "answers \<Rightarrow> string \<Rightarrow> str \<Rightarrow> str \<Rightarrow> stop + str \<times> str list" where
  "gather_secret ans key old generated =
     then_do (ans_str ans key old False) (\<lambda>v. Inr (if v = [] then (generated, [S key]) else (v, [])))"

definition gather_secrets :: "answers \<Rightarrow> fresh \<Rightarrow> inst \<Rightarrow> stop + inst" where
  "gather_secrets ans fr s =
     (if in_role s = S ''telegram''
      then
        then_do (ans_str ans ''agent_token'' (in_agent_token s) False) (\<lambda>t.
        then_do (ans_str ans ''bridge_secret'' (in_bridge_secret s) False) (\<lambda>b.
        then_do (ans_str ans ''http_secret'' (in_http_secret s) False) (\<lambda>h.
          Inr (s\<lparr>in_agent_token := t, in_bridge_secret := b, in_http_secret := h\<rparr>))))
      else
        then_do (gather_secret ans ''agent_token'' (in_agent_token s) (fr_agent fr)) (\<lambda>(t, g1).
        then_do (gather_secret ans ''bridge_secret'' (in_bridge_secret s) (fr_bridge fr)) (\<lambda>(b, g2).
        then_do (gather_secret ans ''http_secret'' (in_http_secret s) (fr_http fr)) (\<lambda>(h, g3).
          Inr (s\<lparr>in_agent_token := t, in_bridge_secret := b, in_http_secret := h,
                in_generated := in_generated s @ g1 @ g2 @ g3\<rparr>)))))"

definition node_suffix :: "str \<Rightarrow> str" where
  "node_suffix name = rev (takeWhile (\<lambda>c. c \<noteq> 45) (rev name))"

definition tag_of :: "str \<Rightarrow> str" where
  "tag_of suffix = (if suffix = [] then [] else S ''tag:'' @ suffix)"

definition gather_network :: "answers \<Rightarrow> inst \<Rightarrow> stop + inst" where
  "gather_network ans s =
     (if in_type s \<noteq> S ''distributed'' then Inr (s\<lparr>in_own_ip := S ''127.0.0.1'', in_peer_ip := S ''127.0.0.1''\<rparr>)
      else
        then_do (if in_ts_ip s \<noteq> [] then Inr (in_ts_ip s)
                 else if in_own_ip s \<noteq> [] then Inr (in_own_ip s) else ans_str ans ''own_ip'' [] False) (\<lambda>own.
        then_do (ans_str ans ''peer_ip'' (in_peer_ip s) True) (\<lambda>peer.
        then_do (ans_str ans ''ts_tag'' (tag_of (node_suffix (in_node_id s))) False) (\<lambda>tag.
          Inr (s\<lparr>in_own_ip := own, in_peer_ip := peer, in_ts_tag := tag\<rparr>)))))"

definition invalid_acl_tokens :: "str \<Rightarrow> str list" where
  "invalid_acl_tokens ids = filter (\<lambda>t. \<not> all_digits t) (split_ws ids)"

definition gather_acl :: "answers \<Rightarrow> inst \<Rightarrow> stop + inst" where
  "gather_acl ans s =
     then_do (ans_str ans ''acl_ids'' (in_acl_ids s) True) (\<lambda>ids.
       if invalid_acl_tokens ids = [] then Inr (s\<lparr>in_acl_ids := ids\<rparr>) else Inl (BadAclIds (invalid_acl_tokens ids)))"

definition missing_values :: "inst \<Rightarrow> str list" where
  "missing_values s =
     (if is_gsm s \<and> in_modem_model s = [] then [S ''modem_model''] else [])
     @ (if in_role s = S ''telegram''
        then map fst (filter (\<lambda>(_, v). v = [])
          [(S ''tg_api_id'', in_tg_api_id s), (S ''tg_api_hash'', in_tg_api_hash s), (S ''tg_username'', in_tg_username s),
           (S ''agent_token'', in_agent_token s), (S ''bridge_secret'', in_bridge_secret s), (S ''http_secret'', in_http_secret s)])
        else [])
     @ (if in_type s = S ''distributed'' \<and> in_own_ip s = [] then [S ''own_ip''] else [])"

definition validate_noninteractive :: "inst \<Rightarrow> stop + inst" where
  "validate_noninteractive s = (if missing_values s = [] then Inr s else Inl (ValuesMissing (missing_values s)))"

text \<open>\<open>phase_gather\<close>\<close>
definition phase_gather :: "answers \<Rightarrow> str \<Rightarrow> fresh \<Rightarrow> node_files \<Rightarrow> inst \<Rightarrow> stop + inst" where
  "phase_gather ans hostname fr fs s =
     then_do (ans_str ans ''node_id'' (if in_node_id s = [] then hostname else in_node_id s) False) (\<lambda>nid.
     then_do (gather_gsm ans fr fs (s\<lparr>in_node_id := nid\<rparr>)) (\<lambda>s1.
     then_do (gather_tg ans s1) (\<lambda>s2.
     then_do (gather_secrets ans fr s2) (\<lambda>s3.
     then_do (gather_network ans s3) (\<lambda>s4.
     then_do (gather_acl ans s4) validate_noninteractive)))))"

end
