(* ===== verification/InstallFiles.thy ===== *)
theory InstallFiles
  imports Install
begin

text \<open>
  The files \<open>deploy/install.py\<close> writes: \<open>simbridge.yaml\<close>, \<open>acl.conf\<close>, the blacklist and the merged file of
  secrets, and the run that decides their contents.
\<close>

section \<open>The configuration file\<close>

text \<open>\<open>_allowed_peers_yaml\<close>: the lines of the list.\<close>
definition allowed_peers :: "inst \<Rightarrow> str list" where
  "allowed_peers s =
     (let peers = remdups_adj (filter (\<lambda>ip. ip \<noteq> []) [in_peer_ip s, in_own_ip s])
      in map (\<lambda>ip. S ''    - '' @ quoted ip) (if peers = [] then [S ''127.0.0.1''] else peers))"

definition agent_listen :: "inst \<Rightarrow> str" where
  "agent_listen s =
     (if in_type s = S ''single'' then S ''127.0.0.1:8090''
      else (if in_role s = S ''telegram'' then in_peer_ip s else in_own_ip s) @ S '':8090'')"

definition userbot_listen :: "inst \<Rightarrow> str" where
  "userbot_listen s = (if in_type s = S ''single'' then S ''127.0.0.1:8088'' else in_own_ip s @ S '':8088'')"

definition peer_host :: "inst \<Rightarrow> str" where
  "peer_host s = (if in_type s = S ''single'' then S ''127.0.0.1'' else in_peer_ip s)"

definition yaml_entry :: "string \<Rightarrow> str \<Rightarrow> str" where
  "yaml_entry key v = S ''  '' @ S key @ S '': '' @ v"

definition config_lines :: "inst \<Rightarrow> str list" where
  "config_lines s =
     [S ''# SimBridge '' @ [8212] @ S '' generated by install.py'',
      S ''node:'', yaml_entry ''role'' (in_role s), yaml_entry ''id'' (in_node_id s),
      S ''telegram:'',
      yaml_entry ''master_username'' (quoted (if in_tg_username s = [] then S ''<telegram_username>'' else in_tg_username s)),
      yaml_entry ''session_path'' (S ''/var/lib/simbridge/sim_session''), yaml_entry ''acl_file'' (S ''/etc/simbridge/acl.conf''),
      yaml_entry ''api_id_env'' (S ''SIMBRIDGE_TG_API_ID''), yaml_entry ''api_hash_env'' (S ''SIMBRIDGE_TG_API_HASH''),
      S ''agent:'', yaml_entry ''listen'' (quoted (agent_listen s)), yaml_entry ''token_env'' (S ''SIMBRIDGE_AGENT_TOKEN''),
      yaml_entry ''userbot_url'' (S ''http://'' @ peer_host s @ S '':8088''), S ''  allowed_peers:'']
     @ allowed_peers s
     @ [S ''userbot_http:'', yaml_entry ''listen'' (quoted (userbot_listen s)), yaml_entry ''secret_env'' (S ''SIMBRIDGE_HTTP_SECRET''),
        S ''  allowed_peers:'']
     @ allowed_peers s
     @ [S ''asterisk:'', yaml_entry ''ari_url'' (S ''http://127.0.0.1:8088/ari''), yaml_entry ''dongle'' (in_dongle_name s),
        yaml_entry ''ring_wait_seconds'' (S ''18''), yaml_entry ''max_record_seconds'' (S ''90''), yaml_entry ''early_hangup_max_seconds'' (S ''3''),
        yaml_entry ''sweep_max_age_seconds'' (S ''300''), yaml_entry ''sweep_max_retain_seconds'' (S ''604800''),
        yaml_entry ''prompt'' (S ''/var/lib/asterisk/sounds/custom/vm-prompt.ulaw''), yaml_entry ''ami_host'' (S ''127.0.0.1''),
        yaml_entry ''ami_port'' (S ''5038''), yaml_entry ''ami_username'' (S ''simbridge''),
        yaml_entry ''ami_password_env'' (S ''SIMBRIDGE_AMI_PASSWORD''),
        S ''sim:'', yaml_entry ''phone'' (quoted (in_sim_phone s)), yaml_entry ''modem_model'' (quoted (in_modem_model s)),
        S ''voice:'', yaml_entry ''bridge_endpoint'' (S ''tg-bridge''), yaml_entry ''bridge_host'' (peer_host s),
        yaml_entry ''bridge_port'' (S ''5062''), yaml_entry ''srtp'' (S ''false''), yaml_entry ''outbound_answer_timeout'' (S ''30''),
        yaml_entry ''outbound_gsm_ring_seconds'' (S ''30''), yaml_entry ''bridge_control_port'' (S ''5063''),
        S ''watchdog:'', yaml_entry ''modem_check_seconds'' (S ''30''),
        S ''limits:'', yaml_entry ''sms_per_hour'' (S ''30''), yaml_entry ''calls_per_minute'' (S ''3''), yaml_entry ''max_call_seconds'' (S ''3600''),
        S ''paths:'', yaml_entry ''blacklist'' (S ''/etc/simbridge/blacklist.txt''),
        yaml_entry ''contacts_cache'' (S ''/var/lib/simbridge/contacts.csv''), yaml_entry ''audit_log'' (S ''/var/log/simbridge/audit.jsonl''),
        yaml_entry ''recordings_dir'' (S ''/var/lib/simbridge/recordings''),
        yaml_entry ''sms_correlation'' (S ''/var/lib/simbridge/sms_correlation.jsonl'')]"

text \<open>The configuration, with a copy of a different one on an update.\<close>
definition write_conf :: "inst \<Rightarrow> node_files \<Rightarrow> node_files" where
  "write_conf s fs =
     (let yaml = join_lines (config_lines s);
          backups = (case nf_conf fs of
            None \<Rightarrow> []
          | Some old \<Rightarrow> if in_action s = S ''update'' \<and> universal_newlines old \<noteq> yaml then [universal_newlines old] else [])
      in fs\<lparr>nf_conf := Some yaml, nf_conf_backups := nf_conf_backups fs @ backups\<rparr>)"

definition write_acl :: "inst \<Rightarrow> node_files \<Rightarrow> node_files" where
  "write_acl s fs =
     (case nf_acl fs of
        Some _ \<Rightarrow> fs
      | None \<Rightarrow> fs\<lparr>nf_acl := Some (join_lines
          ([S ''# SimBridge ACL: <user_id> <right1> <right2> ...'', S ''# Rights: in_sms in_call out_sms out_call'']
           @ map (\<lambda>uid. uid @ S '' out_sms in_sms out_call in_call'') (split_ws (in_acl_ids s))))\<rparr>)"

definition write_blacklist :: "node_files \<Rightarrow> node_files" where
  "write_blacklist fs =
     (if nf_blacklist fs \<noteq> None then fs
      else fs\<lparr>nf_blacklist := (case nf_old_blacklist fs of
                Some c \<Rightarrow> Some c
              | None \<Rightarrow> (case nf_example fs of
                           Some c \<Rightarrow> Some c | None \<Rightarrow> Some (S ''# Blocked numbers (E.164, one/line)'' @ [10])))\<rparr>)"

section \<open>The secrets\<close>

definition wanted_secrets :: "inst \<Rightarrow> answers" where
  "wanted_secrets s =
     (if in_agent_token s = [] then [] else [(S ''SIMBRIDGE_AGENT_TOKEN'', in_agent_token s)])
     @ (if in_tg_api_id s = [] \<or> in_tg_api_hash s = [] then []
        else [(S ''SIMBRIDGE_TG_API_ID'', in_tg_api_id s), (S ''SIMBRIDGE_TG_API_HASH'', in_tg_api_hash s)])
     @ (if in_http_secret s = [] then [] else [(S ''SIMBRIDGE_HTTP_SECRET'', in_http_secret s)])
     @ (if in_bridge_secret s = [] then [] else [(S ''SIMBRIDGE_BRIDGE_SECRET'', in_bridge_secret s)])
     @ (if in_ami_pw s = [] then [] else [(S ''SIMBRIDGE_AMI_PASSWORD'', in_ami_pw s)])
     @ [(S ''SIMBRIDGE_HOME'', S ''/opt/simbridge'')]
     @ (if \<not> is_gsm s then []
        else if in_type s = S ''single'' then [(S ''AGENT_URL'', S ''http://127.0.0.1:8090'')]
        else if in_own_ip s = [] then [] else [(S ''AGENT_URL'', S ''http://'' @ in_own_ip s @ S '':8090'')])"

definition secret_line :: "str \<times> str \<Rightarrow> str" where
  "secret_line kv = fst kv @ 61 # snd kv"

text \<open>The key a line of the file sets.\<close>
definition line_key :: "str \<Rightarrow> str option" where
  "line_key line =
     (let t = strip line
      in if t = [] \<or> startswith t [35] then None else map_option (\<lambda>(k, _). strip k) (split_at 61 t))"

definition merged_line :: "answers \<Rightarrow> str \<Rightarrow> str" where
  "merged_line wanted line =
     (case line_key line of
        None \<Rightarrow> line
      | Some k \<Rightarrow> (case dget wanted k of None \<Rightarrow> line | Some v \<Rightarrow> secret_line (k, v)))"

definition merge_lines :: "answers \<Rightarrow> str list \<Rightarrow> str list" where
  "merge_lines wanted raw =
     (if raw = []
      then [S ''# SimBridge secrets '' @ [8212] @ S '' NEVER commit (Rule 5)'', []] @ map secret_line wanted
      else (let lines = map (merged_line wanted) raw;
                added = filter (\<lambda>kv. Some (fst kv) \<notin> set (map line_key raw)) wanted
            in lines @ (if added \<noteq> [] \<and> strip (last lines) \<noteq> [] then [[]] else []) @ map secret_line added))"

text \<open>\<open>_merge_env\<close>\<close>
definition merge_env :: "inst \<Rightarrow> node_files \<Rightarrow> node_files" where
  "merge_env s fs =
     fs\<lparr>nf_env := Some (join_lines (merge_lines (wanted_secrets s)
          (case nf_env fs of None \<Rightarrow> [] | Some c \<Rightarrow> split_lines (universal_newlines c))))\<rparr>"

text \<open>\<open>_write_config\<close>\<close>
definition write_config :: "inst \<Rightarrow> node_files \<Rightarrow> node_files" where
  "write_config s fs = merge_env s (write_blacklist (write_acl s (write_conf s fs)))"

text \<open>\<open>phase_remove\<close>, on the files kept here: the directory of the configuration goes.\<close>
definition phase_remove :: "inst \<Rightarrow> node_files \<Rightarrow> node_files" where
  "phase_remove s fs =
     (if in_action s = S ''remove''
      then fs\<lparr>nf_conf := None, nf_env := None, nf_acl := None, nf_blacklist := None, nf_conf_backups := []\<rparr> else fs)"

section \<open>The unattended run\<close>

definition decide ::
    "str \<Rightarrow> bool \<Rightarrow> str option \<Rightarrow> str \<Rightarrow> fresh \<Rightarrow> node_files \<Rightarrow> stop + inst" where
  "decide answers_text found ts_ip hostname fr fs =
     (let ans = load_answers answers_text
      in then_do (phase_type ans new_inst) (\<lambda>s1.
         then_do (phase_existing ans found fs s1) (\<lambda>s2.
         then_do (phase_diag ans ts_ip s2) (phase_gather ans hostname fr fs))))"

definition unattended ::
    "str \<Rightarrow> bool \<Rightarrow> str option \<Rightarrow> str \<Rightarrow> fresh \<Rightarrow> node_files \<Rightarrow> (stop + inst) \<times> node_files" where
  "unattended answers_text found ts_ip hostname fr fs =
     (case decide answers_text found ts_ip hostname fr fs of
        Inl e \<Rightarrow> (Inl e, fs)
      | Inr s \<Rightarrow> (Inr s, write_config s (phase_remove s fs)))"

section \<open>The modem profile\<close>

definition slug_char :: "cp \<Rightarrow> bool" where
  "slug_char c \<longleftrightarrow> 97 \<le> c \<and> c \<le> 122 \<or> 48 \<le> c \<and> c \<le> 57 \<or> c = 45"

text \<open>\<open>re.sub(r"-{2,}", "-", s)\<close>\<close>
fun single_dashes :: "str \<Rightarrow> str" where
  "single_dashes (a # b # cs) = (if a = 45 \<and> b = 45 then single_dashes (b # cs) else a # single_dashes (b # cs))"
| "single_dashes s = s"

definition modem_profile_name :: "inst \<Rightarrow> str" where
  "modem_profile_name s =
     (let base = strip_cp 45 (single_dashes (map (\<lambda>c. if slug_char c then c else 45) (lower (in_dongle_name s))))
      in if base = [] then S ''modem'' else base)"

text \<open>\<open>\b([0-9a-fA-F]{4}):([0-9a-fA-F]{4})\b\<close>, searched; \<open>word\<close> says that a word character comes before.\<close>
fun usb_id_of :: "bool \<Rightarrow> str \<Rightarrow> str option" where
  "usb_id_of word [] = None"
| "usb_id_of word (c # cs) =
     (if \<not> word \<and> vid_pid_form (take 9 (c # cs)) \<and> boundary (drop 9 (c # cs)) then Some (take 9 (c # cs))
      else usb_id_of (is_word c) cs)"

text \<open>\<open>_init_modem_profile\<close>: the arguments of \<open>modem_profile.py init\<close>.\<close>
definition init_modem_args :: "inst \<Rightarrow> profile_args" where
  "init_modem_args s =
     \<lparr>pa_name = modem_profile_name s, pa_model = in_modem_model s,
      pa_vid_pid = (case usb_id_of False (in_modem_model s) of None \<Rightarrow> [] | Some ids \<Rightarrow> lower ids),
      pa_dongle = in_dongle_name s, pa_audio = [], pa_data = [], pa_phone = in_sim_phone s,
      pa_interfaces = [], pa_force = False\<rparr>"

section \<open>Result\<close>

text \<open>A check of the verification: its label, whether it failed and the proposed fix.\<close>
type_synonym issue = "str \<times> bool \<times> str"

definition failed_checks :: "issue list \<Rightarrow> str list" where
  "failed_checks issues = map fst (filter (\<lambda>(_, failed, _). failed) issues)"

text \<open>\<open>c.upper()\<close>, as far as it bears on the letters of SKIP.\<close>
definition upper_cp :: "cp \<Rightarrow> str" where
  "upper_cp c = (if 97 \<le> c \<and> c \<le> 122 then [c - 32] else if c = 223 then [83, 83] else if c = 383 then [83]
                 else if c = 305 then [73] else [c])"

definition is_skip :: "str \<Rightarrow> bool" where
  "is_skip label \<longleftrightarrow> occurs_in (S ''SKIP'') (concat (map upper_cp label))"

definition result_json :: "str \<Rightarrow> str \<Rightarrow> inst \<Rightarrow> issue list \<Rightarrow> json" where
  "result_json version ts_ip s issues =
     (let names = map JStr; failed = failed_checks issues; passing = filter (\<lambda>(_, failed, _). \<not> failed) issues;
          fixes = filter (\<lambda>(_, failed, fix). failed \<and> fix \<noteq> []) issues
      in JObj [(S ''ok'', JBool (failed = [])), (S ''node_id'', JStr (in_node_id s)), (S ''role'', JStr (in_role s)),
               (S ''install_type'', JStr (in_type s)), (S ''version'', JStr version), (S ''tailscale_ip'', JStr ts_ip),
               (S ''own_ip'', JStr (in_own_ip s)), (S ''peer_ip'', JStr (in_peer_ip s)),
               (S ''agent_token'', JStr (in_agent_token s)), (S ''http_secret'', JStr (in_http_secret s)),
               (S ''bridge_secret'', JStr (in_bridge_secret s)), (S ''generated_secrets'', JList (names (in_generated s))),
               (S ''verify'', JObj [(S ''passed'', JList (names (map fst (filter (\<lambda>(l, _). \<not> is_skip l) passing)))),
                                    (S ''failed'', JList (names failed)),
                                    (S ''skipped'', JList (names (map fst (filter (\<lambda>(l, _). is_skip l) passing)))),
                                    (S ''fixes'', JObj (fold (\<lambda>(l, _, fix) d. dput l (JStr fix) d) fixes []))])])"

text \<open>The exit status of an unattended run that went through.\<close>
definition install_status :: "issue list \<Rightarrow> int" where
  "install_status issues = (if failed_checks issues = [] then 0 else 2)"

end
