(* ===== verification/Deploy.thy ===== *)
theory Deploy
  imports InstallFiles
begin

text \<open>
  \<open>deploy/install_remote.py\<close>: the deployment of one or two nodes from a PC. The answers of every node, the
  preflight, the addresses, the installation of a node, the final check and the report's exit status.

  What a node answers to a command is a function \<open>remote\<close> of the commands run before; the answers of the person
  at the PC are the lines typed (\<open>q\<close>, \<open>gather_params\<close>) or, where they are asked between the commands,
  arguments. What is printed is left out.
\<close>

section \<open>Nodes\<close>

text \<open>The problems recorded for a node; their texts are constructors.\<close>
datatype node_error =
    PreflightFailed str
  | StageFailed
  | InstallerNotUploaded
  | NotCompiled
  | AnswersNotUploaded
  | InstallerExit int
  | ResultUnreadable
  | ResultMissing
  | VerifyFailed

record node =
  nd_name :: str
  nd_user :: str
  nd_role :: str
  nd_id :: str
  nd_own_ip :: str
  nd_peer_ip :: str
  nd_action :: str
  nd_ts_present :: bool
  nd_ts_joined :: bool
  nd_existing :: bool
  nd_ok :: bool
  nd_errors :: "node_error list"

record shared =
  sh_type :: str
  sh_branch :: str
  sh_tg_api_id :: str
  sh_tg_api_hash :: str
  sh_tg_username :: str
  sh_acl_ids :: str
  sh_ts_tag :: str
  sh_sim_phone :: str
  sh_modem_model :: str
  sh_dongle_name :: str
  sh_agent_token :: str
  sh_bridge_secret :: str
  sh_http_secret :: str

section \<open>Answers\<close>

definition ANSWERS_HEADER :: "str list" where
  "ANSWERS_HEADER =
     [S ''# SimBridge answers file '' @ [8212] @ S '' generated by install_remote.py'',
      S ''# Consumed by install.py --answers (see its docstring).'']"

definition answer_text :: "str \<times> str \<Rightarrow> str" where
  "answer_text kv =
     (let v = strip (snd kv) in fst kv @ S '' = '' @ (if 32 \<in> set v then quoted v else v))"

definition answers_env_text :: "answers \<Rightarrow> str" where
  "answers_env_text d = join_lines (ANSWERS_HEADER @ map answer_text d)"

text \<open>An entry that is omitted when it is empty.\<close>
definition given :: "string \<Rightarrow> str \<Rightarrow> answers" where
  "given key v = (if v = [] then [] else [(S key, v)])"

definition bool_text :: "bool \<Rightarrow> str" where
  "bool_text b = (if b then S ''true'' else S ''false'')"

definition build_answers :: "node \<Rightarrow> shared \<Rightarrow> answers" where
  "build_answers n sh =
     [(S ''install_type'', if sh_type sh = S ''single'' then OPT_SINGLE else OPT_DISTRIBUTED)]
     @ (if sh_type sh = S ''distributed'' then [(S ''node_role'', if nd_role n = S ''gsm'' then OPT_ROLE_GSM else OPT_ROLE_TG)] else [])
     @ (if nd_action n = [] then [] else [(S ''action'', if nd_action n = S ''wipe'' then OPT_WIPE else OPT_UPDATE)])
     @ [(S ''install_tailscale'', bool_text (\<not> nd_ts_present n)), (S ''install_tailscale_opt'', bool_text False),
        (S ''node_id'', nd_id n)]
     @ (if nd_role n \<in> {S ''gsm'', S ''all-in-one''}
        then given ''modem_model'' (sh_modem_model sh) @ given ''sim_phone'' (sh_sim_phone sh) @ given ''dongle_name'' (sh_dongle_name sh)
        else [])
     @ (if nd_role n \<in> {S ''telegram'', S ''all-in-one''}
        then given ''tg_api_id'' (sh_tg_api_id sh) @ given ''tg_api_hash'' (sh_tg_api_hash sh) @ given ''tg_username'' (sh_tg_username sh)
        else [])
     @ [(S ''agent_token'', sh_agent_token sh), (S ''bridge_secret'', sh_bridge_secret sh), (S ''http_secret'', sh_http_secret sh)]
     @ (if sh_type sh = S ''distributed''
        then [(S ''own_ip'', nd_own_ip n), (S ''peer_ip'', nd_peer_ip n),
              (S ''ts_tag'', if sh_ts_tag sh = [] then S ''tag:'' @ node_suffix (nd_name n) else sh_ts_tag sh)]
        else [])
     @ [(S ''acl_ids'', sh_acl_ids sh), (S ''tg_login'', bool_text False), (S ''peer_ready'', bool_text False)]"

section \<open>Remote commands\<close>

datatype remote_command =
    ProbeNode
  | MakeStage
  | Upload str bool
  | UploadedSize bool
  | Compile
  | RunInstaller
  | FetchResult
  | CleanStage
  | CurlUserbot str
  | CurlAgent str str

type_synonym remote_log = "(str \<times> remote_command) list"

text \<open>The return code and the output.\<close>
type_synonym remote = "remote_log \<Rightarrow> str \<Rightarrow> remote_command \<Rightarrow> int \<times> str"

definition run_remote :: "remote \<Rightarrow> str \<Rightarrow> remote_command \<Rightarrow> remote_log \<Rightarrow> (int \<times> str) \<times> remote_log" where
  "run_remote rem host cmd log = (rem log host cmd, log @ [(host, cmd)])"

text \<open>\<open>upload_remote\<close> of a text of \<open>nbytes\<close> bytes: the return code and the output.\<close>
definition upload_remote :: "remote \<Rightarrow> str \<Rightarrow> str \<Rightarrow> nat \<Rightarrow> bool \<Rightarrow> remote_log \<Rightarrow> (int \<times> str) \<times> remote_log" where
  "upload_remote rem host content nbytes secret log =
     (case run_remote rem host (Upload content secret) log of
        ((rc, out), log1) \<Rightarrow>
          if \<not> occurs_in (S ''UPLOAD_OK'') out then ((rc, out), log1)
          else (case run_remote rem host (UploadedSize secret) log1 of
                  ((rc2, size_out), log2) \<Rightarrow>
                    if rc2 \<noteq> 0 \<or> strip size_out \<noteq> nat_text nbytes
                    then ((1, S ''SIZE_MISMATCH expected='' @ nat_text nbytes @ S '' got=''
                              @ (if strip size_out = [] then S ''rc='' @ int_text rc2 else strip size_out)), log2)
                    else ((0, out), log2)))"

section \<open>Preflight\<close>

definition parse_preflight :: "str \<Rightarrow> answers" where
  "parse_preflight out =
     fold (\<lambda>l d. case split_at 61 l of None \<Rightarrow> d | Some (k, v) \<Rightarrow> dput (strip k) (strip v) d) (split_lines out) []"

definition note_state :: "answers \<Rightarrow> node \<Rightarrow> node" where
  "note_state d n =
     n\<lparr>nd_own_ip := lookup_or d ''TS_IP'', nd_ts_joined := (lookup_or d ''TS_IP'' \<noteq> []),
       nd_ts_present := (dget d (S ''TS_PRESENT'') = Some (S ''1'')), nd_existing := (dget d (S ''EXISTING'') = Some (S ''1''))\<rparr>"

text \<open>\<open>preflight\<close> with the attempts that are left; \<open>None\<close> is success, else the detail.\<close>
fun preflight :: "nat \<Rightarrow> remote \<Rightarrow> str \<Rightarrow> node \<Rightarrow> remote_log \<Rightarrow> str option \<times> node \<times> remote_log" where
  "preflight 0 rem prev n log = (Some (S ''unreachable (last output: '' @ take 200 (strip prev) @ S '')''), n, log)"
| "preflight (Suc k) rem prev n log =
     (case run_remote rem (nd_name n) ProbeNode log of
        ((rc, out), log1) \<Rightarrow>
          (let latest = (if out = [] then S ''(rc='' @ int_text rc @ S '')'' else out); d = parse_preflight out
           in if rc \<noteq> 0 \<or> dget d (S ''SUDO_OK'') = None then preflight k rem latest n log1
              else if dget d (S ''SUDO_OK'') \<noteq> Some (S ''1'')
              then (Some (S ''passwordless sudo not available for the ssh user''), note_state d n, log1)
              else (None, note_state d n, log1)))"

section \<open>Addresses\<close>

text \<open>\<open>resolve_ips\<close>: \<open>pc\<close> is the PC's view of the tailnet and \<open>asked\<close> what the person enters for a node.\<close>
definition own_address :: "answers \<Rightarrow> (str \<Rightarrow> str) \<Rightarrow> node \<Rightarrow> node" where
  "own_address pc asked n =
     (let seen = (case dget pc (nd_name n) of None \<Rightarrow> [] | Some ip \<Rightarrow> ip)
      in n\<lparr>nd_own_ip := first_text [nd_own_ip n, seen, asked (nd_name n)]\<rparr>)"

definition resolve_ips :: "answers \<Rightarrow> (str \<Rightarrow> str) \<Rightarrow> shared \<Rightarrow> node list \<Rightarrow> node list" where
  "resolve_ips pc asked sh nodes =
     (if sh_type sh \<noteq> S ''distributed'' then nodes
      else case map (own_address pc asked) nodes of
             [a, b] \<Rightarrow> [a\<lparr>nd_peer_ip := nd_own_ip b\<rparr>, b\<lparr>nd_peer_ip := nd_own_ip a\<rparr>]
           | ns \<Rightarrow> ns)"

section \<open>A node\<close>

definition failed_with :: "node_error \<Rightarrow> node \<Rightarrow> node" where
  "failed_with e n = n\<lparr>nd_errors := nd_errors n @ [e]\<rparr>"

text \<open>The end of \<open>install_node\<close>, after the installer has returned 0 or 2: \<open>readable\<close> says
  that the encoded result is the JSON object the installer writes.\<close>
definition finish_node :: "remote \<Rightarrow> (str \<Rightarrow> bool) \<Rightarrow> int \<Rightarrow> node \<Rightarrow> remote_log \<Rightarrow> node \<times> remote_log" where
  "finish_node rem readable rc n log =
     (case run_remote rem (nd_name n) FetchResult log of
        ((rcf, out), log1) \<Rightarrow>
          (let n1 = (if rcf = 0 \<and> strip out \<noteq> []
                     then (if readable (strip out) then n else failed_with ResultUnreadable n)
                     else failed_with ResultMissing n);
               log2 = snd (run_remote rem (nd_name n) CleanStage log1);
               n2 = n1\<lparr>nd_ok := (rc = 0)\<rparr>
           in (if rc = 2 then failed_with VerifyFailed n2 else n2, log2)))"

text \<open>\<open>install_node\<close>: whether the node counts as deployed.\<close>
definition install_node ::
    "remote \<Rightarrow> (str \<Rightarrow> nat) \<Rightarrow> (str \<Rightarrow> bool) \<Rightarrow> str \<Rightarrow> shared \<Rightarrow> node \<Rightarrow> remote_log \<Rightarrow> bool \<times> node \<times> remote_log" where
  "install_node rem nbytes readable installer sh n log =
     (let answers = answers_env_text (build_answers n sh)
      in case run_remote rem (nd_name n) MakeStage log of
           ((rc1, _), log1) \<Rightarrow>
             if rc1 \<noteq> 0 then (False, failed_with StageFailed n, log1)
             else
               (case upload_remote rem (nd_name n) installer (nbytes installer) False log1 of
                  ((_, out2), log2) \<Rightarrow>
                    if \<not> occurs_in (S ''UPLOAD_OK'') out2
                    then (False, failed_with InstallerNotUploaded n, log2)
                    else
                      (case run_remote rem (nd_name n) Compile log2 of
                         ((_, out3), log3) \<Rightarrow>
                           if \<not> occurs_in (S ''BOOTSTRAP_OK'') out3
                           then (False, failed_with NotCompiled n, log3)
                           else
                             (case upload_remote rem (nd_name n) answers (nbytes answers) True log3 of
                                ((_, out4), log4) \<Rightarrow>
                                  if \<not> occurs_in (S ''UPLOAD_OK'') out4
                                  then (False, failed_with AnswersNotUploaded n, log4)
                                  else
                                    (case run_remote rem (nd_name n) RunInstaller log4 of
                                       ((rc, _), log5) \<Rightarrow>
                                         if rc \<notin> {0, 2} then (False, failed_with (InstallerExit rc) n, log5)
                                         else (case finish_node rem readable rc n log5 of
                                                 (n1, log6) \<Rightarrow> (True, n1, log6)))))))"

section \<open>The whole deployment\<close>

definition AGENT_PORT :: nat where "AGENT_PORT = 8090"
definition USERBOT_PORT :: nat where "USERBOT_PORT = 8088"

definition endpoint :: "str \<Rightarrow> nat \<Rightarrow> string \<Rightarrow> str" where
  "endpoint ip number path = S ''http://'' @ ip @ 58 # nat_text number @ S path"

text \<open>A request from a node; a problem when it fails.\<close>
definition check_from :: "remote \<Rightarrow> str \<Rightarrow> remote_command \<Rightarrow> str \<Rightarrow> remote_log \<Rightarrow> str list \<times> remote_log" where
  "check_from rem host cmd problem log =
     (case run_remote rem host cmd log of ((rc, _), log1) \<Rightarrow> (if rc = 0 then [] else [problem], log1))"

text \<open>\<open>cross_check\<close>; \<open>None\<close> is the \<open>StopIteration\<close> of two nodes without the two roles.\<close>
definition cross_check :: "remote \<Rightarrow> shared \<Rightarrow> node list \<Rightarrow> remote_log \<Rightarrow> (str list \<times> remote_log) option" where
  "cross_check rem sh nodes log =
     (if sh_type sh = S ''single''
      then (let n = nd_name (hd nodes); local = S ''127.0.0.1'';
                (p1, log1) = check_from rem n (CurlUserbot (endpoint local USERBOT_PORT ''/health'')) (n @ S '': userbot /health unreachable'') log;
                (p2, log2) = check_from rem n (CurlAgent (sh_agent_token sh) (endpoint local AGENT_PORT ''/v1/health'')) (n @ S '': agent /v1/health unreachable'') log1
            in Some (p1 @ p2, log2))
      else (case (List.find (\<lambda>n. nd_role n = S ''gsm'') nodes, List.find (\<lambda>n. nd_role n = S ''telegram'') nodes) of
              (Some gsm, Some tg) \<Rightarrow>
                (let (p1, log1) = check_from rem (nd_name tg) (CurlAgent (sh_agent_token sh) (endpoint (nd_own_ip gsm) AGENT_PORT ''/v1/health''))
                       (S ''GSM agent /v1/health unreachable from '' @ nd_name tg) log;
                     (p2, log2) = check_from rem (nd_name gsm) (CurlUserbot (endpoint (nd_own_ip tg) USERBOT_PORT ''/health''))
                       (S ''TG node /health unreachable from '' @ nd_name gsm) log1
                 in Some (p1 @ p2, log2))
            | _ \<Rightarrow> None))"

text \<open>The preflight of a node; \<open>wipes\<close> says for which existing installations the person chooses to wipe.\<close>
definition prepare_node :: "remote \<Rightarrow> (str \<Rightarrow> bool) \<Rightarrow> node \<Rightarrow> remote_log \<Rightarrow> node \<times> remote_log" where
  "prepare_node rem wipes n log =
     (case preflight 2 rem [] n log of
        (Some detail, n1, log1) \<Rightarrow> (failed_with (PreflightFailed detail) n1, log1)
      | (None, n1, log1) \<Rightarrow>
          (if nd_existing n1 then n1\<lparr>nd_action := (if wipes (nd_name n1) then S ''wipe'' else S ''update'')\<rparr> else n1, log1))"

fun each_node :: "(node \<Rightarrow> remote_log \<Rightarrow> node \<times> remote_log) \<Rightarrow> node list \<Rightarrow> remote_log \<Rightarrow> node list \<times> remote_log" where
  "each_node f [] log = ([], log)"
| "each_node f (n # ns) log =
     (case f n log of (n1, log1) \<Rightarrow> (case each_node f ns log1 of (ns1, log2) \<Rightarrow> (n1 # ns1, log2)))"

definition blocked :: "shared \<Rightarrow> node \<Rightarrow> bool" where
  "blocked sh n \<longleftrightarrow> nd_errors n \<noteq> [] \<or> sh_type sh = S ''distributed'' \<and> nd_own_ip n = []"

text \<open>The installations, with the nodes that were deployed.\<close>
fun install_all ::
    "(node \<Rightarrow> remote_log \<Rightarrow> bool \<times> node \<times> remote_log) \<Rightarrow> shared \<Rightarrow> node list \<Rightarrow> remote_log \<Rightarrow> (node \<times> bool) list \<times> remote_log" where
  "install_all f sh [] log = ([], log)"
| "install_all f sh (n # ns) log =
     (case (if blocked sh n then (False, n, log) else f n log) of
        (done_, n1, log1) \<Rightarrow> (case install_all f sh ns log1 of (rest, log2) \<Rightarrow> ((n1, done_) # rest, log2)))"

text \<open>\<open>orchestrate\<close> after the questions, not a dry run: the exit status and the nodes; \<open>None\<close> is an exception.\<close>
definition orchestrate ::
    "remote \<Rightarrow> (str \<Rightarrow> nat) \<Rightarrow> (str \<Rightarrow> bool) \<Rightarrow> str \<Rightarrow> answers \<Rightarrow> (str \<Rightarrow> str) \<Rightarrow> (str \<Rightarrow> bool) \<Rightarrow> shared \<Rightarrow> node list
     \<Rightarrow> (int \<times> node list \<times> remote_log) option" where
  "orchestrate rem nbytes readable installer pc asked wipes sh nodes =
     (case each_node (prepare_node rem wipes) nodes [] of
        (prepared, log1) \<Rightarrow>
          (case install_all (install_node rem nbytes readable installer sh) sh (resolve_ips pc asked sh prepared) log1 of
             (results, log2) \<Rightarrow>
               (let final = map fst results; deployed = map fst (filter snd results)
                in if final = [] then Some (0, [], log2)
                   else if length deployed = length final
                   then (case cross_check rem sh deployed log2 of
                           None \<Rightarrow> None
                         | Some (problems, log3) \<Rightarrow>
                             Some (if problems = [] \<and> list_all nd_ok final then 0 else 2, final, log3))
                   else Some (2, final, log2))))"

section \<open>Secrets of an earlier deployment\<close>

text \<open>\<open>load_shared_secrets\<close> on the value of the file, \<open>None\<close> when it cannot be read; a refusal exits with status 1.\<close>
definition load_shared_secrets :: "json option \<Rightarrow> answers option" where
  "load_shared_secrets content =
     (case content of
        Some (JObj d) \<Rightarrow>
          (let keys = [''agent_token'', ''bridge_secret'', ''http_secret''];
               value = (\<lambda>k. case dget d (S k) of Some (JStr v) \<Rightarrow> v | _ \<Rightarrow> [])
           in if \<exists>k \<in> set keys. value k = [] then None else Some (map (\<lambda>k. (S k, value k)) keys))
      | _ \<Rightarrow> None)"

section \<open>Questions\<close>

definition LOCAL_NAMES :: "str list" where
  "LOCAL_NAMES = [S ''local'', S ''localhost'']"

text \<open>\<open>q\<close> on the lines typed; their end is the end of the input.\<close>
fun ask_q :: "bool \<Rightarrow> str \<Rightarrow> str list \<Rightarrow> str \<times> str list" where
  "ask_q required dflt [] = (dflt, [])"
| "ask_q required dflt (l # ls) =
     (let v = strip l
      in if v \<noteq> [] then (v, ls) else if dflt \<noteq> [] then (dflt, ls) else if required then ask_q required dflt ls else ([], ls))"

definition new_node :: "str \<Rightarrow> str \<Rightarrow> node" where
  "new_node name user =
     \<lparr>nd_name = name, nd_user = user, nd_role = [], nd_id = [], nd_own_ip = [], nd_peer_ip = [], nd_action = [],
      nd_ts_present = False, nd_ts_joined = False, nd_existing = False, nd_ok = False, nd_errors = []\<rparr>"

text \<open>The names and users of the nodes; \<open>me\<close> is the user at the PC.\<close>
fun ask_nodes :: "str \<Rightarrow> nat \<Rightarrow> str list \<Rightarrow> node list \<times> str list" where
  "ask_nodes me 0 ls = ([], ls)"
| "ask_nodes me (Suc n) ls =
     (let (name, l1) = ask_q True [] ls;
          (user, l2) = (if name \<in> set LOCAL_NAMES then (me, l1) else ask_q True [] l1);
          (ns, l3) = ask_nodes me n l2
      in (new_node name user # ns, l3))"

text \<open>The ids of the nodes, with a default for each.\<close>
fun ask_ids :: "node list \<Rightarrow> string list \<Rightarrow> str list \<Rightarrow> node list \<times> str list" where
  "ask_ids (n # ns) (d # ds) ls =
     (let (i, l1) = ask_q False (S d) ls; (ns1, l2) = ask_ids ns ds l1 in (n\<lparr>nd_id := i\<rparr> # ns1, l2))"
| "ask_ids ns _ ls = (ns, ls)"

definition with_roles :: "bool \<Rightarrow> node list \<Rightarrow> node list" where
  "with_roles second ns =
     (case ns of
        [a, b] \<Rightarrow> [a\<lparr>nd_role := (if second then S ''telegram'' else S ''gsm'')\<rparr>,
                   b\<lparr>nd_role := (if second then S ''gsm'' else S ''telegram'')\<rparr>]
      | _ \<Rightarrow> ns)"

definition ask_topology :: "str \<Rightarrow> str list \<Rightarrow> str \<times> node list \<times> str list" where
  "ask_topology me ls =
     (let (t, l1) = ask_q False (S ''s'') ls
      in if startswith (lower t) (S ''t'')
         then (let (ns, l2) = ask_nodes me 2 l1; (which, l3) = ask_q False (S ''1'') l2;
                   (ns2, l4) = ask_ids (with_roles (strip which = S ''2'') ns) [''gsm-1'', ''tg-1''] l3
               in (S ''distributed'', ns2, l4))
         else (let (ns, l2) = ask_nodes me 1 l1;
                   (ns2, l3) = ask_ids (map (\<lambda>n. n\<lparr>nd_role := S ''all-in-one''\<rparr>) ns) [''simbridge-1''] l2
               in (S ''single'', ns2, l3)))"

text \<open>Questions that keep the node's value when they are left empty.\<close>
fun ask_each :: "bool \<Rightarrow> nat \<Rightarrow> str list \<Rightarrow> str list \<times> str list" where
  "ask_each wanted 0 ls = ([], ls)"
| "ask_each wanted (Suc n) ls =
     (let (v, l1) = (if wanted then ask_q False [] ls else ([], ls)); (vs, l2) = ask_each wanted n l1 in (v # vs, l2))"

text \<open>\<open>gather_params\<close>\<close>
definition gather_params :: "str \<Rightarrow> str list \<Rightarrow> (node list \<times> shared) \<times> str list" where
  "gather_params me ls =
     (let (kind, nodes, l1) = ask_topology me ls;
          gsm = list_ex (\<lambda>n. nd_role n \<in> {S ''gsm'', S ''all-in-one''}) nodes;
          tg = list_ex (\<lambda>n. nd_role n \<in> {S ''telegram'', S ''all-in-one''}) nodes;
          (g, l2) = ask_each gsm 3 l1;
          (t, l3) = ask_each tg 3 l2;
          (acl, l4) = ask_q True [] l3;
          (tag, l5) = (if kind = S ''distributed'' then ask_q False [] l4 else ([], l4));
          (branch, l6) = ask_q False (S ''main'') l5
      in ((nodes,
           \<lparr>sh_type = kind, sh_branch = branch, sh_tg_api_id = t ! 0, sh_tg_api_hash = t ! 1, sh_tg_username = t ! 2,
            sh_acl_ids = acl, sh_ts_tag = tag, sh_sim_phone = g ! 0, sh_modem_model = g ! 1,
            sh_dongle_name = (if gsm then g ! 2 else S ''gsm''), sh_agent_token = [], sh_bridge_secret = [], sh_http_secret = []\<rparr>), l6))"

end
