(* ===== verification/InstallProps.thy ===== *)
theory InstallProps
  imports InstallFiles ModemProbeProps
begin

text \<open>
  Properties of the unattended installer: the modem profile it asks for, the access list, the file of secrets
  and what an update reads back.
\<close>

section \<open>The modem profile\<close>

lemma single_dashes_set: "set (single_dashes s) \<subseteq> set s"
  by (induction s rule: single_dashes.induct) auto

lemma strip_cp_set: "set (strip_cp c s) \<subseteq> set s"
  unfolding strip_cp_def by (metis set_dropWhileD set_rev subsetI)

lemma dropWhile_hd: "dropWhile P s \<noteq> [] \<Longrightarrow> \<not> P (hd (dropWhile P s))"
  using hd_dropWhile by blast

lemma strip_cp_edges: "strip_cp c s \<noteq> [] \<Longrightarrow> hd (strip_cp c s) \<noteq> c \<and> last (strip_cp c s) \<noteq> c"
proof -
  let ?r = "dropWhile (\<lambda>x. x = c) s"
  let ?b = "dropWhile (\<lambda>x. x = c) (rev ?r)"
  assume "strip_cp c s \<noteq> []"
  then have b: "?b \<noteq> []" by (simp add: strip_cp_def)
  have "rev ?r = takeWhile (\<lambda>x. x = c) (rev ?r) @ ?b" by simp
  then have "?r = rev ?b @ rev (takeWhile (\<lambda>x. x = c) (rev ?r))" by (metis rev_append rev_rev_ident)
  then have "hd ?r = hd (rev ?b)" and "?r \<noteq> []" using b by (metis hd_append2 rev_is_Nil_conv, force)
  moreover have "hd ?b \<noteq> c" using dropWhile_hd [OF b] .
  moreover have "last (rev ?b) = hd ?b" using b by (simp add: last_rev)
  ultimately show ?thesis using dropWhile_hd [of "\<lambda>x. x = c" s] by (simp add: strip_cp_def)
qed

lemma profile_name_form: "name_form (modem_profile_name s)"
proof -
  let ?m = "map (\<lambda>c. if slug_char c then c else 45) (lower (in_dongle_name s))"
  let ?b = "strip_cp 45 (single_dashes ?m)"
  have sub: "\<forall>c \<in> set ?b. slug_char c"
    using strip_cp_set [of 45 "single_dashes ?m"] single_dashes_set [of ?m] by (force simp: slug_char_def)
  show ?thesis
  proof (cases ?b)
    case Nil
    then show ?thesis by (simp add: modem_profile_name_def Let_def name_form_def S_def)
  next
    case (Cons c cs)
    moreover have "c \<noteq> 45" using strip_cp_edges [of 45 "single_dashes ?m"] Cons by simp
    ultimately show ?thesis
      using sub by (auto simp: modem_profile_name_def Let_def name_form_def slug_char_def list_all_iff)
  qed
qed

lemma lower_hex: "is_hex c \<Longrightarrow> is_hex (lower_cp c)"
  by (auto simp: is_hex_def lower_cp_def)

lemma lower_vid_pid: "vid_pid_form s \<Longrightarrow> vid_pid_form (lower s)"
  by (simp add: vid_pid_form_def lower_def take_map drop_map list_all_iff lower_hex) (simp add: lower_cp_def)

lemma usb_id_form: "usb_id_of w s = Some t \<Longrightarrow> vid_pid_form t \<and> (\<exists>a b. s = a @ t @ b)"
proof (induction w s rule: usb_id_of.induct)
  case (2 w c cs)
  show ?case
  proof (cases "\<not> w \<and> vid_pid_form (take 9 (c # cs)) \<and> boundary (drop 9 (c # cs))")
    case True
    with "2.prems" have "t = take 9 (c # cs)" by (simp split: if_splits)
    moreover have "c # cs = [] @ take 9 (c # cs) @ drop 9 (c # cs)" by simp
    ultimately show ?thesis using True by metis
  next
    case False
    with "2.prems" have "usb_id_of (is_word c) cs = Some t" by (metis usb_id_of.simps(2))
    with "2.IH" [OF False] obtain a b where "vid_pid_form t" "cs = a @ t @ b" by blast
    then show ?thesis by (metis append_Cons)
  qed
qed simp

lemma init_vid_pid: "pa_vid_pid (init_modem_args s) = [] \<or> vid_pid_form (pa_vid_pid (init_modem_args s))"
  by (auto simp: init_modem_args_def split: option.split dest: usb_id_form lower_vid_pid)

definition init_udev :: "profile_args \<Rightarrow> json list" where
  "init_udev a = (if pa_vid_pid a = [] then [] else map udev_entry (init_interfaces a))"

definition init_remark :: str where
  "init_remark = S ''created by install.py (fresh install) '' @ [8212] @ S '' refine with probe/capture after the first live test''"

abbreviation init_profile :: "inst \<Rightarrow> profile" where
  "init_profile s \<equiv> args_profile (init_modem_args s) (init_udev (init_modem_args s)) init_remark"

lemma udev_entry_valid: "two_digits x \<Longrightarrow> entry_issues py_repr i (udev_entry x) = []"
  by (simp add: entry_issues_def udev_entry_def shown_field_def text_field_def S_def)

lemma init_udev_valid: "\<forall>e \<in> set (init_udev a). \<forall>i. entry_issues py_repr i e = []"
  by (auto simp: init_udev_def init_interfaces_def udev_entry_valid)

lemma init_fields:
  "pa_name (init_modem_args s) = modem_profile_name s" "pa_model (init_modem_args s) = in_modem_model s"
  "pa_dongle (init_modem_args s) = in_dongle_name s" "pa_audio (init_modem_args s) = []" "pa_data (init_modem_args s) = []"
  "pa_force (init_modem_args s) = False" "pa_interfaces (init_modem_args s) = []"
  by (simp_all add: init_modem_args_def)

lemma init_profile_get:
  "dget (init_profile s) (S ''name'') = Some (JStr (modem_profile_name s))"
  "dget (init_profile s) (S ''modem_model'') = Some (JStr (in_modem_model s))"
  "dget (init_profile s) (S ''vid_pid'') = Some (JStr (pa_vid_pid (init_modem_args s)))"
  "dget (init_profile s) (S ''dongle_name'') = Some (JStr (or_text (in_dongle_name s) ''gsm''))"
  "dget (init_profile s) (S ''audio_device'') = Some (JStr (S ''/dev/dongle_if1''))"
  "dget (init_profile s) (S ''data_device'') = Some (JStr (S ''/dev/dongle_if2''))"
  "dget (init_profile s) (S ''udev'') = Some (JList (init_udev (init_modem_args s)))"
  "dget (init_profile s) (S ''verified'') = Some (JBool False)" "dget (init_profile s) (S ''alsadev'') = None"
  by (simp_all add: args_profile_def init_fields or_text_def)

lemma device_not_blank: "strip (S ''/dev/dongle_if1'') \<noteq> []" "strip (S ''/dev/dongle_if2'') \<noteq> []" "strip (S ''gsm'') \<noteq> []"
  by (simp_all add: strip_no_space S_def is_space_def space_points_def)

lemma name_not_blank: "name_form n \<Longrightarrow> strip n \<noteq> [] \<and> n \<noteq> []"
proof -
  assume n: "name_form n"
  then obtain c cs where c: "n = c # cs" "97 \<le> c \<and> c \<le> 122 \<or> 48 \<le> c \<and> c \<le> 57"
    by (auto simp: name_form_def split: list.splits)
  then have "\<not> is_space c" by (auto simp: is_space_def space_points_def)
  then show ?thesis using c(1) by (simp add: strip_def lstrip_def rstrip_Cons)
qed

lemma init_profile_valid:
  assumes "strip (in_modem_model s) \<noteq> []" and "in_dongle_name s = [] \<or> strip (in_dongle_name s) \<noteq> []"
  shows "validate_profile py_repr (init_profile s) = []"
proof -
  let ?p = "init_profile s"
  have n: "name_form (modem_profile_name s)" by (rule profile_name_form)
  have "strip (or_text (in_dongle_name s) ''gsm'') \<noteq> []" using assms(2) device_not_blank(3) by (auto simp: or_text_def)
  then have "concat (map (\<lambda>k. if strip (text_field ?p k) = [] then [RequiredText (S k)] else [])
      [''name'', ''modem_model'', ''dongle_name'', ''data_device'']) = []"
    using assms(1) name_not_blank [OF n] device_not_blank(2) by (simp add: text_field_def init_profile_get)
  moreover have "voice_issues ?p = []"
    using device_not_blank(1) by (simp add: voice_issues_def text_field_def init_profile_get)
  moreover have "has_value ?p ''vid_pid'' \<Longrightarrow> vid_pid_form (shown_field py_repr ?p ''vid_pid'')"
    using init_vid_pid [of s] by (auto simp: has_value_def shown_field_def init_profile_get)
  moreover have "concat (map (\<lambda>(i, e). entry_issues py_repr i e) (List.enumerate 0 (init_udev (init_modem_args s)))) = []"
    using init_udev_valid [of "init_modem_args s" py_repr] by (auto simp: enumerate_eq_zip dest: set_zip_rightD)
  ultimately show ?thesis
    using n by (simp add: validate_profile_def text_field_def init_profile_get)
qed

lemma vid_pid_parts: "vid_pid_form v \<Longrightarrow> split_all 58 v = [take 4 v, drop 5 v]"
proof -
  assume v: "vid_pid_form v"
  then have len: "length v = 9" and mid: "v ! 4 = 58" by (simp_all add: vid_pid_form_def)
  have parts: "v = take 4 v @ 58 # drop 5 v"
    using id_take_nth_drop [of 4 v] len mid by simp
  have "58 \<notin> set (take 4 v)" "58 \<notin> set (drop 5 v)" using v by (auto simp: vid_pid_form_def is_hex_def list_all_iff)
  then have "split_all 58 (take 4 v @ 58 # drop 5 v) = [take 4 v, drop 5 v]"
    by (subst split_all_front [OF split_at_append]) (simp_all add: split_all_whole)
  then show ?thesis using parts by simp
qed

lemma init_interfaces_default: "pa_interfaces a = [] \<Longrightarrow> init_interfaces a = [S ''00'', S ''01'', S ''02'']"
proof -
  have "split_all 44 (S ''00,01,02'') = [S ''00'', S ''01'', S ''02'']" by (simp add: S_def)
  moreover have "strip (S ''00'') = S ''00''" "strip (S ''01'') = S ''01''" "strip (S ''02'') = S ''02''"
    by (simp_all add: strip_no_space S_def is_space_def space_points_def)
  moreover have "two_digits (S ''00'')" "two_digits (S ''01'')" "two_digits (S ''02'')" by (simp_all add: two_digits_def S_def)
  ultimately show "pa_interfaces a = [] \<Longrightarrow> init_interfaces a = [S ''00'', S ''01'', S ''02'']"
    by (simp add: init_interfaces_def or_text_def)
qed

lemma init_rules:
  assumes "has_value (init_profile s) ''vid_pid''"
  shows "is_ok (render_udev_rules py_repr (init_profile s))"
proof -
  let ?v = "pa_vid_pid (init_modem_args s)"
  have ne: "?v \<noteq> []" using assms by (simp add: has_value_def init_profile_get)
  then have form: "vid_pid_form ?v" using init_vid_pid [of s] by blast
  then have "vid_and_pid (init_profile s) = (take 4 ?v, drop 5 ?v)"
    using assms by (simp add: vid_and_pid_def text_field_def init_profile_get vid_pid_parts)
  moreover have "drop 5 ?v \<noteq> []" using form by (simp add: vid_pid_form_def)
  moreover have "has_value (init_profile s) ''udev''"
    using ne by (simp add: has_value_def init_profile_get)
      (simp add: init_udev_def init_interfaces_default init_fields)
  ultimately show ?thesis by (simp add: render_udev_rules_def Let_def)
qed

lemma init_artifacts: "\<exists>d1. apply_artifacts py_repr sh (init_profile s) d = (Inr (), d1)"
proof (cases "has_value (init_profile s) ''vid_pid'' \<and> has_value (init_profile s) ''udev''")
  case True
  then have "is_ok (render_udev_rules py_repr (init_profile s))" by (simp add: init_rules)
  then obtain r where "render_udev_rules py_repr (init_profile s) = Inr r" by (auto simp: is_ok_iff)
  then show ?thesis using True by (simp add: apply_artifacts_def Let_def)
next
  case False
  show ?thesis unfolding apply_artifacts_def Let_def if_not_P [OF False] by blast
qed

lemma init_writes:
  assumes "strip (in_modem_model s) \<noteq> []" and "in_dongle_name s = [] \<or> strip (in_dongle_name s) \<noteq> []"
  shows "write_profile py_repr (init_profile s) d =
    (Inr (), d\<lparr>dk_profiles := dput (modem_profile_name s) (render_profile py_repr (init_profile s)) (dk_profiles d)\<rparr>)"
  using init_profile_valid [OF assms, of py_repr] profile_name_form [of s]
  by (simp add: write_profile_def profile_path_def text_field_def init_profile_get)

text \<open>Whatever name the channel of the modem has, the profile the installer asks for has a name the profile manager
  accepts; when a modem model is given, the profile is created and put in force.\<close>
theorem installer_profile_created:
  assumes "strip (in_modem_model s) \<noteq> []" and "in_dongle_name s = [] \<or> strip (in_dongle_name s) \<noteq> []"
    and "dget (dk_profiles d) (modem_profile_name s) = None"
  shows "\<exists>d'. cmd_init py_repr sh (init_modem_args s) d = (Inr 0, d') \<and> read_active d' = modem_profile_name s
    \<and> dget (dk_profiles d') (modem_profile_name s) = Some (render_profile py_repr (init_profile s))"
proof -
  let ?n = "modem_profile_name s" and ?p = "init_profile s"
  let ?w = "d\<lparr>dk_profiles := dput ?n (render_profile py_repr ?p) (dk_profiles d)\<rparr>"
  have "may_create ?n False d = Inr ()" using assms(3) profile_name_form [of s] by (simp add: may_create_def profile_path_def)
  moreover obtain d1 where d1: "apply_artifacts py_repr sh ?p (write_active ?n ?w) = (Inr (), d1)" using init_artifacts by blast
  ultimately have "cmd_init py_repr sh (init_modem_args s) d = (Inr 0, d1)"
    using init_writes [OF assms(1,2), of py_repr d]
    by (simp add: cmd_init_def Let_def init_fields init_udev_def init_remark_def)
  moreover have "dk_profiles d1 = dk_profiles ?w" "dk_file d1 ActivePointer = Some (?n @ [10])"
    using apply_frame [OF d1] by (simp_all add: write_active_def write_file_def)
  moreover have "read_active d1 = ?n" using calculation(3) name_form_strip [OF profile_name_form] by (simp add: read_active_def)
  ultimately show ?thesis by auto
qed

definition sample_gsm :: inst where
  "sample_gsm = new_inst\<lparr>in_modem_model := S ''Huawei E173 12D1:1436'', in_dongle_name := S ''-GSM_1-''\<rparr>"

theorem installer_profile_created_witness:
  "strip (in_modem_model sample_gsm) \<noteq> [] \<and> modem_profile_name sample_gsm = S ''gsm-1''
   \<and> (\<exists>d'. cmd_init (\<lambda>_. []) sample_shell (init_modem_args sample_gsm)
          \<lparr>dk_profiles = [], dk_file = (\<lambda>_. None), dk_backups = [], dk_runs = []\<rparr> = (Inr 0, d')
        \<and> read_active d' = S ''gsm-1'')"
proof -
  have model: "strip (in_modem_model sample_gsm) \<noteq> []" and dongle: "strip (in_dongle_name sample_gsm) \<noteq> []"
    by (simp_all add: sample_gsm_def new_inst_def strip_no_space S_def is_space_def space_points_def)
  have n: "modem_profile_name sample_gsm = S ''gsm-1''"
    by (simp add: sample_gsm_def new_inst_def modem_profile_name_def lower_def lower_cp_def slug_char_def S_def strip_cp_def)
  show ?thesis
    using installer_profile_created [OF model, where d = "\<lparr>dk_profiles = [], dk_file = (\<lambda>_. None), dk_backups = [], dk_runs = []\<rparr>"
        and py_repr = "\<lambda>_. []" and sh = sample_shell] dongle model n by auto
qed

section \<open>The access list\<close>

lemma split_ws_blank: "is_space c \<Longrightarrow> split_ws (c # s) = split_ws s"
  by (subst (1 2) split_ws.simps) (simp add: lstrip_def)

lemma split_ws_word:
  assumes "w \<noteq> []" and "\<forall>c \<in> set w. \<not> is_space c" and "r = [] \<or> is_space (hd r)"
  shows "split_ws (w @ r) = w # split_ws r"
proof -
  have "lstrip (w @ r) = w @ r" using assms(1,2) by (cases w) (simp_all add: lstrip_def)
  moreover have "takeWhile (\<lambda>c. \<not> is_space c) (w @ r) = w" "dropWhile (\<lambda>c. \<not> is_space c) (w @ r) = r"
    using assms(2,3) by (cases r; simp)+
  ultimately show ?thesis using assms(1) by (subst split_ws.simps) simp
qed

lemma split_ws_tokens: "t \<in> set (split_ws s) \<Longrightarrow> t \<noteq> [] \<and> (\<forall>c \<in> set t. \<not> is_space c)"
proof (induction s rule: split_ws.induct)
  case (1 s)
  show ?case
  proof (cases "lstrip s = []")
    case True
    with "1.prems" show ?thesis unfolding split_ws.simps [of s] Let_def by simp
  next
    case False
    then have "\<not> is_space (hd (lstrip s))" unfolding lstrip_def by (rule dropWhile_hd)
    then have ne: "takeWhile (\<lambda>c. \<not> is_space c) (lstrip s) \<noteq> []" using False by (cases "lstrip s") simp_all
    consider "t = takeWhile (\<lambda>c. \<not> is_space c) (lstrip s)"
      | "t \<in> set (split_ws (dropWhile (\<lambda>c. \<not> is_space c) (lstrip s)))"
      using "1.prems" False unfolding split_ws.simps [of s] Let_def by auto
    then show ?thesis
    proof cases
      case 1
      with ne show ?thesis by (auto dest: set_takeWhileD)
    next
      case 2
      then show ?thesis by (rule "1.IH" [OF refl False])
    qed
  qed
qed

lemma right_words: "split_ws (S '' out_sms in_sms out_call in_call'') = [S ''out_sms'', S ''in_sms'', S ''out_call'', S ''in_call'']"
proof -
  have blank: "is_space 32" by (simp add: is_space_def space_points_def)
  have word: "split_ws (S w @ 32 # r) = S w # split_ws r" "split_ws (S w) = [S w]"
    if "w \<in> {''out_sms'', ''in_sms'', ''in_call'', ''out_call''}" for w r
  proof -
    have "\<forall>c \<in> set (S w). \<not> is_space c" using that by (auto simp: S_def is_space_def space_points_def)
    moreover have "S w \<noteq> []" using that by auto
    ultimately show "split_ws (S w @ 32 # r) = S w # split_ws r" "split_ws (S w) = [S w]"
      using split_ws_word [of "S w" "32 # r"] split_ws_word [of "S w" "[]"] blank
      by (simp_all add: split_ws_blank split_ws.simps [of "[]"] lstrip_def)
  qed
  have "S '' out_sms in_sms out_call in_call'' = 32 # S ''out_sms'' @ 32 # S ''in_sms'' @ 32 # S ''out_call'' @ 32 # S ''in_call''"
    by (simp add: S_def)
  then show ?thesis by (simp add: split_ws_blank blank word)
qed

lemma admin_line:
  assumes "t \<noteq> []" and "\<forall>c \<in> set t. \<not> is_space c"
  shows "acl_line (t @ S '' out_sms in_sms out_call in_call'') = map_option (\<lambda>uid. (uid, RIGHTS)) (parse_int t)"
proof -
  let ?r = "S '' out_sms in_sms out_call in_call''"
  have r: "?r \<noteq> []" "is_space (hd ?r)" "\<not> is_space (last ?r)" by (simp_all add: S_def is_space_def space_points_def)
  then have "strip (t @ ?r) = t @ ?r" using assms by (intro strip_no_space) simp_all
  moreover have "split_ws (t @ ?r) = t # [S ''out_sms'', S ''in_sms'', S ''out_call'', S ''in_call'']"
    using split_ws_word [OF assms, of ?r] r right_words by simp
  moreover have "parse_int t = None" if "hd t = 35"
  proof -
    have "strip t = t" using assms by (intro strip_no_space) simp_all
    moreover obtain c cs where "t = c # cs" using assms(1) by (cases t) auto
    moreover have "c = 35" using calculation(2) that by simp
    ultimately show ?thesis by (simp add: parse_int_def digit_value_def decimal_blocks_def)
  qed
  ultimately show ?thesis
    using assms(1) by (auto simp: acl_line_def RIGHTS_def split: option.split)
qed

lemma acl_file_entries:
  assumes "nf_acl fs = None"
  shows "acl_entries (the (nf_acl (write_acl s fs))) = map (\<lambda>uid. (uid, RIGHTS)) (List.map_filter parse_int (split_ws (in_acl_ids s)))"
proof -
  let ?head = "[S ''# SimBridge ACL: <user_id> <right1> <right2> ...'', S ''# Rights: in_sms in_call out_sms out_call'']"
  let ?ts = "split_ws (in_acl_ids s)" and ?r = "S '' out_sms in_sms out_call in_call''"
  have whole: "the (nf_acl (write_acl s fs)) = concat (map (\<lambda>l. l @ [10]) (?head @ map (\<lambda>t. t @ ?r) ?ts))"
    using assms by (simp add: write_acl_def join_lines_def)
  have word: "t \<noteq> []" "\<forall>c \<in> set t. \<not> is_space c" if "t \<in> set ?ts" for t using split_ws_tokens that by blast+
  have "10 \<notin> set ?r \<and> 13 \<notin> set ?r" by (simp add: S_def)
  moreover have "is_space 10" "is_space 13" by (simp_all add: is_space_def space_points_def)
  ultimately have "\<forall>l \<in> set (map (\<lambda>t. t @ ?r) ?ts). 10 \<notin> set l \<and> 13 \<notin> set l" using word by fastforce
  moreover have "\<forall>l \<in> set ?head. 10 \<notin> set l \<and> 13 \<notin> set l" by (simp add: S_def)
  ultimately have "text_lines (the (nf_acl (write_acl s fs))) = ?head @ map (\<lambda>t. t @ ?r) ?ts"
    unfolding whole by (intro text_lines_concat) auto
  moreover have "acl_line l = None" if "l \<in> set ?head" for l
    using that by (auto simp: acl_line_def S_def strip_no_space is_space_def space_points_def)
  then have none: "\<forall>l \<in> set ?head. acl_line l = None" by blast
  have "List.map_filter acl_line (map (\<lambda>t. t @ ?r) ts) = map (\<lambda>uid. (uid, RIGHTS)) (List.map_filter parse_int ts)"
    if "set ts \<subseteq> set ?ts" for ts
    using that admin_line word by (induction ts) (auto simp: List.map_filter_def split: option.split)
  from this [of ?ts] have "List.map_filter acl_line (?head @ map (\<lambda>t. t @ ?r) ?ts)
      = map (\<lambda>uid. (uid, RIGHTS)) (List.map_filter parse_int ?ts)"
    using none by (simp add: List.map_filter_def)
  ultimately show ?thesis by (simp only: acl_entries_def)
qed

lemma same_value_lookup: "dget (map (\<lambda>k. (k, v)) ks) k = (if k \<in> set ks then Some v else None)"
  by (induction ks) auto

lemma written_acl_check:
  assumes "nf_acl fs = None" and "m \<noteq> acl_mtime a"
  shows "fst (acl_check (Some (m, the (nf_acl (write_acl s fs)))) uid r a)
    \<longleftrightarrow> r \<in> set RIGHTS \<and> (\<exists>t \<in> set (split_ws (in_acl_ids s)). parse_int t = Some uid)"
proof -
  have "rev (acl_entries (the (nf_acl (write_acl s fs))))
      = map (\<lambda>uid. (uid, RIGHTS)) (rev (List.map_filter parse_int (split_ws (in_acl_ids s))))"
    by (simp add: acl_file_entries [OF assms(1)] rev_map)
  then show ?thesis
    using aclr.reload_serves_new [where s = a and m = m and x = "the (nf_acl (write_acl s fs))"] assms(2)
    by (simp add: acl_check_def Let_def acl_rights_iff acl_parse_get same_value_lookup set_map_filter_iff)
qed

lemma write_config_acl: "nf_acl (write_config s fs) = nf_acl (write_acl s fs)"
  by (simp add: write_config_def merge_env_def write_blacklist_def write_acl_def write_conf_def Let_def split: option.split)

section \<open>The file of secrets\<close>

text \<open>The keys are plain words.\<close>
definition key_word :: "str \<Rightarrow> bool" where
  "key_word k \<longleftrightarrow> k \<noteq> [] \<and> (\<forall>c \<in> set k. 97 \<le> c \<and> c \<le> 122 \<or> 65 \<le> c \<and> c \<le> 90 \<or> c = 95)"

lemma key_word_facts:
  assumes "key_word k"
  shows "\<forall>c \<in> set k. \<not> is_space c" "61 \<notin> set k" "35 \<notin> set k" "unbroken k" "strip k = k" "hd k \<noteq> 35" "k \<noteq> []"
proof -
  show ne: "k \<noteq> []" using assms by (simp add: key_word_def)
  show sp: "\<forall>c \<in> set k. \<not> is_space c" using assms by (fastforce simp: key_word_def is_space_def space_points_def)
  show "61 \<notin> set k" "35 \<notin> set k" "unbroken k" using assms by (fastforce simp: key_word_def unbroken_def is_break_def)+
  then show "hd k \<noteq> 35" using hd_in_set [OF ne] by metis
  show "strip k = k" using sp assms by (intro strip_no_space) (auto simp: key_word_def)
qed

lemma strip_key_tail: "key_word k \<Longrightarrow> strip (k @ r) = k @ rstrip r"
proof -
  assume k: "key_word k"
  then obtain x a where ax: "k = x @ [a]" by (cases k rule: rev_cases) (auto simp: key_word_def)
  then have "\<not> is_space a" using key_word_facts(1) [OF k] by simp
  then have "rstrip (k @ r) = k @ rstrip r" by (simp add: ax rstrip_def dropWhile_append3)
  moreover have "lstrip (k @ r) = k @ r" using k key_word_facts(1) [OF k] by (intro lstrip_no_space) (auto simp: key_word_def)
  ultimately show ?thesis by (simp add: strip_def)
qed

text \<open>The file as the services read it: the last entry of a key.\<close>
lemma fold_entries:
  "dget (fold (\<lambda>l d. case f l of None \<Rightarrow> d | Some (k, v) \<Rightarrow> dput k v d) ls d) k
     = (case dget (rev (List.map_filter f ls)) k of None \<Rightarrow> dget d k | Some v \<Rightarrow> Some v)"
  by (induction ls arbitrary: d) (auto simp: List.map_filter_def map_add_Some_iff split: option.splits)

lemma env_file_get:
  "dget (read_env_file c) k = dget (rev (List.map_filter env_line (split_lines (universal_newlines c)))) k"
  by (simp add: read_env_file_def fold_entries split: option.split)

lemma line_key_env: "line_key l = map_option fst (env_line l)"
  by (simp add: line_key_def env_line_def Let_def option.map_comp comp_def case_prod_unfold)

text \<open>Secrets the file can carry.\<close>
definition secrets_ok :: "answers \<Rightarrow> bool" where
  "secrets_ok w \<longleftrightarrow> distinct (dkeys w) \<and> (\<forall>(k, v) \<in> set w. key_word k \<and> unbroken v \<and> strip v = v)"

lemma secret_line_env: "key_word k \<Longrightarrow> strip v = v \<Longrightarrow> env_line (secret_line (k, v)) = Some (k, v)"
proof -
  assume k: "key_word k" and v: "strip v = v"
  have "\<not> is_space 61" by (simp add: is_space_def space_points_def)
  then have "rstrip (61 # v) = 61 # v" using v last_strip [of v] by (intro rstrip_no_space) auto
  then have "strip (secret_line (k, v)) = k @ 61 # v" by (simp add: secret_line_def strip_key_tail [OF k])
  moreover have "split_at 61 (k @ 61 # v) = Some (k, v)" by (intro split_at_append key_word_facts(2) [OF k])
  moreover note key_word_facts(6,7) [OF k]
  ultimately show ?thesis using key_word_facts(5) [OF k] v by (simp add: env_line_def)
qed

lemma secret_line_of: "secrets_ok w \<Longrightarrow> (k, v) \<in> set w \<Longrightarrow> env_line (secret_line (k, v)) = Some (k, v)"
  by (auto simp: secrets_ok_def intro!: secret_line_env)

definition new_value :: "answers \<Rightarrow> str \<Rightarrow> str \<Rightarrow> str" where
  "new_value w k v = (case dget w k of None \<Rightarrow> v | Some v' \<Rightarrow> v')"

lemma merged_line_env:
  "secrets_ok w \<Longrightarrow> env_line (merged_line w l) = map_option (\<lambda>(k, v). (k, new_value w k v)) (env_line l)"
  using secret_line_of map_of_SomeD by (auto simp: merged_line_def line_key_env new_value_def split: option.split) fastforce

lemma merged_lines_env:
  "secrets_ok w \<Longrightarrow> List.map_filter env_line (map (merged_line w) raw)
     = map (\<lambda>(k, v). (k, new_value w k v)) (List.map_filter env_line raw)"
  by (induction raw) (auto simp: List.map_filter_def merged_line_env split: option.split)

lemma lookup_new_value:
  "dget (rev (map (\<lambda>(k, v). (k, new_value w k v)) xs)) k = map_option (new_value w k) (dget (rev xs) k)"
  by (induction xs rule: rev_induct) auto

lemma added_env: "secrets_ok w \<Longrightarrow> set a \<subseteq> set w \<Longrightarrow> List.map_filter env_line (map secret_line a) = a"
  by (induction a) (auto simp: List.map_filter_def secret_line_of)

lemma file_without: "dget (rev (List.map_filter env_line raw)) k = None \<longleftrightarrow> Some k \<notin> set (map line_key raw)"
proof -
  have "k \<in> fst ` set (List.map_filter env_line raw) \<longleftrightarrow> (\<exists>l \<in> set raw. map_option fst (env_line l) = Some k)"
    by (simp add: image_iff Bex_def set_map_filter_iff) (metis fst_conv prod.collapse)
  also have "\<dots> \<longleftrightarrow> Some k \<in> set (map line_key raw)" by (auto simp: line_key_env image_iff eq_commute)
  finally show ?thesis by (simp add: map_of_eq_None_iff)
qed

lemma split_lines_unbroken: "l \<in> set (split_lines s) \<Longrightarrow> unbroken l"
  by (auto simp: split_lines_def chomp_def unbroken_def dest: set_takeWhileD)

definition env_lines :: "node_files \<Rightarrow> str list" where
  "env_lines fs = (case nf_env fs of None \<Rightarrow> [] | Some c \<Rightarrow> split_lines (universal_newlines c))"

lemma merge_lines_unbroken:
  assumes "secrets_ok w" and "\<forall>l \<in> set raw. unbroken l" and "l \<in> set (merge_lines w raw)"
  shows "unbroken l"
proof -
  have s: "unbroken (secret_line (k, v))" if "(k, v) \<in> set w" for k v
    using that assms(1) key_word_facts(4) by (auto simp: secrets_ok_def secret_line_def is_break_def)
  then have m: "unbroken (merged_line w x)" if "unbroken x" for x
    using that map_of_SomeD by (fastforce simp: merged_line_def split: option.split)
  show ?thesis
    using assms(2,3) s m by (auto simp: merge_lines_def Let_def unbroken_lit is_break_def split: if_splits)
qed

lemma merged_file_lines:
  assumes "secrets_ok (wanted_secrets s)"
  shows "env_lines (merge_env s fs) = merge_lines (wanted_secrets s) (env_lines fs)"
proof -
  let ?ls = "merge_lines (wanted_secrets s) (env_lines fs)"
  have "\<forall>l \<in> set (env_lines fs). unbroken l" using split_lines_unbroken by (auto simp: env_lines_def split: option.splits)
  then have u: "\<forall>l \<in> set ?ls. unbroken l" using merge_lines_unbroken [OF assms] by blast
  then have "13 \<notin> set (join_lines ?ls)" using unbroken_cr by (auto simp: join_lines_def)
  then have "universal_newlines (join_lines ?ls) = join_lines ?ls" by (rule universal_newlines_id)
  then have "split_lines (universal_newlines (join_lines ?ls)) = ?ls" using split_join_lines [OF u] by simp
  moreover have "nf_env (merge_env s fs) = Some (join_lines ?ls)" by (simp add: merge_env_def env_lines_def cong: option.case_cong)
  ultimately show ?thesis by (simp only: env_lines_def option.case)
qed

lemma blank_env: "env_line [] = None"
  by (simp add: env_line_def)

lemma header_env: "env_line (S ''# SimBridge secrets '' @ [8212] @ S '' NEVER commit (Rule 5)'') = None"
  by (simp add: env_line_def S_def strip_no_space is_space_def space_points_def)

text \<open>The entries of the merged lines.\<close>
lemma merged_entries:
  assumes "secrets_ok w"
  defines "added \<equiv> \<lambda>raw. filter (\<lambda>kv. Some (fst kv) \<notin> set (map line_key raw)) w"
  shows "List.map_filter env_line (merge_lines w raw)
    = map (\<lambda>(k, v). (k, new_value w k v)) (List.map_filter env_line raw) @ added raw"
proof (cases "raw = []")
  case True
  then have "List.map_filter env_line (merge_lines w raw) = List.map_filter env_line (map secret_line w)"
    by (simp add: merge_lines_def List.map_filter_def blank_env header_env [simplified])
  also have "\<dots> = w" by (rule added_env [OF assms(1) subset_refl])
  finally show ?thesis using True by (simp add: added_def List.map_filter_def)
next
  case False
  have app: "List.map_filter env_line (a @ b) = List.map_filter env_line a @ List.map_filter env_line b" for a b
    by (simp add: List.map_filter_def)
  have "List.map_filter env_line (if P then [[]] else []) = []" for P by (simp add: List.map_filter_def blank_env)
  moreover have "List.map_filter env_line (map secret_line (added raw)) = added raw"
    by (rule added_env [OF assms(1)]) (auto simp: added_def)
  ultimately show ?thesis
    using False merged_lines_env [OF assms(1)] by (simp only: merge_lines_def if_False Let_def app added_def) simp
qed

lemma dget_rev: "distinct (dkeys xs) \<Longrightarrow> dget (rev xs) k = dget xs k"
  by (subst map_of_inject_set [THEN iffD2]) (simp_all add: rev_map [symmetric])

lemma merged_get:
  assumes "secrets_ok w"
  shows "dget (rev (List.map_filter env_line (merge_lines w raw))) k
    = (case dget w k of Some v \<Rightarrow> Some v | None \<Rightarrow> dget (rev (List.map_filter env_line raw)) k)"
proof -
  let ?a = "filter (\<lambda>kv. Some (fst kv) \<notin> set (map line_key raw)) w"
  have d: "distinct (dkeys w)" using assms by (simp add: secrets_ok_def)
  then have "dget (rev ?a) k = dget ?a k" by (intro dget_rev distinct_map_filter d)
  also have "\<dots> = (case dget w k of None \<Rightarrow> None | Some v \<Rightarrow> if Some k \<notin> set (map line_key raw) then Some v else None)"
    using d by (subst dget_filter) (auto simp: dict_wf_def split: option.split)
  finally show ?thesis
    using file_without [of raw k] lookup_new_value [of w "List.map_filter env_line raw" k]
    by (auto simp: merged_entries [OF assms] new_value_def map_add_def split: option.split)
qed

lemma wanted_secrets_keys: "distinct (dkeys (wanted_secrets s)) \<and> (\<forall>k \<in> set (dkeys (wanted_secrets s)). key_word k)"
  by (auto simp: wanted_secrets_def key_word_def S_def)

lemma written_line_key: "secrets_ok w \<Longrightarrow> (k, v) \<in> set w \<Longrightarrow> merged_line w (secret_line (k, v)) = secret_line (k, v)"
  using secret_line_of [of w k v] by (simp add: merged_line_def line_key_env secrets_ok_def)

lemma merged_line_idem: "secrets_ok w \<Longrightarrow> merged_line w (merged_line w l) = merged_line w l"
proof (cases "\<exists>k v. line_key l = Some k \<and> dget w k = Some v")
  case True
  moreover assume w: "secrets_ok w"
  ultimately obtain k v where kv: "line_key l = Some k" "dget w k = Some v" by blast
  then have "merged_line w l = secret_line (k, v)" by (simp add: merged_line_def)
  then show ?thesis using written_line_key [OF w map_of_SomeD [OF kv(2)]] by simp
next
  case False
  then have "merged_line w l = l" by (auto simp: merged_line_def split: option.split)
  then show ?thesis by simp
qed

text \<open>Every wanted secret has a line afterwards.\<close>
lemma merged_covers: "secrets_ok w \<Longrightarrow> (k, v) \<in> set w \<Longrightarrow> Some k \<in> set (map line_key (merge_lines w raw))"
  using file_without [of "merge_lines w raw" k] merged_get [of w raw k] by (auto simp: secrets_ok_def)

lemma merge_idem: "secrets_ok w \<Longrightarrow> merge_lines w (merge_lines w raw) = merge_lines w raw"
proof -
  assume w: "secrets_ok w"
  let ?m = "merge_lines w raw"
  have fixed: "merged_line w l = l" if "l \<in> set ?m" for l
  proof -
    have new: "merged_line w (secret_line kv) = secret_line kv" if "kv \<in> set w" for kv
      using written_line_key [OF w, of "fst kv" "snd kv"] that by simp
    have "merged_line w [] = []" by (simp add: merged_line_def line_key_env blank_env)
    moreover have "merged_line w h = h" if "env_line h = None" for h
      using that by (simp add: merged_line_def line_key_env)
    note this [OF header_env]
    ultimately show ?thesis
      using that new merged_line_idem [OF w] by (auto simp: merge_lines_def Let_def split: if_splits)
  qed
  have "filter (\<lambda>kv. Some (fst kv) \<notin> set (map line_key ?m)) w = []"
    using merged_covers [OF w] by (force simp: filter_empty_conv)
  moreover have "?m \<noteq> []" by (auto simp: merge_lines_def Let_def)
  moreover have "map (merged_line w) ?m = ?m" using fixed by (rule map_idI)
  ultimately show ?thesis by (simp add: merge_lines_def [of w ?m] Let_def)
qed

definition stored_secrets :: "node_files \<Rightarrow> answers" where
  "stored_secrets fs = (case nf_env fs of None \<Rightarrow> [] | Some c \<Rightarrow> read_env_file c)"

lemma stored_secrets_get: "dget (stored_secrets fs) k = dget (rev (List.map_filter env_line (env_lines fs))) k"
  by (simp add: stored_secrets_def env_lines_def env_file_get List.map_filter_def split: option.split)

lemma merged_secrets:
  assumes "\<forall>v \<in> set (dvalues (wanted_secrets s)). unbroken v \<and> strip v = v"
  shows "dget (stored_secrets (merge_env s fs)) k
      = (case dget (wanted_secrets s) k of Some v \<Rightarrow> Some v | None \<Rightarrow> dget (stored_secrets fs) k)"
proof -
  have w: "secrets_ok (wanted_secrets s)" using assms wanted_secrets_keys [of s] by (auto simp: secrets_ok_def)
  show ?thesis by (simp only: stored_secrets_get merged_file_lines [OF w] merged_get [OF w])
qed

text \<open>C19: the merge of the secrets is exact: each secret of the node reads back, every other entry of the file keeps its
  value, and a second run changes nothing.\<close>
theorem secrets_merge_exact:
  assumes "\<forall>v \<in> set (dvalues (wanted_secrets s)). unbroken v \<and> strip v = v"
  shows "(\<forall>k. dget (stored_secrets (merge_env s fs)) k
      = (case dget (wanted_secrets s) k of Some v \<Rightarrow> Some v | None \<Rightarrow> dget (stored_secrets fs) k))
    \<and> merge_env s (merge_env s fs) = merge_env s fs"
proof -
  have w: "secrets_ok (wanted_secrets s)"
    using assms wanted_secrets_keys [of s] by (auto simp: secrets_ok_def)
  have "merge_env s (merge_env s fs) = merge_env s fs"
    using merged_file_lines [OF w, of fs] merge_idem [OF w, of "env_lines fs"]
    by (simp add: merge_env_def env_lines_def cong: option.case_cong)
  then show ?thesis using merged_secrets [OF assms] by simp
qed

definition stored_sample :: node_files where
  "stored_sample =
     \<lparr>nf_conf = None, nf_env = Some (S ''OTHER=1'' @ 10 # S ''SIMBRIDGE_AGENT_TOKEN=old'' @ [10]), nf_acl = None, nf_blacklist = None,
      nf_old_blacklist = None, nf_example = None, nf_manager_custom = None, nf_manager = None, nf_conf_backups = []\<rparr>"

theorem secrets_merge_exact_witness:
  "dget (stored_secrets (merge_env (new_inst\<lparr>in_agent_token := S ''abc''\<rparr>) stored_sample)) (S ''SIMBRIDGE_AGENT_TOKEN'') = Some (S ''abc'')
   \<and> dget (stored_secrets (merge_env (new_inst\<lparr>in_agent_token := S ''abc''\<rparr>) stored_sample)) (S ''OTHER'') = Some (S ''1'')"
proof -
  let ?s = "new_inst\<lparr>in_agent_token := S ''abc''\<rparr>"
  have wanted: "wanted_secrets ?s = [(S ''SIMBRIDGE_AGENT_TOKEN'', S ''abc''), (S ''SIMBRIDGE_HOME'', S ''/opt/simbridge'')]"
    by (simp add: wanted_secrets_def new_inst_def is_gsm_def)
  have plain: "\<forall>v \<in> set (dvalues (wanted_secrets ?s)). unbroken v \<and> strip v = v"
    by (simp add: wanted unbroken_lit is_break_def) (simp add: S_def strip_no_space is_space_def space_points_def)
  have "split_lines (the (nf_env stored_sample)) = [S ''OTHER=1'', S ''SIMBRIDGE_AGENT_TOKEN=old'']"
    by (simp add: stored_sample_def split_lines_def S_def is_break_def chomp_def)
  moreover have "universal_newlines (the (nf_env stored_sample)) = the (nf_env stored_sample)"
    by (rule universal_newlines_id) (simp add: stored_sample_def S_def)
  moreover have "env_line (S ''OTHER=1'') = Some (S ''OTHER'', S ''1'')" "env_line (S ''SIMBRIDGE_AGENT_TOKEN=old'') = Some (S ''SIMBRIDGE_AGENT_TOKEN'', S ''old'')"
    by (simp_all add: env_line_def S_def strip_no_space is_space_def space_points_def)
  ultimately have "dget (stored_secrets stored_sample) (S ''OTHER'') = Some (S ''1'')"
    by (simp add: stored_secrets_get env_lines_def stored_sample_def List.map_filter_def)
  then show ?thesis
    using secrets_merge_exact [OF plain, of stored_sample] by (simp add: wanted)
qed

section \<open>What an update reads back\<close>

lemma rstrip_Cons_space: "is_space c \<Longrightarrow> rstrip (c # s) = (if rstrip s = [] then [] else c # rstrip s)"
proof (cases "\<forall>x \<in> set s. is_space x")
  case True
  then have "dropWhile is_space (rev s) = []" by simp
  moreover assume "is_space c"
  ultimately show ?thesis using True by (simp add: rstrip_def dropWhile_append2)
next
  case False
  then obtain x where x: "x \<in> set (rev s)" "\<not> is_space x" by auto
  then have "dropWhile is_space (rev s @ [c]) = dropWhile is_space (rev s) @ [c]" by (rule dropWhile_append1)
  moreover have "dropWhile is_space (rev s) \<noteq> []" using x by (auto simp: dropWhile_eq_Nil_conv)
  ultimately show ?thesis by (simp add: rstrip_def)
qed

lemma lstrip_rstrip: "lstrip (rstrip s) = rstrip (lstrip s)"
proof (induction s)
  case (Cons c s)
  then show ?case
  proof (cases "is_space c")
    case True
    then have "lstrip (rstrip (c # s)) = lstrip (rstrip s)" by (simp add: rstrip_Cons_space lstrip_def)
    then show ?thesis using Cons True by (simp add: lstrip_def)
  qed (simp add: rstrip_Cons lstrip_def)
qed (simp add: lstrip_def rstrip_def)

lemma strip_rstrip [simp]: "strip (rstrip s) = strip s"
proof -
  have "rstrip (rstrip x) = rstrip x" for x
    by (simp add: rstrip_def)
  then show ?thesis by (simp add: strip_def lstrip_rstrip)
qed

lemma strip_Cons_space: "is_space c \<Longrightarrow> strip (c # s) = strip s"
  by (simp add: strip_def lstrip_def)

text \<open>The keys of the configuration file.\<close>
definition yaml_key :: "string \<Rightarrow> bool" where
  "yaml_key k \<longleftrightarrow> key_word (S k)"

lemma yaml_head:
  assumes "yaml_key k"
  shows "strip (S k @ 58 # r) = S k @ 58 # rstrip r" "split_at 58 (S k @ 58 # r) = Some (S k, r)"
    "hd (S k @ r) \<noteq> 35" "hd (S k @ r) \<noteq> 45" "S k \<noteq> []" "46 \<notin> set (S k)" "strip (S k) = S k" "\<not> is_space (hd (S k @ r))"
proof -
  have k: "key_word (S k)" using assms by (simp add: yaml_key_def)
  note kf = key_word_facts [OF k]
  have "\<not> is_space 58" by (simp add: is_space_def space_points_def)
  then show "strip (S k @ 58 # r) = S k @ 58 # rstrip r" by (simp add: strip_key_tail [OF k] rstrip_Cons)
  have c: "\<forall>c \<in> set (S k). 97 \<le> c \<and> c \<le> 122 \<or> 65 \<le> c \<and> c \<le> 90 \<or> c = 95" using k by (simp add: key_word_def)
  then show "split_at 58 (S k @ 58 # r) = Some (S k, r)" "46 \<notin> set (S k)" by (fastforce intro!: split_at_append)+
  show ne: "S k \<noteq> []" and "strip (S k) = S k" by (fact kf)+
  have "hd (S k @ r) \<in> set (S k)" using ne by simp
  then show "hd (S k @ r) \<noteq> 35" "hd (S k @ r) \<noteq> 45" "\<not> is_space (hd (S k @ r))" using c kf(1) by fastforce+
qed

lemma conf_step_section: "yaml_key k \<Longrightarrow> conf_step (S k @ [58]) (sec, y) = (S k, y)"
  using yaml_head(1) [of k "[]"] yaml_head(3,8) [of k "[58]"] yaml_head(5) [of k] by (simp add: conf_step_def rstrip_def)

lemma conf_step_indented:
  assumes "yaml_key k" and "sec \<noteq> []"
  shows "conf_step (32 # 32 # S k @ 58 # r) (S sec, y) = (S sec, dput (S (sec @ CHR ''.'' # k)) (strip_cp 34 (strip r)) y)"
proof -
  have sp: "is_space 32" by (simp add: is_space_def space_points_def)
  then have "strip (32 # 32 # S k @ 58 # r) = S k @ 58 # rstrip r"
    using yaml_head(1) [OF assms(1)] by (simp add: strip_Cons_space)
  moreover have "S sec @ 46 # S k = S (sec @ CHR ''.'' # k)" by (simp add: S_def)
  moreover have "\<not> startswith (S k @ 58 # rstrip r) [45, 32]"
    using yaml_head(4) [OF assms(1), of "58 # rstrip r"] yaml_head(5) [OF assms(1)] by (cases "S k") (auto simp: startswith_def)
  ultimately show ?thesis
    using yaml_head(3) [OF assms(1), of "58 # rstrip r"] yaml_head(2) [OF assms(1), of "rstrip r"]
      yaml_head(5-7) [OF assms(1)] sp assms(2)
    by (simp add: conf_step_def Let_def)
qed

lemma conf_step_entry:
  "yaml_key k \<Longrightarrow> sec \<noteq> [] \<Longrightarrow> conf_step (yaml_entry k v) (S sec, y) = (S sec, dput (S (sec @ CHR ''.'' # k)) (strip_cp 34 (strip v)) y)"
proof -
  assume k: "yaml_key k" "sec \<noteq> []"
  have "yaml_entry k v = 32 # 32 # S k @ 58 # 32 # v" by (simp add: yaml_entry_def S_def)
  moreover have "is_space 32" by (simp add: is_space_def space_points_def)
  ultimately show ?thesis using conf_step_indented [OF k] by (simp add: strip_Cons_space)
qed

lemma conf_step_list:
  "sec \<noteq> [] \<Longrightarrow> conf_step (S ''  allowed_peers:'') (S sec, y) = (S sec, dput (S (sec @ ''.allowed_peers'')) [] y)"
proof -
  assume "sec \<noteq> []"
  moreover have "yaml_key ''allowed_peers''" by (simp add: yaml_key_def key_word_def S_def)
  moreover have "S ''  allowed_peers:'' = 32 # 32 # S ''allowed_peers'' @ 58 # []" by (simp add: S_def)
  ultimately show ?thesis using conf_step_indented [of "''allowed_peers''" sec "[]"] by (simp add: strip_cp_def)
qed

lemma conf_step_item:
  "sec \<noteq> [] \<Longrightarrow> conf_step (S ''    - '' @ quoted ip) (S sec, y) = (S sec, dput (S (sec @ ''.allowed_peers'')) (strip_cp 34 (quoted ip)) y)"
proof -
  assume sec: "sec \<noteq> []"
  have sp: "is_space 32" "\<not> is_space 34" "\<not> is_space 45" by (simp_all add: is_space_def space_points_def)
  have "strip (S ''    - '' @ quoted ip) = strip (45 # 32 # quoted ip)" by (simp add: S_def strip_Cons_space sp)
  also have "\<dots> = 45 # 32 # quoted ip" by (intro strip_no_space) (simp_all add: quoted_def sp)
  finally have st: "strip (S ''    - '' @ quoted ip) = 45 # 32 # quoted ip" .
  moreover have "strip (quoted ip) = quoted ip" by (intro strip_no_space) (simp_all add: quoted_def sp)
  moreover have "hd (S ''    - '' @ quoted ip) = 32" by (simp add: S_def)
  ultimately show ?thesis using sec sp by (simp add: conf_step_def Let_def startswith_def S_append)
qed

lemma yaml_key_text: "yaml_key k \<longleftrightarrow> k \<noteq> [] \<and> list_all (\<lambda>c. 97 \<le> (of_char c :: nat) \<and> (of_char c :: nat) \<le> 122
    \<or> 65 \<le> (of_char c :: nat) \<and> (of_char c :: nat) \<le> 90 \<or> (of_char c :: nat) = 95) k"
  by (auto simp: yaml_key_def key_word_def S_def list_all_iff)

lemma yaml_section: "yaml_key k \<Longrightarrow> conf_step (S (k @ '':'')) a = (S k, snd a)"
  using conf_step_section [of k "fst a" "snd a"] by (simp add: S_def)

lemma yaml_sections:
  "conf_step (S ''node:'') a = (S ''node'', snd a)" "conf_step (S ''telegram:'') a = (S ''telegram'', snd a)"
  "conf_step (S ''agent:'') a = (S ''agent'', snd a)" "conf_step (S ''userbot_http:'') a = (S ''userbot_http'', snd a)"
  "conf_step (S ''asterisk:'') a = (S ''asterisk'', snd a)" "conf_step (S ''sim:'') a = (S ''sim'', snd a)"
  "conf_step (S ''voice:'') a = (S ''voice'', snd a)" "conf_step (S ''watchdog:'') a = (S ''watchdog'', snd a)"
  "conf_step (S ''limits:'') a = (S ''limits'', snd a)" "conf_step (S ''paths:'') a = (S ''paths'', snd a)"
  using yaml_section [of "''node''"] yaml_section [of "''telegram''"] yaml_section [of "''agent''"]
    yaml_section [of "''userbot_http''"] yaml_section [of "''asterisk''"] yaml_section [of "''sim''"]
    yaml_section [of "''voice''"] yaml_section [of "''watchdog''"] yaml_section [of "''limits''"] yaml_section [of "''paths''"]
  by (simp_all add: yaml_key_text)

lemma conf_items:
  "sec \<noteq> [] \<Longrightarrow> fold conf_step (map (\<lambda>ip. S ''    - '' @ quoted ip) ips) (S sec, y)
     = (S sec, fold (\<lambda>ip. dput (S (sec @ ''.allowed_peers'')) (strip_cp 34 (quoted ip))) ips y)"
  by (induction ips arbitrary: y) (simp_all add: conf_step_item)

lemma get_after_items: "k' \<noteq> k \<Longrightarrow> dget (fold (\<lambda>ip. dput k (f ip)) ips y) k' = dget y k'"
  by (induction ips arbitrary: y) auto

lemma conf_remark: "conf_step (S ''# SimBridge '' @ [8212] @ S '' generated by install.py'') a = a"
proof -
  have "strip (S ''# SimBridge '' @ [8212] @ S '' generated by install.py'') = S ''# SimBridge '' @ [8212] @ S '' generated by install.py''"
    by (intro strip_no_space) (simp_all add: S_def is_space_def space_points_def)
  moreover have "startswith (S ''# SimBridge '' @ x) [35]" for x by (simp add: S_def)
  ultimately show ?thesis by (cases a) (simp add: conf_step_def)
qed

lemma config_reads_back:
  "case fold conf_step (config_lines s) ([], []) of (_, y) \<Rightarrow>
     dget y (S ''node.role'') = Some (strip_cp 34 (strip (in_role s)))
     \<and> dget y (S ''node.id'') = Some (strip_cp 34 (strip (in_node_id s)))
     \<and> dget y (S ''telegram.master_username'')
        = Some (strip_cp 34 (strip (quoted (if in_tg_username s = [] then S ''<telegram_username>'' else in_tg_username s))))
     \<and> dget y (S ''agent.listen'') = Some (strip_cp 34 (strip (quoted (agent_listen s))))
     \<and> dget y (S ''userbot_http.listen'') = Some (strip_cp 34 (strip (quoted (userbot_listen s))))
     \<and> dget y (S ''asterisk.dongle'') = Some (strip_cp 34 (strip (in_dongle_name s)))
     \<and> dget y (S ''sim.phone'') = Some (strip_cp 34 (strip (quoted (in_sim_phone s))))
     \<and> dget y (S ''sim.modem_model'') = Some (strip_cp 34 (strip (quoted (in_modem_model s))))
     \<and> dget y (S ''voice.bridge_host'') = Some (strip_cp 34 (strip (peer_host s)))"
proof -
  obtain ips where "allowed_peers s = map (\<lambda>ip. S ''    - '' @ quoted ip) ips" by (simp add: allowed_peers_def Let_def)
  then show ?thesis
    by (simp add: config_lines_def yaml_sections conf_step_entry conf_step_list conf_items conf_remark [simplified]
        yaml_key_text get_after_items)
qed

text \<open>A value the configuration file carries.\<close>
definition conf_value :: "str \<Rightarrow> bool" where
  "conf_value v \<longleftrightarrow> unbroken v \<and> strip v = v \<and> (v \<noteq> [] \<longrightarrow> hd v \<noteq> 34 \<and> last v \<noteq> 34)"

lemma strip_cp_id: "v = [] \<or> hd v \<noteq> c \<and> last v \<noteq> c \<Longrightarrow> strip_cp c v = v"
proof (cases "v = []")
  case False
  moreover assume "v = [] \<or> hd v \<noteq> c \<and> last v \<noteq> c"
  ultimately have "dropWhile (\<lambda>x. x = c) v = v" "dropWhile (\<lambda>x. x = c) (rev v) = rev v"
    by (simp_all add: dropWhile_eq_self_iff hd_rev)
  then show ?thesis by (simp add: strip_cp_def)
qed (simp add: strip_cp_def)

lemma strip_cp_quoted: "hd v \<noteq> c \<Longrightarrow> last v \<noteq> c \<Longrightarrow> v \<noteq> [] \<Longrightarrow> strip_cp c ([c] @ v @ [c]) = v"
proof -
  assume v: "hd v \<noteq> c" "last v \<noteq> c" "v \<noteq> []"
  then have "dropWhile (\<lambda>x. x = c) (v @ [c]) = v @ [c]" "dropWhile (\<lambda>x. x = c) (rev v) = rev v"
    by (simp_all add: dropWhile_eq_self_iff hd_rev)
  then show ?thesis by (simp add: strip_cp_def)
qed

lemma conf_value_plain: "conf_value v \<Longrightarrow> strip_cp 34 (strip v) = v"
  by (auto simp: conf_value_def intro!: strip_cp_id)

lemma conf_value_quoted: "conf_value v \<Longrightarrow> strip_cp 34 (strip (quoted v)) = v"
proof -
  assume v: "conf_value v"
  have "\<not> is_space 34" by (simp add: is_space_def space_points_def)
  then have "strip (quoted v) = quoted v" by (intro strip_no_space) (simp_all add: quoted_def)
  then show ?thesis
    using strip_cp_quoted [of v 34] v by (cases "v = []") (auto simp: conf_value_def quoted_def strip_cp_def)
qed

lemma conf_value_port:
  assumes "conf_value host" and "host \<noteq> []" and "p \<in> {'':8090'', '':8088''}"
  shows "conf_value (host @ S p)" "host_part (host @ S p) = host" "58 \<in> set (host @ S p)"
proof -
  have "\<not> is_space (hd host)" using assms(1,2) hd_strip [of host] by (simp add: conf_value_def)
  then have "strip (host @ S p) = host @ S p"
    using assms(2,3) by (intro strip_no_space) (auto simp: S_def is_space_def space_points_def)
  moreover have "unbroken (S p)" using assms(3) by (auto simp: unbroken_lit is_break_def)
  moreover have "last (S p) \<noteq> 34" "S p \<noteq> []" using assms(3) by (auto simp: S_def)
  ultimately show "conf_value (host @ S p)" using assms(1,2) by (simp add: conf_value_def)
  have "rev (S p) = S (if p = '':8090'' then ''0908'' else ''8808'') @ [58]" using assms(3) by (auto simp: S_def)
  then have "split_at 58 (rev (host @ S p)) = Some (S (if p = '':8090'' then ''0908'' else ''8808''), rev host)"
    using split_at_append [of 58 "S (if p = '':8090'' then ''0908'' else ''8808'')" "rev host"] by (simp add: S_def)
  then show "host_part (host @ S p) = host" by (simp add: host_part_def)
  show "58 \<in> set (host @ S p)" using assms(3) by (auto simp: S_def)
qed

lemma conf_value_user: "conf_value (S ''<telegram_username>'')"
  by (simp add: conf_value_def unbroken_lit is_break_def) (simp add: S_def strip_no_space is_space_def space_points_def)

definition conf_texts :: "inst \<Rightarrow> str list" where
  "conf_texts s = [in_node_id s, in_role s, in_dongle_name s, in_tg_username s, in_sim_phone s, in_modem_model s, in_own_ip s, in_peer_ip s]"

lemma unbroken_print: "list_all (\<lambda>c. 32 \<le> (of_char c :: nat) \<and> of_char c \<le> (126 :: nat)) s \<Longrightarrow> unbroken (S s)"
  by (fastforce simp: unbroken_def is_break_def S_def list_all_iff)

lemma config_unbroken:
  assumes "\<forall>v \<in> set (conf_texts s). unbroken v"
  shows "\<forall>l \<in> set (config_lines s). unbroken l"
proof -
  have a: "\<forall>l \<in> set (allowed_peers s). unbroken l"
    using assms by (auto simp: allowed_peers_def conf_texts_def Let_def unbroken_lit is_break_def split: if_splits)
  have e: "unbroken (yaml_entry k v) \<longleftrightarrow> unbroken (S k) \<and> unbroken v" for k v
    by (simp add: yaml_entry_def unbroken_lit is_break_def)
  have l: "unbroken (agent_listen s)" "unbroken (userbot_listen s)" "unbroken (peer_host s)"
    using assms by (auto simp: agent_listen_def userbot_listen_def peer_host_def conf_texts_def unbroken_lit is_break_def)
  show ?thesis using a l assms
    by (simp add: config_lines_def conf_texts_def ball_Un) (simp add: e unbroken_print is_break_def)
qed

lemma read_conf_written:
  assumes "\<forall>v \<in> set (conf_texts s). unbroken v"
  shows "read_conf (join_lines (config_lines s)) = snd (fold conf_step (config_lines s) ([], []))"
proof -
  note u = config_unbroken [OF assms]
  have "13 \<notin> set (join_lines (config_lines s))" using u unbroken_cr by (auto simp: join_lines_def)
  then show ?thesis by (simp add: read_conf_def universal_newlines_id split_join_lines [OF u])
qed

lemma write_config_files:
  "nf_conf (write_config s fs) = Some (join_lines (config_lines s))"
  "stored_secrets (write_config s fs) = stored_secrets (merge_env s fs)"
proof -
  show "nf_conf (write_config s fs) = Some (join_lines (config_lines s))"
    by (simp add: write_config_def merge_env_def write_blacklist_def write_acl_def write_conf_def Let_def split: option.split)
  have "nf_env (write_blacklist (write_acl s (write_conf s fs))) = nf_env fs"
    by (simp add: write_blacklist_def write_acl_def write_conf_def Let_def split: option.split)
  then show "stored_secrets (write_config s fs) = stored_secrets (merge_env s fs)"
    by (simp add: write_config_def merge_env_def stored_secrets_def)
qed

lemma wanted_token:
  "dget (wanted_secrets s) (S ''SIMBRIDGE_AGENT_TOKEN'') = (if in_agent_token s = [] then None else Some (in_agent_token s))"
  "dget (wanted_secrets s) (S ''SIMBRIDGE_HTTP_SECRET'') = (if in_http_secret s = [] then None else Some (in_http_secret s))"
  "dget (wanted_secrets s) (S ''SIMBRIDGE_BRIDGE_SECRET'') = (if in_bridge_secret s = [] then None else Some (in_bridge_secret s))"
  "dget (wanted_secrets s) (S ''SIMBRIDGE_AMI_PASSWORD'') = (if in_ami_pw s = [] then None else Some (in_ami_pw s))"
  by (simp_all add: wanted_secrets_def)

text \<open>The state at the beginning of an update of a two-node installation.\<close>
definition updating :: "str \<Rightarrow> inst" where
  "updating role = new_inst\<lparr>in_type := S ''distributed'', in_role := role, in_action := S ''update''\<rparr>"

lemma updating_fields:
  "in_node_id (updating r) = []" "in_role (updating r) = r" "in_dongle_name (updating r) = S ''gsm''" "in_sim_phone (updating r) = []"
  "in_modem_model (updating r) = []" "in_tg_username (updating r) = []" "in_own_ip (updating r) = []" "in_peer_ip (updating r) = []"
  "in_agent_token (updating r) = []" "in_http_secret (updating r) = []" "in_bridge_secret (updating r) = []"
  by (simp_all add: updating_def new_inst_def)

text \<open>Conditions under which the configuration of a node says what was meant.\<close>
definition conf_plain :: "inst \<Rightarrow> bool" where
  "conf_plain s \<longleftrightarrow> in_type s = S ''distributed'' \<and> in_role s \<in> {S ''gsm'', S ''telegram''}
     \<and> list_all conf_value (conf_texts s) \<and> in_own_ip s \<noteq> [] \<and> in_peer_ip s \<notin> {[], S ''127.0.0.1''}"

lemma conf_plain_get:
  assumes "conf_plain s"
  defines "y \<equiv> read_conf (join_lines (config_lines s))"
  shows "dget y (S ''node.role'') = Some (in_role s)" "dget y (S ''node.id'') = Some (in_node_id s)"
    "dget y (S ''telegram.master_username'') = Some (if in_tg_username s = [] then S ''<telegram_username>'' else in_tg_username s)"
    "dget y (S ''asterisk.dongle'') = Some (in_dongle_name s)" "dget y (S ''sim.phone'') = Some (in_sim_phone s)"
    "dget y (S ''sim.modem_model'') = Some (in_modem_model s)" "dget y (S ''voice.bridge_host'') = Some (in_peer_ip s)"
    "dget y (S ''agent.listen'') = Some (agent_listen s)" "dget y (S ''userbot_http.listen'') = Some (userbot_listen s)"
proof -
  have v: "conf_value (in_node_id s)" "conf_value (in_role s)" "conf_value (in_dongle_name s)" "conf_value (in_tg_username s)"
    "conf_value (in_sim_phone s)" "conf_value (in_modem_model s)" "conf_value (in_own_ip s)" "conf_value (in_peer_ip s)"
    and role: "in_type s = S ''distributed''" "in_role s \<in> {S ''gsm'', S ''telegram''}" "in_own_ip s \<noteq> []" "in_peer_ip s \<noteq> []"
    using assms(1) by (simp_all add: conf_plain_def conf_texts_def)
  have "\<forall>v \<in> set (conf_texts s). unbroken v" using v by (simp add: conf_texts_def conf_value_def)
  then have y: "y = snd (fold conf_step (config_lines s) ([], []))" by (simp add: y_def read_conf_written)
  have "conf_value (agent_listen s)" "conf_value (userbot_listen s)"
    using v(7,8) role conf_value_port(1) by (auto simp: agent_listen_def userbot_listen_def)
  moreover have "peer_host s = in_peer_ip s" using role(1) by (simp add: peer_host_def)
  ultimately show "dget y (S ''node.role'') = Some (in_role s)" "dget y (S ''node.id'') = Some (in_node_id s)"
    "dget y (S ''telegram.master_username'') = Some (if in_tg_username s = [] then S ''<telegram_username>'' else in_tg_username s)"
    "dget y (S ''asterisk.dongle'') = Some (in_dongle_name s)" "dget y (S ''sim.phone'') = Some (in_sim_phone s)"
    "dget y (S ''sim.modem_model'') = Some (in_modem_model s)" "dget y (S ''voice.bridge_host'') = Some (in_peer_ip s)"
    "dget y (S ''agent.listen'') = Some (agent_listen s)" "dget y (S ''userbot_http.listen'') = Some (userbot_listen s)"
    using config_reads_back [of s] v conf_value_user
    by (simp_all add: y case_prod_unfold conf_value_plain conf_value_quoted)
qed

lemma listen_hosts:
  assumes "conf_plain s"
  shows "58 \<in> set (agent_listen s)" "58 \<in> set (userbot_listen s)" "host_part (userbot_listen s) = in_own_ip s"
    "in_role s \<noteq> S ''telegram'' \<Longrightarrow> host_part (agent_listen s) = in_own_ip s"
  using assms conf_value_port(2,3) by (auto simp: conf_plain_def conf_texts_def agent_listen_def userbot_listen_def)

lemma load_network_own:
  assumes "conf_plain s" and "in_own_ip s0 = []" and "in_peer_ip s0 = []"
  defines "y \<equiv> read_conf (join_lines (config_lines s))"
  shows "in_own_ip (load_network y s0) = in_own_ip s" "in_peer_ip (load_network y s0) = in_peer_ip s"
  using conf_plain_get [OF assms(1)] listen_hosts [OF assms(1)] assms(1,2,3)
  by (auto simp: load_network_def lookup_or_def y_def Let_def conf_plain_def)

lemma load_network_rest:
  "in_node_id (load_network y s) = in_node_id s" "in_role (load_network y s) = in_role s" "in_dongle_name (load_network y s) = in_dongle_name s"
  "in_sim_phone (load_network y s) = in_sim_phone s" "in_modem_model (load_network y s) = in_modem_model s"
  "in_tg_username (load_network y s) = in_tg_username s" "in_agent_token (load_network y s) = in_agent_token s"
  "in_http_secret (load_network y s) = in_http_secret s" "in_bridge_secret (load_network y s) = in_bridge_secret s"
  by (simp_all add: load_network_def Let_def)

lemma load_written:
  "\<exists>ids. load_existing_config (write_config s fs) s0
     = load_network (read_conf (join_lines (config_lines s)))
         (load_fields (read_conf (join_lines (config_lines s))) (stored_secrets (merge_env s fs)) (s0\<lparr>in_acl_ids := ids\<rparr>))"
proof -
  have "\<exists>ids. (if xs = [] then s0 else s0\<lparr>in_acl_ids := join_spaces xs\<rparr>) = s0\<lparr>in_acl_ids := ids\<rparr>" for xs
    by (cases "xs = []") (auto intro: exI [of _ "in_acl_ids s0"])
  moreover have "stored_secrets (merge_env s fs) = (case nf_env (write_config s fs) of None \<Rightarrow> [] | Some c \<Rightarrow> read_env_file c)"
    by (simp flip: write_config_files(2)) (simp add: stored_secrets_def)
  ultimately show ?thesis by (simp add: load_existing_config_def write_config_files(1) Let_def) metis
qed


lemma conf_value_text:
  assumes "list_all (\<lambda>c. 32 \<le> (of_char c :: nat) \<and> of_char c \<le> (126 :: nat)) s"
    and "s \<noteq> []" "of_char (hd s) \<notin> {32, 34 :: nat}" "of_char (last s) \<notin> {32, 34 :: nat}"
  shows "conf_value (S s)"
proof -
  have ends: "hd (S s) = of_char (hd s)" "last (S s) = of_char (last s)" using assms(2) by (simp_all add: S_def hd_map last_map)
  have "\<not> is_space c" if "33 \<le> c \<and> c \<le> 126" for c using that by (auto simp: is_space_def space_points_def)
  moreover have "33 \<le> (of_char c :: nat) \<and> of_char c \<le> (126 :: nat)" if "c \<in> set s" "of_char c \<noteq> (32 :: nat)" for c
    using that assms(1) by (fastforce simp: list_all_iff)
  ultimately have "strip (S s) = S s" using assms(2-4) ends by (intro strip_no_space) auto
  moreover have "unbroken (S s)" using assms(1) by (rule unbroken_print)
  ultimately show ?thesis using assms(2-4) ends by (simp add: conf_value_def)
qed

definition updated_sample :: inst where
  "updated_sample = (updating (S ''gsm''))
     \<lparr>in_node_id := S ''gsm-1'', in_modem_model := S ''Huawei E173'', in_own_ip := S ''10.0.0.1'', in_peer_ip := S ''10.0.0.2'',
      in_agent_token := S ''t'', in_http_secret := S ''w'', in_bridge_secret := S ''b''\<rparr>"


end
