(* ===== verification/DeployProps.thy ===== *)
theory DeployProps
  imports Deploy InstallProps "HOL-Library.Sublist"
begin

text \<open>
  Properties of the deployment: the answers a node's installer gets are those that were built for it, the two
  nodes of a deployment end up with configurations that fit, and a deployment is only reported as a success when
  every part of it was one.
\<close>

section \<open>The answers file\<close>

text \<open>A value the file carries: one line, no white space or quotes at its ends.\<close>
definition answer_value :: "str \<Rightarrow> bool" where
  "answer_value v \<longleftrightarrow> unbroken v \<and> strip v = v \<and> (v \<noteq> [] \<longrightarrow> {hd v, last v} \<inter> {34, 39} = {})"

lemma answer_value_Nil [simp]: "answer_value []"
  by (simp add: answer_value_def)

lemma known_key_word: "k \<in> set KNOWN_KEYS \<Longrightarrow> key_word k"
proof -
  have "list_all key_word KNOWN_KEYS" by (simp add: KNOWN_KEYS_def key_word_def S_def)
  then show "k \<in> set KNOWN_KEYS \<Longrightarrow> key_word k" by (simp add: list_all_iff)
qed

lemma rstrip_id: "strip v = v \<Longrightarrow> rstrip v = v"
  by (metis last_strip rstrip_no_space)

lemma answer_line_text:
  assumes "k \<in> set KNOWN_KEYS" and "answer_value v"
  shows "answer_line (answer_text (k, v)) = Some (k, v)"
proof -
  have k: "key_word k" using assms(1) by (rule known_key_word)
  note kf = key_word_facts [OF k]
  have sp: "is_space 32" "\<not> is_space 61" "\<not> is_space 34" by (simp_all add: is_space_def space_points_def)
  have v: "strip v = v" "rstrip v = v" using assms(2) rstrip_id by (simp_all add: answer_value_def)
  have eq: "S '' = '' = [32, 61, 32]" by (simp add: S_def)
  define body where "body = (if 32 \<in> set v then quoted v else v)"
  have body: "strip_cp 39 (strip_cp 34 (strip (32 # body))) = v \<and> (v \<noteq> [] \<longrightarrow> body \<noteq> [] \<and> rstrip (32 # body) = 32 # body)
      \<and> (v = [] \<longrightarrow> body = [])"
  proof (cases "v = []")
    case True
    then show ?thesis using sp(1) by (simp add: body_def strip_def lstrip_def rstrip_def strip_cp_def)
  next
    case False
    have e: "hd v \<noteq> 34" "last v \<noteq> 34" "hd v \<noteq> 39" "last v \<noteq> 39" using assms(2) False by (auto simp: answer_value_def)
    have solid: "\<not> is_space (hd v)" "\<not> is_space (last v)" using v(1) False hd_strip [of v] last_strip [of v] by simp_all
    have b: "body \<noteq> []" "\<not> is_space (hd body)" "\<not> is_space (last body)"
      using False solid sp(3) by (auto simp: body_def quoted_def)
    then have "strip (32 # body) = body"
      using sp(1) by (simp add: strip_def lstrip_def rstrip_no_space lstrip_no_space [unfolded lstrip_def])
    moreover have "strip_cp 34 body = v"
      using strip_cp_quoted [OF e(1,2) False] strip_cp_id [of v 34] e by (simp add: body_def quoted_def)
    ultimately show ?thesis using b strip_cp_id [of v 39] e False by (simp add: rstrip_no_space)
  qed
  have line: "answer_text (k, v) = k @ 32 # 61 # 32 # body" by (simp add: answer_text_def Let_def v eq body_def)
  then have st: "strip (answer_text (k, v)) = k @ rstrip (32 # 61 # 32 # body)" by (simp add: strip_key_tail [OF k])
  have r: "rstrip (32 # 61 # 32 # body) = 32 # 61 # rstrip (32 # body)"
  proof -
    have "rstrip (32 # 61 # x) = 32 # 61 # rstrip x" for x
      by (simp add: rstrip_def dropWhile_append3 sp(2))
    then show ?thesis .
  qed
  have "split_at 61 ((k @ [32]) @ 61 # rstrip (32 # body)) = Some (k @ [32], rstrip (32 # body))"
    using kf(2) by (intro split_at_append) simp
  moreover have "strip (k @ [32]) = k" using strip_key_tail [OF k, of "[32]"] sp(1) by (simp add: rstrip_def)
  moreover have "strip_cp 39 (strip_cp 34 (strip (rstrip (32 # body)))) = v"
    using body by (cases "v = []") (simp_all add: strip_def lstrip_def rstrip_def sp(1) strip_cp_def)
  moreover note kf(6,7)
  ultimately show ?thesis using assms(1) by (simp add: answer_line_def st r Let_def)
qed

lemma answers_unbroken:
  "\<forall>(k, v) \<in> set d. k \<in> set KNOWN_KEYS \<and> answer_value v \<Longrightarrow> \<forall>l \<in> set (ANSWERS_HEADER @ map answer_text d). unbroken l"
  using known_key_word key_word_facts(4)
  by (auto simp: ANSWERS_HEADER_def answer_text_def Let_def answer_value_def unbroken_lit is_break_def)

lemma fold_answers:
  assumes "\<forall>(k, v) \<in> set d. k \<in> set KNOWN_KEYS \<and> answer_value v" and "distinct (map fst (acc @ d))"
  shows "fold (\<lambda>l d. case answer_line l of None \<Rightarrow> d | Some (k, v) \<Rightarrow> dput k v d) (map answer_text d) acc = acc @ d"
  using assms
proof (induction d arbitrary: acc)
  case (Cons kv d)
  obtain k v where kv: "kv = (k, v)" by fastforce
  have "dget acc k = None" using Cons.prems(2) kv by (auto simp: map_of_eq_None_iff)
  then have "dput k v acc = acc @ [(k, v)]" by (rule dput_fresh)
  then show ?case using Cons.IH [of "acc @ [(k, v)]"] Cons.prems kv by (simp add: answer_line_text)
qed simp

text \<open>The installer reads the answers back as they were built.\<close>
lemma answers_read_back:
  assumes "\<forall>(k, v) \<in> set d. k \<in> set KNOWN_KEYS \<and> answer_value v" and "distinct (map fst d)"
  shows "load_answers (answers_env_text d) = d"
proof -
  have lines: "split_lines (answers_env_text d) = ANSWERS_HEADER @ map answer_text d"
    using split_join_lines [OF answers_unbroken [OF assms(1)]] by (simp add: answers_env_text_def)
  have "13 \<notin> set (answers_env_text d)"
    using answers_unbroken [OF assms(1)] unbroken_cr by (auto simp: answers_env_text_def join_lines_def)
  then have "universal_newlines (answers_env_text d) = answers_env_text d" by (rule universal_newlines_id)
  moreover have "\<forall>l \<in> set ANSWERS_HEADER. answer_line l = None"
    by (simp add: ANSWERS_HEADER_def answer_line_def S_def strip_no_space is_space_def space_points_def Let_def)
  then have "fold (\<lambda>l d. case answer_line l of None \<Rightarrow> d | Some (k, v) \<Rightarrow> dput k v d) ANSWERS_HEADER [] = []"
    by (simp add: ANSWERS_HEADER_def)
  ultimately show ?thesis using fold_answers [of d "[]"] assms by (simp add: load_answers_def lines)
qed

text \<open>The keys of the answers, in their order; some of them may be missing.\<close>
definition answer_keys :: "str list list" where
  "answer_keys =
     [[S ''install_type''], [S ''node_role''], [S ''action''],
      [S ''install_tailscale'', S ''install_tailscale_opt'', S ''node_id''], [S ''modem_model'', S ''sim_phone'', S ''dongle_name''],
      [S ''tg_api_id'', S ''tg_api_hash'', S ''tg_username''], [S ''agent_token'', S ''bridge_secret'', S ''http_secret''],
      [S ''own_ip'', S ''peer_ip'', S ''ts_tag''], [S ''acl_ids'', S ''tg_login'', S ''peer_ready'']]"

lemma given_key: "subseq (dkeys (given k v)) [S k]"
  by (simp add: given_def)

lemma given_keys: "subseq (dkeys (given a u @ given b v @ given c w)) [S a, S b, S c]"
  using list_emb_append_mono [OF given_key [of a u] list_emb_append_mono [OF given_key [of b v] given_key [of c w]]] by simp

lemma if_keys: "subseq (dkeys x) ks \<Longrightarrow> subseq (dkeys (if P then x else [])) ks" "subseq (dkeys x) ks \<Longrightarrow> subseq (dkeys (if P then [] else x)) ks"
  by simp_all

lemma built_subseq: "subseq (dkeys (build_answers n sh)) (concat answer_keys)"
  unfolding build_answers_def answer_keys_def map_append concat.simps append_Nil2
  by (intro list_emb_append_mono if_keys given_keys) simp_all

lemma built_keys: "distinct (dkeys (build_answers n sh)) \<and> set (dkeys (build_answers n sh)) \<subseteq> set KNOWN_KEYS"
proof -
  have "distinct (concat answer_keys)" "set (concat answer_keys) \<subseteq> set KNOWN_KEYS"
    by (simp_all add: answer_keys_def KNOWN_KEYS_def)
  moreover obtain N where "dkeys (build_answers n sh) = nths (concat answer_keys) N"
    using built_subseq by (auto simp: subseq_conv_nths)
  ultimately show ?thesis using distinct_nthsI set_nths_subset [of "concat answer_keys" N] by (metis subset_trans)
qed

lemma built_read_back:
  assumes "\<forall>v \<in> set (dvalues (build_answers n sh)). answer_value v"
  shows "load_answers (answers_env_text (build_answers n sh)) = build_answers n sh"
proof (rule answers_read_back)
  show "\<forall>(k, v) \<in> set (build_answers n sh). k \<in> set KNOWN_KEYS \<and> answer_value v"
    using assms built_keys [of n sh] by fastforce
  show "distinct (map fst (build_answers n sh))" using built_keys by blast
qed

text \<open>The answers file carries the answers: the installer on the node reads exactly what was built for it.\<close>
theorem answers_reach_installer:
  "\<forall>v \<in> set (dvalues (build_answers n sh)). answer_value v \<Longrightarrow>
     load_answers (answers_env_text (build_answers n sh)) = build_answers n sh"
  by (rule built_read_back)

section \<open>The decisions of a node\<close>

text \<open>A node of a two-node deployment with all that the installer needs.\<close>
definition deployable :: "shared \<Rightarrow> node \<Rightarrow> bool" where
  "deployable sh n \<longleftrightarrow>
     sh_type sh = S ''distributed'' \<and> nd_role n \<in> {S ''gsm'', S ''telegram''} \<and> nd_own_ip n \<noteq> [] \<and> nd_peer_ip n \<noteq> []
     \<and> sh_agent_token sh \<noteq> [] \<and> sh_bridge_secret sh \<noteq> [] \<and> sh_http_secret sh \<noteq> []
     \<and> (nd_role n = S ''gsm'' \<longrightarrow> sh_modem_model sh \<noteq> [])
     \<and> (nd_role n = S ''telegram'' \<longrightarrow> sh_tg_api_id sh \<noteq> [] \<and> sh_tg_api_hash sh \<noteq> [] \<and> sh_tg_username sh \<noteq> [])
     \<and> sh_acl_ids sh \<noteq> [] \<and> invalid_acl_tokens (sh_acl_ids sh) = []
     \<and> list_all answer_value (dvalues (build_answers n sh))"

lemma given_get: "dget (given key v) (S k) = (if key = k \<and> v \<noteq> [] then Some v else None)"
  by (simp add: given_def)

lemma if_get: "dget (if P then a else b) k = (if P then dget a k else dget b k)"
  by simp

lemma append_get: "dget (a @ b) k = (case dget a k of None \<Rightarrow> dget b k | Some v \<Rightarrow> Some v)"
  by (simp add: map_add_def)

lemma same_option: "(case x of None \<Rightarrow> None | Some v \<Rightarrow> Some v) = x"
  by (cases x) simp_all

lemmas built_simps = build_answers_def append_get given_get if_get

lemma built_get:
  fixes n :: node and sh :: shared
  assumes "sh_type sh = S ''distributed''"
  defines "ans \<equiv> build_answers n sh"
  shows "dget ans (S ''install_type'') = Some OPT_DISTRIBUTED"
    "dget ans (S ''node_role'') = Some (if nd_role n = S ''gsm'' then OPT_ROLE_GSM else OPT_ROLE_TG)"
    "dget ans (S ''action'') = (if nd_action n = [] then None else Some (if nd_action n = S ''wipe'' then OPT_WIPE else OPT_UPDATE))"
    "dget ans (S ''agent_token'') = Some (sh_agent_token sh)" "dget ans (S ''bridge_secret'') = Some (sh_bridge_secret sh)"
    "dget ans (S ''http_secret'') = Some (sh_http_secret sh)" "dget ans (S ''peer_ip'') = Some (nd_peer_ip n)"
    "dget ans (S ''acl_ids'') = Some (sh_acl_ids sh)" "dget ans (S ''ami_password'') = None"
  using assms(1) by (simp_all add: ans_def built_simps OPT_DISTRIBUTED_def same_option split del: if_split del: map_of_append cong: if_cong option.case_cong)

lemma built_role_get:
  "nd_role n = S ''gsm'' \<Longrightarrow> sh_modem_model sh \<noteq> [] \<Longrightarrow> dget (build_answers n sh) (S ''modem_model'') = Some (sh_modem_model sh)"
  "nd_role n = S ''telegram'' \<Longrightarrow> sh_tg_api_id sh \<noteq> [] \<Longrightarrow> dget (build_answers n sh) (S ''tg_api_id'') = Some (sh_tg_api_id sh)"
  "nd_role n = S ''telegram'' \<Longrightarrow> sh_tg_api_hash sh \<noteq> [] \<Longrightarrow> dget (build_answers n sh) (S ''tg_api_hash'') = Some (sh_tg_api_hash sh)"
  "nd_role n = S ''telegram'' \<Longrightarrow> sh_tg_username sh \<noteq> [] \<Longrightarrow> dget (build_answers n sh) (S ''tg_username'') = Some (sh_tg_username sh)"
  by (simp_all add: built_simps split del: if_split del: map_of_append cong: if_cong option.case_cong)

lemma option_texts:
  "strip OPT_DISTRIBUTED = OPT_DISTRIBUTED" "strip OPT_ROLE_GSM = OPT_ROLE_GSM" "strip OPT_ROLE_TG = OPT_ROLE_TG"
  "strip OPT_WIPE = OPT_WIPE" "strip OPT_UPDATE = OPT_UPDATE"
  by (simp_all add: OPT_DISTRIBUTED_def OPT_ROLE_GSM_def OPT_ROLE_TG_def OPT_WIPE_def OPT_UPDATE_def S_def strip_no_space
      is_space_def space_points_def)

lemma option_marks:
  "\<not> occurs_in (S ''Single'') OPT_DISTRIBUTED" "occurs_in (S ''GSM'') OPT_ROLE_GSM" "\<not> occurs_in (S ''GSM'') OPT_ROLE_TG"
  "occurs_in (S ''Remove'') OPT_WIPE" "\<not> occurs_in (S ''Remove'') OPT_UPDATE" "\<not> occurs_in (S ''Abort'') OPT_UPDATE"
  by (simp_all add: OPT_DISTRIBUTED_def OPT_ROLE_GSM_def OPT_ROLE_TG_def OPT_WIPE_def OPT_UPDATE_def S_def startswith_def)

lemma pick_option: "dget ans (S key) = Some v \<Longrightarrow> strip v = v \<Longrightarrow> v \<noteq> [] \<Longrightarrow> v \<in> set options \<Longrightarrow> pick ans key options i = Inr v"
  by (simp add: pick_def Let_def)

lemma option_nonempty: "OPT_DISTRIBUTED \<noteq> []" "OPT_ROLE_GSM \<noteq> []" "OPT_ROLE_TG \<noteq> []" "OPT_WIPE \<noteq> []" "OPT_UPDATE \<noteq> []"
  by (simp_all add: OPT_DISTRIBUTED_def OPT_ROLE_GSM_def OPT_ROLE_TG_def OPT_WIPE_def OPT_UPDATE_def)

lemma phase_type_built:
  assumes "sh_type sh = S ''distributed''" and "nd_role n \<in> {S ''gsm'', S ''telegram''}"
  shows "phase_type (build_answers n sh) s = Inr (s\<lparr>in_type := S ''distributed'', in_role := nd_role n\<rparr>)"
proof -
  let ?ans = "build_answers n sh" and ?r = "if nd_role n = S ''gsm'' then OPT_ROLE_GSM else OPT_ROLE_TG"
  have "pick ?ans ''install_type'' [OPT_SINGLE, OPT_DISTRIBUTED] 0 = Inr OPT_DISTRIBUTED"
    by (rule pick_option) (simp_all add: built_get [OF assms(1)] option_texts option_nonempty)
  moreover have "pick ?ans ''node_role'' [OPT_ROLE_GSM, OPT_ROLE_TG] 0 = Inr ?r"
    by (rule pick_option) (simp_all add: built_get [OF assms(1)] option_texts option_nonempty)
  ultimately show ?thesis using assms(2) by (auto simp: phase_type_def then_do_def option_marks)
qed

lemma phase_existing_built:
  assumes "sh_type sh = S ''distributed''" and "in_role s \<noteq> []"
  shows "\<exists>s1. phase_existing (build_answers n sh) found fs s = Inr s1 \<and> in_type s1 = in_type s \<and> in_role s1 = in_role s"
proof -
  let ?o = "if nd_action n = S ''wipe'' then OPT_WIPE else OPT_UPDATE"
  have "pick (build_answers n sh) ''action'' [OPT_WIPE, OPT_UPDATE, S ''Abort''] 1 = Inr (if nd_action n = [] then OPT_UPDATE else ?o)"
  proof (cases "nd_action n = []")
    case True
    then show ?thesis by (simp add: pick_def built_get [OF assms(1)])
  next
    case False
    then show ?thesis
      by (simp add: pick_def Let_def built_get [OF assms(1)] option_texts option_nonempty)
  qed
  moreover have "in_type (load_existing_config fs s') = in_type s'" "in_role s' \<noteq> [] \<Longrightarrow> in_role (load_existing_config fs s') = in_role s'" for s'
    by (auto simp: load_existing_config_def load_network_def load_fields_def filled_def Let_def split: option.split)
  ultimately show ?thesis using assms(2) by (auto simp: phase_existing_def then_do_def option_marks)
qed

lemma ans_given: "dget ans (S key) = Some v \<Longrightarrow> v \<noteq> [] \<Longrightarrow> ans_str ans key dflt required = Inr v"
  by (simp add: ans_str_def)

lemma ans_optional: "\<exists>v. ans_str ans key dflt False = Inr v"
  by (simp add: ans_str_def split: option.split)

text \<open>What the decisions of a node of a two-node deployment leave in its state.\<close>
definition as_deployed :: "shared \<Rightarrow> node \<Rightarrow> inst \<Rightarrow> bool" where
  "as_deployed sh n s \<longleftrightarrow>
     in_type s = S ''distributed'' \<and> in_role s = nd_role n \<and> in_own_ip s = nd_own_ip n \<and> in_peer_ip s = nd_peer_ip n
     \<and> in_agent_token s = sh_agent_token sh \<and> in_http_secret s = sh_http_secret sh \<and> in_bridge_secret s = sh_bridge_secret sh
     \<and> in_acl_ids s = sh_acl_ids sh"

lemma gather_gsm_built:
  assumes "nd_role n = S ''gsm''" and "sh_modem_model sh \<noteq> []" and "in_role s = nd_role n"
  shows "\<exists>m p d w. gather_gsm (build_answers n sh) fr fs s
    = Inr (s\<lparr>in_modem_model := m, in_sim_phone := p, in_dongle_name := d, in_ami_pw := w\<rparr>) \<and> m \<noteq> []"
proof -
  let ?ans = "build_answers n sh"
  obtain p d w where o: "ans_str ?ans ''sim_phone'' (in_sim_phone s) False = Inr p"
    "ans_str ?ans ''dongle_name'' (if in_dongle_name s = [] then S ''gsm'' else in_dongle_name s) False = Inr d"
    "ans_str ?ans ''ami_password'' [] False = Inr w"
    using ans_optional by metis
  have m: "ans_str ?ans ''modem_model'' [] False = Inr (sh_modem_model sh)"
    by (intro ans_given built_role_get(1) assms(1,2))
  define mm where "mm = (if in_modem_model s = [] then sh_modem_model sh else in_modem_model s)"
  have "(if in_modem_model s = [] then ans_str ?ans ''modem_model'' [] False else Inr (in_modem_model s)) = Inr mm"
    using m by (simp add: mm_def)
  then have "gather_gsm ?ans fr fs s = Inr (s\<lparr>in_modem_model := mm, in_sim_phone := p, in_dongle_name := d,
      in_ami_pw := (if w = [] then ensure_ami fr fs s else w)\<rparr>)"
    using assms(1,3) o by (simp add: gather_gsm_def is_gsm_def then_do_def)
  moreover have "mm \<noteq> []" using assms(2) by (simp add: mm_def)
  ultimately show ?thesis by blast
qed

lemma gather_tg_built:
  assumes "nd_role n = S ''telegram''" and "sh_tg_api_id sh \<noteq> []" "sh_tg_api_hash sh \<noteq> []" "sh_tg_username sh \<noteq> []" and "in_role s = nd_role n"
  shows "gather_tg (build_answers n sh) s
    = Inr (s\<lparr>in_tg_api_id := sh_tg_api_id sh, in_tg_api_hash := sh_tg_api_hash sh, in_tg_username := sh_tg_username sh\<rparr>)"
  using assms by (simp add: gather_tg_def is_tg_def then_do_def ans_given built_role_get)

lemma gather_secrets_built:
  assumes "sh_type sh = S ''distributed''" and "sh_agent_token sh \<noteq> []" "sh_bridge_secret sh \<noteq> []" "sh_http_secret sh \<noteq> []"
  shows "gather_secrets (build_answers n sh) fr s
    = Inr (s\<lparr>in_agent_token := sh_agent_token sh, in_bridge_secret := sh_bridge_secret sh, in_http_secret := sh_http_secret sh\<rparr>)"
  using assms(2-4) by (simp add: gather_secrets_def gather_secret_def then_do_def ans_given built_get [OF assms(1)])

lemma gather_network_built:
  assumes "sh_type sh = S ''distributed''" and "in_type s = S ''distributed''" and "in_ts_ip s \<noteq> []" and "nd_peer_ip n \<noteq> []"
  shows "\<exists>t. gather_network (build_answers n sh) s = Inr (s\<lparr>in_own_ip := in_ts_ip s, in_peer_ip := nd_peer_ip n, in_ts_tag := t\<rparr>)"
proof -
  obtain t where "ans_str (build_answers n sh) ''ts_tag'' (tag_of (node_suffix (in_node_id s))) False = Inr t"
    using ans_optional by blast
  then show ?thesis
    using assms(2-4) by (simp add: gather_network_def then_do_def ans_given built_get [OF assms(1)]) blast
qed

lemma phase_gather_built:
  assumes "deployable sh n" and "in_type s = S ''distributed''" "in_role s = nd_role n" "in_ts_ip s = nd_own_ip n"
  shows "\<exists>s'. phase_gather (build_answers n sh) hostname fr fs s = Inr s' \<and> as_deployed sh n s'"
proof -
  let ?ans = "build_answers n sh"
  have t: "sh_type sh = S ''distributed''" using assms(1) by (simp add: deployable_def)
  obtain nid where nid: "ans_str ?ans ''node_id'' (if in_node_id s = [] then hostname else in_node_id s) False = Inr nid"
    using ans_optional by blast
  let ?s0 = "s\<lparr>in_node_id := nid\<rparr>"
  consider "nd_role n = S ''gsm''" | "nd_role n = S ''telegram''" using assms(1) by (auto simp: deployable_def)
  then obtain s1 s2 where g: "gather_gsm ?ans fr fs ?s0 = Inr s1" "gather_tg ?ans s1 = Inr s2"
    and f: "in_type s2 = S ''distributed''" "in_role s2 = nd_role n" "in_ts_ip s2 = nd_own_ip n"
    and m: "nd_role n = S ''gsm'' \<Longrightarrow> in_modem_model s2 \<noteq> []"
      "nd_role n = S ''telegram'' \<Longrightarrow> in_tg_api_id s2 \<noteq> [] \<and> in_tg_api_hash s2 \<noteq> [] \<and> in_tg_username s2 \<noteq> []"
  proof cases
    case 1
    then obtain mm p d w where gg: "gather_gsm ?ans fr fs ?s0 = Inr (?s0\<lparr>in_modem_model := mm, in_sim_phone := p, in_dongle_name := d, in_ami_pw := w\<rparr>)" "mm \<noteq> []"
      using gather_gsm_built [of n sh ?s0 fr fs] assms by (auto simp: deployable_def)
    have "gather_tg ?ans s1 = Inr s1" if "in_role s1 = S ''gsm''" for s1 using that by (simp add: gather_tg_def is_tg_def)
    from this [of "?s0\<lparr>in_modem_model := mm, in_sim_phone := p, in_dongle_name := d, in_ami_pw := w\<rparr>"] 1 assms(3)
    have tg: "gather_tg ?ans (?s0\<lparr>in_modem_model := mm, in_sim_phone := p, in_dongle_name := d, in_ami_pw := w\<rparr>)
      = Inr (?s0\<lparr>in_modem_model := mm, in_sim_phone := p, in_dongle_name := d, in_ami_pw := w\<rparr>)" by simp
    show ?thesis by (rule that [OF gg(1) tg]) (use 1 assms gg(2) in simp_all)
  next
    case 2
    then have gg: "gather_gsm ?ans fr fs ?s0 = Inr ?s0" using assms(3) by (simp add: gather_gsm_def is_gsm_def)
    show ?thesis
      by (rule that [OF gg gather_tg_built]) (use 2 assms in \<open>simp_all add: deployable_def\<close>)
  qed
  let ?s3 = "s2\<lparr>in_agent_token := sh_agent_token sh, in_bridge_secret := sh_bridge_secret sh, in_http_secret := sh_http_secret sh\<rparr>"
  have s3: "gather_secrets ?ans fr s2 = Inr ?s3" using assms(1) by (intro gather_secrets_built) (simp_all add: deployable_def)
  obtain tag where s4: "gather_network ?ans ?s3 = Inr (?s3\<lparr>in_own_ip := nd_own_ip n, in_peer_ip := nd_peer_ip n, in_ts_tag := tag\<rparr>)"
    using gather_network_built [of sh ?s3 n] assms(1) f by (auto simp: deployable_def)
  have "ans_str ?ans ''acl_ids'' x True = Inr (sh_acl_ids sh)" for x
    using assms(1) by (simp add: ans_given built_get [OF t] deployable_def)
  then show ?thesis
    using assms(1) f m by (auto simp: phase_gather_def nid g s3 s4 then_do_def gather_acl_def validate_noninteractive_def
        missing_values_def is_gsm_def as_deployed_def deployable_def)
qed

lemma decide_built:
  assumes "deployable sh n"
  shows "\<exists>s. decide (answers_env_text (build_answers n sh)) found (Some (nd_own_ip n)) hostname fr fs = Inr s \<and> as_deployed sh n s"
proof -
  let ?ans = "build_answers n sh"
  have t: "sh_type sh = S ''distributed''" "nd_role n \<in> {S ''gsm'', S ''telegram''}" using assms by (simp_all add: deployable_def)
  have read: "load_answers (answers_env_text ?ans) = ?ans"
    using assms by (intro built_read_back) (simp add: deployable_def list_all_iff)
  obtain s1 where s1: "phase_existing ?ans found fs (new_inst\<lparr>in_type := S ''distributed'', in_role := nd_role n\<rparr>) = Inr s1"
    "in_type s1 = S ''distributed''" "in_role s1 = nd_role n"
    using phase_existing_built [OF t(1), where s = "new_inst\<lparr>in_type := S ''distributed'', in_role := nd_role n\<rparr>"
        and n = n and found = found and fs = fs] t(2) by auto
  then show ?thesis
    using phase_gather_built [OF assms, of "s1\<lparr>in_ts_ip := nd_own_ip n\<rparr>"]
    by (simp add: decide_def read phase_type_built [OF t] then_do_def phase_diag_def)
qed

section \<open>Two nodes\<close>

lemma resolved_pair:
  assumes "sh_type sh = S ''distributed''" and "resolve_ips pc asked sh [m, k] = [a, b]"
  shows "nd_peer_ip a = nd_own_ip b \<and> nd_peer_ip b = nd_own_ip a \<and> nd_role a = nd_role m \<and> nd_role b = nd_role k"
  using assms by (auto simp: resolve_ips_def own_address_def Let_def)

lemma deployed_lines:
  assumes "as_deployed sh n s"
  shows "yaml_entry ''listen'' (quoted ((if nd_role n = S ''telegram'' then nd_peer_ip n else nd_own_ip n) @ S '':8090'')) \<in> set (config_lines s)"
    "yaml_entry ''listen'' (quoted (nd_own_ip n @ S '':8088'')) \<in> set (config_lines s)"
    "yaml_entry ''userbot_url'' (S ''http://'' @ nd_peer_ip n @ S '':8088'') \<in> set (config_lines s)"
    "nd_peer_ip n \<noteq> [] \<Longrightarrow> S ''    - '' @ quoted (nd_peer_ip n) \<in> set (config_lines s)"
  using assms by (auto simp: as_deployed_def config_lines_def agent_listen_def userbot_listen_def peer_host_def allowed_peers_def Let_def)


section \<open>The administrators\<close>


text \<open>An access list that is there stays as it is, whatever the answers say.\<close>
theorem acl_ids_ignored:
  assumes "unattended answers_text found ts_ip hostname fr fs = (Inr s, fs')" and "in_action s \<noteq> S ''remove''" and "nf_acl fs = Some c"
  shows "nf_acl fs' = Some c"
  using assms by (auto simp: unattended_def write_config_acl write_acl_def phase_remove_def split: sum.splits)

section \<open>The report\<close>

text \<open>A command of the log returned a code.\<close>
definition ran :: "remote \<Rightarrow> remote_log \<Rightarrow> str \<Rightarrow> remote_command \<Rightarrow> int \<Rightarrow> bool" where
  "ran rem log host cmd rc \<longleftrightarrow> (\<exists>pre. prefix (pre @ [(host, cmd)]) log \<and> fst (rem pre host cmd) = rc)"

lemma ran_mono: "ran rem log host cmd rc \<Longrightarrow> prefix log log' \<Longrightarrow> ran rem log' host cmd rc"
  unfolding ran_def using prefix_order.trans by blast

lemma run_remote_ran: "run_remote rem host cmd log = ((rc, out), log1) \<Longrightarrow> prefix log log1 \<and> ran rem log1 host cmd rc"
  by (auto simp: run_remote_def ran_def)

lemma run_remote_prefix [simp]: "prefix log (snd (run_remote rem host cmd log))"
  by (simp add: run_remote_def)

lemma upload_prefix: "upload_remote rem host content k secret log = (r, log1) \<Longrightarrow> prefix log log1"
  by (auto simp: upload_remote_def run_remote_def split: prod.splits if_splits)

lemma finish_node_facts:
  assumes "finish_node rem readable rc n log = (n1, log1)"
  shows "prefix log log1" "nd_ok n1 = (rc = 0)" "nd_name n1 = nd_name n" "nd_role n1 = nd_role n" "nd_own_ip n1 = nd_own_ip n"
  using assms by (auto simp: finish_node_def run_remote_def failed_with_def Let_def split: prod.splits if_splits)

lemma install_node_facts:
  assumes "install_node rem nbytes readable installer sh n log = (deployed, n1, log1)"
  shows "prefix log log1" "nd_name n1 = nd_name n" "nd_role n1 = nd_role n" "nd_own_ip n1 = nd_own_ip n"
    "deployed \<Longrightarrow> nd_ok n1 \<Longrightarrow> ran rem log1 (nd_name n) RunInstaller 0"
proof -
  let ?r = "run_remote rem (nd_name n)" and ?u = "upload_remote rem (nd_name n)"
  let ?answers = "answers_env_text (build_answers n sh)"
  obtain rc1 o1 l1 where c1: "?r MakeStage log = ((rc1, o1), l1)" by (metis prod.collapse)
  obtain r2 o2 l2 where c2: "?u installer (nbytes installer) False l1 = ((r2, o2), l2)" by (metis prod.collapse)
  obtain r3 o3 l3 where c3: "?r Compile l2 = ((r3, o3), l3)" by (metis prod.collapse)
  obtain r4 o4 l4 where c4: "?u ?answers (nbytes ?answers) True l3 = ((r4, o4), l4)" by (metis prod.collapse)
  obtain rc o5 l5 where c5: "?r RunInstaller l4 = ((rc, o5), l5)" by (metis prod.collapse)
  obtain n6 l6 where c6: "finish_node rem readable rc n l5 = (n6, l6)" by (metis prod.collapse)
  have p: "prefix log l1" "prefix log l2" "prefix log l3" "prefix log l4" "prefix log l5" "prefix log l6"
    using run_remote_ran [OF c1] upload_prefix [OF c2] run_remote_ran [OF c3] upload_prefix [OF c4] run_remote_ran [OF c5]
      finish_node_facts(1) [OF c6] by (meson prefix_order.trans)+
  have "rc = 0 \<Longrightarrow> ran rem l6 (nd_name n) RunInstaller 0"
    using run_remote_ran [OF c5] ran_mono finish_node_facts(1) [OF c6] by blast
  then show "prefix log log1" "nd_name n1 = nd_name n" "nd_role n1 = nd_role n" "nd_own_ip n1 = nd_own_ip n"
    "deployed \<Longrightarrow> nd_ok n1 \<Longrightarrow> ran rem log1 (nd_name n) RunInstaller 0"
    using assms p finish_node_facts [OF c6]
    by (auto simp: install_node_def Let_def c1 c2 c3 c4 c5 c6 failed_with_def split: if_splits)
qed

lemma install_all_facts:
  "install_all (install_node rem nbytes readable installer sh) sh ns log = (results, log1) \<Longrightarrow>
     prefix log log1 \<and> length results = length ns
     \<and> (\<forall>(n, deployed) \<in> set results. deployed \<and> nd_ok n \<longrightarrow> ran rem log1 (nd_name n) RunInstaller 0)"
proof (induction ns arbitrary: log results log1)
  case (Cons n ns)
  let ?f = "install_node rem nbytes readable installer sh"
  obtain d n1 l1 where h: "(if blocked sh n then (False, n, log) else ?f n log) = (d, n1, l1)" by (metis prod_cases3)
  obtain rest l2 where r: "install_all ?f sh ns l1 = (rest, l2)" by fastforce
  have "install_all ?f sh (n # ns) log = ((n1, d) # rest, l2)" by (simp only: install_all.simps h r prod.case)
  from trans [OF this [symmetric] Cons.prems] have eq: "results = (n1, d) # rest" "log1 = l2" by simp_all
  have head: "prefix log l1" "nd_name n1 = nd_name n" "d \<Longrightarrow> nd_ok n1 \<Longrightarrow> ran rem l1 (nd_name n) RunInstaller 0"
    using h install_node_facts [of rem nbytes readable installer sh n log d n1 l1] by (auto split: if_splits)
  have "prefix log log1" using head(1) Cons.IH [OF r] eq(2) prefix_order.trans by blast
  then show ?case using head(2,3) Cons.IH [OF r] eq ran_mono [of rem l1 _ _ _ l2] by auto
qed simp

lemma check_from_ran:
  "check_from rem host cmd problem log = ([], log1) \<Longrightarrow> prefix log log1 \<and> ran rem log1 host cmd 0"
  using run_remote_ran [of rem host cmd log] by (auto simp: check_from_def split: prod.splits if_splits)

text \<open>The requests of the final check, answered.\<close>
definition check_answered :: "remote \<Rightarrow> remote_log \<Rightarrow> shared \<Rightarrow> node list \<Rightarrow> bool" where
  "check_answered rem log sh ns \<longleftrightarrow>
     (if sh_type sh = S ''single''
      then ran rem log (nd_name (hd ns)) (CurlUserbot (endpoint (S ''127.0.0.1'') USERBOT_PORT ''/health'')) 0
        \<and> ran rem log (nd_name (hd ns)) (CurlAgent (sh_agent_token sh) (endpoint (S ''127.0.0.1'') AGENT_PORT ''/v1/health'')) 0
      else \<exists>gsm \<in> set ns. \<exists>tg \<in> set ns. nd_role gsm = S ''gsm'' \<and> nd_role tg = S ''telegram''
        \<and> ran rem log (nd_name tg) (CurlAgent (sh_agent_token sh) (endpoint (nd_own_ip gsm) AGENT_PORT ''/v1/health'')) 0
        \<and> ran rem log (nd_name gsm) (CurlUserbot (endpoint (nd_own_ip tg) USERBOT_PORT ''/health'')) 0)"

lemma cross_check_answered:
  assumes "cross_check rem sh ns log = Some ([], log1)"
  shows "prefix log log1 \<and> check_answered rem log1 sh ns"
proof -
  have chain: "prefix log log2 \<and> ran rem log2 h1 c1 0 \<and> ran rem log2 h2 c2 0"
    if "check_from rem h1 c1 p1 log = ([], l1)" "check_from rem h2 c2 p2 l1 = ([], log2)" for h1 c1 p1 l1 h2 c2 p2 log2
    using check_from_ran [OF that(1)] check_from_ran [OF that(2)] ran_mono prefix_order.trans by metis
  show ?thesis
  proof (cases "sh_type sh = S ''single''")
    case True
    then show ?thesis using assms chain by (auto simp: cross_check_def check_answered_def Let_def split: prod.splits)
  next
    case False
    then obtain gsm tg where f: "List.find (\<lambda>n. nd_role n = S ''gsm'') ns = Some gsm" "List.find (\<lambda>n. nd_role n = S ''telegram'') ns = Some tg"
      using assms by (auto simp: cross_check_def split: option.splits)
    then have "gsm \<in> set ns" "tg \<in> set ns" "nd_role gsm = S ''gsm''" "nd_role tg = S ''telegram''"
      by (auto simp: find_Some_iff)
    then show ?thesis using False f assms chain by (auto simp: cross_check_def check_answered_def Let_def split: prod.splits) blast+
  qed
qed

lemma each_node_length: "length (fst (each_node f ns log)) = length ns"
  by (induction ns arbitrary: log) (auto split: prod.split, metis fst_conv)

lemma resolve_length: "length (resolve_ips pc asked sh ns) = length ns"
proof -
  have "length (case xs of [a, b] \<Rightarrow> [f a b, g a b] | ns \<Rightarrow> ns) = length xs" for f g :: "node \<Rightarrow> node \<Rightarrow> node" and xs
    by (simp split: list.split)
  from this [where xs = "map (own_address pc asked) ns" and f = "\<lambda>a b. a\<lparr>nd_peer_ip := nd_own_ip b\<rparr>"
      and g = "\<lambda>a b. b\<lparr>nd_peer_ip := nd_own_ip a\<rparr>"]
  show ?thesis by (simp add: resolve_ips_def)
qed

lemma filter_eq_all: "length (map f (filter P xs)) = length xs \<Longrightarrow> filter P xs = xs"
  by (metis filter_id_conv length_filter_less length_map less_irrefl)

lemma orchestrate_sound:
  assumes "orchestrate rem nbytes readable installer pc asked wipes sh nodes = Some (status, final, log)" and "nodes \<noteq> []"
  shows "length final = length nodes \<and> status \<in> {0, 2}
    \<and> (status = 0 \<longrightarrow> (\<forall>n \<in> set final. nd_ok n \<and> ran rem log (nd_name n) RunInstaller 0) \<and> check_answered rem log sh final)"
proof -
  let ?f = "install_node rem nbytes readable installer sh"
  obtain prepared l1 where p: "each_node (prepare_node rem wipes) nodes [] = (prepared, l1)" by fastforce
  obtain results l2 where r: "install_all ?f sh (resolve_ips pc asked sh prepared) l1 = (results, l2)" by fastforce
  have "length prepared = length nodes" using each_node_length [of "prepare_node rem wipes" nodes "[]"] by (simp add: p)
  then have len: "length results = length nodes"
    using install_all_facts [OF r] resolve_length [of pc asked sh prepared] by simp
  then have ne: "map fst results \<noteq> []" using assms(2) by auto
  let ?deployed = "map fst (filter snd results)"
  show ?thesis
  proof (cases "length ?deployed = length results")
    case False
    then have "status = 2" "final = map fst results" using assms(1) ne by (simp_all add: orchestrate_def p r Let_def)
    then show ?thesis using len by simp
  next
    case True
    then have all: "filter snd results = results" by (simp add: filter_eq_all)
    then obtain problems l3 where c: "cross_check rem sh (map fst results) l2 = Some (problems, l3)"
        and out: "status = (if problems = [] \<and> list_all nd_ok (map fst results) then 0 else 2)" "final = map fst results" "log = l3"
      using assms(1) ne by (auto simp: orchestrate_def p r Let_def split: option.splits)
    have "\<forall>n \<in> set final. nd_ok n \<and> ran rem log (nd_name n) RunInstaller 0" "check_answered rem log sh final" if "status = 0"
    proof -
      have ok: "problems = []" "list_all nd_ok final" using that out(1,2) by (auto split: if_splits)
      have after: "prefix l2 log" "check_answered rem log sh final" using cross_check_answered c ok(1) out(2,3) by blast+
      show "check_answered rem log sh final" by (fact after)
      have "\<forall>r \<in> set results. snd r" using all by (metis filter_id_conv)
      then show "\<forall>n \<in> set final. nd_ok n \<and> ran rem log (nd_name n) RunInstaller 0"
        using install_all_facts [OF r] ok(2) after(1) ran_mono out(2) by (fastforce simp: list_all_iff)
    qed
    then show ?thesis using len out(1,2) by simp
  qed
qed

text \<open>C9: exit status 0 is only reported for a deployment in which every part was a success: on every node the installer
  ran to its end with exit status 0, and the requests of the final check, each made from the opposite node, were
  answered. Otherwise the status is 2.\<close>
theorem deployment_success_sound:
  assumes "orchestrate rem nbytes readable installer pc asked wipes sh nodes = Some (status, final, log)" and "nodes \<noteq> []"
  shows "length final = length nodes \<and> status \<in> {0, 2}
    \<and> (status = 0 \<longrightarrow> (\<forall>n \<in> set final. nd_ok n \<and> ran rem log (nd_name n) RunInstaller 0) \<and> check_answered rem log sh final)"
  by (rule orchestrate_sound [OF assms])

section \<open>From the questions to the report\<close>

lemma preflight_role: "nd_role (fst (snd (preflight k rem prev n log))) = nd_role n"
  by (induction k arbitrary: prev log) (simp_all add: run_remote_def note_state_def Let_def split: prod.split)

lemma prepare_role: "nd_role (fst (prepare_node rem wipes n log)) = nd_role n"
  using preflight_role [of 2 rem "[]" n log]
  by (auto simp: prepare_node_def failed_with_def split: prod.splits option.splits)

lemma each_node_roles: "(\<And>n log. nd_role (fst (f n log)) = nd_role n) \<Longrightarrow> map nd_role (fst (each_node f ns log)) = map nd_role ns"
proof (induction ns arbitrary: log)
  case (Cons n ns)
  obtain n1 l1 where "f n log = (n1, l1)" by fastforce
  moreover obtain ns1 l2 where "each_node f ns l1 = (ns1, l2)" by fastforce
  ultimately show ?case using Cons.IH [OF Cons.prems, of l1] Cons.prems [of n log] by simp
qed simp

lemma resolve_roles: "map nd_role (resolve_ips pc asked sh ns) = map nd_role ns"
proof -
  have "map nd_role (case xs of [a, b] \<Rightarrow> [a\<lparr>nd_peer_ip := nd_own_ip b\<rparr>, b\<lparr>nd_peer_ip := nd_own_ip a\<rparr>] | ns \<Rightarrow> ns) = map nd_role xs" for xs
    by (simp split: list.split)
  from this [of "map (own_address pc asked) ns"]
  have "map nd_role (resolve_ips pc asked sh ns) = map nd_role (map (own_address pc asked) ns)" if "sh_type sh = S ''distributed''"
    unfolding resolve_ips_def using that by simp
  moreover have "nd_role (own_address pc asked n) = nd_role n" for n by (simp add: own_address_def Let_def)
  ultimately show ?thesis by (cases "sh_type sh = S ''distributed''") (simp_all add: resolve_ips_def)
qed

lemma install_all_roles:
  "install_all (install_node rem nbytes readable installer sh) sh ns log = (results, log1) \<Longrightarrow>
     map (\<lambda>r. nd_role (fst r)) results = map nd_role ns"
proof (induction ns arbitrary: log results log1)
  case (Cons n ns)
  let ?f = "install_node rem nbytes readable installer sh"
  obtain d n1 l1 where h: "(if blocked sh n then (False, n, log) else ?f n log) = (d, n1, l1)" by (metis prod_cases3)
  obtain rest l2 where r: "install_all ?f sh ns l1 = (rest, l2)" by fastforce
  have "install_all ?f sh (n # ns) log = ((n1, d) # rest, l2)" by (simp only: install_all.simps h r prod.case)
  from trans [OF this [symmetric] Cons.prems] have "results = (n1, d) # rest" by simp
  moreover have "nd_role n1 = nd_role n"
    using h install_node_facts(3) [of rem nbytes readable installer sh n log d n1 l1] by (auto split: if_splits)
  ultimately show ?case using Cons.IH [OF r] by simp
qed simp

lemma cross_check_runs:
  assumes "sh_type sh = S ''single'' \<or> {S ''gsm'', S ''telegram''} \<subseteq> nd_role ` set ns"
  shows "cross_check rem sh ns log \<noteq> None"
proof (cases "sh_type sh = S ''single''")
  case True
  then show ?thesis by (simp add: cross_check_def Let_def split: prod.split)
next
  case False
  have find: "\<exists>n. List.find P ns = Some n" if "\<exists>n \<in> set ns. P n" for P
    using that by (cases "List.find P ns") (auto simp: find_None_iff)
  have "\<exists>n \<in> set ns. nd_role n = S ''gsm''" "\<exists>n \<in> set ns. nd_role n = S ''telegram''" using assms False by (auto simp: image_iff eq_commute)
  from this [THEN find] obtain g u where "List.find (\<lambda>n. nd_role n = S ''gsm'') ns = Some g" "List.find (\<lambda>n. nd_role n = S ''telegram'') ns = Some u"
    by blast
  then show ?thesis using False by (simp add: cross_check_def Let_def split: prod.split)
qed

lemma orchestrate_runs:
  assumes "sh_type sh = S ''single'' \<or> {S ''gsm'', S ''telegram''} \<subseteq> nd_role ` set nodes"
  shows "orchestrate rem nbytes readable installer pc asked wipes sh nodes \<noteq> None"
proof -
  obtain prepared l1 where p: "each_node (prepare_node rem wipes) nodes [] = (prepared, l1)" by fastforce
  obtain results l2 where r: "install_all (install_node rem nbytes readable installer sh) sh (resolve_ips pc asked sh prepared) l1 = (results, l2)" by fastforce
  have "map nd_role (map fst results) = map nd_role nodes"
    using each_node_roles [of "prepare_node rem wipes" nodes "[]", OF prepare_role] install_all_roles [OF r] by (simp add: p resolve_roles comp_def)
  then have roles: "nd_role ` set (map fst results) = nd_role ` set nodes" by (metis list.set_map)
  show ?thesis
  proof (cases "length (map fst (filter snd results)) = length results")
    case True
    then have "filter snd results = results" by (rule filter_eq_all)
    moreover have "cross_check rem sh (map fst results) l2 \<noteq> None" using assms roles by (intro cross_check_runs) simp
    ultimately show ?thesis by (auto simp: orchestrate_def p r Let_def)
  next
    case False
    then show ?thesis by (simp add: orchestrate_def p r Let_def)
  qed
qed

lemma ask_nodes_length: "length (fst (ask_nodes me n ls)) = n"
  by (induction n arbitrary: ls) (simp_all add: Let_def split: prod.split, metis fst_conv)

lemma ask_ids_roles: "map nd_role (fst (ask_ids ns ds ls)) = map nd_role ns"
  by (induction ns ds ls rule: ask_ids.induct) (auto simp: Let_def split: prod.splits)

lemma topology_roles:
  assumes "ask_topology me ls = (kind, nodes, rest)"
  shows "nodes \<noteq> [] \<and> (kind = S ''single'' \<or> kind = S ''distributed'' \<and> {S ''gsm'', S ''telegram''} \<subseteq> nd_role ` set nodes)"
proof (cases "startswith (lower (fst (ask_q False (S ''s'') ls))) (S ''t'')")
  case True
  obtain u l1 where q1: "ask_q False (S ''s'') ls = (u, l1)" by fastforce
  obtain ns l2 where q2: "ask_nodes me 2 l1 = (ns, l2)" by fastforce
  obtain w l3 where q3: "ask_q False (S ''1'') l2 = (w, l3)" by fastforce
  have "length ns = 2" using ask_nodes_length [of me 2 l1] by (simp only: q2 fst_conv)
  then obtain a b where ns: "ns = [a, b]" by (auto simp: numeral_2_eq_2 length_Suc_conv)
  have "nodes = fst (ask_ids (with_roles (strip w = S ''2'') ns) [''gsm-1'', ''tg-1''] l3)" "kind = S ''distributed''"
    using assms True by (simp_all add: ask_topology_def q1 q2 q3 Let_def split: prod.splits)
  then have eq: "map nd_role nodes = map nd_role (with_roles (strip w = S ''2'') ns)" by (simp add: ask_ids_roles)
  have "map nd_role (with_roles x ns) \<noteq> []" "{S ''gsm'', S ''telegram''} \<subseteq> set (map nd_role (with_roles x ns))" for x
    by (simp_all add: with_roles_def ns)
  from this [of "strip w = S ''2''"] have "nodes \<noteq> []" "{S ''gsm'', S ''telegram''} \<subseteq> nd_role ` set nodes"
    unfolding eq [symmetric] by auto
  then show ?thesis using \<open>kind = S ''distributed''\<close> by blast
next
  case False
  obtain u l1 where q1: "ask_q False (S ''s'') ls = (u, l1)" by fastforce
  obtain ns l2 where q2: "ask_nodes me 1 l1 = (ns, l2)" by fastforce
  have "nodes = fst (ask_ids (map (\<lambda>n. n\<lparr>nd_role := S ''all-in-one''\<rparr>) ns) [''simbridge-1''] l2)" "kind = S ''single''"
    using assms False by (simp_all add: ask_topology_def q1 q2 Let_def del: ask_nodes.simps One_nat_def split: prod.splits)
  moreover have "length ns = 1" using ask_nodes_length [of me 1 l1] by (simp only: q2 fst_conv)
  then have "ns \<noteq> []" by auto
  ultimately show ?thesis using ask_ids_roles by (metis list.map_disc_iff)
qed


text \<open>The default ids of two nodes go by position: when the second is the GSM node, the first, the Telegram node, is
  offered the id gsm-1.\<close>
theorem default_ids_by_position:
  "map (\<lambda>n. (nd_role n, nd_id n)) (fst (snd (ask_topology me (map S [''t'', ''a'', ''u'', ''b'', ''u'', ''2''])))) =
     [(S ''telegram'', S ''gsm-1''), (S ''gsm'', S ''tg-1'')]"
proof -
  have w: "strip (S s) = S s" if "s \<in> {''t'', ''a'', ''u'', ''b'', ''2''}" for s
    using that by (auto simp: S_def strip_no_space is_space_def space_points_def)
  have q: "ask_q r d (S s # ls) = (S s, ls)" if "s \<in> {''t'', ''a'', ''u'', ''b'', ''2''}" for r d s ls
    using w that by auto
  have "startswith (lower (S ''t'')) (S ''t'')" by (simp add: lower_def lower_cp_def S_def startswith_def)
  then show ?thesis
    by (simp add: ask_topology_def q numeral_2_eq_2 LOCAL_NAMES_def with_roles_def new_node_def w Let_def)
qed

text \<open>The question at the PC asks for ids with commas between them; the installer takes blanks and refuses them.\<close>
theorem comma_ids_refused:
  "gather_acl [(S ''acl_ids'', S ''1,2'')] s = Inl (BadAclIds [S ''1,2''])"
proof -
  have "split_ws (S ''1,2'') = [S ''1,2'']" by (simp add: S_def split_ws.simps lstrip_def is_space_def space_points_def)
  moreover have "\<not> all_digits (S ''1,2'')" by (simp add: all_digits_def S_def is_digit_def decimal_blocks_def digit_ranges_def is_decimal_def)
  ultimately show ?thesis by (simp add: gather_acl_def ans_str_def then_do_def invalid_acl_tokens_def)
qed

text \<open>An update ignores the modem model in the answers when the configuration has one.\<close>
theorem modem_answer_ignored:
  assumes "gather_gsm ans fr fs s = Inr s'" and "is_gsm s" and "in_modem_model s \<noteq> []"
  shows "in_modem_model s' = in_modem_model s"
  using assms by (auto simp: gather_gsm_def then_do_def split: sum.splits)

section \<open>Examples\<close>

definition sample_shared :: shared where
  "sample_shared =
     \<lparr>sh_type = S ''distributed'', sh_branch = S ''main'', sh_tg_api_id = S ''1'', sh_tg_api_hash = S ''h'', sh_tg_username = S ''me'',
      sh_acl_ids = S ''7 8'', sh_ts_tag = S ''tag:x'', sh_sim_phone = [], sh_modem_model = S ''Huawei E173'', sh_dongle_name = [],
      sh_agent_token = S ''t'', sh_bridge_secret = S ''b'', sh_http_secret = S ''w''\<rparr>"

definition sample_node :: "string \<Rightarrow> string \<Rightarrow> string \<Rightarrow> string \<Rightarrow> node" where
  "sample_node name role own peer = (new_node (S name) (S ''u''))\<lparr>nd_role := S role, nd_own_ip := S own, nd_peer_ip := S peer\<rparr>"

abbreviation "node_a \<equiv> sample_node ''a'' ''gsm'' ''10.0.0.1'' ''10.0.0.2''"
abbreviation "node_b \<equiv> sample_node ''b'' ''telegram'' ''10.0.0.2'' ''10.0.0.1''"

lemma answer_value_text:
  assumes "list_all (\<lambda>c. 32 \<le> (of_char c :: nat) \<and> of_char c \<le> (126 :: nat)) s" and "s \<noteq> []"
    and "of_char (hd s) \<notin> {32, 34, 39 :: nat}" "of_char (last s) \<notin> {32, 34, 39 :: nat}"
  shows "answer_value (S s)"
proof -
  have ends: "hd (S s) = of_char (hd s)" "last (S s) = of_char (last s)" using assms(2) by (simp_all add: S_def hd_map last_map)
  have "\<not> is_space c" if "33 \<le> c \<and> c \<le> 126" for c using that by (auto simp: is_space_def space_points_def)
  moreover have "33 \<le> (of_char c :: nat) \<and> of_char c \<le> (126 :: nat)" if "c \<in> set s" "of_char c \<noteq> (32 :: nat)" for c
    using that assms(1) by (fastforce simp: list_all_iff)
  ultimately have "strip (S s) = S s" using assms(2-4) ends by (intro strip_no_space) auto
  moreover have "unbroken (S s)" using assms(1) by (rule unbroken_print)
  ultimately show ?thesis using assms(3,4) ends by (simp add: answer_value_def)
qed

lemma sample_texts:
  "list_all answer_value (map S [''Two-node (distributed)'', ''GSM node (Asterisk + modem)'', ''Telegram node (userbot)'', ''true'', ''false'', ''Huawei E173'',
     ''1'', ''h'', ''me'', ''t'', ''b'', ''w'', ''10.0.0.1'', ''10.0.0.2'', ''tag:x'', ''7 8''])"
  by (simp add: answer_value_text)

lemma sample_answers:
  "list_all answer_value (dvalues (build_answers node_a sample_shared)) \<and> list_all answer_value (dvalues (build_answers node_b sample_shared))"
  using sample_texts
  by (simp add: build_answers_def given_def sample_node_def new_node_def sample_shared_def bool_text_def
      OPT_DISTRIBUTED_def OPT_ROLE_GSM_def OPT_ROLE_TG_def)

lemma sample_deployable: "deployable sample_shared node_a" "deployable sample_shared node_b"
proof -
  have "split_ws (S ''7 8'') = [S ''7'', S ''8'']" by (simp add: S_def split_ws.simps lstrip_def is_space_def space_points_def)
  then have "invalid_acl_tokens (S ''7 8'') = []" by (simp add: invalid_acl_tokens_def all_digits_def S_def is_digit_def)
  then show "deployable sample_shared node_a" "deployable sample_shared node_b"
    using sample_answers by (simp_all add: deployable_def) (simp_all add: sample_node_def new_node_def sample_shared_def)
qed

theorem answers_reach_installer_witness:
  "load_answers (answers_env_text (build_answers node_a sample_shared)) = build_answers node_a sample_shared"
  by (rule answers_reach_installer) (use sample_answers in \<open>simp add: list_all_iff\<close>)



definition sample_remote :: remote where
  "sample_remote log host c =
     (case c of
        ProbeNode \<Rightarrow> (0, S ''SUDO_OK=1'')
      | Upload content secret \<Rightarrow> (0, S ''UPLOAD_OK'')
      | UploadedSize secret \<Rightarrow> (0, case last log of (_, Upload content _) \<Rightarrow> nat_text (length content) | _ \<Rightarrow> [])
      | Compile \<Rightarrow> (0, S ''BOOTSTRAP_OK'')
      | _ \<Rightarrow> (0, S ''x''))"

abbreviation "local_node \<equiv> (new_node (S ''local'') (S ''u''))\<lparr>nd_role := S ''all-in-one''\<rparr>"

lemma sample_uploaded: "upload_remote sample_remote host content (length content) secret log
    = ((0, S ''UPLOAD_OK''), log @ [(host, Upload content secret), (host, UploadedSize secret)])"
proof -
  have "strip (nat_text k) = nat_text k" for k using nat_text_decimal by (intro decimals_strip) auto
  moreover have "occurs_in (S ''UPLOAD_OK'') (S ''UPLOAD_OK'')" unfolding occurs_in_iff by (metis append_Nil append_Nil2)
  ultimately show ?thesis by (simp add: upload_remote_def run_remote_def sample_remote_def)
qed

lemma sample_prepared: "prepare_node sample_remote (\<lambda>_. False) local_node []
    = (local_node, [(S ''local'', ProbeNode)])"
proof -
  have p: "parse_preflight (S ''SUDO_OK=1'') = [(S ''SUDO_OK'', S ''1'')]"
    by (simp add: parse_preflight_def split_lines_def S_def is_break_def chomp_def strip_no_space is_space_def space_points_def)
  show ?thesis
    by (simp add: prepare_node_def numeral_2_eq_2 run_remote_def sample_remote_def p new_node_def note_state_def lookup_or_def Let_def)
qed

lemma sample_installed: "\<exists>n log1. install_node sample_remote length (\<lambda>_. True) (S ''x'') sh local_node log = (True, n, log1)
    \<and> nd_ok n \<and> nd_name n = S ''local''"
proof -
  have marks: "occurs_in (S ''UPLOAD_OK'') (S ''UPLOAD_OK'')" "occurs_in (S ''BOOTSTRAP_OK'') (S ''BOOTSTRAP_OK'')"
    unfolding occurs_in_iff by (metis append_Nil append_Nil2)+
  have "run_remote sample_remote h c l = ((0, S ''x''), l @ [(h, c)])" if "c \<in> {MakeStage, RunInstaller, FetchResult, CleanStage}" for h c l
    using that by (auto simp: run_remote_def sample_remote_def)
  moreover have "run_remote sample_remote h Compile l = ((0, S ''BOOTSTRAP_OK''), l @ [(h, Compile)])" for h l
    by (simp add: run_remote_def sample_remote_def)
  moreover have "strip (S ''x'') \<noteq> []" by (simp add: S_def strip_no_space is_space_def space_points_def)
  ultimately show ?thesis
    by (simp add: install_node_def Let_def sample_uploaded sample_uploaded [where content = "S ''x''", simplified] marks
        finish_node_def new_node_def)
qed

abbreviation "single_shared \<equiv> sample_shared\<lparr>sh_type := S ''single''\<rparr>"

lemma sample_orchestrated: "\<exists>final log. orchestrate sample_remote length (\<lambda>_. True) (S ''x'') [] (\<lambda>_. []) (\<lambda>_. False) single_shared [local_node] = Some (0, final, log)"
proof -
  obtain n l1 where i: "install_node sample_remote length (\<lambda>_. True) (S ''x'') single_shared local_node [(S ''local'', ProbeNode)] = (True, n, l1)"
    "nd_ok n" using sample_installed by blast
  have c: "check_from sample_remote h (CurlUserbot u) p l = ([], l @ [(h, CurlUserbot u)])"
    "check_from sample_remote h (CurlAgent u v) p l = ([], l @ [(h, CurlAgent u v)])" for h u v p l
    by (simp_all add: check_from_def run_remote_def sample_remote_def)
  have "\<not> blocked single_shared local_node" by (simp add: blocked_def new_node_def)
  moreover have "resolve_ips [] (\<lambda>_. []) single_shared ns = ns" for ns by (simp add: resolve_ips_def)
  ultimately show ?thesis
    using i(2) by (simp add: orchestrate_def sample_prepared i(1) cross_check_def c Let_def)
qed

theorem deployment_success_sound_witness:
  "\<exists>final log. orchestrate sample_remote length (\<lambda>_. True) (S ''x'') [] (\<lambda>_. []) (\<lambda>_. False) single_shared [local_node] = Some (0, final, log)
     \<and> (\<forall>n \<in> set final. nd_ok n \<and> ran sample_remote log (nd_name n) RunInstaller 0) \<and> check_answered sample_remote log single_shared final"
proof -
  obtain final log where o: "orchestrate sample_remote length (\<lambda>_. True) (S ''x'') [] (\<lambda>_. []) (\<lambda>_. False) single_shared [local_node] = Some (0, final, log)"
    using sample_orchestrated by blast
  from deployment_success_sound [OF this] show ?thesis using o by auto
qed


end
