(* ===== verification/Health.thy ===== *)
theory Health
  imports AmiClient Alerting Config "HOL-Library.Product_Lexorder"
begin

text \<open>
  \<open>core/health.py\<close> and the routes \<open>/v1/health\<close> and \<open>/v1/modems\<close>: the component checks, their
  aggregation, and what the supervisor reads from them.

  What the checks meet is an argument: the outcome of the one status query they share (\<open>fetch\<close>), of
  the request to the userbot (\<open>probe\<close>) and of the TCP connection to the bridge. \<open>last_check\<close> of a
  component is not modelled; nothing reads it.
\<close>

section \<open>Components\<close>

record component =
  co_name :: str
  co_healthy :: bool
  co_detail :: str
  co_data :: "cfg option"

definition component_of :: "string \<Rightarrow> bool \<Rightarrow> str \<Rightarrow> component" where
  "component_of name healthy detail =
     \<lparr>co_name = S name, co_healthy = healthy, co_detail = detail, co_data = None\<rparr>"

definition critical_components :: "str list" where
  "critical_components = [S ''asterisk'', S ''modem'', S ''agent_process'']"

text \<open>\<open>HealthStatus.status\<close>\<close>
definition health_status :: "component list \<Rightarrow> str" where
  "health_status cs =
     (if cs = [] then S ''unknown''
      else if list_all co_healthy cs then S ''ok''
      else if list_ex (\<lambda>c. \<not> co_healthy c \<and> co_name c \<in> set critical_components) cs then S ''critical''
      else S ''degraded'')"

definition health_to_dict :: "str \<Rightarrow> component list \<Rightarrow> cfg" where
  "health_to_dict timestamp cs =
     [(S ''status'', JStr (health_status cs)),
      (S ''components'', JObj (fold (\<lambda>c d. dput (co_name c)
          (JObj ([(S ''healthy'', JBool (co_healthy c)), (S ''detail'', JStr (co_detail c))]
             @ (case co_data c of None \<Rightarrow> [] | Some x \<Rightarrow> [(S ''data'', JObj x)]))) d) cs [])),
      (S ''timestamp'', JStr timestamp)]"

section \<open>The checks\<close>

text \<open>The status query: an answer (\<open>None\<close> for "no device entry"), a \<open>ConnectionError\<close>, another
  \<open>OSError\<close>, or any other exception; with the text of the exception.\<close>
datatype fetch =
    Fetched "modem_status option"
  | FetchConnection str
  | FetchOSError str
  | FetchError str

definition option_text :: "str option \<Rightarrow> str" where
  "option_text v = (case v of None \<Rightarrow> S ''None'' | Some s \<Rightarrow> s)"

text \<open>A check ends with a component, or with an exception and its text.\<close>
definition check_asterisk :: "fetch option \<Rightarrow> str + component" where
  "check_asterisk ami =
     (case ami of
        None \<Rightarrow> Inr (component_of ''asterisk'' False (S ''no AMI client''))
      | Some (Fetched st) \<Rightarrow>
          Inr (component_of ''asterisk'' True (S ''AMI connected, dongle=''
                 @ (case st of None \<Rightarrow> S ''unknown'' | Some s \<Rightarrow> ms_device s)))
      | Some (FetchConnection _) \<Rightarrow> Inr (component_of ''asterisk'' False (S ''AMI connection failed''))
      | Some (FetchOSError e) \<Rightarrow> Inr (component_of ''asterisk'' False (S ''AMI error: '' @ e))
      | Some (FetchError e) \<Rightarrow> Inl e)"

definition check_modem :: "fetch option \<Rightarrow> str + component" where
  "check_modem ami =
     (case ami of
        None \<Rightarrow> Inr (component_of ''modem'' False (S ''no AMI client''))
      | Some (Fetched st) \<Rightarrow>
          (case st of
             Some s \<Rightarrow>
               if ms_registered s
               then Inr (component_of ''modem'' True
                      (S ''registered to '' @ option_text (ms_operator s) @ S '', signal=''
                       @ option_text (map_option int_text (ms_signal s)) @ S ''%''))
               else Inr (component_of ''modem'' False (S ''not registered to any network''))
           | None \<Rightarrow> Inr (component_of ''modem'' False (S ''not registered to any network'')))
      | Some (FetchConnection _) \<Rightarrow>
          Inr (component_of ''modem'' False (S ''cannot query modem '' @ [8212] @ S '' AMI down''))
      | Some (FetchOSError e) \<Rightarrow> Inl e
      | Some (FetchError e) \<Rightarrow> Inl e)"

definition check_agent_process :: component where
  "check_agent_process = component_of ''agent_process'' True (S ''running'')"

text \<open>The answer of \<open>GET /health\<close> on the userbot: a status and its JSON body, or an HTTP error.\<close>
datatype probe =
    ProbeStatus int "json option"
  | ProbeFailed str

text \<open>A text of a validated configuration; null and missing are falsy, like the empty text.\<close>
definition cfg_text :: "cfg \<Rightarrow> string \<Rightarrow> str" where
  "cfg_text cfg key = (case cfg_get cfg key (JStr []) of JStr s \<Rightarrow> s | _ \<Rightarrow> [])"

text \<open>The secret that authenticates the probe, and the variable it comes from.\<close>
definition peer_secret_env :: "cfg \<Rightarrow> str" where
  "peer_secret_env cfg =
     (if cfg_text cfg ''userbot_http.secret_env'' = [] then S ''SIMBRIDGE_HTTP_SECRET''
      else cfg_text cfg ''userbot_http.secret_env'')"

definition check_peer_node :: "(str \<Rightarrow> str option) \<Rightarrow> (str \<Rightarrow> str \<Rightarrow> probe) \<Rightarrow> cfg option \<Rightarrow> component" where
  "check_peer_node environ http_get cfg =
     (case cfg of
        None \<Rightarrow> component_of ''peer_node'' False (S ''no config'')
      | Some cfg \<Rightarrow>
          if cfg = [] then component_of ''peer_node'' False (S ''no config'')
          else
            (let url = rstrip_cp 47 (cfg_text cfg ''agent.userbot_url'');
                 var = peer_secret_env cfg;
                 secret = (case environ var of None \<Rightarrow> [] | Some s \<Rightarrow> s)
             in if url = [] then component_of ''peer_node'' False (S ''no agent.userbot_url'')
                else if secret = [] then component_of ''peer_node'' False (S ''secret '' @ var @ S '' not set'')
                else
                  (case http_get (url @ S ''/health'') secret of
                     ProbeFailed e \<Rightarrow> component_of ''peer_node'' False (S ''connection failed: '' @ e)
                   | ProbeStatus code body \<Rightarrow>
                       if code = 200
                       then (component_of ''peer_node'' True (S ''HTTP 200''))
                              \<lparr>co_data := (case body of Some (JObj d) \<Rightarrow> Some d | _ \<Rightarrow> None)\<rparr>
                       else component_of ''peer_node'' False (S ''HTTP '' @ int_text code))))"

definition check_telegram_session :: component where
  "check_telegram_session = component_of ''telegram_session'' False (S ''checked on Telegram node only'')"

text \<open>\<open>check_bridge\<close>; \<open>tcp host port\<close> is \<open>None\<close> when the connection opens, else the text of the error.\<close>
definition check_bridge :: "(str \<Rightarrow> int \<Rightarrow> str option) \<Rightarrow> cfg option \<Rightarrow> component" where
  "check_bridge tcp cfg =
     (case cfg of
        None \<Rightarrow> component_of ''bridge'' False (S ''no config'')
      | Some cfg \<Rightarrow>
          if cfg = [] then component_of ''bridge'' False (S ''no config'')
          else
            (let host = cfg_text cfg ''voice.bridge_host'';
                 port = (case cfg_get cfg ''voice.bridge_port'' (JInt 5062) of JInt p \<Rightarrow> p | _ \<Rightarrow> 0)
             in if host = [] then component_of ''bridge'' False (S ''no bridge_host configured'')
                else (case tcp host port of
                        None \<Rightarrow> component_of ''bridge'' True (S ''TCP '' @ host @ S '':'' @ int_text port @ S '' open'')
                      | Some e \<Rightarrow> component_of ''bridge'' False (S ''unreachable: '' @ e))))"

section \<open>All checks\<close>

record health_env =
  he_cfg :: "cfg option"
  he_environ :: "str \<Rightarrow> str option"
  he_ami :: "fetch option"
  he_http :: "str \<Rightarrow> str \<Rightarrow> probe"
  he_tcp :: "str \<Rightarrow> int \<Rightarrow> str option"

definition gathered :: "str + component \<Rightarrow> component" where
  "gathered r = (case r of Inl e \<Rightarrow> component_of ''unknown'' False e | Inr c \<Rightarrow> c)"

text \<open>The components in the order they are appended, and sorted by \<open>(not healthy, name)\<close>.\<close>
definition checked :: "health_env \<Rightarrow> component list" where
  "checked he =
     [check_agent_process, gathered (check_asterisk (he_ami he)), gathered (check_modem (he_ami he)),
      check_peer_node (he_environ he) (he_http he) (he_cfg he), check_bridge (he_tcp he) (he_cfg he)]"

definition check_all :: "health_env \<Rightarrow> component list" where
  "check_all he = sort_key (\<lambda>c. (\<not> co_healthy c, co_name c)) (checked he)"

text \<open>What the supervisor takes from the components: its dictionary by name.\<close>
definition by_name :: "component list \<Rightarrow> string \<Rightarrow> component option" where
  "by_name cs name = List.find (\<lambda>c. co_name c = S name) (rev cs)"

definition observe :: "component list \<Rightarrow> modem_info option \<Rightarrow> observation" where
  "observe cs info =
     \<lparr>ob_bridge = map_option co_healthy (by_name cs ''bridge''),
      ob_peer = map_option (\<lambda>c.
          \<lparr>ps_healthy = co_healthy c, ps_detail = co_detail c,
           ps_telegram = (case co_data c of
              None \<Rightarrow> None
            | Some d \<Rightarrow> (case dget d (S ''telegram_connected'') of Some (JBool b) \<Rightarrow> Some b | _ \<Rightarrow> None))\<rparr>)
        (by_name cs ''peer_node''),
      ob_modem = info\<rparr>"

section \<open>Routes\<close>

record health_response =
  hr_status :: str
  hr_asterisk :: bool
  hr_registered :: "bool option"
  hr_components :: cfg
  hr_metrics :: metrics_export

text \<open>\<open>GET /v1/health\<close>: one query of its own, then all checks with another (\<open>he_ami\<close>).\<close>
definition health_route ::
    "int \<Rightarrow> str \<Rightarrow> fetch \<Rightarrow> health_env \<Rightarrow> metrics \<Rightarrow> (http_error + health_response) \<times> metrics" where
  "health_route mono_now timestamp query he m =
     (case query of
        FetchError e \<Rightarrow> (Inl (Unhandled e), m)
      | _ \<Rightarrow>
          (let ok = (case query of Fetched _ \<Rightarrow> True | _ \<Rightarrow> False);
               registered = (case query of
                   Fetched st \<Rightarrow> Some (case st of None \<Rightarrow> False | Some s \<Rightarrow> ms_registered s) | _ \<Rightarrow> None);
               m' = set_modem_registered mono_now registered m
           in (Inr \<lparr>hr_status = (if ok then S ''ok'' else S ''degraded''), hr_asterisk = ok,
                    hr_registered = registered, hr_components = health_to_dict timestamp (check_all he),
                    hr_metrics = get_all mono_now m'\<rparr>, m')))"

record modem_view =
  mv_device :: str
  mv_registered :: bool
  mv_signal :: "int option"
  mv_operator :: "str option"
  mv_imei :: "str option"

definition get_modems :: "fetch \<Rightarrow> http_error + modem_view list" where
  "get_modems query =
     (case query of
        FetchConnection _ \<Rightarrow> Inl (HTTPException 503 (S ''Asterisk AMI unreachable''))
      | FetchOSError e \<Rightarrow> Inl (Unhandled e)
      | FetchError e \<Rightarrow> Inl (Unhandled e)
      | Fetched None \<Rightarrow>
          Inr [\<lparr>mv_device = S ''unknown'', mv_registered = False, mv_signal = None, mv_operator = None, mv_imei = None\<rparr>]
      | Fetched (Some s) \<Rightarrow>
          Inr [\<lparr>mv_device = (if ms_device s = [] then S ''unknown'' else ms_device s), mv_registered = ms_registered s,
                mv_signal = ms_signal s, mv_operator = ms_operator s, mv_imei = ms_imei s\<rparr>])"

section \<open>Lemmas\<close>

lemma health_status_perm: "mset cs = mset cs' \<Longrightarrow> health_status cs = health_status cs'"
proof -
  assume m: "mset cs = mset cs'"
  then have "set cs = set cs'" by (rule mset_eq_setD)
  moreover from m have "cs = [] \<longleftrightarrow> cs' = []" by auto
  ultimately show ?thesis unfolding health_status_def list_all_iff list_ex_iff by auto
qed

lemma health_status_check_all: "health_status (check_all he) = health_status (checked he)"
  by (rule health_status_perm) (simp add: check_all_def)

lemma component_simps [simp]:
  "co_name (component_of n h d) = S n" "co_healthy (component_of n h d) = h" "co_detail (component_of n h d) = d"
  "co_data (component_of n h d) = None"
  by (simp_all add: component_of_def)

lemma peer_name [simp]: "co_name (check_peer_node environ http cfg) = S ''peer_node''"
  by (auto simp: check_peer_node_def Let_def split: option.split probe.split)

lemma bridge_name [simp]: "co_name (check_bridge tcp cfg) = S ''bridge''"
  by (auto simp: check_bridge_def Let_def split: option.split)

text \<open>The modem answered and is registered; or the query failed in a way a check reports by name.\<close>
definition modem_fine :: "fetch option \<Rightarrow> bool" where
  "modem_fine ami \<longleftrightarrow> (\<exists>s. ami = Some (Fetched (Some s)) \<and> ms_registered s)"

lemmas aggregate_simps = health_status_def checked_def modem_fine_def gathered_def check_agent_process_def
  check_asterisk_def check_modem_def critical_components_def

section \<open>Properties\<close>

text \<open>The aggregate status, from what the checks meet. It is "ok" exactly when the modem is
  registered and the userbot and the bridge answer; otherwise "critical" when the modem side is
  at fault, except when the status query ended in an exception that is no \<open>OSError\<close>: both checks
  that share the query become components named "unknown", and the status is only "degraded".\<close>
theorem health_status_exact:
  "health_status (check_all he) =
     (if modem_fine (he_ami he)
      then (if co_healthy (check_peer_node (he_environ he) (he_http he) (he_cfg he))
               \<and> co_healthy (check_bridge (he_tcp he) (he_cfg he))
            then S ''ok'' else S ''degraded'')
      else (case he_ami he of Some (FetchError _) \<Rightarrow> S ''degraded'' | _ \<Rightarrow> S ''critical''))"
    (is "_ = ?status")
  unfolding health_status_check_all
proof (cases "he_ami he")
  case None
  then show "health_status (checked he) = ?status" by (simp add: aggregate_simps)
next
  case (Some f)
  show "health_status (checked he) = ?status"
  proof (cases f)
    case (Fetched st)
    with Some show ?thesis by (cases st) (simp_all add: aggregate_simps)
  qed (simp_all add: Some aggregate_simps)
qed

text \<open>The order of the components. The list is sorted with the healthy ones first, by name; its
  description asks for the critical ones first.\<close>
theorem healthy_components_first:
  "sorted (map (\<lambda>c. (\<not> co_healthy c, co_name c)) (check_all he))
   \<and> (i < j \<and> j < length (check_all he) \<and> co_healthy (check_all he ! j) \<longrightarrow> co_healthy (check_all he ! i))
   \<and> mset (check_all he) = mset (checked he)"
proof (intro conjI impI)
  show s: "sorted (map (\<lambda>c. (\<not> co_healthy c, co_name c)) (check_all he))"
    by (simp add: check_all_def)
  show "mset (check_all he) = mset (checked he)" by (simp add: check_all_def)
  assume ij: "i < j \<and> j < length (check_all he) \<and> co_healthy (check_all he ! j)"
  then have i: "i < length (check_all he)" and j: "j < length (check_all he)" and le: "i \<le> j" by simp_all
  have "(\<not> co_healthy (check_all he ! i), co_name (check_all he ! i))
      \<le> (\<not> co_healthy (check_all he ! j), co_name (check_all he ! j))"
    using sorted_nth_mono [OF s le] i j by (simp only: nth_map length_map)
  then show "co_healthy (check_all he ! i)"
    using ij by (simp only: less_eq_prod_simp) (auto simp only: less_bool_def le_bool_def)
qed

theorem healthy_components_first_witness:
  "co_healthy (check_all \<lparr>he_cfg = None, he_environ = \<lambda>_. None, he_ami = None, he_http = \<lambda>_ _. ProbeFailed [],
      he_tcp = \<lambda>_ _. None\<rparr> ! 0)"
proof -
  let ?he = "\<lparr>he_cfg = None, he_environ = \<lambda>_. None, he_ami = None, he_http = \<lambda>_ _. ProbeFailed [], he_tcp = \<lambda>_ _. None\<rparr>"
  have "check_agent_process \<in> set (check_all ?he)"
    unfolding check_all_def set_sort by (simp add: checked_def)
  then obtain k where k: "k < length (check_all ?he)" "check_all ?he ! k = check_agent_process"
    by (auto simp only: in_set_conv_nth)
  then have "co_healthy (check_all ?he ! k)" by (simp only: check_agent_process_def component_simps)
  then show ?thesis using healthy_components_first [of ?he 0 k] k(1) by (cases "k = 0") blast+
qed

end
