(* ===== verification/Spec2Isabelle.thy ===== *)
theory Spec2Isabelle
  imports VoicemailProps DialplanProps DeployProps Health
begin

text \<open>
  SimBridge connects a GSM modem to Telegram. This development models its Python programs and proves what
  they promise.

  \<^bold>\<open>The program.\<close> The \<^emph>\<open>agent\<close> (\<open>src/agent/\<close>) runs beside Asterisk: an HTTP server whose routes start and
  move calls, send SMS and block numbers; it talks to Asterisk through the manager interface (AMI). The
  \<^emph>\<open>userbot\<close> (\<open>src/userbot/\<close>) is the Telegram side: it reads the commands of the owners, posts requests to the
  agent and to the voice bridge, and runs an event server to which the agent and the dialplan post what
  happened. The \<^emph>\<open>dialplan scripts\<close> (\<open>src/scripts/\<close>) are started by Asterisk for every call, SMS and recording.
  \<open>src/core/\<close> holds what they share. One machine can run both roles, or each its own.

  \<^bold>\<open>Theories\<close>, in the order of their imports. A theory opens with the correspondence of its definitions; \<open>Props\<close>
  in a name means that it only proves.

  \<^item> \<open>Prelude\<close>, \<open>Text\<close>, \<open>Floats\<close>: a Python string is a list of code points (\<open>str\<close>), a dict an association list in the
    order of insertion (\<open>dget\<close>, \<open>dput\<close>, \<open>dpop\<close>), a JSON value the datatype \<open>json\<close>, an exception a \<open>Inl\<close>; the string
    methods the code calls; numbers read from text.
  \<^item> \<open>Phone\<close> (core/phone.py), \<open>Errors\<close> (core/errors.py), \<open>RateLimit\<close> (core/ratelimit.py), \<open>AuditTrail\<close> (core/audit.py,
    core/events.py), \<open>Metrics\<close> (core/metrics.py), \<open>Alerting\<close> (core/alerting.py), \<open>Config\<close> (core/config.py).
  \<^item> \<open>HotReload\<close>: the contract of a file kept in memory; its providers \<open>Acl\<close> (core/acl.py), \<open>Contacts\<close>
    (core/contacts.py), \<open>UserContacts\<close> (core/user_contacts.py); \<open>Blacklist\<close> (core/blacklist.py).
  \<^item> \<open>Modem\<close> (core/modem.py): modem states, the provider and the routing strategies with their contracts, the pool.
    \<open>CallControl\<close> (core/call_control.py): the state machine of a call and the registry. \<open>CallSafety\<close>: the registry as a
    step relation \<open>reg_step\<close> and its invariant under every interleaving; \<open>CallProps\<close>: consequences.
  \<^item> \<open>SmsCorrelation\<close> (core/sms_correlation.py), \<open>Auth\<close> (agent/deps.py), \<open>AmiClient\<close> (agent/ami_client.py,
    agent/modem_poll.py), \<open>Health\<close> (core/health.py), \<open>Recovery\<close> (core/recovery.py, agent/supervisor.py).
  \<^item> \<open>AgentSms\<close>, \<open>CallRoutes\<close>: the routes of agent/routes.py over the whole state \<open>agent\<close>; \<open>CallRouteProps\<close>: \<open>serve\<close>
    runs any sequence of requests and keeps the invariant of the registry.
  \<^item> \<open>Commands\<close>, \<open>Bridge\<close>, \<open>Userbot\<close> (userbot/userbot.py, userbot/bridge_control.py), \<open>UserbotEvents\<close>
    (userbot/http_server.py), \<open>UserbotProps\<close>.
  \<^item> \<open>Nodes\<close>: an answer of the agent as the reply the userbot sees, a notification of the agent as a request to the
    event server.
  \<^item> \<open>Agi\<close>, \<open>AgiProps\<close> (scripts/tg-blacklist-agi.py, tg-sms-agi.py, notify-agent-agi.py); \<open>Voicemail\<close>,
    \<open>VoicemailProps\<close> (core/voicemail_forward.py, scripts/tg-voice-agi.py, sweep-recordings.py).
  \<^item> \<open>Wiring\<close>, \<open>WiringProps\<close> (agent/agent.py, agent/ami_reconnect.py, agent/main.py, userbot/main.py,
    scripts/call-timeout-check.py): what is built from a configuration, and the reconnection that runs beside the calls.
  \<^item> \<open>ModemProfile\<close>, \<open>ModemProbe\<close> and their \<open>Props\<close> (scripts/modem_profile.py): the switch from one modem to another.
  \<^item> \<open>DialplanConfig\<close>, \<open>DialplanProps\<close> (scripts/generate_asterisk_config.py): the files for Asterisk that are generated
    from the configuration, read back as sections of assignments.
  \<^item> \<open>Install\<close>, \<open>InstallFiles\<close>, \<open>InstallProps\<close> (deploy/install.py): the unattended installation of a node, its decisions as
    functions of the answers and of the files it finds, and the files it writes; \<open>Deploy\<close>, \<open>DeployProps\<close>
    (deploy/install_remote.py): the deployment from a PC, over what the nodes answer to its commands (\<open>remote\<close>).
  \<^item> This theory: properties of several programs at once.

  \<^bold>\<open>State and effects.\<close> An object is a record and a method a function that returns its result and the new
  record; a result that can fail is a sum with the exception on the left. A request handler takes the answers of
  the outside world (clock, fresh identifiers, replies of Asterisk and Telegram, success of a write) in an
  environment record (\<open>en_\<close>, \<open>tv_\<close>) and leaves what it sent in the state (\<open>ag_out\<close>, \<open>ub_requests\<close>, \<open>ub_replies\<close>), so that the
  order of effects is part of a theorem. Locks and the event loop make every handler atomic except where the code
  awaits with shared state in use: there the model has a step relation (\<open>reg_step\<close> for the registry, \<open>link_run\<close> for
  reconnection and calls).

  \<^bold>\<open>What the lemmas show.\<close> For each component: how its state stays well formed (\<open>reg_inv\<close>, \<open>numbers_wf\<close>, the phonebooks'
  types), what each operation does on each branch, what survives a restart of the process (blacklist, SMS log,
  phonebooks), and what its texts mean when they are read back. Across components: nothing reaches a stranger, no
  handler acts without its right, a call that does not ring is taken back at the agent, reports and replies reach the
  sender they belong to, a recording is deleted only when its notice was accepted, a blocked number is refused by the
  dialplan, a switch of the modem is all or nothing, two nodes deployed together are configured to fit and a deployment
  is called a success only when every part of it was one. The contracts are locales: \<open>hot_reload\<close>, \<open>contact_provider\<close>,
  \<open>routing_strategy\<close>, \<open>modem_provider\<close>, \<open>gated_handler\<close>, each interpreted on the code's definitions.

  \<^bold>\<open>Bounds.\<close> No theorem rests on fuel that may run out: the loops of the code are recursions over the outcomes of
  their attempts or over the text they read, or have the bound the code gives them (1024 lines drained from AMI, ten
  attempts to reconnect, four looks for the modem after a switch). Python's integers are \<open>int\<close>. Monotonic clocks count
  nanoseconds as integers. Floating point numbers are exact rationals with the infinities and the value that is no
  number: rounding is left out, which matters to no comparison a theorem makes.

  \<^bold>\<open>Parameters.\<close> Code outside \<open>src/\<close> is an argument: Telethon, aiohttp and FastAPI (what a request carries and what
  a reply is), Asterisk and its channel driver, the YAML parser, ffmpeg and ffprobe, \<open>udevadm\<close> and \<open>systemctl\<close>, Python's
  \<open>repr\<close> of a value in an error text. What a theorem needs of them it states as a hypothesis.

  \<^bold>\<open>Not modelled.\<close> Log messages and their formatting (core/logging_config.py), the search for secrets
  in the repository (core/secrets_check.py, scripts/scan_history_secrets.py), the phases of the installer that only run other programs
  (packages, units, Asterisk's own files, the Telegram login, start and verification) and its interactive questions,
  the SIP probe (scripts/e2e_sip_probe.py), a test client on sockets, starting and stopping the web servers, the
  shutdown of tasks, and the calls into Telethon that only fetch an object.
\<close>

section \<open>Properties of the two nodes together\<close>

text \<open>C2: a call the bridge cannot ring leaves no trace at the agent. When the agent accepts the
  userbot's request and the bridge does not ring the user, the last request of the userbot rejects
  exactly that call, the agent carries it out, and then its calls, its reservations and its
  reservation counter are what they were before, whatever modems it has.\<close>
theorem failed_ring_leaves_no_trace:
  assumes "modem_provider ops valid" and "reg_inv ops valid (ag_reg ag)"
    and "dget (cr_calls (ag_reg ag)) (en_uuid en) = None"
    and agent: "call_outgoing en (d_number dest) (Some (te_sender ev)) ag = (Inr call, ag1)"
    and "tv_net env (outgoing_request c (tv_cid env) (te_sender ev) (d_number dest)) = call_reply (Inr call)"
    and "start_call (uc_bridge c) (tv_net env) (te_sender ev) (d_number dest) \<noteq> BridgeOk"
    and "\<not> listed ub dest" and "place_call c env ev dest ub = (r, ub')"
  shows "last (ub_requests ub') = reject_request c (tv_cid2 env) (cm_id call)
     \<and> is_ok (fst (call_reject en' (cm_id call) ag1))
     \<and> (let reg = ag_reg (snd (call_reject en' (cm_id call) ag1))
        in cr_calls reg = cr_calls (ag_reg ag) \<and> cr_modems_reserved reg = cr_modems_reserved (ag_reg ag)
           \<and> map_option mp_reserved (cr_pool reg) = map_option mp_reserved (cr_pool (ag_reg ag)))"
proof -
  obtain d ag4 where p: "place_outgoing en (Some (te_sender ev)) d ag4 = (Inr call, ag1)"
    and same: "cr_calls (ag_reg ag4) = cr_calls (ag_reg ag)" "cr_pool (ag_reg ag4) = cr_pool (ag_reg ag)"
      "cr_modems_reserved (ag_reg ag4) = cr_modems_reserved (ag_reg ag)"
    using call_outgoing_placed [OF agent] by blast
  have inv: "reg_inv ops valid (ag_reg ag4)" using assms(2) same by (simp add: reg_inv_def)
  have fresh: "dget (cr_calls (ag_reg ag4)) (en_uuid en) = None" using assms(3) same by simp
  note undone = placed_then_rejected [OF assms(1) inv fresh p, of en']
  have id: "cm_id call = en_uuid en"
    using place_outgoing_registered [of en "Some (te_sender ev)" d ag4 call] p by auto
  have acc: "accepted_id c env ev dest = Some (cm_id call)"
    using assms(5) by (simp add: accepted_id_def call_reply_def call_id_of_def call_response_def)
  let ?asked = "outgoing_request c (tv_cid env) (te_sender ev) (d_number dest)"
  obtain bl where "place_call c env ev dest ub =
     (let asked = post ?asked (ub\<lparr>ub_blacklist := bl\<rparr>)
      in case accepted_id c env ev dest of
           Some call_id \<Rightarrow> ring_user c env ev (d_number dest) call_id asked
         | None \<Rightarrow> turned_down c env ev dest asked)"
    by (rule place_call_unlisted [OF assms(7)])
  then have "ring_user c env ev (d_number dest) (cm_id call) (post ?asked (ub\<lparr>ub_blacklist := bl\<rparr>)) = (r, ub')"
    using assms(8) acc by (simp add: Let_def)
  from ring_user_facts(3) [OF this assms(6)]
  have "last (ub_requests ub') = reject_request c (tv_cid2 env) (cm_id call)" by simp
  with undone same id show ?thesis by (simp add: Let_def)
qed

theorem failed_ring_leaves_no_trace_witness:
  "\<exists>call ag1. call_outgoing sample_env (S ''1234'') (Some 0) agent0 = (Inr call, ag1)
     \<and> cr_calls (ag_reg (snd (call_reject sample_env (cm_id call) ag1))) = []"
proof -
  have "\<exists>c. fst (call_outgoing sample_env (S ''1234'') (Some 0) agent0) = Inr c"
    by (simp add: call_outgoing_def Let_def case_prod_unfold agent0_admits call_allowed_def user_or_0_def
        parse_1234 place_outgoing_def create_outgoing_def choose_modem_def hooked_transition_def
        cm_transition_def allowed_from_def new_call_def split: sum.split)
  then obtain call ag1 where agent: "call_outgoing sample_env (S ''1234'') (Some 0) agent0 = (Inr call, ag1)"
    by (metis prod.collapse)
  let ?d = "\<lparr>d_number = S ''1234'', d_internal = True\<rparr>" and ?ev = "sample_event 0 (S ''1234'') None"
  let ?asked = "outgoing_request sample_ub_cfg (S ''c1'') 0 (S ''1234'')"
  let ?net = "\<lambda>r. if r = ?asked then call_reply (Inr call) else HttpFails []"
  obtain r ub' where p: "place_call sample_ub_cfg (sample_tg_env ?net) ?ev ?d sample_ub = (r, ub')" by (rule prod.exhaust)
  have "call_request (uc_bridge sample_ub_cfg) 0 (S ''1234'') \<noteq> ?asked"
    by (simp add: call_request_def outgoing_request_def agent_post_def)
  then have "start_call (uc_bridge sample_ub_cfg) (tv_net (sample_tg_env ?net)) 0 (S ''1234'') \<noteq> BridgeOk"
    by (simp add: start_call_def sample_tg_env_def)
  moreover have "reg_inv single_ops sp_valid (ag_reg agent0)"
    unfolding agent0_def agent.select_convs empty_reg_def
    using ready_pool_facts by (intro new_registry_inv(2)) simp_all
  moreover have "cr_calls (ag_reg agent0) = []" by (simp add: agent0_def empty_reg_def new_call_registry_def)
  ultimately show ?thesis
    using failed_ring_leaves_no_trace [OF single.modem_provider_axioms, of agent0 sample_env ?d ?ev call ag1
        "sample_tg_env ?net" sample_ub_cfg sample_ub r ub' sample_env] agent p sample_unlisted
    by (simp add: sample_tg_env_def Let_def)
qed

text \<open>C16: a carrier's delivery report reaches the user who sent the SMS, and nobody else. When the
  report matches a record of a user, the body the agent posts makes the event server send exactly
  one message, to that user: the delivered notice, or for a report of failure the failure notice
  with at most 200 characters of the carrier's text.\<close>
theorem delivery_report_reaches_sender:
  assumes "match_report (rr_modem rq) (rr_text rq) (ag_sms ag) = Some r" and "delivers_to ec (sr_user r)"
  shows "\<exists>body st'. notification_body (last (ag_out (snd (sms_delivery_report en rq ag)))) = Some body
     \<and> delivery_event ec ee body st = (Inr True, st')
     \<and> ev_sent st' = ev_sent st @ [(sr_user r, Message
         (if report_says_failed (rr_text rq)
          then error_text DELIVERY_FAILED @ S '': '' @ sr_phone r @ 10 # take 200 (rr_text rq)
          else S ''Delivered: '' @ sr_phone r))]"
proof -
  have "report_says_failed (rr_text rq) \<Longrightarrow> rr_text rq \<noteq> []"
    by (auto simp: report_says_failed_def failed_markers_def lower_def)
  moreover have "sr_user r \<noteq> 0" using assms(2) by (simp add: delivers_to_def)
  ultimately show ?thesis
    using assms
    by (cases "report_says_failed (rr_text rq)")
      (simp_all add: sms_delivery_report_def announce_delivery_def Let_def delivery_event_def body_user_def body_text_def
        error_suffix_def notify_delivered)
qed

theorem delivery_report_reaches_sender_witness:
  "\<exists>body st'. notification_body (last (ag_out (snd (sms_delivery_report sample_env sample_report sample_agent)))) = Some body
     \<and> delivery_event ec0 ee0 body es0 = (Inr True, st')
     \<and> ev_sent st' = ev_sent es0 @ [(7, Message (S ''Delivered: 123''))]"
proof -
  have "delivers_to ec0 (sr_user sample_sms_record)"
    by (simp add: delivers_to_def ec0_def tg0_def sample_sms_record_def)
  moreover have "match_report (rr_modem sample_report) (rr_text sample_report) (ag_sms sample_agent) = Some sample_sms_record"
    using sample_sms_match by (simp add: sample_report_def sample_agent_def)
  moreover have "S ''Delivered: '' @ sr_phone sample_sms_record = S ''Delivered: 123''"
    by (simp add: sample_sms_record_def S_def)
  moreover have "sr_user sample_sms_record = 7" by (simp add: sample_sms_record_def)
  ultimately show ?thesis
    using delivery_report_reaches_sender [of sample_report sample_agent sample_sms_record ec0 sample_env ee0 es0]
      sample_report_ok by simp
qed

text \<open>The outcome of the GSM leg reaches the user who placed the call. A successful report of one of
  the four outcomes for an outgoing call that is not bridged makes the event server send exactly
  one message, to the caller, with the text of that outcome and the number called.\<close>
theorem call_outcome_reaches_caller:
  assumes "is_ok (fst (complete_outgoing en call status ds ag))" and "cm_tg_user call = Some user"
    and "call_message (cm_callee call) status = Some msg" and "delivers_to ec user"
  shows "\<exists>body st'. notification_body (last (ag_out (snd (complete_outgoing en call status ds ag)))) = Some body
     \<and> call_outcome_event ec ee body st = (Inr True, st')
     \<and> ev_sent st' = ev_sent st @ [(user, Message msg)]"
proof -
  have "status \<in> {S ''answered'', S ''no_answer'', S ''busy'', S ''failed''}"
    using assms(3) by (auto simp: call_message_def split: if_splits)
  then have "last (ag_out (snd (complete_outgoing en call status ds ag)))
      = EffNotifyCall (cm_callee call) (Some user) status (cm_id call)"
    using assms(1,2) by (auto simp: complete_outgoing_def Let_def case_prod_unfold agent_cleanup_def split: if_splits)
  then show ?thesis
    using assms(2-4)
    by (simp add: call_outcome_event_def body_user_def body_text_def Let_def notify_delivered delivers_to_def)
qed

definition dialling_call :: call_machine where
  "dialling_call = (new_call 10 (S ''c1'') (S ''outgoing''))\<lparr>cm_callee := S ''1234'', cm_tg_user := Some 7, cm_state := GSM_DIALING\<rparr>"

definition dialling_agent :: "unit agent" where
  "dialling_agent = sample_agent\<lparr>ag_reg := (new_call_registry [] None (Some new_metrics))\<lparr>cr_calls := [(S ''c1'', dialling_call)]\<rparr>\<rparr>"

theorem call_outcome_reaches_caller_witness:
  "\<exists>body st' msg. notification_body (last (ag_out (snd (complete_outgoing sample_env dialling_call (S ''busy'') None dialling_agent)))) = Some body
     \<and> call_message (S ''1234'') (S ''busy'') = Some msg
     \<and> call_outcome_event ec0 ee0 body es0 = (Inr True, st') \<and> ev_sent st' = [(7, Message msg)]"
proof -
  have f: "cm_id dialling_call = S ''c1''" "cm_callee dialling_call = S ''1234''" "cm_tg_user dialling_call = Some 7"
    "cm_state dialling_call = GSM_DIALING" "cm_direction dialling_call = S ''outgoing''"
    by (simp_all add: dialling_call_def new_call_def)
  have g: "dget (cr_calls (ag_reg dialling_agent)) (S ''c1'') = Some dialling_call" by (simp add: dialling_agent_def)
  have "is_ok (fst (complete_outgoing sample_env dialling_call (S ''busy'') None dialling_agent))"
    using f g by (simp add: complete_outgoing_def gsm_failed_def gsm_busy_def Let_def case_prod_unfold on_reg_def
        reg_transition_def get_call_def hooked_transition_def cm_transition_def allowed_from_def)
  moreover obtain msg where m: "call_message (cm_callee dialling_call) (S ''busy'') = Some msg"
    by (simp add: call_message_def)
  moreover have "delivers_to ec0 7" by (simp add: delivers_to_def ec0_def tg0_def)
  ultimately show ?thesis
    using call_outcome_reaches_caller [of sample_env dialling_call "S ''busy''" None dialling_agent 7 msg ec0 ee0 es0] f
    by (auto simp: es0_def)
qed

text \<open>C24: the two nodes agree on what may be sent. A number the userbot posts is one the agent sends to:
  the agent reads the posted number as the same external destination, so it never answers that it is
  malformed, and unless its own blacklist or rate limit stops the request, it submits exactly one SMS
  to that number with the posted text.\<close>
theorem nodes_agree_on_numbers:
  assumes "sms_target ub phone text = Some n" and "sq_to rq = n" and "sq_text rq = text"
  shows "ag_out (snd (send_sms en rq ag)) = ag_out ag @
      (if fst (bl_contains (ag_bl_file ag) n (ag_blacklist ag))
         \<or> \<not> fst (allow (en_mono en) (S ''sms:'' @ user_or (sq_user rq) n) (ag_sms_limiter ag))
       then [] else [EffSms n text (en_uuid en)])
    \<and> (\<forall>detail. fst (send_sms en rq ag) \<noteq> Inl (HTTPException 400 detail))"
proof -
  obtain d where d: "parse_destination (Some phone) = Some d"
    using assms(1) by (cases "parse_destination (Some phone)") (simp_all add: sms_target_def split: if_splits)
  then have "\<not> d_internal d" "\<not> is_service_number (d_number d)" "d_number d = n"
    using assms(1) by (simp_all add: sms_target_def split: if_splits)
  then show ?thesis
    using reparse_number [OF d] assms(2,3)
    by (auto simp: send_sms_def Let_def case_prod_unfold sms_submit_result(1) sms_submit_status)
qed

theorem nodes_agree_on_numbers_witness:
  "ag_out (snd (send_sms sample_env sample_sms_request agent0)) = [EffSms (S ''+79261234555'') (S ''hi'') (S ''u'')]"
proof -
  have "strip (S ''hi'') \<noteq> []"
    by (simp add: S_def strip_def lstrip_def rstrip_def is_space_def space_points_def)
  then have "sms_target sample_ub (S ''+79261234555'') (S ''hi'') = Some (S ''+79261234555'')"
    by (simp add: sms_target_def sample_unlisted sample_number_external)
  moreover have "fst (allow t k (ag_sms_limiter agent0))" for t k
    by (simp add: agent0_def new_rate_limiter_def allow_def rl_bucket_def Let_def)
  ultimately show ?thesis
    using nodes_agree_on_numbers [of sample_ub "S ''+79261234555''" "S ''hi''" "S ''+79261234555''" sample_sms_request sample_env agent0]
      agent0_admits(2)
    by (simp add: sample_sms_request_def) (simp add: agent0_def sample_env_def)
qed

end
